(* ===== verification/PyStr.thy ===== *)
theory PyStr
  imports Main "HOL-Library.Sublist" "HOL-Library.Char_ord" "HOL-Library.List_Lexorder"
begin

text \<open>
  The part of Python's \<open>str\<close> that the platform uses, on \<open>string\<close> (a list of characters
  with code points 0 to 255, that is text of the Latin-1 range). Strings compare
  lexicographically by code point (\<open>List_Lexorder\<close> over \<open>Char_ord\<close>), as Python's do.
  The only literal of the modelled sources outside that range is the em dash of a few
  messages, written here as its UTF-8 bytes (\<open>em_dash\<close>).
\<close>

named_theorems pystr \<comment> \<open>evaluation and algebra of the string operations\<close>

section \<open>Characters\<close>

definition code :: "char \<Rightarrow> nat" where
  "code c = of_char c"

definition lower_char :: "char \<Rightarrow> char" where
  "lower_char c =
     (if 65 \<le> code c \<and> code c \<le> 90 \<or> 192 \<le> code c \<and> code c \<le> 222 \<and> code c \<noteq> 215
      then char_of (code c + 32) else c)"

text \<open>\<open>str.isspace\<close> and the regular expression class \<open>\s\<close>.\<close>

definition is_space :: "char \<Rightarrow> bool" where
  "is_space c = (9 \<le> code c \<and> code c \<le> 13 \<or> 28 \<le> code c \<and> code c \<le> 32
     \<or> code c = 133 \<or> code c = 160)"

text \<open>The regular expression class \<open>\d\<close>: the decimal digits of the Latin-1 range.\<close>

definition is_digit :: "char \<Rightarrow> bool" where
  "is_digit c = (48 \<le> code c \<and> code c \<le> 57)"

definition is_ascii_lower :: "char \<Rightarrow> bool" where
  "is_ascii_lower c = (97 \<le> code c \<and> code c \<le> 122)"

definition is_ascii_upper :: "char \<Rightarrow> bool" where
  "is_ascii_upper c = (65 \<le> code c \<and> code c \<le> 90)"

text \<open>The regular expression class \<open>\w\<close>: \<open>str.isalnum\<close> or the underscore.\<close>

definition is_word :: "char \<Rightarrow> bool" where
  "is_word c = (is_digit c \<or> is_ascii_lower c \<or> is_ascii_upper c \<or> code c = 95
     \<or> code c \<in> {170, 178, 179, 181, 185, 186, 188, 189, 190}
     \<or> 192 \<le> code c \<and> code c \<noteq> 215 \<and> code c \<noteq> 247)"

lemma code_char_of [simp]: "code (char_of n) = n mod 256"
  by (simp add: code_def)

lemma code_lt [simp]: "code c < 256"
  by (simp add: code_def)

lemma code_inject [simp]: "code c = code d \<longleftrightarrow> c = d"
  by (simp add: code_def)

lemma code_lower_char:
  "code (lower_char c) =
     (if 65 \<le> code c \<and> code c \<le> 90 \<or> 192 \<le> code c \<and> code c \<le> 222 \<and> code c \<noteq> 215
      then code c + 32 else code c)"
  by (auto simp: lower_char_def)

lemma lower_char_idem [simp]: "lower_char (lower_char c) = lower_char c"
  by (auto simp: code_lower_char simp flip: code_inject)

lemma is_space_lower_char [simp]: "is_space (lower_char c) = is_space c"
  by (auto simp: is_space_def code_lower_char)

section \<open>Strings\<close>

definition lower :: "string \<Rightarrow> string" where
  "lower s = map lower_char s"

definition lstrip :: "string \<Rightarrow> string" where
  "lstrip s = dropWhile is_space s"

definition rstrip :: "string \<Rightarrow> string" where
  "rstrip s = rev (dropWhile is_space (rev s))"

definition strip :: "string \<Rightarrow> string" where
  "strip s = rstrip (lstrip s)"

definition startswith :: "string \<Rightarrow> string \<Rightarrow> bool" where
  "startswith s p = (take (length p) s = p)"

definition endswith :: "string \<Rightarrow> string \<Rightarrow> bool" where
  "endswith s p = startswith (rev s) (rev p)"

text \<open>\<open>p in s\<close> on strings.\<close>

fun contains :: "string \<Rightarrow> string \<Rightarrow> bool" where
  "contains [] p = (p = [])"
| "contains (c # s) p = (startswith (c # s) p \<or> contains s p)"

definition replace_char :: "char \<Rightarrow> string \<Rightarrow> string \<Rightarrow> string" where
  "replace_char a r s = concat (map (\<lambda>c. if c = a then r else [c]) s)"

text \<open>\<open>s.split(c)\<close> for a single separator character: never the empty list.\<close>

fun split_on :: "char \<Rightarrow> string \<Rightarrow> string list" where
  "split_on a [] = [[]]"
| "split_on a (c # s) =
     (if c = a then [] # split_on a s
      else (c # hd (split_on a s)) # tl (split_on a s))"

definition join :: "string \<Rightarrow> string list \<Rightarrow> string" where
  "join sep xs =
     (case xs of [] \<Rightarrow> [] | x # ys \<Rightarrow> x @ concat (map (\<lambda>y. sep @ y) ys))"

text \<open>\<open>s.split()\<close>: maximal runs of characters that are not white space.\<close>

fun split_ws_acc :: "string \<Rightarrow> string \<Rightarrow> string list" where
  "split_ws_acc w [] = (if w = [] then [] else [rev w])"
| "split_ws_acc w (c # s) =
     (if is_space c then (if w = [] then [] else [rev w]) @ split_ws_acc [] s
      else split_ws_acc (c # w) s)"

definition split_ws :: "string \<Rightarrow> string list" where
  "split_ws s = split_ws_acc [] s"

text \<open>Decimal notation, as \<open>str(n)\<close> and f-strings print integers.\<close>

fun show_nat :: "nat \<Rightarrow> string" where
  "show_nat n = (if n < 10 then [char_of (48 + n)]
     else show_nat (n div 10) @ [char_of (48 + n mod 10)])"

declare show_nat.simps [simp del]

definition show_int :: "int \<Rightarrow> string" where
  "show_int i = (if i < 0 then CHR ''-'' # show_nat (nat (- i)) else show_nat (nat i))"

definition em_dash :: string where
  "em_dash = [CHR 0xE2, CHR 0x80, CHR 0x94]"

definition newline :: char where
  "newline = CHR 0x0A"

subsection \<open>Algebra\<close>

lemma lower_Nil [simp]: "lower [] = []"
  by (simp add: lower_def)

lemma lower_idem [simp]: "lower (lower s) = lower s"
  by (simp add: lower_def)

lemma length_lower [simp]: "length (lower s) = length s"
  by (simp add: lower_def)

lemma lower_append: "lower (s @ t) = lower s @ lower t"
  by (simp add: lower_def)

lemma rstrip_Nil [simp]: "rstrip [] = []"
  by (simp add: rstrip_def)

lemma strip_Nil [simp]: "strip [] = []"
  by (simp add: strip_def lstrip_def)

lemma lower_lstrip: "lower (lstrip s) = lstrip (lower s)"
  by (simp add: lower_def lstrip_def dropWhile_map comp_def)

lemma lower_rstrip: "lower (rstrip s) = rstrip (lower s)"
  by (simp add: lower_def rstrip_def rev_map dropWhile_map comp_def)

lemma lower_strip: "lower (strip s) = strip (lower s)"
  by (simp add: strip_def lower_lstrip lower_rstrip)

lemma lstrip_idem [simp]: "lstrip (lstrip s) = lstrip s"
  by (simp add: lstrip_def)

lemma rstrip_idem [simp]: "rstrip (rstrip s) = rstrip s"
  by (simp add: rstrip_def)

lemma lstrip_fixed: "lstrip s = s \<longleftrightarrow> s = [] \<or> \<not> is_space (hd s)"
  by (auto simp: lstrip_def dropWhile_eq_self_iff)

lemma prefix_rstrip: "prefix (rstrip s) s"
proof -
  have "suffix (dropWhile is_space (rev s)) (rev s)"
    by (rule suffix_dropWhile)
  then have "prefix (rev (dropWhile is_space (rev s))) (rev (rev s))"
    by (simp add: suffix_to_prefix)
  then show ?thesis by (simp add: rstrip_def)
qed

lemma lstrip_rstrip: "lstrip (rstrip (lstrip s)) = rstrip (lstrip s)"
proof -
  have "prefix (rstrip (lstrip s)) (lstrip s)"
    by (rule prefix_rstrip)
  moreover have "lstrip s = [] \<or> \<not> is_space (hd (lstrip s))"
    by (simp flip: lstrip_fixed)
  ultimately have "rstrip (lstrip s) = [] \<or> \<not> is_space (hd (rstrip (lstrip s)))"
    by (cases "rstrip (lstrip s)"; cases "lstrip s") simp_all
  then show ?thesis by (simp add: lstrip_fixed)
qed

lemma strip_idem [simp]: "strip (strip s) = strip s"
  by (simp add: strip_def lstrip_rstrip)

lemma set_strip: "set (strip s) \<subseteq> set s"
  by (auto simp: strip_def rstrip_def lstrip_def dest!: set_dropWhileD)

lemma strip_eq_Nil: "strip s = [] \<longleftrightarrow> (\<forall>c \<in> set s. is_space c)"
  by (auto simp: strip_def rstrip_def lstrip_def dropWhile_eq_Nil_conv
      dest: set_dropWhileD)
     (metis UnE append.right_neutral dropWhile_eq_Nil_conv hd_dropWhile set_append
        takeWhile_dropWhile_id set_takeWhileD lstrip_fixed list.set_sel(1))

lemma startswith_append [simp]: "startswith (p @ s) p"
  by (simp add: startswith_def)

lemma startswith_prefix: "startswith s p \<longleftrightarrow> prefix p s"
  by (metis append_take_drop_id append_eq_conv_conj prefix_def startswith_def)

lemma contains_sublist: "contains s p \<longleftrightarrow> sublist p s"
  by (induction s) (auto simp: startswith_prefix sublist_Cons_right)

lemma split_on_not_Nil [simp]: "split_on a s \<noteq> []"
  by (cases s) auto

lemma split_on_code [code]:
  "split_on a [] = [[]]"
  "split_on a (c # s) =
     (case split_on a s of
        [] \<Rightarrow> [[]]
      | x # xs \<Rightarrow> if c = a then [] # x # xs else (c # x) # xs)"
  using split_on_not_Nil [of a s] by (auto split: list.splits)

lemma split_on_append: "a \<notin> set x \<Longrightarrow> split_on a (x @ a # y) = x # split_on a y"
  by (induction x) auto

lemma split_on_no_sep: "x \<in> set (split_on a s) \<Longrightarrow> a \<notin> set x"
proof (induction s arbitrary: x)
  case Nil
  then show ?case by simp
next
  case (Cons c s)
  have "hd (split_on a s) \<in> set (split_on a s)" by simp
  with Cons show ?case
    by (auto split: if_splits dest: list.set_sel(2) [rotated])
qed

lemma join_split_on: "join [a] (split_on a s) = s"
proof (induction s)
  case Nil
  then show ?case by (simp add: join_def)
next
  case (Cons c s)
  obtain x xs where x: "split_on a s = x # xs"
    by (cases "split_on a s") simp_all
  with Cons show ?case by (simp add: join_def)
qed

end
