(* ===== verification/Regex.thy ===== *)
theory Regex
  imports PyStr
begin

text \<open>
  The part of Python's \<open>re\<close> that the platform uses: a backtracking matcher that lists the
  successes of a pattern at a position in the order in which \<open>re\<close> tries them, so that the
  first one is the match. A position is the reversed text before it, the text after it and
  the groups captured so far. \<open>segments\<close> is the scan of \<open>finditer\<close> and \<open>sub\<close>:
  characters outside every match, and the matches, from left to right. No pattern of the
  modelled sources matches the empty string.
\<close>

type_synonym position = "string \<times> string \<times> (nat \<rightharpoonup> string)"

definition ahead :: "position \<Rightarrow> string" where
  "ahead p = fst (snd p)"

datatype re =
    Eps
  | Chr "char \<Rightarrow> bool"
  | Cat re re
  | Alt re re
  | Rep nat "nat option" bool re \<comment> \<open>lower bound, upper bound, greedy\<close>
  | Grp nat re
  | Back nat
  | At "string \<Rightarrow> string \<Rightarrow> bool" \<comment> \<open>zero width: the reversed text before, the text after\<close>

section \<open>The matcher\<close>

text \<open>At most \<open>hi\<close> rounds of a step, of which \<open>lo\<close> must happen; a round past the lower
  bound has to consume something.\<close>

primrec rounds ::
  "(position \<Rightarrow> position list) \<Rightarrow> bool \<Rightarrow> nat \<Rightarrow> nat \<Rightarrow> position \<Rightarrow> position list" where
  "rounds f greedy 0 lo p = (if lo = 0 then [p] else [])"
| "rounds f greedy (Suc hi) lo p =
     (if 0 < lo then concat (map (rounds f greedy hi (lo - 1)) (f p))
      else (let more = concat (map (rounds f greedy hi 0)
                  (filter (\<lambda>q. ahead q \<noteq> ahead p) (f p)))
            in if greedy then more @ [p] else p # more))"

definition consume :: "nat \<Rightarrow> position \<Rightarrow> position" where
  "consume n p = (case p of (pre, rest, g) \<Rightarrow> (rev (take n rest) @ pre, drop n rest, g))"

definition consumed :: "position \<Rightarrow> position \<Rightarrow> string" where
  "consumed p q = take (length (ahead p) - length (ahead q)) (ahead p)"

primrec matches :: "re \<Rightarrow> position \<Rightarrow> position list" where
  "matches Eps p = [p]"
| "matches (Chr P) p =
     (case ahead p of [] \<Rightarrow> [] | c # _ \<Rightarrow> (if P c then [consume 1 p] else []))"
| "matches (Cat r s) p = concat (map (matches s) (matches r p))"
| "matches (Alt r s) p = matches r p @ matches s p"
| "matches (Rep lo hi greedy r) p =
     rounds (matches r) greedy
       (case hi of Some n \<Rightarrow> n | None \<Rightarrow> lo + length (ahead p)) lo p"
| "matches (Grp n r) p =
     map (\<lambda>q. (fst q, fst (snd q), (snd (snd q))(n \<mapsto> consumed p q))) (matches r p)"
| "matches (Back n) p =
     (case snd (snd p) n of
        None \<Rightarrow> []
      | Some t \<Rightarrow> (if startswith (ahead p) t then [consume (length t) p] else []))"
| "matches (At P) p = (if P (fst p) (ahead p) then [p] else [])"

text \<open>A match: the matched text and its groups.\<close>

type_synonym re_match = "string \<times> (nat \<rightharpoonup> string)"

definition match_at :: "re \<Rightarrow> string \<Rightarrow> string \<Rightarrow> re_match option" where
  "match_at r pre rest =
     (case matches r (pre, rest, Map.empty) of
        [] \<Rightarrow> None
      | q # _ \<Rightarrow> Some (consumed (pre, rest, Map.empty) q, snd (snd q)))"

text \<open>\<open>re.match\<close>: at the start of the text only.\<close>

definition re_match :: "re \<Rightarrow> string \<Rightarrow> re_match option" where
  "re_match r s = match_at r [] s"

fun segments_from :: "re \<Rightarrow> string \<Rightarrow> nat \<Rightarrow> string \<Rightarrow> (char + re_match) list" where
  "segments_from r pre skip [] = []"
| "segments_from r pre skip (c # s) =
     (if 0 < skip then segments_from r (c # pre) (skip - 1) s
      else (case match_at r pre (c # s) of
              None \<Rightarrow> Inl c # segments_from r (c # pre) 0 s
            | Some m \<Rightarrow>
                if fst m = [] then Inl c # segments_from r (c # pre) 0 s
                else Inr m # segments_from r (c # pre) (length (fst m) - 1) s))"

definition segments :: "re \<Rightarrow> string \<Rightarrow> (char + re_match) list" where
  "segments r s = segments_from r [] 0 s"

definition segment_text :: "char + re_match \<Rightarrow> string" where
  "segment_text x = (case x of Inl c \<Rightarrow> [c] | Inr m \<Rightarrow> fst m)"

definition re_sub :: "re \<Rightarrow> (re_match \<Rightarrow> string) \<Rightarrow> string \<Rightarrow> string" where
  "re_sub r f s = concat (map (\<lambda>x. case x of Inl c \<Rightarrow> [c] | Inr m \<Rightarrow> f m) (segments r s))"

fun offsets :: "nat \<Rightarrow> (char + re_match) list \<Rightarrow> (nat \<times> re_match) list" where
  "offsets n [] = []"
| "offsets n (Inl c # xs) = offsets (Suc n) xs"
| "offsets n (Inr m # xs) = (n, m) # offsets (n + length (fst m)) xs"

definition finditer :: "re \<Rightarrow> string \<Rightarrow> (nat \<times> re_match) list" where
  "finditer r s = offsets 0 (segments r s)"

definition re_search :: "re \<Rightarrow> string \<Rightarrow> re_match option" where
  "re_search r s = (case finditer r s of [] \<Rightarrow> None | x # _ \<Rightarrow> Some (snd x))"

section \<open>Building patterns\<close>

definition upper_char :: "char \<Rightarrow> char" where
  "upper_char c =
     (if 97 \<le> code c \<and> code c \<le> 122 \<or> 224 \<le> code c \<and> code c \<le> 254 \<and> code c \<noteq> 247
      then char_of (code c - 32) else c)"

definition ci :: "(char \<Rightarrow> bool) \<Rightarrow> char \<Rightarrow> bool" where
  "ci P c = (P (lower_char c) \<or> P (upper_char c))"

definition one_of :: "string \<Rightarrow> char \<Rightarrow> bool" where
  "one_of cs c = (c \<in> set cs)"

definition none_of :: "string \<Rightarrow> char \<Rightarrow> bool" where
  "none_of cs c = (c \<notin> set cs)"

definition cats :: "re list \<Rightarrow> re" where
  "cats rs = foldr Cat rs Eps"

fun alts :: "re list \<Rightarrow> re" where
  "alts [] = At (\<lambda>_ _. False)"
| "alts [r] = r"
| "alts (r # rs) = Alt r (alts rs)"

definition lit :: "string \<Rightarrow> re" where
  "lit s = cats (map (\<lambda>c. Chr (\<lambda>d. d = c)) s)"

definition lit_i :: "string \<Rightarrow> re" where
  "lit_i s = cats (map (\<lambda>c. Chr (ci (\<lambda>d. d = c))) s)"

abbreviation star :: "re \<Rightarrow> re" where "star r \<equiv> Rep 0 None True r"
abbreviation plus :: "re \<Rightarrow> re" where "plus r \<equiv> Rep 1 None True r"
abbreviation opt :: "re \<Rightarrow> re" where "opt r \<equiv> Rep 0 (Some 1) True r"
abbreviation at_least :: "nat \<Rightarrow> re \<Rightarrow> re" where "at_least n r \<equiv> Rep n None True r"
abbreviation between :: "nat \<Rightarrow> nat \<Rightarrow> re \<Rightarrow> re" where "between m n r \<equiv> Rep m (Some n) True r"
abbreviation exactly :: "nat \<Rightarrow> re \<Rightarrow> re" where "exactly n r \<equiv> Rep n (Some n) True r"

definition is_alnum_ascii :: "char \<Rightarrow> bool" where
  "is_alnum_ascii c = (is_digit c \<or> is_ascii_lower c \<or> is_ascii_upper c)"

definition not_newline :: "char \<Rightarrow> bool" where
  "not_newline c = (c \<noteq> newline)"

text \<open>\<open>^\<close> and \<open>$\<close> without and with the multi-line flag, and \<open>\b\<close>.\<close>

definition bos :: re where
  "bos = At (\<lambda>lhs rhs. lhs = [])"

definition eos :: re where
  "eos = At (\<lambda>lhs rhs. rhs = [] \<or> rhs = [newline])"

definition bol :: re where
  "bol = At (\<lambda>lhs rhs. lhs = [] \<or> hd lhs = newline)"

definition eol :: re where
  "eol = At (\<lambda>lhs rhs. rhs = [] \<or> hd rhs = newline)"

definition word_boundary :: re where
  "word_boundary = At (\<lambda>lhs rhs.
     (lhs \<noteq> [] \<and> is_word (hd lhs)) \<noteq> (rhs \<noteq> [] \<and> is_word (hd rhs)))"

section \<open>Lemmas\<close>

text \<open>A success of a pattern is reached by consuming a prefix of the text ahead.\<close>

definition reaches :: "position \<Rightarrow> position \<Rightarrow> bool" where
  "reaches p q = (\<exists>t. ahead p = t @ ahead q \<and> fst q = rev t @ fst p)"

lemma reaches_refl [simp]: "reaches p p"
  by (simp add: reaches_def)

lemma reaches_trans: "reaches p q \<Longrightarrow> reaches q r \<Longrightarrow> reaches p r"
  by (force simp: reaches_def)

lemma reaches_consume: "reaches p (consume n p)"
  by (auto simp: reaches_def consume_def ahead_def split: prod.splits
      intro!: exI [of _ "take n (fst (snd p))"])

lemma reaches_rounds:
  assumes "\<And>p q. q \<in> set (f p) \<Longrightarrow> reaches p q"
  shows "q \<in> set (rounds f g hi lo p) \<Longrightarrow> reaches p q"
proof (induction hi arbitrary: lo p)
  case 0
  then show ?case by (simp split: if_splits)
next
  case (Suc hi)
  then show ?case
    by (auto simp: Let_def split: if_splits dest: assms intro: reaches_trans)
qed

lemma matches_reaches: "q \<in> set (matches r p) \<Longrightarrow> reaches p q"
proof (induction r arbitrary: p q)
  case (Chr P)
  then show ?case
    by (auto split: list.splits if_splits simp: reaches_consume)
next
  case (Cat r s)
  from Cat.prems obtain m where "m \<in> set (matches r p)" and "q \<in> set (matches s m)"
    unfolding matches.simps set_concat set_map by blast
  with Cat.IH show ?case by (blast intro: reaches_trans)
next
  case (Rep lo hi g r)
  then show ?case using reaches_rounds [of "matches r"] by simp
next
  case (Grp n r)
  then obtain q' where "q' \<in> set (matches r p)" "fst q = fst q'" "ahead q = ahead q'"
    by (auto simp: ahead_def)
  with Grp.IH show ?case by (fastforce simp: reaches_def)
next
  case (Back n)
  then show ?case
    by (auto split: option.splits if_splits simp: reaches_consume)
qed (auto split: if_splits)

lemma match_at_prefix: "match_at r pre rest = Some m \<Longrightarrow> prefix (fst m) rest"
  by (auto simp: match_at_def consumed_def ahead_def take_is_prefix split: list.splits)

lemma segments_from_text:
  "concat (map segment_text (segments_from r pre skip s)) = drop skip s"
proof (induction s arbitrary: pre skip)
  case Nil
  then show ?case by simp
next
  case (Cons c s)
  show ?case
  proof (cases "skip = 0")
    case False
    with Cons show ?thesis by (cases skip) simp_all
  next
    case True
    show ?thesis
    proof (cases "match_at r pre (c # s)")
      case None
      with True Cons show ?thesis by (simp add: segment_text_def)
    next
      case (Some m)
      obtain u where u: "c # s = fst m @ u"
        using match_at_prefix [OF Some] by (auto simp: prefix_def)
      show ?thesis
      proof (cases "fst m")
        case Nil
        with Some True Cons show ?thesis by (simp add: segment_text_def)
      next
        case (Cons d t)
        with u have "s = t @ u" "c = d" by simp_all
        with Some True Cons.IH Cons show ?thesis by (simp add: segment_text_def)
      qed
    qed
  qed
qed

text \<open>The segments of a text are the text, cut up.\<close>

lemma segments_text: "concat (map segment_text (segments r s)) = s"
  by (simp add: segments_def segments_from_text)

lemma re_sub_no_match: "finditer r s = [] \<Longrightarrow> re_sub r f s = s"
proof -
  have "offsets n xs = [] \<Longrightarrow>
    concat (map (\<lambda>x. case x of Inl c \<Rightarrow> [c] | Inr m \<Rightarrow> f m) xs) = concat (map segment_text xs)"
    for n xs
    by (induction n xs rule: offsets.induct) (simp_all add: segment_text_def)
  then show "finditer r s = [] \<Longrightarrow> re_sub r f s = s"
    by (metis finditer_def re_sub_def segments_text)
qed

end
