(* ===== verification/Prelude.thy ===== *)
theory Prelude
  imports PyStr "HOL-Library.Multiset"
begin

text \<open>
  What every component shares: the platform's exceptions as values
  (\<^verbatim>\<open>core/exceptions.py\<close>, \<^verbatim>\<open>auth/exceptions.py\<close> and the exceptions of Python that the
  modelled code raises or catches), results that are an error or a value, state-passing
  computations that may fail, and generic lemmas on lists and sorting.
\<close>

named_theorems result_simps \<comment> \<open>unfolding of fallible computations\<close>

section \<open>Exceptions\<close>

datatype err_class =
    PlatformError | ConfigurationError | ValidationError | PathValidationError
  | IngestionError | ChunkingError | EmbeddingError | VectorStoreError | RetrievalError
  | ProviderError | ProviderDisabledError | AssessmentError | GovernanceError
  | SourceIngestionError | ScanError
  | AuthenticationError | SessionExpiredError | SessionInvalidatedError
  | AuthorizationError | UserAdministrationError | IncompatibleScansError
  | BinaryContentError
  | PyException | PyValueError | PyUnicodeError | PyKeyError | PyTypeError | PyOSError
  | PyNotImplementedError | PyIndexError

text \<open>The classes an exception is an instance of: itself and its bases.\<close>

primrec mro :: "err_class \<Rightarrow> err_class list" where
  "mro PlatformError = [PlatformError, PyException]"
| "mro ConfigurationError = [ConfigurationError, PlatformError, PyException]"
| "mro ValidationError = [ValidationError, PlatformError, PyException]"
| "mro PathValidationError = [PathValidationError, PlatformError, PyException]"
| "mro IngestionError = [IngestionError, PlatformError, PyException]"
| "mro ChunkingError = [ChunkingError, PlatformError, PyException]"
| "mro EmbeddingError = [EmbeddingError, PlatformError, PyException]"
| "mro VectorStoreError = [VectorStoreError, PlatformError, PyException]"
| "mro RetrievalError = [RetrievalError, PlatformError, PyException]"
| "mro ProviderError = [ProviderError, PlatformError, PyException]"
| "mro ProviderDisabledError = [ProviderDisabledError, ProviderError, PlatformError, PyException]"
| "mro AssessmentError = [AssessmentError, PlatformError, PyException]"
| "mro GovernanceError = [GovernanceError, PlatformError, PyException]"
| "mro SourceIngestionError = [SourceIngestionError, IngestionError, PlatformError, PyException]"
| "mro ScanError = [ScanError, PlatformError, PyException]"
| "mro AuthenticationError = [AuthenticationError, PlatformError, PyException]"
| "mro SessionExpiredError =
     [SessionExpiredError, AuthenticationError, PlatformError, PyException]"
| "mro SessionInvalidatedError =
     [SessionInvalidatedError, AuthenticationError, PlatformError, PyException]"
| "mro AuthorizationError = [AuthorizationError, PlatformError, PyException]"
| "mro UserAdministrationError =
     [UserAdministrationError, ValidationError, PlatformError, PyException]"
| "mro IncompatibleScansError =
     [IncompatibleScansError, ValidationError, PlatformError, PyException]"
| "mro BinaryContentError = [BinaryContentError, PyException]"
| "mro PyException = [PyException]"
| "mro PyValueError = [PyValueError, PyException]"
| "mro PyUnicodeError = [PyUnicodeError, PyValueError, PyException]"
| "mro PyKeyError = [PyKeyError, PyException]"
| "mro PyTypeError = [PyTypeError, PyException]"
| "mro PyOSError = [PyOSError, PyException]"
| "mro PyNotImplementedError = [PyNotImplementedError, PyException]"
| "mro PyIndexError = [PyIndexError, PyException]"

datatype error = Err (err_class: err_class) (err_msg: string)

definition isinstance :: "error \<Rightarrow> err_class \<Rightarrow> bool" where
  "isinstance e k = (k \<in> set (mro (err_class e)))"

text \<open>Every class is an instance of itself, and the bases are closed under taking bases.\<close>

lemma mro_self [simp]: "k \<in> set (mro k)"
  by (cases k) simp_all

lemma mro_trans: "j \<in> set (mro k) \<Longrightarrow> set (mro j) \<subseteq> set (mro k)"
  by (cases k) auto

section \<open>Results and state\<close>

type_synonym 'a result = "error + 'a"

fun rbind :: "'e + 'a \<Rightarrow> ('a \<Rightarrow> 'e + 'b) \<Rightarrow> 'e + 'b" where
  "rbind (Inl e) f = Inl e"
| "rbind (Inr a) f = f a"

text \<open>
  A step of a computation on a state \<open>'s\<close> gives a result and the state after it; the
  first error ends the computation, as an exception does.
\<close>

definition and_then ::
  "('e + 'a) \<times> 's \<Rightarrow> ('a \<Rightarrow> 's \<Rightarrow> ('e + 'b) \<times> 's) \<Rightarrow> ('e + 'b) \<times> 's" where
  "and_then m f = (case m of (Inl e, s) \<Rightarrow> (Inl e, s) | (Inr a, s) \<Rightarrow> f a s)"

lemma rbind_Inr_iff: "rbind r f = Inr b \<longleftrightarrow> (\<exists>a. r = Inr a \<and> f a = Inr b)"
  by (cases r) auto

lemma rbind_Inl_iff:
  "rbind r f = Inl e \<longleftrightarrow> r = Inl e \<or> (\<exists>a. r = Inr a \<and> f a = Inl e)"
  by (cases r) auto

lemma and_then_Inl [simp]: "and_then (Inl e, s) f = (Inl e, s)"
  by (simp add: and_then_def)

lemma and_then_Inr [simp]: "and_then (Inr a, s) f = f a s"
  by (simp add: and_then_def)

lemma and_then_eq_Inr:
  "and_then m f = (Inr b, t) \<longleftrightarrow> (\<exists>a s. m = (Inr a, s) \<and> f a s = (Inr b, t))"
  by (auto simp: and_then_def split: prod.splits sum.splits)

lemma and_then_eq_Inl:
  "and_then m f = (Inl e, t) \<longleftrightarrow>
     m = (Inl e, t) \<or> (\<exists>a s. m = (Inr a, s) \<and> f a s = (Inl e, t))"
  by (auto simp: and_then_def split: prod.splits sum.splits)

text \<open>
  A property of the final state that every step keeps: the shape of every invariant proof
  over a composed operation.
\<close>

lemma and_then_state:
  assumes "P (snd m)" and "\<And>a s. m = (Inr a, s) \<Longrightarrow> P s \<Longrightarrow> P (snd (f a s))"
  shows "P (snd (and_then m f))"
  using assms by (auto simp: and_then_def split: prod.splits sum.splits)

text \<open>A comprehension whose element expression may raise.\<close>

fun map_result :: "('a \<Rightarrow> 'e + 'b) \<Rightarrow> 'a list \<Rightarrow> 'e + 'b list" where
  "map_result f [] = Inr []"
| "map_result f (x # xs) = rbind (f x) (\<lambda>y. rbind (map_result f xs) (\<lambda>ys. Inr (y # ys)))"

lemma map_result_Inr: "map_result f xs = Inr ys \<longleftrightarrow> list_all2 (\<lambda>x y. f x = Inr y) xs ys"
  by (induction xs arbitrary: ys) (auto simp: rbind_Inr_iff list_all2_Cons1)

lemma map_result_total:
  "(\<And>x. x \<in> set xs \<Longrightarrow> f x = Inr (g x)) \<Longrightarrow> map_result f xs = Inr (map g xs)"
  by (induction xs) auto

lemma map_result_ok:
  "(\<And>x. x \<in> set xs \<Longrightarrow> \<exists>y. f x = Inr y) \<Longrightarrow>
     \<exists>ys. map_result f xs = Inr ys \<and> list_all2 (\<lambda>x y. f x = Inr y) xs ys"
  by (induction xs) (auto, fastforce)

section \<open>Lists\<close>

text \<open>\<open>next(x for x in xs if p(x))\<close>.\<close>

lemma find_Some_iff':
  "List.find p xs = Some x \<Longrightarrow> x \<in> set xs \<and> p x"
  by (auto simp: find_Some_iff)

text \<open>Replacing the rows that satisfy a condition: SQL's UPDATE on a table kept as a list.\<close>

definition update_where :: "('a \<Rightarrow> bool) \<Rightarrow> ('a \<Rightarrow> 'a) \<Rightarrow> 'a list \<Rightarrow> 'a list" where
  "update_where p f xs = map (\<lambda>x. if p x then f x else x) xs"

lemma update_where_Nil [simp]: "update_where p f [] = []"
  by (simp add: update_where_def)

lemma update_where_Cons [simp]:
  "update_where p f (x # xs) = (if p x then f x else x) # update_where p f xs"
  by (simp add: update_where_def)

lemma length_update_where [simp]: "length (update_where p f xs) = length xs"
  by (simp add: update_where_def)

lemma set_update_where:
  "y \<in> set (update_where p f xs) \<longleftrightarrow>
     (\<exists>x \<in> set xs. y = (if p x then f x else x))"
  by (auto simp: update_where_def)

lemma map_update_where:
  "(\<And>x. x \<in> set xs \<Longrightarrow> p x \<Longrightarrow> g (f x) = g x) \<Longrightarrow> map g (update_where p f xs) = map g xs"
  by (simp add: update_where_def)

text \<open>Rows with distinct keys are found by their key.\<close>

lemma find_key:
  assumes "distinct (map k xs)" and "x \<in> set xs"
  shows "List.find (\<lambda>y. k y = k x) xs = Some x"
  using assms by (induction xs) (auto simp: image_iff)

lemma distinct_key_inject:
  "distinct (map k xs) \<Longrightarrow> x \<in> set xs \<Longrightarrow> y \<in> set xs \<Longrightarrow> k x = k y \<Longrightarrow> x = y"
  by (simp add: distinct_map inj_on_def)

lemma filter_update_where_other:
  assumes "\<And>x. x \<in> set xs \<Longrightarrow> p x \<Longrightarrow> q (f x) = q x" and "\<And>x. x \<in> set xs \<Longrightarrow> p x \<Longrightarrow> \<not> q x"
  shows "filter q (update_where p f xs) = filter q xs"
  using assms by (induction xs) auto

lemma length_filter_le_two:
  assumes "x \<in> set xs" and "y \<in> set xs" and "x \<noteq> y" and "p x" and "p y"
  shows "2 \<le> length (filter p xs)"
proof -
  have "{x, y} \<subseteq> set (filter p xs)" using assms by auto
  then have "card {x, y} \<le> card (set (filter p xs))" by (rule card_mono [rotated]) simp
  also have "\<dots> \<le> length (filter p xs)" by (rule card_length)
  finally show ?thesis using assms(3) by simp
qed

text \<open>\<open>sorted(set(xs))\<close>.\<close>

definition sorted_set :: "'a::linorder list \<Rightarrow> 'a list" where
  "sorted_set xs = sort (remdups xs)"

lemma set_sorted_set [simp]: "set (sorted_set xs) = set xs"
  by (simp add: sorted_set_def)

lemma sorted_sorted_set [simp]: "sorted (sorted_set xs)"
  by (simp add: sorted_set_def)

lemma distinct_sorted_set [simp]: "distinct (sorted_set xs)"
  by (simp add: sorted_set_def)

lemma sorted_set_eq_Nil [simp]: "sorted_set xs = [] \<longleftrightarrow> xs = []"
  by (metis set_empty set_sorted_set)

end
