(* ===== verification/Payload.thy ===== *)
theory Payload
  imports Complex_Main PyStr "HOL-Library.Word"
begin

text \<open>
  Values that cross the database boundary: bytes and the UTF-8 encoding of text, JSON
  values (audit payloads, finding metadata), and points in time. A time is a number of
  microseconds since 1970-01-01 UTC; a stored datetime is naive or aware, and
  \<open>as_utc\<close> (\<^verbatim>\<open>auth/auth_service.py\<close>) reads a naive one as UTC.
\<close>

section \<open>Bytes\<close>

type_synonym byte = "8 word"
type_synonym bytes = "byte list"

definition byte_of :: "nat \<Rightarrow> byte" where
  "byte_of n = of_nat n"

definition nat_of_byte :: "byte \<Rightarrow> nat" where
  "nat_of_byte b = unat b"

definition utf8_char :: "char \<Rightarrow> bytes" where
  "utf8_char c =
     (if code c < 128 then [byte_of (code c)]
      else [byte_of (192 + code c div 64), byte_of (128 + code c mod 64)])"

definition utf8 :: "string \<Rightarrow> bytes" where
  "utf8 s = concat (map utf8_char s)"

lemma nat_of_byte_of [simp]: "n < 256 \<Longrightarrow> nat_of_byte (byte_of n) = n"
  by (simp add: byte_of_def nat_of_byte_def unat_of_nat take_bit_nat_eq_self_iff)

lemma byte_of_nat_of [simp]: "byte_of (nat_of_byte b) = b"
  by (simp add: byte_of_def nat_of_byte_def)

lemma nat_of_byte_less [simp]: "nat_of_byte b < 256"
  using unsigned_less [of b] by (simp add: nat_of_byte_def)

lemma byte_of_inject: "m < 256 \<Longrightarrow> n < 256 \<Longrightarrow> byte_of m = byte_of n \<longleftrightarrow> m = n"
  by (metis nat_of_byte_of)

text \<open>The encoding loses nothing: the first byte tells how long a character's code is.\<close>

lemma utf8_char_inject:
  assumes "utf8_char c @ s = utf8_char d @ t"
  shows "c = d \<and> s = t"
proof -
  have b: "192 + code x div 64 < 256" "128 + code x mod 64 < 256" for x
    using code_lt [of x] by linarith+
  have "code c = code d \<and> s = t"
  proof (cases "code c < 128 \<longleftrightarrow> code d < 128")
    case True
    with assms b have "code c div 64 = code d div 64 \<and> code c mod 64 = code d mod 64 \<and> s = t"
      by (auto simp: utf8_char_def byte_of_inject split: if_splits)
    then show ?thesis by (metis div_mult_mod_eq)
  next
    case False
    with assms b show ?thesis by (auto simp: utf8_char_def byte_of_inject split: if_splits)
  qed
  then show ?thesis by simp
qed

lemma utf8_char_not_Nil [simp]: "utf8_char c \<noteq> []"
  by (simp add: utf8_char_def)

lemma utf8_inject: "utf8 s = utf8 t \<longleftrightarrow> s = t"
proof
  show "utf8 s = utf8 t \<Longrightarrow> s = t"
  proof (induction s arbitrary: t)
    case Nil
    then show ?case by (cases t) (simp_all add: utf8_def)
  next
    case (Cons c s)
    then obtain d t' where t: "t = d # t'" by (cases t) (simp_all add: utf8_def)
    with Cons.prems have "c = d \<and> utf8 s = utf8 t'"
      using utf8_char_inject by (simp add: utf8_def)
    with Cons.IH t show ?case by simp
  qed
qed simp

section \<open>JSON values\<close>

datatype json =
    JNull
  | JBool bool
  | JInt int
  | JFloat rat \<comment> \<open>the value of a double\<close>
  | JStr string
  | JList "json list"
  | JObj "(string \<times> json) list"

definition json_opt_str :: "string option \<Rightarrow> json" where
  "json_opt_str x = (case x of None \<Rightarrow> JNull | Some s \<Rightarrow> JStr s)"

section \<open>Time\<close>

datatype datetime = Naive int | Aware int

primrec utc_instant :: "datetime \<Rightarrow> int" where
  "utc_instant (Naive t) = t"
| "utc_instant (Aware t) = t"

definition as_utc :: "datetime option \<Rightarrow> datetime option" where
  "as_utc value = map_option (\<lambda>d. Aware (utc_instant d)) value"

definition second :: int where "second = 1000000"
definition minute :: int where "minute = 60 * second"
definition day :: int where "day = 86400 * second"

text \<open>Python's \<open>timedelta(minutes=m)\<close> and \<open>(a - b).days\<close>, on microseconds.\<close>

definition timedelta_minutes :: "int \<Rightarrow> int" where
  "timedelta_minutes m = m * minute"

definition timedelta_days :: "int \<Rightarrow> int" where
  "timedelta_days delta = delta div day"

text \<open>The proleptic Gregorian date of a day number (days since 1970-01-01).\<close>

definition civil_from_days :: "int \<Rightarrow> int \<times> int \<times> int" where
  "civil_from_days days =
     (let z = days + 719468;
          era = z div 146097;
          doe = z mod 146097;
          yoe = (doe - doe div 1460 + doe div 36524 - doe div 146096) div 365;
          doy = doe - (365 * yoe + yoe div 4 - yoe div 100);
          mp = (5 * doy + 2) div 153;
          d = doy - (153 * mp + 2) div 5 + 1;
          m = (if mp < 10 then mp + 3 else mp - 9)
      in (yoe + era * 400 + (if m \<le> 2 then 1 else 0), m, d))"

definition zfill :: "nat \<Rightarrow> int \<Rightarrow> string" where
  "zfill n i = (let s = show_int i in replicate (n - length s) (CHR ''0'') @ s)"

text \<open>\<open>datetime.isoformat()\<close>: an aware UTC datetime prints its offset.\<close>

definition isoformat_naive :: "int \<Rightarrow> string" where
  "isoformat_naive t =
     (let (y, m, d) = civil_from_days (t div day);
          us = t mod day;
          s = us div second
      in zfill 4 y @ ''-'' @ zfill 2 m @ ''-'' @ zfill 2 d @ ''T'' @
         zfill 2 (s div 3600) @ '':'' @ zfill 2 (s div 60 mod 60) @ '':'' @ zfill 2 (s mod 60) @
         (if us mod second = 0 then [] else ''.'' @ zfill 6 (us mod second)))"

definition isoformat_utc :: "int \<Rightarrow> string" where
  "isoformat_utc t = isoformat_naive t @ ''+00:00''"

primrec isoformat :: "datetime \<Rightarrow> string" where
  "isoformat (Naive t) = isoformat_naive t"
| "isoformat (Aware t) = isoformat_utc t"

lemma utc_instant_as_utc [simp]:
  "map_option utc_instant (as_utc value) = map_option utc_instant value"
  by (cases "value") (simp_all add: as_utc_def)

end
