(* ===== verification/Config.thy ===== *)
theory Config
  imports Prelude Payload Complex_Main
begin

text \<open>
  \<^verbatim>\<open>core/config.py\<close>: the platform's settings, their validators and what is derived from
  them. The record has the fields in declaration order; the defaults are
  \<open>default_settings\<close>. The two demo path properties are not modelled (they look at the file
  system).
\<close>

record Settings =
  st_app_name :: string
  st_app_version :: string
  st_environment :: string
  st_debug :: bool
  st_log_level :: string
  st_local_only_mode :: bool
  st_external_providers_enabled :: bool
  st_openai_enabled :: bool
  st_gemini_enabled :: bool
  st_claude_enabled :: bool
  st_openai_api_key :: "string option"
  st_gemini_api_key :: "string option"
  st_claude_api_key :: "string option"
  st_vector_backend :: string
  st_chroma_persist_directory :: string
  st_chroma_collection_name :: string
  st_database_url :: "string option"
  st_embedding_provider :: string
  st_allowed_scan_paths :: "string list"
  st_max_scan_file_size_bytes :: int
  st_max_scan_total_size_bytes :: int
  st_max_scan_file_count :: int
  st_max_scan_depth :: int
  st_scan_follow_symlinks :: bool
  st_max_archive_entry_count :: int
  st_max_archive_uncompressed_bytes :: int
  st_max_archive_compression_ratio :: int
  st_scan_temp_dir :: string
  st_document_storage_dir :: string
  st_report_output_dir :: string
  st_data_retention_days :: "int option"
  st_agent_enabled :: bool
  st_agent_provider :: string
  st_agent_model_name :: "string option"
  st_agent_timeout_seconds :: rat
  st_agent_max_retries :: int
  st_agent_max_context_chars :: int
  st_agent_max_evidence_items :: int
  st_session_idle_timeout_minutes :: int
  st_password_min_length :: int
  st_postgres_user :: string
  st_postgres_password :: "string option"
  st_postgres_db :: string
  st_postgres_host :: "string option"
  st_postgres_port :: int
  st_docker_allowed_scan_paths :: "string list"

definition default_settings :: Settings where
  "default_settings =
     \<lparr>st_app_name = ''Banking Systems Assurance Platform'', st_app_version = ''2.0'',
      st_environment = ''local'', st_debug = False, st_log_level = ''INFO'',
      st_local_only_mode = True, st_external_providers_enabled = False,
      st_openai_enabled = False, st_gemini_enabled = False, st_claude_enabled = False,
      st_openai_api_key = None, st_gemini_api_key = None, st_claude_api_key = None,
      st_vector_backend = ''pgvector'', st_chroma_persist_directory = ''data/chroma'',
      st_chroma_collection_name = ''banking_assurance_chunks'', st_database_url = None,
      st_embedding_provider = ''local'', st_allowed_scan_paths = [],
      st_max_scan_file_size_bytes = 1048576, st_max_scan_total_size_bytes = 209715200,
      st_max_scan_file_count = 20000, st_max_scan_depth = 40, st_scan_follow_symlinks = False,
      st_max_archive_entry_count = 20000, st_max_archive_uncompressed_bytes = 209715200,
      st_max_archive_compression_ratio = 100, st_scan_temp_dir = ''data/scan_tmp'',
      st_document_storage_dir = ''data/documents'', st_report_output_dir = ''data/reports'',
      st_data_retention_days = None, st_agent_enabled = False, st_agent_provider = ''local'',
      st_agent_model_name = None, st_agent_timeout_seconds = 30, st_agent_max_retries = 1,
      st_agent_max_context_chars = 4000, st_agent_max_evidence_items = 5,
      st_session_idle_timeout_minutes = 30, st_password_min_length = 12,
      st_postgres_user = ''banking_assurance'', st_postgres_password = None,
      st_postgres_db = ''banking_assurance_db'', st_postgres_host = None,
      st_postgres_port = 5432, st_docker_allowed_scan_paths = []\<rparr>"

text \<open>Python's truth value of an optional string.\<close>

definition truthy :: "string option \<Rightarrow> bool" where
  "truthy x = (case x of None \<Rightarrow> False | Some s \<Rightarrow> s \<noteq> [])"

section \<open>Validators\<close>

definition FORBIDDEN_CREDENTIAL_FRAGMENTS :: "string list" where
  "FORBIDDEN_CREDENTIAL_FRAGMENTS = [''control_tower_pass'']"

definition reject_known_insecure_defaults :: "string option \<Rightarrow> string option result" where
  "reject_known_insecure_defaults v =
     (case v of
        None \<Rightarrow> Inr None
      | Some url \<Rightarrow>
          (case List.find (\<lambda>fragment. contains url fragment) FORBIDDEN_CREDENTIAL_FRAGMENTS of
             Some fragment \<Rightarrow>
               Inl (Err PyValueError (''database_url contains a known insecure placeholder '' @
                 ''credential fragment ('' @ [CHR 0x27] @ fragment @ [CHR 0x27] @
                 ''); set an explicit, real credential instead.''))
           | None \<Rightarrow> Inr v))"

text \<open>What reaches the scan path fields: nothing, a string, a list, or something else.\<close>

datatype scan_paths_input = PathsNone | PathsStr string | PathsList "string list" | PathsOther

fun parse_scan_paths :: "scan_paths_input \<Rightarrow> string list" where
  "parse_scan_paths PathsNone = []"
| "parse_scan_paths (PathsStr s) =
     (if strip s = [] then []
      else map strip (filter (\<lambda>p. strip p \<noteq> []) (split_on (CHR '','') s)))"
| "parse_scan_paths (PathsList xs) = xs"
| "parse_scan_paths PathsOther = []"

text \<open>\<open>urllib.parse.quote(s, safe="")\<close>: everything but unreserved characters, as UTF-8.\<close>

definition hex_digit :: "nat \<Rightarrow> char" where
  "hex_digit n = char_of (if n < 10 then 48 + n else 55 + n)"

definition quote_byte :: "byte \<Rightarrow> string" where
  "quote_byte b =
     (let n = nat_of_byte b; c = (char_of n :: char)
      in if is_digit c \<or> is_ascii_lower c \<or> is_ascii_upper c \<or> c \<in> set ''_.-~'' then [c]
         else [CHR ''%'', hex_digit (n div 16), hex_digit (n mod 16)])"

definition quote :: "string \<Rightarrow> string" where
  "quote s = concat (map quote_byte (utf8 s))"

definition derive_container_settings :: "Settings \<Rightarrow> Settings" where
  "derive_container_settings self =
     (let self1 =
        (if \<not> truthy (st_database_url self) \<and> truthy (st_postgres_host self)
            \<and> truthy (st_postgres_password self)
         then self\<lparr>st_database_url := Some (''postgresql://'' @ quote (st_postgres_user self)
                @ '':'' @ quote (the (st_postgres_password self)) @ ''@''
                @ the (st_postgres_host self) @ '':'' @ show_int (st_postgres_port self) @ ''/''
                @ quote (st_postgres_db self))\<rparr>
         else self)
      in if st_allowed_scan_paths self1 = [] \<and> truthy (st_postgres_host self1)
            \<and> st_docker_allowed_scan_paths self1 \<noteq> []
         then self1\<lparr>st_allowed_scan_paths := st_docker_allowed_scan_paths self1\<rparr>
         else self1)"

text \<open>The declared ranges and closed choices of the fields.\<close>

definition fields_in_range :: "Settings \<Rightarrow> bool" where
  "fields_in_range s =
     (st_environment s \<in> {''local'', ''dev'', ''staging'', ''prod''}
      \<and> st_vector_backend s \<in> {''pgvector'', ''chroma''}
      \<and> st_agent_provider s \<in> {''local'', ''openai'', ''gemini'', ''claude''}
      \<and> (case st_data_retention_days s of None \<Rightarrow> True | Some d \<Rightarrow> 0 \<le> d)
      \<and> 1 \<le> st_session_idle_timeout_minutes s \<and> st_session_idle_timeout_minutes s \<le> 24 * 60
      \<and> 8 \<le> st_password_min_length s \<and> st_password_min_length s \<le> 128)"

text \<open>Construction: field checks and field validators first, then the model validator.\<close>

definition make_settings :: "Settings \<Rightarrow> Settings result" where
  "make_settings raw =
     (if \<not> fields_in_range raw then Inl (Err PyValueError ''validation error'')
      else rbind (reject_known_insecure_defaults (st_database_url raw))
             (\<lambda>url. Inr (derive_container_settings (raw\<lparr>st_database_url := url\<rparr>))))"

section \<open>Properties\<close>

lemma quote_unreserved:
  "list_all (\<lambda>c. code c < 128 \<and> (is_digit c \<or> is_ascii_lower c \<or> is_ascii_upper c
      \<or> c \<in> set ''_.-~'')) s \<Longrightarrow> quote s = s"
proof (induction s)
  case Nil
  then show ?case by (simp add: quote_def utf8_def)
next
  case (Cons c s)
  then have "utf8_char c = [byte_of (code c)]" by (simp add: utf8_char_def)
  moreover have "nat_of_byte (byte_of (code c)) = code c" by simp
  moreover have "(char_of (code c) :: char) = c" by (simp add: code_def)
  ultimately show ?case
    using Cons by (auto simp: quote_def utf8_def quote_byte_def Let_def)
qed

lemma sublist_quote_fragment: "contains (p @ quote ''control_tower_pass'' @ q) ''control_tower_pass''"
proof -
  have "quote ''control_tower_pass'' = ''control_tower_pass''"
    by (rule quote_unreserved)
       (simp add: code_def is_digit_def is_ascii_lower_def is_ascii_upper_def)
  then show ?thesis by (auto simp: contains_sublist sublist_def)
qed


end
