(* ===== verification/Database.thy ===== *)
theory Database
  imports Config
begin

text \<open>
  \<^verbatim>\<open>storage/db/models\<close>, \<^verbatim>\<open>storage/db/session.py\<close> and \<^verbatim>\<open>auth/db.py\<close>: one record per table
  row, the database as one list per table in insertion order, and sessions. A platform is
  the committed database with what the code reads from its surroundings: the clock (an
  operation runs at one instant; time passes between operations), the sources of random ids
  and salts with the number of draws so far, and the number of scrypt derivations made. A
  session works on a copy of the database; \<open>commit\<close> publishes it, and leaving the
  session, normally or by an exception, drops what was not committed. Enumerations are
  stored by value. \<open>updated_at\<close> columns, which nothing reads, are left out.
\<close>

section \<open>Rows\<close>

record User =
  us_id :: string
  us_username :: string
  us_display_name :: string
  us_password_hash :: string
  us_role :: string
  us_is_active :: bool
  us_must_change_password :: bool
  us_failed_attempts :: int
  us_locked_until :: "datetime option"
  us_session_version :: int
  us_last_login_at :: "datetime option"
  us_created_at :: "datetime option"

record AuditEvent =
  ae_id :: string
  ae_scan_id :: "string option"
  ae_event_type :: string
  ae_actor :: string
  ae_summary :: string
  ae_payload :: "(string \<times> json) list"
  ae_created_at :: datetime

record Scan =
  sc_id :: string
  sc_source_path :: string
  sc_source_type :: string
  sc_status :: string
  sc_total_files_found :: int
  sc_files_scanned :: int
  sc_files_skipped :: int
  sc_total_findings :: int
  sc_truncated :: bool
  sc_source_hash_before :: "string option"
  sc_source_hash_after :: "string option"
  sc_integrity_verified :: bool
  sc_error_message :: "string option"
  sc_created_at :: datetime
  sc_started_at :: "datetime option"
  sc_completed_at :: "datetime option"

record FileInventoryRecord =
  fi_id :: string
  fi_scan_id :: string
  fi_relative_path :: string
  fi_file_name :: string
  fi_extension :: string
  fi_detected_type :: "string option"
  fi_language :: "string option"
  fi_size_bytes :: int
  fi_content_hash :: "string option"
  fi_sensitivity_hint :: bool
  fi_scan_status :: string
  fi_skipped_reason :: "string option"
  fi_created_at :: datetime

record DomainMappingRecord =
  dm_id :: string
  dm_scan_id :: string
  dm_file_inventory_id :: "string option"
  dm_domain :: string
  dm_confidence :: string
  dm_reason :: string
  dm_source :: string
  dm_created_at :: datetime

record Finding =
  fd_id :: string
  fd_scan_id :: string
  fd_scanner_id :: string
  fd_scanner_version :: string
  fd_rule_id :: string
  fd_title :: string
  fd_finding_type :: string
  fd_category :: string
  fd_severity :: string
  fd_confidence :: string
  fd_banking_domains :: "string list"
  fd_source_relative_path :: string
  fd_line_start :: int
  fd_line_end :: int
  fd_masked_evidence :: string
  fd_description :: string
  fd_impact :: string
  fd_recommended_action :: string
  fd_remediation_mode :: string
  fd_read_only_confirmation :: bool
  fd_metadata_json :: "(string \<times> json) list"
  fd_created_at :: datetime
  fd_human_review_status :: string
  fd_reviewed_by :: "string option"
  fd_reviewed_at :: "datetime option"

record ScannerExecutionRecord =
  se_id :: string
  se_scan_id :: string
  se_scanner_id :: string
  se_scanner_version :: string
  se_status :: string
  se_files_processed :: int
  se_files_errored :: int
  se_findings_produced :: int
  se_error_summary :: "string option"
  se_created_at :: datetime

record Control =
  co_id :: string
  co_control_id :: string
  co_domain :: "string option"
  co_subdomain :: "string option"
  co_title :: string
  co_description :: string
  co_control_type :: string
  co_source_reference :: string
  co_weight :: rat
  co_applies_to_domains :: "string list"
  co_created_at :: datetime

record Evidence =
  ev_id :: string
  ev_finding_id :: string
  ev_control_id :: "string option"
  ev_evidence_type :: string
  ev_content :: string
  ev_source_reference :: string
  ev_retrieved_via :: "string option"
  ev_captured_at :: datetime

record Score =
  so_id :: string
  so_scan_id :: string
  so_domain :: string
  so_raw_score :: "rat option"
  so_weighted_score :: "rat option"
  so_confidence_level :: string
  so_evidence_completeness :: string
  so_decision_category :: string
  so_files_evaluated :: int
  so_findings_count :: int
  so_calculated_at :: datetime
  so_override_of :: "string option"

record Recommendation =
  rc_id :: string
  rc_finding_id :: string
  rc_scan_id :: string
  rc_control_id :: "string option"
  rc_text :: string
  rc_priority :: string
  rc_status :: string
  rc_source :: string
  rc_reviewed_by :: "string option"
  rc_reviewed_at :: "datetime option"
  rc_created_at :: datetime

record ControlEvaluation =
  ce_id :: string
  ce_scan_id :: string
  ce_control_id :: "string option"
  ce_domain :: string
  ce_status :: string
  ce_finding_ids :: "string list"
  ce_evaluated_at :: datetime

record database =
  db_users :: "User list"
  db_audit_events :: "AuditEvent list"
  db_scans :: "Scan list"
  db_file_inventory :: "FileInventoryRecord list"
  db_domain_mappings :: "DomainMappingRecord list"
  db_findings :: "Finding list"
  db_scanner_executions :: "ScannerExecutionRecord list"
  db_controls :: "Control list"
  db_evidence :: "Evidence list"
  db_scores :: "Score list"
  db_recommendations :: "Recommendation list"
  db_control_evaluations :: "ControlEvaluation list"

definition empty_database :: database where
  "empty_database = \<lparr>db_users = [], db_audit_events = [], db_scans = [], db_file_inventory = [],
     db_domain_mappings = [], db_findings = [], db_scanner_executions = [], db_controls = [],
     db_evidence = [], db_scores = [], db_recommendations = [], db_control_evaluations = []\<rparr>"

section \<open>Platform and session\<close>

record platform =
  pf_store :: database
  pf_clock :: int
  pf_uuid :: "nat \<Rightarrow> string"
  pf_urandom :: "nat \<Rightarrow> nat \<Rightarrow> bytes"
  pf_draws :: nat
  pf_kdf_calls :: nat

record session = platform +
  ss_work :: database

type_synonym 'a op = "session \<Rightarrow> 'a result \<times> session"

definition commit :: "session \<Rightarrow> session" where
  "commit s = s\<lparr>pf_store := ss_work s\<rparr>"

definition begin_session :: "platform \<Rightarrow> session" where
  "begin_session pf = platform.extend pf \<lparr>ss_work = pf_store pf\<rparr>"

definition open_session :: "Settings \<Rightarrow> platform \<Rightarrow> session result" where
  "open_session settings pf =
     (if \<not> truthy (st_database_url settings)
      then Inl (Err ConfigurationError
             ''DATABASE_URL is not configured. Sign-in requires the platform database.'')
      else Inr (begin_session pf))"

text \<open>\<open>with self.session() as session: ...\<close>: the body's result and what it committed.\<close>

definition with_session ::
  "Settings \<Rightarrow> 'a op \<Rightarrow> platform \<Rightarrow> 'a result \<times> platform" where
  "with_session settings body pf =
     (case open_session settings pf of
        Inl e \<Rightarrow> (Inl e, pf)
      | Inr s \<Rightarrow> (let (r, s') = body s in (r, platform.truncate s')))"

definition now :: "('a) platform_scheme \<Rightarrow> datetime" where
  "now s = Aware (pf_clock s)"

definition new_uuid :: "session \<Rightarrow> string \<times> session" where
  "new_uuid s = (pf_uuid s (pf_draws s), s\<lparr>pf_draws := Suc (pf_draws s)\<rparr>)"

definition urandom :: "nat \<Rightarrow> session \<Rightarrow> bytes \<times> session" where
  "urandom size_bytes s =
     (pf_urandom s (pf_draws s) size_bytes, s\<lparr>pf_draws := Suc (pf_draws s)\<rparr>)"

definition map_work :: "(database \<Rightarrow> database) \<Rightarrow> session \<Rightarrow> session" where
  "map_work f s = s\<lparr>ss_work := f (ss_work s)\<rparr>"

text \<open>\<open>session.get(Model, id)\<close>.\<close>

definition get_row :: "('r \<Rightarrow> string) \<Rightarrow> string \<Rightarrow> 'r list \<Rightarrow> 'r option" where
  "get_row key i rows = List.find (\<lambda>r. key r = i) rows"

text \<open>\<open>query.order_by(column)\<close>: a stable sort of the rows.\<close>

definition order_by :: "('r \<Rightarrow> 'k::linorder) \<Rightarrow> 'r list \<Rightarrow> 'r list" where
  "order_by k rows = sort_key k rows"

lemma get_row_Some: "get_row key i rows = Some r \<Longrightarrow> r \<in> set rows \<and> key r = i"
  by (auto simp: get_row_def dest: find_Some_iff')

lemma get_row_None: "get_row key i rows = None \<longleftrightarrow> (\<forall>r \<in> set rows. key r \<noteq> i)"
  by (auto simp: get_row_def find_None_iff)

lemma get_row_distinct:
  "distinct (map key rows) \<Longrightarrow> r \<in> set rows \<Longrightarrow> get_row key (key r) rows = Some r"
  by (simp add: get_row_def find_key)

lemma get_row_update_where:
  "(\<And>r. key (f r) = key r) \<Longrightarrow> get_row key i (update_where p f rows) =
     map_option (\<lambda>r. if p r then f r else r) (get_row key i rows)"
  by (induction rows) (auto simp: get_row_def)

lemma get_row_append:
  "get_row key i (xs @ ys) = (case get_row key i xs of None \<Rightarrow> get_row key i ys | Some r \<Rightarrow> Some r)"
  by (induction xs) (auto simp: get_row_def)

lemma begin_session_fields [simp]:
  "pf_store (begin_session pf) = pf_store pf"
  "ss_work (begin_session pf) = pf_store pf"
  "pf_clock (begin_session pf) = pf_clock pf"
  "pf_uuid (begin_session pf) = pf_uuid pf"
  "pf_urandom (begin_session pf) = pf_urandom pf"
  "pf_draws (begin_session pf) = pf_draws pf"
  "pf_kdf_calls (begin_session pf) = pf_kdf_calls pf"
  by (simp_all add: begin_session_def platform.defs)

lemma truncate_fields [simp]:
  "pf_store (platform.truncate s) = pf_store s"
  "pf_clock (platform.truncate s) = pf_clock s"
  "pf_uuid (platform.truncate s) = pf_uuid s"
  "pf_urandom (platform.truncate s) = pf_urandom s"
  "pf_draws (platform.truncate s) = pf_draws s"
  "pf_kdf_calls (platform.truncate s) = pf_kdf_calls s"
  by (simp_all add: platform.defs)

lemma truncate_begin [simp]: "platform.truncate (begin_session pf) = pf"
  by (simp add: begin_session_def platform.defs)

lemma with_session_configured [simp]:
  "truthy (st_database_url st) \<Longrightarrow>
     with_session st f pf = (fst (f (begin_session pf)), platform.truncate (snd (f (begin_session pf))))"
  by (simp add: with_session_def open_session_def split_beta)

lemma with_session_not_configured:
  "\<not> truthy (st_database_url st) \<Longrightarrow> snd (with_session st f pf) = pf"
  by (simp add: with_session_def open_session_def)

section \<open>What operations keep\<close>

text \<open>
  A history relation relates a database to its later versions: whatever holds of every
  change to a table holds between the database before and after an operation, whether it
  commits or not, and whether it raises or not.
\<close>

locale history =
  fixes R :: "database \<Rightarrow> database \<Rightarrow> bool"
  assumes R_refl: "R d d"
    and R_trans: "R d e \<Longrightarrow> R e f \<Longrightarrow> R d f"
begin

definition keeps :: "(session \<Rightarrow> 'r \<times> session) \<Rightarrow> bool" where
  "keeps f = (\<forall>d s. R d (pf_store s) \<and> R d (ss_work s) \<longrightarrow>
     R d (pf_store (snd (f s))) \<and> R d (ss_work (snd (f s))))"

definition keeps_state :: "(session \<Rightarrow> session) \<Rightarrow> bool" where
  "keeps_state g = keeps (\<lambda>s. ((), g s))"

lemma keepsI:
  "(\<And>d s. R d (pf_store s) \<Longrightarrow> R d (ss_work s) \<Longrightarrow>
      R d (pf_store (snd (f s))) \<and> R d (ss_work (snd (f s)))) \<Longrightarrow> keeps f"
  by (simp add: keeps_def)

lemma keeps_return [intro, simp]: "keeps (\<lambda>s. (r s, s))"
  by (simp add: keeps_def)

lemma keeps_and_then [intro]:
  assumes "keeps m" and "\<And>a. keeps (f a)"
  shows "keeps (\<lambda>s. and_then (m s) f)"
proof (rule keepsI)
  fix d and s :: session
  assume "R d (pf_store s)" and "R d (ss_work s)"
  with assms(1) have "R d (pf_store (snd (m s))) \<and> R d (ss_work (snd (m s)))"
    by (simp add: keeps_def)
  with assms(2) show "R d (pf_store (snd (and_then (m s) f)))
      \<and> R d (ss_work (snd (and_then (m s) f)))"
    by (cases "m s"; cases "fst (m s)") (auto simp: keeps_def)
qed

lemma keeps_after:
  assumes "keeps_state g" and "keeps f"
  shows "keeps (\<lambda>s. f (g s))"
  using assms by (auto simp: keeps_def keeps_state_def)

lemma keeps_if [intro]:
  "keeps f \<Longrightarrow> keeps g \<Longrightarrow> keeps (\<lambda>s. if b s then f s else g s)"
  by (simp add: keeps_def)

lemma keeps_commit [intro, simp]: "keeps_state commit"
  by (simp add: keeps_state_def keeps_def commit_def)

lemma keeps_draw [intro, simp]:
  "keeps_state (\<lambda>s. s\<lparr>pf_draws := n s\<rparr>)" "keeps_state (\<lambda>s. s\<lparr>pf_kdf_calls := n s\<rparr>)"
  by (simp_all add: keeps_state_def keeps_def)

lemma keeps_map_work:
  assumes "\<And>d. R d (g d)"
  shows "keeps_state (map_work g)"
  using assms R_trans by (auto simp: keeps_state_def keeps_def map_work_def)

text \<open>A change to the working copy, committed at most at its end.\<close>

lemma keepsI_step:
  assumes "\<And>s. R (ss_work s) (ss_work (snd (f s)))"
    and "\<And>s. pf_store (snd (f s)) = pf_store s \<or> pf_store (snd (f s)) = ss_work (snd (f s))"
  shows "keeps f"
proof (rule keepsI)
  fix d and s :: session
  assume "R d (pf_store s)" and "R d (ss_work s)"
  moreover from \<open>R d (ss_work s)\<close> have "R d (ss_work (snd (f s)))"
    using assms(1) R_trans by blast
  ultimately show "R d (pf_store (snd (f s))) \<and> R d (ss_work (snd (f s)))"
    using assms(2) [of s] by auto
qed

lemma with_session_keeps:
  assumes "keeps f"
  shows "R (pf_store pf) (pf_store (snd (with_session st f pf)))"
proof (cases "truthy (st_database_url st)")
  case True
  with assms show ?thesis by (auto simp: keeps_def R_refl)
next
  case False
  then show ?thesis by (simp add: with_session_not_configured R_refl)
qed

end

end
