(* ===== verification/Enums.thy ===== *)
theory Enums
  imports Prelude
begin

text \<open>
  The vocabulary of \<^verbatim>\<open>models/enums.py\<close>: each \<open>class E(str, Enum)\<close> is a datatype \<open>E\<close>
  with the source's members as constructors, \<open>E_value\<close> gives a member's string
  (\<open>.value\<close>, what the database stores) and \<open>E_members\<close> lists the members in the order
  of their declaration (the order in which Python iterates over the class). The locale
  \<open>str_enum\<close> is the contract every such class satisfies: all members are listed, and no
  two share a value, so that calling the class on a stored value (\<open>enum_of\<close>) gives the
  member back and raises \<open>ValueError\<close> on anything else.
\<close>

section \<open>Looking a member up by its value\<close>

definition enum_of :: "'e list \<Rightarrow> ('e \<Rightarrow> string) \<Rightarrow> string \<Rightarrow> 'e result" where
  "enum_of members val s =
     (case List.find (\<lambda>e. val e = s) members of
        Some e \<Rightarrow> Inr e
      | None \<Rightarrow> Inl (Err PyValueError (s @ '' is not a valid member'')))"

locale str_enum =
  fixes members :: "'e list" and val :: "'e \<Rightarrow> string"
  assumes complete: "e \<in> set members"
    and distinct_values: "distinct (map val members)"
begin

lemma val_inject [simp]: "val d = val e \<longleftrightarrow> d = e"
  using distinct_key_inject [OF distinct_values complete complete] by blast

lemma distinct_members: "distinct members"
  using distinct_values by (simp add: distinct_map)

lemma of_value [simp]: "enum_of members val (val e) = Inr e"
  using find_key [OF distinct_values complete, of e] by (simp add: enum_of_def)

lemma of_value_Inr: "enum_of members val s = Inr e \<longleftrightarrow> s = val e"
proof
  assume "enum_of members val s = Inr e"
  then show "s = val e"
    by (auto simp: enum_of_def find_Some_iff split: option.splits)
qed simp

lemma of_value_Inl: "(\<exists>x. enum_of members val s = Inl x) \<longleftrightarrow> s \<notin> range val"
  by (cases "enum_of members val s") (auto simp: of_value_Inr)

end

lemma str_enumI:
  "(\<And>e. e \<in> set ms) \<Longrightarrow> distinct (map v ms) \<Longrightarrow> str_enum ms v"
  by unfold_locales

section \<open>The enumerations\<close>

datatype Severity =
    CRITICAL | HIGH | MEDIUM | LOW | INFO

primrec Severity_value :: "Severity \<Rightarrow> string" where
  "Severity_value Severity.CRITICAL = ''critical''"
| "Severity_value Severity.HIGH = ''high''"
| "Severity_value Severity.MEDIUM = ''medium''"
| "Severity_value Severity.LOW = ''low''"
| "Severity_value Severity.INFO = ''info''"

definition Severity_members :: "Severity list" where
  "Severity_members =
     [Severity.CRITICAL, Severity.HIGH, Severity.MEDIUM, Severity.LOW, Severity.INFO]"

interpretation severity: str_enum Severity_members Severity_value
  by (rule str_enumI) (use Severity.nchotomy in \<open>auto simp: Severity_members_def\<close>)

datatype ConfidenceLevel =
    HIGH | MEDIUM | LOW

primrec ConfidenceLevel_value :: "ConfidenceLevel \<Rightarrow> string" where
  "ConfidenceLevel_value ConfidenceLevel.HIGH = ''high''"
| "ConfidenceLevel_value ConfidenceLevel.MEDIUM = ''medium''"
| "ConfidenceLevel_value ConfidenceLevel.LOW = ''low''"

definition ConfidenceLevel_members :: "ConfidenceLevel list" where
  "ConfidenceLevel_members =
     [ConfidenceLevel.HIGH, ConfidenceLevel.MEDIUM, ConfidenceLevel.LOW]"

interpretation confidence_level: str_enum ConfidenceLevel_members ConfidenceLevel_value
  by (rule str_enumI) (use ConfidenceLevel.nchotomy in \<open>auto simp: ConfidenceLevel_members_def\<close>)

datatype EvidenceCompleteness =
    COMPLETE | PARTIAL | INSUFFICIENT

primrec EvidenceCompleteness_value :: "EvidenceCompleteness \<Rightarrow> string" where
  "EvidenceCompleteness_value EvidenceCompleteness.COMPLETE = ''complete''"
| "EvidenceCompleteness_value EvidenceCompleteness.PARTIAL = ''partial''"
| "EvidenceCompleteness_value EvidenceCompleteness.INSUFFICIENT = ''insufficient''"

definition EvidenceCompleteness_members :: "EvidenceCompleteness list" where
  "EvidenceCompleteness_members =
     [EvidenceCompleteness.COMPLETE, EvidenceCompleteness.PARTIAL,
      EvidenceCompleteness.INSUFFICIENT]"

interpretation evidence_completeness: str_enum EvidenceCompleteness_members EvidenceCompleteness_value
  by (rule str_enumI) (use EvidenceCompleteness.nchotomy in \<open>auto simp: EvidenceCompleteness_members_def\<close>)

datatype HumanReviewStatus =
    PENDING | APPROVED | REJECTED | OVERRIDDEN

primrec HumanReviewStatus_value :: "HumanReviewStatus \<Rightarrow> string" where
  "HumanReviewStatus_value HumanReviewStatus.PENDING = ''pending''"
| "HumanReviewStatus_value HumanReviewStatus.APPROVED = ''approved''"
| "HumanReviewStatus_value HumanReviewStatus.REJECTED = ''rejected''"
| "HumanReviewStatus_value HumanReviewStatus.OVERRIDDEN = ''overridden''"

definition HumanReviewStatus_members :: "HumanReviewStatus list" where
  "HumanReviewStatus_members =
     [HumanReviewStatus.PENDING, HumanReviewStatus.APPROVED, HumanReviewStatus.REJECTED,
      HumanReviewStatus.OVERRIDDEN]"

interpretation human_review_status: str_enum HumanReviewStatus_members HumanReviewStatus_value
  by (rule str_enumI) (use HumanReviewStatus.nchotomy in \<open>auto simp: HumanReviewStatus_members_def\<close>)

datatype DecisionCategory =
    ACCEPTABLE | ACCEPTABLE_WITH_OBSERVATIONS | REMEDIATION_REQUIRED | HIGH_RISK
  | CRITICAL_RISK | INSUFFICIENT_EVIDENCE | MANUAL_REVIEW_REQUIRED

primrec DecisionCategory_value :: "DecisionCategory \<Rightarrow> string" where
  "DecisionCategory_value DecisionCategory.ACCEPTABLE = ''acceptable''"
| "DecisionCategory_value DecisionCategory.ACCEPTABLE_WITH_OBSERVATIONS = ''acceptable_with_observations''"
| "DecisionCategory_value DecisionCategory.REMEDIATION_REQUIRED = ''remediation_required''"
| "DecisionCategory_value DecisionCategory.HIGH_RISK = ''high_risk''"
| "DecisionCategory_value DecisionCategory.CRITICAL_RISK = ''critical_risk''"
| "DecisionCategory_value DecisionCategory.INSUFFICIENT_EVIDENCE = ''insufficient_evidence''"
| "DecisionCategory_value DecisionCategory.MANUAL_REVIEW_REQUIRED = ''manual_review_required''"

definition DecisionCategory_members :: "DecisionCategory list" where
  "DecisionCategory_members =
     [DecisionCategory.ACCEPTABLE, DecisionCategory.ACCEPTABLE_WITH_OBSERVATIONS,
      DecisionCategory.REMEDIATION_REQUIRED, DecisionCategory.HIGH_RISK,
      DecisionCategory.CRITICAL_RISK, DecisionCategory.INSUFFICIENT_EVIDENCE,
      DecisionCategory.MANUAL_REVIEW_REQUIRED]"

interpretation decision_category: str_enum DecisionCategory_members DecisionCategory_value
  by (rule str_enumI) (use DecisionCategory.nchotomy in \<open>auto simp: DecisionCategory_members_def\<close>)

datatype ControlType =
    TECHNICAL | INTERNAL_POLICY | ARCHITECTURE_STANDARD | BUSINESS_RULE
  | REGULATORY_REFERENCE

primrec ControlType_value :: "ControlType \<Rightarrow> string" where
  "ControlType_value ControlType.TECHNICAL = ''technical''"
| "ControlType_value ControlType.INTERNAL_POLICY = ''internal_policy''"
| "ControlType_value ControlType.ARCHITECTURE_STANDARD = ''architecture_standard''"
| "ControlType_value ControlType.BUSINESS_RULE = ''business_rule''"
| "ControlType_value ControlType.REGULATORY_REFERENCE = ''regulatory_reference''"

definition ControlType_members :: "ControlType list" where
  "ControlType_members =
     [ControlType.TECHNICAL, ControlType.INTERNAL_POLICY, ControlType.ARCHITECTURE_STANDARD,
      ControlType.BUSINESS_RULE, ControlType.REGULATORY_REFERENCE]"

interpretation control_type: str_enum ControlType_members ControlType_value
  by (rule str_enumI) (use ControlType.nchotomy in \<open>auto simp: ControlType_members_def\<close>)

datatype ScanStatus =
    PENDING | VALIDATING | SCANNING | COMPLETED | COMPLETED_WITH_WARNINGS | FAILED
  | CANCELLED

primrec ScanStatus_value :: "ScanStatus \<Rightarrow> string" where
  "ScanStatus_value ScanStatus.PENDING = ''pending''"
| "ScanStatus_value ScanStatus.VALIDATING = ''validating''"
| "ScanStatus_value ScanStatus.SCANNING = ''scanning''"
| "ScanStatus_value ScanStatus.COMPLETED = ''completed''"
| "ScanStatus_value ScanStatus.COMPLETED_WITH_WARNINGS = ''completed_with_warnings''"
| "ScanStatus_value ScanStatus.FAILED = ''failed''"
| "ScanStatus_value ScanStatus.CANCELLED = ''cancelled''"

definition ScanStatus_members :: "ScanStatus list" where
  "ScanStatus_members =
     [ScanStatus.PENDING, ScanStatus.VALIDATING, ScanStatus.SCANNING, ScanStatus.COMPLETED,
      ScanStatus.COMPLETED_WITH_WARNINGS, ScanStatus.FAILED, ScanStatus.CANCELLED]"

interpretation scan_status: str_enum ScanStatus_members ScanStatus_value
  by (rule str_enumI) (use ScanStatus.nchotomy in \<open>auto simp: ScanStatus_members_def\<close>)

datatype SkipReason =
    SIZE_LIMIT | TOTAL_SIZE_LIMIT | DEPTH_LIMIT | COUNT_LIMIT | SYMLINK
  | BINARY_UNSUPPORTED | UNREADABLE | IGNORED_PATH | UNSUPPORTED_TYPE

primrec SkipReason_value :: "SkipReason \<Rightarrow> string" where
  "SkipReason_value SkipReason.SIZE_LIMIT = ''size_limit''"
| "SkipReason_value SkipReason.TOTAL_SIZE_LIMIT = ''total_size_limit''"
| "SkipReason_value SkipReason.DEPTH_LIMIT = ''depth_limit''"
| "SkipReason_value SkipReason.COUNT_LIMIT = ''count_limit''"
| "SkipReason_value SkipReason.SYMLINK = ''symlink''"
| "SkipReason_value SkipReason.BINARY_UNSUPPORTED = ''binary_unsupported''"
| "SkipReason_value SkipReason.UNREADABLE = ''unreadable''"
| "SkipReason_value SkipReason.IGNORED_PATH = ''ignored_path''"
| "SkipReason_value SkipReason.UNSUPPORTED_TYPE = ''unsupported_type''"

definition SkipReason_members :: "SkipReason list" where
  "SkipReason_members =
     [SkipReason.SIZE_LIMIT, SkipReason.TOTAL_SIZE_LIMIT, SkipReason.DEPTH_LIMIT,
      SkipReason.COUNT_LIMIT, SkipReason.SYMLINK, SkipReason.BINARY_UNSUPPORTED,
      SkipReason.UNREADABLE, SkipReason.IGNORED_PATH, SkipReason.UNSUPPORTED_TYPE]"

interpretation skip_reason: str_enum SkipReason_members SkipReason_value
  by (rule str_enumI) (use SkipReason.nchotomy in \<open>auto simp: SkipReason_members_def\<close>)

datatype FindingCategory =
    SECRET_EXPOSURE | PII_EXPOSURE | UNSAFE_LOGGING | AUDIT_GAP | BROAD_PERMISSIONS
  | UNSAFE_SQL | INSECURE_CONFIGURATION | UNSUPPORTED_SENSITIVE_FILE

primrec FindingCategory_value :: "FindingCategory \<Rightarrow> string" where
  "FindingCategory_value FindingCategory.SECRET_EXPOSURE = ''secret_exposure''"
| "FindingCategory_value FindingCategory.PII_EXPOSURE = ''pii_exposure''"
| "FindingCategory_value FindingCategory.UNSAFE_LOGGING = ''unsafe_logging''"
| "FindingCategory_value FindingCategory.AUDIT_GAP = ''audit_gap''"
| "FindingCategory_value FindingCategory.BROAD_PERMISSIONS = ''broad_permissions''"
| "FindingCategory_value FindingCategory.UNSAFE_SQL = ''unsafe_sql''"
| "FindingCategory_value FindingCategory.INSECURE_CONFIGURATION = ''insecure_configuration''"
| "FindingCategory_value FindingCategory.UNSUPPORTED_SENSITIVE_FILE = ''unsupported_sensitive_file''"

definition FindingCategory_members :: "FindingCategory list" where
  "FindingCategory_members =
     [FindingCategory.SECRET_EXPOSURE, FindingCategory.PII_EXPOSURE,
      FindingCategory.UNSAFE_LOGGING, FindingCategory.AUDIT_GAP,
      FindingCategory.BROAD_PERMISSIONS, FindingCategory.UNSAFE_SQL,
      FindingCategory.INSECURE_CONFIGURATION, FindingCategory.UNSUPPORTED_SENSITIVE_FILE]"

interpretation finding_category: str_enum FindingCategory_members FindingCategory_value
  by (rule str_enumI) (use FindingCategory.nchotomy in \<open>auto simp: FindingCategory_members_def\<close>)

datatype FindingType =
    OBSERVED_EVIDENCE | INFERENCE

primrec FindingType_value :: "FindingType \<Rightarrow> string" where
  "FindingType_value FindingType.OBSERVED_EVIDENCE = ''observed_evidence''"
| "FindingType_value FindingType.INFERENCE = ''inference''"

definition FindingType_members :: "FindingType list" where
  "FindingType_members =
     [FindingType.OBSERVED_EVIDENCE, FindingType.INFERENCE]"

interpretation finding_type: str_enum FindingType_members FindingType_value
  by (rule str_enumI) (use FindingType.nchotomy in \<open>auto simp: FindingType_members_def\<close>)

datatype RemediationMode =
    ADVISORY_ONLY

primrec RemediationMode_value :: "RemediationMode \<Rightarrow> string" where
  "RemediationMode_value RemediationMode.ADVISORY_ONLY = ''advisory_only''"

definition RemediationMode_members :: "RemediationMode list" where
  "RemediationMode_members =
     [RemediationMode.ADVISORY_ONLY]"

interpretation remediation_mode: str_enum RemediationMode_members RemediationMode_value
  by (rule str_enumI) (use RemediationMode.nchotomy in \<open>auto simp: RemediationMode_members_def\<close>)

datatype MappingSource =
    FILE_PATH | FILE_NAME | DIRECTORY_NAME | CONFIG_KEY | SCHEMA_NAME | TABLE_NAME
  | API_PATH | BANKING_TERMINOLOGY | SCANNER_RESULT

primrec MappingSource_value :: "MappingSource \<Rightarrow> string" where
  "MappingSource_value MappingSource.FILE_PATH = ''file_path''"
| "MappingSource_value MappingSource.FILE_NAME = ''file_name''"
| "MappingSource_value MappingSource.DIRECTORY_NAME = ''directory_name''"
| "MappingSource_value MappingSource.CONFIG_KEY = ''config_key''"
| "MappingSource_value MappingSource.SCHEMA_NAME = ''schema_name''"
| "MappingSource_value MappingSource.TABLE_NAME = ''table_name''"
| "MappingSource_value MappingSource.API_PATH = ''api_path''"
| "MappingSource_value MappingSource.BANKING_TERMINOLOGY = ''banking_terminology''"
| "MappingSource_value MappingSource.SCANNER_RESULT = ''scanner_result''"

definition MappingSource_members :: "MappingSource list" where
  "MappingSource_members =
     [MappingSource.FILE_PATH, MappingSource.FILE_NAME, MappingSource.DIRECTORY_NAME,
      MappingSource.CONFIG_KEY, MappingSource.SCHEMA_NAME, MappingSource.TABLE_NAME,
      MappingSource.API_PATH, MappingSource.BANKING_TERMINOLOGY, MappingSource.SCANNER_RESULT]"

interpretation mapping_source: str_enum MappingSource_members MappingSource_value
  by (rule str_enumI) (use MappingSource.nchotomy in \<open>auto simp: MappingSource_members_def\<close>)

datatype EvidenceType =
    FILE_EXCERPT | CONFIG_VALUE | SCAN_RESULT | RETRIEVED_CHUNK

primrec EvidenceType_value :: "EvidenceType \<Rightarrow> string" where
  "EvidenceType_value EvidenceType.FILE_EXCERPT = ''file_excerpt''"
| "EvidenceType_value EvidenceType.CONFIG_VALUE = ''config_value''"
| "EvidenceType_value EvidenceType.SCAN_RESULT = ''scan_result''"
| "EvidenceType_value EvidenceType.RETRIEVED_CHUNK = ''retrieved_chunk''"

definition EvidenceType_members :: "EvidenceType list" where
  "EvidenceType_members =
     [EvidenceType.FILE_EXCERPT, EvidenceType.CONFIG_VALUE, EvidenceType.SCAN_RESULT,
      EvidenceType.RETRIEVED_CHUNK]"

interpretation evidence_type: str_enum EvidenceType_members EvidenceType_value
  by (rule str_enumI) (use EvidenceType.nchotomy in \<open>auto simp: EvidenceType_members_def\<close>)

datatype RecommendationStatus =
    OPEN | ACCEPTED | DEFERRED | REJECTED

primrec RecommendationStatus_value :: "RecommendationStatus \<Rightarrow> string" where
  "RecommendationStatus_value RecommendationStatus.OPEN = ''open''"
| "RecommendationStatus_value RecommendationStatus.ACCEPTED = ''accepted''"
| "RecommendationStatus_value RecommendationStatus.DEFERRED = ''deferred''"
| "RecommendationStatus_value RecommendationStatus.REJECTED = ''rejected''"

definition RecommendationStatus_members :: "RecommendationStatus list" where
  "RecommendationStatus_members =
     [RecommendationStatus.OPEN, RecommendationStatus.ACCEPTED, RecommendationStatus.DEFERRED,
      RecommendationStatus.REJECTED]"

interpretation recommendation_status: str_enum RecommendationStatus_members RecommendationStatus_value
  by (rule str_enumI) (use RecommendationStatus.nchotomy in \<open>auto simp: RecommendationStatus_members_def\<close>)

datatype RecommendationSource =
    DETERMINISTIC_TEMPLATE

primrec RecommendationSource_value :: "RecommendationSource \<Rightarrow> string" where
  "RecommendationSource_value RecommendationSource.DETERMINISTIC_TEMPLATE = ''deterministic_template''"

definition RecommendationSource_members :: "RecommendationSource list" where
  "RecommendationSource_members =
     [RecommendationSource.DETERMINISTIC_TEMPLATE]"

interpretation recommendation_source: str_enum RecommendationSource_members RecommendationSource_value
  by (rule str_enumI) (use RecommendationSource.nchotomy in \<open>auto simp: RecommendationSource_members_def\<close>)

datatype ControlEvaluationStatus =
    SATISFIED | GAP | INSUFFICIENT_EVIDENCE

primrec ControlEvaluationStatus_value :: "ControlEvaluationStatus \<Rightarrow> string" where
  "ControlEvaluationStatus_value ControlEvaluationStatus.SATISFIED = ''satisfied''"
| "ControlEvaluationStatus_value ControlEvaluationStatus.GAP = ''gap''"
| "ControlEvaluationStatus_value ControlEvaluationStatus.INSUFFICIENT_EVIDENCE = ''insufficient_evidence''"

definition ControlEvaluationStatus_members :: "ControlEvaluationStatus list" where
  "ControlEvaluationStatus_members =
     [ControlEvaluationStatus.SATISFIED, ControlEvaluationStatus.GAP,
      ControlEvaluationStatus.INSUFFICIENT_EVIDENCE]"

interpretation control_evaluation_status: str_enum ControlEvaluationStatus_members ControlEvaluationStatus_value
  by (rule str_enumI) (use ControlEvaluationStatus.nchotomy in \<open>auto simp: ControlEvaluationStatus_members_def\<close>)

datatype AuditEventType =
    SCAN_PERSISTED | SCORING_COMPLETED | CONTROL_EVALUATION_COMPLETED
  | ASSESSMENT_COMPLETED | FINDING_REVIEWED | RECOMMENDATION_REVIEWED | SCORE_OVERRIDDEN
  | AGENT_ACTION

primrec AuditEventType_value :: "AuditEventType \<Rightarrow> string" where
  "AuditEventType_value AuditEventType.SCAN_PERSISTED = ''scan_persisted''"
| "AuditEventType_value AuditEventType.SCORING_COMPLETED = ''scoring_completed''"
| "AuditEventType_value AuditEventType.CONTROL_EVALUATION_COMPLETED = ''control_evaluation_completed''"
| "AuditEventType_value AuditEventType.ASSESSMENT_COMPLETED = ''assessment_completed''"
| "AuditEventType_value AuditEventType.FINDING_REVIEWED = ''finding_reviewed''"
| "AuditEventType_value AuditEventType.RECOMMENDATION_REVIEWED = ''recommendation_reviewed''"
| "AuditEventType_value AuditEventType.SCORE_OVERRIDDEN = ''score_overridden''"
| "AuditEventType_value AuditEventType.AGENT_ACTION = ''agent_action''"

definition AuditEventType_members :: "AuditEventType list" where
  "AuditEventType_members =
     [AuditEventType.SCAN_PERSISTED, AuditEventType.SCORING_COMPLETED,
      AuditEventType.CONTROL_EVALUATION_COMPLETED, AuditEventType.ASSESSMENT_COMPLETED,
      AuditEventType.FINDING_REVIEWED, AuditEventType.RECOMMENDATION_REVIEWED,
      AuditEventType.SCORE_OVERRIDDEN, AuditEventType.AGENT_ACTION]"

interpretation audit_event_type: str_enum AuditEventType_members AuditEventType_value
  by (rule str_enumI) (use AuditEventType.nchotomy in \<open>auto simp: AuditEventType_members_def\<close>)

datatype AgentActionType =
    EXPLAIN_FINDING | SUMMARIZE_DOMAIN | ANSWER_QUESTION | EXECUTIVE_SUMMARY

primrec AgentActionType_value :: "AgentActionType \<Rightarrow> string" where
  "AgentActionType_value AgentActionType.EXPLAIN_FINDING = ''explain_finding''"
| "AgentActionType_value AgentActionType.SUMMARIZE_DOMAIN = ''summarize_domain''"
| "AgentActionType_value AgentActionType.ANSWER_QUESTION = ''answer_question''"
| "AgentActionType_value AgentActionType.EXECUTIVE_SUMMARY = ''executive_summary''"

definition AgentActionType_members :: "AgentActionType list" where
  "AgentActionType_members =
     [AgentActionType.EXPLAIN_FINDING, AgentActionType.SUMMARIZE_DOMAIN,
      AgentActionType.ANSWER_QUESTION, AgentActionType.EXECUTIVE_SUMMARY]"

interpretation agent_action_type: str_enum AgentActionType_members AgentActionType_value
  by (rule str_enumI) (use AgentActionType.nchotomy in \<open>auto simp: AgentActionType_members_def\<close>)

datatype Role =
    ADMIN | MANAGER | EMPLOYEE

primrec Role_value :: "Role \<Rightarrow> string" where
  "Role_value Role.ADMIN = ''admin''"
| "Role_value Role.MANAGER = ''manager''"
| "Role_value Role.EMPLOYEE = ''employee''"

definition Role_members :: "Role list" where
  "Role_members =
     [Role.ADMIN, Role.MANAGER, Role.EMPLOYEE]"

interpretation role: str_enum Role_members Role_value
  by (rule str_enumI) (use Role.nchotomy in \<open>auto simp: Role_members_def\<close>)

datatype AuthEventType =
    USER_LOGIN | USER_LOGIN_FAILED | USER_LOCKED_OUT | USER_LOGOUT | SESSION_EXPIRED
  | SESSION_INVALIDATED | PASSWORD_CHANGED | USER_CREATED | USER_ROLE_CHANGED
  | USER_ACTIVATED | USER_DEACTIVATED | USER_PASSWORD_RESET | ACCESS_DENIED
  | ASSESSMENT_REQUESTED | QUICK_SCAN_REQUESTED | REPORT_EXPORTED

primrec AuthEventType_value :: "AuthEventType \<Rightarrow> string" where
  "AuthEventType_value AuthEventType.USER_LOGIN = ''user_login''"
| "AuthEventType_value AuthEventType.USER_LOGIN_FAILED = ''user_login_failed''"
| "AuthEventType_value AuthEventType.USER_LOCKED_OUT = ''user_locked_out''"
| "AuthEventType_value AuthEventType.USER_LOGOUT = ''user_logout''"
| "AuthEventType_value AuthEventType.SESSION_EXPIRED = ''session_expired''"
| "AuthEventType_value AuthEventType.SESSION_INVALIDATED = ''session_invalidated''"
| "AuthEventType_value AuthEventType.PASSWORD_CHANGED = ''password_changed''"
| "AuthEventType_value AuthEventType.USER_CREATED = ''user_created''"
| "AuthEventType_value AuthEventType.USER_ROLE_CHANGED = ''user_role_changed''"
| "AuthEventType_value AuthEventType.USER_ACTIVATED = ''user_activated''"
| "AuthEventType_value AuthEventType.USER_DEACTIVATED = ''user_deactivated''"
| "AuthEventType_value AuthEventType.USER_PASSWORD_RESET = ''user_password_reset''"
| "AuthEventType_value AuthEventType.ACCESS_DENIED = ''access_denied''"
| "AuthEventType_value AuthEventType.ASSESSMENT_REQUESTED = ''assessment_requested''"
| "AuthEventType_value AuthEventType.QUICK_SCAN_REQUESTED = ''quick_scan_requested''"
| "AuthEventType_value AuthEventType.REPORT_EXPORTED = ''report_exported''"

definition AuthEventType_members :: "AuthEventType list" where
  "AuthEventType_members =
     [AuthEventType.USER_LOGIN, AuthEventType.USER_LOGIN_FAILED, AuthEventType.USER_LOCKED_OUT,
      AuthEventType.USER_LOGOUT, AuthEventType.SESSION_EXPIRED,
      AuthEventType.SESSION_INVALIDATED, AuthEventType.PASSWORD_CHANGED,
      AuthEventType.USER_CREATED, AuthEventType.USER_ROLE_CHANGED,
      AuthEventType.USER_ACTIVATED, AuthEventType.USER_DEACTIVATED,
      AuthEventType.USER_PASSWORD_RESET, AuthEventType.ACCESS_DENIED,
      AuthEventType.ASSESSMENT_REQUESTED, AuthEventType.QUICK_SCAN_REQUESTED,
      AuthEventType.REPORT_EXPORTED]"

interpretation auth_event_type: str_enum AuthEventType_members AuthEventType_value
  by (rule str_enumI) (use AuthEventType.nchotomy in \<open>auto simp: AuthEventType_members_def\<close>)

end
