(* ===== verification/AuditTrail.thy ===== *)
theory AuditTrail
  imports Sanitizer Database Enums
begin

text \<open>
  \<^verbatim>\<open>governance/audit_trail.py\<close> and \<open>AuditRepository\<close> of
  \<^verbatim>\<open>storage/db/repositories.py\<close>: building a sanitized audit event and appending it. The
  event type is kept by value, since the code only reads \<open>event_type.value\<close>. Recording
  commits the session, with whatever the caller changed in it before. The locale
  \<open>append_log\<close> is what the callers rely on: recording appends one entry or fails and
  changes nothing.
\<close>

section \<open>Building an event\<close>

record AuditEventInput =
  ai_event_type :: string
  ai_actor :: string
  ai_summary :: string
  ai_scan_id :: "string option"
  ai_payload :: "(string \<times> json) list"

record AuditEventResult =
  ar_event_type :: string
  ar_actor :: string
  ar_summary :: string
  ar_scan_id :: "string option"
  ar_payload :: "(string \<times> json) list"

primrec sanitize_value :: "json \<Rightarrow> json" where
  "sanitize_value JNull = JNull"
| "sanitize_value (JBool b) = JBool b"
| "sanitize_value (JInt i) = JInt i"
| "sanitize_value (JFloat x) = JFloat x"
| "sanitize_value (JStr s) = JStr (sanitize_report s)"
| "sanitize_value (JList vs) = JList (map sanitize_value vs)"
| "sanitize_value (JObj kvs) = JObj (map (map_prod id sanitize_value) kvs)"

definition sanitize_payload :: "(string \<times> json) list \<Rightarrow> (string \<times> json) list" where
  "sanitize_payload payload = map (map_prod id sanitize_value) payload"

definition build_audit_event :: "AuditEventInput \<Rightarrow> AuditEventResult result" where
  "build_audit_event event =
     (if strip (ai_actor event) = []
      then Inl (Err PyValueError ''audit event actor must not be empty'')
      else Inr \<lparr>ar_event_type = ai_event_type event, ar_actor = ai_actor event,
                ar_summary = sanitize_report (ai_summary event),
                ar_scan_id = ai_scan_id event,
                ar_payload = sanitize_payload (ai_payload event)\<rparr>)"

section \<open>The repository\<close>

definition audit_row :: "AuditEventResult \<Rightarrow> string \<Rightarrow> datetime \<Rightarrow> AuditEvent" where
  "audit_row built i created =
     \<lparr>ae_id = i, ae_scan_id = ar_scan_id built, ae_event_type = ar_event_type built,
      ae_actor = ar_actor built, ae_summary = ar_summary built, ae_payload = ar_payload built,
      ae_created_at = created\<rparr>"

definition record_event :: "AuditEventInput \<Rightarrow> AuditEvent op" where
  "record_event event s =
     (case build_audit_event event of
        Inl e \<Rightarrow> (Inl e, s)
      | Inr built \<Rightarrow>
          (let (i, s1) = new_uuid s;
               row = audit_row built i (now s1);
               s2 = map_work (\<lambda>d. d\<lparr>db_audit_events := db_audit_events d @ [row]\<rparr>) s1
           in (Inr row, commit s2)))"

definition audit_get_for_scan :: "string \<Rightarrow> database \<Rightarrow> AuditEvent list" where
  "audit_get_for_scan scan_id d =
     order_by (\<lambda>e. utc_instant (ae_created_at e))
       (filter (\<lambda>e. ae_scan_id e = Some scan_id) (db_audit_events d))"

definition audit_get_all :: "database \<Rightarrow> AuditEvent list" where
  "audit_get_all d = order_by (\<lambda>e. utc_instant (ae_created_at e)) (db_audit_events d)"

section \<open>The interface\<close>

locale append_log =
  fixes log :: "'s \<Rightarrow> 'e list"
    and append_event :: "'i \<Rightarrow> 's \<Rightarrow> ('x + 'e) \<times> 's"
    and accepted :: "'i \<Rightarrow> bool"
  assumes append_accepted:
      "accepted i \<Longrightarrow> \<exists>e. fst (append_event i s) = Inr e \<and> log (snd (append_event i s)) = log s @ [e]"
    and append_refused:
      "\<not> accepted i \<Longrightarrow> snd (append_event i s) = s \<and> (\<exists>x. fst (append_event i s) = Inl x)"
begin

primrec append_all :: "'i list \<Rightarrow> 's \<Rightarrow> ('x + 'e list) \<times> 's" where
  "append_all [] s = (Inr [], s)"
| "append_all (i # is) s =
     and_then (append_event i s) (\<lambda>e s'. and_then (append_all is s') (\<lambda>es s''. (Inr (e # es), s'')))"

lemma append_prefix: "prefix (log s) (log (snd (append_event i s)))"
  using append_accepted [of i s] append_refused [of i s] by (cases "accepted i") auto

lemma append_all_accepted:
  "list_all accepted is \<Longrightarrow>
     \<exists>es. fst (append_all is s) = Inr es \<and> length es = length is
        \<and> log (snd (append_all is s)) = log s @ es"
proof (induction "is" arbitrary: s)
  case Nil
  then show ?case by simp
next
  case (Cons i "is")
  then have "accepted i" and rest: "list_all accepted is" by simp_all
  then obtain e where e: "fst (append_event i s) = Inr e"
    "log (snd (append_event i s)) = log s @ [e]"
    using append_accepted by blast
  from Cons.IH [OF rest, of "snd (append_event i s)"] e obtain es where "fst (append_all is (snd (append_event i s))) = Inr es"
    "length es = length is" "log (snd (append_all is (snd (append_event i s)))) = log s @ e # es"
    by auto
  with e show ?case
    by (cases "append_event i s"; cases "append_all is (snd (append_event i s))") auto
qed

end

definition session_audit_log :: "session \<Rightarrow> AuditEvent list" where
  "session_audit_log s = db_audit_events (ss_work s)"

interpretation audit_log: append_log session_audit_log record_event
    "\<lambda>i. strip (ai_actor i) \<noteq> []"
  by unfold_locales
     (auto simp: record_event_def build_audit_event_def session_audit_log_def new_uuid_def
        map_work_def commit_def split_beta Let_def)

section \<open>Lemmas\<close>

lemma record_event_Inr:
  "fst (record_event event s) = Inr row \<Longrightarrow>
     strip (ai_actor event) \<noteq> []
     \<and> row = audit_row \<lparr>ar_event_type = ai_event_type event, ar_actor = ai_actor event,
                ar_summary = sanitize_report (ai_summary event), ar_scan_id = ai_scan_id event,
                ar_payload = sanitize_payload (ai_payload event)\<rparr> (pf_uuid s (pf_draws s)) (now s)"
  by (auto simp: record_event_def build_audit_event_def new_uuid_def now_def split_beta Let_def
      split: if_splits)

text \<open>The state after recording: the work of the session, with the event, is committed.\<close>

definition audit_entry :: "AuditEventInput \<Rightarrow> session \<Rightarrow> AuditEvent" where
  "audit_entry event s =
     audit_row \<lparr>ar_event_type = ai_event_type event, ar_actor = ai_actor event,
        ar_summary = sanitize_report (ai_summary event), ar_scan_id = ai_scan_id event,
        ar_payload = sanitize_payload (ai_payload event)\<rparr> (pf_uuid s (pf_draws s)) (now s)"

definition with_event :: "AuditEventInput \<Rightarrow> session \<Rightarrow> session" where
  "with_event event s =
     commit (map_work (\<lambda>d. d\<lparr>db_audit_events := db_audit_events d @ [audit_entry event s]\<rparr>)
       (s\<lparr>pf_draws := Suc (pf_draws s)\<rparr>))"

lemma record_event_eq:
  "record_event event s =
     (if strip (ai_actor event) = []
      then (Inl (Err PyValueError ''audit event actor must not be empty''), s)
      else (Inr (audit_entry event s), with_event event s))"
  by (simp add: record_event_def build_audit_event_def with_event_def audit_entry_def
      new_uuid_def now_def Let_def)

lemma with_event_fields [simp]:
  "db_users (pf_store (with_event event s)) = db_users (ss_work s)"
  "db_users (ss_work (with_event event s)) = db_users (ss_work s)"
  "pf_clock (with_event event s) = pf_clock s"
  "pf_kdf_calls (with_event event s) = pf_kdf_calls s"
  "pf_uuid (with_event event s) = pf_uuid s"
  "pf_urandom (with_event event s) = pf_urandom s"
  "pf_draws (with_event event s) = Suc (pf_draws s)"
  "pf_store (with_event event s) = ss_work (with_event event s)"
  "ss_work (with_event event s) =
     (ss_work s)\<lparr>db_audit_events := db_audit_events (ss_work s) @ [audit_entry event s]\<rparr>"
  by (simp_all add: with_event_def commit_def map_work_def)

text \<open>The audit log of a later database extends the earlier one.\<close>

definition audit_extends :: "database \<Rightarrow> database \<Rightarrow> bool" where
  "audit_extends d e = prefix (db_audit_events d) (db_audit_events e)"

interpretation audit_history: history audit_extends
  by unfold_locales (auto simp: audit_extends_def)

text \<open>Any history whose relation ignores new audit entries survives recording.\<close>

context history
begin

lemma keeps_record_event:
  assumes "\<And>d es. R d (d\<lparr>db_audit_events := db_audit_events d @ es\<rparr>)"
  shows "keeps (record_event event)"
  using assms R_trans
  by (auto simp: keeps_def record_event_eq simp del: with_event_fields(1,2))

end

end
