(* ===== verification/Users.thy ===== *)
theory Users
  imports AuditTrail
begin

text \<open>
  \<^verbatim>\<open>auth/user_repository.py\<close>, and the row operations it shares with the other
  repositories: replacing a row by its primary key and adding one. The locale \<open>row_store\<close>
  is what a repository relies on a table for; it is interpreted on every table whose rows
  the platform changes in place.
\<close>

section \<open>Rows of a table\<close>

text \<open>Changing attributes of a loaded row writes the row with that primary key.\<close>

definition put_row :: "('r \<Rightarrow> string) \<Rightarrow> 'r \<Rightarrow> 'r list \<Rightarrow> 'r list" where
  "put_row key r rows = update_where (\<lambda>x. key x = key r) (\<lambda>_. r) rows"

text \<open>Changing some attributes of the row with a given primary key.\<close>

definition update_row :: "('r \<Rightarrow> string) \<Rightarrow> string \<Rightarrow> ('r \<Rightarrow> 'r) \<Rightarrow> 'r list \<Rightarrow> 'r list" where
  "update_row key i f rows = update_where (\<lambda>x. key x = i) f rows"

locale row_store =
  fixes rows :: "database \<Rightarrow> 'r list"
    and set_rows :: "'r list \<Rightarrow> database \<Rightarrow> database"
    and key :: "'r \<Rightarrow> string"
  assumes rows_set_rows [simp]: "rows (set_rows rs d) = rs"
begin

lemma get_put:
  "get_row key i (rows (set_rows (put_row key r (rows d)) d)) =
     (if i = key r then (case get_row key i (rows d) of None \<Rightarrow> None | Some _ \<Rightarrow> Some r)
      else get_row key i (rows d))"
proof -
  have "get_row key i (put_row key r xs) =
     (if i = key r then (case get_row key i xs of None \<Rightarrow> None | Some _ \<Rightarrow> Some r)
      else get_row key i xs)" for xs
    by (induction xs) (auto simp: get_row_def put_row_def)
  then show ?thesis by simp
qed

lemma get_update:
  assumes "\<And>x. key (f x) = key x"
  shows "get_row key i (rows (set_rows (update_row key j f (rows d)) d)) =
     (if i = j then map_option f (get_row key i (rows d)) else get_row key i (rows d))"
proof -
  have "get_row key i (update_row key j f xs) =
     (if i = j then map_option f (get_row key i xs) else get_row key i xs)" for xs
    using assms by (induction xs) (auto simp: get_row_def update_row_def)
  then show ?thesis by simp
qed

lemma keys_put: "map key (rows (set_rows (put_row key r (rows d)) d)) = map key (rows d)"
  by (simp add: put_row_def map_update_where)

lemma put_other_filter:
  assumes "\<And>x. x \<in> set (rows d) \<Longrightarrow> key x = key r \<Longrightarrow> \<not> q x" and "\<not> q r"
  shows "filter q (rows (set_rows (put_row key r (rows d)) d)) = filter q (rows d)"
  unfolding rows_set_rows put_row_def
  by (rule filter_update_where_other) (use assms in auto)

end

interpretation user_rows: row_store db_users "\<lambda>rs d. d\<lparr>db_users := rs\<rparr>" us_id
  by unfold_locales simp

interpretation finding_rows: row_store db_findings "\<lambda>rs d. d\<lparr>db_findings := rs\<rparr>" fd_id
  by unfold_locales simp

interpretation recommendation_rows:
    row_store db_recommendations "\<lambda>rs d. d\<lparr>db_recommendations := rs\<rparr>" rc_id
  by unfold_locales simp

section \<open>The user repository\<close>

definition normalize_username :: "string \<Rightarrow> string" where
  "normalize_username username = lower (strip username)"

definition put_user :: "User \<Rightarrow> session \<Rightarrow> session" where
  "put_user user = map_work (\<lambda>d. d\<lparr>db_users := put_row us_id user (db_users d)\<rparr>)"

text \<open>\<open>add\<close>: the id is drawn and the row written when the session is flushed.\<close>

definition add_user :: "(string \<Rightarrow> User) \<Rightarrow> session \<Rightarrow> User \<times> session" where
  "add_user mk s =
     (let (i, s1) = new_uuid s; user = mk i
      in (user, map_work (\<lambda>d. d\<lparr>db_users := db_users d @ [user]\<rparr>) s1))"

definition get_by_id :: "string \<Rightarrow> database \<Rightarrow> User option" where
  "get_by_id user_id d = get_row us_id user_id (db_users d)"

text \<open>The column is unique: the query has at most one row.\<close>

definition get_by_username :: "string \<Rightarrow> database \<Rightarrow> User option" where
  "get_by_username username d =
     get_row us_username (normalize_username username) (db_users d)"

definition list_all_users :: "database \<Rightarrow> User list" where
  "list_all_users d = order_by us_username (db_users d)"

definition is_active_admin :: "User \<Rightarrow> bool" where
  "is_active_admin u = (us_role u = Role_value Role.ADMIN \<and> us_is_active u)"

definition count_active_admins :: "database \<Rightarrow> nat" where
  "count_active_admins d = length (filter is_active_admin (db_users d))"

section \<open>Lemmas\<close>

lemma normalize_idem [simp]: "normalize_username (normalize_username u) = normalize_username u"
  by (simp add: normalize_username_def flip: lower_strip)

lemma get_by_id_put:
  "get_by_id i (ss_work (put_user u s)) =
     (if i = us_id u then (case get_by_id i (ss_work s) of None \<Rightarrow> None | Some _ \<Rightarrow> Some u)
      else get_by_id i (ss_work s))"
  using user_rows.get_put [of i u "ss_work s"] by (simp add: get_by_id_def put_user_def map_work_def)

lemma get_by_id_Some: "get_by_id i d = Some u \<Longrightarrow> u \<in> set (db_users d) \<and> us_id u = i"
  by (simp add: get_by_id_def get_row_Some)

lemma get_by_username_Some:
  "get_by_username n d = Some u \<Longrightarrow> u \<in> set (db_users d) \<and> us_username u = normalize_username n"
  by (simp add: get_by_username_def get_row_Some)

lemma put_user_fields [simp]:
  "pf_store (put_user u s) = pf_store s" "pf_clock (put_user u s) = pf_clock s"
  "pf_kdf_calls (put_user u s) = pf_kdf_calls s" "pf_draws (put_user u s) = pf_draws s"
  "pf_uuid (put_user u s) = pf_uuid s" "pf_urandom (put_user u s) = pf_urandom s"
  "ss_work (put_user u s) =
     (ss_work s)\<lparr>db_users := put_row us_id u (db_users (ss_work s))\<rparr>"
  by (simp_all add: put_user_def map_work_def)

lemma set_put_row: "x \<in> set (put_row key r rows) \<Longrightarrow> x = r \<or> x \<in> set rows"
  by (auto simp: put_row_def set_update_where split: if_splits)

lemma put_row_in: "key x \<noteq> key r \<Longrightarrow> x \<in> set rows \<Longrightarrow> x \<in> set (put_row key r rows)"
  by (auto simp: put_row_def set_update_where intro!: bexI [of _ x])

lemma put_row_self: "x \<in> set rows \<Longrightarrow> key x = key r \<Longrightarrow> r \<in> set (put_row key r rows)"
  by (auto simp: put_row_def set_update_where intro!: bexI [of _ x])

end
