(* ===== verification/PasswordHash.thy ===== *)
theory PasswordHash
  imports Prelude Payload
begin

text \<open>
  \<^verbatim>\<open>auth/password_hasher.py\<close>: the self-describing stored format and its verification. The
  scrypt derivation of \<open>hashlib\<close> is a field of the hasher: bytes of the password, salt,
  n, r, p and digest length to a digest, or the exception it raises. \<open>verify\<close> also counts
  the derivations it makes. Base 64 and \<open>int\<close> are Python's, strict decoding included.
\<close>

section \<open>Base 64\<close>

definition b64_char :: "nat \<Rightarrow> char" where
  "b64_char n = char_of
     (if n < 26 then 65 + n else if n < 52 then 71 + n else if n < 62 then n - 4
      else if n = 62 then 43 else 47)"

definition b64_value :: "char \<Rightarrow> nat option" where
  "b64_value c =
     (let k = code c
      in if 65 \<le> k \<and> k \<le> 90 then Some (k - 65)
         else if 97 \<le> k \<and> k \<le> 122 then Some (k - 71)
         else if 48 \<le> k \<and> k \<le> 57 then Some (k + 4)
         else if k = 43 then Some 62 else if k = 47 then Some 63 else None)"

definition pad :: char where
  "pad = CHR ''=''"

fun b64_sextets :: "nat list \<Rightarrow> nat list" where
  "b64_sextets (a # b # c # r) =
     [a div 4, a mod 4 * 16 + b div 16, b mod 16 * 4 + c div 64, c mod 64] @ b64_sextets r"
| "b64_sextets [a, b] = [a div 4, a mod 4 * 16 + b div 16, b mod 16 * 4]"
| "b64_sextets [a] = [a div 4, a mod 4 * 16]"
| "b64_sextets [] = []"

definition b64encode :: "bytes \<Rightarrow> string" where
  "b64encode bs =
     map b64_char (b64_sextets (map nat_of_byte bs)) @ replicate ((3 - length bs mod 3) mod 3) pad"

fun b64_octets :: "nat list \<Rightarrow> nat list" where
  "b64_octets (x # y # z # w # r) =
     [x * 4 + y div 16, y mod 16 * 16 + z div 4, z mod 4 * 64 + w] @ b64_octets r"
| "b64_octets [x, y, z] = [x * 4 + y div 16, y mod 16 * 16 + z div 4]"
| "b64_octets [x, y] = [x * 4 + y div 16]"
| "b64_octets _ = []"

text \<open>\<open>base64.b64decode(s, validate=True)\<close>; \<open>None\<close> is \<open>binascii.Error\<close>.\<close>

definition b64decode :: "string \<Rightarrow> bytes option" where
  "b64decode s =
     (let data = takeWhile (\<lambda>c. b64_value c \<noteq> None) s;
          padding = dropWhile (\<lambda>c. b64_value c \<noteq> None) s;
          k = length data mod 4
      in if (k = 0 \<and> (if data = [] then padding = [] else list_all (\<lambda>c. c = pad) padding))
            \<or> (k = 2 \<and> padding = [pad, pad]) \<or> (k = 3 \<and> padding = [pad])
         then Some (map byte_of (b64_octets (map (\<lambda>c. the (b64_value c)) data)))
         else None)"

section \<open>Integers\<close>

fun int_literal :: "string \<Rightarrow> bool" where
  "int_literal [] = False"
| "int_literal [c] = is_digit c"
| "int_literal (c # d # s) =
     (is_digit c \<and> (if d = CHR ''_'' then int_literal s else int_literal (d # s)))"

definition digits_value :: "string \<Rightarrow> nat" where
  "digits_value s = foldl (\<lambda>n c. if c = CHR ''_'' then n else 10 * n + (code c - 48)) 0 s"

text \<open>\<open>int(s)\<close> of a string; \<open>None\<close> is \<open>ValueError\<close>.\<close>

definition py_int :: "string \<Rightarrow> int option" where
  "py_int s =
     (let t = strip s
      in case t of
           [] \<Rightarrow> None
         | c # u \<Rightarrow>
             if c = CHR ''-'' then (if int_literal u then Some (- int (digits_value u)) else None)
             else if c = CHR ''+'' then (if int_literal u then Some (int (digits_value u)) else None)
             else if int_literal t then Some (int (digits_value t)) else None)"

section \<open>The hasher\<close>

type_synonym scrypt = "bytes \<Rightarrow> bytes \<Rightarrow> int \<Rightarrow> int \<Rightarrow> int \<Rightarrow> nat \<Rightarrow> bytes result"

record PasswordHasher =
  ph_n :: int
  ph_r :: int
  ph_p :: int
  ph_salt_bytes :: nat
  ph_dklen :: nat
  ph_scrypt :: scrypt

definition default_hasher :: "scrypt \<Rightarrow> PasswordHasher" where
  "default_hasher k = \<lparr>ph_n = 2 ^ 17, ph_r = 8, ph_p = 1, ph_salt_bytes = 16, ph_dklen = 32,
     ph_scrypt = k\<rparr>"

definition SCHEME :: string where
  "SCHEME = ''scrypt''"

definition dollar :: char where
  "dollar = CHR ''$''"

definition encode_hash :: "int \<Rightarrow> int \<Rightarrow> int \<Rightarrow> bytes \<Rightarrow> bytes \<Rightarrow> string" where
  "encode_hash n r p salt digest =
     SCHEME @ dollar # show_int n @ dollar # show_int r @ dollar # show_int p @
       dollar # b64encode salt @ dollar # b64encode digest"

definition hash_password :: "PasswordHasher \<Rightarrow> bytes \<Rightarrow> string \<Rightarrow> string result" where
  "hash_password self salt password =
     rbind (ph_scrypt self (utf8 password) salt (ph_n self) (ph_r self) (ph_p self) (ph_dklen self))
       (\<lambda>digest. Inr (encode_hash (ph_n self) (ph_r self) (ph_p self) salt digest))"

definition parse_hash :: "string \<Rightarrow> (int \<times> int \<times> int \<times> bytes \<times> bytes) option" where
  "parse_hash encoded =
     (case split_on dollar encoded of
        [scheme, n, r, p, salt_b64, digest_b64] \<Rightarrow>
          if scheme \<noteq> SCHEME then None
          else (case (b64decode digest_b64, b64decode salt_b64, py_int n, py_int r, py_int p) of
                  (Some expected, Some salt, Some n, Some r, Some p) \<Rightarrow> Some (n, r, p, salt, expected)
                | _ \<Rightarrow> None)
      | _ \<Rightarrow> None)"

definition verify_password :: "PasswordHasher \<Rightarrow> string \<Rightarrow> string \<Rightarrow> bool result \<times> nat" where
  "verify_password self password encoded =
     (case parse_hash encoded of
        None \<Rightarrow> (Inr False, 0)
      | Some (n, r, p, salt, expected) \<Rightarrow>
          (case ph_scrypt self (utf8 password) salt n r p (length expected) of
             Inl e \<Rightarrow>
               if isinstance e PyValueError \<or> isinstance e PyTypeError then (Inr False, 1)
               else (Inl e, 1)
           | Inr actual \<Rightarrow> (Inr (actual = expected), 1)))"

section \<open>Round trips\<close>

lemma b64_value_char: "n < 64 \<Longrightarrow> b64_value (b64_char n) = Some n"
  by (auto simp: b64_value_def b64_char_def Let_def)

lemma b64_sextets_less:
  "\<forall>b \<in> set bs. b < 256 \<Longrightarrow> \<forall>x \<in> set (b64_sextets bs). x < 64"
  by (induction bs rule: b64_sextets.induct) (auto simp: less_mult_imp_div_less)

lemma b64_octets_sextets:
  "\<forall>b \<in> set bs. b < 256 \<Longrightarrow> b64_octets (b64_sextets bs) = bs"
proof (induction bs rule: b64_sextets.induct)
  case (1 a b c r)
  have "(a mod 4 * 16 + b div 16) div 16 = a mod 4" "(b mod 16 * 4 + c div 64) div 4 = b mod 16"
    "(a mod 4 * 16 + b div 16) mod 16 = b div 16" "(b mod 16 * 4 + c div 64) mod 4 = c div 64"
    using 1(2) by (simp_all add: div_add1_eq div_mult2_eq less_mult_imp_div_less mod_add_eq)
  moreover have "a div 4 * 4 + a mod 4 = a" "b div 16 * 16 + b mod 16 = b"
    "c div 64 * 64 + c mod 64 = c" by simp_all
  ultimately show ?case using 1 by (simp add: algebra_simps)
next
  case (2 a b)
  have "(a mod 4 * 16 + b div 16) div 16 = a mod 4" "(a mod 4 * 16 + b div 16) mod 16 = b div 16"
    using 2 by (simp_all add: div_add1_eq less_mult_imp_div_less)
  then show ?case by (simp add: algebra_simps)
qed simp_all

lemma length_b64_sextets:
  "length (b64_sextets bs) mod 4 =
     (if length bs mod 3 = 0 then 0 else if length bs mod 3 = 1 then 2 else 3)"
proof (induction bs rule: b64_sextets.induct)
  case (1 a b c r)
  have "length (b64_sextets (a # b # c # r)) mod 4 = length (b64_sextets r) mod 4"
    "length (a # b # c # r) mod 3 = length r mod 3"
    by (simp_all add: add.commute [of _ 4] add.commute [of _ 3] flip: numeral_eq_Suc)
  with 1 show ?case by simp
qed simp_all

lemma b64_sextets_Nil [simp]: "b64_sextets bs = [] \<longleftrightarrow> bs = []"
  by (cases bs rule: b64_sextets.cases) simp_all

lemma b64_round_trip: "b64decode (b64encode bs) = Some bs"
proof -
  let ?x = "b64_sextets (map nat_of_byte bs)"
  let ?v = "\<lambda>c. b64_value c \<noteq> None"
  have less: "\<forall>x \<in> set ?x. x < 64" by (rule b64_sextets_less) simp
  then have val: "\<forall>c \<in> set (map b64_char ?x). ?v c" by (auto simp: b64_value_char)
  have npad: "\<not> ?v pad" by (simp add: b64_value_def pad_def code_def)
  have tw: "takeWhile ?v (b64encode bs) = map b64_char ?x"
    using val npad by (simp add: b64encode_def takeWhile_append)
  have dw: "dropWhile ?v (b64encode bs) = replicate ((3 - length bs mod 3) mod 3) pad"
    using val npad by (simp add: b64encode_def dropWhile_append)
  have dec: "map (\<lambda>c. the (b64_value c)) (map b64_char ?x) = ?x"
    using less by (simp add: map_idI b64_value_char)
  have oct: "map byte_of (b64_octets ?x) = bs"
    by (simp add: b64_octets_sextets comp_def)
  have "length bs mod 3 < 3" by simp
  then consider "length bs mod 3 = 0" | "length bs mod 3 = 1" | "length bs mod 3 = 2" by linarith
  moreover have "replicate 2 pad = [pad, pad]" by (simp add: numeral_2_eq_2)
  ultimately show ?thesis
    unfolding b64decode_def Let_def tw dw dec oct
    by cases (simp_all add: length_b64_sextets)
qed

lemma strip_no_space: "\<forall>c \<in> set s. \<not> is_space c \<Longrightarrow> strip s = s"
proof -
  assume s: "\<forall>c \<in> set s. \<not> is_space c"
  then have "dropWhile is_space s = s" "dropWhile is_space (rev s) = rev s"
    by (auto simp: dropWhile_eq_self_iff hd_in_set list.set_sel(1) last_in_set hd_rev)
  then show ?thesis by (simp add: strip_def lstrip_def rstrip_def)
qed

lemma set_show_nat: "c \<in> set (show_nat n) \<Longrightarrow> is_digit c"
  by (induction n rule: show_nat.induct) (subst (asm) show_nat.simps, auto simp: is_digit_def split: if_splits)

lemma show_nat_not_Nil [simp]: "show_nat n \<noteq> []"
  by (subst show_nat.simps) simp

lemma int_literal_digits: "s \<noteq> [] \<Longrightarrow> \<forall>c \<in> set s. is_digit c \<Longrightarrow> int_literal s"
  by (induction s rule: int_literal.induct) (auto simp: is_digit_def code_def)

lemma digits_value_show_nat: "digits_value (show_nat n) = n"
proof (induction n rule: show_nat.induct)
  case (1 n)
  have us: "char_of (48 + n mod 10) \<noteq> CHR ''_''" for n :: nat
  proof -
    have "n mod 10 < 10" by simp
    moreover have "code (char_of (48 + n mod 10)) = 48 + n mod 10" by simp
    moreover have "code (CHR ''_'') = 95" by (simp add: code_def)
    ultimately have "code (char_of (48 + n mod 10)) \<noteq> code (CHR ''_'')" by linarith
    then show ?thesis by (metis (no_types))
  qed
  show ?case
  proof (cases "n < 10")
    case True
    with us [of n] show ?thesis by (subst show_nat.simps) (simp add: digits_value_def)
  next
    case False
    with 1 us [of n] show ?thesis by (subst show_nat.simps) (simp add: digits_value_def)
  qed
qed

lemma py_int_show_int: "py_int (show_int i) = Some i"
proof -
  have digits: "\<forall>c \<in> set (show_nat n). is_digit c" "int_literal (show_nat n)" for n
    using set_show_nat int_literal_digits by auto
  have sp: "is_digit c \<Longrightarrow> \<not> is_space c" for c by (simp add: is_digit_def is_space_def)
  have minus: "\<not> is_space (CHR ''-'')" by (simp add: is_space_def code_def)
  have "strip (show_int i) = show_int i"
    by (rule strip_no_space) (auto simp: show_int_def minus sp digits)
  moreover have "py_int s = Some (int (digits_value s))"
    if "strip s = s" "int_literal s" "\<forall>c \<in> set s. is_digit c" for s
    using that by (cases s) (auto simp: py_int_def Let_def is_digit_def code_def)
  moreover have "strip (show_nat n) = show_nat n" for n
    by (rule strip_no_space) (simp add: sp digits)
  ultimately show ?thesis
    using digits digits_value_show_nat by (auto simp: show_int_def py_int_def Let_def)
qed

lemma split_on_single: "a \<notin> set x \<Longrightarrow> split_on a x = [x]"
  by (induction x) auto

lemma dollar_not_in:
  "dollar \<notin> set (show_int i)" "dollar \<notin> set (b64encode bs)" "dollar \<notin> set SCHEME"
proof -
  show "dollar \<notin> set (show_int i)"
    by (auto simp: show_int_def dollar_def is_digit_def code_def dest!: set_show_nat)
  have "b64_char n \<noteq> dollar" if "n < 64" for n
    using b64_value_char [OF that] by (auto simp: dollar_def b64_value_def code_def)
  moreover have "\<forall>x \<in> set (b64_sextets (map nat_of_byte bs)). x < 64"
    by (rule b64_sextets_less) simp
  moreover have "pad \<noteq> dollar" by (simp add: pad_def dollar_def)
  ultimately show "dollar \<notin> set (b64encode bs)"
    by (fastforce simp: b64encode_def)
  show "dollar \<notin> set SCHEME" by (simp add: dollar_def SCHEME_def)
qed

lemma parse_encode_hash: "parse_hash (encode_hash n r p salt digest) = Some (n, r, p, salt, digest)"
  by (simp add: parse_hash_def encode_hash_def split_on_append split_on_single dollar_not_in
      b64_round_trip py_int_show_int)

section \<open>Verification\<close>

text \<open>What the hasher relies on: \<open>hashlib.scrypt\<close> returns the requested number of bytes for
  the hasher's own parameters, and rejects parameters with ValueError or TypeError only.\<close>

definition scrypt_ok :: "PasswordHasher \<Rightarrow> bool" where
  "scrypt_ok h =
     ((\<forall>pw salt n r p len e. ph_scrypt h pw salt n r p len = Inl e
         \<longrightarrow> isinstance e PyValueError \<or> isinstance e PyTypeError)
      \<and> (\<forall>pw salt. \<exists>d. ph_scrypt h pw salt (ph_n h) (ph_r h) (ph_p h) (ph_dklen h) = Inr d
           \<and> length d = ph_dklen h))"

lemma verify_calls_le: "snd (verify_password h pw encoded) \<le> 1"
  by (auto simp: verify_password_def split: option.splits sum.splits)

lemma verify_total: "scrypt_ok h \<Longrightarrow> \<exists>b. fst (verify_password h pw encoded) = Inr b"
  by (auto simp: verify_password_def scrypt_ok_def split: option.splits sum.splits)

lemma hash_total: "scrypt_ok h \<Longrightarrow> \<exists>encoded. hash_password h salt pw = Inr encoded"
  unfolding scrypt_ok_def hash_password_def rbind_Inr_iff by blast

lemma verify_hash:
  assumes "scrypt_ok h" and "hash_password h salt pw = Inr encoded"
  shows "verify_password h pw' encoded =
     (Inr (ph_scrypt h (utf8 pw') salt (ph_n h) (ph_r h) (ph_p h) (ph_dklen h)
         = ph_scrypt h (utf8 pw) salt (ph_n h) (ph_r h) (ph_p h) (ph_dklen h)), 1)"
proof -
  let ?k = "\<lambda>pw. ph_scrypt h (utf8 pw) salt (ph_n h) (ph_r h) (ph_p h) (ph_dklen h)"
  obtain d d' where "?k pw = Inr d" "length d = ph_dklen h" "?k pw' = Inr d'"
    using assms(1) unfolding scrypt_ok_def by meson
  with assms(2) show ?thesis
    by (auto simp: hash_password_def verify_password_def parse_encode_hash)
qed

text \<open>C19: what \<open>hash\<close> stores, \<open>verify\<close> accepts, for every salt and parameters; it rejects
  another password unless scrypt maps both to one digest; and on any stored text at all,
  well formed or not, it answers and never raises, with at most one derivation.\<close>

theorem hash_verify_round_trip:
  assumes "scrypt_ok h"
  shows "(\<exists>encoded. hash_password h salt pw = Inr encoded
          \<and> verify_password h pw encoded = (Inr True, 1)
          \<and> (\<forall>pw'. fst (verify_password h pw' encoded) = Inr True \<longleftrightarrow>
               ph_scrypt h (utf8 pw') salt (ph_n h) (ph_r h) (ph_p h) (ph_dklen h)
                 = ph_scrypt h (utf8 pw) salt (ph_n h) (ph_r h) (ph_p h) (ph_dklen h)))
     \<and> (\<forall>stored. \<exists>b. fst (verify_password h pw stored) = Inr b
          \<and> snd (verify_password h pw stored) \<le> 1)"
  using hash_total [OF assms, of salt pw] verify_hash [OF assms]
    verify_total [OF assms] verify_calls_le by fastforce

definition toy_scrypt :: scrypt where
  "toy_scrypt pw salt n r p len =
     (if 0 < len then Inr (take len (pw @ salt @ replicate len 0)) else Inl (Err PyValueError ''dklen''))"

definition toy_hasher :: PasswordHasher where
  "toy_hasher = default_hasher toy_scrypt"

lemma toy_scrypt_ok [simp]: "scrypt_ok toy_hasher"
  by (auto simp: scrypt_ok_def toy_hasher_def default_hasher_def toy_scrypt_def isinstance_def
      split: if_splits)

theorem hash_verify_round_trip_witness:
  "\<exists>encoded. hash_password toy_hasher [1, 2, 3] ''correct horse'' = Inr encoded
     \<and> verify_password toy_hasher ''correct horse'' encoded = (Inr True, 1)
     \<and> fst (verify_password toy_hasher ''wrong horse'' encoded) \<noteq> Inr True"
proof -
  obtain encoded where e: "hash_password toy_hasher [1, 2, 3] ''correct horse'' = Inr encoded"
    "verify_password toy_hasher ''correct horse'' encoded = (Inr True, 1)"
    "fst (verify_password toy_hasher ''wrong horse'' encoded) = Inr True \<longleftrightarrow>
       ph_scrypt toy_hasher (utf8 ''wrong horse'') [1, 2, 3] (ph_n toy_hasher) (ph_r toy_hasher)
          (ph_p toy_hasher) (ph_dklen toy_hasher)
       = ph_scrypt toy_hasher (utf8 ''correct horse'') [1, 2, 3] (ph_n toy_hasher)
          (ph_r toy_hasher) (ph_p toy_hasher) (ph_dklen toy_hasher)"
    using hash_verify_round_trip [OF toy_scrypt_ok, of "[1, 2, 3]" "''correct horse''"] by blast
  then show ?thesis
    by (simp add: toy_hasher_def default_hasher_def toy_scrypt_def utf8_def utf8_char_def
        byte_of_def code_def)
qed

end
