(* ===== verification/Permissions.thy ===== *)
theory Permissions
  imports Enums
begin

text \<open>
  \<^verbatim>\<open>auth/permissions.py\<close>: the fixed role table and the access policy built on a table.
\<close>

datatype Permission =
    VIEW_ASSESSMENTS | RUN_ASSESSMENT | RUN_QUICK_SCAN | USE_AI_ASSISTANT | REVIEW_FINDINGS
  | OVERRIDE_SCORES | EXPORT_REPORTS | VIEW_AUDIT_LOG | MANAGE_USERS | VIEW_SYSTEM_INFO

primrec Permission_value :: "Permission \<Rightarrow> string" where
  "Permission_value VIEW_ASSESSMENTS = ''view_assessments''"
| "Permission_value RUN_ASSESSMENT = ''run_assessment''"
| "Permission_value RUN_QUICK_SCAN = ''run_quick_scan''"
| "Permission_value USE_AI_ASSISTANT = ''use_ai_assistant''"
| "Permission_value REVIEW_FINDINGS = ''review_findings''"
| "Permission_value OVERRIDE_SCORES = ''override_scores''"
| "Permission_value EXPORT_REPORTS = ''export_reports''"
| "Permission_value VIEW_AUDIT_LOG = ''view_audit_log''"
| "Permission_value MANAGE_USERS = ''manage_users''"
| "Permission_value VIEW_SYSTEM_INFO = ''view_system_info''"

definition Permission_members :: "Permission list" where
  "Permission_members = [VIEW_ASSESSMENTS, RUN_ASSESSMENT, RUN_QUICK_SCAN, USE_AI_ASSISTANT,
     REVIEW_FINDINGS, OVERRIDE_SCORES, EXPORT_REPORTS, VIEW_AUDIT_LOG, MANAGE_USERS,
     VIEW_SYSTEM_INFO]"

interpretation permission: str_enum Permission_members Permission_value
  by (rule str_enumI) (use Permission.nchotomy in \<open>auto simp: Permission_members_def\<close>)

type_synonym policy_table = "Role \<rightharpoonup> Permission set"

definition ROLE_PERMISSIONS :: policy_table where
  "ROLE_PERMISSIONS role = (case role of
     Role.EMPLOYEE \<Rightarrow> Some {VIEW_ASSESSMENTS, RUN_ASSESSMENT, RUN_QUICK_SCAN, USE_AI_ASSISTANT}
   | Role.MANAGER \<Rightarrow> Some {VIEW_ASSESSMENTS, RUN_ASSESSMENT, RUN_QUICK_SCAN, USE_AI_ASSISTANT,
       REVIEW_FINDINGS, OVERRIDE_SCORES, EXPORT_REPORTS, VIEW_AUDIT_LOG}
   | Role.ADMIN \<Rightarrow> Some {VIEW_ASSESSMENTS, RUN_ASSESSMENT, RUN_QUICK_SCAN, USE_AI_ASSISTANT,
       EXPORT_REPORTS, VIEW_AUDIT_LOG, MANAGE_USERS, VIEW_SYSTEM_INFO})"

definition permissions_for :: "policy_table \<Rightarrow> Role \<Rightarrow> Permission set" where
  "permissions_for table role = (case table role of None \<Rightarrow> {} | Some ps \<Rightarrow> ps)"

definition policy_can :: "policy_table \<Rightarrow> Role \<Rightarrow> Permission \<Rightarrow> bool" where
  "policy_can table role permission = (permission \<in> permissions_for table role)"

lemmas policy_defs = policy_can_def permissions_for_def ROLE_PERMISSIONS_def

lemma can_manage_users: "policy_can ROLE_PERMISSIONS r MANAGE_USERS \<longleftrightarrow> r = Role.ADMIN"
  by (cases r) (simp_all add: policy_defs)

lemma can_review: "policy_can ROLE_PERMISSIONS r REVIEW_FINDINGS \<longleftrightarrow> r = Role.MANAGER"
  by (cases r) (simp_all add: policy_defs)

lemma can_override: "policy_can ROLE_PERMISSIONS r OVERRIDE_SCORES \<longleftrightarrow> r = Role.MANAGER"
  by (cases r) (simp_all add: policy_defs)

text \<open>Separation of duties. Accounts are managed by administrators only, governance
  decisions are made by managers only, so no role can do both; nobody who cannot read the
  audit log can export reports; and the employee's permissions are those of every role.\<close>

theorem separation_of_duties:
  "(policy_can ROLE_PERMISSIONS r MANAGE_USERS \<longleftrightarrow> r = Role.ADMIN)
   \<and> (policy_can ROLE_PERMISSIONS r REVIEW_FINDINGS \<longleftrightarrow> r = Role.MANAGER)
   \<and> (policy_can ROLE_PERMISSIONS r OVERRIDE_SCORES \<longleftrightarrow> r = Role.MANAGER)
   \<and> (policy_can ROLE_PERMISSIONS r EXPORT_REPORTS \<longleftrightarrow> policy_can ROLE_PERMISSIONS r VIEW_AUDIT_LOG)
   \<and> permissions_for ROLE_PERMISSIONS r \<inter> permissions_for ROLE_PERMISSIONS Role.EMPLOYEE
       = permissions_for ROLE_PERMISSIONS Role.EMPLOYEE"
  by (cases r) (auto simp: policy_defs)

end
