(* ===== verification/Auth.thy ===== *)
theory Auth
  imports Users PasswordHash Permissions
begin

text \<open>
  \<^verbatim>\<open>auth/auth_service.py\<close>, \<^verbatim>\<open>auth/principal.py\<close> and \<^verbatim>\<open>auth/exceptions.py\<close>: sign-in with
  lockout, sign-out, session validation and changing one's own password. An operation takes
  the service and the platform and gives its result and the platform after it; everything
  the code writes in a session is committed by the audit event that follows it.
\<close>

section \<open>The service\<close>

record AuthService =
  as_settings :: Settings
  as_hasher :: PasswordHasher
  as_dummy_hash :: string

record Principal =
  pr_user_id :: string
  pr_username :: string
  pr_display_name :: string
  pr_role :: Role
  pr_session_version :: int
  pr_authenticated_at :: datetime
  pr_last_activity_at :: datetime
  pr_must_change_password :: bool

definition ANONYMOUS_ACTOR :: string where
  "ANONYMOUS_ACTOR = ''anonymous''"

definition MAX_FAILED_ATTEMPTS :: int where
  "MAX_FAILED_ATTEMPTS = 5"

definition LOCKOUT_DURATION :: int where
  "LOCKOUT_DURATION = timedelta_minutes 15"

definition GENERIC_LOGIN_FAILURE :: string where
  "GENERIC_LOGIN_FAILURE =
     ''Sign-in failed. Check your username and password and try again. '' @
     ''Repeated failed attempts temporarily lock an account.''"

definition authentication_error :: error where
  "authentication_error = Err AuthenticationError GENERIC_LOGIN_FAILURE"

definition session_expired_error :: error where
  "session_expired_error = Err SessionExpiredError
     ''Your session expired after a period of inactivity. Please sign in again.''"

definition session_invalidated_error :: error where
  "session_invalidated_error = Err SessionInvalidatedError
     ''Your session is no longer valid because your account changed. Please sign in again.''"

definition idle_timeout :: "AuthService \<Rightarrow> int" where
  "idle_timeout self = timedelta_minutes (st_session_idle_timeout_minutes (as_settings self))"

text \<open>\<open>AuthService.__init__\<close>: the hash that unknown accounts are verified against.\<close>

definition make_auth_service :: "Settings \<Rightarrow> PasswordHasher \<Rightarrow> bytes \<Rightarrow> AuthService result" where
  "make_auth_service settings hasher salt =
     rbind (hash_password hasher salt ''timing-equalization-placeholder'')
       (\<lambda>dummy. Inr \<lparr>as_settings = settings, as_hasher = hasher, as_dummy_hash = dummy\<rparr>)"

definition record_auth_event ::
  "AuthEventType \<Rightarrow> string \<Rightarrow> string \<Rightarrow> (string \<times> json) list \<Rightarrow> string option \<Rightarrow> unit op" where
  "record_auth_event event_type actor summary payload scan_id s =
     and_then (record_event \<lparr>ai_event_type = AuthEventType_value event_type, ai_actor = actor,
        ai_summary = summary, ai_scan_id = scan_id, ai_payload = payload\<rparr> s)
       (\<lambda>row s. (Inr (), s))"

definition validate_new_password :: "string \<Rightarrow> string \<Rightarrow> int \<Rightarrow> unit result" where
  "validate_new_password password username min_length =
     (if int (length password) < min_length
      then Inl (Err UserAdministrationError
             (''Password must be at least '' @ show_int min_length @ '' characters long.''))
      else if 256 < length password
      then Inl (Err UserAdministrationError ''Password must be at most 256 characters long.'')
      else if username \<noteq> [] \<and> contains (lower password) (lower (strip username))
      then Inl (Err UserAdministrationError ''Password must not contain the username.'')
      else if card (set password) < 4
      then Inl (Err UserAdministrationError
             (''Password is too simple '' @ em_dash @ '' use a longer phrase with varied characters.''))
      else Inr ())"

section \<open>Sign-in\<close>

text \<open>A verification inside a session, counting its derivations.\<close>

definition verify_in ::
  "PasswordHasher \<Rightarrow> string \<Rightarrow> string \<Rightarrow> bool op" where
  "verify_in hasher password encoded s =
     (let (r, n) = verify_password hasher password encoded
      in (r, s\<lparr>pf_kdf_calls := pf_kdf_calls s + n\<rparr>))"

definition hash_in :: "PasswordHasher \<Rightarrow> string \<Rightarrow> string op" where
  "hash_in hasher password s =
     (let (salt, s1) = urandom (ph_salt_bytes hasher) s
      in (hash_password hasher salt password, s1\<lparr>pf_kdf_calls := Suc (pf_kdf_calls s1)\<rparr>))"

definition principal_for :: "User \<Rightarrow> datetime \<Rightarrow> datetime option \<Rightarrow> Principal result" where
  "principal_for user current authenticated_at =
     rbind (enum_of Role_members Role_value (us_role user)) (\<lambda>role.
       Inr \<lparr>pr_user_id = us_id user, pr_username = us_username user,
            pr_display_name = us_display_name user, pr_role = role,
            pr_session_version = us_session_version user,
            pr_authenticated_at = (case authenticated_at of Some t \<Rightarrow> t | None \<Rightarrow> current),
            pr_last_activity_at = current,
            pr_must_change_password = us_must_change_password user\<rparr>)"

definition login_fail :: "User option \<Rightarrow> string \<Rightarrow> 'a op" where
  "login_fail user reason s =
     and_then (record_auth_event AuthEventType.USER_LOGIN_FAILED
         (case user of Some u \<Rightarrow> us_username u | None \<Rightarrow> ANONYMOUS_ACTOR)
         ''Sign-in attempt failed'' [(''reason'', JStr reason)] None s)
       (\<lambda>_ s. (Inl authentication_error, s))"

definition is_locked_at :: "User \<Rightarrow> int \<Rightarrow> bool" where
  "is_locked_at user t =
     (case as_utc (us_locked_until user) of None \<Rightarrow> False | Some d \<Rightarrow> t < utc_instant d)"

definition login_body :: "AuthService \<Rightarrow> string \<Rightarrow> string \<Rightarrow> Principal op" where
  "login_body self username password s =
     (case get_by_username username (ss_work s) of
        None \<Rightarrow>
          and_then (verify_in (as_hasher self) password (as_dummy_hash self) s)
            (\<lambda>_. login_fail None ''unknown_account'')
      | Some user \<Rightarrow>
          if is_locked_at user (pf_clock s) then
            and_then (verify_in (as_hasher self) password (as_dummy_hash self) s)
              (\<lambda>_. login_fail (Some user) ''account_locked'')
          else if \<not> us_is_active user then
            and_then (verify_in (as_hasher self) password (as_dummy_hash self) s)
              (\<lambda>_. login_fail (Some user) ''account_inactive'')
          else
            and_then (verify_in (as_hasher self) password (us_password_hash user) s)
              (\<lambda>ok s.
                if \<not> ok then
                  (let user1 = user\<lparr>us_failed_attempts := us_failed_attempts user + 1\<rparr>
                   in if us_failed_attempts user1 \<ge> MAX_FAILED_ATTEMPTS then
                        (let until = pf_clock s + LOCKOUT_DURATION;
                             user2 = user1\<lparr>us_locked_until := Some (Aware until),
                                           us_failed_attempts := 0\<rparr>
                         in and_then
                              (record_auth_event AuthEventType.USER_LOCKED_OUT (us_username user2)
                                (''Account locked for '' @ show_int (LOCKOUT_DURATION div minute)
                                  @ '' minutes after '' @ show_int MAX_FAILED_ATTEMPTS
                                  @ '' failed sign-in attempts'')
                                [(''locked_until'', JStr (isoformat_utc until))] None
                                (put_user user2 s))
                              (\<lambda>_. login_fail (Some user2) ''invalid_password''))
                      else login_fail (Some user1) ''invalid_password'' (put_user user1 s))
                else
                  (let user3 = user\<lparr>us_failed_attempts := 0, us_locked_until := None,
                                    us_last_login_at := Some (now s)\<rparr>
                   in and_then
                        (record_auth_event AuthEventType.USER_LOGIN (us_username user3) ''Signed in''
                          [(''role'', JStr (us_role user3))] None (put_user user3 s))
                        (\<lambda>_ s. (principal_for user3 (now s) None, s)))))"

definition login ::
  "AuthService \<Rightarrow> string \<Rightarrow> string \<Rightarrow> platform \<Rightarrow> Principal result \<times> platform" where
  "login self username password =
     with_session (as_settings self) (login_body self username password)"

definition logout :: "AuthService \<Rightarrow> Principal \<Rightarrow> platform \<Rightarrow> unit result \<times> platform" where
  "logout self caller =
     with_session (as_settings self)
       (record_auth_event AuthEventType.USER_LOGOUT (pr_username caller) ''Signed out'' [] None)"

section \<open>Session validation\<close>

definition validate_session_body :: "AuthService \<Rightarrow> Principal \<Rightarrow> Principal op" where
  "validate_session_body self caller s =
     (if pf_clock s - utc_instant (pr_last_activity_at caller) > idle_timeout self then
        and_then
          (record_auth_event AuthEventType.SESSION_EXPIRED (pr_username caller)
            (''Session expired after '' @ show_int (st_session_idle_timeout_minutes (as_settings self))
              @ '' minutes of inactivity'') [] None s)
          (\<lambda>_ s. (Inl session_expired_error, s))
      else
        (let user = get_by_id (pr_user_id caller) (ss_work s)
         in case user of
              Some u \<Rightarrow>
                if us_is_active u \<and> us_session_version u = pr_session_version caller then
                  (rbind (enum_of Role_members Role_value (us_role u)) (\<lambda>role.
                     Inr (caller\<lparr>pr_display_name := us_display_name u, pr_role := role,
                       pr_must_change_password := us_must_change_password u,
                       pr_last_activity_at := now s\<rparr>)), s)
                else
                  and_then
                    (record_auth_event AuthEventType.SESSION_INVALIDATED (pr_username caller)
                      ''Session rejected: account changed since sign-in''
                      [(''reason'', JStr (if \<not> us_is_active u then ''inactive''
                          else ''account_changed''))] None s)
                    (\<lambda>_ s. (Inl session_invalidated_error, s))
            | None \<Rightarrow>
                and_then
                  (record_auth_event AuthEventType.SESSION_INVALIDATED (pr_username caller)
                    ''Session rejected: account changed since sign-in''
                    [(''reason'', JStr ''account_changed'')] None s)
                  (\<lambda>_ s. (Inl session_invalidated_error, s))))"

definition validate_session ::
  "AuthService \<Rightarrow> Principal \<Rightarrow> platform \<Rightarrow> Principal result \<times> platform" where
  "validate_session self caller =
     with_session (as_settings self) (validate_session_body self caller)"

section \<open>Changing one's own password\<close>

definition change_own_password_body ::
  "AuthService \<Rightarrow> Principal \<Rightarrow> string \<Rightarrow> string \<Rightarrow> Principal op" where
  "change_own_password_body self caller current_password new_password s =
     (let incorrect = Inl (Err UserAdministrationError ''Current password is incorrect.'')
      in case get_by_id (pr_user_id caller) (ss_work s) of
           None \<Rightarrow> (incorrect, s)
         | Some user \<Rightarrow>
             and_then (verify_in (as_hasher self) current_password (us_password_hash user) s)
               (\<lambda>ok s. if \<not> ok then (incorrect, s) else
             and_then (verify_in (as_hasher self) new_password (us_password_hash user) s)
               (\<lambda>same s. if same then (Inl (Err UserAdministrationError
                    ''The new password must differ from the current password.''), s) else
             and_then (validate_new_password new_password (us_username user)
                        (st_password_min_length (as_settings self)), s)
               (\<lambda>_ s.
             and_then (hash_in (as_hasher self) new_password s)
               (\<lambda>encoded s.
             (let user1 = user\<lparr>us_password_hash := encoded, us_must_change_password := False,
                               us_session_version := us_session_version user + 1\<rparr>
              in and_then
                   (record_auth_event AuthEventType.PASSWORD_CHANGED (us_username user1)
                     ''Changed own password'' [] None (put_user user1 s))
                   (\<lambda>_ s. (principal_for user1 (now s)
                      (Some (pr_authenticated_at caller)), s))))))))"

definition change_own_password ::
  "AuthService \<Rightarrow> Principal \<Rightarrow> string \<Rightarrow> string \<Rightarrow> platform \<Rightarrow> Principal result \<times> platform" where
  "change_own_password self caller current_password new_password pf =
     and_then (validate_session self caller pf)
       (\<lambda>caller. with_session (as_settings self)
          (change_own_password_body self caller current_password new_password))"

end
