(* ===== verification/Authorization.thy ===== *)
theory Authorization
  imports Auth
begin

text \<open>
  \<^verbatim>\<open>auth/authorizer.py\<close> and \<^verbatim>\<open>auth/user_admin_service.py\<close>: the enforcement point every
  protected action goes through, and user administration behind it. An administrative
  operation first authorizes in a session of its own and then changes the account in
  another; the second half is a definition of its own, since other operations may run
  between the two.
\<close>

section \<open>The authorizer\<close>

record Authorizer =
  az_auth :: AuthService
  az_policy :: policy_table

definition authorizer_can :: "Authorizer \<Rightarrow> Principal option \<Rightarrow> Permission \<Rightarrow> bool" where
  "authorizer_can self caller permission =
     (case caller of
        None \<Rightarrow> False
      | Some p \<Rightarrow>
          if pr_must_change_password p then False
          else policy_can (az_policy self) (pr_role p) permission)"

definition denial_reason :: "Authorizer \<Rightarrow> Principal \<Rightarrow> Permission \<Rightarrow> string option" where
  "denial_reason self caller permission =
     (if pr_must_change_password caller then Some ''password_change_required''
      else if \<not> policy_can (az_policy self) (pr_role caller) permission then Some ''role_not_permitted''
      else None)"

definition denial_error :: "Principal \<Rightarrow> string \<Rightarrow> string \<Rightarrow> error" where
  "denial_error caller action reason =
     (if reason = ''password_change_required''
      then Err AuthorizationError ''You must change your password before continuing.''
      else Err AuthorizationError (''Your role ('' @ Role_value (pr_role caller)
             @ '') is not permitted to '' @ action @ ''.''))"

definition require ::
  "Authorizer \<Rightarrow> Principal \<Rightarrow> Permission \<Rightarrow> string \<Rightarrow> string option \<Rightarrow> platform
     \<Rightarrow> Principal result \<times> platform" where
  "require self caller0 permission action scan_id pf =
     and_then (validate_session (az_auth self) caller0 pf) (\<lambda>caller pf.
       (case denial_reason self caller permission of
          None \<Rightarrow> (Inr caller, pf)
        | Some reason \<Rightarrow>
            and_then
              (with_session (as_settings (az_auth self))
                (record_auth_event AuthEventType.ACCESS_DENIED (pr_username caller)
                  (''Access denied: '' @ action)
                  [(''permission'', JStr (Permission_value permission)),
                   (''role'', JStr (Role_value (pr_role caller))),
                   (''reason'', JStr reason), (''scan_id'', json_opt_str scan_id)] None) pf)
              (\<lambda>_ pf. (Inl (denial_error caller action reason), pf))))"

section \<open>User administration\<close>

record UserView =
  uv_user_id :: string
  uv_username :: string
  uv_display_name :: string
  uv_role :: Role
  uv_is_active :: bool
  uv_is_locked :: bool
  uv_must_change_password :: bool
  uv_last_login_at :: "datetime option"
  uv_created_at :: "datetime option"

definition user_view :: "User \<Rightarrow> int \<Rightarrow> UserView result" where
  "user_view user current =
     rbind (enum_of Role_members Role_value (us_role user)) (\<lambda>role.
       Inr \<lparr>uv_user_id = us_id user, uv_username = us_username user,
            uv_display_name = us_display_name user, uv_role = role,
            uv_is_active = us_is_active user, uv_is_locked = is_locked_at user current,
            uv_must_change_password = us_must_change_password user,
            uv_last_login_at = as_utc (us_last_login_at user),
            uv_created_at = as_utc (us_created_at user)\<rparr>)"

definition list_users ::
  "Authorizer \<Rightarrow> Principal \<Rightarrow> platform \<Rightarrow> UserView list result \<times> platform" where
  "list_users self caller pf =
     and_then (require self caller MANAGE_USERS ''view user accounts'' None pf)
       (\<lambda>_. with_session (as_settings (az_auth self)) (\<lambda>s.
          (map_result (\<lambda>u. user_view u (pf_clock s)) (list_all_users (ss_work s)), s)))"

text \<open>\<open>^[a-z0-9][a-z0-9._-]{2,63}$\<close>\<close>

definition username_re :: re where
  "username_re =
     (let first = (\<lambda>c. is_ascii_lower c \<or> is_digit c);
          more = (\<lambda>c. is_ascii_lower c \<or> is_digit c \<or> one_of ''._-'' c)
      in cats [bos, Chr first, between 2 63 (Chr more), eos])"

definition create_account ::
  "AuthService \<Rightarrow> string \<Rightarrow> string \<Rightarrow> Role \<Rightarrow> string \<Rightarrow> bool \<Rightarrow> User op" where
  "create_account auth username0 display_name0 role password must_change s =
     (let username = normalize_username username0;
          display_name = strip display_name0
      in if re_match username_re username = None
         then (Inl (Err UserAdministrationError
                 (''Username must be 3-64 characters: lowercase letters, digits, '' @
                  [CHR 0x27] @ ''.'' @ [CHR 0x27] @ '', '' @ [CHR 0x27] @ ''_'' @ [CHR 0x27] @
                  '' or '' @ [CHR 0x27] @ ''-'' @ [CHR 0x27] @
                  '', starting with a letter or digit.'')), s)
         else if display_name = [] \<or> 128 < length display_name
         then (Inl (Err UserAdministrationError
                 ''Display name is required (at most 128 characters).''), s)
         else if get_by_username username (ss_work s) \<noteq> None
         then (Inl (Err UserAdministrationError
                 (''A user named '' @ [CHR 0x27] @ username @ [CHR 0x27] @ '' already exists.'')), s)
         else and_then (validate_new_password password username
                  (st_password_min_length (as_settings auth)), s)
                (\<lambda>_ s. and_then (hash_in (as_hasher auth) password s)
                  (\<lambda>encoded s.
                     (let (user, s1) = add_user (\<lambda>i.
                            \<lparr>us_id = i, us_username = username, us_display_name = display_name,
                             us_password_hash = encoded, us_role = Role_value role,
                             us_is_active = True, us_must_change_password = must_change,
                             us_failed_attempts = 0, us_locked_until = None,
                             us_session_version = 1, us_last_login_at = None,
                             us_created_at = Some (now s)\<rparr>) s
                      in (Inr user, s1)))))"

definition quoted :: "string \<Rightarrow> string" where
  "quoted x = [CHR 0x27] @ x @ [CHR 0x27]"

definition create_user_body ::
  "AuthService \<Rightarrow> Principal \<Rightarrow> string \<Rightarrow> string \<Rightarrow> Role \<Rightarrow> string \<Rightarrow> bool \<Rightarrow> UserView op" where
  "create_user_body auth caller username display_name role initial_password must_change s =
     and_then (create_account auth username display_name role initial_password must_change s)
       (\<lambda>user s. and_then
          (record_auth_event AuthEventType.USER_CREATED (pr_username caller)
            (''Created user '' @ quoted (us_username user) @ '' with role '' @ quoted (us_role user))
            [(''target_user'', JStr (us_username user)), (''role'', JStr (us_role user))] None s)
          (\<lambda>_ s. (user_view user (pf_clock s), s)))"

definition create_user ::
  "Authorizer \<Rightarrow> Principal \<Rightarrow> string \<Rightarrow> string \<Rightarrow> Role \<Rightarrow> string \<Rightarrow> bool \<Rightarrow> platform
     \<Rightarrow> UserView result \<times> platform" where
  "create_user self caller0 username display_name role initial_password must_change pf =
     and_then (require self caller0 MANAGE_USERS ''create user accounts'' None pf)
       (\<lambda>caller. with_session (as_settings (az_auth self))
          (create_user_body (az_auth self) caller username display_name role initial_password
             must_change))"

text \<open>\<open>_target\<close> and \<open>_ensure_another_active_admin\<close>.\<close>

definition admin_target :: "Principal \<Rightarrow> string \<Rightarrow> string \<Rightarrow> database \<Rightarrow> User result" where
  "admin_target caller user_id self_action d =
     (case get_by_id user_id d of
        None \<Rightarrow> Inl (Err UserAdministrationError ''User not found.'')
      | Some user \<Rightarrow>
          if us_id user = pr_user_id caller
          then Inl (Err UserAdministrationError (''You cannot '' @ self_action @ ''.''))
          else Inr user)"

definition ensure_another_active_admin :: "database \<Rightarrow> unit result" where
  "ensure_another_active_admin d =
     (if count_active_admins d \<le> 1
      then Inl (Err UserAdministrationError
             (''This would leave the platform without an active administrator. '' @
              ''Create or activate another administrator first.''))
      else Inr ())"

definition change_role_body ::
  "Principal \<Rightarrow> string \<Rightarrow> Role \<Rightarrow> UserView op" where
  "change_role_body caller user_id new_role s =
     and_then (admin_target caller user_id ''change your own role'' (ss_work s), s)
       (\<lambda>user s.
         (let old_role = us_role user
          in if old_role = Role_value new_role then (user_view user (pf_clock s), s)
             else and_then
               (if old_role = Role_value Role.ADMIN \<and> us_is_active user
                then ensure_another_active_admin (ss_work s) else Inr (), s)
               (\<lambda>_ s.
                 (let user1 = user\<lparr>us_role := Role_value new_role,
                                   us_session_version := us_session_version user + 1\<rparr>
                  in and_then
                       (record_auth_event AuthEventType.USER_ROLE_CHANGED (pr_username caller)
                         (''Changed role of '' @ quoted (us_username user1) @ '' from ''
                            @ quoted old_role @ '' to '' @ quoted (Role_value new_role))
                         [(''target_user'', JStr (us_username user1)),
                          (''old_role'', JStr old_role),
                          (''new_role'', JStr (Role_value new_role))] None (put_user user1 s))
                       (\<lambda>_ s. (user_view user1 (pf_clock s), s))))))"

definition change_role ::
  "Authorizer \<Rightarrow> Principal \<Rightarrow> string \<Rightarrow> Role \<Rightarrow> platform \<Rightarrow> UserView result \<times> platform" where
  "change_role self caller0 user_id new_role pf =
     and_then (require self caller0 MANAGE_USERS ''change user roles'' None pf)
       (\<lambda>caller. with_session (as_settings (az_auth self)) (change_role_body caller user_id new_role))"

definition set_active_body :: "Principal \<Rightarrow> string \<Rightarrow> bool \<Rightarrow> UserView op" where
  "set_active_body caller user_id active s =
     and_then (admin_target caller user_id ''deactivate or reactivate your own account'' (ss_work s), s)
       (\<lambda>user s.
         if us_is_active user = active then (user_view user (pf_clock s), s)
         else and_then
           (if \<not> active \<and> us_role user = Role_value Role.ADMIN
            then ensure_another_active_admin (ss_work s) else Inr (), s)
           (\<lambda>_ s.
             (let user1 = user\<lparr>us_is_active := active,
                               us_session_version := us_session_version user + 1\<rparr>;
                  user2 = (if active
                           then user1\<lparr>us_failed_attempts := 0, us_locked_until := None\<rparr>
                           else user1)
              in and_then
                   (record_auth_event
                     (if active then AuthEventType.USER_ACTIVATED else AuthEventType.USER_DEACTIVATED)
                     (pr_username caller)
                     ((if active then ''Activated'' else ''Deactivated'') @ '' user ''
                        @ quoted (us_username user2))
                     [(''target_user'', JStr (us_username user2))] None (put_user user2 s))
                   (\<lambda>_ s. (user_view user2 (pf_clock s), s)))))"

definition set_active ::
  "Authorizer \<Rightarrow> Principal \<Rightarrow> string \<Rightarrow> bool \<Rightarrow> platform \<Rightarrow> UserView result \<times> platform" where
  "set_active self caller0 user_id active pf =
     and_then (require self caller0 MANAGE_USERS ''activate or deactivate users'' None pf)
       (\<lambda>caller. with_session (as_settings (az_auth self)) (set_active_body caller user_id active))"

definition reset_password_body ::
  "AuthService \<Rightarrow> Principal \<Rightarrow> string \<Rightarrow> string \<Rightarrow> UserView op" where
  "reset_password_body auth caller user_id temporary_password s =
     and_then (admin_target caller user_id ''reset your own password here (use My Account)''
                 (ss_work s), s)
       (\<lambda>user s. and_then (validate_new_password temporary_password (us_username user)
                            (st_password_min_length (as_settings auth)), s)
       (\<lambda>_ s. and_then (hash_in (as_hasher auth) temporary_password s)
       (\<lambda>encoded s.
         (let user1 = user\<lparr>us_password_hash := encoded, us_must_change_password := True,
                           us_failed_attempts := 0, us_locked_until := None,
                           us_session_version := us_session_version user + 1\<rparr>
          in and_then
               (record_auth_event AuthEventType.USER_PASSWORD_RESET (pr_username caller)
                 (''Reset password for '' @ quoted (us_username user1)
                    @ '' (temporary; change required at next sign-in)'')
                 [(''target_user'', JStr (us_username user1))] None (put_user user1 s))
               (\<lambda>_ s. (user_view user1 (pf_clock s), s))))))"

definition reset_password ::
  "Authorizer \<Rightarrow> Principal \<Rightarrow> string \<Rightarrow> string \<Rightarrow> platform \<Rightarrow> UserView result \<times> platform" where
  "reset_password self caller0 user_id temporary_password pf =
     and_then (require self caller0 MANAGE_USERS ''reset user passwords'' None pf)
       (\<lambda>caller. with_session (as_settings (az_auth self))
          (reset_password_body (az_auth self) caller user_id temporary_password))"

definition bootstrap_user ::
  "AuthService \<Rightarrow> string \<Rightarrow> string \<Rightarrow> Role \<Rightarrow> string \<Rightarrow> string \<Rightarrow> platform
     \<Rightarrow> UserView result \<times> platform" where
  "bootstrap_user auth username display_name role password actor pf =
     (if \<not> startswith actor ''system:''
      then (Inl (Err UserAdministrationError
              ''bootstrap_user is reserved for command-line scripts.''), pf)
      else with_session (as_settings auth) (\<lambda>s.
        and_then (create_account auth username display_name role password False s)
          (\<lambda>user s. and_then
             (record_auth_event AuthEventType.USER_CREATED actor
               (''Created user '' @ quoted (us_username user) @ '' with role ''
                  @ quoted (us_role user) @ '' from the command line'')
               [(''target_user'', JStr (us_username user)), (''role'', JStr (us_role user))] None s)
             (\<lambda>_ s. (user_view user (pf_clock s), s)))) pf)"

end
