(* ===== verification/AuthFacts.thy ===== *)
theory AuthFacts
  imports Auth
begin

text \<open>
  Correctness of sign-in and sessions. \<open>login_spec\<close> states sign-in without sessions,
  commits and audit events, as a function on the account; \<open>login_refines\<close> shows that the
  code implements it, and the properties about lockout and about what a caller can learn
  follow from it.
\<close>

section \<open>Assumptions on the surroundings and well-formedness\<close>

text \<open>A service with a database, whose hasher works and made the dummy hash.\<close>

definition auth_ok :: "AuthService \<Rightarrow> bool" where
  "auth_ok self = (truthy (st_database_url (as_settings self)) \<and> scrypt_ok (as_hasher self)
     \<and> parse_hash (as_dummy_hash self) \<noteq> None)"

definition wf_user :: "User \<Rightarrow> bool" where
  "wf_user u = (strip (us_username u) \<noteq> [] \<and> normalize_username (us_username u) = us_username u
     \<and> us_role u \<in> range Role_value \<and> parse_hash (us_password_hash u) \<noteq> None)"

definition wf_users :: "User list \<Rightarrow> bool" where
  "wf_users us = (distinct (map us_id us) \<and> distinct (map us_username us) \<and> list_all wf_user us)"

lemma make_auth_service_ok:
  assumes "make_auth_service settings hasher salt = Inr self"
    and "truthy (st_database_url settings)" and "scrypt_ok hasher"
  shows "auth_ok self"
  using assms
  by (auto simp: make_auth_service_def rbind_Inr_iff auth_ok_def hash_password_def
      parse_encode_hash)

section \<open>Steps in closed form\<close>

definition auth_event ::
  "AuthEventType \<Rightarrow> string \<Rightarrow> string \<Rightarrow> (string \<times> json) list \<Rightarrow> string option \<Rightarrow> AuditEventInput" where
  "auth_event event_type actor summary payload scan_id =
     \<lparr>ai_event_type = AuthEventType_value event_type, ai_actor = actor, ai_summary = summary,
      ai_scan_id = scan_id, ai_payload = payload\<rparr>"

lemma auth_event_actor [simp]: "ai_actor (auth_event t a sm p sc) = a"
  by (simp add: auth_event_def)

lemma record_auth_event_eq:
  "record_auth_event t a sm p sc s =
     (if strip a = [] then (Inl (Err PyValueError ''audit event actor must not be empty''), s)
      else (Inr (), with_event (auth_event t a sm p sc) s))"
  by (simp add: record_auth_event_def record_event_eq auth_event_def)

lemma login_fail_eq:
  "login_fail user reason s =
     (let a = (case user of Some u \<Rightarrow> us_username u | None \<Rightarrow> ANONYMOUS_ACTOR)
      in if strip a = [] then (Inl (Err PyValueError ''audit event actor must not be empty''), s)
         else (Inl authentication_error,
           with_event (auth_event AuthEventType.USER_LOGIN_FAILED a ''Sign-in attempt failed''
             [(''reason'', JStr reason)] None) s))"
  by (simp add: login_fail_def record_auth_event_eq Let_def)

lemma verify_in_eq:
  "verify_in h pw enc s =
     (fst (verify_password h pw enc),
      s\<lparr>pf_kdf_calls := pf_kdf_calls s + snd (verify_password h pw enc)\<rparr>)"
  by (simp add: verify_in_def split_beta)

definition password_matches :: "PasswordHasher \<Rightarrow> string \<Rightarrow> string \<Rightarrow> bool" where
  "password_matches h pw enc = (fst (verify_password h pw enc) = Inr True)"

lemma verify_wellformed:
  "scrypt_ok h \<Longrightarrow> parse_hash enc \<noteq> None \<Longrightarrow>
     verify_password h pw enc = (Inr (password_matches h pw enc), 1)"
  using verify_total [of h pw enc]
  by (auto simp: password_matches_def verify_password_def split: option.splits sum.splits)

lemma anonymous_nonblank [simp]: "strip ANONYMOUS_ACTOR \<noteq> []"
proof -
  have "CHR ''a'' \<in> set ANONYMOUS_ACTOR \<and> \<not> is_space CHR ''a''"
    by (simp add: ANONYMOUS_ACTOR_def is_space_def code_def)
  then show ?thesis by (auto simp: strip_eq_Nil)
qed

lemma principal_for_Inr:
  "us_role u \<in> range Role_value \<Longrightarrow> \<exists>p. principal_for u t a = Inr p"
  by (auto simp: principal_for_def)

lemma wf_users_member: "wf_users us \<Longrightarrow> u \<in> set us \<Longrightarrow> wf_user u"
  by (simp add: wf_users_def list_all_iff)

lemma put_row_same: "distinct (map key rows) \<Longrightarrow> r \<in> set rows \<Longrightarrow> put_row key r rows = rows"
  by (auto simp: put_row_def update_where_def distinct_map inj_on_def intro: map_idI)

section \<open>Sign-in as a function on the account\<close>

definition login_user :: "PasswordHasher \<Rightarrow> string \<Rightarrow> int \<Rightarrow> User \<Rightarrow> User" where
  "login_user h pw t u =
     (if is_locked_at u t \<or> \<not> us_is_active u then u
      else if password_matches h pw (us_password_hash u)
      then u\<lparr>us_failed_attempts := 0, us_locked_until := None, us_last_login_at := Some (Aware t)\<rparr>
      else if us_failed_attempts u + 1 \<ge> MAX_FAILED_ATTEMPTS
      then u\<lparr>us_locked_until := Some (Aware (t + LOCKOUT_DURATION)), us_failed_attempts := 0\<rparr>
      else u\<lparr>us_failed_attempts := us_failed_attempts u + 1\<rparr>)"

definition may_sign_in :: "PasswordHasher \<Rightarrow> string \<Rightarrow> int \<Rightarrow> User \<Rightarrow> bool" where
  "may_sign_in h pw t u =
     (\<not> is_locked_at u t \<and> us_is_active u \<and> password_matches h pw (us_password_hash u))"

definition login_spec ::
  "AuthService \<Rightarrow> string \<Rightarrow> string \<Rightarrow> platform \<Rightarrow> Principal result \<times> User list" where
  "login_spec self username pw pf =
     (case get_by_username username (pf_store pf) of
        None \<Rightarrow> (Inl authentication_error, db_users (pf_store pf))
      | Some u \<Rightarrow>
          (let u' = login_user (as_hasher self) pw (pf_clock pf) u
           in (if may_sign_in (as_hasher self) pw (pf_clock pf) u
               then principal_for u' (now pf) None else Inl authentication_error,
               put_row us_id u' (db_users (pf_store pf)))))"

lemma login_refines:
  assumes "auth_ok self" and "wf_users (db_users (pf_store pf))"
  shows "(fst (login self username pw pf), db_users (pf_store (snd (login self username pw pf))))
       = login_spec self username pw pf"
    and "pf_kdf_calls (snd (login self username pw pf)) = pf_kdf_calls pf + 1"
proof -
  let ?h = "as_hasher self"
  have ok: "truthy (st_database_url (as_settings self))" "scrypt_ok ?h"
    "parse_hash (as_dummy_hash self) \<noteq> None"
    using assms(1) by (simp_all add: auth_ok_def)
  have dummy: "verify_password ?h pw (as_dummy_hash self) =
      (Inr (password_matches ?h pw (as_dummy_hash self)), 1)"
    by (rule verify_wellformed) (use ok in auto)
  have "(fst (login self username pw pf), db_users (pf_store (snd (login self username pw pf))))
       = login_spec self username pw pf
     \<and> pf_kdf_calls (snd (login self username pw pf)) = pf_kdf_calls pf + 1"
  proof (cases "get_by_username username (pf_store pf)")
    case None
    with ok dummy show ?thesis
      by (simp add: login_def login_body_def login_spec_def verify_in_eq login_fail_eq)
  next
    case (Some u)
    then have u: "u \<in> set (db_users (pf_store pf))" by (simp add: get_by_username_Some)
    with assms(2) have wf: "strip (us_username u) \<noteq> []" "parse_hash (us_password_hash u) \<noteq> None"
      by (auto dest: wf_users_member simp: wf_user_def)
    have same: "put_row us_id u (db_users (pf_store pf)) = db_users (pf_store pf)"
      using assms(2) u by (simp add: put_row_same wf_users_def)
    have verify: "verify_password ?h pw (us_password_hash u) =
        (Inr (password_matches ?h pw (us_password_hash u)), 1)"
      by (rule verify_wellformed) (use ok wf in auto)
    show ?thesis
    proof (cases "is_locked_at u (pf_clock pf) \<or> \<not> us_is_active u")
      case True
      with Some ok dummy wf same show ?thesis
        by (auto simp: login_def login_body_def login_spec_def verify_in_eq login_fail_eq
            may_sign_in_def login_user_def Let_def)
    next
      case False
      then show ?thesis
        using Some ok verify wf
        by (auto simp: login_def login_body_def login_spec_def verify_in_eq login_fail_eq
            may_sign_in_def login_user_def record_auth_event_eq now_def Let_def)
    qed
  qed
  then show "(fst (login self username pw pf), db_users (pf_store (snd (login self username pw pf))))
       = login_spec self username pw pf"
    and "pf_kdf_calls (snd (login self username pw pf)) = pf_kdf_calls pf + 1" by blast+
qed

text \<open>C9: Sign-in refines its abstract specification: with sessions, flushes, commits, audit events and
  the error paths of the code removed, signing in is the function \<open>login_spec\<close> of the stored account,
  the password and the time. The code's result and the accounts it leaves in the database are those
  of the specification, committed, and every path makes exactly one key derivation.\<close>

theorem sign_in_refines_specification:
  assumes "auth_ok self" and "wf_users (db_users (pf_store pf))"
  shows "(fst (login self username pw pf), db_users (pf_store (snd (login self username pw pf))))
       = login_spec self username pw pf
     \<and> pf_kdf_calls (snd (login self username pw pf)) = pf_kdf_calls pf + 1"
  using login_refines [OF assms] by blast

lemma login_result:
  "auth_ok self \<Longrightarrow> wf_users (db_users (pf_store pf)) \<Longrightarrow>
     fst (login self n pw pf) = fst (login_spec self n pw pf)"
  using login_refines(1) by (metis fst_conv)

lemma login_users:
  "auth_ok self \<Longrightarrow> wf_users (db_users (pf_store pf)) \<Longrightarrow>
     db_users (pf_store (snd (login self n pw pf))) = snd (login_spec self n pw pf)"
  using login_refines(1) by (metis snd_conv)

lemma login_user_identity [simp]:
  "us_id (login_user h pw t u) = us_id u"
  "us_username (login_user h pw t u) = us_username u"
  "us_role (login_user h pw t u) = us_role u"
  "us_is_active (login_user h pw t u) = us_is_active u"
  "us_password_hash (login_user h pw t u) = us_password_hash u"
  "us_session_version (login_user h pw t u) = us_session_version u"
  "us_must_change_password (login_user h pw t u) = us_must_change_password u"
  "us_display_name (login_user h pw t u) = us_display_name u"
  "us_created_at (login_user h pw t u) = us_created_at u"
  by (simp_all add: login_user_def)

lemma usernames_put_row:
  assumes "distinct (map us_id us)" and "u \<in> set us" and "us_id u' = us_id u"
    and "us_username u' = us_username u"
  shows "map us_username (put_row us_id u' us) = map us_username us"
  unfolding put_row_def
proof (rule map_update_where)
  fix x assume "x \<in> set us" and "us_id x = us_id u'"
  then have "x = u" using assms distinct_key_inject [of us_id us x u] by simp
  then show "us_username u' = us_username x" using assms(4) by simp
qed

lemma wf_users_put:
  assumes "wf_users us" and "u \<in> set us" and "us_id u' = us_id u"
    and "us_username u' = us_username u" and "wf_user u'"
  shows "wf_users (put_row us_id u' us)"
proof -
  have "map us_id (put_row us_id u' us) = map us_id us"
    by (simp add: put_row_def map_update_where)
  moreover have "map us_username (put_row us_id u' us) = map us_username us"
    using assms by (intro usernames_put_row) (auto simp: wf_users_def)
  ultimately show ?thesis
    using assms by (auto simp: wf_users_def list_all_iff dest: set_put_row)
qed

lemma put_row_put_row: "key r = key q \<Longrightarrow> put_row key r (put_row key q rows) = put_row key r rows"
  by (induction rows) (auto simp: put_row_def)

lemma get_by_username_put:
  assumes "wf_users (db_users d)" and "get_by_username n d = Some u"
    and "us_id u' = us_id u" and "us_username u' = us_username u"
    and "db_users d' = put_row us_id u' (db_users d)"
  shows "get_by_username n d' = Some u'"
proof -
  have u: "u \<in> set (db_users d)" "us_username u = normalize_username n"
    using assms(2) by (simp_all add: get_by_username_Some)
  have "List.find (\<lambda>r. us_username r = us_username u') (put_row us_id u' (db_users d)) = Some u'"
  proof (rule find_key)
    show "distinct (map us_username (put_row us_id u' (db_users d)))"
      using assms u by (subst usernames_put_row) (auto simp: wf_users_def)
    show "u' \<in> set (put_row us_id u' (db_users d))"
      using u assms(3) by (auto intro: put_row_self)
  qed
  then show ?thesis
    using assms(4,5) u by (simp add: get_by_username_def get_row_def)
qed

text \<open>C8: a failed sign-in tells the caller nothing. Whatever the account, the password and
  the time, the result is a principal or one fixed error, and every path, unknown account
  included, makes exactly one scrypt derivation.\<close>

theorem failed_sign_in_reveals_nothing:
  assumes "auth_ok self" and "wf_users (db_users (pf_store pf))"
  shows "((\<exists>p. fst (login self username pw pf) = Inr p)
      \<or> fst (login self username pw pf) = Inl (Err AuthenticationError GENERIC_LOGIN_FAILURE))
     \<and> pf_kdf_calls (snd (login self username pw pf)) = pf_kdf_calls pf + 1
     \<and> ((\<exists>p. fst (login self username pw pf) = Inr p) \<longleftrightarrow>
          (\<exists>u. get_by_username username (pf_store pf) = Some u \<and> us_is_active u
             \<and> \<not> is_locked_at u (pf_clock pf)
             \<and> password_matches (as_hasher self) pw (us_password_hash u)))"
proof -
  have fst_eq: "fst (login self username pw pf) = fst (login_spec self username pw pf)"
    by (rule login_result [OF assms])
  have "us_role u \<in> range Role_value" if "get_by_username username (pf_store pf) = Some u" for u
    using assms(2) get_by_username_Some [OF that] by (auto dest: wf_users_member simp: wf_user_def)
  then have "\<exists>p. principal_for (login_user (as_hasher self) pw (pf_clock pf) u) (now pf) None = Inr p"
    if "get_by_username username (pf_store pf) = Some u" for u
    using that by (auto intro!: principal_for_Inr)
  then show ?thesis
    unfolding fst_eq using login_refines(2) [OF assms]
    by (auto simp: login_spec_def may_sign_in_def authentication_error_def Let_def
        split: option.splits if_splits)
qed

section \<open>Sequences of attempts\<close>

text \<open>Sign-in attempts, each with its time and password.\<close>

definition attempt :: "AuthService \<Rightarrow> string \<Rightarrow> int \<times> string \<Rightarrow> platform \<Rightarrow> platform" where
  "attempt self username tp pf = snd (login self username (snd tp) (pf\<lparr>pf_clock := fst tp\<rparr>))"

definition account_attempt :: "PasswordHasher \<Rightarrow> int \<times> string \<Rightarrow> User \<Rightarrow> User" where
  "account_attempt h tp u = login_user h (snd tp) (fst tp) u"

lemma wf_user_login_user: "wf_user u \<Longrightarrow> wf_user (login_user h pw t u)"
  by (simp add: wf_user_def)

lemma attempts_account:
  assumes "auth_ok self"
  shows "wf_users (db_users (pf_store pf)) \<Longrightarrow> get_by_username n (pf_store pf) = Some u \<Longrightarrow>
     wf_users (db_users (pf_store (fold (attempt self n) tries pf)))
     \<and> get_by_username n (pf_store (fold (attempt self n) tries pf))
         = Some (fold (account_attempt (as_hasher self)) tries u)"
proof (induction tries arbitrary: pf u)
  case Nil
  then show ?case by simp
next
  case (Cons tp tries)
  let ?u = "account_attempt (as_hasher self) tp u"
  let ?pf = "attempt self n tp pf"
  have u: "u \<in> set (db_users (pf_store pf))" using Cons.prems(2) by (simp add: get_by_username_Some)
  have users: "db_users (pf_store ?pf) = put_row us_id ?u (db_users (pf_store pf))"
    using Cons.prems
    by (simp add: attempt_def login_users assms account_attempt_def login_spec_def Let_def)
  have "wf_users (db_users (pf_store ?pf))"
    unfolding users using Cons.prems(1) u
    by (rule wf_users_put)
       (use Cons.prems(1) u in \<open>auto simp: account_attempt_def wf_user_login_user dest: wf_users_member\<close>)
  moreover have "get_by_username n (pf_store ?pf) = Some ?u"
    by (rule get_by_username_put [OF Cons.prems _ _ users]) (simp_all add: account_attempt_def)
  ultimately show ?case using Cons.IH by simp
qed

text \<open>Fewer than five wrong passwords are counted; the fifth locks the account.\<close>

lemma wrong_attempts_counted:
  assumes "us_is_active u" and "\<forall>(t, pw) \<in> set tries. \<not> is_locked_at u t
      \<and> \<not> password_matches h pw (us_password_hash u)"
    and "us_failed_attempts u + int (length tries) < MAX_FAILED_ATTEMPTS"
  shows "fold (account_attempt h) tries u =
     u\<lparr>us_failed_attempts := us_failed_attempts u + int (length tries)\<rparr>"
  using assms
proof (induction tries arbitrary: u)
  case Nil
  then show ?case by simp
next
  case (Cons tp tries)
  obtain t pw where tp: "tp = (t, pw)" by (cases tp)
  let ?u = "u\<lparr>us_failed_attempts := us_failed_attempts u + 1\<rparr>"
  have "account_attempt h tp u = ?u"
    using Cons.prems by (auto simp: tp account_attempt_def login_user_def)
  moreover have "fold (account_attempt h) tries ?u =
      ?u\<lparr>us_failed_attempts := us_failed_attempts ?u + int (length tries)\<rparr>"
    using Cons.prems by (intro Cons.IH) (auto simp: is_locked_at_def)
  ultimately show ?case by (simp add: algebra_simps)
qed

lemma fifth_attempt_locks:
  assumes "us_is_active u" and "us_failed_attempts u = 0"
    and "\<forall>(t, pw) \<in> set tries. \<not> is_locked_at u t \<and> \<not> password_matches h pw (us_password_hash u)"
    and "int (length tries) = MAX_FAILED_ATTEMPTS"
  shows "fold (account_attempt h) tries u =
     u\<lparr>us_locked_until := Some (Aware (fst (last tries) + LOCKOUT_DURATION)), us_failed_attempts := 0\<rparr>"
proof -
  have "tries \<noteq> []" using assms(4) by (auto simp: MAX_FAILED_ATTEMPTS_def)
  then obtain ts t pw where tries: "tries = ts @ [(t, pw)]"
    by (metis append_butlast_last_id surj_pair)
  have "fold (account_attempt h) ts u = u\<lparr>us_failed_attempts := int (length ts)\<rparr>"
    using wrong_attempts_counted [of u ts h] assms by (auto simp: tries)
  with assms show ?thesis
    by (auto simp: tries account_attempt_def login_user_def is_locked_at_def)
qed

text \<open>C2: lockout. From a clean, active account, five wrong passwords, at whatever times,
  lock the account until 15 minutes after the last of them: until then every password,
  the right one too, is refused and the account row does not change (so the lock is not
  extended); from then on the right password signs in. After fewer than five wrong
  passwords the right one still signs in.\<close>

theorem lockout_and_recovery:
  assumes "auth_ok self" and "wf_users (db_users (pf_store pf))"
    and "get_by_username n (pf_store pf) = Some u" and "us_is_active u"
    and "us_failed_attempts u = 0" and "us_locked_until u = None"
    and "\<forall>(t, pw) \<in> set tries. \<not> password_matches (as_hasher self) pw (us_password_hash u)"
    and "length tries = 5"
    and "password_matches (as_hasher self) right (us_password_hash u)"
  shows "(\<forall>t pw. t < fst (last tries) + 15 * minute \<longrightarrow>
       fst (login self n pw (fold (attempt self n) tries pf\<lparr>pf_clock := t\<rparr>))
           = Inl authentication_error
       \<and> db_users (pf_store (attempt self n (t, pw) (fold (attempt self n) tries pf)))
           = db_users (pf_store (fold (attempt self n) tries pf)))
     \<and> (\<forall>t \<ge> fst (last tries) + 15 * minute.
       \<exists>p. fst (login self n right (fold (attempt self n) tries pf\<lparr>pf_clock := t\<rparr>)) = Inr p
         \<and> pr_username p = us_username u)
     \<and> (\<forall>k < 5. \<forall>t. \<exists>p.
       fst (login self n right (fold (attempt self n) (take k tries) pf\<lparr>pf_clock := t\<rparr>)) = Inr p)"
proof (intro conjI)
  let ?h = "as_hasher self"
  let ?q = "fold (attempt self n) tries pf"
  let ?locked = "u\<lparr>us_locked_until := Some (Aware (fst (last tries) + LOCKOUT_DURATION)),
      us_failed_attempts := 0\<rparr>"
  have free: "\<not> is_locked_at u t" for t
    using assms(6) by (simp add: is_locked_at_def as_utc_def)
  have len: "int (length tries) = MAX_FAILED_ATTEMPTS"
    using assms(8) by (simp add: MAX_FAILED_ATTEMPTS_def)
  have dur: "LOCKOUT_DURATION = 15 * minute" by (simp add: LOCKOUT_DURATION_def timedelta_minutes_def)
  have lk: "fold (account_attempt ?h) tries u = ?locked"
    using assms(4,5,7) free len by (intro fifth_attempt_locks) auto
  have q: "wf_users (db_users (pf_store ?q))" "get_by_username n (pf_store ?q) = Some ?locked"
    using attempts_account [OF assms(1,2,3), of tries] lk by simp_all
  have locked_at: "is_locked_at ?locked t \<longleftrightarrow> t < fst (last tries) + 15 * minute" for t
    by (simp add: is_locked_at_def as_utc_def dur)
  have role: "us_role u \<in> range Role_value"
    using assms(2,3) by (auto dest: wf_users_member get_by_username_Some simp: wf_user_def)
  have same: "put_row us_id ?locked (db_users (pf_store ?q)) = db_users (pf_store ?q)"
    using q by (intro put_row_same) (auto simp: wf_users_def dest: get_by_username_Some)
  show "\<forall>t pw. t < fst (last tries) + 15 * minute \<longrightarrow>
       fst (login self n pw (?q\<lparr>pf_clock := t\<rparr>)) = Inl authentication_error
       \<and> db_users (pf_store (attempt self n (t, pw) ?q)) = db_users (pf_store ?q)"
  proof (intro allI impI)
    fix t pw assume "t < fst (last tries) + 15 * minute"
    then have l: "is_locked_at ?locked t" by (simp only: locked_at)
    then have "login_user ?h pw t ?locked = ?locked" by (simp add: login_user_def)
    with l q same show "fst (login self n pw (?q\<lparr>pf_clock := t\<rparr>)) = Inl authentication_error
       \<and> db_users (pf_store (attempt self n (t, pw) ?q)) = db_users (pf_store ?q)"
      by (simp add: login_result login_users assms(1) attempt_def login_spec_def may_sign_in_def
          Let_def)
  qed
  show "\<forall>t \<ge> fst (last tries) + 15 * minute. \<exists>p. fst (login self n right (?q\<lparr>pf_clock := t\<rparr>)) = Inr p
         \<and> pr_username p = us_username u"
  proof (intro allI impI)
    fix t assume "fst (last tries) + 15 * minute \<le> t"
    then have "\<not> is_locked_at ?locked t" by (simp only: locked_at)
    then have "may_sign_in ?h right t ?locked" using assms(4,9) by (simp add: may_sign_in_def)
    moreover obtain p where p: "principal_for (login_user ?h right t ?locked) (Aware t) None = Inr p"
      using principal_for_Inr [of "login_user ?h right t ?locked"] role by force
    moreover have "pr_username p = us_username u"
      using p by (auto simp: principal_for_def rbind_Inr_iff)
    ultimately show "\<exists>p. fst (login self n right (?q\<lparr>pf_clock := t\<rparr>)) = Inr p
         \<and> pr_username p = us_username u"
      using q by (simp add: login_result assms(1) login_spec_def now_def Let_def)
  qed
  show "\<forall>k < 5. \<forall>t. \<exists>p.
       fst (login self n right (fold (attempt self n) (take k tries) pf\<lparr>pf_clock := t\<rparr>)) = Inr p"
  proof (intro allI impI)
    fix k :: nat and t assume "k < 5"
    let ?k = "fold (attempt self n) (take k tries) pf"
    let ?u = "u\<lparr>us_failed_attempts := int (length (take k tries))\<rparr>"
    have "fold (account_attempt ?h) (take k tries) u = ?u"
      using wrong_attempts_counted [of u "take k tries" ?h] assms(4,5,7,8) free \<open>k < 5\<close>
      by (auto simp: MAX_FAILED_ATTEMPTS_def dest: in_set_takeD)
    then have "wf_users (db_users (pf_store ?k))" "get_by_username n (pf_store ?k) = Some ?u"
      using attempts_account [OF assms(1,2,3), of "take k tries"] by simp_all
    moreover have "may_sign_in ?h right t ?u"
      using assms(4,6,9) by (simp add: may_sign_in_def is_locked_at_def as_utc_def)
    moreover have "\<exists>p. principal_for (login_user ?h right t ?u) (Aware t) None = Inr p"
      using role by (intro principal_for_Inr) simp
    ultimately show "\<exists>p. fst (login self n right (?k\<lparr>pf_clock := t\<rparr>)) = Inr p"
      by (simp add: login_result assms(1) login_spec_def now_def Let_def)
  qed
qed

end
