(* ===== verification/AccountFacts.thy ===== *)
theory AccountFacts
  imports Authorization AuthFacts
begin

text \<open>
  What every operation of \<^verbatim>\<open>auth\<close> may do to the accounts. \<open>users_step\<close> is the contract:
  accounts are never removed, keep their id and name, get a new session version with every
  change of role, activity or password, and the last active administrator stays. One lemma
  per operation shows that it keeps the contract; the invariants follow from the contract
  alone.
\<close>

section \<open>The contract\<close>

text \<open>What a session's authority depends on.\<close>

definition security_state :: "User \<Rightarrow> string \<times> bool \<times> string" where
  "security_state u = (us_role u, us_is_active u, us_password_hash u)"

definition user_change :: "User \<Rightarrow> User \<Rightarrow> bool" where
  "user_change u u' = (us_id u' = us_id u \<and> us_username u' = us_username u
     \<and> us_session_version u \<le> us_session_version u'
     \<and> (security_state u \<noteq> security_state u' \<longrightarrow> us_session_version u < us_session_version u'))"

inductive users_step :: "User list \<Rightarrow> User list \<Rightarrow> bool" where
  users_same: "users_step us us"
| users_change:
    "u \<in> set us \<Longrightarrow> user_change u u' \<Longrightarrow> wf_user u' \<Longrightarrow>
     is_active_admin u \<longrightarrow> is_active_admin u' \<or> 2 \<le> length (filter is_active_admin us) \<Longrightarrow>
     users_step us (put_row us_id u' us)"
| users_add:
    "us_id u \<notin> us_id ` set us \<Longrightarrow> us_username u \<notin> us_username ` set us \<Longrightarrow> wf_user u \<Longrightarrow>
     users_step us (us @ [u])"

abbreviation users_of :: "platform \<Rightarrow> User list" where
  "users_of pf \<equiv> db_users (pf_store pf)"

text \<open>Ids drawn from now on are new.\<close>

definition fresh_ids :: "platform \<Rightarrow> bool" where
  "fresh_ids pf = (inj (pf_uuid pf) \<and> (\<forall>n \<ge> pf_draws pf. pf_uuid pf n \<notin> us_id ` set (users_of pf)))"

definition wf_accounts :: "platform \<Rightarrow> bool" where
  "wf_accounts pf = (wf_users (users_of pf) \<and> fresh_ids pf)"

definition account_step :: "platform \<Rightarrow> platform \<Rightarrow> bool" where
  "account_step pf pf' = (users_step (users_of pf) (users_of pf') \<and> pf_uuid pf' = pf_uuid pf
     \<and> pf_draws pf \<le> pf_draws pf'
     \<and> us_id ` set (users_of pf') \<subseteq> us_id ` set (users_of pf)
         \<union> pf_uuid pf ` {pf_draws pf ..< pf_draws pf'})"

lemma users_step_wf:
  assumes "users_step us us'" and "wf_users us"
  shows "wf_users us'"
  using assms
proof (cases rule: users_step.cases)
  case (users_change u u')
  then show ?thesis using assms(2) by (auto simp: user_change_def intro: wf_users_put)
next
  case (users_add u)
  then show ?thesis using assms(2) by (auto simp: wf_users_def)
qed simp

lemma users_step_admin:
  assumes "users_step us us'" and "wf_users us" and "\<exists>u \<in> set us. is_active_admin u"
  shows "\<exists>u \<in> set us'. is_active_admin u"
  using assms(1)
proof (cases rule: users_step.cases)
  case (users_change u u')
  show ?thesis
  proof (cases "is_active_admin u'")
    case True
    with users_change show ?thesis by (auto intro!: bexI [of _ u'] put_row_self simp: user_change_def)
  next
    case False
    obtain v where v: "v \<in> set us" "is_active_admin v" "v \<noteq> u"
    proof (cases "is_active_admin u")
      case True
      with users_change False have two: "2 \<le> length (filter is_active_admin us)" by simp
      have "\<exists>v \<in> set (filter is_active_admin us). v \<noteq> u"
      proof (rule ccontr)
        assume "\<not> ?thesis"
        then have "set (filter is_active_admin us) \<subseteq> {u}" by blast
        then have "card (set (filter is_active_admin us)) \<le> 1"
          using card_mono [of "{u}"] by fastforce
        moreover have "distinct (filter is_active_admin us)"
          using assms(2) by (simp add: wf_users_def distinct_map)
        ultimately show False
          using two distinct_card [of "filter is_active_admin us"] by linarith
      qed
      with that show ?thesis by auto
    next
      case False
      with assms(3) that show ?thesis by blast
    qed
    then have "us_id v \<noteq> us_id u'"
      using users_change assms(2) distinct_key_inject [of us_id us v u]
      by (auto simp: wf_users_def user_change_def)
    with v users_change show ?thesis by (auto intro!: bexI [of _ v] put_row_in)
  qed
next
  case (users_add u)
  with assms(3) show ?thesis by auto
qed (use assms(3) in simp)

lemma account_step_wf:
  assumes "account_step pf pf'" and "wf_accounts pf"
  shows "wf_accounts pf'"
proof -
  have "pf_uuid pf' n \<notin> us_id ` set (users_of pf')" if "pf_draws pf' \<le> n" for n
  proof
    assume "pf_uuid pf' n \<in> us_id ` set (users_of pf')"
    then have "pf_uuid pf n \<in> us_id ` set (users_of pf)
        \<or> pf_uuid pf n \<in> pf_uuid pf ` {pf_draws pf ..< pf_draws pf'}"
      using assms(1) by (auto simp: account_step_def)
    moreover have "pf_uuid pf n \<notin> pf_uuid pf ` {pf_draws pf ..< pf_draws pf'}"
      using that assms(2) by (auto simp: wf_accounts_def fresh_ids_def dest: injD)
    ultimately show False
      using that assms by (auto simp: account_step_def wf_accounts_def fresh_ids_def)
  qed
  with assms show ?thesis
    by (auto simp: wf_accounts_def fresh_ids_def account_step_def intro: users_step_wf)
qed

text \<open>The accounts of a later database continue those of the earlier one.\<close>

definition accounts_evolve :: "database \<Rightarrow> database \<Rightarrow> bool" where
  "accounts_evolve d e = (\<forall>u \<in> set (db_users d). \<exists>u' \<in> set (db_users e). user_change u u')"

lemma user_change_refl [simp]: "user_change u u"
  by (simp add: user_change_def)

lemma user_change_trans: "user_change u v \<Longrightarrow> user_change v w \<Longrightarrow> user_change u w"
  by (auto simp: user_change_def)

interpretation account_history: history accounts_evolve
proof unfold_locales
  show "accounts_evolve d d" for d unfolding accounts_evolve_def using user_change_refl by blast
  show "accounts_evolve d e \<Longrightarrow> accounts_evolve e f \<Longrightarrow> accounts_evolve d f" for d e f
    unfolding accounts_evolve_def by (meson user_change_trans)
qed

lemma users_step_evolve:
  assumes "users_step (db_users d) (db_users e)" and "wf_users (db_users d)"
  shows "accounts_evolve d e"
  using assms(1)
proof (cases rule: users_step.cases)
  case (users_change u u')
  have "\<exists>v' \<in> set (db_users e). user_change v v'" if v: "v \<in> set (db_users d)" for v
  proof (cases "us_id v = us_id u'")
    case True
    then have "v = u"
      using users_change v assms(2) distinct_key_inject [of us_id "db_users d" v u]
      by (auto simp: wf_users_def user_change_def)
    with users_change True show ?thesis by (auto intro!: bexI [of _ u'] put_row_self)
  next
    case False
    with users_change v show ?thesis by (auto intro!: bexI [of _ v] put_row_in)
  qed
  then show ?thesis by (simp add: accounts_evolve_def)
next
  case users_same
  then show ?thesis unfolding accounts_evolve_def using user_change_refl by fastforce
next
  case (users_add u)
  then show ?thesis unfolding accounts_evolve_def using user_change_refl by fastforce
qed

section \<open>The operations keep the contract\<close>

lemma account_stepI_same:
  "users_of pf' = users_of pf \<Longrightarrow> pf_uuid pf' = pf_uuid pf \<Longrightarrow> pf_draws pf \<le> pf_draws pf' \<Longrightarrow>
     account_step pf pf'"
  by (simp add: account_step_def users_same)

lemma account_stepI_change:
  assumes "u \<in> set (users_of pf)" and "user_change u u'" and "wf_user u'"
    and "is_active_admin u \<longrightarrow> is_active_admin u' \<or> 2 \<le> count_active_admins (pf_store pf)"
    and "users_of pf' = put_row us_id u' (users_of pf)" and "pf_uuid pf' = pf_uuid pf"
    and "pf_draws pf \<le> pf_draws pf'"
  shows "account_step pf pf'"
proof -
  have "users_step (users_of pf) (users_of pf')"
    unfolding assms(5) using assms(1-4) by (intro users_change) (simp_all add: count_active_admins_def)
  moreover have "us_id ` set (users_of pf') \<subseteq> us_id ` set (users_of pf)"
    using assms(1,2) by (auto simp: assms(5) user_change_def dest!: set_put_row)
  ultimately show ?thesis using assms(6,7) by (auto simp: account_step_def)
qed

text \<open>Bodies whose session leaves the accounts alone.\<close>

lemma login_account_step:
  assumes "auth_ok self" and "wf_users (users_of pf)"
  shows "account_step pf (snd (login self n pw pf))"
proof -
  have ok: "truthy (st_database_url (as_settings self))" using assms(1) by (simp add: auth_ok_def)
  have frame: "pf_uuid (snd (login self n pw pf)) = pf_uuid pf
      \<and> pf_draws pf \<le> pf_draws (snd (login self n pw pf))"
    using ok
    by (auto simp: login_def login_body_def verify_in_eq login_fail_eq record_auth_event_eq
        and_then_def Let_def split: option.splits sum.splits prod.splits)
  show ?thesis
  proof (cases "get_by_username n (pf_store pf)")
    case None
    with frame show ?thesis
      by (intro account_stepI_same) (simp_all add: login_users assms login_spec_def)
  next
    case (Some u)
    then have u: "u \<in> set (users_of pf)" by (simp add: get_by_username_Some)
    let ?u = "login_user (as_hasher self) pw (pf_clock pf) u"
    have "users_of (snd (login self n pw pf)) = put_row us_id ?u (users_of pf)"
      using Some by (simp add: login_users assms login_spec_def Let_def)
    moreover have "user_change u ?u" "wf_user ?u" "is_active_admin ?u = is_active_admin u"
      using assms(2) u
      by (auto simp: user_change_def security_state_def is_active_admin_def wf_user_login_user
          dest: wf_users_member)
    ultimately show ?thesis using u frame by (intro account_stepI_change) auto
  qed
qed

text \<open>A session whose only effect is at most one audit event.\<close>

lemma record_only_step:
  assumes "f = record_auth_event t a sm p sc"
  shows "account_step pf (snd (with_session st f pf))"
proof (cases "truthy (st_database_url st)")
  case True
  then show ?thesis
    by (intro account_stepI_same) (simp_all add: assms record_auth_event_eq)
next
  case False
  then show ?thesis by (intro account_stepI_same) (simp_all add: with_session_not_configured)
qed

lemma logout_account_step: "account_step pf (snd (logout self p pf))"
  unfolding logout_def by (rule record_only_step [OF refl])

lemma validate_session_frame:
  "users_of (snd (validate_session self p pf)) = users_of pf"
  "pf_uuid (snd (validate_session self p pf)) = pf_uuid pf"
  "pf_draws pf \<le> pf_draws (snd (validate_session self p pf))"
  "pf_clock (snd (validate_session self p pf)) = pf_clock pf"
  by (cases "truthy (st_database_url (as_settings self))";
      simp add: validate_session_def validate_session_body_def record_auth_event_eq
        with_session_not_configured Let_def split: option.splits)+

lemma validate_account_step: "account_step pf (snd (validate_session self p pf))"
  by (rule account_stepI_same) (simp_all add: validate_session_frame)

lemma require_frame:
  "users_of (snd (require az p perm act sc pf)) = users_of pf"
  "pf_uuid (snd (require az p perm act sc pf)) = pf_uuid pf"
  "pf_draws pf \<le> pf_draws (snd (require az p perm act sc pf))"
  "pf_clock (snd (require az p perm act sc pf)) = pf_clock pf"
proof -
  obtain r pf1 where v: "validate_session (az_auth az) p pf = (r, pf1)" by (cases "validate_session (az_auth az) p pf")
  have pf1: "users_of pf1 = users_of pf" "pf_uuid pf1 = pf_uuid pf" "pf_draws pf \<le> pf_draws pf1"
    "pf_clock pf1 = pf_clock pf"
    using validate_session_frame [where self = "az_auth az" and p = p and pf = pf] by (simp_all add: v)
  show "users_of (snd (require az p perm act sc pf)) = users_of pf"
    "pf_uuid (snd (require az p perm act sc pf)) = pf_uuid pf"
    "pf_draws pf \<le> pf_draws (snd (require az p perm act sc pf))"
    "pf_clock (snd (require az p perm act sc pf)) = pf_clock pf"
    using pf1
    by (cases "truthy (st_database_url (as_settings (az_auth az)))"; cases r;
        simp add: require_def v record_auth_event_eq with_session_def open_session_def
          split: option.splits)+
qed

lemma require_account_step: "account_step pf (snd (require az p perm act sc pf))"
  by (rule account_stepI_same) (simp_all add: require_frame)

section \<open>The operations that change accounts\<close>

lemma hash_in_eq:
  "hash_in h pw s =
     (hash_password h (pf_urandom s (pf_draws s) (ph_salt_bytes h)) pw,
      s\<lparr>pf_draws := Suc (pf_draws s), pf_kdf_calls := Suc (pf_kdf_calls s)\<rparr>)"
  by (simp add: hash_in_def urandom_def Let_def)

lemma hash_password_parse: "hash_password h salt pw = Inr enc \<Longrightarrow> parse_hash enc \<noteq> None"
  by (auto simp: hash_password_def rbind_Inr_iff parse_encode_hash)

lemma admin_target_Inr:
  "admin_target caller i act d = Inr u \<longleftrightarrow> get_by_id i d = Some u \<and> us_id u \<noteq> pr_user_id caller"
  by (auto simp: admin_target_def split: option.splits if_splits)

lemma ensure_another_active_admin_Inr:
  "ensure_another_active_admin d = Inr x \<longleftrightarrow> 2 \<le> count_active_admins d"
  by (auto simp: ensure_another_active_admin_def)

lemma wf_user_update:
  "wf_user u \<Longrightarrow> us_username u' = us_username u \<Longrightarrow> us_role u' \<in> range Role_value \<Longrightarrow>
     parse_hash (us_password_hash u') \<noteq> None \<Longrightarrow> wf_user u'"
  by (simp add: wf_user_def)

text \<open>The effect of a body that changes one account and records it.\<close>

lemma changed_account_step:
  assumes "truthy (st_database_url st)" and "wf_users (users_of pf)"
    and "u \<in> set (users_of pf)" and "user_change u u'" and "wf_user u'"
    and "is_active_admin u \<longrightarrow> is_active_admin u' \<or> 2 \<le> count_active_admins (pf_store pf)"
    and "snd (f (begin_session pf)) = snd (and_then (record_auth_event t a sm p sc (put_user u' s)) g)"
    and "pf_store s = pf_store pf" and "ss_work s = pf_store pf" and "pf_uuid s = pf_uuid pf"
    and "pf_draws pf \<le> pf_draws s" and "\<And>x s'. snd (g x s') = s'"
  shows "account_step pf (snd (with_session st f pf))"
proof (cases "strip a = []")
  case True
  with assms show ?thesis
    by (intro account_stepI_same) (simp_all add: record_auth_event_eq)
next
  case False
  with assms show ?thesis
    by (intro account_stepI_change [of u _ u']) (simp_all add: record_auth_event_eq)
qed

lemma untouched_account_step:
  assumes "pf_store (snd (f (begin_session pf))) = pf_store pf"
    and "pf_uuid (snd (f (begin_session pf))) = pf_uuid pf"
    and "pf_draws pf \<le> pf_draws (snd (f (begin_session pf)))"
  shows "account_step pf (snd (with_session st f pf))"
  using assms
  by (cases "truthy (st_database_url st)")
     (auto intro!: account_stepI_same simp: with_session_not_configured)

lemma change_role_account_step:
  assumes "wf_users (users_of pf)"
  shows "account_step pf (snd (with_session st (change_role_body caller i role) pf))"
proof (cases "truthy (st_database_url st)")
  case False
  then show ?thesis by (intro account_stepI_same) (simp_all add: with_session_not_configured)
next
  case True
  let ?s = "begin_session pf"
  show ?thesis
  proof (cases "admin_target caller i ''change your own role'' (pf_store pf)")
    case (Inl e)
    then show ?thesis by (intro untouched_account_step) (simp_all add: change_role_body_def)
  next
    case (Inr u)
    then have u: "u \<in> set (users_of pf)" by (auto simp: admin_target_Inr get_by_id_Some)
    let ?u = "u\<lparr>us_role := Role_value role, us_session_version := us_session_version u + 1\<rparr>"
    let ?guard = "us_role u = Role_value Role.ADMIN \<and> us_is_active u"
    show ?thesis
    proof (cases "us_role u = Role_value role
        \<or> (?guard \<and> \<not> 2 \<le> count_active_admins (pf_store pf))")
      case True
      with Inr show ?thesis
        by (intro untouched_account_step)
           (auto simp: change_role_body_def ensure_another_active_admin_def Let_def)
    next
      case False
      have "user_change u ?u" by (simp add: user_change_def security_state_def)
      moreover have "wf_user ?u"
        using wf_users_member [OF assms u] by (auto simp: wf_user_def)
      moreover have "is_active_admin u \<longrightarrow> is_active_admin ?u \<or> 2 \<le> count_active_admins (pf_store pf)"
        using False by (auto simp: is_active_admin_def)
      ultimately show ?thesis
        using Inr False
        by (intro changed_account_step [OF True assms u, where u' = ?u and s = ?s])
           (auto simp: change_role_body_def ensure_another_active_admin_def Let_def)
    qed
  qed
qed

lemma set_active_account_step:
  assumes "wf_users (users_of pf)"
  shows "account_step pf (snd (with_session st (set_active_body caller i active) pf))"
proof (cases "truthy (st_database_url st)")
  case False
  then show ?thesis by (intro account_stepI_same) (simp_all add: with_session_not_configured)
next
  case True
  let ?s = "begin_session pf"
  show ?thesis
  proof (cases "admin_target caller i ''deactivate or reactivate your own account'' (pf_store pf)")
    case (Inl e)
    then show ?thesis by (intro untouched_account_step) (simp_all add: set_active_body_def)
  next
    case (Inr u)
    then have u: "u \<in> set (users_of pf)" by (auto simp: admin_target_Inr get_by_id_Some)
    let ?u1 = "u\<lparr>us_is_active := active, us_session_version := us_session_version u + 1\<rparr>"
    let ?u = "if active then ?u1\<lparr>us_failed_attempts := 0, us_locked_until := None\<rparr> else ?u1"
    let ?guard = "\<not> active \<and> us_role u = Role_value Role.ADMIN"
    show ?thesis
    proof (cases "us_is_active u = active \<or> (?guard \<and> \<not> 2 \<le> count_active_admins (pf_store pf))")
      case True
      with Inr show ?thesis
        by (intro untouched_account_step)
           (auto simp: set_active_body_def ensure_another_active_admin_def Let_def)
    next
      case False
      have "user_change u ?u" by (simp add: user_change_def security_state_def)
      moreover have "wf_user ?u"
        using wf_users_member [OF assms u] by (auto simp: wf_user_def)
      moreover have "is_active_admin u \<longrightarrow> is_active_admin ?u \<or> 2 \<le> count_active_admins (pf_store pf)"
        using False by (auto simp: is_active_admin_def)
      moreover have "snd (set_active_body caller i active ?s) = snd (and_then
          (record_auth_event
            (if active then AuthEventType.USER_ACTIVATED else AuthEventType.USER_DEACTIVATED)
            (pr_username caller)
            ((if active then ''Activated'' else ''Deactivated'') @ '' user '' @ quoted (us_username ?u))
            [(''target_user'', JStr (us_username ?u))] None (put_user ?u ?s))
          (\<lambda>_ s. (user_view ?u (pf_clock s), s)))"
        using Inr False
        by (cases active) (auto simp: set_active_body_def ensure_another_active_admin_def Let_def)
      ultimately show ?thesis
        by (rule changed_account_step [OF True assms u]) simp_all
    qed
  qed
qed

lemma reset_password_account_step:
  assumes "wf_users (users_of pf)"
  shows "account_step pf (snd (with_session st (reset_password_body auth caller i pw) pf))"
proof (cases "truthy (st_database_url st)")
  case False
  then show ?thesis by (intro account_stepI_same) (simp_all add: with_session_not_configured)
next
  case True
  let ?s = "begin_session pf"
  let ?act = "''reset your own password here (use My Account)''"
  show ?thesis
  proof (cases "\<exists>u enc. admin_target caller i ?act (pf_store pf) = Inr u
      \<and> validate_new_password pw (us_username u) (st_password_min_length (as_settings auth)) = Inr ()
      \<and> fst (hash_in (as_hasher auth) pw ?s) = Inr enc")
    case False
    then show ?thesis
      by (intro untouched_account_step)
         (auto simp: reset_password_body_def hash_in_eq and_then_def
            split: sum.splits prod.splits)
  next
    case ok: True
    then obtain u enc s2 where inr: "admin_target caller i ?act (pf_store pf) = Inr u"
      "validate_new_password pw (us_username u) (st_password_min_length (as_settings auth)) = Inr ()"
      and enc: "hash_in (as_hasher auth) pw ?s = (Inr enc, s2)"
      by (metis prod.collapse)
    then have u: "u \<in> set (users_of pf)" by (auto simp: admin_target_Inr get_by_id_Some)
    let ?u = "u\<lparr>us_password_hash := enc, us_must_change_password := True,
        us_failed_attempts := 0, us_locked_until := None,
        us_session_version := us_session_version u + 1\<rparr>"
    have "user_change u ?u" by (simp add: user_change_def security_state_def)
    moreover have "wf_user ?u"
      using wf_users_member [OF assms u] enc
      by (auto simp: wf_user_def hash_in_eq dest: hash_password_parse)
    moreover have "is_active_admin u \<longrightarrow> is_active_admin ?u \<or> 2 \<le> count_active_admins (pf_store pf)"
      by (simp add: is_active_admin_def)
    moreover have "snd (reset_password_body auth caller i pw ?s) = snd (and_then
        (record_auth_event AuthEventType.USER_PASSWORD_RESET (pr_username caller)
           (''Reset password for '' @ quoted (us_username ?u)
              @ '' (temporary; change required at next sign-in)'')
           [(''target_user'', JStr (us_username ?u))] None
           (put_user ?u s2))
        (\<lambda>_ s. (user_view ?u (pf_clock s), s)))"
      using inr enc by (simp add: reset_password_body_def Let_def)
    ultimately show ?thesis
      by (rule changed_account_step [OF True assms u]) (use enc in \<open>auto simp: hash_in_eq\<close>)
  qed
qed

lemma change_own_password_account_step:
  assumes "wf_users (users_of pf)"
  shows "account_step pf (snd (with_session st (change_own_password_body auth caller old new) pf))"
proof (cases "truthy (st_database_url st)")
  case False
  then show ?thesis by (intro account_stepI_same) (simp_all add: with_session_not_configured)
next
  case True
  let ?s = "begin_session pf"
  let ?h = "as_hasher auth"
  let ?s2 = "\<lambda>u. snd (verify_in ?h new (us_password_hash u)
      (snd (verify_in ?h old (us_password_hash u) ?s)))"
  show ?thesis
  proof (cases "\<exists>u enc. get_by_id (pr_user_id caller) (pf_store pf) = Some u
      \<and> fst (verify_password ?h old (us_password_hash u)) = Inr True
      \<and> fst (verify_password ?h new (us_password_hash u)) = Inr False
      \<and> validate_new_password new (us_username u) (st_password_min_length (as_settings auth)) = Inr ()
      \<and> fst (hash_in ?h new (?s2 u)) = Inr enc")
    case False
    then show ?thesis
      by (intro untouched_account_step)
         (auto simp: change_own_password_body_def hash_in_eq verify_in_eq and_then_def Let_def
            split: sum.splits prod.splits option.splits)
  next
    case ok: True
    then obtain u enc s2 where some: "get_by_id (pr_user_id caller) (pf_store pf) = Some u"
      "fst (verify_password ?h old (us_password_hash u)) = Inr True"
      "fst (verify_password ?h new (us_password_hash u)) = Inr False"
      "validate_new_password new (us_username u) (st_password_min_length (as_settings auth)) = Inr ()"
      and enc: "hash_in ?h new (?s2 u) = (Inr enc, s2)"
      by (metis prod.collapse)
    then have u: "u \<in> set (users_of pf)" by (simp add: get_by_id_Some)
    let ?u = "u\<lparr>us_password_hash := enc, us_must_change_password := False,
        us_session_version := us_session_version u + 1\<rparr>"
    have "user_change u ?u" by (simp add: user_change_def security_state_def)
    moreover have "wf_user ?u"
      using wf_users_member [OF assms u] enc
      by (auto simp: wf_user_def hash_in_eq dest: hash_password_parse)
    moreover have "is_active_admin u \<longrightarrow> is_active_admin ?u \<or> 2 \<le> count_active_admins (pf_store pf)"
      by (simp add: is_active_admin_def)
    moreover have "snd (change_own_password_body auth caller old new ?s) = snd (and_then
        (record_auth_event AuthEventType.PASSWORD_CHANGED (us_username ?u) ''Changed own password''
           [] None (put_user ?u s2))
        (\<lambda>_ s. (principal_for ?u (now s) (Some (pr_authenticated_at caller)), s)))"
      using some enc by (simp add: change_own_password_body_def verify_in_eq Let_def)
    ultimately show ?thesis
      by (rule changed_account_step [OF True assms u])
         (use enc in \<open>auto simp: hash_in_eq verify_in_eq\<close>)
  qed
qed

section \<open>Creating accounts\<close>

lemma username_re_nonempty: "re_match username_re [] = None"
  by (simp add: re_match_def match_at_def username_re_def cats_def bos_def ahead_def Let_def)

definition new_account :: "AuthService \<Rightarrow> string \<Rightarrow> string \<Rightarrow> Role \<Rightarrow> string \<Rightarrow> bool \<Rightarrow> session \<Rightarrow> User" where
  "new_account auth username display_name role enc must_change s =
     \<lparr>us_id = pf_uuid s (Suc (pf_draws s)), us_username = normalize_username username,
      us_display_name = strip display_name, us_password_hash = enc, us_role = Role_value role,
      us_is_active = True, us_must_change_password = must_change, us_failed_attempts = 0,
      us_locked_until = None, us_session_version = 1, us_last_login_at = None,
      us_created_at = Some (now s)\<rparr>"

lemma create_account_Inl:
  assumes "fst (create_account auth n dn role pw must s) = Inl e"
  shows "pf_store (snd (create_account auth n dn role pw must s)) = pf_store s"
    and "pf_uuid (snd (create_account auth n dn role pw must s)) = pf_uuid s"
    and "pf_draws s \<le> pf_draws (snd (create_account auth n dn role pw must s))"
  using assms
  by (auto simp: create_account_def hash_in_eq add_user_def new_uuid_def map_work_def and_then_def
      Let_def split: if_splits sum.splits prod.splits)

lemma create_account_Inr:
  assumes "create_account auth n dn role pw must s = (Inr u, s')"
  shows "\<exists>enc. hash_password (as_hasher auth) (pf_urandom s (pf_draws s) (ph_salt_bytes (as_hasher auth))) pw
           = Inr enc
      \<and> u = new_account auth n dn role enc must s
      \<and> re_match username_re (normalize_username n) \<noteq> None
      \<and> get_by_username n (ss_work s) = None
      \<and> validate_new_password pw (normalize_username n) (st_password_min_length (as_settings auth)) = Inr ()
      \<and> s' = s\<lparr>pf_draws := pf_draws s + 2, pf_kdf_calls := Suc (pf_kdf_calls s),
                 ss_work := (ss_work s)\<lparr>db_users := db_users (ss_work s) @ [u]\<rparr>\<rparr>"
  using assms
  by (auto simp: create_account_def hash_in_eq add_user_def new_uuid_def map_work_def and_then_eq_Inr
      new_account_def get_by_username_def now_def Let_def split: if_splits)

lemma new_account_wf:
  assumes "re_match username_re (normalize_username n) \<noteq> None" and "parse_hash enc \<noteq> None"
  shows "wf_user (new_account auth n dn role enc must s)"
proof -
  have "normalize_username n \<noteq> []" using assms(1) username_re_nonempty by auto
  moreover have "strip (normalize_username n) = normalize_username n"
    by (simp add: normalize_username_def flip: lower_strip)
  ultimately show ?thesis using assms(2) by (simp add: wf_user_def new_account_def)
qed

text \<open>The effect of a body that creates one account and records it.\<close>

lemma created_account_step:
  assumes "truthy (st_database_url st)" and "wf_accounts pf"
    and "\<And>u s'. create_account auth n dn role pw must (begin_session pf) = (Inr u, s') \<Longrightarrow>
      snd (f (begin_session pf)) = snd (and_then (record_auth_event t a (sm u) (p u) None s') (g u))"
    and "\<And>e s'. create_account auth n dn role pw must (begin_session pf) = (Inl e, s') \<Longrightarrow>
      snd (f (begin_session pf)) = s'"
    and "\<And>u x s'. snd (g u x s') = s'"
  shows "account_step pf (snd (with_session st f pf))"
proof (cases "create_account auth n dn role pw must (begin_session pf)")
  case (Pair r s')
  show ?thesis
  proof (cases r)
    case (Inl e)
    with Pair assms(4) [of e s'] show ?thesis
      using create_account_Inl [of auth n dn role pw must "begin_session pf" e]
      by (intro untouched_account_step) simp_all
  next
    case (Inr u)
    with Pair have create: "create_account auth n dn role pw must (begin_session pf) = (Inr u, s')" by simp
    from create_account_Inr [OF this] obtain enc where
      enc: "hash_password (as_hasher auth) (pf_urandom pf (pf_draws pf) (ph_salt_bytes (as_hasher auth))) pw
           = Inr enc"
      and u: "u = new_account auth n dn role enc must (begin_session pf)"
      and name: "re_match username_re (normalize_username n) \<noteq> None"
      and absent: "get_by_username n (pf_store pf) = None"
      and s': "pf_store s' = pf_store pf" "db_users (ss_work s') = users_of pf @ [u]"
        "pf_uuid s' = pf_uuid pf" "pf_draws s' = pf_draws pf + 2"
      by auto
    have body: "snd (f (begin_session pf)) = snd (and_then (record_auth_event t a (sm u) (p u) None s') (g u))"
      by (rule assms(3) [OF create])
    show ?thesis
    proof (cases "strip a = []")
      case True
      with body s' show ?thesis
        by (intro untouched_account_step) (simp_all add: record_auth_event_eq)
    next
      case False
      have users: "users_of (snd (with_session st f pf)) = users_of pf @ [u]"
        using False assms(1,5) body s' by (simp add: record_auth_event_eq)
      have id: "us_id u = pf_uuid pf (Suc (pf_draws pf))" by (simp add: u new_account_def)
      have "us_username u = normalize_username n" by (simp add: u new_account_def)
      then have "us_username u \<notin> us_username ` set (users_of pf)"
        using absent by (auto simp: get_by_username_def get_row_None)
      moreover have "us_id u \<notin> us_id ` set (users_of pf)"
        using assms(2) by (simp add: id wf_accounts_def fresh_ids_def)
      moreover have "wf_user u"
        unfolding u using name hash_password_parse [OF enc] by (rule new_account_wf)
      ultimately have "users_step (users_of pf) (users_of (snd (with_session st f pf)))"
        unfolding users by (intro users_add)
      then show ?thesis
        using False assms(1,5) body s' id
        by (auto simp: account_step_def users record_auth_event_eq)
    qed
  qed
qed

lemma create_user_account_step:
  assumes "wf_accounts pf"
  shows "account_step pf (snd (with_session st (create_user_body auth caller n dn role pw must) pf))"
proof (cases "truthy (st_database_url st)")
  case False
  then show ?thesis by (intro account_stepI_same) (simp_all add: with_session_not_configured)
next
  case True
  with assms show ?thesis
    by (intro created_account_step [where auth = auth and n = n and dn = dn and role = role and pw = pw and must = must])
       (simp, simp, simp add: create_user_body_def, simp add: create_user_body_def, simp)
qed

lemma bootstrap_user_account_step:
  assumes "wf_accounts pf"
  shows "account_step pf (snd (bootstrap_user auth n dn role pw actor pf))"
proof (cases "truthy (st_database_url (as_settings auth)) \<and> startswith actor ''system:''")
  case False
  then show ?thesis
    by (intro account_stepI_same) (auto simp: bootstrap_user_def with_session_not_configured)
next
  case True
  then show ?thesis
    by (simp add: bootstrap_user_def del: with_session_configured)
       (rule created_account_step [where auth = auth and n = n and dn = dn and role = role and pw = pw and must = False, OF _ assms], simp, simp, simp, simp)
qed

end
