(* ===== verification/AccessFacts.thy ===== *)
theory AccessFacts
  imports AccountFacts
begin

text \<open>
  Correctness of the enforcement point: who passes \<open>require\<close>, what a refusal leaves
  behind, and that a session never survives a change of the account it was issued for.
\<close>

section \<open>Validation\<close>

text \<open>The account a session stands for, when the session is valid.\<close>

definition session_current :: "AuthService \<Rightarrow> Principal \<Rightarrow> platform \<Rightarrow> User \<Rightarrow> bool" where
  "session_current self p pf u =
     (get_by_id (pr_user_id p) (pf_store pf) = Some u \<and> us_is_active u
      \<and> us_session_version u = pr_session_version p
      \<and> pf_clock pf - utc_instant (pr_last_activity_at p) \<le> idle_timeout self)"

definition refreshed :: "Principal \<Rightarrow> User \<Rightarrow> Role \<Rightarrow> datetime \<Rightarrow> Principal" where
  "refreshed p u role current =
     p\<lparr>pr_display_name := us_display_name u, pr_role := role,
       pr_must_change_password := us_must_change_password u, pr_last_activity_at := current\<rparr>"

definition only_audit :: "AuditEvent list \<Rightarrow> platform \<Rightarrow> platform \<Rightarrow> bool" where
  "only_audit es pf pf' = (pf_store pf' =
     (pf_store pf)\<lparr>db_audit_events := db_audit_events (pf_store pf) @ es\<rparr>)"

definition event_of :: "AuthEventType \<Rightarrow> string \<Rightarrow> AuditEvent \<Rightarrow> bool" where
  "event_of t actor e = (ae_event_type e = AuthEventType_value t \<and> ae_actor e = actor)"

lemma event_of_entry [simp]: "event_of t a (audit_entry (auth_event t a sm p sc) s)"
  by (simp add: event_of_def audit_entry_def audit_row_def auth_event_def)

lemma event_of_type: "event_of t a (audit_entry (auth_event t' a' sm p sc) s) \<longleftrightarrow> t = t' \<and> a = a'"
  by (auto simp: event_of_def audit_entry_def audit_row_def auth_event_def)

lemma role_of_wf:
  assumes "wf_users (users_of pf)" and "get_by_id i (pf_store pf) = Some u"
  obtains role where "us_role u = Role_value role"
  using wf_users_member [OF assms(1), of u] get_by_id_Some [OF assms(2)] that
  by (auto simp: wf_user_def)

lemma with_event_store:
  "pf_store (platform.truncate (with_event ev s)) =
     (ss_work s)\<lparr>db_audit_events := db_audit_events (ss_work s) @ [audit_entry ev s]\<rparr>"
  by simp

text \<open>Validation accepts exactly the current sessions, and refreshes them without writing;
  a refusal is one of two errors and writes one audit event.\<close>

lemma validate_session_cases:
  assumes "truthy (st_database_url (as_settings self))" and "wf_users (users_of pf)"
    and "strip (pr_username p) \<noteq> []"
  shows "(\<exists>u role. session_current self p pf u \<and> us_role u = Role_value role
        \<and> validate_session self p pf = (Inr (refreshed p u role (now pf)), pf))
     \<or> (\<nexists>u. session_current self p pf u)
        \<and> (\<exists>e ev. fst (validate_session self p pf) = Inl e
             \<and> e \<in> {session_expired_error, session_invalidated_error}
             \<and> only_audit [ev] pf (snd (validate_session self p pf))
             \<and> (event_of AuthEventType.SESSION_EXPIRED (pr_username p) ev
                \<or> event_of AuthEventType.SESSION_INVALIDATED (pr_username p) ev))"
proof (cases "pf_clock pf - utc_instant (pr_last_activity_at p) > idle_timeout self")
  case True
  with assms(1,3) show ?thesis
    by (auto simp: validate_session_def validate_session_body_def record_auth_event_eq
        session_current_def only_audit_def)
next
  case fresh: False
  show ?thesis
  proof (cases "\<exists>u. session_current self p pf u")
    case True
    then obtain u where u: "session_current self p pf u" by blast
    then obtain role where "us_role u = Role_value role"
      using role_of_wf [OF assms(2)] unfolding session_current_def by blast
    with u assms(1) show ?thesis
      by (auto simp: validate_session_def validate_session_body_def session_current_def
          refreshed_def now_def Let_def)
  next
    case False
    with fresh assms(1,3) show ?thesis
      by (cases "get_by_id (pr_user_id p) (pf_store pf)")
         (auto simp: validate_session_def validate_session_body_def record_auth_event_eq
           session_current_def only_audit_def)
  qed
qed

section \<open>Authorization\<close>

definition permitted :: "Authorizer \<Rightarrow> Principal \<Rightarrow> Permission \<Rightarrow> platform \<Rightarrow> bool" where
  "permitted az p perm pf =
     (\<exists>u role. session_current (az_auth az) p pf u \<and> \<not> us_must_change_password u
        \<and> us_role u = Role_value role \<and> policy_can (az_policy az) role perm)"

lemma require_permitted:
  assumes "truthy (st_database_url (as_settings (az_auth az)))" and "wf_users (users_of pf)"
    and "strip (pr_username p) \<noteq> []" and "permitted az p perm pf"
  obtains u role where "session_current (az_auth az) p pf u" and "us_role u = Role_value role"
    and "policy_can (az_policy az) role perm"
    and "require az p perm act sc pf = (Inr (refreshed p u role (now pf)), pf)"
proof -
  from assms(4) obtain u role where u: "session_current (az_auth az) p pf u"
    "\<not> us_must_change_password u" "us_role u = Role_value role" "policy_can (az_policy az) role perm"
    by (auto simp: permitted_def)
  from validate_session_cases [OF assms(1-3)] u(1) obtain u' role' where
    v: "session_current (az_auth az) p pf u'" "us_role u' = Role_value role'"
    "validate_session (az_auth az) p pf = (Inr (refreshed p u' role' (now pf)), pf)"
    by blast
  then have "u' = u" using u(1) by (simp add: session_current_def)
  with u v have "role' = role" by simp
  with u v \<open>u' = u\<close> that [of u role] show ?thesis
    by (simp add: require_def denial_reason_def refreshed_def)
qed

lemma require_refused:
  assumes "truthy (st_database_url (as_settings (az_auth az)))" and "wf_users (users_of pf)"
    and "strip (pr_username p) \<noteq> []" and "\<not> permitted az p perm pf"
  shows "\<exists>e ev. fst (require az p perm act sc pf) = Inl e
     \<and> isinstance e (if \<exists>u. session_current (az_auth az) p pf u then AuthorizationError
                     else AuthenticationError)
     \<and> only_audit [ev] pf (snd (require az p perm act sc pf))
     \<and> (event_of AuthEventType.SESSION_EXPIRED (pr_username p) ev
        \<or> event_of AuthEventType.SESSION_INVALIDATED (pr_username p) ev
        \<or> event_of AuthEventType.ACCESS_DENIED (pr_username p) ev)"
proof (cases "\<exists>u. session_current (az_auth az) p pf u")
  case False
  then obtain e ev where v: "fst (validate_session (az_auth az) p pf) = Inl e"
    "e \<in> {session_expired_error, session_invalidated_error}"
    "only_audit [ev] pf (snd (validate_session (az_auth az) p pf))"
    "event_of AuthEventType.SESSION_EXPIRED (pr_username p) ev
      \<or> event_of AuthEventType.SESSION_INVALIDATED (pr_username p) ev"
    using validate_session_cases [OF assms(1-3)] by blast
  then have "require az p perm act sc pf = (Inl e, snd (validate_session (az_auth az) p pf))"
    by (cases "validate_session (az_auth az) p pf") (simp add: require_def)
  moreover have "isinstance e AuthenticationError"
    using v(2) by (auto simp: isinstance_def session_expired_error_def session_invalidated_error_def)
  ultimately show ?thesis using v False by auto
next
  case True
  then obtain u role where u: "session_current (az_auth az) p pf u" "us_role u = Role_value role"
    "validate_session (az_auth az) p pf = (Inr (refreshed p u role (now pf)), pf)"
    using validate_session_cases [OF assms(1-3)] by blast
  let ?q = "refreshed p u role (now pf)"
  have q: "pr_username ?q = pr_username p" by (simp add: refreshed_def)
  have "denial_reason az ?q perm \<noteq> None"
    using assms(4) u by (auto simp: denial_reason_def refreshed_def permitted_def)
  then obtain reason where "denial_reason az ?q perm = Some reason" by blast
  moreover define ev where "ev = auth_event AuthEventType.ACCESS_DENIED (pr_username p)
      (''Access denied: '' @ act) [(''permission'', JStr (Permission_value perm)),
        (''role'', JStr (Role_value (pr_role ?q))), (''reason'', JStr reason),
        (''scan_id'', json_opt_str sc)] None"
  ultimately have r: "require az p perm act sc pf =
      (Inl (denial_error ?q act reason), platform.truncate (with_event ev (begin_session pf)))"
    using u(3) assms(1,3) q by (simp add: require_def record_auth_event_eq)
  have "event_of AuthEventType.ACCESS_DENIED (pr_username p) (audit_entry ev (begin_session pf))"
    by (simp add: ev_def)
  moreover have "isinstance (denial_error ?q act reason) AuthorizationError"
    by (simp add: denial_error_def isinstance_def)
  moreover have "only_audit [audit_entry ev (begin_session pf)] pf (snd (require az p perm act sc pf))"
    by (simp add: r only_audit_def)
  ultimately show ?thesis using True r by auto
qed

text \<open>C1: the enforcement point is sound and complete. \<open>require\<close> lets a caller through exactly
  when the stored account is active, has the session's version, was used recently enough, has
  no pending password change, and its stored role (not the one the caller presents) grants the
  permission; then nothing is written. Otherwise it raises, and one audit event naming the
  caller is the only change to the database.\<close>

theorem require_sound_and_complete:
  assumes "truthy (st_database_url (as_settings (az_auth az)))" and "wf_users (users_of pf)"
    and "strip (pr_username p) \<noteq> []"
  shows "(\<exists>q. fst (require az p perm act sc pf) = Inr q) = permitted az p perm pf
     \<and> (permitted az p perm pf \<longrightarrow> snd (require az p perm act sc pf) = pf)
     \<and> (\<not> permitted az p perm pf \<longrightarrow> (\<exists>ev. only_audit [ev] pf (snd (require az p perm act sc pf))
           \<and> ae_actor ev = pr_username p))"
proof (cases "permitted az p perm pf")
  case True
  from require_permitted [OF assms True] obtain q where "require az p perm act sc pf = (Inr q, pf)"
    by metis
  with True show ?thesis by simp
next
  case False
  from require_refused [OF assms False, of act sc] obtain e ev where
    "fst (require az p perm act sc pf) = Inl e"
    "only_audit [ev] pf (snd (require az p perm act sc pf))" "ae_actor ev = pr_username p"
    by (auto simp: event_of_def)
  with False show ?thesis by auto
qed

end
