(* ===== verification/Domains.thy ===== *)
theory Domains
  imports Enums
begin

text \<open>
  \<^verbatim>\<open>core/domains.py\<close>: the 16 banking domains, in declaration order, their stored values and
  display labels. Every table that is "one row per domain" iterates over
  \<open>BankingDomain_members\<close>.
\<close>

datatype BankingDomain =
    CORE_BANKING | PAYMENTS | CREDIT_LENDING | INVESTMENTS_TRADING
  | ONBOARDING_IDENTITY_ACCESS | TRANSACTION_PROCESSING_REPORTING | FRAUD_CONTROLS
  | PRIVACY_DATA_PROTECTION | APPLICATION_SECURITY | INFRASTRUCTURE_API_SECURITY
  | DATABASE_CONTROLS_SOD | CHANGE_MANAGEMENT | MONITORING_OBSERVABILITY
  | BUSINESS_CONTINUITY_DR | MODEL_AI_GOVERNANCE | HUMAN_APPROVAL_AUDITABILITY

primrec BankingDomain_value :: "BankingDomain \<Rightarrow> string" where
  "BankingDomain_value BankingDomain.CORE_BANKING = ''core_banking''"
| "BankingDomain_value BankingDomain.PAYMENTS = ''payments''"
| "BankingDomain_value BankingDomain.CREDIT_LENDING = ''credit_lending''"
| "BankingDomain_value BankingDomain.INVESTMENTS_TRADING = ''investments_trading''"
| "BankingDomain_value BankingDomain.ONBOARDING_IDENTITY_ACCESS = ''onboarding_identity_access''"
| "BankingDomain_value BankingDomain.TRANSACTION_PROCESSING_REPORTING = ''transaction_processing_reporting''"
| "BankingDomain_value BankingDomain.FRAUD_CONTROLS = ''fraud_controls''"
| "BankingDomain_value BankingDomain.PRIVACY_DATA_PROTECTION = ''privacy_data_protection''"
| "BankingDomain_value BankingDomain.APPLICATION_SECURITY = ''application_security''"
| "BankingDomain_value BankingDomain.INFRASTRUCTURE_API_SECURITY = ''infrastructure_api_security''"
| "BankingDomain_value BankingDomain.DATABASE_CONTROLS_SOD = ''database_controls_sod''"
| "BankingDomain_value BankingDomain.CHANGE_MANAGEMENT = ''change_management''"
| "BankingDomain_value BankingDomain.MONITORING_OBSERVABILITY = ''monitoring_observability''"
| "BankingDomain_value BankingDomain.BUSINESS_CONTINUITY_DR = ''business_continuity_dr''"
| "BankingDomain_value BankingDomain.MODEL_AI_GOVERNANCE = ''model_ai_governance''"
| "BankingDomain_value BankingDomain.HUMAN_APPROVAL_AUDITABILITY = ''human_approval_auditability''"

definition BankingDomain_members :: "BankingDomain list" where
  "BankingDomain_members =
     [BankingDomain.CORE_BANKING, BankingDomain.PAYMENTS, BankingDomain.CREDIT_LENDING,
      BankingDomain.INVESTMENTS_TRADING, BankingDomain.ONBOARDING_IDENTITY_ACCESS,
      BankingDomain.TRANSACTION_PROCESSING_REPORTING, BankingDomain.FRAUD_CONTROLS,
      BankingDomain.PRIVACY_DATA_PROTECTION, BankingDomain.APPLICATION_SECURITY,
      BankingDomain.INFRASTRUCTURE_API_SECURITY, BankingDomain.DATABASE_CONTROLS_SOD,
      BankingDomain.CHANGE_MANAGEMENT, BankingDomain.MONITORING_OBSERVABILITY,
      BankingDomain.BUSINESS_CONTINUITY_DR, BankingDomain.MODEL_AI_GOVERNANCE,
      BankingDomain.HUMAN_APPROVAL_AUDITABILITY]"

interpretation banking_domain: str_enum BankingDomain_members BankingDomain_value
  by (rule str_enumI) (use BankingDomain.nchotomy in \<open>auto simp: BankingDomain_members_def\<close>)

primrec BANKING_DOMAIN_LABELS :: "BankingDomain \<Rightarrow> string" where
  "BANKING_DOMAIN_LABELS BankingDomain.CORE_BANKING = ''Core Banking and Account Management''"
| "BANKING_DOMAIN_LABELS BankingDomain.PAYMENTS = ''Payments''"
| "BANKING_DOMAIN_LABELS BankingDomain.CREDIT_LENDING = ''Credit and Lending''"
| "BANKING_DOMAIN_LABELS BankingDomain.INVESTMENTS_TRADING = ''Investments and Trading-Related Systems''"
| "BANKING_DOMAIN_LABELS BankingDomain.ONBOARDING_IDENTITY_ACCESS = ''Customer Onboarding, Identity, and Access''"
| "BANKING_DOMAIN_LABELS BankingDomain.TRANSACTION_PROCESSING_REPORTING = ''Transaction Processing and Financial Reporting''"
| "BANKING_DOMAIN_LABELS BankingDomain.FRAUD_CONTROLS = ''Fraud-Related Controls''"
| "BANKING_DOMAIN_LABELS BankingDomain.PRIVACY_DATA_PROTECTION = ''Privacy and Data Protection''"
| "BANKING_DOMAIN_LABELS BankingDomain.APPLICATION_SECURITY = ''Application Security''"
| "BANKING_DOMAIN_LABELS BankingDomain.INFRASTRUCTURE_API_SECURITY = ''Infrastructure and API Security''"
| "BANKING_DOMAIN_LABELS BankingDomain.DATABASE_CONTROLS_SOD = ''Database Controls and Segregation of Duties''"
| "BANKING_DOMAIN_LABELS BankingDomain.CHANGE_MANAGEMENT = ''Change Management''"
| "BANKING_DOMAIN_LABELS BankingDomain.MONITORING_OBSERVABILITY = ''Monitoring and Observability''"
| "BANKING_DOMAIN_LABELS BankingDomain.BUSINESS_CONTINUITY_DR = ''Business Continuity and Disaster Recovery''"
| "BANKING_DOMAIN_LABELS BankingDomain.MODEL_AI_GOVERNANCE = ''Model and AI Governance''"
| "BANKING_DOMAIN_LABELS BankingDomain.HUMAN_APPROVAL_AUDITABILITY = ''Human Approval Controls and Auditability''"

definition get_domain_label :: "BankingDomain \<Rightarrow> string" where
  "get_domain_label d = BANKING_DOMAIN_LABELS d"

lemma sixteen_domains: "length BankingDomain_members = 16"
  by (simp add: BankingDomain_members_def)

lemma labels_distinct: "distinct (map get_domain_label BankingDomain_members)"
  by (simp add: BankingDomain_members_def get_domain_label_def)

end
