(* ===== verification/ScanTypes.thy ===== *)
theory ScanTypes
  imports Domains Payload
begin

text \<open>
  The in-memory results of a scan: \<^verbatim>\<open>scanners/rules/base.py\<close> (\<open>RawFinding\<close>), the inventory
  types of \<^verbatim>\<open>scanners/file_discovery.py\<close>, \<^verbatim>\<open>scanners/domain_mapper.py\<close> (\<open>DomainMapping\<close>) and
  the dataclasses of \<^verbatim>\<open>scanners/scan_orchestrator.py\<close>. A dict is an association list in
  insertion order.
\<close>

record RawFinding =
  rf_title :: string
  rf_finding_type :: FindingType
  rf_category :: FindingCategory
  rf_severity :: Severity
  rf_confidence :: ConfidenceLevel
  rf_line_start :: int
  rf_line_end :: int
  rf_evidence :: string
  rf_masked_evidence :: string
  rf_description :: string
  rf_impact :: string
  rf_recommended_action :: string
  rf_rule_id :: string
  rf_remediation_mode :: RemediationMode
  rf_read_only_confirmation :: bool
  rf_metadata :: "(string \<times> json) list"

record NormalizedFinding =
  nf_scan_id :: string
  nf_source_relative_path :: string
  nf_banking_domains :: "string list"
  nf_scanner_id :: string
  nf_scanner_version :: string
  nf_raw :: RawFinding

record ScannerExecutionSummary =
  xs_scanner_id :: string
  xs_scanner_version :: string
  xs_status :: string
  xs_files_processed :: int
  xs_files_errored :: int
  xs_findings_produced :: int
  xs_error_summary :: "string option"

record FileInventoryItem =
  it_relative_path :: string
  it_file_name :: string
  it_extension :: string
  it_size_bytes :: int
  it_content_hash :: string
  it_is_supported :: bool
  it_metadata :: "(string \<times> json) list"

record SkippedFile =
  sk_relative_path :: string
  sk_reason :: SkipReason
  sk_detail :: string

record DomainMapping =
  mp_domain :: BankingDomain
  mp_confidence :: ConfidenceLevel
  mp_reason :: string
  mp_source :: MappingSource

record ScanSummary =
  sm_scan_id :: string
  sm_status :: ScanStatus
  sm_source_path :: string
  sm_source_type :: string
  sm_total_files_found :: int
  sm_files_scanned :: int
  sm_files_skipped :: int
  sm_total_findings :: int
  sm_truncated :: bool
  sm_integrity_verified :: bool
  sm_source_hash_before :: string
  sm_source_hash_after :: string
  sm_findings_by_severity :: "(string \<times> int) list"
  sm_findings_by_domain :: "(string \<times> int) list"
  sm_scanner_warnings :: "string list"
  sm_error_message :: "string option"
  sm_started_at :: datetime
  sm_completed_at :: "datetime option"

record ScanResult =
  rs_summary :: ScanSummary
  rs_inventory :: "FileInventoryItem list"
  rs_skipped :: "SkippedFile list"
  rs_domain_mappings :: "(string \<times> DomainMapping list) list"
  rs_findings :: "NormalizedFinding list"
  rs_scanner_executions :: "ScannerExecutionSummary list"

text \<open>\<open>metadata.get(key)\<close> as an optional string, and its truth value.\<close>

definition meta_str :: "(string \<times> json) list \<Rightarrow> string \<Rightarrow> string option" where
  "meta_str md key = (case map_of md key of Some (JStr s) \<Rightarrow> Some s | _ \<Rightarrow> None)"

definition meta_truthy :: "(string \<times> json) list \<Rightarrow> string \<Rightarrow> bool" where
  "meta_truthy md key =
     (case map_of md key of
        None \<Rightarrow> False | Some JNull \<Rightarrow> False | Some (JBool b) \<Rightarrow> b | Some (JInt i) \<Rightarrow> i \<noteq> 0
      | Some (JFloat x) \<Rightarrow> x \<noteq> 0
      | Some (JStr s) \<Rightarrow> s \<noteq> [] | Some (JList vs) \<Rightarrow> vs \<noteq> [] | Some (JObj kvs) \<Rightarrow> kvs \<noteq> [])"

end
