(* ===== verification/Evidencing.thy ===== *)
theory Evidencing
  imports Enums
begin

text \<open>
  \<^verbatim>\<open>evidence/capture.py\<close> and \<^verbatim>\<open>scoring/recommendations.py\<close>: one evidence item and one
  templated recommendation per finding.
\<close>

record FindingForEvidence =
  fe_finding_id :: string
  fe_masked_evidence :: string
  fe_source_relative_path :: string
  fe_line_start :: int
  fe_line_end :: int
  fe_control_id :: "string option"

record EvidenceResult =
  er_finding_id :: string
  er_control_id :: "string option"
  er_evidence_type :: string
  er_content :: string
  er_source_reference :: string
  er_retrieved_via :: "string option"

definition evidence_for :: "FindingForEvidence \<Rightarrow> EvidenceResult" where
  "evidence_for finding =
     (let location =
        (if fe_line_end finding \<noteq> 0 \<and> fe_line_end finding \<noteq> fe_line_start finding
         then fe_source_relative_path finding @ '':'' @ show_int (fe_line_start finding) @ ''-''
                @ show_int (fe_line_end finding)
         else fe_source_relative_path finding @ '':'' @ show_int (fe_line_start finding))
      in \<lparr>er_finding_id = fe_finding_id finding, er_control_id = fe_control_id finding,
          er_evidence_type = EvidenceType_value EvidenceType.SCAN_RESULT,
          er_content = fe_masked_evidence finding, er_source_reference = location,
          er_retrieved_via = None\<rparr>)"

definition build_evidence :: "FindingForEvidence list \<Rightarrow> EvidenceResult list" where
  "build_evidence findings = map evidence_for findings"

record FindingForRecommendation =
  fm_finding_id :: string
  fm_rule_id :: string
  fm_title :: string
  fm_severity :: Severity
  fm_recommended_action :: string
  fm_source_relative_path :: string
  fm_line_start :: int
  fm_domains :: "string list"
  fm_control_id :: "string option"

record RecommendationResult =
  rr_finding_id :: string
  rr_control_id :: "string option"
  rr_text :: string
  rr_priority :: string
  rr_status :: string
  rr_source :: string

definition recommendation_for :: "FindingForRecommendation \<Rightarrow> RecommendationResult" where
  "recommendation_for finding =
     (let domain_note =
        (if fm_domains finding \<noteq> []
         then '' (banking domains: '' @ join '', '' (fm_domains finding) @ '')'' else [])
      in \<lparr>rr_finding_id = fm_finding_id finding, rr_control_id = fm_control_id finding,
          rr_text = ''['' @ fm_rule_id finding @ ''] '' @ fm_title finding @ '' '' @ em_dash @ '' ''
            @ fm_source_relative_path finding @ '':'' @ show_int (fm_line_start finding)
            @ domain_note @ ''. '' @ fm_recommended_action finding,
          rr_priority = Severity_value (fm_severity finding),
          rr_status = RecommendationStatus_value RecommendationStatus.OPEN,
          rr_source = RecommendationSource_value RecommendationSource.DETERMINISTIC_TEMPLATE\<rparr>)"

definition generate_recommendations :: "FindingForRecommendation list \<Rightarrow> RecommendationResult list" where
  "generate_recommendations findings = map recommendation_for findings"

end
