(* ===== verification/Catalog.thy ===== *)
theory Catalog
  imports Domains Complex_Main
begin

text \<open>
  \<^verbatim>\<open>controls/catalog.py\<close>: the eight controls, which control covers a rule id, and which
  controls apply to a domain. Storing the catalog (\<open>upsert_catalog\<close>) is in \<open>Tables\<close>, with
  the table it writes. A control's weight is a rational.
\<close>

record ControlDefinition =
  cd_control_id :: string
  cd_title :: string
  cd_description :: string
  cd_source_reference :: string
  cd_rule_prefix :: string
  cd_weight :: rat
  cd_domain :: "string option"
  cd_subdomain :: "string option"
  cd_applies_to_domains :: "string list"

section \<open>The catalog\<close>

definition CTRL_SECRET_001 :: ControlDefinition where
  "CTRL_SECRET_001 =
     \<lparr>cd_control_id = ''CTRL-SECRET-001'',
      cd_title = ''No hardcoded secrets or credentials in source'',
      cd_description =
        ''Source code, configuration, and scripts must not contain hardcoded API keys, '' @
        ''passwords, tokens, private keys, or connection-string credentials.'',
      cd_source_reference = ''scanners/rules/secret_scanner.py'',
      cd_rule_prefix = ''SECRET-'',
      cd_weight = 2, cd_domain = None, cd_subdomain = None,
      cd_applies_to_domains = []\<rparr>"

definition CTRL_PII_001 :: ControlDefinition where
  "CTRL_PII_001 =
     \<lparr>cd_control_id = ''CTRL-PII-001'',
      cd_title = ''No unnecessary sensitive/PII data in source or fixtures'',
      cd_description =
        ''Source, configuration, and test fixtures should not contain patterns '' @
        ''resembling real customer PII (national ID, card/account numbers, DOB, contact '' @
        ''details).'',
      cd_source_reference = ''scanners/rules/pii_scanner.py'',
      cd_rule_prefix = ''PII-'',
      cd_weight = 3 / 2, cd_domain = None, cd_subdomain = None,
      cd_applies_to_domains = []\<rparr>"

definition CTRL_LOG_001 :: ControlDefinition where
  "CTRL_LOG_001 =
     \<lparr>cd_control_id = ''CTRL-LOG-001'',
      cd_title = ''Sensitive data must not be logged'',
      cd_description =
        ''Logging statements must not include passwords, tokens, PII, or card data.'',
      cd_source_reference = ''scanners/rules/unsafe_logging_scanner.py'',
      cd_rule_prefix = ''LOG-'',
      cd_weight = 3 / 2, cd_domain = None, cd_subdomain = None,
      cd_applies_to_domains = []\<rparr>"

definition CTRL_AUDIT_001 :: ControlDefinition where
  "CTRL_AUDIT_001 =
     \<lparr>cd_control_id = ''CTRL-AUDIT-001'',
      cd_title = ''Sensitive operations must be auditable'',
      cd_description =
        ''Audit logging must not be disabled; sensitive operations should have an '' @
        ''identifiable audit trail with actor, action, and timestamp.'',
      cd_source_reference = ''scanners/rules/audit_scanner.py'',
      cd_rule_prefix = ''AUDIT-'',
      cd_weight = 3 / 2, cd_domain = Some ''human_approval_auditability'', cd_subdomain = None,
      cd_applies_to_domains = []\<rparr>"

definition CTRL_PERM_001 :: ControlDefinition where
  "CTRL_PERM_001 =
     \<lparr>cd_control_id = ''CTRL-PERM-001'',
      cd_title = ''Access permissions must follow least privilege'',
      cd_description =
        ''Wildcard IAM policies, admin-by-default roles, and public/anonymous access '' @
        ''flags should not be present.'',
      cd_source_reference = ''scanners/rules/permission_scanner.py'',
      cd_rule_prefix = ''PERM-'',
      cd_weight = 2, cd_domain = Some ''application_security'', cd_subdomain = None,
      cd_applies_to_domains = []\<rparr>"

definition CTRL_SQL_001 :: ControlDefinition where
  "CTRL_SQL_001 =
     \<lparr>cd_control_id = ''CTRL-SQL-001'',
      cd_title = ''SQL must be parameterized and non-destructive by default'',
      cd_description =
        ''SQL must not be built via string concatenation/interpolation, and destructive '' @
        ''statements must not appear in ordinary source.'',
      cd_source_reference = ''scanners/rules/sql_scanner.py'',
      cd_rule_prefix = ''SQL-'',
      cd_weight = 2, cd_domain = Some ''database_controls_sod'', cd_subdomain = None,
      cd_applies_to_domains = []\<rparr>"

definition CTRL_CFG_001 :: ControlDefinition where
  "CTRL_CFG_001 =
     \<lparr>cd_control_id = ''CTRL-CFG-001'',
      cd_title = ''Configuration must be secure by default'',
      cd_description =
        ''Debug mode, disabled TLS verification, disabled auth/encryption, permissive '' @
        ''CORS, and default weak credentials must not be present.'',
      cd_source_reference = ''scanners/rules/insecure_config_scanner.py'',
      cd_rule_prefix = ''CFG-'',
      cd_weight = 3 / 2, cd_domain = Some ''infrastructure_api_security'', cd_subdomain = None,
      cd_applies_to_domains = []\<rparr>"

definition CTRL_SKIP_001 :: ControlDefinition where
  "CTRL_SKIP_001 =
     \<lparr>cd_control_id = ''CTRL-SKIP-001'',
      cd_title = ''Sensitive-looking unscanned files must be reviewed'',
      cd_description =
        ''Files skipped during discovery whose name suggests sensitive content should be '' @
        ''manually reviewed rather than silently ignored.'',
      cd_source_reference = ''scanners/rules/unsupported_file_scanner.py'',
      cd_rule_prefix = ''SKIP-'',
      cd_weight = 1 / 2, cd_domain = None, cd_subdomain = None,
      cd_applies_to_domains = []\<rparr>"

definition CONTROL_CATALOG :: "ControlDefinition list" where
  "CONTROL_CATALOG =
     [CTRL_SECRET_001, CTRL_PII_001, CTRL_LOG_001, CTRL_AUDIT_001, CTRL_PERM_001,
      CTRL_SQL_001, CTRL_CFG_001, CTRL_SKIP_001]"

lemmas catalog_defs = CONTROL_CATALOG_def CTRL_SECRET_001_def CTRL_PII_001_def
  CTRL_LOG_001_def CTRL_AUDIT_001_def CTRL_PERM_001_def CTRL_SQL_001_def CTRL_CFG_001_def
  CTRL_SKIP_001_def

section \<open>Lookups\<close>

definition control_for_rule_id :: "string \<Rightarrow> ControlDefinition option" where
  "control_for_rule_id rule_id =
     List.find (\<lambda>definition. startswith rule_id (cd_rule_prefix definition)) CONTROL_CATALOG"

definition applies_to_domain :: "ControlDefinition \<Rightarrow> string \<Rightarrow> bool" where
  "applies_to_domain definition domain =
     (if cd_applies_to_domains definition \<noteq> []
      then domain \<in> set (cd_applies_to_domains definition)
      else case cd_domain definition of
        Some d \<Rightarrow> domain = d
      | None \<Rightarrow> True)"

definition controls_for_domain :: "string \<Rightarrow> ControlDefinition list" where
  "controls_for_domain domain = filter (\<lambda>d. applies_to_domain d domain) CONTROL_CATALOG"

section \<open>Lemmas\<close>

lemma catalog_ids_distinct: "distinct (map cd_control_id CONTROL_CATALOG)"
  by (simp add: catalog_defs)

lemma catalog_distinct: "distinct CONTROL_CATALOG"
  using catalog_ids_distinct by (simp add: distinct_map)

text \<open>No rule prefix of the catalog is a prefix of another: a rule id has one control.\<close>

lemma prefixes_incomparable_nth:
  "sorted_wrt (\<lambda>p q. \<not> prefix p q \<and> \<not> prefix q p) (map cd_rule_prefix CONTROL_CATALOG)"
  by (simp add: catalog_defs)

lemma prefixes_incomparable:
  assumes "c \<in> set CONTROL_CATALOG" and "d \<in> set CONTROL_CATALOG"
    and "startswith r (cd_rule_prefix c)" and "startswith r (cd_rule_prefix d)"
  shows "c = d"
proof -
  obtain i j where i: "i < length CONTROL_CATALOG" "c = CONTROL_CATALOG ! i"
    and j: "j < length CONTROL_CATALOG" "d = CONTROL_CATALOG ! j"
    using assms(1,2) by (metis in_set_conv_nth)
  have "prefix (cd_rule_prefix c) (cd_rule_prefix d) \<or> prefix (cd_rule_prefix d) (cd_rule_prefix c)"
    using assms(3,4) by (simp add: startswith_prefix prefix_same_cases)
  then have "\<not> i < j" and "\<not> j < i"
    using prefixes_incomparable_nth i j by (auto simp: sorted_wrt_iff_nth_less)
  with i j show ?thesis by simp
qed

lemma control_for_rule_id_Some:
  "control_for_rule_id r = Some c
     \<longleftrightarrow> c \<in> set CONTROL_CATALOG \<and> startswith r (cd_rule_prefix c)"
proof
  assume "control_for_rule_id r = Some c"
  then show "c \<in> set CONTROL_CATALOG \<and> startswith r (cd_rule_prefix c)"
    by (auto simp: control_for_rule_id_def dest: find_Some_iff')
next
  assume c: "c \<in> set CONTROL_CATALOG \<and> startswith r (cd_rule_prefix c)"
  then obtain d where d: "control_for_rule_id r = Some d"
    by (cases "control_for_rule_id r") (auto simp: control_for_rule_id_def find_None_iff)
  then have "d \<in> set CONTROL_CATALOG \<and> startswith r (cd_rule_prefix d)"
    by (auto simp: control_for_rule_id_def dest: find_Some_iff')
  with c d show "control_for_rule_id r = Some c"
    using prefixes_incomparable by blast
qed

lemma controls_for_domain_subset: "set (controls_for_domain d) \<subseteq> set CONTROL_CATALOG"
  by (auto simp: controls_for_domain_def)

lemma distinct_controls_for_domain: "distinct (map cd_control_id (controls_for_domain d))"
  using catalog_ids_distinct by (simp add: controls_for_domain_def distinct_map_filter)

text \<open>The four cross-cutting controls apply everywhere.\<close>

lemma cross_cutting:
  "{CTRL_SECRET_001, CTRL_PII_001, CTRL_LOG_001, CTRL_SKIP_001} \<subseteq> set (controls_for_domain d)"
  by (simp add: controls_for_domain_def applies_to_domain_def catalog_defs)

lemma controls_for_domain_not_Nil [simp]: "controls_for_domain d \<noteq> []"
  using cross_cutting [of d] by auto

end
