(* ===== verification/Float64.thy ===== *)
theory Float64
  imports Complex_Main "HOL-Library.Log_Nat"
begin

text \<open>
  Python's \<open>float\<close> arithmetic on the values the scoring code computes with: a float is the
  rational number it denotes, and every operation rounds its exact result to the nearest
  number with a 53 bit significand, ties to the even one (\<open>fl\<close>). Exponent range limits
  (overflow, subnormal numbers) are left out: the scores are sums of at most a few hundred
  thousand terms between 0.4 and 40, far from both ends.
\<close>

section \<open>Rounding to binary64\<close>

definition round_even :: "rat \<Rightarrow> int" where
  "round_even x =
     (let f = \<lfloor>x\<rfloor>; r = x - of_int f
      in if r < 1/2 then f else if 1/2 < r then f + 1 else if even f then f else f + 1)"

text \<open>The exponent of a positive number: \<open>2 ^ expo x \<le> x < 2 ^ (expo x + 1)\<close>.\<close>

definition expo :: "rat \<Rightarrow> int" where
  "expo x =
     (let (n, d) = quotient_of x; k = bitlen n - bitlen d
      in if x < 2 powi k then k - 1 else k)"

definition fl_pos :: "rat \<Rightarrow> rat" where
  "fl_pos x = of_int (round_even (x * 2 powi (52 - expo x))) * 2 powi (expo x - 52)"

definition fl :: "rat \<Rightarrow> rat" where
  "fl x = (if x = 0 then 0 else if x < 0 then - fl_pos (- x) else fl_pos x)"

subsection \<open>Rounding to an integer\<close>

lemma round_even_of_int [simp]: "round_even (of_int n) = n"
  by (simp add: round_even_def)

lemma round_even_bounds: "\<lfloor>x\<rfloor> \<le> round_even x" "round_even x \<le> \<lceil>x\<rceil>"
proof -
  show "\<lfloor>x\<rfloor> \<le> round_even x" by (simp add: round_even_def Let_def)
  show "round_even x \<le> \<lceil>x\<rceil>"
  proof (cases "x = of_int \<lfloor>x\<rfloor>")
    case True
    then show ?thesis by (metis ceiling_of_int order_refl round_even_of_int)
  next
    case False
    then have "\<lceil>x\<rceil> = \<lfloor>x\<rfloor> + 1" by (simp add: ceiling_altdef)
    then show ?thesis by (simp add: round_even_def Let_def)
  qed
qed

lemma round_even_mono: "x \<le> y \<Longrightarrow> round_even x \<le> round_even y"
proof -
  assume le: "x \<le> y"
  show ?thesis
  proof (cases "\<lfloor>x\<rfloor> = \<lfloor>y\<rfloor>")
    case True
    with le show ?thesis by (auto simp: round_even_def Let_def)
  next
    case False
    with le have "\<lfloor>x\<rfloor> + 1 \<le> \<lfloor>y\<rfloor>" using floor_mono [OF le] by linarith
    moreover have "round_even x \<le> \<lfloor>x\<rfloor> + 1" by (simp add: round_even_def Let_def)
    ultimately show ?thesis using round_even_bounds(1) [of y] by linarith
  qed
qed

lemma round_even_le: "x \<le> of_int n \<Longrightarrow> round_even x \<le> n"
  using round_even_mono [of x "of_int n"] by simp

lemma round_even_ge: "of_int n \<le> x \<Longrightarrow> n \<le> round_even x"
  using round_even_mono [of "of_int n" x] by simp

subsection \<open>The exponent\<close>

lemma bitlen_pow: "0 < n \<Longrightarrow> 2 powi (bitlen n - 1) \<le> (of_int n :: rat) \<and> of_int n < (2 powi bitlen n :: rat)"
proof -
  assume n: "0 < n"
  have pos: "0 < bitlen n"
    using n bitlen_eq_zero_iff [of n] bitlen_nonneg [of n] by linarith
  have b: "2 ^ nat (bitlen n - 1) \<le> n \<and> n < 2 ^ nat (bitlen n)"
    using bitlen_bounds [OF n] .
  then have "(of_int (2 ^ nat (bitlen n - 1)) :: rat) \<le> of_int n
      \<and> (of_int n :: rat) < of_int (2 ^ nat (bitlen n))"
    by (simp only: of_int_le_iff of_int_less_iff)
  with pos show ?thesis by (simp add: power_int_def)
qed

lemma expo_bounds:
  assumes "0 < x"
  shows "2 powi expo x \<le> x" and "x < 2 powi (expo x + 1)"
proof -
  obtain n d where q: "quotient_of x = (n, d)" by (cases "quotient_of x")
  have d: "0 < d" using quotient_of_denom_pos [OF q] .
  have x: "x = of_int n / of_int d" using quotient_of_div [OF q] .
  with assms d have n: "0 < n" by (simp add: zero_less_divide_iff)
  define k where "k = bitlen n - bitlen d"
  have nb: "2 powi (bitlen n - 1) \<le> (of_int n :: rat)" "of_int n < (2 powi bitlen n :: rat)"
    using bitlen_pow [OF n] by simp_all
  have db: "2 powi (bitlen d - 1) \<le> (of_int d :: rat)" "of_int d < (2 powi bitlen d :: rat)"
    using bitlen_pow [OF d] by simp_all
  have lo: "2 powi (k - 1) < x"
  proof -
    have "2 powi (k - 1) * of_int d < 2 powi (k - 1) * (2 powi bitlen d :: rat)"
      using db by simp
    also have "\<dots> = 2 powi (bitlen n - 1)"
      by (simp add: k_def flip: power_int_add)
    also have "\<dots> \<le> of_int n" by (rule nb)
    finally show ?thesis using d by (simp add: x field_simps)
  qed
  have hi: "x < 2 powi (k + 1)"
  proof -
    have "of_int n < (2 powi bitlen n :: rat)" by (rule nb)
    also have "\<dots> = 2 powi (k + 1) * 2 powi (bitlen d - 1)"
      by (simp add: k_def flip: power_int_add)
    also have "\<dots> \<le> 2 powi (k + 1) * of_int d"
      using db by simp
    finally show ?thesis using d by (simp add: x field_simps)
  qed
  have e: "expo x = (if x < 2 powi k then k - 1 else k)"
    by (simp add: expo_def q k_def)
  show "2 powi expo x \<le> x" using lo by (simp add: e)
  show "x < 2 powi (expo x + 1)" using hi by (simp add: e)
qed

lemma powi_less_iff [simp]: "(2::rat) powi a < 2 powi b \<longleftrightarrow> a < b"
  using power_int_strict_increasing [of a b "2::rat"] power_int_increasing [of b a "2::rat"]
  by (cases "a < b") simp_all

lemma powi_le_iff [simp]: "(2::rat) powi a \<le> 2 powi b \<longleftrightarrow> a \<le> b"
  by (simp flip: not_less)

lemma expo_mono:
  assumes "0 < x" and "x \<le> y"
  shows "expo x \<le> expo y"
proof -
  have "2 powi expo x \<le> x" using assms by (intro expo_bounds)
  also have "x \<le> y" by fact
  also have "y < 2 powi (expo y + 1)" using assms by (intro expo_bounds) simp
  finally show ?thesis by simp
qed

subsection \<open>Rounding is monotone and exact on integers\<close>

lemma scaled_bounds:
  assumes "0 < x"
  shows "of_int (2 ^ 52) \<le> x * 2 powi (52 - expo x)" and "x * 2 powi (52 - expo x) < of_int (2 ^ 53)"
proof -
  have p: "(0::rat) < 2 powi (52 - expo x)" by simp
  have "2 powi expo x * 2 powi (52 - expo x) \<le> x * 2 powi (52 - expo x)"
    using expo_bounds(1) [OF assms] p by simp
  moreover have "(2::rat) powi expo x * 2 powi (52 - expo x) = of_int (2 ^ 52)"
    by (simp flip: power_int_add)
  ultimately show "of_int (2 ^ 52) \<le> x * 2 powi (52 - expo x)" by simp
  have "x * 2 powi (52 - expo x) < 2 powi (expo x + 1) * 2 powi (52 - expo x)"
    using expo_bounds(2) [OF assms] p by simp
  moreover have "(2::rat) powi (expo x + 1) * 2 powi (52 - expo x) = of_int (2 ^ 53)"
    by (simp flip: power_int_add)
  ultimately show "x * 2 powi (52 - expo x) < of_int (2 ^ 53)" by simp
qed

lemma fl_pos_bounds:
  assumes "0 < x"
  shows "2 powi expo x \<le> fl_pos x" and "fl_pos x \<le> 2 powi (expo x + 1)"
proof -
  have p: "(0::rat) < 2 powi (expo x - 52)" by simp
  have "2 ^ 52 \<le> round_even (x * 2 powi (52 - expo x))"
    using scaled_bounds(1) [OF assms] by (intro round_even_ge) simp
  then have "(of_int (2 ^ 52) :: rat) \<le> of_int (round_even (x * 2 powi (52 - expo x)))"
    by (simp only: of_int_le_iff)
  with p have "of_int (2 ^ 52) * 2 powi (expo x - 52) \<le> fl_pos x"
    by (simp add: fl_pos_def)
  moreover have "(of_int (2 ^ 52) :: rat) * 2 powi (expo x - 52) = 2 powi expo x"
    using power_int_add [of "2::rat" 52 "expo x - 52"] by simp
  ultimately show "2 powi expo x \<le> fl_pos x" by simp
  have "round_even (x * 2 powi (52 - expo x)) \<le> 2 ^ 53"
    using scaled_bounds(2) [OF assms] by (intro round_even_le) simp
  then have "(of_int (round_even (x * 2 powi (52 - expo x))) :: rat) \<le> of_int (2 ^ 53)"
    by (simp only: of_int_le_iff)
  with p have "fl_pos x \<le> of_int (2 ^ 53) * 2 powi (expo x - 52)"
    by (simp add: fl_pos_def)
  moreover have "(of_int (2 ^ 53) :: rat) * 2 powi (expo x - 52) = 2 powi (expo x + 1)"
    using power_int_add [of "2::rat" 53 "expo x - 52"] by (simp add: add.commute)
  ultimately show "fl_pos x \<le> 2 powi (expo x + 1)" by simp
qed

lemma fl_pos_mono:
  assumes "0 < x" and "x \<le> y"
  shows "fl_pos x \<le> fl_pos y"
proof (cases "expo x = expo y")
  case True
  have p: "(0::rat) < 2 powi k" for k by simp
  have "x * 2 powi (52 - expo x) \<le> y * 2 powi (52 - expo x)"
    using assms p by simp
  then have "round_even (x * 2 powi (52 - expo x)) \<le> round_even (y * 2 powi (52 - expo x))"
    by (rule round_even_mono)
  with True p show ?thesis by (simp add: fl_pos_def)
next
  case False
  with expo_mono [OF assms] have "expo x + 1 \<le> expo y" by simp
  then have "(2::rat) powi (expo x + 1) \<le> 2 powi expo y" by simp
  moreover have "fl_pos x \<le> 2 powi (expo x + 1)" and "2 powi expo y \<le> fl_pos y"
    using fl_pos_bounds assms by simp_all
  ultimately show ?thesis by (blast intro: order_trans)
qed

lemma fl_pos_pos: "0 < x \<Longrightarrow> 0 < fl_pos x"
  using fl_pos_bounds(1) [of x] by (rule less_le_trans [rotated]) simp_all

lemma fl_mono: "x \<le> y \<Longrightarrow> fl x \<le> fl y"
  using fl_pos_mono [of x y] fl_pos_mono [of "- y" "- x"] fl_pos_pos [of y] fl_pos_pos [of "- x"]
  by (auto simp: fl_def)

lemma fl_pos_of_int:
  assumes "0 < n" and "n < 2 ^ 53"
  shows "fl_pos (of_int n) = of_int n"
proof -
  let ?e = "expo (of_int n)"
  have p: "0 < (of_int n :: rat)" using assms by simp
  have "2 powi ?e \<le> (of_int n :: rat)" by (rule expo_bounds(1) [OF p])
  also have "\<dots> < of_int (2 ^ 53)" using assms(2) by (simp only: of_int_less_iff)
  also have "\<dots> = (2::rat) powi 53" by simp
  finally have e: "?e \<le> 52" by (simp only: powi_less_iff)
  then obtain k where k: "52 - ?e = int k"
    by (metis diff_ge_0_iff_ge nonneg_int_cases)
  have s: "(of_int n :: rat) * 2 powi (52 - ?e) = of_int (n * 2 ^ k)"
    unfolding k by simp
  have "fl_pos (of_int n) = of_int (n * 2 ^ k) * 2 powi (?e - 52)"
    by (simp only: fl_pos_def s round_even_of_int)
  also have "\<dots> = of_int n * (2 powi (52 - ?e) * 2 powi (?e - 52))"
    by (simp only: s [symmetric] mult.assoc)
  also have "\<dots> = of_int n"
    by (simp flip: power_int_add)
  finally show ?thesis .
qed

lemma fl_of_int: "\<bar>n\<bar> < 2 ^ 53 \<Longrightarrow> fl (of_int n) = of_int n"
  using fl_pos_of_int [of n] fl_pos_of_int [of "- n"]
  by (cases "n = 0"; cases "n < 0") (auto simp: fl_def)

subsection \<open>A rounded number is its own rounding\<close>

lemma expo_eqI:
  assumes "2 powi k \<le> x" and "x < 2 powi (k + 1)"
  shows "expo x = k"
proof -
  have x: "0 < x" using assms(1) by (rule less_le_trans [rotated]) simp
  have "(2::rat) powi expo x < 2 powi (k + 1)"
    using expo_bounds(1) [OF x] assms(2) by (rule le_less_trans)
  moreover have "(2::rat) powi k < 2 powi (expo x + 1)"
    using assms(1) expo_bounds(2) [OF x] by (rule le_less_trans)
  ultimately show ?thesis by simp
qed

lemma fl_pos_scaled:
  assumes "x = of_int m * 2 powi (k - 52)" and "expo x = k"
  shows "fl_pos x = x"
proof -
  have "x * 2 powi (52 - expo x) = of_int m * (2 powi (k - 52) * 2 powi (52 - k))"
    unfolding assms(2) by (simp only: assms(1) mult.assoc)
  also have "\<dots> = of_int m"
    by (simp flip: power_int_add)
  finally have "round_even (x * 2 powi (52 - expo x)) = m"
    by (simp only: round_even_of_int)
  then show ?thesis
    unfolding fl_pos_def assms(2) by (simp only: assms(1))
qed

lemma fl_pos_idem:
  assumes "0 < x"
  shows "fl_pos (fl_pos x) = fl_pos x"
proof (cases "fl_pos x < 2 powi (expo x + 1)")
  case True
  with fl_pos_bounds(1) [OF assms] have "expo (fl_pos x) = expo x" by (rule expo_eqI)
  then show ?thesis by (intro fl_pos_scaled) (simp_all add: fl_pos_def)
next
  case False
  with fl_pos_bounds(2) [OF assms] have top: "fl_pos x = 2 powi (expo x + 1)" by simp
  have "expo (fl_pos x) = expo x + 1" by (rule expo_eqI) (simp_all add: top)
  moreover have "fl_pos x = of_int (2 ^ 52) * 2 powi (expo x + 1 - 52)"
    using power_int_add [of "2::rat" 52 "expo x + 1 - 52"] by (simp add: top add.commute)
  ultimately show ?thesis by (intro fl_pos_scaled)
qed

lemma fl_fl [simp]: "fl (fl x) = fl x"
  using fl_pos_pos [of x] fl_pos_pos [of "- x"] by (auto simp: fl_def fl_pos_idem)

section \<open>What the scoring code relies on\<close>

text \<open>
  The two laws of the arithmetic that the score bounds need: rounding is monotone, and it
  leaves the small integers (the deductions and 100) alone.
\<close>

locale float_rounding =
  fixes rd :: "rat \<Rightarrow> rat"
  assumes rd_mono: "x \<le> y \<Longrightarrow> rd x \<le> rd y"
    and rd_int: "\<bar>n\<bar> < 2 ^ 53 \<Longrightarrow> rd (of_int n) = of_int n"
begin

lemma rd_0 [simp]: "rd 0 = 0"
  using rd_int [of 0] by simp

lemma rd_nonneg: "0 \<le> x \<Longrightarrow> 0 \<le> rd x"
  using rd_mono [of 0 x] by simp

lemma rd_le_int: "\<bar>n\<bar> < 2 ^ 53 \<Longrightarrow> x \<le> of_int n \<Longrightarrow> rd x \<le> of_int n"
  using rd_mono [of x "of_int n"] rd_int by simp

lemma sum_nonneg: "0 \<le> s \<Longrightarrow> \<forall>x \<in> set xs. 0 \<le> x \<Longrightarrow> 0 \<le> foldl (\<lambda>s x. rd (s + x)) s xs"
  by (induction xs arbitrary: s) (simp_all add: rd_nonneg)

lemma sum_mono:
  "s \<le> t \<Longrightarrow> list_all2 (\<le>) xs ys \<Longrightarrow>
     foldl (\<lambda>s x. rd (s + x)) s xs \<le> foldl (\<lambda>s x. rd (s + x)) t ys"
  by (induction xs ys arbitrary: s t rule: list_induct2') (simp_all add: rd_mono add_mono)

end

interpretation b64: float_rounding fl
  by unfold_locales (auto intro: fl_mono fl_of_int)

text \<open>
  \<open>sum(xs)\<close> of Python 3.11 on floats: left to right from 0, one rounding per addition;
  and the product and difference of two floats.
\<close>

definition fsum :: "rat list \<Rightarrow> rat" where
  "fsum xs = foldl (\<lambda>s x. fl (s + x)) 0 xs"

definition fmul :: "rat \<Rightarrow> rat \<Rightarrow> rat" where
  "fmul x y = fl (x * y)"

definition fsub :: "rat \<Rightarrow> rat \<Rightarrow> rat" where
  "fsub x y = fl (x - y)"

lemma fsum_Nil [simp]: "fsum [] = 0"
  by (simp add: fsum_def)

lemma fsum_snoc: "fsum (xs @ [x]) = fl (fsum xs + x)"
  by (simp add: fsum_def)

lemma fsum_nonneg: "\<forall>x \<in> set xs. 0 \<le> x \<Longrightarrow> 0 \<le> fsum xs"
  by (simp add: fsum_def b64.sum_nonneg)

lemma fsum_mono: "list_all2 (\<le>) xs ys \<Longrightarrow> fsum xs \<le> fsum ys"
  by (simp add: fsum_def b64.sum_mono)

lemma fsub_antimono: "x \<le> y \<Longrightarrow> fsub a y \<le> fsub a x"
  by (simp add: fsub_def fl_mono)

lemma fsub_hundred_le: "0 \<le> x \<Longrightarrow> fsub 100 x \<le> 100"
  using b64.rd_le_int [of 100 "100 - x"] by (simp add: fsub_def)

lemma fsub_hundred_zero [simp]: "fsub 100 0 = 100"
  using fl_of_int [of 100] by (simp add: fsub_def)

end
