(* ===== verification/Scoring.thy ===== *)
theory Scoring
  imports Domains Float64
begin

text \<open>
  \<^verbatim>\<open>scoring/engine.py\<close>: the deduction score of a domain and the category it decides.
  Scores are binary64 floats (\<open>Float64\<close>); a finding's \<open>domains\<close> and the evaluated domains
  are domain values, as the source keeps them. The lemmas bound the scores, show that the
  score falls with every further finding, and give the category on each branch.
\<close>

section \<open>Tables and inputs\<close>

primrec SEVERITY_DEDUCTION :: "Severity \<Rightarrow> rat" where
  "SEVERITY_DEDUCTION Severity.CRITICAL = 40"
| "SEVERITY_DEDUCTION Severity.HIGH = 25"
| "SEVERITY_DEDUCTION Severity.MEDIUM = 12"
| "SEVERITY_DEDUCTION Severity.LOW = 5"
| "SEVERITY_DEDUCTION Severity.INFO = 1"

primrec CONFIDENCE_MULTIPLIER :: "ConfidenceLevel \<Rightarrow> rat" where
  "CONFIDENCE_MULTIPLIER ConfidenceLevel.HIGH = 1"
| "CONFIDENCE_MULTIPLIER ConfidenceLevel.MEDIUM = fl (7 / 10)"
| "CONFIDENCE_MULTIPLIER ConfidenceLevel.LOW = fl (4 / 10)"

definition HIGH_RISK_THRESHOLD :: rat where
  "HIGH_RISK_THRESHOLD = 35"

definition REMEDIATION_REQUIRED_THRESHOLD :: rat where
  "REMEDIATION_REQUIRED_THRESHOLD = 55"

definition ACCEPTABLE_WITH_OBSERVATIONS_THRESHOLD :: rat where
  "ACCEPTABLE_WITH_OBSERVATIONS_THRESHOLD = 75"

record FindingForScoring =
  fs_rule_id :: string
  fs_severity :: Severity
  fs_confidence :: ConfidenceLevel
  fs_domains :: "string list"

record ScoreResult =
  sr_domain :: BankingDomain
  sr_raw_score :: "rat option"
  sr_weighted_score :: "rat option"
  sr_confidence_level :: ConfidenceLevel
  sr_evidence_completeness :: EvidenceCompleteness
  sr_decision_category :: DecisionCategory
  sr_files_evaluated :: int
  sr_findings_count :: int

section \<open>Scoring one domain\<close>

definition coverage_confidence :: "int \<Rightarrow> ConfidenceLevel" where
  "coverage_confidence files_evaluated =
     (if files_evaluated \<ge> 3 then ConfidenceLevel.HIGH
      else if files_evaluated \<ge> 1 then ConfidenceLevel.MEDIUM
      else ConfidenceLevel.LOW)"

definition finding_confidence :: "FindingForScoring list \<Rightarrow> ConfidenceLevel" where
  "finding_confidence findings =
     (let levels = map fs_confidence findings
      in if ConfidenceLevel.LOW \<in> set levels then ConfidenceLevel.LOW
         else if ConfidenceLevel.MEDIUM \<in> set levels then ConfidenceLevel.MEDIUM
         else ConfidenceLevel.HIGH)"

definition raw_score_of :: "FindingForScoring list \<Rightarrow> rat" where
  "raw_score_of findings =
     max 0 (fsub 100 (fsum (map (\<lambda>f. SEVERITY_DEDUCTION (fs_severity f)) findings)))"

definition weighted_score_of :: "FindingForScoring list \<Rightarrow> rat" where
  "weighted_score_of findings =
     max 0 (fsub 100 (fsum (map (\<lambda>f. fmul (SEVERITY_DEDUCTION (fs_severity f))
        (CONFIDENCE_MULTIPLIER (fs_confidence f))) findings)))"

definition decision_category_of :: "FindingForScoring list \<Rightarrow> rat \<Rightarrow> DecisionCategory" where
  "decision_category_of findings weighted_score =
     (let all_low_confidence =
            list_all (\<lambda>f. fs_confidence f = ConfidenceLevel.LOW) findings;
          any_medium_or_worse =
            list_ex (\<lambda>f. fs_severity f \<in> {Severity.CRITICAL, Severity.HIGH, Severity.MEDIUM})
              findings
      in if all_low_confidence \<and> any_medium_or_worse
         then DecisionCategory.MANUAL_REVIEW_REQUIRED
         else if list_ex (\<lambda>f. fs_severity f = Severity.CRITICAL) findings
         then DecisionCategory.CRITICAL_RISK
         else if weighted_score < HIGH_RISK_THRESHOLD
         then DecisionCategory.HIGH_RISK
         else if weighted_score < REMEDIATION_REQUIRED_THRESHOLD
         then DecisionCategory.REMEDIATION_REQUIRED
         else if weighted_score < ACCEPTABLE_WITH_OBSERVATIONS_THRESHOLD
         then DecisionCategory.ACCEPTABLE_WITH_OBSERVATIONS
         else DecisionCategory.ACCEPTABLE)"

definition score_domain ::
  "BankingDomain \<Rightarrow> FindingForScoring list \<Rightarrow> bool \<Rightarrow> int \<Rightarrow> ScoreResult" where
  "score_domain domain findings evaluated files_evaluated =
     (if \<not> evaluated then
        \<lparr>sr_domain = domain, sr_raw_score = None, sr_weighted_score = None,
         sr_confidence_level = ConfidenceLevel.LOW,
         sr_evidence_completeness = EvidenceCompleteness.INSUFFICIENT,
         sr_decision_category = DecisionCategory.INSUFFICIENT_EVIDENCE,
         sr_files_evaluated = 0, sr_findings_count = 0\<rparr>
      else
        (let evidence_completeness =
               (if files_evaluated \<ge> 2 then EvidenceCompleteness.COMPLETE
                else EvidenceCompleteness.PARTIAL)
         in if findings = [] then
              \<lparr>sr_domain = domain, sr_raw_score = Some 100, sr_weighted_score = Some 100,
               sr_confidence_level = coverage_confidence files_evaluated,
               sr_evidence_completeness = evidence_completeness,
               sr_decision_category = DecisionCategory.ACCEPTABLE,
               sr_files_evaluated = files_evaluated, sr_findings_count = 0\<rparr>
            else
              (let raw_score = raw_score_of findings;
                   weighted_score = weighted_score_of findings
               in \<lparr>sr_domain = domain, sr_raw_score = Some raw_score,
                   sr_weighted_score = Some weighted_score,
                   sr_confidence_level = finding_confidence findings,
                   sr_evidence_completeness = evidence_completeness,
                   sr_decision_category = decision_category_of findings weighted_score,
                   sr_files_evaluated = files_evaluated,
                   sr_findings_count = int (length findings)\<rparr>)))"

definition score_all_domains ::
  "FindingForScoring list \<Rightarrow> string set \<Rightarrow> (string \<rightharpoonup> int) \<Rightarrow> ScoreResult list" where
  "score_all_domains findings evaluated_domains files_evaluated_by_domain =
     map (\<lambda>domain. score_domain domain
            (filter (\<lambda>f. BankingDomain_value domain \<in> set (fs_domains f)) findings)
            (BankingDomain_value domain \<in> evaluated_domains)
            (case files_evaluated_by_domain (BankingDomain_value domain) of
               None \<Rightarrow> 0 | Some n \<Rightarrow> n))
       BankingDomain_members"

section \<open>Bounds\<close>

lemma deduction_pos: "0 < SEVERITY_DEDUCTION s"
  by (cases s) simp_all

lemma fl_deduction [simp]: "fl (SEVERITY_DEDUCTION s) = SEVERITY_DEDUCTION s"
  using fl_of_int [of 40] fl_of_int [of 25] fl_of_int [of 12] fl_of_int [of 5] fl_of_int [of 1]
  by (cases s) simp_all

lemma multiplier_nonneg: "0 \<le> CONFIDENCE_MULTIPLIER c"
  by (cases c) (simp_all add: b64.rd_nonneg)

lemma multiplier_le_one: "CONFIDENCE_MULTIPLIER c \<le> 1"
  using b64.rd_le_int [of 1 "7 / 10"] b64.rd_le_int [of 1 "4 / 10"]
  by (cases c) simp_all

lemma weighted_deduction_bounds:
  "0 \<le> fmul (SEVERITY_DEDUCTION s) (CONFIDENCE_MULTIPLIER c)"
  "fmul (SEVERITY_DEDUCTION s) (CONFIDENCE_MULTIPLIER c) \<le> SEVERITY_DEDUCTION s"
proof -
  show "0 \<le> fmul (SEVERITY_DEDUCTION s) (CONFIDENCE_MULTIPLIER c)"
    using deduction_pos [of s] multiplier_nonneg [of c]
    by (simp add: fmul_def b64.rd_nonneg)
  have "SEVERITY_DEDUCTION s * CONFIDENCE_MULTIPLIER c \<le> SEVERITY_DEDUCTION s"
    using deduction_pos [of s] multiplier_le_one [of c] by simp
  then have "fl (SEVERITY_DEDUCTION s * CONFIDENCE_MULTIPLIER c) \<le> fl (SEVERITY_DEDUCTION s)"
    by (rule fl_mono)
  then show "fmul (SEVERITY_DEDUCTION s) (CONFIDENCE_MULTIPLIER c) \<le> SEVERITY_DEDUCTION s"
    by (simp add: fmul_def)
qed

lemma raw_le_weighted: "raw_score_of fs \<le> weighted_score_of fs"
proof -
  have "fsum (map (\<lambda>f. fmul (SEVERITY_DEDUCTION (fs_severity f))
        (CONFIDENCE_MULTIPLIER (fs_confidence f))) fs)
      \<le> fsum (map (\<lambda>f. SEVERITY_DEDUCTION (fs_severity f)) fs)"
    by (rule fsum_mono)
       (auto simp: list_all2_map1 list_all2_map2 weighted_deduction_bounds
         intro: list.rel_refl)
  then show ?thesis
    using fsub_antimono by (fastforce simp: raw_score_of_def weighted_score_of_def max_def)
qed

lemma weighted_le_hundred: "weighted_score_of fs \<le> 100"
  by (simp add: weighted_score_of_def fsub_hundred_le fsum_nonneg weighted_deduction_bounds)

lemma raw_nonneg: "0 \<le> raw_score_of fs"
  by (simp add: raw_score_of_def)

lemma score_of_empty [simp]: "raw_score_of [] = 100" "weighted_score_of [] = 100"
  by (simp_all add: raw_score_of_def weighted_score_of_def)

text \<open>One more deduction never raises a float sum's complement.\<close>

lemma score_snoc_le:
  assumes "0 \<le> x" and "\<forall>y \<in> set xs. 0 \<le> y"
  shows "max 0 (fsub 100 (fsum (xs @ [x]))) \<le> max 0 (fsub 100 (fsum xs))"
proof -
  have "fsum xs \<le> fl (fsum xs + x)"
  proof (cases "xs" rule: rev_cases)
    case Nil
    with assms show ?thesis by (simp add: b64.rd_nonneg)
  next
    case (snoc ys y)
    have "fl (fsum ys + y) = fl (fl (fsum ys + y))"
      by (simp add: fl_fl)
    also have "\<dots> \<le> fl (fl (fsum ys + y) + x)"
      using assms(1) by (intro fl_mono) simp
    finally show ?thesis by (simp add: snoc fsum_snoc)
  qed
  then show ?thesis
    using fsub_antimono [of "fsum xs" "fsum (xs @ [x])" 100] by (simp add: fsum_snoc)
qed

section \<open>Properties\<close>

lemma category_cases:
  "decision_category_of fs w \<noteq> DecisionCategory.INSUFFICIENT_EVIDENCE"
  by (simp add: decision_category_of_def Let_def)

lemma score_domain_evaluated:
  "sr_raw_score (score_domain d fs True n) = Some (raw_score_of fs)"
  "sr_weighted_score (score_domain d fs True n) = Some (weighted_score_of fs)"
  "sr_decision_category (score_domain d fs True n) =
     (if fs = [] then DecisionCategory.ACCEPTABLE
      else decision_category_of fs (weighted_score_of fs))"
  by (simp_all add: score_domain_def Let_def)

lemma score_domain_unevaluated:
  "sr_raw_score (score_domain d fs False n) = None"
  "sr_weighted_score (score_domain d fs False n) = None"
  "sr_decision_category (score_domain d fs False n) = DecisionCategory.INSUFFICIENT_EVIDENCE"
  by (simp_all add: score_domain_def)

lemma score_domain_insufficient_iff:
  "sr_decision_category (score_domain d fs ev n) = DecisionCategory.INSUFFICIENT_EVIDENCE
     \<longleftrightarrow> \<not> ev"
  "sr_weighted_score (score_domain d fs ev n) = None \<longleftrightarrow> \<not> ev"
  by (cases ev; simp add: score_domain_evaluated score_domain_unevaluated category_cases)+

lemma score_domain_domain [simp]: "sr_domain (score_domain d fs ev n) = d"
  by (simp add: score_domain_def Let_def)


text \<open>Scoring a scan gives exactly one result per domain, in enumeration order, and a
  domain is INSUFFICIENT_EVIDENCE, with no score, exactly when no scanned file was mapped
  to it; findings alone never make a domain evaluated, and lack of evidence is never a
  clean score.\<close>

theorem score_all_domains_evidence:
  "map sr_domain (score_all_domains fs evaluated files) = BankingDomain_members
   \<and> map (\<lambda>r. sr_decision_category r = DecisionCategory.INSUFFICIENT_EVIDENCE)
        (score_all_domains fs evaluated files)
      = map (\<lambda>d. BankingDomain_value d \<notin> evaluated) BankingDomain_members
   \<and> map (\<lambda>r. sr_weighted_score r = None) (score_all_domains fs evaluated files)
      = map (\<lambda>d. BankingDomain_value d \<notin> evaluated) BankingDomain_members"
  by (simp add: score_all_domains_def comp_def score_domain_insufficient_iff)

text \<open>C13: a further finding never raises the raw or the weighted score of an evaluated
  domain, rounding included.\<close>

theorem extra_finding_never_raises_score:
  "the (sr_raw_score (score_domain d (fs @ [f]) True n))
       \<le> the (sr_raw_score (score_domain d fs True n))
   \<and> the (sr_weighted_score (score_domain d (fs @ [f]) True n))
       \<le> the (sr_weighted_score (score_domain d fs True n))"
proof -
  have "raw_score_of (fs @ [f]) \<le> raw_score_of fs"
    unfolding raw_score_of_def map_append list.map
    by (rule score_snoc_le) (auto simp: less_imp_le deduction_pos)
  moreover have "weighted_score_of (fs @ [f]) \<le> weighted_score_of fs"
    unfolding weighted_score_of_def map_append list.map
    by (rule score_snoc_le) (auto simp: weighted_deduction_bounds)
  ultimately show ?thesis by (simp add: score_domain_evaluated)
qed

text \<open>The verdicts that route a domain to people. CRITICAL_RISK means exactly: a critical
  finding, and some finding the platform is more than LOW confident in.
  MANUAL_REVIEW_REQUIRED means exactly: some finding is MEDIUM or worse, and none has more
  than LOW confidence.\<close>

theorem escalated_categories:
  "(sr_decision_category (score_domain d fs True n) = DecisionCategory.CRITICAL_RISK
      \<longleftrightarrow> (\<exists>f \<in> set fs. fs_severity f = Severity.CRITICAL)
          \<and> (\<exists>f \<in> set fs. fs_confidence f \<noteq> ConfidenceLevel.LOW))
   \<and> (sr_decision_category (score_domain d fs True n) = DecisionCategory.MANUAL_REVIEW_REQUIRED
      \<longleftrightarrow> (\<exists>f \<in> set fs. fs_severity f
              \<in> {Severity.CRITICAL, Severity.HIGH, Severity.MEDIUM})
          \<and> \<not> (\<exists>f \<in> set fs. fs_confidence f \<noteq> ConfidenceLevel.LOW))"
  by (auto simp: score_domain_evaluated decision_category_of_def Let_def list_all_iff
      list_ex_iff split: if_splits)

end
