(* ===== verification/ControlEval.thy ===== *)
theory ControlEval
  imports Catalog Scoring
begin

text \<open>
  \<^verbatim>\<open>assessment/evaluators/control_evaluator.py\<close>: one result per domain and applicable
  control. The lemmas give the exact shape of the result list and the meaning of each
  status, and tie the evaluator to the scoring engine and to the control lookup.
\<close>

record FindingForControlEvaluation =
  fc_finding_id :: string
  fc_rule_id :: string
  fc_domains :: "string list"

record ControlEvaluationResult =
  cr_domain :: BankingDomain
  cr_control_id :: "string option"
  cr_status :: ControlEvaluationStatus
  cr_finding_ids :: "string list"

definition evaluate_domain ::
  "BankingDomain \<Rightarrow> FindingForControlEvaluation list \<Rightarrow> bool
     \<Rightarrow> ControlEvaluationResult list" where
  "evaluate_domain domain findings evaluated =
     (let applicable = controls_for_domain (BankingDomain_value domain)
      in if \<not> evaluated then
           (if applicable = [] then
              [\<lparr>cr_domain = domain, cr_control_id = None,
                cr_status = ControlEvaluationStatus.INSUFFICIENT_EVIDENCE,
                cr_finding_ids = []\<rparr>]
            else
              map (\<lambda>c. \<lparr>cr_domain = domain, cr_control_id = Some (cd_control_id c),
                       cr_status = ControlEvaluationStatus.INSUFFICIENT_EVIDENCE,
                       cr_finding_ids = []\<rparr>) applicable)
         else
           map (\<lambda>control.
             (let matched = map fc_finding_id
                    (filter (\<lambda>f. startswith (fc_rule_id f) (cd_rule_prefix control)) findings);
                  status = (if matched \<noteq> [] then ControlEvaluationStatus.GAP
                            else ControlEvaluationStatus.SATISFIED)
              in \<lparr>cr_domain = domain, cr_control_id = Some (cd_control_id control),
                  cr_status = status, cr_finding_ids = matched\<rparr>)) applicable)"

definition evaluate_all_domains ::
  "FindingForControlEvaluation list \<Rightarrow> string set \<Rightarrow> ControlEvaluationResult list" where
  "evaluate_all_domains findings evaluated_domains =
     concat (map (\<lambda>domain. evaluate_domain domain
         (filter (\<lambda>f. BankingDomain_value domain \<in> set (fc_domains f)) findings)
         (BankingDomain_value domain \<in> evaluated_domains))
       BankingDomain_members)"

definition domain_coverage_manifest :: "(string \<times> string list) list" where
  "domain_coverage_manifest =
     map (\<lambda>domain. (BankingDomain_value domain,
            sort (map cd_control_id (controls_for_domain (BankingDomain_value domain)))))
       BankingDomain_members"

section \<open>Lemmas\<close>

text \<open>The result list as a function of (domain, control) pairs.\<close>

definition control_result ::
  "FindingForControlEvaluation list \<Rightarrow> string set \<Rightarrow> BankingDomain \<Rightarrow> ControlDefinition
     \<Rightarrow> ControlEvaluationResult" where
  "control_result findings evaluated d c =
     (let v = BankingDomain_value d;
          matched = map fc_finding_id
            (filter (\<lambda>f. v \<in> set (fc_domains f)
               \<and> startswith (fc_rule_id f) (cd_rule_prefix c)) findings)
      in if v \<notin> evaluated
         then \<lparr>cr_domain = d, cr_control_id = Some (cd_control_id c),
               cr_status = ControlEvaluationStatus.INSUFFICIENT_EVIDENCE, cr_finding_ids = []\<rparr>
         else \<lparr>cr_domain = d, cr_control_id = Some (cd_control_id c),
               cr_status = (if matched = [] then ControlEvaluationStatus.SATISFIED
                            else ControlEvaluationStatus.GAP),
               cr_finding_ids = matched\<rparr>)"

lemma evaluate_domain_eq:
  "evaluate_domain d (filter (\<lambda>f. BankingDomain_value d \<in> set (fc_domains f)) findings)
       (BankingDomain_value d \<in> evaluated)
     = map (control_result findings evaluated d) (controls_for_domain (BankingDomain_value d))"
  by (auto simp: evaluate_domain_def control_result_def Let_def conj_commute)

lemma evaluate_all_domains_eq:
  "evaluate_all_domains findings evaluated =
     concat (map (\<lambda>d. map (control_result findings evaluated d)
       (controls_for_domain (BankingDomain_value d))) BankingDomain_members)"
  by (simp add: evaluate_all_domains_def evaluate_domain_eq)

lemma in_evaluate_all_domains:
  "r \<in> set (evaluate_all_domains findings evaluated) \<longleftrightarrow>
     (\<exists>d c. c \<in> set (controls_for_domain (BankingDomain_value d))
        \<and> r = control_result findings evaluated d c)"
  using banking_domain.complete by (fastforce simp: evaluate_all_domains_eq)

lemma control_result_in [intro]:
  "c \<in> set (controls_for_domain (BankingDomain_value d)) \<Longrightarrow>
     control_result findings evaluated d c \<in> set (evaluate_all_domains findings evaluated)"
  unfolding in_evaluate_all_domains by blast

lemma control_result_fields [simp]:
  "cr_domain (control_result fs ev d c) = d"
  "cr_control_id (control_result fs ev d c) = Some (cd_control_id c)"
  by (simp_all add: control_result_def Let_def)

lemma control_result_status:
  "cr_status (control_result fs ev d c) = ControlEvaluationStatus.INSUFFICIENT_EVIDENCE
     \<longleftrightarrow> BankingDomain_value d \<notin> ev"
  "cr_status (control_result fs ev d c) = ControlEvaluationStatus.GAP
     \<longleftrightarrow> BankingDomain_value d \<in> ev
       \<and> (\<exists>f \<in> set fs. BankingDomain_value d \<in> set (fc_domains f)
            \<and> startswith (fc_rule_id f) (cd_rule_prefix c))"
  by (auto simp: control_result_def Let_def filter_empty_conv)

section \<open>Properties\<close>

text \<open>The evaluation of a scan has exactly one result per domain and applicable control,
  in enumeration and catalog order, always with a control, and no domain is missing.\<close>

theorem one_result_per_domain_and_control:
  "map (\<lambda>r. (cr_domain r, cr_control_id r)) (evaluate_all_domains findings evaluated)
     = concat (map (\<lambda>d. map (\<lambda>c. (d, Some (cd_control_id c)))
         (controls_for_domain (BankingDomain_value d))) BankingDomain_members)
   \<and> cr_domain ` set (evaluate_all_domains findings evaluated) = UNIV"
proof
  show "map (\<lambda>r. (cr_domain r, cr_control_id r)) (evaluate_all_domains findings evaluated)
     = concat (map (\<lambda>d. map (\<lambda>c. (d, Some (cd_control_id c)))
         (controls_for_domain (BankingDomain_value d))) BankingDomain_members)"
    by (simp add: evaluate_all_domains_eq map_concat comp_def)
  have "d \<in> cr_domain ` set (evaluate_all_domains findings evaluated)" for d
  proof -
    have "hd (controls_for_domain (BankingDomain_value d))
        \<in> set (controls_for_domain (BankingDomain_value d))" by simp
    then have "control_result findings evaluated d (hd (controls_for_domain (BankingDomain_value d)))
        \<in> set (evaluate_all_domains findings evaluated)"
      unfolding in_evaluate_all_domains by blast
    then show ?thesis by force
  qed
  then show "cr_domain ` set (evaluate_all_domains findings evaluated) = UNIV" by blast
qed

text \<open>The status of a result says what the findings say. INSUFFICIENT_EVIDENCE means the
  domain was not evaluated; GAP means it was and some finding of that domain has a rule id
  with the control's prefix; SATISFIED is what is left. The GAP's finding ids are those of
  exactly these findings.\<close>

theorem control_status_meaning:
  assumes "r \<in> set (evaluate_all_domains findings evaluated)"
    and "c \<in> set CONTROL_CATALOG" and "cr_control_id r = Some (cd_control_id c)"
  shows "(cr_status r = ControlEvaluationStatus.INSUFFICIENT_EVIDENCE
            \<longleftrightarrow> BankingDomain_value (cr_domain r) \<notin> evaluated)
     \<and> (cr_status r = ControlEvaluationStatus.GAP
            \<longleftrightarrow> BankingDomain_value (cr_domain r) \<in> evaluated
              \<and> (\<exists>f \<in> set findings. BankingDomain_value (cr_domain r) \<in> set (fc_domains f)
                   \<and> startswith (fc_rule_id f) (cd_rule_prefix c)))
     \<and> (BankingDomain_value (cr_domain r) \<in> evaluated
          \<longrightarrow> set (cr_finding_ids r) = fc_finding_id ` {f \<in> set findings.
                BankingDomain_value (cr_domain r) \<in> set (fc_domains f)
                \<and> startswith (fc_rule_id f) (cd_rule_prefix c)})"
proof -
  obtain d c' where c': "c' \<in> set (controls_for_domain (BankingDomain_value d))"
    and r: "r = control_result findings evaluated d c'"
    using assms(1) by (auto simp: in_evaluate_all_domains)
  have "c' = c"
    using distinct_key_inject [OF catalog_ids_distinct _ assms(2)] c' assms(3)
      controls_for_domain_subset by (auto simp: r)
  then show ?thesis
    by (auto simp: r control_result_status) (auto simp: control_result_def Let_def)
qed

theorem control_status_meaning_witness:
  "(let f = \<lparr>fc_finding_id = ''f1'', fc_rule_id = ''SECRET-001'', fc_domains = [''payments'']\<rparr>;
        r = control_result [f] {''payments''} BankingDomain.PAYMENTS CTRL_SECRET_001
    in cr_status r = ControlEvaluationStatus.GAP \<and> set (cr_finding_ids r) = {''f1''})"
proof -
  let ?f = "\<lparr>fc_finding_id = ''f1'', fc_rule_id = ''SECRET-001'', fc_domains = [''payments'']\<rparr>"
  let ?r = "control_result [?f] {''payments''} BankingDomain.PAYMENTS CTRL_SECRET_001"
  have "CTRL_SECRET_001 \<in> set (controls_for_domain (BankingDomain_value BankingDomain.PAYMENTS))"
    using cross_cutting by blast
  then have r: "?r \<in> set (evaluate_all_domains [?f] {''payments''})"
    by (rule control_result_in)
  have c: "CTRL_SECRET_001 \<in> set CONTROL_CATALOG" by (simp add: CONTROL_CATALOG_def)
  show ?thesis
    using control_status_meaning [OF r c]
    by (simp add: startswith_def CTRL_SECRET_001_def image_constant_conv cong: conj_cong)
qed

text \<open>Scoring and control evaluation agree on what was looked at: for every domain, the
  score is INSUFFICIENT_EVIDENCE exactly when all of the domain's control results are, and
  otherwise none of them is.\<close>

theorem scoring_and_controls_agree:
  "(sr_decision_category (score_domain d fs (BankingDomain_value d \<in> evaluated) n)
      = DecisionCategory.INSUFFICIENT_EVIDENCE)
   = ({cr_status r |r. r \<in> set (evaluate_all_domains findings evaluated) \<and> cr_domain r = d}
      = {ControlEvaluationStatus.INSUFFICIENT_EVIDENCE})
   \<and> (sr_decision_category (score_domain d fs (BankingDomain_value d \<in> evaluated) n)
      = DecisionCategory.INSUFFICIENT_EVIDENCE)
   = (ControlEvaluationStatus.INSUFFICIENT_EVIDENCE
      \<in> {cr_status r |r. r \<in> set (evaluate_all_domains findings evaluated) \<and> cr_domain r = d})"
proof -
  let ?S = "{cr_status r |r. r \<in> set (evaluate_all_domains findings evaluated) \<and> cr_domain r = d}"
  have S: "?S = (\<lambda>c. cr_status (control_result findings evaluated d c))
      ` set (controls_for_domain (BankingDomain_value d))" (is "?S = ?T")
  proof
    show "?S \<subseteq> ?T" by (auto simp: in_evaluate_all_domains)
    show "?T \<subseteq> ?S" using control_result_in by fastforce
  qed
  have ne: "set (controls_for_domain (BankingDomain_value d)) \<noteq> {}" by simp
  show ?thesis
  proof (cases "BankingDomain_value d \<in> evaluated")
    case True
    then have "ControlEvaluationStatus.INSUFFICIENT_EVIDENCE \<notin> ?S"
      by (auto simp: S control_result_status
          eq_commute [of ControlEvaluationStatus.INSUFFICIENT_EVIDENCE])
    with True show ?thesis by (auto simp: score_domain_insufficient_iff)
  next
    case False
    then have "?S = {ControlEvaluationStatus.INSUFFICIENT_EVIDENCE}"
      using ne by (simp add: S control_result_status(1) [THEN iffD2] image_constant_conv)
    with False show ?thesis by (simp add: score_domain_insufficient_iff)
  qed
qed

text \<open>A rule id has at most one control, the one the lookup returns, and the evaluator
  charges a finding to that control: in an evaluated domain to which the control applies,
  a finding of the domain puts its control, and no other, into its result's GAP.\<close>

theorem finding_charged_to_its_control:
  assumes "BankingDomain_value d \<in> set (fc_domains f)" and "BankingDomain_value d \<in> evaluated"
    and "c \<in> set (controls_for_domain (BankingDomain_value d))"
  shows "(control_for_rule_id (fc_rule_id f) = Some c)
     = (\<exists>r \<in> set (evaluate_all_domains [f] evaluated). cr_domain r = d
          \<and> cr_control_id r = Some (cd_control_id c)
          \<and> cr_status r = ControlEvaluationStatus.GAP)"
proof -
  have c: "c \<in> set CONTROL_CATALOG"
    using assms(3) controls_for_domain_subset by blast
  have "(\<exists>r \<in> set (evaluate_all_domains [f] evaluated). cr_domain r = d
          \<and> cr_control_id r = Some (cd_control_id c)
          \<and> cr_status r = ControlEvaluationStatus.GAP)
      \<longleftrightarrow> startswith (fc_rule_id f) (cd_rule_prefix c)" (is "?L = ?R")
  proof
    assume ?L
    then obtain c' where "c' \<in> set (controls_for_domain (BankingDomain_value d))"
      and "cd_control_id c' = cd_control_id c" and "startswith (fc_rule_id f) (cd_rule_prefix c')"
      by (auto simp: in_evaluate_all_domains control_result_status)
    with c show ?R
      using distinct_key_inject [OF catalog_ids_distinct] controls_for_domain_subset by blast
  next
    assume ?R
    with assms have "cr_status (control_result [f] evaluated d c) = ControlEvaluationStatus.GAP"
      by (simp add: control_result_status)
    moreover have "control_result [f] evaluated d c \<in> set (evaluate_all_domains [f] evaluated)"
      using assms(3) by (rule control_result_in)
    ultimately show ?L by force
  qed
  with c show ?thesis by (simp add: control_for_rule_id_Some)
qed

theorem finding_charged_to_its_control_witness:
  "let f = \<lparr>fc_finding_id = ''f1'', fc_rule_id = ''SECRET-001'', fc_domains = [''payments'']\<rparr>
   in \<exists>r \<in> set (evaluate_all_domains [f] {''payments''}). cr_domain r = BankingDomain.PAYMENTS
        \<and> cr_control_id r = Some (cd_control_id CTRL_SECRET_001)
        \<and> cr_status r = ControlEvaluationStatus.GAP"
proof -
  let ?f = "\<lparr>fc_finding_id = ''f1'', fc_rule_id = ''SECRET-001'', fc_domains = [''payments'']\<rparr>"
  have c: "CTRL_SECRET_001 \<in> set (controls_for_domain (BankingDomain_value BankingDomain.PAYMENTS))"
    using cross_cutting by blast
  have "control_for_rule_id (fc_rule_id ?f) = Some CTRL_SECRET_001"
    by (simp add: control_for_rule_id_Some catalog_defs startswith_def)
  then show ?thesis
    using finding_charged_to_its_control [of BankingDomain.PAYMENTS ?f "{''payments''}"] c by auto
qed

end
