(* ===== verification/ApprovalWorkflow.thy ===== *)
theory ApprovalWorkflow
  imports Prelude Enums Complex_Main
begin

text \<open>
  \<^verbatim>\<open>governance/approval_workflow.py\<close>: the validation of review and override decisions, and
  the policy that decides whether an assessment may be finalized. The lemmas say exactly
  which decisions are accepted and when finalization is blocked.
\<close>

section \<open>Decisions\<close>

record FindingReviewDecision =
  rd_finding_id :: string
  rd_new_status :: HumanReviewStatus
  rd_reviewed_by :: string
  rd_reason :: "string option"

definition VALID_FINDING_REVIEW_STATUSES :: "HumanReviewStatus set" where
  "VALID_FINDING_REVIEW_STATUSES =
     {HumanReviewStatus.APPROVED, HumanReviewStatus.REJECTED, HumanReviewStatus.OVERRIDDEN}"

definition governance_error :: "string \<Rightarrow> error" where
  "governance_error m = Err GovernanceError m"

definition validate_finding_review :: "FindingReviewDecision \<Rightarrow> FindingReviewDecision result" where
  "validate_finding_review decision =
     (if strip (rd_reviewed_by decision) = []
      then Inl (governance_error ''a finding review action must record a reviewer identity'')
      else if rd_new_status decision \<notin> VALID_FINDING_REVIEW_STATUSES
      then Inl (governance_error
             (''cannot set a finding'' @ [CHR 0x27] @ ''s human_review_status to '' @ [CHR 0x27]
              @ HumanReviewStatus_value (rd_new_status decision) @ [CHR 0x27] @ '' via a ''
              @ ''review action '' @ em_dash @ '' only approved, rejected, or overridden are valid outcomes of a ''
              @ ''review (pending is the system default, never a reviewer'' @ [CHR 0x27]
              @ ''s chosen outcome)''))
      else if rd_new_status decision = HumanReviewStatus.OVERRIDDEN
              \<and> strip (case rd_reason decision of None \<Rightarrow> [] | Some r \<Rightarrow> r) = []
      then Inl (governance_error ''overriding a finding requires a non-empty reason'')
      else Inr decision)"

record ScoreOverrideDecision =
  od_original_score_id :: string
  od_scan_id :: string
  od_domain :: string
  od_new_decision_category :: DecisionCategory
  od_reviewed_by :: string
  od_reason :: string
  od_new_weighted_score :: "rat option"

definition validate_score_override :: "ScoreOverrideDecision \<Rightarrow> ScoreOverrideDecision result" where
  "validate_score_override decision =
     (if strip (od_reviewed_by decision) = []
      then Inl (governance_error ''a score override must record a reviewer identity'')
      else if strip (od_reason decision) = []
      then Inl (governance_error ''a score override requires a non-empty reason'')
      else Inr decision)"

section \<open>Finalization\<close>

record FindingReviewState =
  fr_finding_id :: string
  fr_domain_values :: "string list"
  fr_human_review_status :: string

record DomainScoreState =
  ds_domain :: string
  ds_decision_category :: string

record FinalizationBlocker =
  fb_domain :: string
  fb_reason :: string

record FinalizationCheckResult =
  fz_can_finalize :: bool
  fz_blockers :: "FinalizationBlocker list"

definition BLOCKING_DECISION_CATEGORIES :: "DecisionCategory set" where
  "BLOCKING_DECISION_CATEGORIES = {DecisionCategory.CRITICAL_RISK, DecisionCategory.HIGH_RISK}"

definition pending_in :: "string \<Rightarrow> FindingReviewState list \<Rightarrow> string list" where
  "pending_in domain findings =
     map fr_finding_id
       (filter (\<lambda>f. domain \<in> set (fr_domain_values f)
          \<and> fr_human_review_status f = HumanReviewStatus_value HumanReviewStatus.PENDING) findings)"

definition blocker_for :: "string \<Rightarrow> nat \<Rightarrow> FinalizationBlocker" where
  "blocker_for domain n =
     \<lparr>fb_domain = domain,
      fb_reason = ''domain '' @ [CHR 0x27] @ domain @ [CHR 0x27]
        @ '' is high/critical risk and has '' @ show_nat n @ '' finding(s) ''
        @ ''still pending human review''\<rparr>"

definition check_finalization_policy ::
  "DomainScoreState list \<Rightarrow> FindingReviewState list \<Rightarrow> FinalizationCheckResult result" where
  "check_finalization_policy scores findings =
     rbind (map_result (\<lambda>s. rbind (enum_of DecisionCategory_members DecisionCategory_value
                                    (ds_decision_category s)) (\<lambda>c. Inr (ds_domain s, c))) scores)
       (\<lambda>categories.
          (let blocking_domains = map fst
                 (filter (\<lambda>(d, c). c \<in> BLOCKING_DECISION_CATEGORIES) categories);
               blockers = concat (map (\<lambda>domain.
                 (let pending = pending_in domain findings
                  in if pending \<noteq> [] then [blocker_for domain (length pending)] else []))
                 (sorted_set blocking_domains))
           in Inr \<lparr>fz_can_finalize = (blockers = []), fz_blockers = blockers\<rparr>))"

section \<open>Lemmas\<close>

lemma validate_finding_review_Inr:
  "validate_finding_review d = Inr v \<longleftrightarrow>
     v = d \<and> strip (rd_reviewed_by d) \<noteq> [] \<and> rd_new_status d \<noteq> HumanReviewStatus.PENDING
     \<and> (rd_new_status d = HumanReviewStatus.OVERRIDDEN \<longrightarrow>
          (\<exists>r. rd_reason d = Some r \<and> strip r \<noteq> []))"
  by (cases "rd_new_status d")
     (auto simp: validate_finding_review_def VALID_FINDING_REVIEW_STATUSES_def
        split: if_splits option.splits)

lemma validate_score_override_Inr:
  "validate_score_override d = Inr v \<longleftrightarrow>
     v = d \<and> strip (od_reviewed_by d) \<noteq> [] \<and> strip (od_reason d) \<noteq> []"
  by (auto simp: validate_score_override_def split: if_splits)

definition blocking :: "DomainScoreState list \<Rightarrow> string \<Rightarrow> bool" where
  "blocking scores domain = (\<exists>s \<in> set scores. ds_domain s = domain
     \<and> ds_decision_category s \<in> DecisionCategory_value ` BLOCKING_DECISION_CATEGORIES)"

definition blockers_of :: "FindingReviewState list \<Rightarrow> string list \<Rightarrow> FinalizationBlocker list" where
  "blockers_of findings ds = concat (map (\<lambda>domain.
     if pending_in domain findings \<noteq> []
     then [blocker_for domain (length (pending_in domain findings))] else []) ds)"

lemma blockers_of_domains:
  "map fb_domain (blockers_of findings ds) = filter (\<lambda>d. pending_in d findings \<noteq> []) ds"
  by (induction ds) (auto simp: blockers_of_def blocker_for_def)

lemma check_finalization_valid:
  fixes scores :: "DomainScoreState list"
  assumes "\<forall>s \<in> set scores. ds_decision_category s \<in> range DecisionCategory_value"
  obtains r where "check_finalization_policy scores findings = Inr r"
    and "map fb_domain (fz_blockers r) =
      filter (\<lambda>d. pending_in d findings \<noteq> [])
        (sorted_set (map ds_domain (filter (\<lambda>s. ds_decision_category s
            \<in> DecisionCategory_value ` BLOCKING_DECISION_CATEGORIES) scores)))"
    and "fz_can_finalize r \<longleftrightarrow> fz_blockers r = []"
proof -
  define cat where "cat = (\<lambda>s :: DomainScoreState. inv DecisionCategory_value (ds_decision_category s))"
  have val: "DecisionCategory_value (cat s) = ds_decision_category s" if "s \<in> set scores" for s
    using assms that by (simp add: cat_def f_inv_into_f)
  have "map_result (\<lambda>s. rbind (enum_of DecisionCategory_members DecisionCategory_value
        (ds_decision_category s)) (\<lambda>c. Inr (ds_domain s, c))) scores
      = Inr (map (\<lambda>s. (ds_domain s, cat s)) scores)"
    by (rule map_result_total) (use val in \<open>auto simp flip: val\<close>)
  moreover have "map fst (filter (\<lambda>(d, c). c \<in> BLOCKING_DECISION_CATEGORIES)
        (map (\<lambda>s. (ds_domain s, cat s)) scores))
      = map ds_domain (filter (\<lambda>s. ds_decision_category s
            \<in> DecisionCategory_value ` BLOCKING_DECISION_CATEGORIES) scores)" (is "_ = ?D")
  proof -
    have "ds_decision_category s \<in> DecisionCategory_value ` BLOCKING_DECISION_CATEGORIES
        \<longleftrightarrow> cat s \<in> BLOCKING_DECISION_CATEGORIES" if "s \<in> set scores" for s
      using val [OF that] by (auto simp flip: val [OF that])
    then show ?thesis by (simp add: filter_map comp_def cong: filter_cong)
  qed
  ultimately have eq: "check_finalization_policy scores findings =
      Inr \<lparr>fz_can_finalize = (blockers_of findings (sorted_set ?D) = []),
           fz_blockers = blockers_of findings (sorted_set ?D)\<rparr>"
    unfolding check_finalization_policy_def by (simp only: rbind.simps Let_def blockers_of_def)
  show ?thesis by (rule that [OF eq]) (simp_all add: blockers_of_domains)
qed

text \<open>C18: finalization is blocked exactly by the domains whose current score is critical or
  high risk and that still have a pending finding: each such domain appears once, in order,
  and the assessment can be finalized if and only if there is none.\<close>

theorem finalization_blockers:
  fixes scores :: "DomainScoreState list"
  assumes "\<forall>s \<in> set scores. ds_decision_category s \<in> range DecisionCategory_value"
  shows "\<exists>r. check_finalization_policy scores findings = Inr r
     \<and> sorted (map fb_domain (fz_blockers r)) \<and> distinct (map fb_domain (fz_blockers r))
     \<and> set (map fb_domain (fz_blockers r)) = {d. blocking scores d
          \<and> (\<exists>f \<in> set findings. d \<in> set (fr_domain_values f)
               \<and> fr_human_review_status f = HumanReviewStatus_value HumanReviewStatus.PENDING)}
     \<and> (fz_can_finalize r \<longleftrightarrow> \<not> (\<exists>d. blocking scores d
          \<and> (\<exists>f \<in> set findings. d \<in> set (fr_domain_values f)
               \<and> fr_human_review_status f = HumanReviewStatus_value HumanReviewStatus.PENDING)))"
proof -
  from check_finalization_valid [OF assms, of findings] obtain r where
    r: "check_finalization_policy scores findings = Inr r"
      "map fb_domain (fz_blockers r) = filter (\<lambda>d. pending_in d findings \<noteq> [])
        (sorted_set (map ds_domain (filter (\<lambda>s. ds_decision_category s
            \<in> DecisionCategory_value ` BLOCKING_DECISION_CATEGORIES) scores)))"
      "fz_can_finalize r \<longleftrightarrow> fz_blockers r = []" by blast
  let ?B = "{d. blocking scores d \<and> (\<exists>f \<in> set findings. d \<in> set (fr_domain_values f)
               \<and> fr_human_review_status f = HumanReviewStatus_value HumanReviewStatus.PENDING)}"
  have set: "set (map fb_domain (fz_blockers r)) = ?B"
    unfolding r(2) by (auto simp: blocking_def pending_in_def filter_empty_conv)
  have "fz_blockers r = [] \<longleftrightarrow> ?B = {}"
    unfolding set [symmetric] by simp
  moreover have "sorted (map fb_domain (fz_blockers r))" "distinct (map fb_domain (fz_blockers r))"
    unfolding r(2) by (simp_all add: sorted_filter [of id, simplified])
  ultimately show ?thesis using r(1,3) set by blast
qed

theorem finalization_blockers_witness:
  "\<exists>r. check_finalization_policy [\<lparr>ds_domain = ''payments'', ds_decision_category = ''critical_risk''\<rparr>]
        [\<lparr>fr_finding_id = ''f'', fr_domain_values = [''payments''], fr_human_review_status = ''pending''\<rparr>]
      = Inr r \<and> \<not> fz_can_finalize r"
proof -
  let ?s = "[\<lparr>ds_domain = ''payments'', ds_decision_category = ''critical_risk''\<rparr>]"
  let ?f = "[\<lparr>fr_finding_id = ''f'', fr_domain_values = [''payments''], fr_human_review_status = ''pending''\<rparr>]"
  have "''critical_risk'' \<in> range DecisionCategory_value"
    by (rule image_eqI [of _ _ DecisionCategory.CRITICAL_RISK]) simp_all
  then have "\<forall>s \<in> set ?s. ds_decision_category s \<in> range DecisionCategory_value" by auto
  from finalization_blockers [OF this, of ?f] show ?thesis
    by (auto simp: blocking_def BLOCKING_DECISION_CATEGORIES_def)
qed

end
