(* ===== verification/Repositories.thy ===== *)
theory Repositories
  imports ScanTypes Evidencing ControlEval ApprovalWorkflow Users "HOL-Library.AList"
begin

text \<open>
  \<^verbatim>\<open>storage/db/repositories.py\<close> and \<open>upsert_catalog\<close> of \<^verbatim>\<open>controls/catalog.py\<close>: what the
  repositories read from and write to the tables of a session. A dict that is built while
  iterating is an association list updated in place. Reading a stored enumeration value
  may raise ValueError, so scoring gives a result.
\<close>

section \<open>Rows with new ids\<close>

definition fresh_rows :: "(string \<Rightarrow> 'x \<Rightarrow> 'r) \<Rightarrow> 'x list \<Rightarrow> session \<Rightarrow> 'r list \<times> session" where
  "fresh_rows mk xs s =
     (map (\<lambda>(k, x). mk (pf_uuid s (pf_draws s + k)) x) (enumerate 0 xs),
      s\<lparr>pf_draws := pf_draws s + length xs\<rparr>)"

section \<open>Latest scores and coverage\<close>

definition scores_for_scan :: "string \<Rightarrow> database \<Rightarrow> Score list" where
  "scores_for_scan scan_id d = filter (\<lambda>r. so_scan_id r = scan_id) (db_scores d)"

definition latest_update :: "Score \<Rightarrow> (string \<times> Score) list \<Rightarrow> (string \<times> Score) list" where
  "latest_update row latest =
     (case map_of latest (so_domain row) of
        None \<Rightarrow> AList.update (so_domain row) row latest
      | Some current \<Rightarrow>
          if utc_instant (so_calculated_at row) \<ge> utc_instant (so_calculated_at current)
          then AList.update (so_domain row) row latest else latest)"

definition latest_scores_by_domain ::
  "string \<Rightarrow> string list option \<Rightarrow> database \<Rightarrow> (string \<times> Score) list" where
  "latest_scores_by_domain scan_id domains d =
     fold latest_update
       (filter (\<lambda>r. case domains of None \<Rightarrow> True | Some ds \<Rightarrow> so_domain r \<in> set ds)
         (scores_for_scan scan_id d)) []"

definition domain_coverage :: "string \<Rightarrow> database \<Rightarrow> string set \<times> (string \<rightharpoonup> int)" where
  "domain_coverage scan_id d =
     (let mappings = filter (\<lambda>m. dm_scan_id m = scan_id) (db_domain_mappings d);
          evaluated = set (map dm_domain mappings)
      in (evaluated,
          (\<lambda>domain. if domain \<in> evaluated
             then Some (int (card (set (map dm_file_inventory_id
                    (filter (\<lambda>m. dm_domain m = domain) mappings)))))
             else None)))"

section \<open>ScanRepository\<close>

definition scan_row_of :: "ScanSummary \<Rightarrow> datetime \<Rightarrow> Scan" where
  "scan_row_of summary created =
     \<lparr>sc_id = sm_scan_id summary, sc_source_path = sm_source_path summary,
      sc_source_type = sm_source_type summary, sc_status = ScanStatus_value (sm_status summary),
      sc_total_files_found = sm_total_files_found summary,
      sc_files_scanned = sm_files_scanned summary, sc_files_skipped = sm_files_skipped summary,
      sc_total_findings = sm_total_findings summary, sc_truncated = sm_truncated summary,
      sc_source_hash_before = Some (sm_source_hash_before summary),
      sc_source_hash_after = Some (sm_source_hash_after summary),
      sc_integrity_verified = sm_integrity_verified summary,
      sc_error_message = sm_error_message summary, sc_created_at = created,
      sc_started_at = Some (sm_started_at summary), sc_completed_at = sm_completed_at summary\<rparr>"

definition inventory_row :: "string \<Rightarrow> datetime \<Rightarrow> string \<Rightarrow> FileInventoryItem \<Rightarrow> FileInventoryRecord" where
  "inventory_row scan_id created i item =
     \<lparr>fi_id = i, fi_scan_id = scan_id, fi_relative_path = it_relative_path item,
      fi_file_name = it_file_name item, fi_extension = it_extension item,
      fi_detected_type = meta_str (it_metadata item) ''detected_type'',
      fi_language = meta_str (it_metadata item) ''language'',
      fi_size_bytes = it_size_bytes item, fi_content_hash = Some (it_content_hash item),
      fi_sensitivity_hint = meta_truthy (it_metadata item) ''sensitivity_hint'',
      fi_scan_status = ''scanned'', fi_skipped_reason = None, fi_created_at = created\<rparr>"

definition skipped_row :: "string \<Rightarrow> datetime \<Rightarrow> string \<Rightarrow> SkippedFile \<Rightarrow> FileInventoryRecord" where
  "skipped_row scan_id created i item =
     \<lparr>fi_id = i, fi_scan_id = scan_id, fi_relative_path = sk_relative_path item,
      fi_file_name = last (split_on (CHR ''/'') (sk_relative_path item)), fi_extension = [],
      fi_detected_type = None, fi_language = None, fi_size_bytes = 0, fi_content_hash = None,
      fi_sensitivity_hint = False, fi_scan_status = ''skipped'',
      fi_skipped_reason = Some (SkipReason_value (sk_reason item)), fi_created_at = created\<rparr>"

definition mapping_row ::
  "string \<Rightarrow> (string \<rightharpoonup> string) \<Rightarrow> datetime \<Rightarrow> string \<Rightarrow> string \<times> DomainMapping \<Rightarrow> DomainMappingRecord" where
  "mapping_row scan_id file_ids created i pm =
     (case pm of (path, m) \<Rightarrow>
        \<lparr>dm_id = i, dm_scan_id = scan_id, dm_file_inventory_id = file_ids path,
         dm_domain = BankingDomain_value (mp_domain m),
         dm_confidence = ConfidenceLevel_value (mp_confidence m), dm_reason = mp_reason m,
         dm_source = MappingSource_value (mp_source m), dm_created_at = created\<rparr>)"

definition finding_row :: "datetime \<Rightarrow> string \<Rightarrow> NormalizedFinding \<Rightarrow> Finding" where
  "finding_row created i nf =
     (let raw = nf_raw nf in
      \<lparr>fd_id = i, fd_scan_id = nf_scan_id nf, fd_scanner_id = nf_scanner_id nf,
       fd_scanner_version = nf_scanner_version nf, fd_rule_id = rf_rule_id raw,
       fd_title = rf_title raw, fd_finding_type = FindingType_value (rf_finding_type raw),
       fd_category = FindingCategory_value (rf_category raw),
       fd_severity = Severity_value (rf_severity raw),
       fd_confidence = ConfidenceLevel_value (rf_confidence raw),
       fd_banking_domains = nf_banking_domains nf,
       fd_source_relative_path = nf_source_relative_path nf,
       fd_line_start = rf_line_start raw, fd_line_end = rf_line_end raw,
       fd_masked_evidence = rf_masked_evidence raw, fd_description = rf_description raw,
       fd_impact = rf_impact raw, fd_recommended_action = rf_recommended_action raw,
       fd_remediation_mode = RemediationMode_value (rf_remediation_mode raw),
       fd_read_only_confirmation = rf_read_only_confirmation raw,
       fd_metadata_json = rf_metadata raw, fd_created_at = created,
       fd_human_review_status = HumanReviewStatus_value HumanReviewStatus.PENDING,
       fd_reviewed_by = None, fd_reviewed_at = None\<rparr>)"

definition execution_row :: "string \<Rightarrow> datetime \<Rightarrow> string \<Rightarrow> ScannerExecutionSummary \<Rightarrow> ScannerExecutionRecord" where
  "execution_row scan_id created i x =
     \<lparr>se_id = i, se_scan_id = scan_id, se_scanner_id = xs_scanner_id x,
      se_scanner_version = xs_scanner_version x, se_status = xs_status x,
      se_files_processed = xs_files_processed x, se_files_errored = xs_files_errored x,
      se_findings_produced = xs_findings_produced x, se_error_summary = xs_error_summary x,
      se_created_at = created\<rparr>"

definition save_scan :: "ScanResult \<Rightarrow> session \<Rightarrow> Scan \<times> session" where
  "save_scan r s =
     (let summary = rs_summary r;
          scan_id = sm_scan_id summary;
          t = now s;
          scan_row = scan_row_of summary t;
          s1 = map_work (\<lambda>d. d\<lparr>db_scans := db_scans d @ [scan_row]\<rparr>) s;
          (inventory_rows, s2) = fresh_rows (inventory_row scan_id t) (rs_inventory r) s1;
          (skipped_rows, s3) = fresh_rows (skipped_row scan_id t) (rs_skipped r) s2;
          s4 = map_work (\<lambda>d. d\<lparr>db_file_inventory :=
                 db_file_inventory d @ inventory_rows @ skipped_rows\<rparr>) s3;
          file_ids = map_of (rev (zip (map it_relative_path (rs_inventory r))
                                      (map fi_id inventory_rows)));
          (mapping_rows, s5) = fresh_rows (mapping_row scan_id file_ids t)
             (concat (map (\<lambda>(path, ms). map (Pair path) ms) (rs_domain_mappings r))) s4;
          (finding_rows, s6) = fresh_rows (finding_row t) (rs_findings r) s5;
          (execution_rows, s7) = fresh_rows (execution_row scan_id t) (rs_scanner_executions r) s6;
          s8 = map_work (\<lambda>d. d\<lparr>db_domain_mappings := db_domain_mappings d @ mapping_rows,
                 db_findings := db_findings d @ finding_rows,
                 db_scanner_executions := db_scanner_executions d @ execution_rows\<rparr>) s7
      in (scan_row, commit s8))"

definition get_scan :: "string \<Rightarrow> database \<Rightarrow> Scan option" where
  "get_scan scan_id d = get_row sc_id scan_id (db_scans d)"

definition findings_for_scan :: "string \<Rightarrow> database \<Rightarrow> Finding list" where
  "findings_for_scan scan_id d = filter (\<lambda>f. fd_scan_id f = scan_id) (db_findings d)"

definition get_findings :: "string \<Rightarrow> session \<Rightarrow> Finding list \<times> session" where
  "get_findings scan_id s = (findings_for_scan scan_id (ss_work s), s)"

section \<open>The control catalog\<close>

definition updated_control :: "ControlDefinition \<Rightarrow> Control \<Rightarrow> Control" where
  "updated_control c existing =
     existing\<lparr>co_title := cd_title c, co_description := cd_description c,
       co_source_reference := cd_source_reference c, co_weight := cd_weight c,
       co_domain := cd_domain c, co_subdomain := cd_subdomain c,
       co_applies_to_domains := cd_applies_to_domains c\<rparr>"

definition new_control :: "ControlDefinition \<Rightarrow> datetime \<Rightarrow> string \<Rightarrow> Control" where
  "new_control c created i =
     \<lparr>co_id = i, co_control_id = cd_control_id c, co_domain = cd_domain c,
      co_subdomain = cd_subdomain c, co_title = cd_title c, co_description = cd_description c,
      co_control_type = ControlType_value ControlType.TECHNICAL,
      co_source_reference = cd_source_reference c, co_weight = cd_weight c,
      co_applies_to_domains = cd_applies_to_domains c, co_created_at = created\<rparr>"

definition upsert_control :: "ControlDefinition \<Rightarrow> session \<Rightarrow> Control \<times> session" where
  "upsert_control c s =
     (case get_row co_control_id (cd_control_id c) (db_controls (ss_work s)) of
        Some existing \<Rightarrow>
          (updated_control c existing,
           map_work (\<lambda>d. d\<lparr>db_controls :=
             update_row co_id (co_id existing) (updated_control c) (db_controls d)\<rparr>) s)
      | None \<Rightarrow>
          (let (i, s1) = new_uuid s; row = new_control c (now s) i
           in (row, map_work (\<lambda>d. d\<lparr>db_controls := db_controls d @ [row]\<rparr>) s1)))"

primrec upsert_controls :: "ControlDefinition list \<Rightarrow> session \<Rightarrow> Control list \<times> session" where
  "upsert_controls [] s = ([], s)"
| "upsert_controls (c # cs) s =
     (let (row, s1) = upsert_control c s; (rows, s2) = upsert_controls cs s1 in (row # rows, s2))"

definition upsert_catalog :: "session \<Rightarrow> Control list \<times> session" where
  "upsert_catalog s = upsert_controls CONTROL_CATALOG s"

definition control_ids_of :: "Control list \<Rightarrow> string \<rightharpoonup> string" where
  "control_ids_of rows = map_of (rev (map (\<lambda>c. (co_control_id c, co_id c)) rows))"

section \<open>ScoringRepository\<close>

definition finding_for_scoring :: "Finding \<Rightarrow> FindingForScoring result" where
  "finding_for_scoring f =
     rbind (enum_of Severity_members Severity_value (fd_severity f)) (\<lambda>sev.
     rbind (enum_of ConfidenceLevel_members ConfidenceLevel_value (fd_confidence f)) (\<lambda>conf.
       Inr \<lparr>fs_rule_id = fd_rule_id f, fs_severity = sev, fs_confidence = conf,
            fs_domains = fd_banking_domains f\<rparr>))"

definition score_row :: "string \<Rightarrow> datetime \<Rightarrow> string \<Rightarrow> ScoreResult \<Rightarrow> Score" where
  "score_row scan_id t i r =
     \<lparr>so_id = i, so_scan_id = scan_id, so_domain = BankingDomain_value (sr_domain r),
      so_raw_score = sr_raw_score r, so_weighted_score = sr_weighted_score r,
      so_confidence_level = ConfidenceLevel_value (sr_confidence_level r),
      so_evidence_completeness = EvidenceCompleteness_value (sr_evidence_completeness r),
      so_decision_category = DecisionCategory_value (sr_decision_category r),
      so_files_evaluated = sr_files_evaluated r, so_findings_count = sr_findings_count r,
      so_calculated_at = t, so_override_of = None\<rparr>"

definition score_scan :: "string \<Rightarrow> Score list op" where
  "score_scan scan_id s =
     (let findings = findings_for_scan scan_id (ss_work s);
          (evaluated_domains, files_evaluated) = domain_coverage scan_id (ss_work s)
      in and_then (map_result finding_for_scoring findings, s)
           (\<lambda>inputs s.
             (let results = score_all_domains inputs evaluated_domains files_evaluated;
                  (rows, s1) = fresh_rows (score_row scan_id (now s)) results s
              in (Inr rows, map_work (\<lambda>d. d\<lparr>db_scores := db_scores d @ rows\<rparr>) s1))))"

record ScoringOutput =
  sg_controls :: "Control list"
  sg_scores :: "Score list"
  sg_evidence :: "Evidence list"
  sg_recommendations :: "Recommendation list"

definition matched_control_db_id :: "(string \<rightharpoonup> string) \<Rightarrow> string \<Rightarrow> string option" where
  "matched_control_db_id control_ids rule_id =
     (case control_for_rule_id rule_id of None \<Rightarrow> None | Some c \<Rightarrow> control_ids (cd_control_id c))"

definition evidence_input :: "(string \<rightharpoonup> string) \<Rightarrow> Finding \<Rightarrow> FindingForEvidence" where
  "evidence_input control_ids f =
     \<lparr>fe_finding_id = fd_id f, fe_masked_evidence = fd_masked_evidence f,
      fe_source_relative_path = fd_source_relative_path f, fe_line_start = fd_line_start f,
      fe_line_end = fd_line_end f,
      fe_control_id = matched_control_db_id control_ids (fd_rule_id f)\<rparr>"

definition evidence_row :: "datetime \<Rightarrow> string \<Rightarrow> EvidenceResult \<Rightarrow> Evidence" where
  "evidence_row t i e =
     \<lparr>ev_id = i, ev_finding_id = er_finding_id e, ev_control_id = er_control_id e,
      ev_evidence_type = er_evidence_type e, ev_content = er_content e,
      ev_source_reference = er_source_reference e, ev_retrieved_via = er_retrieved_via e,
      ev_captured_at = t\<rparr>"

definition recommendation_input ::
  "(string \<rightharpoonup> string) \<Rightarrow> Finding \<Rightarrow> FindingForRecommendation result" where
  "recommendation_input control_ids f =
     rbind (enum_of Severity_members Severity_value (fd_severity f)) (\<lambda>sev.
       Inr \<lparr>fm_finding_id = fd_id f, fm_rule_id = fd_rule_id f, fm_title = fd_title f,
            fm_severity = sev, fm_recommended_action = fd_recommended_action f,
            fm_source_relative_path = fd_source_relative_path f,
            fm_line_start = fd_line_start f, fm_domains = fd_banking_domains f,
            fm_control_id = matched_control_db_id control_ids (fd_rule_id f)\<rparr>)"

definition recommendation_row :: "string \<Rightarrow> datetime \<Rightarrow> string \<Rightarrow> RecommendationResult \<Rightarrow> Recommendation" where
  "recommendation_row scan_id t i r =
     \<lparr>rc_id = i, rc_finding_id = rr_finding_id r, rc_scan_id = scan_id,
      rc_control_id = rr_control_id r, rc_text = rr_text r, rc_priority = rr_priority r,
      rc_status = rr_status r, rc_source = rr_source r, rc_reviewed_by = None,
      rc_reviewed_at = None, rc_created_at = t\<rparr>"

definition score_and_generate :: "string \<Rightarrow> ScoringOutput op" where
  "score_and_generate scan_id s =
     (let (control_rows, s1) = upsert_catalog s;
          control_ids = control_ids_of control_rows;
          findings = findings_for_scan scan_id (ss_work s1)
      in and_then (score_scan scan_id s1) (\<lambda>score_rows s.
           (let (evidence_rows, s2) = fresh_rows (evidence_row (now s))
                   (build_evidence (map (evidence_input control_ids) findings)) s;
                s3 = map_work (\<lambda>d. d\<lparr>db_evidence := db_evidence d @ evidence_rows\<rparr>) s2
            in and_then (map_result (recommendation_input control_ids) findings, s3)
                 (\<lambda>inputs s.
                   (let (rows, s4) = fresh_rows (recommendation_row scan_id (now s))
                           (generate_recommendations inputs) s;
                        s5 = map_work (\<lambda>d. d\<lparr>db_recommendations := db_recommendations d @ rows\<rparr>) s4
                    in (Inr \<lparr>sg_controls = control_rows, sg_scores = score_rows,
                             sg_evidence = evidence_rows, sg_recommendations = rows\<rparr>,
                        commit s5))))))"

definition recommendations_for_scan :: "string \<Rightarrow> database \<Rightarrow> Recommendation list" where
  "recommendations_for_scan scan_id d =
     filter (\<lambda>r. rc_scan_id r = scan_id) (db_recommendations d)"

definition evidence_for_finding :: "string \<Rightarrow> database \<Rightarrow> Evidence list" where
  "evidence_for_finding finding_id d = filter (\<lambda>e. ev_finding_id e = finding_id) (db_evidence d)"

definition evidence_for_scan :: "string \<Rightarrow> database \<Rightarrow> Evidence list" where
  "evidence_for_scan scan_id d =
     filter (\<lambda>e. \<exists>f \<in> set (db_findings d). fd_id f = ev_finding_id e \<and> fd_scan_id f = scan_id)
       (db_evidence d)"

definition review_recommendation :: "string \<Rightarrow> string \<Rightarrow> string \<Rightarrow> session \<Rightarrow> Recommendation option \<times> session" where
  "review_recommendation recommendation_id status reviewed_by s =
     (case get_row rc_id recommendation_id (db_recommendations (ss_work s)) of
        None \<Rightarrow> (None, s)
      | Some row \<Rightarrow>
          (let review = (\<lambda>r. r\<lparr>rc_status := status, rc_reviewed_by := Some reviewed_by,
                                rc_reviewed_at := Some (now s)\<rparr>)
           in (Some (review row), commit (map_work (\<lambda>d. d\<lparr>db_recommendations :=
                  update_row rc_id (rc_id row) review (db_recommendations d)\<rparr>) s))))"

section \<open>ControlEvaluationRepository\<close>

definition evaluation_row ::
  "string \<Rightarrow> (string \<rightharpoonup> string) \<Rightarrow> datetime \<Rightarrow> string \<Rightarrow> ControlEvaluationResult \<Rightarrow> ControlEvaluation" where
  "evaluation_row scan_id control_ids t i r =
     \<lparr>ce_id = i, ce_scan_id = scan_id,
      ce_control_id = (case cr_control_id r of None \<Rightarrow> None
                       | Some c \<Rightarrow> if c = [] then None else control_ids c),
      ce_domain = BankingDomain_value (cr_domain r),
      ce_status = ControlEvaluationStatus_value (cr_status r),
      ce_finding_ids = cr_finding_ids r, ce_evaluated_at = t\<rparr>"

definition evaluate_and_persist :: "string \<Rightarrow> session \<Rightarrow> ControlEvaluation list \<times> session" where
  "evaluate_and_persist scan_id s =
     (let (control_rows, s1) = upsert_catalog s;
          control_ids = control_ids_of control_rows;
          findings = findings_for_scan scan_id (ss_work s1);
          evaluated_domains = fst (domain_coverage scan_id (ss_work s1));
          inputs = map (\<lambda>f. \<lparr>fc_finding_id = fd_id f, fc_rule_id = fd_rule_id f,
                              fc_domains = fd_banking_domains f\<rparr>) findings;
          results = evaluate_all_domains inputs evaluated_domains;
          (rows, s2) = fresh_rows (evaluation_row scan_id control_ids (now s1)) results s1;
          s3 = map_work (\<lambda>d. d\<lparr>db_control_evaluations := db_control_evaluations d @ rows\<rparr>) s2
      in (rows, commit s3))"

definition evaluations_for_scan :: "string \<Rightarrow> database \<Rightarrow> ControlEvaluation list" where
  "evaluations_for_scan scan_id d =
     filter (\<lambda>e. ce_scan_id e = scan_id) (db_control_evaluations d)"

section \<open>GovernanceRepository\<close>

definition reviewed :: "FindingReviewDecision \<Rightarrow> datetime \<Rightarrow> Finding \<Rightarrow> Finding" where
  "reviewed decision t row =
     row\<lparr>fd_human_review_status := HumanReviewStatus_value (rd_new_status decision),
         fd_reviewed_by := Some (rd_reviewed_by decision), fd_reviewed_at := Some t\<rparr>"

definition review_finding :: "FindingReviewDecision \<Rightarrow> Finding option op" where
  "review_finding decision s =
     and_then (validate_finding_review decision, s) (\<lambda>validated s.
       (case get_row fd_id (rd_finding_id validated) (db_findings (ss_work s)) of
          None \<Rightarrow> (Inr None, s)
        | Some row \<Rightarrow>
            (let review = reviewed validated (now s);
                 row1 = review row;
                 s1 = map_work (\<lambda>d. d\<lparr>db_findings :=
                        update_row fd_id (fd_id row) review (db_findings d)\<rparr>) s
             in and_then
                  (record_event
                    \<lparr>ai_event_type = AuditEventType_value AuditEventType.FINDING_REVIEWED,
                     ai_actor = rd_reviewed_by validated,
                     ai_summary = ''Finding '' @ fd_id row1 @ '' reviewed: ''
                       @ HumanReviewStatus_value (rd_new_status validated),
                     ai_scan_id = Some (fd_scan_id row1),
                     ai_payload = [(''finding_id'', JStr (fd_id row1)),
                       (''new_status'', JStr (HumanReviewStatus_value (rd_new_status validated))),
                       (''reason'', JStr (case rd_reason validated of None \<Rightarrow> [] | Some r \<Rightarrow> r))]\<rparr> s1)
                  (\<lambda>_ s. (Inr (Some row1), s)))))"

definition override_row :: "ScoreOverrideDecision \<Rightarrow> Score \<Rightarrow> datetime \<Rightarrow> string \<Rightarrow> Score" where
  "override_row validated original t i =
     \<lparr>so_id = i, so_scan_id = od_scan_id validated, so_domain = od_domain validated,
      so_raw_score = so_raw_score original,
      so_weighted_score = (case od_new_weighted_score validated of
         Some w \<Rightarrow> Some w | None \<Rightarrow> so_weighted_score original),
      so_confidence_level = so_confidence_level original,
      so_evidence_completeness = so_evidence_completeness original,
      so_decision_category = DecisionCategory_value (od_new_decision_category validated),
      so_files_evaluated = so_files_evaluated original,
      so_findings_count = so_findings_count original,
      so_calculated_at = t, so_override_of = Some (so_id original)\<rparr>"

definition override_score :: "ScoreOverrideDecision \<Rightarrow> Score option op" where
  "override_score decision s =
     and_then (validate_score_override decision, s) (\<lambda>validated s.
       (case get_row so_id (od_original_score_id validated) (db_scores (ss_work s)) of
          None \<Rightarrow> (Inr None, s)
        | Some original \<Rightarrow>
            (let (i, s1) = new_uuid s;
                 new_row = override_row validated original (now s1) i;
                 s2 = map_work (\<lambda>d. d\<lparr>db_scores := db_scores d @ [new_row]\<rparr>) s1
             in and_then
                  (record_event
                    \<lparr>ai_event_type = AuditEventType_value AuditEventType.SCORE_OVERRIDDEN,
                     ai_actor = od_reviewed_by validated,
                     ai_summary = ''Score for domain '' @ [CHR 0x27] @ od_domain validated
                       @ [CHR 0x27] @ '' overridden to ''
                       @ DecisionCategory_value (od_new_decision_category validated),
                     ai_scan_id = Some (od_scan_id validated),
                     ai_payload = [(''original_score_id'', JStr (so_id original)),
                       (''new_score_id'', JStr (so_id new_row)),
                       (''domain'', JStr (od_domain validated)),
                       (''reason'', JStr (od_reason validated))]\<rparr> s2)
                  (\<lambda>_ s. (Inr (Some new_row), s)))))"

definition check_finalization :: "string \<Rightarrow> database \<Rightarrow> FinalizationCheckResult result" where
  "check_finalization scan_id d =
     check_finalization_policy
       (map (\<lambda>(_, r). \<lparr>ds_domain = so_domain r, ds_decision_category = so_decision_category r\<rparr>)
         (latest_scores_by_domain scan_id None d))
       (map (\<lambda>f. \<lparr>fr_finding_id = fd_id f, fr_domain_values = fd_banking_domains f,
                   fr_human_review_status = fd_human_review_status f\<rparr>) (findings_for_scan scan_id d))"

definition get_score_history :: "string \<Rightarrow> string \<Rightarrow> database \<Rightarrow> Score list" where
  "get_score_history scan_id domain d =
     order_by (\<lambda>r. utc_instant (so_calculated_at r))
       (filter (\<lambda>r. so_scan_id r = scan_id \<and> so_domain r = domain) (db_scores d))"

end
