(* ===== verification/Assessment.thy ===== *)
theory Assessment
  imports Repositories
begin

text \<open>
  \<^verbatim>\<open>assessment/engine.py\<close> from the stored scan on, \<^verbatim>\<open>assessment/traceability.py\<close> and the
  service functions of \<^verbatim>\<open>ui/services/assessment_service.py\<close>. Each service function opens
  its own session and closes it on every path.
\<close>

section \<open>The assessment pipeline\<close>

record AssessmentResult =
  am_scan_id :: string
  am_scan_row :: Scan
  am_scores :: "Score list"
  am_control_evaluations :: "ControlEvaluation list"
  am_evidence :: "Evidence list"
  am_recommendations :: "Recommendation list"
  am_findings :: "Finding list"
  am_audit_events :: "AuditEvent list"
  am_scan_result :: "ScanResult option"

definition system_event ::
  "AuditEventType \<Rightarrow> string \<Rightarrow> string \<Rightarrow> (string \<times> json) list \<Rightarrow> AuditEventInput" where
  "system_event t scan_id summary payload =
     \<lparr>ai_event_type = AuditEventType_value t, ai_actor = ''system'', ai_summary = summary,
      ai_scan_id = Some scan_id, ai_payload = payload\<rparr>"

definition show_len :: "'a list \<Rightarrow> string" where
  "show_len xs = show_nat (length xs)"

definition scan_persisted_event :: "string \<Rightarrow> ScanSummary \<Rightarrow> AuditEventInput" where
  "scan_persisted_event scan_id summary = system_event AuditEventType.SCAN_PERSISTED scan_id
     (''Scan persisted: '' @ show_int (sm_total_findings summary) @ '' finding(s) across ''
        @ show_int (sm_files_scanned summary) @ '' file(s)'')
     [(''status'', JStr (ScanStatus_value (sm_status summary))),
      (''integrity_verified'', JBool (sm_integrity_verified summary))]"

definition scoring_completed_event :: "string \<Rightarrow> ScoringOutput \<Rightarrow> AuditEventInput" where
  "scoring_completed_event scan_id output = system_event AuditEventType.SCORING_COMPLETED scan_id
     (''Scoring completed: '' @ show_len (sg_scores output) @ '' domain score(s), ''
        @ show_len (sg_evidence output) @ '' evidence row(s), ''
        @ show_len (sg_recommendations output) @ '' recommendation(s)'')
     [(''domain_count'', JInt (int (length (sg_scores output))))]"

definition evaluation_completed_event :: "string \<Rightarrow> ControlEvaluation list \<Rightarrow> AuditEventInput" where
  "evaluation_completed_event scan_id evaluations =
     system_event AuditEventType.CONTROL_EVALUATION_COMPLETED scan_id
     (''Control evaluation completed: '' @ show_len evaluations @ '' (domain, control) result(s)'')
     [(''evaluation_count'', JInt (int (length evaluations)))]"

definition assessment_completed_event ::
  "string \<Rightarrow> Finding list \<Rightarrow> ScoringOutput \<Rightarrow> ControlEvaluation list \<Rightarrow> AuditEventInput" where
  "assessment_completed_event scan_id findings output evaluations =
     system_event AuditEventType.ASSESSMENT_COMPLETED scan_id
     (''Assessment completed for scan '' @ scan_id)
     [(''findings_count'', JInt (int (length findings))),
      (''scores_count'', JInt (int (length (sg_scores output)))),
      (''control_evaluations_count'', JInt (int (length evaluations))),
      (''recommendations_count'', JInt (int (length (sg_recommendations output))))]"

text \<open>\<open>run_assessment\<close> after the scan: store it, score, evaluate the controls, and record
  each stage.\<close>

definition persist_assessment :: "ScanResult \<Rightarrow> AssessmentResult op" where
  "persist_assessment scan_result s =
     (let summary = rs_summary scan_result;
          (scan_row, s1) = save_scan scan_result s;
          scan_id = sc_id scan_row
      in and_then (record_event (scan_persisted_event scan_id summary) s1)
        (\<lambda>event1 s. and_then (score_and_generate scan_id s)
        (\<lambda>output s. and_then (record_event (scoring_completed_event scan_id output) s)
        (\<lambda>event2 s.
          (let (evaluations, s2) = evaluate_and_persist scan_id s
           in and_then (record_event (evaluation_completed_event scan_id evaluations) s2)
        (\<lambda>event3 s.
          (let (findings, s3) = get_findings scan_id s
           in and_then
                (record_event (assessment_completed_event scan_id findings output evaluations) s3)
        (\<lambda>event4 s.
          (Inr \<lparr>am_scan_id = scan_id, am_scan_row = scan_row, am_scores = sg_scores output,
                am_control_evaluations = evaluations, am_evidence = sg_evidence output,
                am_recommendations = sg_recommendations output, am_findings = findings,
                am_audit_events = [event1, event2, event3, event4],
                am_scan_result = Some scan_result\<rparr>, s)))))))))"

definition load_assessment_result :: "string \<Rightarrow> database \<Rightarrow> AssessmentResult option" where
  "load_assessment_result scan_id d =
     (case get_scan scan_id d of
        None \<Rightarrow> None
      | Some scan_row \<Rightarrow>
          Some \<lparr>am_scan_id = scan_id, am_scan_row = scan_row, am_scores = scores_for_scan scan_id d,
                am_control_evaluations = evaluations_for_scan scan_id d,
                am_evidence = evidence_for_scan scan_id d,
                am_recommendations = recommendations_for_scan scan_id d,
                am_findings = findings_for_scan scan_id d,
                am_audit_events = audit_get_for_scan scan_id d, am_scan_result = None\<rparr>)"

section \<open>Traceability\<close>

record DomainScore =
  dz_decision_category :: string
  dz_weighted_score :: "rat option"
  dz_confidence_level :: string

record TraceabilityRecord =
  tr_finding_id :: string
  tr_scan_id :: string
  tr_source_relative_path :: string
  tr_line_start :: int
  tr_line_end :: int
  tr_rule_id :: string
  tr_scanner_id :: string
  tr_banking_domains :: "string list"
  tr_control_ids :: "string list"
  tr_control_evaluation_statuses :: "(string \<times> string) list"
  tr_evidence_ids :: "string list"
  tr_domain_scores :: "(string \<times> DomainScore) list"
  tr_recommendation_ids :: "string list"

definition latest_domain_scores :: "string \<Rightarrow> string list \<Rightarrow> database \<Rightarrow> (string \<times> DomainScore) list" where
  "latest_domain_scores scan_id domains d =
     map (\<lambda>(domain, row). (domain, \<lparr>dz_decision_category = so_decision_category row,
            dz_weighted_score = so_weighted_score row,
            dz_confidence_level = so_confidence_level row\<rparr>))
       (latest_scores_by_domain scan_id (Some domains) d)"

definition control_evaluation_statuses_for_finding ::
  "string \<Rightarrow> string \<Rightarrow> database \<Rightarrow> (string \<times> string) list" where
  "control_evaluation_statuses_for_finding scan_id finding_id d =
     fold (\<lambda>row. AList.update (ce_domain row) (ce_status row))
       (filter (\<lambda>row. finding_id \<in> set (ce_finding_ids row)) (evaluations_for_scan scan_id d)) []"

definition trace_finding :: "string \<Rightarrow> database \<Rightarrow> TraceabilityRecord option" where
  "trace_finding finding_id d =
     (case get_row fd_id finding_id (db_findings d) of
        None \<Rightarrow> None
      | Some finding \<Rightarrow>
          (let domains = fd_banking_domains finding;
               evidence_rows = evidence_for_finding finding_id d;
               control_db_ids = sorted_set (concat (map (\<lambda>e. case ev_control_id e of
                  None \<Rightarrow> [] | Some c \<Rightarrow> if c = [] then [] else [c]) evidence_rows));
               control_ids = (if control_db_ids = [] then []
                  else sort (map co_control_id
                    (filter (\<lambda>c. co_id c \<in> set control_db_ids) (db_controls d))));
               recommendation_rows = filter (\<lambda>r. rc_finding_id r = finding_id) (db_recommendations d)
           in Some \<lparr>tr_finding_id = fd_id finding, tr_scan_id = fd_scan_id finding,
                tr_source_relative_path = fd_source_relative_path finding,
                tr_line_start = fd_line_start finding, tr_line_end = fd_line_end finding,
                tr_rule_id = fd_rule_id finding, tr_scanner_id = fd_scanner_id finding,
                tr_banking_domains = domains, tr_control_ids = control_ids,
                tr_control_evaluation_statuses =
                  control_evaluation_statuses_for_finding (fd_scan_id finding) finding_id d,
                tr_evidence_ids = map ev_id evidence_rows,
                tr_domain_scores = (if domains \<noteq> []
                  then latest_domain_scores (fd_scan_id finding) domains d else []),
                tr_recommendation_ids = map rc_id recommendation_rows\<rparr>))"

section \<open>Service functions\<close>

definition service_session :: "Settings \<Rightarrow> 'a op \<Rightarrow> platform \<Rightarrow> 'a result \<times> platform" where
  "service_session settings body pf =
     (if \<not> truthy (st_database_url settings)
      then (Inl (Err PyException ''could not parse the database URL''), pf)
      else (let (r, s) = body (begin_session pf) in (r, platform.truncate s)))"

definition service_read :: "Settings \<Rightarrow> (database \<Rightarrow> 'a) \<Rightarrow> platform \<Rightarrow> 'a result \<times> platform" where
  "service_read settings f = service_session settings (\<lambda>s. (Inr (f (ss_work s)), s))"

record ScanSummaryRow =
  sw_scan_id :: string
  sw_source_path :: string
  sw_status :: string
  sw_total_findings :: int
  sw_integrity_verified :: bool
  sw_created_at :: string

definition list_recent_scans :: "Settings \<Rightarrow> nat \<Rightarrow> platform \<Rightarrow> ScanSummaryRow list result \<times> platform" where
  "list_recent_scans settings limit =
     service_read settings (\<lambda>d.
       map (\<lambda>r. \<lparr>sw_scan_id = sc_id r, sw_source_path = sc_source_path r, sw_status = sc_status r,
                 sw_total_findings = sc_total_findings r,
                 sw_integrity_verified = sc_integrity_verified r,
                 sw_created_at = isoformat (sc_created_at r)\<rparr>)
         (take limit (order_by (\<lambda>r. - utc_instant (sc_created_at r)) (db_scans d))))"

definition svc_review_finding ::
  "Settings \<Rightarrow> string \<Rightarrow> HumanReviewStatus \<Rightarrow> string \<Rightarrow> string option \<Rightarrow> platform
     \<Rightarrow> Finding option result \<times> platform" where
  "svc_review_finding settings finding_id new_status reviewed_by reason =
     service_session settings (\<lambda>s.
       and_then (review_finding \<lparr>rd_finding_id = finding_id, rd_new_status = new_status,
                   rd_reviewed_by = reviewed_by, rd_reason = reason\<rparr> s)
         (\<lambda>result s. (Inr result, commit s)))"

definition svc_override_score ::
  "Settings \<Rightarrow> string \<Rightarrow> string \<Rightarrow> string \<Rightarrow> DecisionCategory \<Rightarrow> string \<Rightarrow> string \<Rightarrow> rat option \<Rightarrow> platform
     \<Rightarrow> Score option result \<times> platform" where
  "svc_override_score settings original_score_id scan_id domain new_decision_category reviewed_by
       reason new_weighted_score =
     service_session settings (\<lambda>s.
       and_then (override_score \<lparr>od_original_score_id = original_score_id, od_scan_id = scan_id,
                   od_domain = domain, od_new_decision_category = new_decision_category,
                   od_reviewed_by = reviewed_by, od_reason = reason,
                   od_new_weighted_score = new_weighted_score\<rparr> s)
         (\<lambda>result s. (Inr result, commit s)))"

definition svc_check_finalization ::
  "Settings \<Rightarrow> string \<Rightarrow> platform \<Rightarrow> FinalizationCheckResult result \<times> platform" where
  "svc_check_finalization settings scan_id =
     service_session settings (\<lambda>s. (check_finalization scan_id (ss_work s), s))"

definition svc_get_assessment ::
  "Settings \<Rightarrow> string \<Rightarrow> platform \<Rightarrow> AssessmentResult option result \<times> platform" where
  "svc_get_assessment settings scan_id = service_read settings (load_assessment_result scan_id)"

definition svc_get_findings :: "Settings \<Rightarrow> string \<Rightarrow> platform \<Rightarrow> Finding list result \<times> platform" where
  "svc_get_findings settings scan_id = service_read settings (findings_for_scan scan_id)"

definition svc_get_scores :: "Settings \<Rightarrow> string \<Rightarrow> platform \<Rightarrow> Score list result \<times> platform" where
  "svc_get_scores settings scan_id = service_read settings (scores_for_scan scan_id)"

definition svc_get_score_history ::
  "Settings \<Rightarrow> string \<Rightarrow> string \<Rightarrow> platform \<Rightarrow> Score list result \<times> platform" where
  "svc_get_score_history settings scan_id domain =
     service_read settings (get_score_history scan_id domain)"

definition svc_get_control_evaluations ::
  "Settings \<Rightarrow> string \<Rightarrow> platform \<Rightarrow> ControlEvaluation list result \<times> platform" where
  "svc_get_control_evaluations settings scan_id = service_read settings (evaluations_for_scan scan_id)"

definition svc_get_recommendations ::
  "Settings \<Rightarrow> string \<Rightarrow> platform \<Rightarrow> Recommendation list result \<times> platform" where
  "svc_get_recommendations settings scan_id =
     service_read settings (recommendations_for_scan scan_id)"

definition svc_get_audit_trail :: "Settings \<Rightarrow> string \<Rightarrow> platform \<Rightarrow> AuditEvent list result \<times> platform" where
  "svc_get_audit_trail settings scan_id = service_read settings (audit_get_for_scan scan_id)"

definition svc_trace_finding ::
  "Settings \<Rightarrow> string \<Rightarrow> platform \<Rightarrow> TraceabilityRecord option result \<times> platform" where
  "svc_trace_finding settings finding_id = service_read settings (trace_finding finding_id)"

end
