(* ===== verification/RepositoryFacts.thy ===== *)
theory RepositoryFacts
  imports Assessment
begin

text \<open>
  What the repositories promise: nothing stored about an assessment is ever deleted or
  rewritten, except the review fields of findings and recommendations and the catalog text of
  controls; the catalog is stored once; an override is the domain's current score from then
  on; and each scan gets exactly one score per domain and one evidence item and
  recommendation per finding.
\<close>

section \<open>Records are kept\<close>

definition unreviewed :: "Finding \<Rightarrow> Finding" where
  "unreviewed f = f\<lparr>fd_human_review_status := [], fd_reviewed_by := None, fd_reviewed_at := None\<rparr>"

definition unreviewed_recommendation :: "Recommendation \<Rightarrow> Recommendation" where
  "unreviewed_recommendation r =
     r\<lparr>rc_status := [], rc_reviewed_by := None, rc_reviewed_at := None\<rparr>"

definition control_identity :: "Control \<Rightarrow> string \<times> string \<times> string \<times> datetime" where
  "control_identity c = (co_id c, co_control_id c, co_control_type c, co_created_at c)"

definition records_kept :: "database \<Rightarrow> database \<Rightarrow> bool" where
  "records_kept d e =
     (db_users e = db_users d
      \<and> prefix (db_audit_events d) (db_audit_events e)
      \<and> prefix (db_scans d) (db_scans e)
      \<and> prefix (db_file_inventory d) (db_file_inventory e)
      \<and> prefix (db_domain_mappings d) (db_domain_mappings e)
      \<and> prefix (map unreviewed (db_findings d)) (map unreviewed (db_findings e))
      \<and> prefix (db_scanner_executions d) (db_scanner_executions e)
      \<and> prefix (map control_identity (db_controls d)) (map control_identity (db_controls e))
      \<and> prefix (db_evidence d) (db_evidence e)
      \<and> prefix (db_scores d) (db_scores e)
      \<and> prefix (map unreviewed_recommendation (db_recommendations d))
          (map unreviewed_recommendation (db_recommendations e))
      \<and> prefix (db_control_evaluations d) (db_control_evaluations e))"

interpretation records: history records_kept
proof unfold_locales
  show "records_kept d d" for d by (simp add: records_kept_def)
  show "records_kept d e \<Longrightarrow> records_kept e f \<Longrightarrow> records_kept d f" for d e f
    unfolding records_kept_def by (elim conjE, intro conjI) (simp, (erule (1) prefix_order.trans)+)
qed

lemma keeps_record [intro, simp]: "records.keeps (record_event event)"
  by (rule records.keeps_record_event) (simp add: records_kept_def)

lemma map_update_row:
  "(\<And>r. g (f r) = g r) \<Longrightarrow> map g (update_row key i f rows) = map g rows"
  by (simp add: update_row_def map_update_where)

lemma keeps_save_scan [intro, simp]: "records.keeps (save_scan r)"
  by (rule records.keepsI_step)
     (simp_all add: save_scan_def fresh_rows_def map_work_def commit_def records_kept_def Let_def)

lemma upsert_control_kept:
  "records_kept (ss_work s) (ss_work (snd (upsert_control c s)))
   \<and> pf_store (snd (upsert_control c s)) = pf_store s"
  by (auto simp: upsert_control_def new_uuid_def map_work_def records_kept_def map_update_row
      control_identity_def updated_control_def Let_def split: option.splits)

lemma upsert_controls_kept:
  "records_kept (ss_work s) (ss_work (snd (upsert_controls cs s)))
   \<and> pf_store (snd (upsert_controls cs s)) = pf_store s"
proof (induction cs arbitrary: s)
  case Nil
  then show ?case by (simp add: records.R_refl)
next
  case (Cons c cs)
  with upsert_control_kept [of s c] show ?case
    by (auto simp: split_beta Let_def intro: records.R_trans)
qed

lemma keeps_upsert_catalog [intro, simp]: "records.keeps upsert_catalog"
  by (rule records.keepsI_step) (simp_all add: upsert_catalog_def upsert_controls_kept)

lemma keeps_score_scan [intro, simp]: "records.keeps (score_scan scan_id)"
  by (rule records.keepsI_step)
     (auto simp: score_scan_def fresh_rows_def map_work_def records_kept_def and_then_def
        Let_def split_beta split: sum.splits)

lemma keeps_score_and_generate [intro, simp]: "records.keeps (score_and_generate scan_id)"
proof (rule records.keepsI)
  fix d and s :: session
  assume d: "records_kept d (pf_store s)" "records_kept d (ss_work s)"
  let ?s1 = "snd (upsert_catalog s)"
  let ?s2 = "snd (score_scan scan_id ?s1)"
  have s1: "records_kept d (pf_store ?s1)" "records_kept d (ss_work ?s1)"
    using d keeps_upsert_catalog by (auto simp: records.keeps_def)
  have s2: "records_kept d (pf_store ?s2)" "records_kept d (ss_work ?s2)"
    using s1 keeps_score_scan by (auto simp: records.keeps_def)
  have "records_kept (ss_work ?s2) (ss_work ?s2\<lparr>db_evidence := db_evidence (ss_work ?s2) @ es\<rparr>)"
    "records_kept (ss_work ?s2) (ss_work ?s2\<lparr>db_evidence := db_evidence (ss_work ?s2) @ es,
       db_recommendations := db_recommendations (ss_work ?s2) @ rs\<rparr>)" for es rs
    by (simp_all add: records_kept_def)
  with s2 show "records_kept d (pf_store (snd (score_and_generate scan_id s)))
      \<and> records_kept d (ss_work (snd (score_and_generate scan_id s)))"
    using records.R_trans
    by (auto simp: score_and_generate_def fresh_rows_def map_work_def commit_def and_then_def
        Let_def split_beta split: sum.splits)
qed

lemma keeps_evaluate_and_persist [intro, simp]: "records.keeps (evaluate_and_persist scan_id)"
proof (rule records.keepsI)
  fix d and s :: session
  assume "records_kept d (pf_store s)" "records_kept d (ss_work s)"
  then have s1: "records_kept d (pf_store (snd (upsert_catalog s)))"
      "records_kept d (ss_work (snd (upsert_catalog s)))"
    using keeps_upsert_catalog by (auto simp: records.keeps_def)
  moreover have "records_kept e (e\<lparr>db_control_evaluations := db_control_evaluations e @ rs\<rparr>)" for e rs
    by (simp add: records_kept_def)
  ultimately show "records_kept d (pf_store (snd (evaluate_and_persist scan_id s)))
      \<and> records_kept d (ss_work (snd (evaluate_and_persist scan_id s)))"
    using records.R_trans
    by (auto simp: evaluate_and_persist_def fresh_rows_def map_work_def commit_def Let_def split_beta)
qed

lemma keeps_review_recommendation [intro, simp]:
  "records.keeps (review_recommendation i status by)"
  by (rule records.keepsI_step)
     (auto simp: review_recommendation_def map_work_def commit_def records_kept_def
        unreviewed_recommendation_def map_update_row Let_def split: option.splits)

lemma unreviewed_reviewed: "unreviewed (reviewed dec t f) = unreviewed f"
  by (simp add: unreviewed_def reviewed_def)

lemma keeps_review_finding [intro, simp]: "records.keeps (review_finding decision)"
proof (rule records.keepsI)
  fix d and s :: session
  assume "records_kept d (pf_store s)" "records_kept d (ss_work s)"
  moreover have "records_kept e (e\<lparr>db_findings := update_row fd_id i (reviewed dec t) (db_findings e),
      db_audit_events := db_audit_events e @ es\<rparr>)"
    "records_kept e (e\<lparr>db_findings := update_row fd_id i (reviewed dec t) (db_findings e)\<rparr>)"
    for e i dec t es
    by (simp_all add: records_kept_def map_update_row unreviewed_reviewed)
  ultimately show "records_kept d (pf_store (snd (review_finding decision s)))
      \<and> records_kept d (ss_work (snd (review_finding decision s)))"
    using records.R_trans
    by (auto simp: review_finding_def record_event_eq map_work_def and_then_def Let_def
        split: sum.splits option.splits)
qed

lemma keeps_override_score [intro, simp]: "records.keeps (override_score decision)"
proof (rule records.keepsI)
  fix d and s :: session
  assume "records_kept d (pf_store s)" "records_kept d (ss_work s)"
  moreover have "records_kept e (e\<lparr>db_scores := db_scores e @ rs,
      db_audit_events := db_audit_events e @ es\<rparr>)"
    "records_kept e (e\<lparr>db_scores := db_scores e @ rs\<rparr>)" for e es rs
    by (simp_all add: records_kept_def)
  ultimately show "records_kept d (pf_store (snd (override_score decision s)))
      \<and> records_kept d (ss_work (snd (override_score decision s)))"
    using records.R_trans
    by (auto simp: override_score_def record_event_eq map_work_def new_uuid_def and_then_def
        Let_def split: sum.splits option.splits)
qed

lemma keeps_pair:
  assumes "records.keeps f" and "\<And>a. records.keeps (g a)"
  shows "records.keeps (\<lambda>s. (let (a, s1) = f s in g a s1))"
  using assms by (auto simp: records.keeps_def split_beta Let_def)

lemma keeps_get_findings [intro, simp]: "records.keeps (get_findings scan_id)"
  by (simp add: get_findings_def [abs_def])

lemma keeps_persist_assessment [intro, simp]: "records.keeps (persist_assessment r)"
  unfolding persist_assessment_def Let_def
  by (intro keeps_pair [unfolded Let_def] records.keeps_and_then records.keeps_return
      keeps_save_scan keeps_record keeps_score_and_generate keeps_evaluate_and_persist
      keeps_get_findings)

section \<open>New rows\<close>

lemma length_fresh_rows [simp]: "length (fst (fresh_rows mk xs s)) = length xs"
  by (simp add: fresh_rows_def)

lemma snd_fresh_rows [simp]: "snd (fresh_rows mk xs s) = s\<lparr>pf_draws := pf_draws s + length xs\<rparr>"
  by (simp add: fresh_rows_def)

lemma fresh_rows_nth:
  "k < length xs \<Longrightarrow> fst (fresh_rows mk xs s) ! k = mk (pf_uuid s (pf_draws s + k)) (xs ! k)"
  by (simp add: fresh_rows_def nth_enumerate_eq)

lemma fresh_rows_map:
  assumes "\<And>i x. g (mk i x) = h x"
  shows "map g (fst (fresh_rows mk xs s)) = map h xs"
  by (rule nth_equalityI) (simp_all add: fresh_rows_nth assms)

lemma in_fresh_rows:
  assumes "r \<in> set (fst (fresh_rows mk xs s))"
  obtains i x where "r = mk i x" and "x \<in> set xs"
  using assms by (metis fresh_rows_nth in_set_conv_nth length_fresh_rows)

section \<open>The latest score\<close>

lemma map_of_latest_update:
  "map_of (latest_update r latest) k =
     (if k = so_domain r then
        (case map_of latest k of
           None \<Rightarrow> Some r
         | Some current \<Rightarrow> if utc_instant (so_calculated_at r) \<ge> utc_instant (so_calculated_at current)
                            then Some r else Some current)
      else map_of latest k)"
  by (auto simp: latest_update_def update_conv' split: option.splits)

lemma map_of_fold_latest:
  "map_of (fold latest_update xs latest) k = Some r \<Longrightarrow>
     map_of latest k = Some r \<or> r \<in> set xs \<and> so_domain r = k"
  by (induction xs arbitrary: latest)
     (fastforce simp: map_of_latest_update split: if_splits option.splits)+

lemma latest_in_scan:
  "map_of (latest_scores_by_domain scan_id ds d) k = Some r \<Longrightarrow>
     r \<in> set (scores_for_scan scan_id d) \<and> so_domain r = k"
  unfolding latest_scores_by_domain_def by (auto dest!: map_of_fold_latest)

lemma latest_scores_append:
  assumes "db_scores e = db_scores d @ [row]" and "so_scan_id row = scan_id"
  shows "latest_scores_by_domain scan_id None e = latest_update row (latest_scores_by_domain scan_id None d)"
  using assms by (simp add: latest_scores_by_domain_def scores_for_scan_def)

lemma override_score_cases:
  assumes "override_score dec s = (Inr (Some row), s')"
  obtains original ev where
    "get_row so_id (od_original_score_id dec) (db_scores (ss_work s)) = Some original"
    and "row = override_row dec original (now s) (pf_uuid s (pf_draws s))"
    and "strip (od_reviewed_by dec) \<noteq> []" and "strip (od_reason dec) \<noteq> []"
    and "ae_actor ev = od_reviewed_by dec"
    and "ss_work s' = (ss_work s)\<lparr>db_scores := db_scores (ss_work s) @ [row],
           db_audit_events := db_audit_events (ss_work s) @ [ev]\<rparr>"
    and "pf_store s' = ss_work s'"
proof -
  from assms obtain original where o: "validate_score_override dec = Inr dec"
    "get_row so_id (od_original_score_id dec) (db_scores (ss_work s)) = Some original"
    by (auto simp: override_score_def and_then_eq_Inr validate_score_override_Inr
        split: option.splits)
  let ?row = "override_row dec original (now s) (pf_uuid s (pf_draws s))"
  obtain ev where ev: "ae_actor ev = od_reviewed_by dec" and r: "override_score dec s =
      (Inr (Some ?row), commit (s\<lparr>pf_draws := pf_draws s + 2,
         ss_work := (ss_work s)\<lparr>db_scores := db_scores (ss_work s) @ [?row],
           db_audit_events := db_audit_events (ss_work s) @ [ev]\<rparr>\<rparr>))"
  proof (rule that)
    let ?ev = "audit_entry \<lparr>ai_event_type = AuditEventType_value AuditEventType.SCORE_OVERRIDDEN,
         ai_actor = od_reviewed_by dec,
         ai_summary = ''Score for domain '' @ [CHR 0x27] @ od_domain dec @ [CHR 0x27]
           @ '' overridden to '' @ DecisionCategory_value (od_new_decision_category dec),
         ai_scan_id = Some (od_scan_id dec),
         ai_payload = [(''original_score_id'', JStr (so_id original)),
           (''new_score_id'', JStr (so_id ?row)), (''domain'', JStr (od_domain dec)),
           (''reason'', JStr (od_reason dec))]\<rparr> (s\<lparr>pf_draws := Suc (pf_draws s)\<rparr>)"
    show "ae_actor ?ev = od_reviewed_by dec" by (simp add: audit_entry_def audit_row_def)
    show "override_score dec s = (Inr (Some ?row), commit (s\<lparr>pf_draws := pf_draws s + 2,
         ss_work := (ss_work s)\<lparr>db_scores := db_scores (ss_work s) @ [?row],
           db_audit_events := db_audit_events (ss_work s) @ [?ev]\<rparr>\<rparr>))"
      using o(1) [unfolded validate_score_override_Inr]
      by (simp add: override_score_def o record_event_eq new_uuid_def map_work_def now_def
        Let_def with_event_def commit_def audit_entry_def)
  qed
  from trans [OF assms [symmetric] r] have "row = ?row" and "s' = commit (s\<lparr>pf_draws := pf_draws s + 2,
         ss_work := (ss_work s)\<lparr>db_scores := db_scores (ss_work s) @ [?row],
           db_audit_events := db_audit_events (ss_work s) @ [ev]\<rparr>\<rparr>)"
    by (simp_all only: prod.inject sum.inject option.inject)
  with o ev show ?thesis
    by (intro that [of original ev]) (simp_all add: commit_def validate_score_override_Inr)
qed

text \<open>C14: an override takes effect and erases nothing. When it succeeds, the new row is the
  current score of its domain for every reader of the latest scores, the current scores of
  the other domains are what they were, every earlier score row is still there unchanged, the
  new row points at the one it replaces, and one audit event names the reviewer.\<close>

theorem override_takes_effect:
  assumes "override_score dec s = (Inr (Some row), s')"
    and "\<forall>r \<in> set (scores_for_scan (od_scan_id dec) (ss_work s)).
           utc_instant (so_calculated_at r) \<le> pf_clock s"
  shows "map_of (latest_scores_by_domain (od_scan_id dec) None (pf_store s')) (od_domain dec) = Some row
     \<and> (\<forall>k. k \<noteq> od_domain dec \<longrightarrow>
          map_of (latest_scores_by_domain (od_scan_id dec) None (pf_store s')) k
            = map_of (latest_scores_by_domain (od_scan_id dec) None (ss_work s)) k)
     \<and> db_scores (pf_store s') = db_scores (ss_work s) @ [row]
     \<and> so_override_of row = Some (od_original_score_id dec)
     \<and> so_decision_category row = DecisionCategory_value (od_new_decision_category dec)
     \<and> (\<exists>ev. db_audit_events (pf_store s') = db_audit_events (ss_work s) @ [ev]
          \<and> ae_actor ev = od_reviewed_by dec)"
proof -
  let ?old = "latest_scores_by_domain (od_scan_id dec) None (ss_work s)"
  from override_score_cases [OF assms(1)] obtain original ev where
    o: "get_row so_id (od_original_score_id dec) (db_scores (ss_work s)) = Some original"
    and row: "row = override_row dec original (now s) (pf_uuid s (pf_draws s))"
    and ev: "ae_actor ev = od_reviewed_by dec"
    and s': "ss_work s' = (ss_work s)\<lparr>db_scores := db_scores (ss_work s) @ [row],
           db_audit_events := db_audit_events (ss_work s) @ [ev]\<rparr>" "pf_store s' = ss_work s'"
    by metis
  have fields: "so_scan_id row = od_scan_id dec" "so_domain row = od_domain dec"
    "utc_instant (so_calculated_at row) = pf_clock s" "so_override_of row = Some (so_id original)"
    "so_decision_category row = DecisionCategory_value (od_new_decision_category dec)"
    by (simp_all add: row override_row_def now_def)
  have latest: "latest_scores_by_domain (od_scan_id dec) None (pf_store s') = latest_update row ?old"
    using s' fields(1) by (intro latest_scores_append) simp_all
  have "utc_instant (so_calculated_at current) \<le> pf_clock s"
    if "map_of ?old (od_domain dec) = Some current" for current
    using latest_in_scan [OF that] assms(2) by blast
  then have "map_of (latest_update row ?old) (od_domain dec) = Some row"
    using fields by (auto simp: map_of_latest_update split: option.splits)
  moreover have "so_id original = od_original_score_id dec" using get_row_Some [OF o] by simp
  ultimately show ?thesis
    using latest s' fields ev by (auto simp: map_of_latest_update)
qed

end
