(* ===== verification/AssessmentFacts.thy ===== *)
theory AssessmentFacts
  imports RepositoryFacts
begin

text \<open>
  The assessment pipeline cannot fail on what a scan produces, and stores exactly one score
  per domain and one evidence item and one recommendation per finding, with one audit event
  per stage; and storing the control catalog again changes nothing.
\<close>

section \<open>Scoring a stored scan\<close>

lemma upsert_control_frame:
  "\<exists>cs n. snd (upsert_control c s) = s\<lparr>pf_draws := n, ss_work := (ss_work s)\<lparr>db_controls := cs\<rparr>\<rparr>"
  by (auto simp: upsert_control_def new_uuid_def map_work_def Let_def split: option.splits)
     (metis platform.surjective platform.update_convs(5))

lemma upsert_controls_frame:
  "\<exists>rows n. snd (upsert_controls cs s) = s\<lparr>pf_draws := n, ss_work := (ss_work s)\<lparr>db_controls := rows\<rparr>\<rparr>"
proof (induction cs arbitrary: s)
  case Nil
  have "snd (upsert_controls [] s) = s\<lparr>pf_draws := pf_draws s, ss_work := (ss_work s)\<lparr>db_controls := db_controls (ss_work s)\<rparr>\<rparr>"
    by simp
  then show ?case by blast
next
  case (Cons c cs)
  obtain rows n where 1: "snd (upsert_control c s) = s\<lparr>pf_draws := n, ss_work := (ss_work s)\<lparr>db_controls := rows\<rparr>\<rparr>"
    using upsert_control_frame by blast
  obtain rows' n' where 2: "snd (upsert_controls cs (snd (upsert_control c s))) =
      (snd (upsert_control c s))\<lparr>pf_draws := n', ss_work := (ss_work (snd (upsert_control c s)))\<lparr>db_controls := rows'\<rparr>\<rparr>"
    using Cons by blast
  have "snd (upsert_controls (c # cs) s) = s\<lparr>pf_draws := n', ss_work := (ss_work s)\<lparr>db_controls := rows'\<rparr>\<rparr>"
    using 2 by (simp add: split_beta Let_def 1)
  then show ?case by blast
qed

lemma upsert_catalog_frame:
  obtains rows n where "snd (upsert_catalog s) = s\<lparr>pf_draws := n, ss_work := (ss_work s)\<lparr>db_controls := rows\<rparr>\<rparr>"
  using upsert_controls_frame [of CONTROL_CATALOG s] unfolding upsert_catalog_def by blast

definition stored_enums_ok :: "Finding \<Rightarrow> bool" where
  "stored_enums_ok f = (fd_severity f \<in> range Severity_value \<and> fd_confidence f \<in> range ConfidenceLevel_value)"

lemma finding_for_scoring_ok: "stored_enums_ok f \<Longrightarrow> \<exists>x. finding_for_scoring f = Inr x"
  by (auto simp: stored_enums_ok_def finding_for_scoring_def)

lemma recommendation_input_ok:
  "stored_enums_ok f \<Longrightarrow> \<exists>x. recommendation_input ids f = Inr x"
  by (auto simp: stored_enums_ok_def recommendation_input_def)

lemma recommendation_input_finding:
  "recommendation_input ids f = Inr x \<Longrightarrow> fm_finding_id x = fd_id f"
  by (auto simp: recommendation_input_def rbind_Inr_iff)

text \<open>The scores of a scan whose findings are readable.\<close>

definition score_rows_ok :: "string \<Rightarrow> string set \<Rightarrow> Score list \<Rightarrow> bool" where
  "score_rows_ok scan_id evaluated rows =
     (map so_domain rows = map BankingDomain_value BankingDomain_members
      \<and> list_all (\<lambda>r. so_scan_id r = scan_id \<and> so_override_of r = None
          \<and> (so_decision_category r = DecisionCategory_value DecisionCategory.INSUFFICIENT_EVIDENCE
                \<longleftrightarrow> so_domain r \<notin> evaluated)) rows)"

lemma score_all_domains_evaluated:
  "r \<in> set (score_all_domains fs ev n) \<Longrightarrow>
     sr_decision_category r = DecisionCategory.INSUFFICIENT_EVIDENCE
       \<longleftrightarrow> BankingDomain_value (sr_domain r) \<notin> ev"
  by (auto simp: score_all_domains_def score_domain_insufficient_iff)

lemma score_scan_ok:
  assumes "\<forall>f \<in> set (findings_for_scan scan_id (ss_work s)). stored_enums_ok f"
  obtains rows n where "score_scan scan_id s =
      (Inr rows, s\<lparr>pf_draws := n, ss_work := (ss_work s)\<lparr>db_scores := db_scores (ss_work s) @ rows\<rparr>\<rparr>)"
    and "score_rows_ok scan_id (fst (domain_coverage scan_id (ss_work s))) rows"
proof -
  let ?cov = "domain_coverage scan_id (ss_work s)"
  obtain inputs where inputs: "map_result finding_for_scoring (findings_for_scan scan_id (ss_work s)) = Inr inputs"
    using map_result_ok [of "findings_for_scan scan_id (ss_work s)" finding_for_scoring] assms
      finding_for_scoring_ok by blast
  let ?results = "score_all_domains inputs (fst ?cov) (snd ?cov)"
  let ?rows = "fst (fresh_rows (score_row scan_id (now s)) ?results s)"
  have dom: "map so_domain ?rows = map BankingDomain_value BankingDomain_members"
  proof -
    have "map so_domain ?rows = map (\<lambda>r. BankingDomain_value (sr_domain r)) ?results"
      by (rule fresh_rows_map) (simp add: score_row_def)
    then show ?thesis by (simp add: score_all_domains_def comp_def)
  qed
  have "so_scan_id r = scan_id \<and> so_override_of r = None
          \<and> (so_decision_category r = DecisionCategory_value DecisionCategory.INSUFFICIENT_EVIDENCE
                \<longleftrightarrow> so_domain r \<notin> fst ?cov)" if "r \<in> set ?rows" for r
  proof -
    from that obtain i x where r: "r = score_row scan_id (now s) i x" and x: "x \<in> set ?results"
      by (rule in_fresh_rows)
    show ?thesis
      using score_all_domains_evaluated [OF x]
      by (simp only: r score_row_def Score.select_convs decision_category.val_inject simp_thms)
  qed
  with dom have "score_rows_ok scan_id (fst ?cov) ?rows"
    by (simp add: score_rows_ok_def list_all_iff)
  moreover have "score_scan scan_id s = (Inr ?rows, s\<lparr>pf_draws := pf_draws s + length ?results,
      ss_work := (ss_work s)\<lparr>db_scores := db_scores (ss_work s) @ ?rows\<rparr>\<rparr>)"
    by (simp add: score_scan_def inputs map_work_def split_beta Let_def)
  ultimately show ?thesis using that by blast
qed

text \<open>What scoring and its post-processing add to a database.\<close>

definition scoring_added :: "string \<Rightarrow> database \<Rightarrow> ScoringOutput \<Rightarrow> database \<Rightarrow> bool" where
  "scoring_added scan_id d out e =
     (\<exists>controls. e = d\<lparr>db_controls := controls, db_scores := db_scores d @ sg_scores out,
        db_evidence := db_evidence d @ sg_evidence out,
        db_recommendations := db_recommendations d @ sg_recommendations out\<rparr>)"

definition scoring_output_ok :: "string \<Rightarrow> string set \<Rightarrow> Finding list \<Rightarrow> ScoringOutput \<Rightarrow> bool" where
  "scoring_output_ok scan_id evaluated findings out =
     (score_rows_ok scan_id evaluated (sg_scores out)
      \<and> map (\<lambda>e. (ev_finding_id e, ev_content e)) (sg_evidence out)
          = map (\<lambda>f. (fd_id f, fd_masked_evidence f)) findings
      \<and> map rc_finding_id (sg_recommendations out) = map fd_id findings
      \<and> list_all (\<lambda>r. rc_scan_id r = scan_id
          \<and> rc_status r = RecommendationStatus_value RecommendationStatus.OPEN) (sg_recommendations out))"

lemma score_and_generate_ok:
  assumes "\<forall>f \<in> set (findings_for_scan scan_id (ss_work s)). stored_enums_ok f"
  obtains out s' where "score_and_generate scan_id s = (Inr out, s')"
    and "scoring_added scan_id (ss_work s) out (ss_work s')" and "pf_store s' = ss_work s'"
    and "pf_clock s' = pf_clock s"
    and "scoring_output_ok scan_id (fst (domain_coverage scan_id (ss_work s)))
           (findings_for_scan scan_id (ss_work s)) out"
proof -
  let ?F = "findings_for_scan scan_id (ss_work s)"
  obtain controls n where up: "snd (upsert_catalog s) =
      s\<lparr>pf_draws := n, ss_work := (ss_work s)\<lparr>db_controls := controls\<rparr>\<rparr>"
    by (rule upsert_catalog_frame)
  define s1 where "s1 = snd (upsert_catalog s)"
  define ids where "ids = control_ids_of (fst (upsert_catalog s))"
  have same: "findings_for_scan scan_id (ss_work s1) = ?F"
    "domain_coverage scan_id (ss_work s1) = domain_coverage scan_id (ss_work s)"
    by (simp_all add: s1_def up findings_for_scan_def domain_coverage_def)
  obtain rows m where sc: "score_scan scan_id s1 = (Inr rows, s1\<lparr>pf_draws := m,
      ss_work := (ss_work s1)\<lparr>db_scores := db_scores (ss_work s1) @ rows\<rparr>\<rparr>)"
    and ok: "score_rows_ok scan_id (fst (domain_coverage scan_id (ss_work s))) rows"
    using score_scan_ok [of scan_id s1] assms by (metis same)
  define s2 where "s2 = s1\<lparr>pf_draws := m, ss_work := (ss_work s1)\<lparr>db_scores := db_scores (ss_work s1) @ rows\<rparr>\<rparr>"
  define es where "es = fst (fresh_rows (evidence_row (now s2)) (build_evidence (map (evidence_input ids) ?F)) s2)"
  obtain inputs where inputs: "map_result (recommendation_input ids) ?F = Inr inputs"
    "list_all2 (\<lambda>f x. recommendation_input ids f = Inr x) ?F inputs"
    using map_result_ok [of ?F "recommendation_input ids"] assms recommendation_input_ok by blast
  define s3 where "s3 = s2\<lparr>pf_draws := m + length ?F,
      ss_work := (ss_work s2)\<lparr>db_evidence := db_evidence (ss_work s2) @ es\<rparr>\<rparr>"
  define rs where "rs = fst (fresh_rows (recommendation_row scan_id (now s3)) (generate_recommendations inputs) s3)"
  define s' where "s' = commit (s3\<lparr>pf_draws := pf_draws s3 + length (generate_recommendations inputs),
      ss_work := (ss_work s3)\<lparr>db_recommendations := db_recommendations (ss_work s3) @ rs\<rparr>\<rparr>)"
  let ?out = "\<lparr>sg_controls = fst (upsert_catalog s), sg_scores = rows, sg_evidence = es, sg_recommendations = rs\<rparr>"
  have run: "score_and_generate scan_id s = (Inr ?out, s')"
    using sc inputs(1)
    by (simp add: score_and_generate_def split_beta Let_def same ids_def [symmetric] s1_def [symmetric]
        map_work_def s2_def s3_def es_def rs_def s'_def build_evidence_def)
  have "map (\<lambda>e. (ev_finding_id e, ev_content e)) es = map (\<lambda>f. (fd_id f, fd_masked_evidence f)) ?F"
  proof -
    have "map (\<lambda>e. (ev_finding_id e, ev_content e)) es
        = map (\<lambda>e. (er_finding_id e, er_content e)) (build_evidence (map (evidence_input ids) ?F))"
      unfolding es_def by (rule fresh_rows_map) (simp add: evidence_row_def)
    then show ?thesis
      by (simp add: build_evidence_def comp_def evidence_for_def evidence_input_def Let_def)
  qed
  moreover have "map rc_finding_id rs = map fd_id ?F"
  proof -
    have "map rc_finding_id rs = map rr_finding_id (generate_recommendations inputs)"
      unfolding rs_def by (rule fresh_rows_map) (simp add: recommendation_row_def)
    moreover have "map fm_finding_id inputs = map fd_id ?F"
      using inputs(2) by (induction rule: list_all2_induct) (simp_all add: recommendation_input_finding)
    ultimately show ?thesis
      by (simp add: generate_recommendations_def comp_def recommendation_for_def Let_def)
  qed
  moreover have "list_all (\<lambda>r. rc_scan_id r = scan_id
          \<and> rc_status r = RecommendationStatus_value RecommendationStatus.OPEN) rs"
    by (auto simp: rs_def list_all_length fresh_rows_nth recommendation_row_def
        generate_recommendations_def recommendation_for_def Let_def)
  ultimately have "scoring_output_ok scan_id (fst (domain_coverage scan_id (ss_work s))) ?F ?out"
    using ok by (simp add: scoring_output_ok_def)
  moreover have "scoring_added scan_id (ss_work s) ?out (ss_work s')"
    by (simp add: scoring_added_def s'_def s3_def s2_def s1_def up commit_def exI [of _ controls])
  moreover have "pf_store s' = ss_work s'" "pf_clock s' = pf_clock s"
    by (simp_all add: s'_def commit_def s3_def s2_def s1_def up)
  ultimately show ?thesis using run that by blast
qed

section \<open>Storing a scan\<close>

text \<open>The scan is new to the database and its findings are its own.\<close>

definition new_scan :: "ScanResult \<Rightarrow> database \<Rightarrow> bool" where
  "new_scan r d =
     ((\<forall>f \<in> set (db_findings d). fd_scan_id f \<noteq> sm_scan_id (rs_summary r))
      \<and> (\<forall>m \<in> set (db_domain_mappings d). dm_scan_id m \<noteq> sm_scan_id (rs_summary r))
      \<and> (\<forall>nf \<in> set (rs_findings r). nf_scan_id nf = sm_scan_id (rs_summary r)))"

definition mapped_domains :: "ScanResult \<Rightarrow> string set" where
  "mapped_domains r = BankingDomain_value ` mp_domain ` set (concat (map snd (rs_domain_mappings r)))"

lemma save_scan_frame:
  "pf_store (snd (save_scan r s)) = ss_work (snd (save_scan r s))"
  "pf_clock (snd (save_scan r s)) = pf_clock s"
  "db_audit_events (ss_work (snd (save_scan r s))) = db_audit_events (ss_work s)"
  "db_scores (ss_work (snd (save_scan r s))) = db_scores (ss_work s)"
  "sc_id (fst (save_scan r s)) = sm_scan_id (rs_summary r)"
  by (simp_all add: save_scan_def commit_def map_work_def scan_row_of_def split_beta Let_def)

lemma save_scan_findings:
  assumes "new_scan r (ss_work s)"
  shows "list_all stored_enums_ok (findings_for_scan (sm_scan_id (rs_summary r)) (ss_work (snd (save_scan r s))))"
    and "length (findings_for_scan (sm_scan_id (rs_summary r)) (ss_work (snd (save_scan r s))))
           = length (rs_findings r)"
proof -
  obtain s6 where rows: "db_findings (ss_work (snd (save_scan r s))) =
      db_findings (ss_work s) @ fst (fresh_rows (finding_row (now s)) (rs_findings r) s6)"
    by (simp add: save_scan_def commit_def map_work_def split_beta Let_def)
  let ?F = "fst (fresh_rows (finding_row (now s)) (rs_findings r) s6)"
  have F: "\<exists>i nf. f = finding_row (now s) i nf \<and> nf \<in> set (rs_findings r)" if "f \<in> set ?F" for f
    using that by (metis in_fresh_rows)
  then have "\<forall>f \<in> set ?F. fd_scan_id f = sm_scan_id (rs_summary r)"
    using assms by (fastforce simp: new_scan_def finding_row_def Let_def)
  then have eq: "findings_for_scan (sm_scan_id (rs_summary r)) (ss_work (snd (save_scan r s))) = ?F"
    using assms by (simp add: findings_for_scan_def rows new_scan_def)
  show "list_all stored_enums_ok (findings_for_scan (sm_scan_id (rs_summary r)) (ss_work (snd (save_scan r s))))"
    unfolding eq list_all_iff using F by (fastforce simp: stored_enums_ok_def finding_row_def Let_def)
  show "length (findings_for_scan (sm_scan_id (rs_summary r)) (ss_work (snd (save_scan r s))))
           = length (rs_findings r)"
    by (simp add: eq)
qed

lemma save_scan_coverage:
  assumes "new_scan r (ss_work s)"
  shows "fst (domain_coverage (sm_scan_id (rs_summary r)) (ss_work (snd (save_scan r s)))) = mapped_domains r"
proof -
  let ?pairs = "concat (map (\<lambda>(path, ms). map (Pair path) ms) (rs_domain_mappings r))"
  obtain ids s5 where rows: "db_domain_mappings (ss_work (snd (save_scan r s))) =
      db_domain_mappings (ss_work s) @
        fst (fresh_rows (mapping_row (sm_scan_id (rs_summary r)) ids (now s)) ?pairs s5)"
    by (simp add: save_scan_def commit_def map_work_def split_beta Let_def)
  let ?M = "fst (fresh_rows (mapping_row (sm_scan_id (rs_summary r)) ids (now s)) ?pairs s5)"
  have "\<forall>m \<in> set ?M. dm_scan_id m = sm_scan_id (rs_summary r)"
    by (metis (no_types, lifting) DomainMappingRecord.select_convs(2) in_fresh_rows mapping_row_def
        case_prod_conv surj_pair)
  then have "filter (\<lambda>m. dm_scan_id m = sm_scan_id (rs_summary r))
      (db_domain_mappings (ss_work (snd (save_scan r s)))) = ?M"
    using assms by (simp add: rows new_scan_def)
  moreover have "map dm_domain ?M = map (\<lambda>pm. BankingDomain_value (mp_domain (snd pm))) ?pairs"
    by (rule fresh_rows_map) (simp add: mapping_row_def split_beta)
  moreover have "set (map (\<lambda>pm. BankingDomain_value (mp_domain (snd pm))) ?pairs) = mapped_domains r"
    by (force simp: mapped_domains_def)
  ultimately show ?thesis by (simp only: domain_coverage_def Let_def fst_conv)
qed

lemma evaluate_and_persist_frame:
  "pf_store (snd (evaluate_and_persist i s)) = ss_work (snd (evaluate_and_persist i s))"
  "pf_clock (snd (evaluate_and_persist i s)) = pf_clock s"
  "db_audit_events (ss_work (snd (evaluate_and_persist i s))) = db_audit_events (ss_work s)"
  "db_findings (ss_work (snd (evaluate_and_persist i s))) = db_findings (ss_work s)"
  "db_scores (ss_work (snd (evaluate_and_persist i s))) = db_scores (ss_work s)"
  by (rule upsert_catalog_frame [of s];
      simp add: evaluate_and_persist_def commit_def map_work_def split_beta Let_def)+

lemma record_system_event:
  "record_event (system_event t i sm p) s =
     (Inr (audit_entry (system_event t i sm p) s), with_event (system_event t i sm p) s)"
  by (simp add: record_event_eq system_event_def strip_eq_Nil is_space_def code_def)

lemmas stage_event_defs = scan_persisted_event_def scoring_completed_event_def
  evaluation_completed_event_def assessment_completed_event_def

lemma record_stage_event:
  "record_event (scan_persisted_event i sm) s =
     (Inr (audit_entry (scan_persisted_event i sm) s), with_event (scan_persisted_event i sm) s)"
  "record_event (scoring_completed_event i out) s =
     (Inr (audit_entry (scoring_completed_event i out) s), with_event (scoring_completed_event i out) s)"
  "record_event (evaluation_completed_event i evals) s =
     (Inr (audit_entry (evaluation_completed_event i evals) s),
      with_event (evaluation_completed_event i evals) s)"
  "record_event (assessment_completed_event i fs out evals) s =
     (Inr (audit_entry (assessment_completed_event i fs out evals) s),
      with_event (assessment_completed_event i fs out evals) s)"
  unfolding stage_event_defs by (rule record_system_event)+

definition stage_event :: "string \<Rightarrow> AuditEventType \<Rightarrow> AuditEvent \<Rightarrow> bool" where
  "stage_event scan_id t e = (ae_event_type e = AuditEventType_value t \<and> ae_actor e = ''system''
     \<and> ae_scan_id e = Some scan_id)"

lemma stage_event_entry: "stage_event i t (audit_entry (system_event t i sm p) s)"
  by (simp add: stage_event_def audit_entry_def audit_row_def system_event_def)

lemma stage_events [simp]:
  "stage_event i AuditEventType.SCAN_PERSISTED (audit_entry (scan_persisted_event i sm) s)"
  "stage_event i AuditEventType.SCORING_COMPLETED (audit_entry (scoring_completed_event i out) s)"
  "stage_event i AuditEventType.CONTROL_EVALUATION_COMPLETED (audit_entry (evaluation_completed_event i evals) s)"
  "stage_event i AuditEventType.ASSESSMENT_COMPLETED (audit_entry (assessment_completed_event i fs out evals) s)"
  unfolding stage_event_defs by (rule stage_event_entry)+

lemma map_fst_pairs:
  assumes "map (\<lambda>e. (a e, b e)) xs = map (\<lambda>f. (c f, d f)) ys"
  shows "map a xs = map c ys"
  using arg_cong [OF assms, of "map fst"] by (simp add: comp_def)

lemma persist_completes:
  assumes "new_scan r (ss_work s)"
  shows "\<exists>res s'. persist_assessment r s = (Inr res, s') \<and> pf_store s' = ss_work s'
     \<and> score_rows_ok (sm_scan_id (rs_summary r)) (mapped_domains r) (am_scores res)
     \<and> length (am_findings res) = length (rs_findings r)
     \<and> map ev_finding_id (am_evidence res) = map fd_id (am_findings res)
     \<and> map rc_finding_id (am_recommendations res) = map fd_id (am_findings res)
     \<and> db_scores (pf_store s') = db_scores (ss_work s) @ am_scores res
     \<and> db_audit_events (pf_store s') = db_audit_events (ss_work s) @ am_audit_events res
     \<and> list_all2 (stage_event (sm_scan_id (rs_summary r)))
          [AuditEventType.SCAN_PERSISTED, AuditEventType.SCORING_COMPLETED,
           AuditEventType.CONTROL_EVALUATION_COMPLETED, AuditEventType.ASSESSMENT_COMPLETED]
          (am_audit_events res)"
proof -
  let ?i = "sm_scan_id (rs_summary r)"
  obtain row s1 where save: "save_scan r s = (row, s1)" by (cases "save_scan r s")
  have row: "sc_id row = ?i" using save_scan_frame(5) [of r s] by (simp add: save)
  define F where "F = findings_for_scan ?i (ss_work s1)"
  have s1: "pf_store s1 = ss_work s1" "db_audit_events (ss_work s1) = db_audit_events (ss_work s)"
    "db_scores (ss_work s1) = db_scores (ss_work s)"
    using save_scan_frame [of r s] by (simp_all add: save)
  have F: "list_all stored_enums_ok F" "length F = length (rs_findings r)"
    using save_scan_findings [OF assms] by (simp_all add: save F_def)
  have cov: "fst (domain_coverage ?i (ss_work s1)) = mapped_domains r"
    using save_scan_coverage [OF assms] by (simp add: save)
  define ev1 where "ev1 = scan_persisted_event ?i (rs_summary r)"
  define s2 where "s2 = with_event ev1 s1"
  have same: "findings_for_scan ?i (ss_work s2) = F"
    "domain_coverage ?i (ss_work s2) = domain_coverage ?i (ss_work s1)"
    by (simp_all add: s2_def F_def findings_for_scan_def domain_coverage_def)
  obtain out s3 where sg: "score_and_generate ?i s2 = (Inr out, s3)"
    and added: "scoring_added ?i (ss_work s2) out (ss_work s3)" and s3: "pf_store s3 = ss_work s3"
    and out: "scoring_output_ok ?i (mapped_domains r) F out"
    using score_and_generate_ok [of ?i s2] F(1) unfolding same cov list_all_iff by metis
  define ev2 where "ev2 = scoring_completed_event ?i out"
  define s4 where "s4 = with_event ev2 s3"
  obtain evals s5 where ep: "evaluate_and_persist ?i s4 = (evals, s5)" by (cases "evaluate_and_persist ?i s4")
  have s5: "db_audit_events (ss_work s5) = db_audit_events (ss_work s4)"
    "db_findings (ss_work s5) = db_findings (ss_work s4)" "db_scores (ss_work s5) = db_scores (ss_work s4)"
    using evaluate_and_persist_frame [of ?i s4] by (simp_all add: ep)
  define ev3 where "ev3 = evaluation_completed_event ?i evals"
  define s6 where "s6 = with_event ev3 s5"
  have F6: "findings_for_scan ?i (ss_work s6) = F"
    using added s5 same(1) by (auto simp: s6_def s4_def findings_for_scan_def scoring_added_def)
  then have F6': "get_findings ?i s6 = (F, s6)" by (simp add: get_findings_def)
  define ev4 where "ev4 = assessment_completed_event ?i F out evals"
  define s7 where "s7 = with_event ev4 s6"
  let ?es = "[audit_entry ev1 s1, audit_entry ev2 s3, audit_entry ev3 s5, audit_entry ev4 s6]"
  let ?res = "\<lparr>am_scan_id = ?i, am_scan_row = row, am_scores = sg_scores out,
                am_control_evaluations = evals, am_evidence = sg_evidence out,
                am_recommendations = sg_recommendations out, am_findings = F,
                am_audit_events = ?es, am_scan_result = Some r\<rparr>"
  have run: "persist_assessment r s = (Inr ?res, s7)"
    by (simp add: persist_assessment_def save row record_stage_event Let_def sg ep F6'
        ev1_def [symmetric] s2_def [symmetric] ev2_def [symmetric] s4_def [symmetric]
        ev3_def [symmetric] s6_def [symmetric] ev4_def [symmetric] s7_def [symmetric])
  have "map ev_finding_id (sg_evidence out) = map fd_id F"
    by (rule map_fst_pairs [where b = ev_content and d = fd_masked_evidence])
       (use out in \<open>simp only: scoring_output_ok_def\<close>)
  moreover have "db_scores (pf_store s7) = db_scores (ss_work s) @ sg_scores out"
    "db_audit_events (pf_store s7) = db_audit_events (ss_work s) @ ?es"
    using added s1 s5 by (auto simp: s7_def s6_def s4_def s2_def scoring_added_def)
  moreover have "pf_store s7 = ss_work s7" by (simp add: s7_def)
  ultimately show ?thesis
    using run out F(2) by (auto simp: scoring_output_ok_def ev1_def ev2_def ev3_def ev4_def)
qed


end
