(* ===== verification/CatalogFacts.thy ===== *)
theory CatalogFacts
  imports RepositoryFacts
begin

text \<open>
  The stored control catalog: whatever the controls table holds, storing the catalog leaves
  exactly one row per control of it, and storing it again changes nothing.
\<close>

section \<open>The controls table\<close>

definition wf_controls :: "session \<Rightarrow> bool" where
  "wf_controls s =
     (distinct (map co_id (db_controls (ss_work s)))
      \<and> distinct (map co_control_id (db_controls (ss_work s)))
      \<and> inj (pf_uuid s)
      \<and> (\<forall>n \<ge> pf_draws s. pf_uuid s n \<notin> co_id ` set (db_controls (ss_work s))))"

text \<open>The row of a control is up to date with the catalog.\<close>

definition stored_as :: "ControlDefinition \<Rightarrow> Control \<Rightarrow> session \<Rightarrow> bool" where
  "stored_as c row s =
     (get_row co_control_id (cd_control_id c) (db_controls (ss_work s)) = Some row
      \<and> updated_control c row = row)"

lemma updated_control_simps [simp]:
  "co_id (updated_control c r) = co_id r" "co_control_id (updated_control c r) = co_control_id r"
  "updated_control c (updated_control c r) = updated_control c r"
  "updated_control c (new_control c t i) = new_control c t i"
  "co_id (new_control c t i) = i" "co_control_id (new_control c t i) = cd_control_id c"
  by (simp_all add: updated_control_def new_control_def)

lemma stored_as_row:
  assumes "stored_as c row s"
  shows "row \<in> set (db_controls (ss_work s))" and "co_control_id row = cd_control_id c"
  using assms get_row_Some [of co_control_id "cd_control_id c" "db_controls (ss_work s)" row]
  by (simp_all add: stored_as_def)

lemma update_row_id:
  assumes "distinct (map key rows)" and "r \<in> set rows" and "f r = r"
  shows "update_row key (key r) f rows = rows"
proof -
  have "f x = x" if "x \<in> set rows" "key x = key r" for x
    using distinct_key_inject [of key rows x r] assms that by metis
  then show ?thesis by (auto simp: update_row_def update_where_def intro!: map_idI)
qed

lemma upsert_stored:
  assumes "stored_as c row s" and "wf_controls s"
  shows "upsert_control c s = (row, s)"
proof -
  have "update_row co_id (co_id row) (updated_control c) (db_controls (ss_work s)) = db_controls (ss_work s)"
    using assms stored_as_row(1) [OF assms(1)]
    by (intro update_row_id) (simp_all add: stored_as_def wf_controls_def)
  with assms(1) show ?thesis by (simp add: upsert_control_def stored_as_def map_work_def)
qed

lemma upsert_control_cases:
  obtains row where
    "get_row co_control_id (cd_control_id c) (db_controls (ss_work s)) = Some row"
    "upsert_control c s = (updated_control c row, map_work (\<lambda>d. d\<lparr>db_controls :=
        update_row co_id (co_id row) (updated_control c) (db_controls d)\<rparr>) s)"
  | "get_row co_control_id (cd_control_id c) (db_controls (ss_work s)) = None"
    "upsert_control c s = (new_control c (now s) (pf_uuid s (pf_draws s)),
       s\<lparr>pf_draws := Suc (pf_draws s), ss_work := (ss_work s)\<lparr>db_controls := db_controls (ss_work s)
          @ [new_control c (now s) (pf_uuid s (pf_draws s))]\<rparr>\<rparr>)"
  by (cases "get_row co_control_id (cd_control_id c) (db_controls (ss_work s))")
     (auto simp: upsert_control_def new_uuid_def map_work_def now_def Let_def)

lemma upsert_control_wf:
  assumes "wf_controls s"
  shows "wf_controls (snd (upsert_control c s))"
proof (cases rule: upsert_control_cases [of c s])
  case (1 row)
  have "map co_id (update_row co_id i (updated_control c) xs) = map co_id xs" for i xs
    by (simp add: map_update_row)
  then have "co_id ` set (update_row co_id i (updated_control c) xs) = co_id ` set xs" for i xs
    by (metis list.set_map)
  with 1 assms show ?thesis by (simp add: wf_controls_def map_work_def map_update_row)
next
  case 2
  with assms show ?thesis
    by (auto simp: wf_controls_def get_row_None dest: injD)
qed

lemma upsert_control_stores:
  assumes "wf_controls s"
  shows "stored_as c (fst (upsert_control c s)) (snd (upsert_control c s))"
proof (cases rule: upsert_control_cases [of c s])
  case (1 row)
  then show ?thesis
    by (simp add: stored_as_def map_work_def update_row_def get_row_update_where)
next
  case 2
  then show ?thesis by (simp add: stored_as_def get_row_append) (simp add: get_row_def)
qed

lemma upsert_control_keeps_other:
  assumes "wf_controls s" and "stored_as c row s" and "cd_control_id c \<noteq> cd_control_id c'"
  shows "stored_as c row (snd (upsert_control c' s))"
proof (cases rule: upsert_control_cases [of c' s])
  case (1 other)
  then have "other \<in> set (db_controls (ss_work s))" "co_control_id other = cd_control_id c'"
    by (simp_all add: get_row_Some)
  moreover have "row \<in> set (db_controls (ss_work s))" "co_control_id row = cd_control_id c"
    using assms(2) by (simp_all add: stored_as_row)
  ultimately have "co_id row \<noteq> co_id other"
    using assms(1,3) distinct_key_inject [of co_id "db_controls (ss_work s)" row other]
    by (auto simp: wf_controls_def)
  with 1 assms(2) show ?thesis
    by (simp add: stored_as_def map_work_def update_row_def get_row_update_where)
next
  case 2
  with assms(2) show ?thesis by (simp add: stored_as_def get_row_append)
qed

section \<open>Storing a list of controls\<close>

lemma upsert_controls_keeps_other:
  assumes "wf_controls s" and "stored_as c row s" and "cd_control_id c \<notin> cd_control_id ` set cs"
  shows "stored_as c row (snd (upsert_controls cs s))"
  using assms
proof (induction cs arbitrary: s)
  case (Cons c' cs)
  then show ?case
    by (auto simp: split_beta Let_def intro!: Cons.IH upsert_control_wf upsert_control_keeps_other)
qed simp

lemma upsert_controls_stores:
  assumes "wf_controls s" and "distinct (map cd_control_id cs)"
  shows "wf_controls (snd (upsert_controls cs s))
    \<and> list_all2 (\<lambda>c row. stored_as c row (snd (upsert_controls cs s))) cs (fst (upsert_controls cs s))"
  using assms
proof (induction cs arbitrary: s)
  case (Cons c cs)
  let ?s1 = "snd (upsert_control c s)"
  have wf: "wf_controls ?s1" using Cons.prems by (simp add: upsert_control_wf)
  have "stored_as c (fst (upsert_control c s)) (snd (upsert_controls cs ?s1))"
    using Cons.prems by (intro upsert_controls_keeps_other wf upsert_control_stores) auto
  with Cons.IH [OF wf] Cons.prems(2) show ?case by (simp add: split_beta Let_def)
qed simp

lemma upsert_controls_again:
  assumes "list_all2 (\<lambda>c row. stored_as c row s) cs rows" and "wf_controls s"
  shows "upsert_controls cs s = (rows, s)"
  using assms(1) by (induction rule: list_all2_induct) (simp_all add: upsert_stored assms(2))

text \<open>C17: storing the control catalog is idempotent. However often an assessment stores it, the
  table keeps one row per control: the first time, every control of the catalog gets exactly
  one row, with the catalog's current text; storing it again returns the same rows and
  changes neither the database nor the ids still to be drawn.\<close>

theorem catalog_stored_once:
  assumes "wf_controls s"
  shows "upsert_catalog (snd (upsert_catalog s)) = upsert_catalog s
     \<and> map co_control_id (fst (upsert_catalog s)) = map cd_control_id CONTROL_CATALOG
     \<and> set (fst (upsert_catalog s)) \<subseteq> set (db_controls (ss_work (snd (upsert_catalog s))))
     \<and> wf_controls (snd (upsert_catalog s))"
proof -
  let ?s = "snd (upsert_catalog s)" and ?rows = "fst (upsert_catalog s)"
  have wf: "wf_controls ?s" and stored: "list_all2 (\<lambda>c row. stored_as c row ?s) CONTROL_CATALOG ?rows"
    using upsert_controls_stores [OF assms catalog_ids_distinct] by (simp_all add: upsert_catalog_def)
  have "upsert_catalog ?s = (?rows, ?s)"
    using upsert_controls_again [OF stored wf] by (simp add: upsert_catalog_def)
  moreover have "map co_control_id ?rows = map cd_control_id CONTROL_CATALOG"
    using stored by (induction rule: list_all2_induct) (simp_all add: stored_as_row)
  moreover have "set ?rows \<subseteq> set (db_controls (ss_work ?s))"
    using stored by (induction rule: list_all2_induct) (auto simp: stored_as_row)
  ultimately show ?thesis using wf by simp
qed

end
