(* ===== verification/Comparison.thy ===== *)
theory Comparison
  imports RepositoryFacts Authorization "HOL-Library.Product_Lexorder"
begin

text \<open>
  \<^verbatim>\<open>ui/services/comparison_service.py\<close>: what changed between two stored assessments of
  the same source. Findings are matched by a key, with multiplicity and in line order; the
  dicts of lists that the code builds are here the sublists with a given key. The score of a
  domain is its latest row that no override replaces.
\<close>

section \<open>References and results\<close>

definition COMPLETED_STATUSES :: "string list" where
  "COMPLETED_STATUSES = [ScanStatus_value ScanStatus.COMPLETED,
     ScanStatus_value ScanStatus.COMPLETED_WITH_WARNINGS]"

type_synonym finding_key_t = "string \<times> string \<times> string"

record FindingRef =
  fr_finding_id :: string
  fr_rule_id :: string
  fr_severity :: string
  fr_title :: string
  fr_source_relative_path :: string
  fr_line_start :: int
  fr_human_review_status :: string

record DomainScoreChange =
  dc_domain :: string
  dc_baseline_category :: "string option"
  dc_current_category :: "string option"
  dc_baseline_weighted :: "rat option"
  dc_current_weighted :: "rat option"

text \<open>\<open>round(x, 2)\<close>: the nearest multiple of a hundredth, as a float.\<close>

definition round2 :: "rat \<Rightarrow> rat" where
  "round2 x = fl (of_int (round_even (x * 100)) / 100)"

definition score_delta :: "DomainScoreChange \<Rightarrow> rat option" where
  "score_delta c =
     (case (dc_baseline_weighted c, dc_current_weighted c) of
        (Some b, Some a) \<Rightarrow> Some (round2 (fsub a b))
      | _ \<Rightarrow> None)"

definition category_changed :: "DomainScoreChange \<Rightarrow> bool" where
  "category_changed c = (dc_baseline_category c \<noteq> dc_current_category c)"

record ScanComparison =
  cm_baseline_scan_id :: string
  cm_current_scan_id :: string
  cm_source_path :: string
  cm_reordered :: bool
  cm_new_findings :: "FindingRef list"
  cm_resolved_findings :: "FindingRef list"
  cm_unchanged_findings :: "FindingRef list"
  cm_domain_changes :: "DomainScoreChange list"

definition finding_key :: "Finding \<Rightarrow> finding_key_t" where
  "finding_key f = (fd_rule_id f, fd_source_relative_path f, join '' '' (split_ws (fd_masked_evidence f)))"

definition finding_ref :: "Finding \<Rightarrow> FindingRef" where
  "finding_ref f =
     \<lparr>fr_finding_id = fd_id f, fr_rule_id = fd_rule_id f, fr_severity = fd_severity f,
      fr_title = fd_title f, fr_source_relative_path = fd_source_relative_path f,
      fr_line_start = fd_line_start f, fr_human_review_status = fd_human_review_status f\<rparr>"

section \<open>Scores\<close>

definition superseded_ids :: "Score list \<Rightarrow> string list" where
  "superseded_ids scores = concat (map (\<lambda>s. case so_override_of s of
      None \<Rightarrow> [] | Some i \<Rightarrow> if i = [] then [] else [i]) scores)"

definition effective_update :: "Score \<Rightarrow> (string \<times> Score) list \<Rightarrow> (string \<times> Score) list" where
  "effective_update s effective =
     (case map_of effective (so_domain s) of
        None \<Rightarrow> AList.update (so_domain s) s effective
      | Some current \<Rightarrow>
          if utc_instant (so_calculated_at s) > utc_instant (so_calculated_at current)
          then AList.update (so_domain s) s effective else effective)"

definition effective_scores :: "Score list \<Rightarrow> (string \<times> Score) list" where
  "effective_scores scores =
     fold effective_update
       (filter (\<lambda>s. so_id s \<notin> set (superseded_ids scores)) scores) []"

definition compare_scores :: "Score list \<Rightarrow> Score list \<Rightarrow> DomainScoreChange list" where
  "compare_scores baseline current =
     (let b = effective_scores baseline; a = effective_scores current
      in map (\<lambda>domain.
           \<lparr>dc_domain = domain,
            dc_baseline_category = map_option so_decision_category (map_of b domain),
            dc_current_category = map_option so_decision_category (map_of a domain),
            dc_baseline_weighted = Option.bind (map_of b domain) so_weighted_score,
            dc_current_weighted = Option.bind (map_of a domain) so_weighted_score\<rparr>)
         (sorted_set (map fst b @ map fst a)))"

section \<open>Findings\<close>

definition with_key :: "Finding list \<Rightarrow> finding_key_t \<Rightarrow> Finding list" where
  "with_key findings key = filter (\<lambda>f. finding_key f = key) (order_by fd_line_start findings)"

definition compare_findings ::
  "Finding list \<Rightarrow> Finding list \<Rightarrow> FindingRef list \<times> FindingRef list \<times> FindingRef list" where
  "compare_findings baseline current =
     (let keys = sorted_set (map finding_key baseline @ map finding_key current);
          b = with_key baseline; a = with_key current;
          matched = (\<lambda>key. min (length (b key)) (length (a key)))
      in (concat (map (\<lambda>key. map finding_ref (drop (matched key) (a key))) keys),
          concat (map (\<lambda>key. map finding_ref (drop (matched key) (b key))) keys),
          concat (map (\<lambda>key. map finding_ref (take (matched key) (a key))) keys)))"

section \<open>Comparing two assessments\<close>

definition incompatible :: "string \<Rightarrow> error" where
  "incompatible message = Err IncompatibleScansError message"

definition check_completed :: "Scan \<Rightarrow> unit result" where
  "check_completed scan =
     (if sc_status scan \<notin> set COMPLETED_STATUSES
      then Inl (incompatible (''Assessment '' @ sc_id scan @ '' did not complete (status: ''
             @ sc_status scan @ '').''))
      else Inr ())"

text \<open>\<open>check_compatible\<close>; both scans when they can be compared.\<close>

definition check_compatible :: "Scan option \<Rightarrow> Scan option \<Rightarrow> (Scan \<times> Scan) result" where
  "check_compatible baseline current =
     (case (baseline, current) of
        (Some b, Some a) \<Rightarrow>
          if sc_id b = sc_id a
          then Inl (incompatible ''Select two different assessments to compare.'')
          else rbind (check_completed b) (\<lambda>_. rbind (check_completed a) (\<lambda>_.
            if sc_source_path b \<noteq> sc_source_path a \<or> sc_source_type b \<noteq> sc_source_type a
            then Inl (incompatible (''These assessments scanned different sources and cannot be compared (''
                   @ quoted (sc_source_path b) @ '' vs '' @ quoted (sc_source_path a) @ '')''))
            else Inr (b, a)))
      | _ \<Rightarrow> Inl (incompatible ''One of the selected assessments no longer exists.''))"

definition compare_loaded :: "string \<Rightarrow> string \<Rightarrow> database \<Rightarrow> ScanComparison result" where
  "compare_loaded baseline_scan_id current_scan_id d =
     rbind (check_compatible (get_scan baseline_scan_id d) (get_scan current_scan_id d))
       (\<lambda>(first, second).
          let reordered = utc_instant (sc_created_at first) > utc_instant (sc_created_at second);
              (baseline, current) = (if reordered then (second, first) else (first, second));
              (new, resolved, unchanged) =
                compare_findings (findings_for_scan (sc_id baseline) d) (findings_for_scan (sc_id current) d)
          in Inr \<lparr>cm_baseline_scan_id = sc_id baseline, cm_current_scan_id = sc_id current,
               cm_source_path = sc_source_path current, cm_reordered = reordered,
               cm_new_findings = new, cm_resolved_findings = resolved,
               cm_unchanged_findings = unchanged,
               cm_domain_changes = compare_scores (scores_for_scan (sc_id baseline) d)
                                     (scores_for_scan (sc_id current) d)\<rparr>)"

definition compare_scans ::
  "Settings \<Rightarrow> string \<Rightarrow> string \<Rightarrow> platform \<Rightarrow> ScanComparison result \<times> platform" where
  "compare_scans settings baseline_scan_id current_scan_id =
     service_session settings (\<lambda>s. (compare_loaded baseline_scan_id current_scan_id (ss_work s), s))"

section \<open>Matching by multiplicity\<close>

definition key_count :: "finding_key_t \<Rightarrow> Finding list \<Rightarrow> nat" where
  "key_count k fs = length (filter (\<lambda>f. finding_key f = k) fs)"

lemma order_by_perm [simp]: "mset (order_by k xs) = mset xs"
  by (simp add: order_by_def)

lemma mset_with_key: "mset (with_key fs k) = filter_mset (\<lambda>f. finding_key f = k) (mset fs)"
  by (simp add: with_key_def)

lemma length_with_key [simp]: "length (with_key fs k) = key_count k fs"
  by (metis key_count_def mset_filter mset_with_key size_mset)

lemma with_key_key: "f \<in> set (with_key fs k) \<Longrightarrow> finding_key f = k"
  by (simp add: with_key_def)

text \<open>Picking a part of each key's findings, key by key.\<close>

lemma key_count_concat:
  assumes "distinct keys" and "\<And>k. \<forall>f \<in> set (g k). finding_key f = k"
  shows "key_count k (concat (map g keys)) = (if k \<in> set keys then length (g k) else 0)"
  using assms(1)
proof (induction keys)
  case (Cons x keys)
  have "filter (\<lambda>f. finding_key f = k) (g x) = (if x = k then g k else [])"
    using assms(2) [of x] by (auto simp: filter_id_conv filter_empty_conv)
  with Cons show ?case by (auto simp: key_count_def)
qed (simp add: key_count_def)

lemma key_count_parts:
  assumes "distinct keys"
  shows "key_count k (concat (map (\<lambda>k. take (n k) (with_key fs k)) keys)) =
           (if k \<in> set keys then min (key_count k fs) (n k) else 0)"
    and "key_count k (concat (map (\<lambda>k. drop (n k) (with_key fs k)) keys)) =
           (if k \<in> set keys then key_count k fs - n k else 0)"
  using assms
  by (subst key_count_concat; auto dest!: in_set_takeD in_set_dropD with_key_key)+

lemma concat_with_key:
  assumes "distinct keys" and "finding_key ` set fs \<subseteq> set keys"
  shows "mset (concat (map (with_key fs) keys)) = mset fs"
  using assms
proof (induction keys arbitrary: fs)
  case (Cons x keys)
  let ?rest = "filter (\<lambda>f. finding_key f \<noteq> x) fs"
  have "with_key ?rest k = with_key fs k" if "k \<in> set keys" for k
    using that Cons.prems(1)
    by (auto simp: with_key_def order_by_def filter_sort [symmetric] intro!: filter_cong arg_cong [where f = "sort_key _"])
  then have eq: "map (with_key ?rest) keys = map (with_key fs) keys" by (auto intro: map_cong)
  have "mset (concat (map (with_key ?rest) keys)) = mset ?rest"
    using Cons.prems by (intro Cons.IH) auto
  then have "mset (concat (map (with_key fs) keys)) = mset ?rest" unfolding eq .
  then have "mset (concat (map (with_key fs) (x # keys))) = mset (with_key fs x) + mset ?rest"
    by simp
  then show ?case by (simp add: mset_with_key)
qed simp

lemma mset_concat_split:
  "mset (concat (map (\<lambda>k. take (n k) (g k)) keys)) + mset (concat (map (\<lambda>k. drop (n k) (g k)) keys))
     = mset (concat (map g keys))"
proof (induction keys)
  case (Cons k keys)
  have "mset (g k) = mset (take (n k) (g k)) + mset (drop (n k) (g k))"
    by (metis append_take_drop_id mset_append)
  with Cons show ?case by (simp add: ac_simps)
qed simp

text \<open>C16: comparing two assessments splits their findings without losing or inventing any. The
  findings of the current one are exactly its unchanged and its new findings, those of the
  baseline are the resolved ones and as many as are unchanged; of each key, as many are
  unchanged as occur in both, and only what one side has more of is new or resolved.\<close>

theorem compare_findings_partition:
  "\<exists>N R U K. compare_findings baseline current = (map finding_ref N, map finding_ref R, map finding_ref U)
     \<and> mset (U @ N) = mset current \<and> mset (K @ R) = mset baseline
     \<and> (\<forall>k. key_count k U = min (key_count k baseline) (key_count k current)
          \<and> key_count k K = key_count k U
          \<and> key_count k N = key_count k current - key_count k baseline
          \<and> key_count k R = key_count k baseline - key_count k current)"
proof -
  define keys where "keys = sorted_set (map finding_key baseline @ map finding_key current)"
  have keys: "distinct keys" "set keys = finding_key ` set baseline \<union> finding_key ` set current"
    by (auto simp: keys_def)
  define n where "n k = min (key_count k baseline) (key_count k current)" for k
  define U where "U = concat (map (\<lambda>k. take (n k) (with_key current k)) keys)"
  define N where "N = concat (map (\<lambda>k. drop (n k) (with_key current k)) keys)"
  define K where "K = concat (map (\<lambda>k. take (n k) (with_key baseline k)) keys)"
  define R where "R = concat (map (\<lambda>k. drop (n k) (with_key baseline k)) keys)"
  have "compare_findings baseline current = (map finding_ref N, map finding_ref R, map finding_ref U)"
    by (simp add: compare_findings_def Let_def U_def N_def R_def keys_def n_def map_concat comp_def)
  moreover have "mset (U @ N) = mset current" "mset (K @ R) = mset baseline"
    using keys by (simp_all add: U_def N_def K_def R_def mset_concat_split concat_with_key)
  moreover have absent: "key_count k baseline = 0 \<and> key_count k current = 0" if "k \<notin> set keys" for k
    using that keys(2) by (auto simp: key_count_def filter_empty_conv)
  have "key_count k U = min (key_count k baseline) (key_count k current)
      \<and> key_count k K = key_count k U
      \<and> key_count k N = key_count k current - key_count k baseline
      \<and> key_count k R = key_count k baseline - key_count k current" for k
    using absent [of k] keys(1) by (auto simp: U_def N_def K_def R_def key_count_parts n_def)
  ultimately show ?thesis by blast
qed

section \<open>Effective scores and overrides\<close>

definition current_rows :: "Score list \<Rightarrow> Score list" where
  "current_rows scores = filter (\<lambda>s. so_id s \<notin> set (superseded_ids scores)) scores"

text \<open>Every override names a stored score, and each domain has one row that none replaces.\<close>

definition wf_scores :: "Score list \<Rightarrow> bool" where
  "wf_scores scores = (distinct (map so_id scores)
     \<and> set (superseded_ids scores) \<subseteq> so_id ` set scores
     \<and> distinct (map so_domain (current_rows scores)))"

lemma effective_update_new:
  "map_of effective (so_domain s) = None \<Longrightarrow>
     map_of (effective_update s effective) = (map_of effective)(so_domain s \<mapsto> s)"
  by (simp add: effective_update_def update_conv')

lemma map_of_fold_effective:
  assumes "distinct (map so_domain rows)" and "\<forall>r \<in> set rows. map_of effective (so_domain r) = None"
  shows "map_of (fold effective_update rows effective) =
           map_of effective ++ map_of (map (\<lambda>r. (so_domain r, r)) rows)"
  using assms
proof (induction rows arbitrary: effective)
  case (Cons r rows)
  have other: "so_domain x \<noteq> so_domain r" if "x \<in> set rows" for x
    using Cons.prems(1) that by (auto simp: image_iff)
  have "map_of (fold effective_update rows (effective_update r effective)) =
      map_of (effective_update r effective) ++ map_of (map (\<lambda>r. (so_domain r, r)) rows)"
    using Cons.prems other by (intro Cons.IH) (auto simp: effective_update_new)
  moreover have "map_of (map (\<lambda>r. (so_domain r, r)) rows) (so_domain r) = None"
    using other by (fastforce simp: map_of_eq_None_iff)
  ultimately show ?case
    using Cons.prems by (simp add: effective_update_new) (auto simp: fun_eq_iff map_add_def split: option.splits)
qed simp

lemma effective_scores_map:
  "wf_scores scores \<Longrightarrow>
     map_of (effective_scores scores) = map_of (map (\<lambda>r. (so_domain r, r)) (current_rows scores))"
  by (simp add: effective_scores_def wf_scores_def current_rows_def map_of_fold_effective)

lemma superseded_ids_snoc:
  "set (superseded_ids (scores @ [row])) = set (superseded_ids scores) \<union>
     (case so_override_of row of None \<Rightarrow> {} | Some i \<Rightarrow> if i = [] then {} else {i})"
  by (auto simp: superseded_ids_def split: option.splits)

lemma current_rows_snoc:
  assumes "so_override_of row = Some i" and "i \<noteq> []" and "so_id row \<noteq> i"
    and "so_id row \<notin> so_id ` set scores" and "set (superseded_ids scores) \<subseteq> so_id ` set scores"
  shows "current_rows (scores @ [row]) = filter (\<lambda>s. so_id s \<noteq> i) (current_rows scores) @ [row]"
  using assms by (auto simp: current_rows_def superseded_ids_snoc intro!: filter_cong)

lemma map_of_replace:
  "map_of (map (\<lambda>r. (f r, r)) (filter (\<lambda>s. f s \<noteq> f row) rows @ [row]))
     = (map_of (map (\<lambda>r. (f r, r)) rows))(f row \<mapsto> row)"
proof
  show "map_of (map (\<lambda>r. (f r, r)) (filter (\<lambda>s. f s \<noteq> f row) rows @ [row])) k
     = ((map_of (map (\<lambda>r. (f r, r)) rows))(f row \<mapsto> row)) k" for k
    by (induction rows) auto
qed

text \<open>The effective scores after a row replaces another one, whatever their domains are.\<close>

lemma effective_after_override:
  assumes "wf_scores scores" and "original \<in> set scores" and "so_override_of row = Some (so_id original)"
    and "so_id original \<noteq> []" and "so_id row \<notin> so_id ` set scores"
    and "original \<in> set (current_rows scores)"
    and "so_domain row = so_domain original"
  shows "wf_scores (scores @ [row])
    \<and> map_of (effective_scores (scores @ [row])) = (map_of (effective_scores scores))(so_domain row \<mapsto> row)"
proof -
  let ?i = "so_id original" and ?rows = "current_rows scores"
  have ids: "distinct (map so_id scores)" and sub: "set (superseded_ids scores) \<subseteq> so_id ` set scores"
    and doms: "distinct (map so_domain ?rows)"
    using assms(1) by (simp_all add: wf_scores_def)
  have rows: "current_rows (scores @ [row]) = filter (\<lambda>s. so_id s \<noteq> ?i) ?rows @ [row]"
    using assms by (intro current_rows_snoc sub) auto
  have same: "(so_id s = ?i) = (so_domain s = so_domain original)" if "s \<in> set ?rows" for s
    using that assms(6) ids doms distinct_key_inject [of so_domain ?rows s original]
      distinct_key_inject [of so_id scores s original] assms(2)
    by (auto simp: current_rows_def)
  then have filt: "filter (\<lambda>s. so_id s \<noteq> ?i) ?rows = filter (\<lambda>s. so_domain s \<noteq> so_domain row) ?rows"
    using assms(7) by (auto intro: filter_cong)
  have "distinct (map so_domain (current_rows (scores @ [row])))"
    using doms by (auto simp: rows filt distinct_map_filter)
  then have wf: "wf_scores (scores @ [row])"
    using ids sub assms by (auto simp: wf_scores_def superseded_ids_snoc)
  show ?thesis
    using wf assms(1) by (simp only: effective_scores_map rows filt map_of_replace simp_thms)
qed

text \<open>C15: comparisons show overrides. As long as every override names an existing score of its
  own domain, each domain keeps one effective score: an override of a domain's effective
  score becomes that domain's effective score, whatever its time of recording, and the
  effective scores of all other domains stay what they were.\<close>

theorem override_is_compared:
  assumes "override_score dec s = (Inr (Some row), s')"
    and "wf_scores (scores_for_scan (od_scan_id dec) (ss_work s))"
    and "original \<in> set (current_rows (scores_for_scan (od_scan_id dec) (ss_work s)))"
    and "od_original_score_id dec = so_id original" and "so_id original \<noteq> []"
    and "od_domain dec = so_domain original"
    and "pf_uuid s (pf_draws s) \<notin> so_id ` set (scores_for_scan (od_scan_id dec) (ss_work s))"
  shows "wf_scores (scores_for_scan (od_scan_id dec) (pf_store s'))
     \<and> map_of (effective_scores (scores_for_scan (od_scan_id dec) (pf_store s')))
         = (map_of (effective_scores (scores_for_scan (od_scan_id dec) (ss_work s))))(od_domain dec \<mapsto> row)"
proof -
  let ?scores = "scores_for_scan (od_scan_id dec) (ss_work s)"
  obtain old where row: "row = override_row dec old (now s) (pf_uuid s (pf_draws s))"
    and old: "get_row so_id (od_original_score_id dec) (db_scores (ss_work s)) = Some old"
    and s': "db_scores (pf_store s') = db_scores (ss_work s) @ [row]"
    by (rule override_score_cases [OF assms(1)]) simp
  have fields: "so_scan_id row = od_scan_id dec" "so_domain row = od_domain dec"
    "so_override_of row = Some (so_id old)" "so_id row = pf_uuid s (pf_draws s)"
    by (simp_all add: row override_row_def)
  have "so_id old = so_id original" using get_row_Some [OF old] assms(4) by simp
  moreover have "scores_for_scan (od_scan_id dec) (pf_store s') = ?scores @ [row]"
    by (simp add: scores_for_scan_def s' fields(1))
  moreover have "original \<in> set ?scores" using assms(3) by (simp add: current_rows_def)
  ultimately show ?thesis
    using effective_after_override [OF assms(2), of original row] assms(3,5-7) fields by simp
qed

end
