(* ===== verification/Display.thy ===== *)
theory Display
  imports Prelude Float64
begin

text \<open>
  How Python prints numbers and cuts sequences: \<open>xs[:n]\<close> for any integer \<open>n\<close>, fixed-point
  formatting, and \<open>str\<close> of a float (the shortest decimal that reads back as the float).
\<close>

section \<open>Slices\<close>

text \<open>\<open>xs[:n]\<close>: a negative bound counts from the end.\<close>

definition upto :: "int \<Rightarrow> 'a list \<Rightarrow> 'a list" where
  "upto n xs = (if n < 0 then take (length xs - nat (- n)) xs else take (nat n) xs)"

lemma length_upto: "0 \<le> n \<Longrightarrow> length (upto n xs) = min (length xs) (nat n)"
  by (simp add: upto_def)

lemma prefix_upto: "prefix (upto n xs) xs"
  by (simp add: upto_def take_is_prefix)

lemma upto_all: "int (length xs) \<le> n \<Longrightarrow> upto n xs = xs"
  by (simp add: upto_def)

section \<open>Decimal notation\<close>

definition show_signed :: "rat \<Rightarrow> string \<Rightarrow> string" where
  "show_signed x digits = (if x < 0 then CHR ''-'' # digits else digits)"

text \<open>\<open>f"{x:.1f}"\<close> and \<open>f"{x:.0f}"\<close>.\<close>

definition show_fixed1 :: "rat \<Rightarrow> string" where
  "show_fixed1 x =
     (let n = nat (round_even (\<bar>x\<bar> * 10))
      in show_signed x (show_nat (n div 10) @ CHR ''.'' # show_nat (n mod 10)))"

definition show_fixed0 :: "rat \<Rightarrow> string" where
  "show_fixed0 x = show_signed x (show_nat (nat (round_even \<bar>x\<bar>)))"

text \<open>The exponent of the leading decimal digit of a positive number.\<close>

definition decimal_exponent :: "rat \<Rightarrow> int" where
  "decimal_exponent x =
     (if 1 \<le> x then int (length (show_nat (nat \<lfloor>x\<rfloor>))) - 1
      else (case List.find (\<lambda>k. 1 \<le> x * 10 ^ k) [1..<400] of Some k \<Rightarrow> - int k | None \<Rightarrow> 0))"

text \<open>The nearest decimal with \<open>n\<close> significant digits, as its digits.\<close>

definition significant :: "rat \<Rightarrow> nat \<Rightarrow> nat" where
  "significant x n = nat (round_even (x * 10 powi (int n - 1 - decimal_exponent x)))"

definition shortest_digits :: "rat \<Rightarrow> nat \<times> nat" where
  "shortest_digits x =
     (case List.find (\<lambda>n. fl (of_nat (significant x n) * 10 powi (decimal_exponent x - int n + 1)) = x)
             [1..<17] of
        Some n \<Rightarrow> (n, significant x n)
      | None \<Rightarrow> (17, significant x 17))"

definition strip_zeros :: "string \<Rightarrow> string" where
  "strip_zeros s = rev (dropWhile (\<lambda>c. c = CHR ''0'') (rev s))"

text \<open>\<open>str(x)\<close> of a positive float.\<close>

definition show_float_pos :: "rat \<Rightarrow> string" where
  "show_float_pos x =
     (let e = decimal_exponent x;
          (n, m) = shortest_digits x;
          digits = show_nat m
      in if - 4 \<le> e \<and> e < 16 then
           (if 0 \<le> e then
              (let whole = take (nat e + 1) (digits @ replicate (nat e + 1) (CHR ''0''));
                   part = strip_zeros (drop (nat e + 1) digits)
               in whole @ CHR ''.'' # (if part = [] then ''0'' else part))
            else ''0.'' @ replicate (nat (- e) - 1) (CHR ''0'') @ strip_zeros digits)
         else
           (let part = strip_zeros (drop 1 digits)
            in take 1 digits @ (if part = [] then [] else CHR ''.'' # part) @ CHR ''e'' #
               (if e < 0 then CHR ''-'' else CHR ''+'') #
               (if \<bar>e\<bar> < 10 then CHR ''0'' # show_nat (nat \<bar>e\<bar>) else show_nat (nat \<bar>e\<bar>))))"

definition show_float :: "rat \<Rightarrow> string" where
  "show_float x =
     (if x = 0 then ''0.0'' else show_signed x (show_float_pos \<bar>x\<bar>))"

section \<open>Strings\<close>

text \<open>
  \<open>repr\<close> of a string: in single quotes, unless only double quotes avoid an escape; what is not
  printable is written as an escape.
\<close>

definition hex_digit :: "nat \<Rightarrow> char" where
  "hex_digit n = ''0123456789abcdef'' ! (n mod 16)"

definition repr_char :: "char \<Rightarrow> char \<Rightarrow> string" where
  "repr_char quote c =
     (if c = quote \<or> c = CHR 0x5C then [CHR 0x5C, c]
      else if c = CHR 0x09 then [CHR 0x5C, CHR ''t'']
      else if c = CHR 0x0A then [CHR 0x5C, CHR ''n'']
      else if c = CHR 0x0D then [CHR 0x5C, CHR ''r'']
      else if code c < 32 \<or> 127 \<le> code c \<and> code c \<le> 160 \<or> code c = 173
      then [CHR 0x5C, CHR ''x'', hex_digit (code c div 16), hex_digit (code c)]
      else [c])"

definition py_repr :: "string \<Rightarrow> string" where
  "py_repr s =
     (let quote = (if CHR 0x27 \<in> set s \<and> CHR 0x22 \<notin> set s then CHR 0x22 else CHR 0x27)
      in [quote] @ concat (map (repr_char quote) s) @ [quote])"

text \<open>\<open>upper\<close>, on the ASCII letters, where the platform uses it.\<close>

definition upper :: "string \<Rightarrow> string" where
  "upper s = map (\<lambda>c. if is_ascii_lower c then char_of (code c - 32) else c) s"

end
