(* ===== verification/Paths.thy ===== *)
theory Paths
  imports PyStr
begin

text \<open>
  The part of \<^verbatim>\<open>pathlib\<close> and \<^verbatim>\<open>os.path\<close> that the platform uses on names: the last component
  of a POSIX path and its stem and suffix, where the name is cut at its last dot.
\<close>

section \<open>Names of paths\<close>

definition slash :: char where
  "slash = CHR ''/''"

text \<open>\<open>PurePosixPath(p).name\<close>: the last component; empty and \<open>.\<close> components do not count.\<close>

definition path_components :: "string \<Rightarrow> string list" where
  "path_components p = filter (\<lambda>c. c \<noteq> [] \<and> c \<noteq> ''.'') (split_on slash p)"

definition path_name :: "string \<Rightarrow> string" where
  "path_name p = (case rev (path_components p) of [] \<Rightarrow> [] | c # _ \<Rightarrow> c)"

text \<open>The name cut at its last dot, when that is neither its first nor its last character.\<close>

definition last_dot :: "string \<Rightarrow> nat option" where
  "last_dot name =
     (let tail = takeWhile (\<lambda>c. c \<noteq> CHR ''.'') (rev name)
      in if length tail = length name then None else Some (length name - length tail - 1))"

definition name_split :: "string \<Rightarrow> string \<times> string" where
  "name_split name =
     (case last_dot name of
        Some i \<Rightarrow> if 0 < i \<and> i < length name - 1 then (take i name, drop i name) else (name, [])
      | None \<Rightarrow> (name, []))"

definition path_suffix :: "string \<Rightarrow> string" where
  "path_suffix p = snd (name_split (path_name p))"

definition path_stem :: "string \<Rightarrow> string" where
  "path_stem p = fst (name_split (path_name p))"

text \<open>\<open>os.path.basename\<close>.\<close>

definition basename :: "string \<Rightarrow> string" where
  "basename p = last (split_on slash p)"

section \<open>Lemmas\<close>

text \<open>Names without a slash, and names cut at a dot.\<close>

lemma split_on_single_part: "a \<notin> set s \<Longrightarrow> split_on a s = [s]"
  by (induction s) auto

lemma basename_no_slash: "slash \<notin> set (basename p)"
  unfolding basename_def by (rule split_on_no_sep [of _ slash p]) simp

lemma path_name_no_slash:
  "slash \<notin> set n \<Longrightarrow> path_name n = (if n = ''.'' then [] else n)"
  by (simp add: path_name_def path_components_def split_on_single_part)

lemma path_name_basename:
  assumes "basename p \<noteq> []" and "basename p \<noteq> ''.''"
  shows "path_name p = basename p"
proof -
  let ?real = "\<lambda>c. c \<noteq> [] \<and> c \<noteq> ''.''"
  have split: "split_on slash p = butlast (split_on slash p) @ [basename p]"
    by (simp add: basename_def)
  have "path_components p = filter ?real (butlast (split_on slash p) @ [basename p])"
    unfolding path_components_def by (rule arg_cong [OF split])
  also have "\<dots> = filter ?real (butlast (split_on slash p)) @ [basename p]"
    using assms by simp
  finally show ?thesis by (simp add: path_name_def)
qed

lemma name_split_append: "fst (name_split n) @ snd (name_split n) = n"
  by (simp add: name_split_def split: option.splits)

lemma last_dot_at:
  assumes "CHR ''.'' \<notin> set e"
  shows "last_dot (a @ CHR ''.'' # e) = Some (length a)"
proof -
  have "takeWhile (\<lambda>c. c \<noteq> CHR ''.'') (rev (a @ CHR ''.'' # e)) = rev e"
    using assms by (subst rev_append, subst rev.simps, subst append_assoc, subst takeWhile_append2) auto
  then show ?thesis by (simp add: last_dot_def)
qed

lemma name_split_at:
  assumes "CHR ''.'' \<notin> set e" and "e \<noteq> []"
  shows "name_split (a @ CHR ''.'' # e) = (if a = [] then (CHR ''.'' # e, []) else (a, CHR ''.'' # e))"
  using assms by (simp add: name_split_def last_dot_at)

lemma name_split_suffix:
  assumes "snd (name_split n) \<noteq> []"
  obtains a e where "n = a @ CHR ''.'' # e" and "snd (name_split n) = CHR ''.'' # e"
proof -
  let ?tail = "takeWhile (\<lambda>c. c \<noteq> CHR ''.'') (rev n)"
  obtain i where i: "last_dot n = Some i" "snd (name_split n) = drop i n" "i < length n - 1"
    using assms by (auto simp: name_split_def split: option.splits if_splits)
  then have len: "length ?tail < length n" "i = length n - length ?tail - 1"
    using length_takeWhile_le [of "\<lambda>c. c \<noteq> CHR ''.''" "rev n"]
    by (auto simp: last_dot_def Let_def split: if_splits)
  then have "rev n ! length ?tail = CHR ''.''"
    using nth_length_takeWhile [of "\<lambda>c. c \<noteq> CHR ''.''" "rev n"] by simp
  then have "n ! i = CHR ''.''" using len by (simp add: rev_nth)
  then have "drop i n = CHR ''.'' # drop (Suc i) n" using i(3) by (simp add: Cons_nth_drop_Suc [symmetric])
  then show ?thesis using that [of "take i n" "drop (Suc i) n"] i(2) by (metis append_take_drop_id)
qed

end
