(* ===== verification/Oversight.thy ===== *)
theory Oversight
  imports Display Payload Paths
begin

text \<open>
  The small governance modules: \<^verbatim>\<open>governance/retention.py\<close> (which scans are old enough),
  \<^verbatim>\<open>governance/prompt_safety.py\<close> (suspicious questions) and
  \<^verbatim>\<open>governance/file_validation.py\<close> (names of uploaded files).
\<close>

section \<open>Retention\<close>

record ScanRetentionSnapshot =
  rt_scan_id :: string
  rt_created_at :: datetime

record RetentionCandidate =
  ra_scan_id :: string
  ra_created_at :: datetime
  ra_age_days :: int

text \<open>The difference of two datetimes; of a naive and an aware one it is a TypeError.\<close>

fun datetime_sub :: "datetime \<Rightarrow> datetime \<Rightarrow> int result" where
  "datetime_sub (Naive a) (Naive b) = Inr (a - b)"
| "datetime_sub (Aware a) (Aware b) = Inr (a - b)"
| "datetime_sub _ _ = Inl (Err PyTypeError
     ([CHR 0x63] @ ''an'' @ [CHR 0x27] @ ''t subtract offset-naive and offset-aware datetimes''))"

primrec retention_candidates ::
  "int \<Rightarrow> datetime \<Rightarrow> ScanRetentionSnapshot list \<Rightarrow> RetentionCandidate list result" where
  "retention_candidates days as_of [] = Inr []"
| "retention_candidates days as_of (scan # scans) =
     rbind (datetime_sub as_of (rt_created_at scan)) (\<lambda>delta.
       (let age = timedelta_days delta
        in rbind (retention_candidates days as_of scans) (\<lambda>rest.
          Inr (if days \<le> age
               then \<lparr>ra_scan_id = rt_scan_id scan, ra_created_at = rt_created_at scan,
                     ra_age_days = age\<rparr> # rest
               else rest))))"

definition find_scans_eligible_for_retention ::
  "ScanRetentionSnapshot list \<Rightarrow> int option \<Rightarrow> datetime \<Rightarrow> RetentionCandidate list result" where
  "find_scans_eligible_for_retention scans retention_days as_of =
     (case retention_days of
        None \<Rightarrow> Inr []
      | Some days \<Rightarrow>
          if days < 0 then Inl (Err PyValueError ''retention_days must not be negative'')
          else retention_candidates days as_of scans)"

section \<open>Suspicious questions\<close>

definition SUSPICIOUS_PATTERNS :: "string list" where
  "SUSPICIOUS_PATTERNS =
     [''ignore previous instructions'', ''ignore all previous'', ''disregard previous'',
      ''show system prompt'', ''reveal system prompt'', ''print system prompt'',
      ''developer message'', ''system message'', ''forget your instructions'', ''delete files'',
      ''run command'', ''execute code'', ''drop table'', ''rm -rf'']"

record SafetyCheckResult =
  sf_is_suspicious :: bool
  sf_matched_patterns :: "string list"
  sf_warning :: string
  sf_blocked :: bool

definition check_prompt_safety :: "string \<Rightarrow> bool \<Rightarrow> SafetyCheckResult" where
  "check_prompt_safety query enforce =
     (let matched = filter (contains (lower query)) SUSPICIOUS_PATTERNS
      in if matched \<noteq> []
         then \<lparr>sf_is_suspicious = True, sf_matched_patterns = matched,
               sf_warning = ''Query may contain a prompt-injection attempt.'', sf_blocked = enforce\<rparr>
         else \<lparr>sf_is_suspicious = False, sf_matched_patterns = [], sf_warning = [],
               sf_blocked = False\<rparr>)"

lemma check_prompt_safety_blocked:
  "sf_blocked (check_prompt_safety query enforce) \<longleftrightarrow>
     enforce \<and> (\<exists>p \<in> set SUSPICIOUS_PATTERNS. contains (lower query) p)"
  by (auto simp: check_prompt_safety_def Let_def filter_empty_conv)

section \<open>Uploaded files\<close>

definition ALLOWED_EXTENSIONS :: "string list" where
  "ALLOWED_EXTENSIONS = [''.pdf'', ''.txt'', ''.md'', ''.html'', ''.htm'']"

definition MAX_FILENAME_LENGTH :: nat where
  "MAX_FILENAME_LENGTH = 200"

definition validation_error :: "string \<Rightarrow> 'a result" where
  "validation_error message = Inl (Err ValidationError message)"

text \<open>The two substitutions of single characters and of runs, and \<open>strip("_")\<close>.\<close>

definition safe_char :: "char \<Rightarrow> bool" where
  "safe_char c = (is_word c \<or> is_space c \<or> c = CHR ''-'' \<or> c = CHR ''.'')"

definition replace_unsafe :: "string \<Rightarrow> string" where
  "replace_unsafe s = map (\<lambda>c. if safe_char c then c else CHR ''_'') s"

definition separator :: "char \<Rightarrow> bool" where
  "separator c = (is_space c \<or> c = CHR ''_'')"

fun collapse_separators :: "bool \<Rightarrow> string \<Rightarrow> string" where
  "collapse_separators inside [] = []"
| "collapse_separators inside (c # s) =
     (if separator c then (if inside then [] else [CHR ''_'']) @ collapse_separators True s
      else c # collapse_separators False s)"

definition strip_underscores :: "string \<Rightarrow> string" where
  "strip_underscores s =
     rev (dropWhile (\<lambda>c. c = CHR ''_'') (rev (dropWhile (\<lambda>c. c = CHR ''_'') s)))"

definition sanitize_filename :: "string \<Rightarrow> string result" where
  "sanitize_filename filename =
     (let name = filter (\<lambda>c. c \<noteq> CHR 0x00) (basename filename);
          suffix = lower (path_suffix name);
          stem = strip_underscores (collapse_separators False (replace_unsafe (path_stem name)))
      in if stem = [] then validation_error ''Filename is empty after sanitization.''
         else Inr (upto (int MAX_FILENAME_LENGTH - int (length suffix)) stem @ suffix))"

definition validate_file :: "string \<Rightarrow> int \<Rightarrow> int \<Rightarrow> string result" where
  "validate_file filename file_size_bytes max_upload_mb =
     (if strip filename = [] then validation_error ''Filename must not be empty.''
      else let suffix = lower (path_suffix filename)
      in if suffix \<notin> set ALLOWED_EXTENSIONS
         then validation_error (''File type '' @ [CHR 0x27] @ suffix @ [CHR 0x27]
                @ '' is not allowed. Allowed types: '' @ join '', '' (sort ALLOWED_EXTENSIONS))
         else if max_upload_mb * 1024 * 1024 < file_size_bytes
         then validation_error (''File size '' @ show_fixed1 (fl (of_int file_size_bytes / 1048576))
                @ '' MB exceeds the '' @ show_int max_upload_mb @ '' MB upload limit.'')
         else sanitize_filename filename)"

section \<open>Facts\<close>

text \<open>The names that pass: letters, digits and the other word characters, dashes and dots.\<close>

definition plain_char :: "char \<Rightarrow> bool" where
  "plain_char c = (is_word c \<or> c = CHR ''-'' \<or> c = CHR ''.'')"

lemma plain_not_slash [simp]: "\<not> plain_char slash"
  by (simp add: plain_char_def slash_def is_word_def code_def is_digit_def is_ascii_lower_def is_ascii_upper_def)

lemma is_word_underscore [simp]: "is_word (CHR ''_'')"
  by (simp add: is_word_def code_def)

lemma collapse_chars:
  "c \<in> set (collapse_separators b s) \<Longrightarrow> c = CHR ''_'' \<or> c \<in> set s \<and> \<not> separator c"
  by (induction b s rule: collapse_separators.induct) (auto split: if_splits)

lemma set_strip_underscores: "set (strip_underscores s) \<subseteq> set s"
  by (auto simp: strip_underscores_def dest!: set_dropWhileD)

lemma clean_stem_plain:
  "c \<in> set (strip_underscores (collapse_separators b (replace_unsafe s))) \<Longrightarrow> plain_char c"
  by (auto simp: plain_char_def replace_unsafe_def safe_char_def separator_def
      dest!: set_strip_underscores [THEN subsetD] collapse_chars split: if_splits)

lemma collapse_id: "\<forall>c \<in> set s. \<not> separator c \<Longrightarrow> collapse_separators b s = s"
  by (induction s arbitrary: b) auto

lemma replace_unsafe_id: "\<forall>c \<in> set s. safe_char c \<Longrightarrow> replace_unsafe s = s"
  by (auto simp: replace_unsafe_def intro: map_idI)

lemma dropWhile_none: "\<forall>x \<in> set xs. \<not> p x \<Longrightarrow> dropWhile p xs = xs"
  by (cases xs) auto

lemma strip_underscores_id: "\<forall>c \<in> set s. c \<noteq> CHR ''_'' \<Longrightarrow> strip_underscores s = s"
  by (simp add: strip_underscores_def dropWhile_none)

lemma clean_id:
  "\<forall>c \<in> set s. safe_char c \<and> \<not> separator c \<Longrightarrow>
     strip_underscores (collapse_separators False (replace_unsafe s)) = s"
  by (simp add: replace_unsafe_id collapse_id strip_underscores_id separator_def)

text \<open>Letters are safe.\<close>

definition is_letter :: "char \<Rightarrow> bool" where
  "is_letter c = (is_ascii_lower c \<or> is_ascii_upper c)"

lemma letter_safe: "is_letter c \<or> c = CHR ''.'' \<Longrightarrow> safe_char c \<and> \<not> separator c \<and> plain_char c \<and> c \<noteq> CHR 0x00"
  by (auto simp: is_letter_def is_ascii_lower_def is_ascii_upper_def safe_char_def separator_def
      plain_char_def is_word_def is_space_def is_digit_def code_def)

lemma plain_lower: "plain_char c \<Longrightarrow> plain_char (lower_char c)"
  by (auto simp: plain_char_def is_word_def is_digit_def is_ascii_lower_def is_ascii_upper_def
      code_lower_char lower_char_def split: if_splits)

lemma letter_lower: "is_ascii_lower (lower_char c) \<Longrightarrow> is_letter c"
  by (auto simp: is_letter_def is_ascii_lower_def is_ascii_upper_def code_lower_char split: if_splits)

lemma allowed_suffix:
  assumes "lower (CHR ''.'' # e) \<in> set ALLOWED_EXTENSIONS"
  shows "e \<noteq> [] \<and> length e \<le> 4 \<and> (\<forall>c \<in> set e. is_letter c)"
proof -
  have "lower (CHR ''.'' # e) = lower_char (CHR ''.'') # lower e" by (simp add: lower_def)
  with assms have "lower e \<in> {''pdf'', ''txt'', ''md'', ''html'', ''htm''}"
    by (auto simp: ALLOWED_EXTENSIONS_def)
  then have "list_all is_ascii_lower (lower e) \<and> lower e \<noteq> [] \<and> length (lower e) \<le> 4"
    by (elim insertE emptyE; simp add: is_ascii_lower_def code_def)
  then show ?thesis by (auto simp: list_all_iff lower_def intro: letter_lower)
qed

text \<open>What the suffix check leaves of a name, and what sanitizing it gives.\<close>

lemma allowed_name:
  assumes "lower (path_suffix f) \<in> set ALLOWED_EXTENSIONS"
  obtains a e where "path_name f = a @ CHR ''.'' # e" and "path_suffix f = CHR ''.'' # e"
proof -
  have "snd (name_split (path_name f)) \<noteq> []"
    using assms by (auto simp: path_suffix_def ALLOWED_EXTENSIONS_def lower_def)
  then show ?thesis
    by (rule name_split_suffix) (rule that, simp_all add: path_suffix_def)
qed

lemma sanitized_form:
  assumes allowed: "lower (CHR ''.'' # e) \<in> set ALLOWED_EXTENSIONS"
    and base: "filter (\<lambda>c. c \<noteq> CHR 0x00) (basename f) = a @ CHR ''.'' # e"
    and result: "sanitize_filename f = Inr out"
  shows "\<exists>stem. out = stem @ lower (CHR ''.'' # e) \<and> length out \<le> 200 \<and> list_all plain_char stem
           \<or> out = CHR ''.'' # e"
proof -
  have e: "e \<noteq> []" "length e \<le> 4" "\<forall>c \<in> set e. is_letter c"
    using allowed_suffix [OF allowed] by auto
  then have no_dot: "CHR ''.'' \<notin> set e"
    by (auto simp: is_letter_def is_ascii_lower_def is_ascii_upper_def code_def)
  have "slash \<notin> set (filter (\<lambda>c. c \<noteq> CHR 0x00) (basename f))"
    using basename_no_slash [of f] by simp
  then have name: "path_name (a @ CHR ''.'' # e) = a @ CHR ''.'' # e"
    using base e(1) by (subst path_name_no_slash) (auto simp: append_eq_Cons_conv Cons_eq_append_conv)
  show ?thesis
  proof (cases "a = []")
    case True
    then have "strip_underscores (collapse_separators False (replace_unsafe (CHR ''.'' # e))) = CHR ''.'' # e"
      using e(3) letter_safe by (intro clean_id) auto
    moreover have "name_split (CHR ''.'' # e) = (CHR ''.'' # e, [])"
      using name_split_at [OF no_dot e(1), of "[]"] by simp
    ultimately show ?thesis
      using result e(2) name True
      by (auto simp: sanitize_filename_def Let_def base path_stem_def path_suffix_def lower_def
          upto_def MAX_FILENAME_LENGTH_def)
  next
    case False
    let ?clean = "strip_underscores (collapse_separators False (replace_unsafe a))"
    have "out = upto (int MAX_FILENAME_LENGTH - int (length (lower (CHR ''.'' # e)))) ?clean
                @ lower (CHR ''.'' # e)"
      using result name False
      by (simp add: sanitize_filename_def Let_def base path_stem_def path_suffix_def validation_error_def
          name_split_at [OF no_dot e(1)] split: if_splits)
    moreover have "upto (int MAX_FILENAME_LENGTH - int (length (lower (CHR ''.'' # e)))) ?clean
                     = take (199 - length e) ?clean"
      using e(2) by (simp add: upto_def MAX_FILENAME_LENGTH_def lower_def nat_diff_distrib)
    ultimately have "out = take (199 - length e) ?clean @ lower (CHR ''.'' # e)" by simp
    moreover have "length \<dots> \<le> 200" using e(2) by (simp add: lower_def)
    moreover have "list_all plain_char (take (199 - length e) ?clean)"
      by (auto simp: list_all_iff dest!: in_set_takeD clean_stem_plain)
    ultimately show ?thesis by blast
  qed
qed

text \<open>Validation lets through plain names of bounded length with an allowed extension.\<close>

lemma endswith_append [simp]: "endswith (s @ t) t"
  by (simp add: endswith_def startswith_def)

lemma validate_file_inversion:
  assumes "validate_file f nbytes mb = Inr out"
  shows "lower (path_suffix f) \<in> set ALLOWED_EXTENSIONS \<and> nbytes \<le> mb * 1024 * 1024
         \<and> sanitize_filename f = Inr out"
  using assms by (simp add: validate_file_def validation_error_def Let_def split: if_splits)

lemma sanitize_filename_empty: "basename f \<in> {[], ''.''} \<Longrightarrow> sanitize_filename f \<noteq> Inr out"
  by (auto simp: sanitize_filename_def Let_def path_stem_def path_name_def path_components_def
      name_split_def last_dot_def replace_unsafe_def strip_underscores_def validation_error_def)

lemma validate_file_form:
  assumes "validate_file f nbytes mb = Inr out"
  shows "\<exists>e. lower (CHR ''.'' # e) \<in> set ALLOWED_EXTENSIONS \<and>
           (\<exists>stem. out = stem @ lower (CHR ''.'' # e) \<and> length out \<le> 200 \<and> list_all plain_char stem
             \<or> out = CHR ''.'' # e)"
proof -
  note inv = validate_file_inversion [OF assms]
  have base: "basename f \<noteq> []" "basename f \<noteq> ''.''"
    using inv sanitize_filename_empty [of f out] by auto
  obtain a e where ae: "path_name f = a @ CHR ''.'' # e" "path_suffix f = CHR ''.'' # e"
    using allowed_name [of f] inv by metis
  have allowed: "lower (CHR ''.'' # e) \<in> set ALLOWED_EXTENSIONS" using inv ae(2) by simp
  have "filter (\<lambda>c. c \<noteq> CHR 0x00) e = e"
    using allowed_suffix [OF allowed] letter_safe by (auto intro!: filter_True)
  then have "filter (\<lambda>c. c \<noteq> CHR 0x00) (basename f) = filter (\<lambda>c. c \<noteq> CHR 0x00) a @ CHR ''.'' # e"
    using path_name_basename [OF base, symmetric] ae(1) by simp
  from sanitized_form [OF allowed this] inv allowed show ?thesis by blast
qed

text \<open>A file that passes validation is within the configured size and gets a name of at most
  200 characters, all of them word characters, dashes or dots (so no path separator, white space
  or NUL byte), which still ends in one of the allowed extensions.\<close>

theorem validate_file_safe:
  assumes "validate_file filename nbytes max_mb = Inr name"
  shows "length name \<le> 200 \<and> list_all plain_char name
         \<and> list_ex (endswith (lower name)) ALLOWED_EXTENSIONS \<and> nbytes \<le> max_mb * 1024 * 1024"
proof -
  obtain e stem where e: "lower (CHR ''.'' # e) \<in> set ALLOWED_EXTENSIONS"
    and form: "name = stem @ lower (CHR ''.'' # e) \<and> length name \<le> 200 \<and> list_all plain_char stem
               \<or> name = CHR ''.'' # e"
    using validate_file_form [OF assms] by blast
  note letters = allowed_suffix [OF e]
  have plain: "list_all plain_char (CHR ''.'' # e)" "list_all plain_char (lower (CHR ''.'' # e))"
    using letters letter_safe plain_lower by (auto simp: list_all_iff lower_def)
  have suffix: "endswith (lower name) (lower (CHR ''.'' # e))"
    using form endswith_append [of "[]"] by (auto simp: lower_append)
  then have "list_ex (endswith (lower name)) ALLOWED_EXTENSIONS"
    using e by (auto simp: list_ex_iff)
  with form plain letters validate_file_inversion [OF assms] show ?thesis by auto
qed

lemma validate_file_safe_witness:
  "validate_file ''../My report: v2.PDF'' 1048576 1 = Inr ''My_report_v2.pdf''
   \<and> length ''My_report_v2.pdf'' \<le> 200 \<and> list_all plain_char ''My_report_v2.pdf''"
proof -
  have "strip ''../My report: v2.PDF'' \<noteq> []" by code_simp
  moreover have "lower (path_suffix ''../My report: v2.PDF'') = ''.pdf''" by code_simp
  moreover have "sanitize_filename ''../My report: v2.PDF'' = Inr ''My_report_v2.pdf''" by code_simp
  ultimately have "validate_file ''../My report: v2.PDF'' 1048576 1 = Inr ''My_report_v2.pdf''"
    by (simp add: validate_file_def ALLOWED_EXTENSIONS_def)
  with validate_file_safe [OF this] show ?thesis by blast
qed

end
