(* ===== verification/Agents.thy ===== *)
theory Agents
  imports Display Config Oversight Sanitizer Enums
begin

text \<open>
  The optional agent: its providers (\<^verbatim>\<open>providers/\<close>), the choice between them
  (\<^verbatim>\<open>agents/registry.py\<close>), the minimized context of a request
  (\<^verbatim>\<open>agents/sanitizer.py\<close>), the local mode (\<^verbatim>\<open>agents/local_agent.py\<close>) and the
  four actions (\<^verbatim>\<open>agents/agent_service.py\<close>). A provider's adapter is a record whose
  \<open>ad_send\<close> may answer or raise anything.
\<close>

section \<open>Providers\<close>

record ProviderRequest =
  pq_purpose :: string
  pq_sanitized_context :: string
  pq_approved_by :: "string option"
  pq_max_tokens :: int
  pq_metadata :: "(string \<times> json) list"

record ProviderResponse =
  ps_provider_name :: string
  ps_content :: string
  ps_latency_ms :: rat
  ps_metadata :: "(string \<times> json) list"

record ProviderAdapter =
  ad_provider_name :: string
  ad_api_key :: string
  ad_model :: string
  ad_timeout_seconds :: rat
  ad_max_retries :: int
  ad_send :: "ProviderRequest \<Rightarrow> ProviderResponse result"

definition is_available :: "ProviderAdapter \<Rightarrow> bool" where
  "is_available adapter = (ad_api_key adapter \<noteq> [])"

text \<open>\<open>x or fallback\<close> on optional strings, and \<open>str\<close> being non-empty.\<close>

definition or_default :: "string option \<Rightarrow> string \<Rightarrow> string" where
  "or_default x fallback = (case x of None \<Rightarrow> fallback | Some s \<Rightarrow> if s = [] then fallback else s)"

definition stub_send :: "string \<Rightarrow> string \<Rightarrow> ProviderRequest \<Rightarrow> ProviderResponse result" where
  "stub_send class_name where_explained request =
     Inl (Err PyNotImplementedError
       (class_name @ ''.send() is a configuration-ready stub '' @ em_dash
        @ '' no real outbound API call is implemented, by design (see '' @ where_explained
        @ ''). agents/agent_service.py falls back to local mode when this is raised.''))"

definition OpenAIAdapter ::
  "string \<Rightarrow> string option \<Rightarrow> rat \<Rightarrow> int \<Rightarrow> ProviderAdapter result" where
  "OpenAIAdapter api_key model timeout_seconds max_retries =
     (if api_key = []
      then Inl (Err ProviderDisabledError ''OpenAIAdapter requires a non-empty api_key.'')
      else Inr \<lparr>ad_provider_name = ''openai'', ad_api_key = api_key,
             ad_model = or_default model ''gpt-4o-mini'', ad_timeout_seconds = timeout_seconds,
             ad_max_retries = max_retries,
             ad_send = stub_send ''OpenAIAdapter''
               (''this module'' @ [CHR 0x27] @ ''s own docstring'')\<rparr>)"

definition GeminiAdapter ::
  "string \<Rightarrow> string option \<Rightarrow> rat \<Rightarrow> int \<Rightarrow> ProviderAdapter result" where
  "GeminiAdapter api_key model timeout_seconds max_retries =
     (if api_key = []
      then Inl (Err ProviderDisabledError ''GeminiAdapter requires a non-empty api_key.'')
      else Inr \<lparr>ad_provider_name = ''gemini'', ad_api_key = api_key,
             ad_model = or_default model ''gemini-2.0-flash'', ad_timeout_seconds = timeout_seconds,
             ad_max_retries = max_retries,
             ad_send = stub_send ''GeminiAdapter''
               (''providers/openai_adapter.py'' @ [CHR 0x27] @ ''s module docstring'')\<rparr>)"

definition ClaudeAdapter ::
  "string \<Rightarrow> string option \<Rightarrow> rat \<Rightarrow> int \<Rightarrow> ProviderAdapter result" where
  "ClaudeAdapter api_key model timeout_seconds max_retries =
     (if api_key = []
      then Inl (Err ProviderDisabledError ''ClaudeAdapter requires a non-empty api_key.'')
      else Inr \<lparr>ad_provider_name = ''claude'', ad_api_key = api_key,
             ad_model = or_default model ''claude-sonnet-5'', ad_timeout_seconds = timeout_seconds,
             ad_max_retries = max_retries,
             ad_send = stub_send ''ClaudeAdapter''
               (''providers/openai_adapter.py'' @ [CHR 0x27] @ ''s module docstring'')\<rparr>)"

definition PROVIDER_NAMES :: "string list" where
  "PROVIDER_NAMES = [''openai'', ''gemini'', ''claude'']"

text \<open>One provider's own switch and key, and the adapter built when both are there.\<close>

definition when_configured ::
  "bool \<Rightarrow> string option \<Rightarrow> (string \<Rightarrow> ProviderAdapter result) \<Rightarrow> ProviderAdapter option result" where
  "when_configured enabled api_key build =
     (if \<not> (enabled \<and> truthy api_key) then Inr None
      else rbind (build (the api_key)) (\<lambda>adapter. Inr (Some adapter)))"

definition get_provider :: "string \<Rightarrow> Settings \<Rightarrow> ProviderAdapter option result" where
  "get_provider name st =
     (if name \<notin> set PROVIDER_NAMES then Inr None
      else if \<not> st_external_providers_enabled st then Inr None
      else if name = ''openai'' then
        when_configured (st_openai_enabled st) (st_openai_api_key st)
          (\<lambda>key. OpenAIAdapter key (st_agent_model_name st) (st_agent_timeout_seconds st)
             (st_agent_max_retries st))
      else if name = ''gemini'' then
        when_configured (st_gemini_enabled st) (st_gemini_api_key st)
          (\<lambda>key. GeminiAdapter key (st_agent_model_name st) (st_agent_timeout_seconds st)
             (st_agent_max_retries st))
      else if name = ''claude'' then
        when_configured (st_claude_enabled st) (st_claude_api_key st)
          (\<lambda>key. ClaudeAdapter key (st_agent_model_name st) (st_agent_timeout_seconds st)
             (st_agent_max_retries st))
      else Inr None)"

section \<open>Choosing a provider\<close>

record AgentProviderHandle =
  hn_name :: string
  hn_is_local :: bool
  hn_is_available :: bool
  hn_reason :: string
  hn_adapter :: "ProviderAdapter option"

definition local_handle :: "string \<Rightarrow> AgentProviderHandle" where
  "local_handle reason =
     \<lparr>hn_name = ''local'', hn_is_local = True, hn_is_available = True, hn_reason = reason,
      hn_adapter = None\<rparr>"

definition get_agent_provider :: "Settings \<Rightarrow> AgentProviderHandle result" where
  "get_agent_provider st =
     (if \<not> st_agent_enabled st
      then Inr (local_handle ''agent feature disabled by configuration (AGENT_ENABLED=false)'')
      else if st_agent_provider st = ''local''
      then Inr (local_handle ''local mode explicitly selected'')
      else if \<not> st_external_providers_enabled st
      then Inr (local_handle (''external providers disabled platform-wide ''
             @ ''(EXTERNAL_PROVIDERS_ENABLED=false); falling back to local''))
      else rbind (get_provider (st_agent_provider st) st) (\<lambda>found.
        case found of
          None \<Rightarrow> Inr (local_handle (''provider '' @ [CHR 0x27] @ st_agent_provider st @ [CHR 0x27]
                    @ '' is not fully configured (its own enable flag or API key is missing); ''
                    @ ''falling back to local''))
        | Some adapter \<Rightarrow>
            Inr \<lparr>hn_name = ad_provider_name adapter, hn_is_local = False,
                 hn_is_available = is_available adapter,
                 hn_reason = ad_provider_name adapter @ '' is configured and available'',
                 hn_adapter = Some adapter\<rparr>))"

definition provider_enabled :: "Settings \<Rightarrow> string \<Rightarrow> bool" where
  "provider_enabled st name =
     (if name = ''openai'' then st_openai_enabled st
      else if name = ''gemini'' then st_gemini_enabled st
      else if name = ''claude'' then st_claude_enabled st else False)"

definition provider_api_key :: "Settings \<Rightarrow> string \<Rightarrow> string option" where
  "provider_api_key st name =
     (if name = ''openai'' then st_openai_api_key st
      else if name = ''gemini'' then st_gemini_api_key st
      else if name = ''claude'' then st_claude_api_key st else None)"

definition validate_agent_configuration :: "Settings \<Rightarrow> string list" where
  "validate_agent_configuration st =
     (let name = st_agent_provider st in
      if name \<notin> {''local'', ''openai'', ''gemini'', ''claude''}
      then [''agent_provider='' @ py_repr name @ '' is not a recognized provider name'']
      else if \<not> st_agent_enabled st
      then [''AGENT_ENABLED is false '' @ em_dash @ '' the agent feature itself is off'']
      else if name = ''local'' then []
      else
        (if \<not> st_external_providers_enabled st
         then [''agent_provider='' @ py_repr name
                 @ '' was selected but EXTERNAL_PROVIDERS_ENABLED is false''] else [])
        @ (if \<not> provider_enabled st name then [upper name @ ''_ENABLED is false''] else [])
        @ (if \<not> truthy (provider_api_key st name) then [upper name @ ''_API_KEY is not set''] else []))"

section \<open>The minimized context\<close>

record AgentContext =
  ac_categories :: "string list"
  ac_sanitized_text :: string
  ac_char_count :: int
  ac_item_count :: int
  ac_truncated :: bool

record FindingForAgent =
  fa_finding_id :: string
  fa_rule_id :: string
  fa_severity :: string
  fa_confidence :: string
  fa_title :: string
  fa_masked_evidence :: string
  fa_description :: string
  fa_recommended_action :: string
  fa_source_relative_path :: string
  fa_line_start :: int
  fa_banking_domains :: "string list"

record DomainScoreForAgent =
  da_domain :: string
  da_decision_category :: string
  da_weighted_score :: "rat option"
  da_confidence_level :: string
  da_evidence_completeness :: string
  da_findings_count :: int
  da_files_evaluated :: int

definition sanitize :: "string \<Rightarrow> string" where
  "sanitize txt = redact_pii (sanitize_report txt)"

definition truncate_text :: "string \<Rightarrow> int \<Rightarrow> string \<times> bool" where
  "truncate_text txt max_chars =
     (if int (length txt) \<le> max_chars then (txt, False) else (upto max_chars txt, True))"

definition lines_text :: "string list \<Rightarrow> string" where
  "lines_text = join [newline]"

definition or_text :: "string \<Rightarrow> string \<Rightarrow> string" where
  "or_text s fallback = (if s = [] then fallback else s)"

definition finding_lines :: "FindingForAgent \<Rightarrow> string list" where
  "finding_lines f =
     [''Rule: '' @ fa_rule_id f,
      ''Severity: '' @ fa_severity f @ '' (confidence: '' @ fa_confidence f @ '')'',
      ''Title: '' @ fa_title f,
      ''Location: '' @ fa_source_relative_path f @ '':'' @ show_int (fa_line_start f),
      ''Banking domains: '' @ or_text (join '', '' (fa_banking_domains f)) ''none mapped'',
      ''Evidence (already masked): '' @ fa_masked_evidence f,
      ''Description: '' @ fa_description f,
      ''Recommended action (advisory only, never auto-applied): '' @ fa_recommended_action f]"

text \<open>The four lines of each builder that sanitize, cut and count.\<close>

definition minimized :: "string list \<Rightarrow> string \<Rightarrow> int \<Rightarrow> nat \<Rightarrow> bool \<Rightarrow> AgentContext" where
  "minimized categories raw max_chars item_count truncated_by_count =
     (let (txt, truncated_by_chars) = truncate_text (sanitize raw) max_chars
      in \<lparr>ac_categories = categories, ac_sanitized_text = txt, ac_char_count = int (length txt),
          ac_item_count = int item_count, ac_truncated = truncated_by_chars \<or> truncated_by_count\<rparr>)"

definition build_finding_context :: "FindingForAgent \<Rightarrow> int \<Rightarrow> AgentContext" where
  "build_finding_context f max_chars =
     minimized [''finding_detail''] (concat (map (\<lambda>line. line @ [newline]) (finding_lines f)))
       max_chars 1 False"

definition finding_line :: "FindingForAgent \<Rightarrow> string" where
  "finding_line f =
     ''- ['' @ fa_severity f @ ''] '' @ fa_rule_id f @ '': '' @ fa_title f @ '' (''
       @ fa_source_relative_path f @ '':'' @ show_int (fa_line_start f) @ '')''"

definition show_weighted :: "string \<Rightarrow> rat option \<Rightarrow> string" where
  "show_weighted none x = (case x of None \<Rightarrow> none | Some w \<Rightarrow> show_float w)"

definition build_domain_context ::
  "DomainScoreForAgent \<Rightarrow> FindingForAgent list \<Rightarrow> int \<Rightarrow> int \<Rightarrow> AgentContext" where
  "build_domain_context score findings max_chars max_items =
     (let limited = upto max_items findings
      in minimized [''domain_score'', ''finding_summary'']
           (lines_text
             ([''Domain: '' @ da_domain score,
               ''Decision category: '' @ da_decision_category score,
               ''Weighted score: ''
                 @ show_weighted ''N/A (insufficient evidence)'' (da_weighted_score score),
               ''Confidence: '' @ da_confidence_level score,
               ''Evidence completeness: '' @ da_evidence_completeness score,
               ''Findings count: '' @ show_int (da_findings_count score),
               ''Files evaluated: '' @ show_int (da_files_evaluated score),
               [],
               ''Findings included below: '' @ show_nat (length limited) @ '' of ''
                 @ show_int (da_findings_count score)]
              @ map finding_line limited))
           max_chars (length limited) (max_items < int (length findings)))"

definition build_question_context ::
  "string \<Rightarrow> string list \<Rightarrow> int \<Rightarrow> int \<Rightarrow> AgentContext result" where
  "build_question_context question evidence_snippets max_chars max_items =
     (let safety = check_prompt_safety question True
      in if sf_blocked safety
         then Inl (Err GovernanceError
                (''question rejected by prompt-safety check: '' @ sf_warning safety))
         else let limited = upto max_items evidence_snippets
         in Inr (minimized [''question'', ''retrieved_evidence'']
              (lines_text
                ([''Question: '' @ question, [], ''Retrieved evidence (sanitized):'']
                 @ map (\<lambda>(i, snippet). show_nat i @ ''. '' @ snippet) (enumerate 1 limited)))
              max_chars (length limited) (max_items < int (length evidence_snippets))))"

definition score_line :: "DomainScoreForAgent \<Rightarrow> string" where
  "score_line s =
     ''- '' @ da_domain s @ '': '' @ da_decision_category s @ '' (weighted score: ''
       @ show_weighted ''N/A'' (da_weighted_score s) @ '', findings: ''
       @ show_int (da_findings_count s) @ '')''"

definition build_executive_summary_context ::
  "DomainScoreForAgent list \<Rightarrow> int \<Rightarrow> int \<Rightarrow> AgentContext" where
  "build_executive_summary_context scores max_chars max_items =
     (let limited = upto max_items scores
      in minimized [''domain_score_overview'']
           (lines_text
             ([''Domains included below: '' @ show_nat (length limited) @ '' of ''
                 @ show_nat (length scores), []]
              @ map score_line limited))
           max_chars (length limited) (max_items < int (length scores)))"

section \<open>Local mode\<close>

definition blank_line :: string where
  "blank_line = [newline, newline]"

definition generate_local_response :: "AgentActionType \<Rightarrow> AgentContext \<Rightarrow> string" where
  "generate_local_response action context =
     (''[Local deterministic mode '' @ em_dash
        @ '' no external AI provider was used for this response]'') @ blank_line
     @ (if action = AgentActionType.ANSWER_QUESTION
        then ''Local mode cannot synthesize a natural-language answer to a free-text question ''
               @ em_dash
               @ '' that requires an external provider (currently disabled or unavailable). Below is ''
               @ ''the exact sanitized, size-limited context that would have been sent if one were ''
               @ ''enabled:'' @ blank_line @ ac_sanitized_text context
        else ''Local mode presents the sanitized, already-deterministic assessment data directly, ''
               @ ''rather than generating new prose. Enable and select an external provider to receive ''
               @ ''a natural-language version of the same, size-limited context:'' @ blank_line
               @ ac_sanitized_text context)
     @ (if ac_truncated context
        then blank_line
               @ ''[Note: this context was truncated to stay within the configured size/item limits.]''
        else [])"

section \<open>The agent's actions\<close>

definition ADVISORY_DISCLAIMER :: string where
  "ADVISORY_DISCLAIMER =
     ''AI-assisted, advisory only. Non-deterministic. Not a scanner finding, not a score, ''
     @ ''and not an approval or compliance decision '' @ em_dash @ '' deterministic findings, scores, and ''
     @ ''governance status are unaffected by this output.''"

record AgentResponse =
  rp_action :: AgentActionType
  rp_provider_name :: string
  rp_is_local :: bool
  rp_success :: bool
  rp_content :: string
  rp_disclaimer :: string
  rp_is_advisory :: bool
  rp_error :: "string option"
  rp_model_name :: "string option"
  rp_latency_ms :: rat
  rp_context_categories :: "string list"
  rp_metadata :: "(string \<times> json) list"

definition agent_request :: "AgentActionType \<Rightarrow> AgentContext \<Rightarrow> Settings \<Rightarrow> ProviderRequest" where
  "agent_request action context st =
     \<lparr>pq_purpose = AgentActionType_value action,
      pq_sanitized_context = ac_sanitized_text context, pq_approved_by = None,
      pq_max_tokens = st_agent_max_context_chars st,
      pq_metadata = (if truthy (st_agent_model_name st)
        then [(''model'', JStr (the (st_agent_model_name st)))] else [])\<rparr>"

text \<open>\<open>_run\<close>; \<open>elapsed\<close> is the time that the monotonic clock measures, in milliseconds.\<close>

definition run_agent ::
  "AgentActionType \<Rightarrow> AgentContext \<Rightarrow> AgentProviderHandle \<Rightarrow> Settings \<Rightarrow> rat \<Rightarrow> AgentResponse" where
  "run_agent action context handle st elapsed =
     (case (if hn_is_local handle then None else hn_adapter handle) of
        None \<Rightarrow>
          \<lparr>rp_action = action, rp_provider_name = ''local'', rp_is_local = True, rp_success = True,
           rp_content = generate_local_response action context,
           rp_disclaimer = ADVISORY_DISCLAIMER, rp_is_advisory = True, rp_error = None,
           rp_model_name = None, rp_latency_ms = elapsed,
           rp_context_categories = ac_categories context,
           rp_metadata = [(''reason'', JStr (hn_reason handle)),
             (''context_char_count'', JInt (ac_char_count context)),
             (''context_truncated'', JBool (ac_truncated context))]\<rparr>
      | Some adapter \<Rightarrow>
          (case ad_send adapter (agent_request action context st) of
             Inr response \<Rightarrow>
               \<lparr>rp_action = action, rp_provider_name = hn_name handle, rp_is_local = False,
                rp_success = True, rp_content = ps_content response,
                rp_disclaimer = ADVISORY_DISCLAIMER, rp_is_advisory = True, rp_error = None,
                rp_model_name = st_agent_model_name st, rp_latency_ms = ps_latency_ms response,
                rp_context_categories = ac_categories context,
                rp_metadata = [(''context_char_count'', JInt (ac_char_count context)),
                  (''context_truncated'', JBool (ac_truncated context))]\<rparr>
           | Inl e \<Rightarrow>
               \<lparr>rp_action = action, rp_provider_name = hn_name handle, rp_is_local = True,
                rp_success = False, rp_content = generate_local_response action context,
                rp_disclaimer = ADVISORY_DISCLAIMER, rp_is_advisory = True,
                rp_error = Some (upto 300 (sanitize_report (err_msg e))),
                rp_model_name = st_agent_model_name st, rp_latency_ms = elapsed,
                rp_context_categories = ac_categories context,
                rp_metadata = [(''attempted_provider'', JStr (hn_name handle)),
                  (''context_char_count'', JInt (ac_char_count context))]\<rparr>))"

definition explain_finding :: "Settings \<Rightarrow> FindingForAgent \<Rightarrow> rat \<Rightarrow> AgentResponse result" where
  "explain_finding st f elapsed =
     (let context = build_finding_context f (st_agent_max_context_chars st)
      in rbind (get_agent_provider st) (\<lambda>handle.
           Inr (run_agent AgentActionType.EXPLAIN_FINDING context handle st elapsed)))"

definition summarize_domain ::
  "Settings \<Rightarrow> DomainScoreForAgent \<Rightarrow> FindingForAgent list \<Rightarrow> rat \<Rightarrow> AgentResponse result" where
  "summarize_domain st score findings elapsed =
     (let context = build_domain_context score findings (st_agent_max_context_chars st)
                      (st_agent_max_evidence_items st)
      in rbind (get_agent_provider st) (\<lambda>handle.
           Inr (run_agent AgentActionType.SUMMARIZE_DOMAIN context handle st elapsed)))"

definition answer_question ::
  "Settings \<Rightarrow> string \<Rightarrow> string list \<Rightarrow> rat \<Rightarrow> AgentResponse result" where
  "answer_question st question evidence_snippets elapsed =
     rbind (build_question_context question evidence_snippets (st_agent_max_context_chars st)
              (st_agent_max_evidence_items st)) (\<lambda>context.
       rbind (get_agent_provider st) (\<lambda>handle.
         Inr (run_agent AgentActionType.ANSWER_QUESTION context handle st elapsed)))"

definition generate_executive_summary ::
  "Settings \<Rightarrow> DomainScoreForAgent list \<Rightarrow> rat \<Rightarrow> AgentResponse result" where
  "generate_executive_summary st scores elapsed =
     (let context = build_executive_summary_context scores (st_agent_max_context_chars st)
                      (st_agent_max_evidence_items st)
      in rbind (get_agent_provider st) (\<lambda>handle.
           Inr (run_agent AgentActionType.EXECUTIVE_SUMMARY context handle st elapsed)))"

section \<open>Facts\<close>

named_theorems adapter_defs \<comment> \<open>the three adapters\<close>

lemmas [adapter_defs] = OpenAIAdapter_def GeminiAdapter_def ClaudeAdapter_def when_configured_def
  truthy_def

text \<open>The registry never raises: an adapter is built only from a key.\<close>

definition opted_in :: "Settings \<Rightarrow> bool" where
  "opted_in st =
     (st_agent_enabled st \<and> st_external_providers_enabled st
      \<and> st_agent_provider st \<in> set PROVIDER_NAMES
      \<and> provider_enabled st (st_agent_provider st)
      \<and> truthy (provider_api_key st (st_agent_provider st)))"

lemma get_provider_cases:
  "get_provider name st =
     (if st_external_providers_enabled st \<and> name \<in> set PROVIDER_NAMES \<and> provider_enabled st name
           \<and> truthy (provider_api_key st name)
      then Inr (Some \<lparr>ad_provider_name = name, ad_api_key = the (provider_api_key st name),
        ad_model = or_default (st_agent_model_name st)
          (if name = ''openai'' then ''gpt-4o-mini''
           else if name = ''gemini'' then ''gemini-2.0-flash'' else ''claude-sonnet-5''),
        ad_timeout_seconds = st_agent_timeout_seconds st,
        ad_max_retries = st_agent_max_retries st,
        ad_send = (if name = ''openai''
           then stub_send ''OpenAIAdapter'' (''this module'' @ [CHR 0x27] @ ''s own docstring'')
           else stub_send (if name = ''gemini'' then ''GeminiAdapter'' else ''ClaudeAdapter'')
             (''providers/openai_adapter.py'' @ [CHR 0x27] @ ''s module docstring''))\<rparr>)
      else Inr None)"
  by (auto simp: get_provider_def PROVIDER_NAMES_def provider_enabled_def provider_api_key_def
      adapter_defs split: option.splits)

lemma get_agent_provider_cases:
  "\<exists>handle. get_agent_provider st = Inr handle
     \<and> (if opted_in st
        then \<not> hn_is_local handle \<and> hn_name handle = st_agent_provider st
             \<and> (\<exists>adapter. hn_adapter handle = Some adapter
                  \<and> ad_provider_name adapter = st_agent_provider st \<and> is_available adapter)
        else hn_is_local handle \<and> hn_name handle = ''local'' \<and> hn_adapter handle = None)"
  by (auto simp: get_agent_provider_def get_provider_cases opted_in_def local_handle_def
      is_available_def truthy_def PROVIDER_NAMES_def split: option.splits)

lemma agent_provider_exists: "\<exists>handle. get_agent_provider st = Inr handle"
  using get_agent_provider_cases [of st] by blast

lemma validate_silent:
  "validate_agent_configuration st = [] \<longleftrightarrow>
     st_agent_enabled st \<and> (st_agent_provider st = ''local'' \<or> opted_in st)"
  by (auto simp: validate_agent_configuration_def opted_in_def PROVIDER_NAMES_def Let_def)

text \<open>C23: Nothing leaves the platform unless it was asked for: the agent gets an external provider's
  adapter exactly when the agent, external providers and that provider are switched on and its
  key is set; otherwise it runs locally, and choosing never fails. The configuration check is
  silent exactly when the agent is on and runs on the provider that was configured.\<close>

theorem external_provider_needs_opt_in:
  "\<exists>handle. get_agent_provider st = Inr handle
     \<and> (hn_adapter handle \<noteq> None \<longleftrightarrow>
          st_agent_enabled st \<and> st_external_providers_enabled st
          \<and> st_agent_provider st \<in> set PROVIDER_NAMES
          \<and> provider_enabled st (st_agent_provider st)
          \<and> truthy (provider_api_key st (st_agent_provider st)))
     \<and> (hn_is_local handle \<longleftrightarrow> hn_adapter handle = None)
     \<and> (validate_agent_configuration st = [] \<longleftrightarrow>
          st_agent_enabled st \<and> hn_name handle = st_agent_provider st)"
proof -
  obtain handle where handle: "get_agent_provider st = Inr handle"
    "if opted_in st
     then \<not> hn_is_local handle \<and> hn_name handle = st_agent_provider st
          \<and> (\<exists>adapter. hn_adapter handle = Some adapter
               \<and> ad_provider_name adapter = st_agent_provider st \<and> is_available adapter)
     else hn_is_local handle \<and> hn_name handle = ''local'' \<and> hn_adapter handle = None"
    using get_agent_provider_cases [of st] by blast
  then have "(hn_adapter handle \<noteq> None \<longleftrightarrow> opted_in st)
      \<and> (hn_is_local handle \<longleftrightarrow> hn_adapter handle = None)
      \<and> (opted_in st \<longrightarrow> hn_name handle = st_agent_provider st)
      \<and> (\<not> opted_in st \<longrightarrow> hn_name handle = ''local'')"
    by (cases "opted_in st") auto
  moreover have "validate_agent_configuration st = [] \<longleftrightarrow>
      st_agent_enabled st \<and> (st_agent_provider st = ''local'' \<or> opted_in st)"
    by (rule validate_silent)
  moreover have "opted_in st \<Longrightarrow> st_agent_enabled st" by (simp add: opted_in_def)
  ultimately have "(hn_adapter handle \<noteq> None \<longleftrightarrow> opted_in st)
      \<and> (hn_is_local handle \<longleftrightarrow> hn_adapter handle = None)
      \<and> (validate_agent_configuration st = [] \<longleftrightarrow>
           st_agent_enabled st \<and> hn_name handle = st_agent_provider st)"
    by (cases "opted_in st") (simp_all add: eq_commute [of "''local''"])
  with handle(1) show ?thesis unfolding opted_in_def [symmetric]
    by (intro exI [of _ handle]) simp
qed

text \<open>What a context holds of its text.\<close>

definition within_limits :: "int \<Rightarrow> int \<Rightarrow> AgentContext \<Rightarrow> bool" where
  "within_limits max_chars max_items context =
     (ac_char_count context = int (length (ac_sanitized_text context))
      \<and> ac_char_count context \<le> max_chars \<and> ac_item_count context \<le> max_items)"

lemma truncate_text_limits:
  "0 \<le> max_chars \<Longrightarrow> int (length (fst (truncate_text txt max_chars))) \<le> max_chars"
  by (simp add: truncate_text_def length_upto)

lemma minimized_within_limits:
  "0 \<le> max_chars \<Longrightarrow> int k \<le> max_items \<Longrightarrow>
     within_limits max_chars max_items (minimized categories raw max_chars k by_count)"
  using truncate_text_limits [of max_chars "sanitize raw"]
  by (simp add: within_limits_def minimized_def split_beta)

lemma minimized_prefix:
  "prefix (ac_sanitized_text (minimized categories raw max_chars k by_count)) (sanitize raw)"
  by (simp add: minimized_def truncate_text_def prefix_upto)

lemma minimized_complete:
  "\<not> ac_truncated (minimized categories raw max_chars k by_count) \<Longrightarrow>
     ac_sanitized_text (minimized categories raw max_chars k by_count) = sanitize raw"
  by (auto simp: minimized_def truncate_text_def split_beta split: if_splits)

lemma minimized_truncated [simp]:
  "ac_truncated (minimized categories raw max_chars k by_count)
     \<longleftrightarrow> max_chars < int (length (sanitize raw)) \<or> by_count"
  by (simp add: minimized_def truncate_text_def split_beta)

lemma minimized_items [simp]:
  "ac_item_count (minimized categories raw max_chars k by_count) = int k"
  by (simp add: minimized_def split_beta)

lemma lines_text_Cons:
  "lines_text (x # xs) = x @ (if xs = [] then [] else newline # lines_text xs)"
  by (cases xs) (simp_all add: lines_text_def join_def)

lemma lines_text_member: "x \<in> set xs \<Longrightarrow> \<exists>before after. lines_text xs = before @ x @ after"
proof (induction xs)
  case (Cons y ys)
  show ?case
  proof (cases "x \<in> set ys")
    case True
    with Cons.IH obtain before after where "lines_text ys = before @ x @ after" by blast
    with True have "lines_text (y # ys) = (y @ newline # before) @ x @ after"
      by (auto simp: lines_text_Cons)
    then show ?thesis by blast
  next
    case False
    with Cons.prems have "lines_text (y # ys) = [] @ x @ (if ys = [] then [] else newline # lines_text ys)"
      by (simp add: lines_text_Cons)
    then show ?thesis by blast
  qed
qed simp

lemma upto_items: "0 \<le> max_items \<Longrightarrow> int (length (upto max_items xs)) \<le> max_items"
  by (simp add: length_upto)

lemma upto_all_items: "0 \<le> max_items \<Longrightarrow> \<not> max_items < int (length xs) \<Longrightarrow> upto max_items xs = xs"
  by (simp add: upto_all)

lemmas context_defs = build_finding_context_def build_domain_context_def
  build_executive_summary_context_def build_question_context_def Let_def

lemma question_context_Inr:
  "build_question_context question snippets max_chars max_items = Inr context \<Longrightarrow>
     context = minimized [''question'', ''retrieved_evidence'']
       (lines_text ([''Question: '' @ question, [], ''Retrieved evidence (sanitized):'']
          @ map (\<lambda>(i, snippet). show_nat i @ ''. '' @ snippet) (enumerate 1 (upto max_items snippets))))
       max_chars (length (upto max_items snippets)) (max_items < int (length snippets))"
  by (auto simp: build_question_context_def Let_def split: if_splits)

lemma domain_context_form:
  obtains header where "build_domain_context score findings max_chars max_items =
    minimized [''domain_score'', ''finding_summary'']
      (lines_text (header @ map finding_line (upto max_items findings))) max_chars
      (length (upto max_items findings)) (max_items < int (length findings))"
  unfolding build_domain_context_def Let_def by blast

lemma domain_context_complete:
  assumes "\<not> ac_truncated (build_domain_context score findings max_chars max_items)"
    and "0 \<le> max_items" and "f \<in> set findings"
  shows "\<exists>before after. ac_sanitized_text (build_domain_context score findings max_chars max_items)
           = sanitize (before @ finding_line f @ after)"
proof -
  obtain header where form: "build_domain_context score findings max_chars max_items =
    minimized [''domain_score'', ''finding_summary'']
      (lines_text (header @ map finding_line (upto max_items findings))) max_chars
      (length (upto max_items findings)) (max_items < int (length findings))"
    by (rule domain_context_form)
  with assms(1,2) have "ac_sanitized_text (build_domain_context score findings max_chars max_items)
      = sanitize (lines_text (header @ map finding_line findings))"
    by (metis minimized_complete minimized_truncated upto_all_items)
  moreover obtain before after where
    "lines_text (header @ map finding_line findings) = before @ finding_line f @ after"
    using assms(3) lines_text_member [of "finding_line f" "header @ map finding_line findings"] by auto
  ultimately show ?thesis by metis
qed



section \<open>Answers\<close>

text \<open>A response that holds nothing but the local text, and says whether a provider was tried.\<close>

definition answers_locally ::
  "Settings \<Rightarrow> AgentActionType \<Rightarrow> AgentContext \<Rightarrow> AgentResponse \<Rightarrow> bool" where
  "answers_locally st action context response =
     (rp_action response = action \<and> rp_is_advisory response \<and> rp_is_local response
      \<and> rp_content response = generate_local_response action context
      \<and> (rp_success response \<longleftrightarrow> \<not> opted_in st)
      \<and> rp_provider_name response = (if opted_in st then st_agent_provider st else ''local'')
      \<and> (case rp_error response of None \<Rightarrow> rp_success response
         | Some message \<Rightarrow> \<not> rp_success response \<and> length message \<le> 300))"

lemma adapters_are_stubs:
  assumes "get_provider name st = Inr (Some adapter)"
  shows "\<exists>message. ad_send adapter request = Inl (Err PyNotImplementedError message)"
  using assms by (auto simp: get_provider_cases stub_send_def split: if_splits)

lemma handle_adapter:
  "get_agent_provider st = Inr handle \<Longrightarrow> hn_adapter handle = Some adapter \<Longrightarrow>
     get_provider (st_agent_provider st) st = Inr (Some adapter)"
  by (auto simp: get_agent_provider_def local_handle_def rbind_Inr_iff split: if_splits option.splits)

lemma run_agent_raising:
  assumes "\<not> hn_is_local handle" and "hn_adapter handle = Some adapter"
    and "ad_send adapter (agent_request action context st) = Inl e"
  shows "rp_action (run_agent action context handle st elapsed) = action"
    and "rp_is_advisory (run_agent action context handle st elapsed)"
    and "rp_is_local (run_agent action context handle st elapsed)"
    and "\<not> rp_success (run_agent action context handle st elapsed)"
    and "rp_provider_name (run_agent action context handle st elapsed) = hn_name handle"
    and "rp_content (run_agent action context handle st elapsed) = generate_local_response action context"
    and "rp_error (run_agent action context handle st elapsed) = Some (upto 300 (sanitize_report (err_msg e)))"
  using assms by (simp_all add: run_agent_def)

lemma run_agent_local:
  assumes "hn_is_local handle"
  shows "rp_action (run_agent action context handle st elapsed) = action"
    and "rp_is_advisory (run_agent action context handle st elapsed)"
    and "rp_is_local (run_agent action context handle st elapsed)"
    and "rp_success (run_agent action context handle st elapsed)"
    and "rp_provider_name (run_agent action context handle st elapsed) = ''local''"
    and "rp_content (run_agent action context handle st elapsed) = generate_local_response action context"
    and "rp_error (run_agent action context handle st elapsed) = None"
  using assms by (simp_all add: run_agent_def)

lemma run_agent_answers:
  assumes "get_agent_provider st = Inr handle"
  shows "answers_locally st action context (run_agent action context handle st elapsed)"
proof (cases "opted_in st")
  case True
  then obtain adapter where external: "\<not> hn_is_local handle" "hn_name handle = st_agent_provider st"
    "hn_adapter handle = Some adapter"
    using get_agent_provider_cases [of st] assms by auto
  then obtain message where
    "ad_send adapter (agent_request action context st) = Inl (Err PyNotImplementedError message)"
    using adapters_are_stubs handle_adapter [OF assms] by blast
  from run_agent_raising [OF external(1,3) this] show ?thesis
    using True external(2) by (simp add: answers_locally_def length_upto)
next
  case False
  then have "hn_is_local handle"
    using get_agent_provider_cases [of st] assms by auto
  from run_agent_local [OF this] show ?thesis
    using False by (simp add: answers_locally_def)
qed

lemma asked_locally:
  "\<exists>response. rbind (get_agent_provider st) (\<lambda>handle. Inr (run_agent action context handle st elapsed))
      = Inr response \<and> answers_locally st action context response"
  using agent_provider_exists [of st] run_agent_answers by fastforce

text \<open>C25: The agent never fails an assessment and never lets a provider's text in, whatever is
  configured: explaining, summarizing and answering return a local, advisory response, marked
  as failed with a short sanitized error exactly when an external provider was opted into. The
  only refusal is of a question with a suspicious phrase, before any provider is chosen.\<close>

theorem agent_answers_locally:
  "(\<exists>response. explain_finding st finding elapsed = Inr response
      \<and> answers_locally st AgentActionType.EXPLAIN_FINDING
          (build_finding_context finding (st_agent_max_context_chars st)) response)
   \<and> (\<exists>response. summarize_domain st score findings elapsed = Inr response
      \<and> answers_locally st AgentActionType.SUMMARIZE_DOMAIN
          (build_domain_context score findings (st_agent_max_context_chars st)
             (st_agent_max_evidence_items st)) response)
   \<and> (\<exists>response. generate_executive_summary st scores elapsed = Inr response
      \<and> answers_locally st AgentActionType.EXECUTIVE_SUMMARY
          (build_executive_summary_context scores (st_agent_max_context_chars st)
             (st_agent_max_evidence_items st)) response)
   \<and> (if list_ex (contains (lower question)) SUSPICIOUS_PATTERNS
      then \<exists>message. answer_question st question snippets elapsed = Inl (Err GovernanceError message)
      else \<exists>context response.
        build_question_context question snippets (st_agent_max_context_chars st)
          (st_agent_max_evidence_items st) = Inr context
        \<and> answer_question st question snippets elapsed = Inr response
        \<and> answers_locally st AgentActionType.ANSWER_QUESTION context response)"
proof (intro conjI)
  have blocked: "sf_blocked (check_prompt_safety question True)
      \<longleftrightarrow> list_ex (contains (lower question)) SUSPICIOUS_PATTERNS"
    by (simp add: check_prompt_safety_blocked list_ex_iff)
  show "if list_ex (contains (lower question)) SUSPICIOUS_PATTERNS
      then \<exists>message. answer_question st question snippets elapsed = Inl (Err GovernanceError message)
      else \<exists>context response.
        build_question_context question snippets (st_agent_max_context_chars st)
          (st_agent_max_evidence_items st) = Inr context
        \<and> answer_question st question snippets elapsed = Inr response
        \<and> answers_locally st AgentActionType.ANSWER_QUESTION context response"
    unfolding answer_question_def build_question_context_def Let_def blocked
    using asked_locally [of st AgentActionType.ANSWER_QUESTION _ elapsed] by simp
qed (simp_all only: explain_finding_def summarize_domain_def generate_executive_summary_def Let_def
    asked_locally)

end
