(* ===== verification/AgentService.thy ===== *)
theory AgentService
  imports Agents Assessment
begin

text \<open>
  The agent on stored assessments (\<^verbatim>\<open>ui/services/agent_ui_service.py\<close>): the four actions read
  findings and scores, ask the agent and record one audit event; nothing else is written. Every
  operation takes the time its provider took (\<open>elapsed\<close>).
\<close>

section \<open>Operations\<close>

definition finding_for_agent :: "Finding \<Rightarrow> FindingForAgent" where
  "finding_for_agent row =
     \<lparr>fa_finding_id = fd_id row, fa_rule_id = fd_rule_id row, fa_severity = fd_severity row,
      fa_confidence = fd_confidence row, fa_title = fd_title row,
      fa_masked_evidence = fd_masked_evidence row, fa_description = fd_description row,
      fa_recommended_action = fd_recommended_action row,
      fa_source_relative_path = fd_source_relative_path row, fa_line_start = fd_line_start row,
      fa_banking_domains = fd_banking_domains row\<rparr>"

definition domain_score_for_agent :: "Score \<Rightarrow> DomainScoreForAgent" where
  "domain_score_for_agent row =
     \<lparr>da_domain = so_domain row, da_decision_category = so_decision_category row,
      da_weighted_score = so_weighted_score row, da_confidence_level = so_confidence_level row,
      da_evidence_completeness = so_evidence_completeness row,
      da_findings_count = so_findings_count row, da_files_evaluated = so_files_evaluated row\<rparr>"

definition agent_event :: "string \<Rightarrow> string \<Rightarrow> AgentResponse \<Rightarrow> AuditEventInput" where
  "agent_event scan_id triggered_by response =
     \<lparr>ai_event_type = AuditEventType_value AuditEventType.AGENT_ACTION, ai_actor = triggered_by,
      ai_summary = ''Agent action '' @ [CHR 0x27] @ AgentActionType_value (rp_action response)
        @ [CHR 0x27] @ '' via provider '' @ [CHR 0x27] @ rp_provider_name response @ [CHR 0x27]
        @ '' ('' @ (if rp_success response then ''success'' else ''failed, fell back to local'') @ '')'',
      ai_scan_id = Some scan_id,
      ai_payload = [(''action'', JStr (AgentActionType_value (rp_action response))),
        (''provider'', JStr (rp_provider_name response)),
        (''is_local'', JBool (rp_is_local response)),
        (''model'', json_opt_str (rp_model_name response)),
        (''success'', JBool (rp_success response)),
        (''error'', json_opt_str (rp_error response)),
        (''context_categories'', JList (map JStr (rp_context_categories response))),
        (''user_triggered'', JBool True)]\<rparr>"

text \<open>Recording the response and returning it, as every action ends.\<close>

definition record_response ::
  "string \<Rightarrow> string \<Rightarrow> AgentResponse result \<Rightarrow> AgentResponse op" where
  "record_response scan_id triggered_by asked s =
     (case asked of
        Inl e \<Rightarrow> (Inl e, s)
      | Inr response \<Rightarrow>
          and_then (record_event (agent_event scan_id triggered_by response) s)
            (\<lambda>_ s. (Inr response, s)))"

definition found :: "'a op \<Rightarrow> 'a option op" where
  "found body s = and_then (body s) (\<lambda>a s. (Inr (Some a), s))"

record AgentStatus =
  gs_agent_enabled :: bool
  gs_provider :: string
  gs_is_local :: bool
  gs_reason :: string
  gs_warnings :: "string list"

definition get_agent_status :: "Settings \<Rightarrow> AgentStatus result" where
  "get_agent_status st =
     rbind (get_agent_provider st) (\<lambda>handle.
       Inr \<lparr>gs_agent_enabled = st_agent_enabled st, gs_provider = hn_name handle,
            gs_is_local = hn_is_local handle, gs_reason = hn_reason handle,
            gs_warnings = validate_agent_configuration st\<rparr>)"

definition agent_explain_finding ::
  "Settings \<Rightarrow> string \<Rightarrow> string \<Rightarrow> string \<Rightarrow> rat \<Rightarrow> platform \<Rightarrow> AgentResponse option result \<times> platform" where
  "agent_explain_finding st scan_id finding_id triggered_by elapsed =
     service_session st (\<lambda>s.
       case get_row fd_id finding_id (db_findings (ss_work s)) of
         None \<Rightarrow> (Inr None, s)
       | Some row \<Rightarrow>
           if fd_scan_id row \<noteq> scan_id then (Inr None, s)
           else found (record_response scan_id triggered_by
                  (explain_finding st (finding_for_agent row) elapsed)) s)"

definition agent_summarize_domain ::
  "Settings \<Rightarrow> string \<Rightarrow> string \<Rightarrow> string \<Rightarrow> rat \<Rightarrow> platform \<Rightarrow> AgentResponse option result \<times> platform" where
  "agent_summarize_domain st scan_id domain triggered_by elapsed =
     service_session st (\<lambda>s.
       case filter (\<lambda>row. so_domain row = domain) (scores_for_scan scan_id (ss_work s)) of
         [] \<Rightarrow> (Inr None, s)
       | score # _ \<Rightarrow>
           found (record_response scan_id triggered_by
             (summarize_domain st (domain_score_for_agent score)
                (map finding_for_agent (filter (\<lambda>f. domain \<in> set (fd_banking_domains f))
                   (findings_for_scan scan_id (ss_work s)))) elapsed)) s)"

definition agent_answer_question ::
  "Settings \<Rightarrow> string \<Rightarrow> string \<Rightarrow> string \<Rightarrow> string list option \<Rightarrow> rat \<Rightarrow> platform
     \<Rightarrow> AgentResponse result \<times> platform" where
  "agent_answer_question st scan_id question triggered_by evidence_finding_ids elapsed =
     service_session st (\<lambda>s.
       let findings = findings_for_scan scan_id (ss_work s);
           chosen = (case evidence_finding_ids of
             None \<Rightarrow> findings
           | Some ids \<Rightarrow> if ids = [] then findings
               else filter (\<lambda>f. fd_id f \<in> set ids) findings);
           snippets = map (\<lambda>f. ''['' @ fd_rule_id f @ ''] '' @ fd_title f @ '': ''
             @ fd_masked_evidence f) chosen
       in record_response scan_id triggered_by (answer_question st question snippets elapsed) s)"

definition agent_executive_summary ::
  "Settings \<Rightarrow> string \<Rightarrow> string \<Rightarrow> rat \<Rightarrow> platform \<Rightarrow> AgentResponse result \<times> platform" where
  "agent_executive_summary st scan_id triggered_by elapsed =
     service_session st (\<lambda>s.
       record_response scan_id triggered_by
         (generate_executive_summary st
            (map domain_score_for_agent (scores_for_scan scan_id (ss_work s))) elapsed) s)"

section \<open>Facts\<close>

text \<open>The store after an action: one event of the caller if there was an answer, nothing else.\<close>

definition audited_only :: "string \<Rightarrow> string \<Rightarrow> bool \<Rightarrow> platform \<Rightarrow> platform \<Rightarrow> bool" where
  "audited_only actor scan_id answered before after =
     (\<exists>events. pf_store after = (pf_store before)\<lparr>db_audit_events := db_audit_events (pf_store before) @ events\<rparr>
        \<and> length events = (if answered then 1 else 0)
        \<and> list_all (\<lambda>e. ae_event_type e = AuditEventType_value AuditEventType.AGENT_ACTION
             \<and> ae_actor e = actor \<and> ae_scan_id e = Some scan_id) events)"

lemma audited_nothing: "pf_store after = pf_store before \<Longrightarrow> audited_only actor scan_id False before after"
  by (simp add: audited_only_def)

lemma audited_unused [simp]: "audited_only actor scan_id False pf pf"
  by (simp add: audited_only_def)

lemma record_response_audits:
  assumes "record_response scan_id actor asked (begin_session pf) = (r, s)"
  shows "audited_only actor scan_id (\<exists>a. r = Inr a) pf (platform.truncate s)"
proof (cases asked)
  case (Inl e)
  with assms show ?thesis
    by (auto simp: record_response_def begin_session_def platform.defs intro!: audited_nothing)
next
  case (Inr response)
  show ?thesis
  proof (cases "strip actor = []")
    case True
    with Inr assms show ?thesis
      by (auto simp: record_response_def record_event_eq agent_event_def begin_session_def
          platform.defs intro!: audited_nothing)
  next
    case False
    let ?event = "agent_event scan_id actor response"
    from Inr False assms have "r = Inr response" and s: "s = with_event ?event (begin_session pf)"
      by (auto simp: record_response_def record_event_eq agent_event_def)
    moreover have "pf_store (platform.truncate s) = (pf_store pf)\<lparr>db_audit_events :=
        db_audit_events (pf_store pf) @ [audit_entry ?event (begin_session pf)]\<rparr>"
      unfolding s by (simp add: platform.defs begin_session_def)
    moreover have "ae_event_type (audit_entry ?event (begin_session pf)) = AuditEventType_value AuditEventType.AGENT_ACTION
        \<and> ae_actor (audit_entry ?event (begin_session pf)) = actor
        \<and> ae_scan_id (audit_entry ?event (begin_session pf)) = Some scan_id"
      by (simp add: audit_entry_def audit_row_def agent_event_def)
    ultimately show ?thesis by (auto simp: audited_only_def)
  qed
qed

lemma found_response_audits:
  assumes "found (record_response scan_id actor asked) (begin_session pf) = (r, s)"
  shows "audited_only actor scan_id (\<exists>a. r = Inr (Some a)) pf (platform.truncate s)"
proof -
  obtain r' s' where inner: "record_response scan_id actor asked (begin_session pf) = (r', s')"
    by (cases "record_response scan_id actor asked (begin_session pf)")
  with assms have "s = s'" "(\<exists>a. r = Inr (Some a)) \<longleftrightarrow> (\<exists>a. r' = Inr a)"
    by (cases r'; auto simp: found_def)+
  with record_response_audits [OF inner] show ?thesis by simp
qed

lemma service_session_audits:
  assumes "\<And>r s. body (begin_session pf) = (r, s) \<Longrightarrow>
             audited_only actor scan_id (answered r) pf (platform.truncate s)"
    and "\<And>e. \<not> answered (Inl e)"
  shows "audited_only actor scan_id (answered (fst (service_session st body pf))) pf
           (snd (service_session st body pf))"
  using assms by (auto simp: service_session_def audited_nothing split: prod.splits)

lemma agent_audits:
  "audited_only user scan_id (\<exists>a. fst (agent_explain_finding st scan_id finding_id user t pf) = Inr (Some a))
      pf (snd (agent_explain_finding st scan_id finding_id user t pf))"
  "audited_only user scan_id (\<exists>a. fst (agent_summarize_domain st scan_id domain user t pf) = Inr (Some a))
      pf (snd (agent_summarize_domain st scan_id domain user t pf))"
  "audited_only user scan_id (\<exists>a. fst (agent_answer_question st scan_id question user ids t pf) = Inr a)
      pf (snd (agent_answer_question st scan_id question user ids t pf))"
  "audited_only user scan_id (\<exists>a. fst (agent_executive_summary st scan_id user t pf) = Inr a)
      pf (snd (agent_executive_summary st scan_id user t pf))"
  unfolding agent_explain_finding_def agent_summarize_domain_def agent_answer_question_def
    agent_executive_summary_def
  by (rule service_session_audits;
      auto simp: Let_def
       dest: record_response_audits found_response_audits split: option.splits list.splits if_splits)+

text \<open>The agent never touches an assessment: each of its actions leaves every stored row as it
  is and, when it answers, adds exactly one AGENT_ACTION event of that scan under the name of the
  user who asked; without an answer (no such finding, a refused question, an empty name) it adds
  nothing.\<close>

theorem agent_only_audits:
  "audited_only user scan_id (\<exists>a. fst (agent_explain_finding st scan_id finding_id user t pf) = Inr (Some a))
      pf (snd (agent_explain_finding st scan_id finding_id user t pf))
   \<and> audited_only user scan_id (\<exists>a. fst (agent_summarize_domain st scan_id domain user t pf) = Inr (Some a))
      pf (snd (agent_summarize_domain st scan_id domain user t pf))
   \<and> audited_only user scan_id (\<exists>a. fst (agent_answer_question st scan_id question user ids t pf) = Inr a)
      pf (snd (agent_answer_question st scan_id question user ids t pf))
   \<and> audited_only user scan_id (\<exists>a. fst (agent_executive_summary st scan_id user t pf) = Inr a)
      pf (snd (agent_executive_summary st scan_id user t pf))"
  by (intro conjI agent_audits)

end
