(* ===== verification/Secured.thy ===== *)
theory Secured
  imports AccessFacts RepositoryFacts AgentService Comparison
begin

text \<open>
  The authorization wrappers (\<^verbatim>\<open>auth/secured_services.py\<close>) that the user interface calls: every
  method asks the enforcement point and then delegates, passing the authenticated principal's
  user name where the service wants to know who acts. The interface of the enforcement point is
  the locale \<open>gate\<close>, interpreted on \<open>require\<close>.
\<close>

section \<open>The interface of an enforcement point\<close>

locale gate =
  fixes check :: "'s \<Rightarrow> ('e + 'q) \<times> 's"
    and allowed :: "'s \<Rightarrow> bool"
    and logged :: "'s \<Rightarrow> 's \<Rightarrow> bool"
    and valid :: "'s \<Rightarrow> bool"
  assumes pass: "valid s \<Longrightarrow> allowed s \<Longrightarrow> \<exists>q. check s = (Inr q, s)"
    and refuse: "valid s \<Longrightarrow> \<not> allowed s \<Longrightarrow> \<exists>e s'. check s = (Inl e, s') \<and> logged s s'"
begin

lemma guarded_refused:
  assumes "valid s" and "\<not> allowed s"
  shows "\<exists>e s'. and_then (check s) body = (Inl e, s') \<and> logged s s'"
proof -
  obtain e s' where "check s = (Inl e, s')" and "logged s s'"
    using refuse [OF assms] by blast
  then show ?thesis by simp
qed

lemma guarded_passed:
  assumes "valid s" and "allowed s"
  shows "\<exists>q. check s = (Inr q, s) \<and> and_then (check s) body = body q s"
  using pass [OF assms] by auto

lemma guarded_result:
  assumes "valid s" and "fst (and_then (check s) body) = Inr a"
  shows "allowed s"
  using guarded_refused [OF assms(1), of body] assms(2) by fastforce

text \<open>A property of the state that neither a refusal nor the body can break.\<close>

lemma guarded_preserves:
  assumes "valid s" and "\<And>s'. logged s s' \<Longrightarrow> P s'" and "\<And>q. allowed s \<Longrightarrow> check s = (Inr q, s) \<Longrightarrow> P (snd (body q s))"
  shows "P (snd (and_then (check s) body))"
proof (cases "allowed s")
  case True
  with guarded_passed [OF assms(1) True, of body] assms(3) show ?thesis by auto
next
  case False
  with guarded_refused [OF assms(1) False, of body] assms(2) show ?thesis by auto
qed

end

section \<open>The assessment service\<close>

definition secured ::
  "Authorizer \<Rightarrow> Principal \<Rightarrow> Permission \<Rightarrow> string \<Rightarrow> string option
     \<Rightarrow> (Principal \<Rightarrow> platform \<Rightarrow> 'a result \<times> platform) \<Rightarrow> platform \<Rightarrow> 'a result \<times> platform" where
  "secured self caller permission action scan_id body pf =
     and_then (require self caller permission action scan_id pf) body"

definition settings_of :: "Authorizer \<Rightarrow> Settings" where
  "settings_of self = as_settings (az_auth self)"

definition secured_audit ::
  "Authorizer \<Rightarrow> Principal \<Rightarrow> AuthEventType \<Rightarrow> string \<Rightarrow> (string \<times> json) list \<Rightarrow> string option
     \<Rightarrow> platform \<Rightarrow> unit result \<times> platform" where
  "secured_audit self caller event_type summary payload scan_id =
     with_session (settings_of self)
       (record_auth_event event_type (pr_username caller) summary payload scan_id)"

definition view_assessments :: string where
  "view_assessments = ''view assessments''"

definition secured_list_recent_scans ::
  "Authorizer \<Rightarrow> Principal \<Rightarrow> nat \<Rightarrow> platform \<Rightarrow> ScanSummaryRow list result \<times> platform" where
  "secured_list_recent_scans self caller limit =
     secured self caller VIEW_ASSESSMENTS view_assessments None
       (\<lambda>_. list_recent_scans (settings_of self) limit)"

definition secured_get_assessment ::
  "Authorizer \<Rightarrow> Principal \<Rightarrow> string \<Rightarrow> platform \<Rightarrow> AssessmentResult option result \<times> platform" where
  "secured_get_assessment self caller scan_id =
     secured self caller VIEW_ASSESSMENTS view_assessments (Some scan_id)
       (\<lambda>_. svc_get_assessment (settings_of self) scan_id)"

definition secured_get_scores ::
  "Authorizer \<Rightarrow> Principal \<Rightarrow> string \<Rightarrow> platform \<Rightarrow> Score list result \<times> platform" where
  "secured_get_scores self caller scan_id =
     secured self caller VIEW_ASSESSMENTS view_assessments (Some scan_id)
       (\<lambda>_. svc_get_scores (settings_of self) scan_id)"

definition secured_get_score_history ::
  "Authorizer \<Rightarrow> Principal \<Rightarrow> string \<Rightarrow> string \<Rightarrow> platform \<Rightarrow> Score list result \<times> platform" where
  "secured_get_score_history self caller scan_id domain =
     secured self caller VIEW_ASSESSMENTS view_assessments (Some scan_id)
       (\<lambda>_. svc_get_score_history (settings_of self) scan_id domain)"

definition secured_trace_finding ::
  "Authorizer \<Rightarrow> Principal \<Rightarrow> string \<Rightarrow> platform \<Rightarrow> TraceabilityRecord option result \<times> platform" where
  "secured_trace_finding self caller finding_id =
     secured self caller VIEW_ASSESSMENTS view_assessments None
       (\<lambda>_. svc_trace_finding (settings_of self) finding_id)"

definition secured_check_finalization ::
  "Authorizer \<Rightarrow> Principal \<Rightarrow> string \<Rightarrow> platform \<Rightarrow> FinalizationCheckResult result \<times> platform" where
  "secured_check_finalization self caller scan_id =
     secured self caller VIEW_ASSESSMENTS view_assessments (Some scan_id)
       (\<lambda>_. svc_check_finalization (settings_of self) scan_id)"

definition get_control_catalog ::
  "Authorizer \<Rightarrow> Principal \<Rightarrow> platform \<Rightarrow> (string \<times> string \<times> string) list result \<times> platform" where
  "get_control_catalog self caller =
     secured self caller VIEW_ASSESSMENTS view_assessments None
       (\<lambda>_. with_session (settings_of self) (\<lambda>s.
          (Inr (fold (\<lambda>c. AList.update (co_id c) (co_control_id c, co_title c))
             (db_controls (ss_work s)) []), s)))"

definition secured_compare_scans ::
  "Authorizer \<Rightarrow> Principal \<Rightarrow> string \<Rightarrow> string \<Rightarrow> platform \<Rightarrow> ScanComparison result \<times> platform" where
  "secured_compare_scans self caller baseline_scan_id current_scan_id =
     secured self caller VIEW_ASSESSMENTS ''compare assessments'' None
       (\<lambda>_. compare_scans (settings_of self) baseline_scan_id current_scan_id)"

definition secured_review_finding ::
  "Authorizer \<Rightarrow> Principal \<Rightarrow> string \<Rightarrow> HumanReviewStatus \<Rightarrow> string option \<Rightarrow> platform
     \<Rightarrow> Finding option result \<times> platform" where
  "secured_review_finding self caller finding_id new_status reason =
     secured self caller REVIEW_FINDINGS ''review findings'' None
       (\<lambda>principal. svc_review_finding (settings_of self) finding_id new_status
          (pr_username principal) reason)"

definition secured_override_score ::
  "Authorizer \<Rightarrow> Principal \<Rightarrow> string \<Rightarrow> string \<Rightarrow> string \<Rightarrow> DecisionCategory \<Rightarrow> string \<Rightarrow> rat option
     \<Rightarrow> platform \<Rightarrow> Score option result \<times> platform" where
  "secured_override_score self caller original_score_id scan_id domain new_decision_category reason
       new_weighted_score =
     secured self caller OVERRIDE_SCORES ''override domain scores'' (Some scan_id)
       (\<lambda>principal. svc_override_score (settings_of self) original_score_id scan_id domain
          new_decision_category (pr_username principal) reason new_weighted_score)"

definition record_export ::
  "Authorizer \<Rightarrow> Principal \<Rightarrow> string \<Rightarrow> string option \<Rightarrow> string option \<Rightarrow> platform
     \<Rightarrow> unit result \<times> platform" where
  "record_export self caller export_format scan_id quick_scan_id =
     secured self caller EXPORT_REPORTS ''export reports'' scan_id
       (\<lambda>principal. secured_audit self principal AuthEventType.REPORT_EXPORTED
          (''Exported report ('' @ export_format @ '')'')
          [(''format'', JStr export_format), (''quick_scan_id'', json_opt_str quick_scan_id)] scan_id)"

definition secured_get_audit_trail ::
  "Authorizer \<Rightarrow> Principal \<Rightarrow> string \<Rightarrow> platform \<Rightarrow> AuditEvent list result \<times> platform" where
  "secured_get_audit_trail self caller scan_id =
     secured self caller VIEW_AUDIT_LOG ''view the audit log'' (Some scan_id)
       (\<lambda>_. svc_get_audit_trail (settings_of self) scan_id)"

definition newest_events :: "nat \<Rightarrow> AuditEvent list \<Rightarrow> AuditEvent list" where
  "newest_events limit events = take limit (order_by (\<lambda>e. - utc_instant (ae_created_at e)) events)"

definition get_platform_audit_log ::
  "Authorizer \<Rightarrow> Principal \<Rightarrow> nat \<Rightarrow> platform \<Rightarrow> AuditEvent list result \<times> platform" where
  "get_platform_audit_log self caller limit =
     secured self caller VIEW_AUDIT_LOG ''view the audit log'' None
       (\<lambda>_. with_session (settings_of self) (\<lambda>s.
          (Inr (newest_events limit (db_audit_events (ss_work s))), s)))"

definition get_recent_activity ::
  "Authorizer \<Rightarrow> Principal \<Rightarrow> nat \<Rightarrow> platform \<Rightarrow> AuditEvent list result \<times> platform" where
  "get_recent_activity self caller limit =
     secured self caller VIEW_ASSESSMENTS ''view recent activity'' None
       (\<lambda>principal. with_session (settings_of self) (\<lambda>s.
          (Inr (newest_events limit
             (if authorizer_can self (Some principal) VIEW_AUDIT_LOG then db_audit_events (ss_work s)
              else filter (\<lambda>e. ae_actor e = pr_username principal) (db_audit_events (ss_work s)))), s)))"

section \<open>The agent service\<close>

definition secured_agent ::
  "Authorizer \<Rightarrow> Principal \<Rightarrow> string option
     \<Rightarrow> (Principal \<Rightarrow> platform \<Rightarrow> 'a result \<times> platform) \<Rightarrow> platform \<Rightarrow> 'a result \<times> platform" where
  "secured_agent self caller scan_id = secured self caller USE_AI_ASSISTANT ''use the AI Assistant'' scan_id"

definition secured_agent_status ::
  "Authorizer \<Rightarrow> Principal \<Rightarrow> platform \<Rightarrow> AgentStatus result \<times> platform" where
  "secured_agent_status self caller =
     secured_agent self caller None (\<lambda>_ pf. (get_agent_status (settings_of self), pf))"

definition secured_explain_finding ::
  "Authorizer \<Rightarrow> Principal \<Rightarrow> string \<Rightarrow> string \<Rightarrow> rat \<Rightarrow> platform
     \<Rightarrow> AgentResponse option result \<times> platform" where
  "secured_explain_finding self caller scan_id finding_id elapsed =
     secured_agent self caller (Some scan_id) (\<lambda>principal.
       agent_explain_finding (settings_of self) scan_id finding_id (pr_username principal) elapsed)"

definition secured_summarize_domain ::
  "Authorizer \<Rightarrow> Principal \<Rightarrow> string \<Rightarrow> string \<Rightarrow> rat \<Rightarrow> platform
     \<Rightarrow> AgentResponse option result \<times> platform" where
  "secured_summarize_domain self caller scan_id domain elapsed =
     secured_agent self caller (Some scan_id) (\<lambda>principal.
       agent_summarize_domain (settings_of self) scan_id domain (pr_username principal) elapsed)"

definition secured_answer_question ::
  "Authorizer \<Rightarrow> Principal \<Rightarrow> string \<Rightarrow> string \<Rightarrow> rat \<Rightarrow> platform \<Rightarrow> AgentResponse result \<times> platform" where
  "secured_answer_question self caller scan_id question elapsed =
     secured_agent self caller (Some scan_id) (\<lambda>principal.
       agent_answer_question (settings_of self) scan_id question (pr_username principal) None elapsed)"

definition secured_executive_summary ::
  "Authorizer \<Rightarrow> Principal \<Rightarrow> string \<Rightarrow> rat \<Rightarrow> platform \<Rightarrow> AgentResponse result \<times> platform" where
  "secured_executive_summary self caller scan_id elapsed =
     secured_agent self caller (Some scan_id) (\<lambda>principal.
       agent_executive_summary (settings_of self) scan_id (pr_username principal) elapsed)"

section \<open>The gate\<close>

text \<open>What the enforcement point needs: a configured database, a well-formed user table and a
  caller with a name.\<close>

definition accessible :: "Authorizer \<Rightarrow> Principal \<Rightarrow> platform \<Rightarrow> bool" where
  "accessible az p pf =
     (truthy (st_database_url (as_settings (az_auth az))) \<and> wf_users (users_of pf)
      \<and> strip (pr_username p) \<noteq> [])"

definition denied :: "Principal \<Rightarrow> platform \<Rightarrow> platform \<Rightarrow> bool" where
  "denied p pf pf' = (\<exists>ev. only_audit [ev] pf pf' \<and> ae_actor ev = pr_username p)"

interpretation access: gate "require az p perm act sc" "permitted az p perm" "denied p" "accessible az p"
  for az p perm act sc
proof unfold_locales
  fix pf assume "accessible az p pf" and "permitted az p perm pf"
  then show "\<exists>q. require az p perm act sc pf = (Inr q, pf)"
    unfolding accessible_def by (metis require_permitted)
next
  fix pf assume "accessible az p pf" and "\<not> permitted az p perm pf"
  then obtain e ev where "fst (require az p perm act sc pf) = Inl e"
    "only_audit [ev] pf (snd (require az p perm act sc pf))" "ae_actor ev = pr_username p"
    using require_refused [of az pf p perm act sc] by (auto simp: accessible_def event_of_def)
  then show "\<exists>e pf'. require az p perm act sc pf = (Inl e, pf') \<and> denied p pf pf'"
    unfolding denied_def by (cases "require az p perm act sc pf") auto
qed

lemma require_username:
  assumes "accessible az p pf" and "require az p perm act sc pf = (Inr q, pf')"
  shows "pr_username q = pr_username p"
proof -
  have "permitted az p perm pf"
    using access.guarded_result [of az p pf perm act sc "\<lambda>q s. (Inr q, s)"] assms by simp
  with assms show ?thesis
    using require_permitted [of az pf p perm act sc thesis for thesis]
    by (fastforce simp: accessible_def refreshed_def elim: require_permitted)
qed

section \<open>Governance decisions\<close>

lemma with_event_committed:
  "\<exists>ev. pf_store (platform.truncate (commit (with_event e s))) =
       (ss_work s)\<lparr>db_audit_events := db_audit_events (ss_work s) @ [ev]\<rparr>
     \<and> ae_actor ev = ai_actor e"
  by (intro exI [of _ "audit_entry e s"]) (simp add: commit_def audit_entry_def audit_row_def)

lemma svc_review_store:
  "pf_store (snd (svc_review_finding st fid status who reason pf)) = pf_store pf
   \<or> (\<exists>dec ev. pf_store (snd (svc_review_finding st fid status who reason pf)) = (pf_store pf)
         \<lparr>db_findings := update_row fd_id fid (reviewed dec (now pf)) (db_findings (pf_store pf)),
          db_audit_events := db_audit_events (pf_store pf) @ [ev]\<rparr>
       \<and> rd_reviewed_by dec = who \<and> rd_new_status dec = status \<and> ae_actor ev = who)"
proof -
  let ?dec = "\<lparr>rd_finding_id = fid, rd_new_status = status, rd_reviewed_by = who, rd_reason = reason\<rparr>"
  consider (refused) "\<not> truthy (st_database_url st)"
    | (invalid) e where "truthy (st_database_url st)" "validate_finding_review ?dec = Inl e"
    | (unknown) "truthy (st_database_url st)" "validate_finding_review ?dec = Inr ?dec"
        "get_row fd_id fid (db_findings (pf_store pf)) = None"
    | (found) row where "truthy (st_database_url st)" "validate_finding_review ?dec = Inr ?dec"
        "get_row fd_id fid (db_findings (pf_store pf)) = Some row" "strip who \<noteq> []"
    by (cases "get_row fd_id fid (db_findings (pf_store pf))"; cases "truthy (st_database_url st)";
        cases "validate_finding_review ?dec")
       (auto simp: validate_finding_review_def split: if_splits)
  then show ?thesis
  proof cases
    case found
    let ?row1 = "reviewed ?dec (now pf) row"
    let ?E = "\<lparr>ai_event_type = AuditEventType_value AuditEventType.FINDING_REVIEWED,
       ai_actor = who, ai_summary = ''Finding '' @ fd_id ?row1 @ '' reviewed: ''
         @ HumanReviewStatus_value status, ai_scan_id = Some (fd_scan_id ?row1),
       ai_payload = [(''finding_id'', JStr (fd_id ?row1)),
         (''new_status'', JStr (HumanReviewStatus_value status)),
         (''reason'', JStr (case reason of None \<Rightarrow> [] | Some r \<Rightarrow> r))]\<rparr>"
    have "snd (svc_review_finding st fid status who reason pf) =
        platform.truncate (commit (with_event ?E (map_work (\<lambda>d. d\<lparr>db_findings :=
          update_row fd_id fid (reviewed ?dec (now pf)) (db_findings d)\<rparr>) (begin_session pf))))"
      using found get_row_Some [OF found(3)]
      by (simp add: svc_review_finding_def service_session_def review_finding_def record_event_eq
          now_def Let_def split_beta)
    with with_event_committed [of ?E "map_work (\<lambda>d. d\<lparr>db_findings :=
          update_row fd_id fid (reviewed ?dec (now pf)) (db_findings d)\<rparr>) (begin_session pf)"]
    show ?thesis by (intro disjI2 exI [of _ ?dec]) (simp add: map_work_def)
  qed (simp_all add: svc_review_finding_def service_session_def review_finding_def Let_def
      commit_def begin_session_def platform.defs split_beta)
qed

lemma override_score_unchanged:
  assumes "\<And>row. fst (override_score dec s) \<noteq> Inr (Some row)"
    and "pf_store s = ss_work s"
  shows "pf_store (snd (override_score dec s)) = ss_work s"
    and "ss_work (snd (override_score dec s)) = ss_work s"
proof -
  have "override_score dec s = (fst (override_score dec s), s)"
  proof (cases "validate_score_override dec")
    case (Inr v)
    then have "strip (od_reviewed_by dec) \<noteq> []" and v: "v = dec"
      by (auto simp: validate_score_override_def split: if_splits)
    with Inr assms(1) show ?thesis
      by (cases "get_row so_id (od_original_score_id dec) (db_scores (ss_work s))")
         (auto simp: override_score_def record_event_eq Let_def split_beta)
  qed (simp add: override_score_def)
  then show "pf_store (snd (override_score dec s)) = ss_work s"
    and "ss_work (snd (override_score dec s)) = ss_work s"
    using assms(2) by (metis snd_conv)+
qed

lemma svc_override_store:
  "pf_store (snd (svc_override_score st oid sid domain cat who reason w pf)) = pf_store pf
   \<or> (\<exists>row ev. pf_store (snd (svc_override_score st oid sid domain cat who reason w pf)) = (pf_store pf)
         \<lparr>db_scores := db_scores (pf_store pf) @ [row],
          db_audit_events := db_audit_events (pf_store pf) @ [ev]\<rparr>
       \<and> so_override_of row = Some oid \<and> so_domain row = domain \<and> so_scan_id row = sid
       \<and> ae_actor ev = who)"
proof (cases "truthy (st_database_url st)")
  case False
  then show ?thesis by (simp add: svc_override_score_def service_session_def)
next
  case True
  let ?dec = "\<lparr>od_original_score_id = oid, od_scan_id = sid, od_domain = domain,
    od_new_decision_category = cat, od_reviewed_by = who, od_reason = reason,
    od_new_weighted_score = w\<rparr>"
  let ?run = "override_score ?dec (begin_session pf)"
  have start: "pf_store (begin_session pf) = ss_work (begin_session pf)" by simp
  have svc: "pf_store (snd (svc_override_score st oid sid domain cat who reason w pf)) =
      (case fst ?run of Inl e \<Rightarrow> pf_store (snd ?run) | Inr _ \<Rightarrow> ss_work (snd ?run))"
    using True by (cases ?run) (auto simp: svc_override_score_def service_session_def and_then_def
        commit_def platform.defs split: sum.splits)
  show ?thesis
  proof (cases "\<exists>row. fst ?run = Inr (Some row)")
    case False
    then have "\<And>row. fst ?run \<noteq> Inr (Some row)" by blast
    from override_score_unchanged [OF this start] svc show ?thesis
      by (cases "fst ?run") simp_all
  next
    case True
    then obtain row where row: "fst ?run = Inr (Some row)" by blast
    then have run: "?run = (Inr (Some row), snd ?run)" by (metis prod.collapse)
    obtain original ev where
      o: "get_row so_id oid (db_scores (pf_store pf)) = Some original"
      "row = override_row ?dec original (now (begin_session pf)) (pf_uuid pf (pf_draws pf))"
      "ae_actor ev = who"
      "ss_work (snd ?run) = (pf_store pf)\<lparr>db_scores := db_scores (pf_store pf) @ [row],
           db_audit_events := db_audit_events (pf_store pf) @ [ev]\<rparr>"
      by (rule override_score_cases [OF run]) (rule that, simp_all)
    with row svc get_row_Some [OF o(1)] show ?thesis
      by (intro disjI2 exI [of _ row] exI [of _ ev])
         (simp add: override_row_def split: sum.splits)
  qed
qed

text \<open>The stored account behind a session, when it is an active manager's.\<close>

definition manager_session :: "Principal \<Rightarrow> platform \<Rightarrow> bool" where
  "manager_session p pf =
     (\<exists>u. get_by_id (pr_user_id p) (pf_store pf) = Some u \<and> us_is_active u
        \<and> us_session_version u = pr_session_version p \<and> us_role u = Role_value Role.MANAGER)"

lemma permitted_manager:
  "az_policy az = ROLE_PERMISSIONS \<Longrightarrow> perm \<in> {REVIEW_FINDINGS, OVERRIDE_SCORES} \<Longrightarrow>
     permitted az p perm pf \<Longrightarrow> manager_session p pf"
  by (auto simp: permitted_def manager_session_def session_current_def can_review can_override)

text \<open>What a governance operation may leave behind.\<close>

definition governed ::
  "(database \<Rightarrow> 'r set) \<Rightarrow> ('r \<Rightarrow> bool) \<Rightarrow> Principal \<Rightarrow> bool \<Rightarrow> platform \<Rightarrow> platform \<Rightarrow> bool" where
  "governed rows attributed p passed before after =
     (let old = pf_store before; new = pf_store after in
        (\<not> passed \<longrightarrow> rows new = rows old)
        \<and> (\<forall>r \<in> rows new - rows old. attributed r)
        \<and> (\<exists>events. db_audit_events new = db_audit_events old @ events
             \<and> list_all (\<lambda>e. ae_actor e = pr_username p) events
             \<and> (rows new \<noteq> rows old \<longrightarrow> events \<noteq> [])))"

lemma governed_denied:
  assumes "denied p pf pf'" and "\<And>d es. rows (d\<lparr>db_audit_events := es\<rparr>) = rows d"
  shows "governed rows attributed p passed pf pf'"
  using assms by (auto simp: governed_def denied_def only_audit_def Let_def)

lemma governed_same: "pf_store pf' = pf_store pf \<Longrightarrow> governed rows attributed p passed pf pf'"
  by (simp add: governed_def)

definition finding_rows :: "database \<Rightarrow> Finding set" where
  "finding_rows d = set (db_findings d)"

definition score_rows :: "database \<Rightarrow> Score set" where
  "score_rows d = set (db_scores d)"

lemma review_governed:
  assumes "manager_session p pf"
  shows "governed finding_rows
     (\<lambda>f. fd_id f = fid \<and> fd_reviewed_by f = Some (pr_username p)
        \<and> fd_human_review_status f = HumanReviewStatus_value status) p (manager_session p pf) pf
     (snd (svc_review_finding st fid status (pr_username p) reason pf))"
proof (cases "pf_store (snd (svc_review_finding st fid status (pr_username p) reason pf)) = pf_store pf")
  case True
  then show ?thesis by (rule governed_same)
next
  case False
  with svc_review_store [of st fid status "pr_username p" reason pf] obtain dec ev where
    r: "pf_store (snd (svc_review_finding st fid status (pr_username p) reason pf)) = (pf_store pf)
         \<lparr>db_findings := update_row fd_id fid (reviewed dec (now pf)) (db_findings (pf_store pf)),
          db_audit_events := db_audit_events (pf_store pf) @ [ev]\<rparr>"
    "rd_reviewed_by dec = pr_username p" "rd_new_status dec = status" "ae_actor ev = pr_username p"
    by blast
  show ?thesis
    using assms r(2-4) by (auto simp: governed_def Let_def r(1) finding_rows_def update_row_def
        update_where_def reviewed_def)
qed

lemma override_governed:
  assumes "manager_session p pf"
  shows "governed score_rows (\<lambda>r. so_override_of r = Some oid \<and> so_domain r = domain \<and> so_scan_id r = sid)
     p (manager_session p pf) pf
     (snd (svc_override_score st oid sid domain cat (pr_username p) reason w pf))"
proof (cases "pf_store (snd (svc_override_score st oid sid domain cat (pr_username p) reason w pf)) = pf_store pf")
  case True
  then show ?thesis by (rule governed_same)
next
  case False
  with svc_override_store [of st oid sid domain cat "pr_username p" reason w pf] obtain row ev where
    r: "pf_store (snd (svc_override_score st oid sid domain cat (pr_username p) reason w pf)) = (pf_store pf)
         \<lparr>db_scores := db_scores (pf_store pf) @ [row],
          db_audit_events := db_audit_events (pf_store pf) @ [ev]\<rparr>"
    "so_override_of row = Some oid" "so_domain row = domain" "so_scan_id row = sid"
    "ae_actor ev = pr_username p"
    by blast
  show ?thesis
    using assms r(2-5) by (auto simp: governed_def Let_def r(1) score_rows_def)
qed

text \<open>C21: Governance decisions are the managers'. Reviewing a finding or overriding a score through
  the secured service changes a row only when the session belongs to an active account whose
  stored role is manager; a changed finding is the one reviewed and names that user as its
  reviewer, a new score row replaces the one given; no change goes without an audit event, and
  every event names the caller.\<close>

theorem governance_needs_manager:
  assumes "accessible az p pf" and "az_policy az = ROLE_PERMISSIONS"
  shows "governed finding_rows
       (\<lambda>f. fd_id f = fid \<and> fd_reviewed_by f = Some (pr_username p)
          \<and> fd_human_review_status f = HumanReviewStatus_value status) p (manager_session p pf) pf
       (snd (secured_review_finding az p fid status reason pf))
     \<and> governed score_rows (\<lambda>r. so_override_of r = Some oid \<and> so_domain r = domain \<and> so_scan_id r = sid)
       p (manager_session p pf) pf
       (snd (secured_override_score az p oid sid domain cat why w pf))"
proof
  show "governed finding_rows
       (\<lambda>f. fd_id f = fid \<and> fd_reviewed_by f = Some (pr_username p)
          \<and> fd_human_review_status f = HumanReviewStatus_value status) p (manager_session p pf) pf
       (snd (secured_review_finding az p fid status reason pf))"
    unfolding secured_review_finding_def secured_def
  proof (rule access.guarded_preserves [OF assms(1)])
    fix q assume "permitted az p REVIEW_FINDINGS pf"
      and run: "require az p REVIEW_FINDINGS ''review findings'' None pf = (Inr q, pf)"
    then have "manager_session p pf" using permitted_manager [OF assms(2)] by blast
    from review_governed [OF this] require_username [OF assms(1) run]
    show "governed finding_rows
       (\<lambda>f. fd_id f = fid \<and> fd_reviewed_by f = Some (pr_username p)
          \<and> fd_human_review_status f = HumanReviewStatus_value status) p (manager_session p pf) pf
       (snd (svc_review_finding (settings_of az) fid status (pr_username q) reason pf))"
      by simp
  qed (rule governed_denied, simp_all add: finding_rows_def)
  show "governed score_rows (\<lambda>r. so_override_of r = Some oid \<and> so_domain r = domain \<and> so_scan_id r = sid)
       p (manager_session p pf) pf
       (snd (secured_override_score az p oid sid domain cat why w pf))"
    unfolding secured_override_score_def secured_def
  proof (rule access.guarded_preserves [OF assms(1)])
    fix q assume "permitted az p OVERRIDE_SCORES pf"
      and run: "require az p OVERRIDE_SCORES ''override domain scores'' (Some sid) pf = (Inr q, pf)"
    then have "manager_session p pf" using permitted_manager [OF assms(2)] by blast
    from override_governed [OF this] require_username [OF assms(1) run]
    show "governed score_rows (\<lambda>r. so_override_of r = Some oid \<and> so_domain r = domain \<and> so_scan_id r = sid)
       p (manager_session p pf) pf
       (snd (svc_override_score (settings_of az) oid sid domain cat (pr_username q) why w pf))"
      by simp
  qed (rule governed_denied, simp_all add: score_rows_def)
qed

end
