(* ===== verification/Demo.thy ===== *)
theory Demo
  imports AccessFacts AssessmentFacts CatalogFacts Comparison Secured
begin

text \<open>
  A concrete platform: a service with the default settings and a database, three accounts,
  one assessment with one score per domain. The witnesses of the properties about the
  database and the sign-in service evaluate or instantiate them here.
\<close>

section \<open>The service and its accounts\<close>

definition demo_settings :: Settings where
  "demo_settings = default_settings\<lparr>st_database_url := Some ''sqlite://''\<rparr>"

definition demo_hash :: "string \<Rightarrow> string" where
  "demo_hash pw = encode_hash (2 ^ 17) 8 1 [1, 2, 3]
     (take 32 (utf8 pw @ [1, 2, 3] @ replicate 32 0))"

definition demo_auth :: AuthService where
  "demo_auth = \<lparr>as_settings = demo_settings, as_hasher = toy_hasher, as_dummy_hash = demo_hash ''-''\<rparr>"

definition demo_user :: "string \<Rightarrow> Role \<Rightarrow> User" where
  "demo_user name role =
     \<lparr>us_id = name, us_username = name, us_display_name = name,
      us_password_hash = demo_hash ''correct horse'', us_role = Role_value role, us_is_active = True,
      us_must_change_password = False, us_failed_attempts = 0, us_locked_until = None,
      us_session_version = 1, us_last_login_at = None, us_created_at = None\<rparr>"

definition demo_users :: "User list" where
  "demo_users = [demo_user ''alice'' Role.ADMIN, demo_user ''mona'' Role.MANAGER,
     demo_user ''emil'' Role.EMPLOYEE]"

definition demo_platform :: platform where
  "demo_platform =
     \<lparr>pf_store = empty_database\<lparr>db_users := demo_users\<rparr>, pf_clock = 0,
      pf_uuid = (\<lambda>n. replicate n (CHR ''u'')), pf_urandom = (\<lambda>_ n. replicate n 7),
      pf_draws = 1, pf_kdf_calls = 0\<rparr>"

definition demo_authorizer :: Authorizer where
  "demo_authorizer = \<lparr>az_auth = demo_auth, az_policy = ROLE_PERMISSIONS\<rparr>"

definition demo_principal :: "string \<Rightarrow> Role \<Rightarrow> Principal" where
  "demo_principal name role =
     \<lparr>pr_user_id = name, pr_username = name, pr_display_name = name, pr_role = role,
      pr_session_version = 1, pr_authenticated_at = Aware 0, pr_last_activity_at = Aware 0,
      pr_must_change_password = False\<rparr>"

lemma demo_hash_password: "hash_password toy_hasher [1, 2, 3] pw = Inr (demo_hash pw)"
  by (simp add: hash_password_def toy_hasher_def default_hasher_def toy_scrypt_def demo_hash_def)

lemma parse_demo_hash [simp]: "parse_hash (demo_hash pw) \<noteq> None"
  by (simp add: demo_hash_def parse_encode_hash)

lemma demo_auth_ok [simp]: "auth_ok demo_auth"
  by (simp add: auth_ok_def demo_auth_def demo_settings_def truthy_def)

lemma demo_database_url [simp]: "truthy (st_database_url (as_settings demo_auth))"
  using demo_auth_ok by (simp add: auth_ok_def)

lemma demo_wf_user:
  "strip name \<noteq> [] \<Longrightarrow> normalize_username name = name \<Longrightarrow> wf_user (demo_user name role)"
  by (simp only: wf_user_def demo_user_def User.select_convs parse_demo_hash rangeI simp_thms not_False_eq_True)

lemma demo_wf_users [simp]: "wf_users demo_users"
proof -
  have "list_all wf_user demo_users"
    by (simp add: demo_users_def; intro conjI demo_wf_user;
        simp add: normalize_username_def lower_def lower_char_def strip_def lstrip_def rstrip_def
          is_space_def code_def)
  then show ?thesis by (simp add: wf_users_def) (simp add: demo_users_def demo_user_def)
qed

lemma demo_store [simp]: "pf_store demo_platform = empty_database\<lparr>db_users := demo_users\<rparr>"
  by (simp add: demo_platform_def)

lemma replicate_u: "replicate n (CHR ''u'') \<noteq> c # cs" if "c \<noteq> CHR ''u''"
  using that by (cases n) auto

lemma demo_wf_accounts [simp]: "wf_accounts demo_platform"
proof -
  have "inj (\<lambda>n. replicate n (CHR ''u''))"
    by (rule injI) (metis length_replicate)
  then show ?thesis
    by (simp add: wf_accounts_def fresh_ids_def)
       (simp add: demo_platform_def demo_users_def demo_user_def replicate_u)
qed

lemma demo_password:
  "password_matches toy_hasher pw (demo_hash pw') \<longleftrightarrow>
     toy_scrypt (utf8 pw) [1, 2, 3] (2 ^ 17) 8 1 32 = toy_scrypt (utf8 pw') [1, 2, 3] (2 ^ 17) 8 1 32"
  using verify_hash [OF toy_scrypt_ok demo_hash_password, of pw pw']
  by (simp add: password_matches_def toy_hasher_def default_hasher_def)

section \<open>Witnesses: sign-in\<close>

lemma get_demo_user:
  "get_by_username ''emil'' (pf_store demo_platform) = Some (demo_user ''emil'' Role.EMPLOYEE)"
  by (simp add: get_by_username_def get_row_def demo_users_def demo_user_def normalize_username_def
      lower_def lower_char_def strip_def lstrip_def rstrip_def is_space_def code_def)

lemma demo_right_password: "password_matches (as_hasher demo_auth) ''correct horse'' (demo_hash ''correct horse'')"
  by (simp add: demo_auth_def demo_password)

lemma demo_wrong_password: "\<not> password_matches (as_hasher demo_auth) ''wrong'' (demo_hash ''correct horse'')"
  by (simp add: demo_auth_def demo_password toy_scrypt_def utf8_def utf8_char_def byte_of_def code_def)

theorem failed_sign_in_reveals_nothing_witness:
  "(\<exists>p. fst (login demo_auth ''emil'' ''correct horse'' demo_platform) = Inr p)
   \<and> fst (login demo_auth ''emil'' ''wrong'' demo_platform)
       = Inl (Err AuthenticationError GENERIC_LOGIN_FAILURE)"
proof -
  have ok: "auth_ok demo_auth" "wf_users (db_users (pf_store demo_platform))" by simp_all
  note outcome = failed_sign_in_reveals_nothing [OF ok]
  have "us_is_active (demo_user ''emil'' Role.EMPLOYEE)"
    "\<not> is_locked_at (demo_user ''emil'' Role.EMPLOYEE) (pf_clock demo_platform)"
    "us_password_hash (demo_user ''emil'' Role.EMPLOYEE) = demo_hash ''correct horse''"
    by (simp_all add: demo_user_def is_locked_at_def as_utc_def)
  then have may: "(\<exists>u. get_by_username ''emil'' (pf_store demo_platform) = Some u \<and> us_is_active u
      \<and> \<not> is_locked_at u (pf_clock demo_platform)
      \<and> password_matches (as_hasher demo_auth) pw (us_password_hash u))
      \<longleftrightarrow> password_matches (as_hasher demo_auth) pw (demo_hash ''correct horse'')" for pw
    by (simp only: get_demo_user option.inject) auto
  show ?thesis
    using outcome [of "''emil''", unfolded may] demo_right_password demo_wrong_password by blast
qed

theorem sign_in_refines_specification_witness:
  "fst (login demo_auth ''nobody'' ''x'' demo_platform) = Inl authentication_error
   \<and> db_users (pf_store (snd (login demo_auth ''nobody'' ''x'' demo_platform))) = demo_users"
proof -
  have ok: "auth_ok demo_auth" "wf_users (db_users (pf_store demo_platform))" by simp_all
  have "get_by_username ''nobody'' (pf_store demo_platform) = None"
    by (simp add: get_by_username_def get_row_def demo_users_def demo_user_def normalize_username_def
        lower_def lower_char_def strip_def lstrip_def rstrip_def is_space_def code_def)
  then have "login_spec demo_auth ''nobody'' ''x'' demo_platform = (Inl authentication_error, demo_users)"
    by (simp add: login_spec_def)
  with sign_in_refines_specification [OF ok, of "''nobody''" "''x''"] show ?thesis by simp
qed

theorem lockout_and_recovery_witness:
  "let q = fold (attempt demo_auth ''emil'') (replicate 5 (0, ''wrong'')) demo_platform
   in fst (login demo_auth ''emil'' ''correct horse'' (q\<lparr>pf_clock := minute\<rparr>)) = Inl authentication_error
      \<and> (\<exists>p. fst (login demo_auth ''emil'' ''correct horse'' (q\<lparr>pf_clock := 15 * minute\<rparr>)) = Inr p
           \<and> pr_username p = ''emil'')"
proof -
  let ?u = "demo_user ''emil'' Role.EMPLOYEE"
  have u: "us_is_active ?u" "us_failed_attempts ?u = 0" "us_locked_until ?u = None"
    "us_password_hash ?u = demo_hash ''correct horse''" "us_username ?u = ''emil''"
    by (simp_all add: demo_user_def)
  have ok: "auth_ok demo_auth" "wf_users (db_users (pf_store demo_platform))" by simp_all
  have wrong: "\<forall>(t, pw) \<in> set (replicate 5 (0, ''wrong'')).
      \<not> password_matches (as_hasher demo_auth) pw (us_password_hash ?u)"
    using demo_wrong_password u(4) by simp
  have len: "length (replicate 5 (0::int, ''wrong'')) = 5" by simp
  have right: "password_matches (as_hasher demo_auth) ''correct horse'' (us_password_hash ?u)"
    using demo_right_password u(4) by simp
  show ?thesis
    using lockout_and_recovery [OF ok get_demo_user u(1-3) wrong len right] u(5)
    by (auto simp: Let_def minute_def second_def)
qed

theorem require_sound_and_complete_witness:
  "(\<exists>q. fst (require demo_authorizer (demo_principal ''alice'' Role.EMPLOYEE) MANAGE_USERS
          ''view user accounts'' None demo_platform) = Inr q)
   \<and> \<not> (\<exists>q. fst (require demo_authorizer (demo_principal ''emil'' Role.ADMIN) MANAGE_USERS
          ''view user accounts'' None demo_platform) = Inr q)"
proof -
  have ok: "truthy (st_database_url (as_settings (az_auth demo_authorizer)))"
    "wf_users (users_of demo_platform)" "strip (pr_username (demo_principal ''alice'' r)) \<noteq> []"
    "strip (pr_username (demo_principal ''emil'' r)) \<noteq> []" for r
    by (simp_all add: demo_authorizer_def demo_principal_def strip_eq_Nil is_space_def code_def)
  have user: "get_by_id ''alice'' (pf_store demo_platform) = Some (demo_user ''alice'' Role.ADMIN)"
    "get_by_id ''emil'' (pf_store demo_platform) = Some (demo_user ''emil'' Role.EMPLOYEE)"
    by (simp_all add: get_by_id_def get_row_def demo_users_def demo_user_def)
  have current: "session_current demo_auth (demo_principal n r) demo_platform u \<longleftrightarrow>
      get_by_id n (pf_store demo_platform) = Some u \<and> us_is_active u \<and> us_session_version u = 1" for n r u
    by (auto simp: session_current_def demo_principal_def demo_platform_def idle_timeout_def
        demo_auth_def demo_settings_def default_settings_def timedelta_minutes_def minute_def second_def)
  have role: "us_role (demo_user n r) = Role_value r" "\<not> us_must_change_password (demo_user n r)"
    "us_is_active (demo_user n r)" "us_session_version (demo_user n r) = 1" for n r
    by (simp_all only: demo_user_def User.select_convs simp_thms not_False_eq_True)
  have az: "az_auth demo_authorizer = demo_auth" "az_policy demo_authorizer = ROLE_PERMISSIONS"
    by (simp_all add: demo_authorizer_def)
  have "permitted demo_authorizer (demo_principal ''alice'' Role.EMPLOYEE) MANAGE_USERS demo_platform"
    unfolding permitted_def az current using user(1) role by (metis can_manage_users)
  moreover have "\<not> permitted demo_authorizer (demo_principal ''emil'' Role.ADMIN) MANAGE_USERS demo_platform"
    unfolding permitted_def az current using user(2) role(1) can_manage_users
    by (metis Role.distinct(3) Role.distinct(5) option.inject role.val_inject)
  ultimately show ?thesis
    using require_sound_and_complete [OF ok(1,2,3), of Role.EMPLOYEE MANAGE_USERS "''view user accounts''" None]
      require_sound_and_complete [OF ok(1,2,4), of Role.ADMIN MANAGE_USERS "''view user accounts''" None]
    by blast
qed

section \<open>Witnesses: assessments\<close>

definition demo_scan_result :: ScanResult where
  "demo_scan_result =
     \<lparr>rs_summary = \<lparr>sm_scan_id = ''scan'', sm_status = ScanStatus.COMPLETED, sm_source_path = ''/src'',
        sm_source_type = ''directory'', sm_total_files_found = 1, sm_files_scanned = 1,
        sm_files_skipped = 0, sm_total_findings = 1, sm_truncated = False,
        sm_integrity_verified = True, sm_source_hash_before = ''0'', sm_source_hash_after = ''0'',
        sm_findings_by_severity = [(''high'', 1)], sm_findings_by_domain = [(''payments'', 1)],
        sm_scanner_warnings = [], sm_error_message = None, sm_started_at = Aware 0,
        sm_completed_at = Some (Aware 0)\<rparr>,
      rs_inventory = [\<lparr>it_relative_path = ''pay.py'', it_file_name = ''pay.py'', it_extension = ''.py'',
        it_size_bytes = 10, it_content_hash = ''0'', it_is_supported = True, it_metadata = []\<rparr>],
      rs_skipped = [],
      rs_domain_mappings = [(''pay.py'', [\<lparr>mp_domain = BankingDomain.PAYMENTS,
        mp_confidence = ConfidenceLevel.HIGH, mp_reason = ''path'',
        mp_source = MappingSource.SCANNER_RESULT\<rparr>])],
      rs_findings = [\<lparr>nf_scan_id = ''scan'', nf_source_relative_path = ''pay.py'',
        nf_banking_domains = [BankingDomain_value BankingDomain.PAYMENTS],
        nf_scanner_id = ''secret_exposure'', nf_scanner_version = ''1.0.0'',
        nf_raw = \<lparr>rf_title = ''Secret'', rf_finding_type = FindingType.OBSERVED_EVIDENCE,
          rf_category = FindingCategory.SECRET_EXPOSURE, rf_severity = Severity.HIGH,
          rf_confidence = ConfidenceLevel.MEDIUM, rf_line_start = 1, rf_line_end = 1,
          rf_evidence = ''x'', rf_masked_evidence = ''[REDACTED]'', rf_description = ''d'',
          rf_impact = ''i'', rf_recommended_action = ''r'', rf_rule_id = ''SECRET-001'',
          rf_remediation_mode = RemediationMode.ADVISORY_ONLY, rf_read_only_confirmation = True,
          rf_metadata = []\<rparr>\<rparr>],
      rs_scanner_executions = []\<rparr>"


theorem catalog_stored_once_witness:
  "wf_controls (begin_session demo_platform)
   \<and> upsert_catalog (snd (upsert_catalog (begin_session demo_platform)))
      = upsert_catalog (begin_session demo_platform)"
proof -
  have "inj (\<lambda>n. replicate n (CHR ''u''))" by (rule injI) (metis length_replicate)
  then have wf: "wf_controls (begin_session demo_platform)"
    by (simp add: wf_controls_def empty_database_def) (simp add: demo_platform_def)
  then show ?thesis using catalog_stored_once [OF wf] by blast
qed

definition demo_score :: Score where
  "demo_score = \<lparr>so_id = ''s1'', so_scan_id = ''scan'',
     so_domain = BankingDomain_value BankingDomain.PAYMENTS, so_raw_score = Some 40,
     so_weighted_score = Some 40, so_confidence_level = ''high'', so_evidence_completeness = ''complete'',
     so_decision_category = DecisionCategory_value DecisionCategory.HIGH_RISK, so_files_evaluated = 1,
     so_findings_count = 1, so_calculated_at = Aware 0, so_override_of = None\<rparr>"

definition demo_override :: ScoreOverrideDecision where
  "demo_override = \<lparr>od_original_score_id = ''s1'', od_scan_id = ''scan'',
     od_domain = BankingDomain_value BankingDomain.PAYMENTS,
     od_new_decision_category = DecisionCategory.ACCEPTABLE_WITH_OBSERVATIONS, od_reviewed_by = ''mona'',
     od_reason = ''compensating control'', od_new_weighted_score = Some 80\<rparr>"

definition demo_scored :: session where
  "demo_scored = (begin_session demo_platform)\<lparr>ss_work := empty_database\<lparr>db_scores := [demo_score]\<rparr>\<rparr>"

lemma demo_override_runs:
  obtains row s' where "override_score demo_override demo_scored = (Inr (Some row), s')"
proof -
  have "validate_score_override demo_override = Inr demo_override"
    by (simp add: validate_score_override_Inr demo_override_def strip_eq_Nil is_space_def code_def)
  moreover have "strip (od_reviewed_by demo_override) \<noteq> []"
    by (simp add: demo_override_def strip_eq_Nil is_space_def code_def)
  moreover have "get_row so_id (od_original_score_id demo_override) (db_scores (ss_work demo_scored))
      = Some demo_score"
    by (simp add: demo_override_def demo_scored_def demo_score_def get_row_def)
  ultimately show ?thesis
    by (intro that) (simp add: override_score_def record_event_eq Let_def split_beta)
qed

theorem override_takes_effect_witness:
  "\<exists>row s'. override_score demo_override demo_scored = (Inr (Some row), s')
     \<and> map_of (latest_scores_by_domain ''scan'' None (pf_store s'))
          (BankingDomain_value BankingDomain.PAYMENTS) = Some row
     \<and> db_scores (pf_store s') = [demo_score, row]"
proof -
  obtain row s' where run: "override_score demo_override demo_scored = (Inr (Some row), s')"
    by (rule demo_override_runs)
  have before: "\<forall>r \<in> set (scores_for_scan (od_scan_id demo_override) (ss_work demo_scored)).
      utc_instant (so_calculated_at r) \<le> pf_clock demo_scored"
    by (simp add: scores_for_scan_def demo_scored_def demo_score_def) (simp add: demo_platform_def)
  have "od_scan_id demo_override = ''scan''" "db_scores (ss_work demo_scored) = [demo_score]"
    "od_domain demo_override = BankingDomain_value BankingDomain.PAYMENTS"
    by (simp_all only: demo_override_def ScoreOverrideDecision.select_convs)
       (simp add: demo_scored_def)
  then show ?thesis using override_takes_effect [OF run before] run by auto
qed

theorem override_is_compared_witness:
  "\<exists>row s'. override_score demo_override demo_scored = (Inr (Some row), s')
     \<and> map_of (effective_scores (scores_for_scan ''scan'' (pf_store s'))) (od_domain demo_override) = Some row"
proof -
  obtain row s' where run: "override_score demo_override demo_scored = (Inr (Some row), s')"
    by (rule demo_override_runs)
  let ?scores = "scores_for_scan (od_scan_id demo_override) (ss_work demo_scored)"
  have fields: "od_scan_id demo_override = ''scan''" "od_original_score_id demo_override = so_id demo_score"
    "so_id demo_score = ''s1''" "so_override_of demo_score = None" "so_scan_id demo_score = ''scan''"
    "od_domain demo_override = so_domain demo_score"
    by (simp_all only: demo_override_def ScoreOverrideDecision.select_convs demo_score_def Score.select_convs)
  have scores: "?scores = [demo_score]"
    by (simp add: scores_for_scan_def demo_scored_def fields)
  have draw: "pf_uuid demo_scored (pf_draws demo_scored) = ''u''"
    by (simp add: demo_scored_def) (simp add: demo_platform_def)
  have "superseded_ids [demo_score] = []" by (simp add: superseded_ids_def fields)
  then have "wf_scores ?scores" "demo_score \<in> set (current_rows ?scores)"
    by (simp_all add: scores wf_scores_def current_rows_def)
  moreover have "pf_uuid demo_scored (pf_draws demo_scored) \<notin> so_id ` set ?scores"
    unfolding scores draw by (simp add: fields(3))
  ultimately have "map_of (effective_scores (scores_for_scan (od_scan_id demo_override) (pf_store s')))
      (od_domain demo_override) = Some row"
    using override_is_compared [OF run, of demo_score] fields by simp
  with run fields(1) show ?thesis by metis
qed

section \<open>Secured services\<close>

lemma demo_accessible: "accessible demo_authorizer (demo_principal ''emil'' r) demo_platform"
  unfolding accessible_def
  by (simp add: demo_authorizer_def demo_principal_def strip_eq_Nil is_space_def code_def)

theorem governance_needs_manager_witness:
  "accessible demo_authorizer (demo_principal ''emil'' Role.MANAGER) demo_platform
   \<and> finding_rows (pf_store (snd (secured_review_finding demo_authorizer
         (demo_principal ''emil'' Role.MANAGER) ''f1'' HumanReviewStatus.APPROVED None demo_platform)))
      = finding_rows (pf_store demo_platform)"
proof -
  have policy: "az_policy demo_authorizer = ROLE_PERMISSIONS" by (simp add: demo_authorizer_def)
  have emil: "get_by_id ''emil'' (pf_store demo_platform) = Some (demo_user ''emil'' Role.EMPLOYEE)"
    by (simp add: get_by_id_def get_row_def demo_users_def demo_user_def)
  have "pr_user_id (demo_principal ''emil'' Role.MANAGER) = ''emil''" by (simp add: demo_principal_def)
  moreover have "us_role (demo_user ''emil'' Role.EMPLOYEE) = Role_value Role.EMPLOYEE"
    by (simp only: demo_user_def User.select_convs)
  moreover have "Role_value Role.EMPLOYEE \<noteq> Role_value Role.MANAGER" by simp
  ultimately have "\<not> manager_session (demo_principal ''emil'' Role.MANAGER) demo_platform"
    using emil unfolding manager_session_def by (metis option.inject)
  with governance_needs_manager [OF demo_accessible [of Role.MANAGER] policy, where fid = "''f1''"
      and status = HumanReviewStatus.APPROVED and reason = None]
  show ?thesis by (simp add: demo_accessible governed_def Let_def)
qed

end
