(* ===== verification/Sha256.thy ===== *)
theory Sha256
  imports Prelude Payload
begin

text \<open>
  SHA-256 (\<^verbatim>\<open>hashlib.sha256\<close>) on 32-bit words, as the platform uses it to fingerprint scanned
  files: \<open>sha256_hex\<close> is \<open>hashlib.sha256(data).hexdigest()\<close>.
\<close>

unbundle bit_operations_syntax

type_synonym word32 = "32 word"

text \<open>
  The constants are the first 32 bits of the fractional parts of roots of the first primes, as the
  standard defines them: cube roots of 64 primes for the rounds, square roots of 8 for the start.
\<close>

definition primes_below :: "nat \<Rightarrow> nat list" where
  "primes_below n = filter (\<lambda>p. list_all (\<lambda>d. p mod d \<noteq> 0) [2..<p]) [2..<n]"

text \<open>The largest \<open>r\<close> below \<open>2 ^ 40\<close> with \<open>r ^ k \<le> n\<close>, bit by bit.\<close>

definition root_floor :: "nat \<Rightarrow> nat \<Rightarrow> nat" where
  "root_floor k n = fold (\<lambda>b r. if (r + 2 ^ b) ^ k \<le> n then r + 2 ^ b else r) (rev [0..<40]) 0"

definition root_bits :: "nat \<Rightarrow> nat \<Rightarrow> word32" where
  "root_bits k p = of_nat (root_floor k (p * 2 ^ (32 * k)))"

definition ROUND_CONSTANTS :: "word32 list" where
  "ROUND_CONSTANTS = map (root_bits 3) (primes_below 312)"

definition INITIAL_STATE :: "word32 list" where
  "INITIAL_STATE = map (root_bits 2) (primes_below 20)"

section \<open>Padding\<close>

definition be_bytes :: "nat \<Rightarrow> nat \<Rightarrow> bytes" where
  "be_bytes width n = map (\<lambda>i. byte_of (n div 256 ^ (width - 1 - i) mod 256)) [0..<width]"

definition pad :: "bytes \<Rightarrow> bytes" where
  "pad data =
     data @ byte_of 128 # replicate ((119 - length data mod 64) mod 64) 0
       @ be_bytes 8 (8 * length data mod 2 ^ 64)"

definition word_of_bytes :: "bytes \<Rightarrow> word32" where
  "word_of_bytes bs = fold (\<lambda>b w. push_bit 8 w OR of_nat (nat_of_byte b)) bs 0"

fun words_of :: "bytes \<Rightarrow> word32 list" where
  "words_of (a # b # c # d # rest) = word_of_bytes [a, b, c, d] # words_of rest"
| "words_of _ = []"

section \<open>One block\<close>

definition small_sigma0 :: "word32 \<Rightarrow> word32" where
  "small_sigma0 x = word_rotr 7 x XOR word_rotr 18 x XOR drop_bit 3 x"

definition small_sigma1 :: "word32 \<Rightarrow> word32" where
  "small_sigma1 x = word_rotr 17 x XOR word_rotr 19 x XOR drop_bit 10 x"

definition big_sigma0 :: "word32 \<Rightarrow> word32" where
  "big_sigma0 x = word_rotr 2 x XOR word_rotr 13 x XOR word_rotr 22 x"

definition big_sigma1 :: "word32 \<Rightarrow> word32" where
  "big_sigma1 x = word_rotr 6 x XOR word_rotr 11 x XOR word_rotr 25 x"

text \<open>The message schedule; \<open>recent\<close> holds the last 16 words, the latest first.\<close>

fun expand :: "nat \<Rightarrow> word32 list \<Rightarrow> word32 list" where
  "expand 0 recent = []"
| "expand (Suc n) recent =
     (let w = small_sigma1 (recent ! 1) + recent ! 6 + small_sigma0 (recent ! 14) + recent ! 15
      in w # expand n (w # butlast recent))"

definition schedule :: "word32 list \<Rightarrow> word32 list" where
  "schedule block = block @ expand 48 (rev block)"

fun sha_round :: "word32 \<times> word32 \<Rightarrow> word32 list \<Rightarrow> word32 list" where
  "sha_round (k, w) [a, b, c, d, e, f, g, h] =
     (let t1 = h + big_sigma1 e + (e AND f XOR NOT e AND g) + k + w;
          t2 = big_sigma0 a + (a AND b XOR a AND c XOR b AND c)
      in [t1 + t2, a, b, c, d + t1, e, f, g])"
| "sha_round kw s = s"

definition compress :: "word32 list \<Rightarrow> word32 list \<Rightarrow> word32 list" where
  "compress block state =
     map2 (+) state (fold sha_round (zip ROUND_CONSTANTS (schedule block)) state)"

function blocks :: "word32 list \<Rightarrow> word32 list list" where
  "blocks ws = (if ws = [] then [] else take 16 ws # blocks (drop 16 ws))"
  by pat_completeness auto
termination blocks
  by (relation "measure length") auto

declare blocks.simps [simp del]

section \<open>The digest\<close>

definition sha256 :: "bytes \<Rightarrow> word32 list" where
  "sha256 data = fold compress (blocks (words_of (pad data))) INITIAL_STATE"

definition hex_digit_of :: "nat \<Rightarrow> char" where
  "hex_digit_of n = (if n < 10 then char_of (48 + n) else char_of (87 + n))"

definition hex_word :: "word32 \<Rightarrow> string" where
  "hex_word w = map (\<lambda>i. hex_digit_of (unat w div 16 ^ (7 - i) mod 16)) [0..<8]"

definition sha256_hex :: "bytes \<Rightarrow> string" where
  "sha256_hex data = concat (map hex_word (sha256 data))"

lemma hex_digit_not_colon: "n < 16 \<Longrightarrow> hex_digit_of n \<noteq> CHR '':'' \<and> hex_digit_of n \<noteq> newline"
  by (auto simp: hex_digit_of_def newline_def simp flip: code_inject) (simp_all add: code_def)

lemma sha256_hex_chars: "c \<in> set (sha256_hex data) \<Longrightarrow> c \<noteq> CHR '':'' \<and> c \<noteq> newline"
  by (auto simp: sha256_hex_def hex_word_def hex_digit_not_colon)

end
