(* ===== verification/SourceTree.thy ===== *)
theory SourceTree
  imports Config Paths ScanTypes Sha256
begin

text \<open>
  The scanned source tree and \<^verbatim>\<open>scanners/file_discovery.py\<close> on it. A tree is what the file
  system shows at one moment: a regular file with what \<open>stat\<close> and reading it give, a symbolic
  link with the path it resolves to and what it leads to, a directory with its entries in the
  order in which the system lists them.
\<close>

section \<open>Trees\<close>

datatype node =
    File (file_stat: "int result") (file_content: "bytes result")
  | Link (link_to_dir: bool) (link_target: "string list") (link_stat: "int result")
      (link_content: "bytes result")
  | Dir (dir_entries: "(string \<times> node) list")

definition is_dir :: "node \<Rightarrow> bool" where
  "is_dir n = (case n of Dir _ \<Rightarrow> True | Link to_dir _ _ _ \<Rightarrow> to_dir | File _ _ \<Rightarrow> False)"

definition stat_size :: "node \<Rightarrow> int result" where
  "stat_size n =
     (case n of File st _ \<Rightarrow> st | Link _ _ st _ \<Rightarrow> st | Dir _ \<Rightarrow> Inr 0)"

definition content :: "node \<Rightarrow> bytes result" where
  "content n =
     (case n of File _ c \<Rightarrow> c | Link _ _ _ c \<Rightarrow> c
      | Dir _ \<Rightarrow> Inl (Err PyOSError ''is a directory''))"

text \<open>
  \<open>os.walk\<close> with the pruning of its callers: the visited directories, top down, each with its
  path below the root and the entries that are not directories. A directory deeper than the
  limit gives nothing.
\<close>

fun walk :: "string list \<Rightarrow> int option \<Rightarrow> string list \<Rightarrow> node \<Rightarrow> (string list \<times> (string \<times> node) list) list" where
  "walk ignored limit path (Dir entries) =
     (if (case limit of None \<Rightarrow> False | Some depth \<Rightarrow> depth < int (length path)) then []
      else (path, filter (\<lambda>e. \<not> is_dir (snd e)) entries)
        # concat (map (\<lambda>e. if fst e \<in> set ignored then []
             else walk ignored limit (path @ [fst e]) (snd e)) entries))"
| "walk ignored limit path (File st c) = []"
| "walk ignored limit path (Link d t st c) = []"

definition rel_path :: "string list \<Rightarrow> string \<Rightarrow> string" where
  "rel_path dir name = join [slash] (dir @ [name])"

section \<open>Discovery\<close>

definition DEFAULT_IGNORED_DIR_NAMES :: "string list" where
  "DEFAULT_IGNORED_DIR_NAMES =
     [''.git'', ''.github'', ''node_modules'', ''venv'', ''.venv'', ''env'', ''__pycache__'',
      ''.pytest_cache'', ''.mypy_cache'', ''coverage'', ''dist'', ''build'', ''target'', ''bin'', ''obj'',
      ''.idea'', ''.vscode'', ''.tox'', ''.eggs'', ''htmlcov'']"

definition DEFAULT_IGNORED_FILE_NAMES :: "string list" where
  "DEFAULT_IGNORED_FILE_NAMES = [''.coverage'', ''.DS_Store'', ''Thumbs.db'']"

definition SUPPORTED_TEXT_EXTENSIONS :: "string list" where
  "SUPPORTED_TEXT_EXTENSIONS =
     [''.py'', ''.js'', ''.jsx'', ''.ts'', ''.tsx'', ''.java'', ''.cs'', ''.go'', ''.sh'', ''.bash'', ''.ps1'',
      ''.sql'', ''.json'', ''.yaml'', ''.yml'', ''.xml'', ''.toml'', ''.ini'', ''.cfg'', ''.conf'', ''.md'',
      ''.txt'', ''.csv'', ''.tf'', ''.tfvars'', ''.env'', ''.properties'', ''.dockerfile'']"

definition SUPPORTED_TEXT_FILENAMES :: "string list" where
  "SUPPORTED_TEXT_FILENAMES = [''Dockerfile'', ''docker-compose.yml'', ''docker-compose.yaml'', ''Makefile'']"

record DiscoveryResult =
  dv_inventory :: "FileInventoryItem list"
  dv_skipped :: "SkippedFile list"
  dv_total_files_found :: int
  dv_total_bytes_scanned :: int
  dv_truncated :: bool

definition is_supported_file :: "string \<Rightarrow> bool" where
  "is_supported_file name =
     (name \<in> set SUPPORTED_TEXT_FILENAMES \<or> lower (path_suffix name) \<in> set SUPPORTED_TEXT_EXTENSIONS)"

definition hash_file :: "node \<Rightarrow> string result" where
  "hash_file n = rbind (content n) (\<lambda>data. Inr (sha256_hex data))"

definition skip :: "string \<Rightarrow> SkipReason \<Rightarrow> string \<Rightarrow> DiscoveryResult \<Rightarrow> DiscoveryResult" where
  "skip rel reason detail r =
     r\<lparr>dv_skipped := dv_skipped r @ [\<lparr>sk_relative_path = rel, sk_reason = reason, sk_detail = detail\<rparr>]\<rparr>"

text \<open>Why a symbolic link is left out, if it is.\<close>

definition link_refused :: "string list \<Rightarrow> Settings \<Rightarrow> node \<Rightarrow> string option" where
  "link_refused base st n =
     (case n of
        Link _ target _ _ \<Rightarrow>
          if \<not> st_scan_follow_symlinks st then Some ''symlinks are not followed by default''
          else if \<not> prefix base target then Some ''symlink target escapes scan root''
          else None
      | _ \<Rightarrow> None)"

text \<open>The size and the hash checks of a file, and its entry in the inventory.\<close>

definition take_file ::
  "Settings \<Rightarrow> string \<Rightarrow> string \<Rightarrow> node \<Rightarrow> int \<Rightarrow> DiscoveryResult \<Rightarrow> DiscoveryResult" where
  "take_file st rel name n size_bytes r =
     (if st_max_scan_file_size_bytes st < size_bytes
      then skip rel SkipReason.SIZE_LIMIT (show_int size_bytes @ '' bytes exceeds max_scan_file_size_bytes'') r
      else if st_max_scan_total_size_bytes st < dv_total_bytes_scanned r + size_bytes
      then (skip rel SkipReason.TOTAL_SIZE_LIMIT ''max_scan_total_size_bytes exceeded'' r)\<lparr>dv_truncated := True\<rparr>
      else if \<not> is_supported_file name
      then skip rel SkipReason.UNSUPPORTED_TYPE ''extension not supported'' r
      else (case hash_file n of
              Inl e \<Rightarrow> skip rel SkipReason.UNREADABLE (err_msg e) r
            | Inr digest \<Rightarrow>
                r\<lparr>dv_total_bytes_scanned := dv_total_bytes_scanned r + size_bytes,
                  dv_inventory := dv_inventory r @
                    [\<lparr>it_relative_path = rel, it_file_name = name, it_extension = lower (path_suffix name),
                      it_size_bytes = size_bytes, it_content_hash = digest, it_is_supported = True,
                      it_metadata = []\<rparr>]\<rparr>))"

definition discover_file ::
  "string list \<Rightarrow> Settings \<Rightarrow> string list \<Rightarrow> string \<times> node \<Rightarrow> DiscoveryResult \<Rightarrow> DiscoveryResult" where
  "discover_file base st dir entry r0 =
     (case entry of (name, n) \<Rightarrow>
        if name \<in> set DEFAULT_IGNORED_FILE_NAMES then r0
        else (let r = r0\<lparr>dv_total_files_found := dv_total_files_found r0 + 1\<rparr>;
                  rel = rel_path dir name
              in if st_max_scan_file_count st < dv_total_files_found r
                 then (skip rel SkipReason.COUNT_LIMIT ''max_scan_file_count exceeded'' r)\<lparr>dv_truncated := True\<rparr>
                 else (case link_refused base st n of
                         Some why \<Rightarrow> skip rel SkipReason.SYMLINK why r
                       | None \<Rightarrow>
                           (case stat_size n of
                              Inl e \<Rightarrow> skip rel SkipReason.UNREADABLE (err_msg e) r
                            | Inr size_bytes \<Rightarrow> take_file st rel name n size_bytes r))))"

definition empty_discovery :: DiscoveryResult where
  "empty_discovery =
     \<lparr>dv_inventory = [], dv_skipped = [], dv_total_files_found = 0, dv_total_bytes_scanned = 0,
      dv_truncated = False\<rparr>"

definition discover_files :: "string list \<Rightarrow> Settings \<Rightarrow> node \<Rightarrow> DiscoveryResult" where
  "discover_files base st tree =
     fold (\<lambda>(dir, files). fold (discover_file base st dir) (sort_key fst files))
       (walk DEFAULT_IGNORED_DIR_NAMES (Some (st_max_scan_depth st)) [] tree) empty_discovery"

section \<open>The integrity hash\<close>

definition integrity_entry :: "string list \<Rightarrow> string \<times> node \<Rightarrow> string" where
  "integrity_entry dir entry =
     (case entry of (name, n) \<Rightarrow>
        rel_path dir name @ '':'' @
          (case n of
             Link _ _ _ _ \<Rightarrow> ''symlink''
           | _ \<Rightarrow> (case hash_file n of Inl _ \<Rightarrow> ''unreadable'' | Inr digest \<Rightarrow> digest)))"

definition integrity_entries :: "node \<Rightarrow> string list" where
  "integrity_entries tree =
     concat (map (\<lambda>(dir, files). map (integrity_entry dir) files)
       (walk DEFAULT_IGNORED_DIR_NAMES None [] tree))"

definition compute_source_integrity_hash :: "node \<Rightarrow> string" where
  "compute_source_integrity_hash tree =
     sha256_hex (utf8 (join [newline] (sort (integrity_entries tree))))"

end
