(* ===== verification/HostFS.thy ===== *)
theory HostFS
  imports SourceTree Display "HOL-Library.AList"
begin

text \<open>
  The file system of the host as the scanner meets it: a tree that other processes may change
  before each access, resolution of paths with symbolic links, and the few changes that the
  platform itself makes (creating directories, writing extracted files, removing a directory).
  An access shows the whole tree at one moment. A resolved path is the list of its components.
\<close>

section \<open>Paths in a tree\<close>

fun lookup :: "node \<Rightarrow> string list \<Rightarrow> node option" where
  "lookup n [] = Some n"
| "lookup (Dir entries) (c # cs) =
     (case map_of entries c of None \<Rightarrow> None | Some m \<Rightarrow> lookup m cs)"
| "lookup _ (c # cs) = None"

text \<open>\<open>Path.resolve\<close> component by component; a link is replaced by what it resolves to.\<close>

primrec resolve_from :: "node \<Rightarrow> string list \<Rightarrow> string list \<Rightarrow> string list" where
  "resolve_from tree cur [] = cur"
| "resolve_from tree cur (c # cs) =
     resolve_from tree
       (if c = ''..'' then butlast cur
        else (case lookup tree (cur @ [c]) of
                Some (Link _ target _ _) \<Rightarrow> target
              | _ \<Rightarrow> cur @ [c])) cs"

definition resolve_path :: "node \<Rightarrow> string list \<Rightarrow> string \<Rightarrow> string list result" where
  "resolve_path tree cwd p =
     (if CHR 0x00 \<in> set p then Inl (Err PyValueError ''lstat: embedded null character in path'')
      else Inr (resolve_from tree (if startswith p [slash] then [] else cwd) (path_components p)))"

definition show_path :: "string list \<Rightarrow> string" where
  "show_path path = slash # join [slash] path"

definition exists_at :: "node \<Rightarrow> string list \<Rightarrow> bool" where
  "exists_at tree path = (lookup tree path \<noteq> None)"

definition dir_at :: "node \<Rightarrow> string list \<Rightarrow> bool" where
  "dir_at tree path = (case lookup tree path of Some (Dir _) \<Rightarrow> True | _ \<Rightarrow> False)"

text \<open>What opening and reading a path gives; links on the way to it are followed.\<close>

definition os_error :: "nat \<Rightarrow> string \<Rightarrow> string list \<Rightarrow> error" where
  "os_error errno what path =
     Err PyOSError (''[Errno '' @ show_nat errno @ ''] '' @ what @ '': '' @ py_repr (show_path path))"

definition node_at :: "node \<Rightarrow> string list \<Rightarrow> node option" where
  "node_at tree path =
     (if path = [] then Some tree
      else lookup tree (resolve_from tree [] (butlast path) @ [last path]))"

definition read_at :: "node \<Rightarrow> string list \<Rightarrow> bytes result" where
  "read_at tree path =
     (case node_at tree path of
        None \<Rightarrow> Inl (os_error 2 ''No such file or directory'' path)
      | Some n \<Rightarrow> content n)"

text \<open>The directory that \<open>os.walk\<close> starts from; it lists nothing where there is none.\<close>

definition tree_at :: "node \<Rightarrow> string list \<Rightarrow> node" where
  "tree_at tree path =
     (case lookup tree (resolve_from tree [] path) of Some (Dir entries) \<Rightarrow> Dir entries | _ \<Rightarrow> Dir [])"

section \<open>Changing a tree\<close>

text \<open>Put a node at a path; missing directories on the way are created.\<close>

fun put_at :: "string list \<Rightarrow> node \<Rightarrow> node \<Rightarrow> node" where
  "put_at [] new old = new"
| "put_at (c # cs) new (Dir entries) =
     Dir (AList.update c (put_at cs new (case map_of entries c of None \<Rightarrow> Dir [] | Some m \<Rightarrow> m)) entries)"
| "put_at (c # cs) new n = n"

fun remove_at :: "string list \<Rightarrow> node \<Rightarrow> node" where
  "remove_at [c] (Dir entries) = Dir (filter (\<lambda>e. fst e \<noteq> c) entries)"
| "remove_at (c # cs) (Dir entries) =
     Dir (map (\<lambda>e. if fst e = c then (c, remove_at cs (snd e)) else e) entries)"
| "remove_at _ n = n"

text \<open>\<open>mkdir(parents=True, exist_ok=True)\<close> on a resolved path.\<close>

fun blocked :: "node \<Rightarrow> string list \<Rightarrow> bool" where
  "blocked n [] = False"
| "blocked (Dir entries) (c # cs) =
     (case map_of entries c of None \<Rightarrow> False | Some m \<Rightarrow> blocked m cs)"
| "blocked _ (c # cs) = True"

definition make_dirs :: "string list \<Rightarrow> node \<Rightarrow> node result" where
  "make_dirs path tree =
     (if dir_at tree path then Inr tree
      else if exists_at tree path then Inl (os_error 17 ''File exists'' path)
      else if blocked tree path then Inl (os_error 20 ''Not a directory'' path)
      else Inr (put_at path (Dir []) tree))"

section \<open>The host\<close>

record host =
  hs_tree :: node
  hs_cwd :: "string list"
  hs_accesses :: nat
  hs_others :: "nat \<Rightarrow> node \<Rightarrow> node"

text \<open>An access: what other processes did since the last one shows now.\<close>

definition access :: "host \<Rightarrow> node \<times> host" where
  "access h =
     (let tree = hs_others h (hs_accesses h) (hs_tree h)
      in (tree, h\<lparr>hs_tree := tree, hs_accesses := Suc (hs_accesses h)\<rparr>))"

definition quiet :: "host \<Rightarrow> bool" where
  "quiet h = (hs_others h = (\<lambda>_ tree. tree))"

section \<open>Lemmas\<close>

lemma access_quiet: "quiet h \<Longrightarrow> access h = (hs_tree h, h\<lparr>hs_accesses := Suc (hs_accesses h)\<rparr>)"
  by (simp add: access_def quiet_def)

lemma quiet_update [simp]:
  "quiet (h\<lparr>hs_accesses := n\<rparr>) = quiet h" "quiet (h\<lparr>hs_tree := t\<rparr>) = quiet h"
  by (simp_all add: quiet_def)

lemma lookup_append: "lookup n (p @ q) = (case lookup n p of None \<Rightarrow> None | Some m \<Rightarrow> lookup m q)"
proof (induction n p rule: lookup.induct)
  case (2 entries c cs)
  then show ?case by (simp split: option.split)
qed simp_all

lemma lookup_put_other:
  "\<not> prefix p q \<Longrightarrow> \<not> prefix q p \<Longrightarrow> lookup (put_at p new n) q = lookup n q"
proof (induction p new n arbitrary: q rule: put_at.induct)
  case (2 c cs new entries)
  show ?case
  proof (cases q)
    case (Cons d ds)
    show ?thesis
    proof (cases "d = c")
      case True
      then have "\<not> prefix cs ds" "\<not> prefix ds cs" using 2 Cons by simp_all
      with 2(1) [of ds] show ?thesis
        using True Cons by (cases ds) (auto simp: update_conv' split: option.splits)
    next
      case False
      then show ?thesis using Cons by (simp add: update_conv')
    qed
  qed (use 2 in simp)
qed simp_all

lemma map_of_filter_other: "d \<noteq> c \<Longrightarrow> map_of (filter (\<lambda>e. fst e \<noteq> c) es) d = map_of es d"
  by (induction es) auto

lemma map_of_map_at:
  "map_of (map (\<lambda>e. if fst e = c then (c, f (snd e)) else e) es) d =
     (if d = c then map_option f (map_of es c) else map_of es d)"
  by (induction es) auto

lemma lookup_remove_other: "\<not> prefix p q \<Longrightarrow> \<not> prefix q p \<Longrightarrow> lookup (remove_at p n) q = lookup n q"
proof (induction p n arbitrary: q rule: remove_at.induct)
  case (1 c entries)
  then show ?case by (cases q) (auto simp: map_of_filter_other split: option.splits)
next
  case (2 c c' cs entries)
  then show ?case
    by (cases q) (auto simp: map_of_map_at dest: map_of_SomeD split: option.splits)
qed simp_all

lemma lookup_remove_same: "p \<noteq> [] \<Longrightarrow> lookup (remove_at p n) (p @ q) = None"
proof (induction p n rule: remove_at.induct)
  case (1 c entries)
  have "map_of (filter (\<lambda>e. fst e \<noteq> c) entries) c = None"
    by (induction entries) auto
  then show ?case by simp
next
  case (2 c c' cs entries)
  then show ?case by (auto simp: map_of_map_at dest: map_of_SomeD split: option.splits)
qed (auto simp: neq_Nil_conv)

lemma exists_prefix: "exists_at n (p @ q) \<Longrightarrow> exists_at n p"
  by (auto simp: exists_at_def lookup_append split: option.splits)

end
