(* ===== verification/Ingestion.thy ===== *)
theory Ingestion
  imports HostFS Database
begin

text \<open>
  Accepting a source to scan: \<^verbatim>\<open>scanners/path_validator.py\<close> and
  \<^verbatim>\<open>scanners/source_ingestion.py\<close>. The checks of one call see the file system at one moment.
  Archives are read by the standard library's \<open>zipfile\<close>, whose result on the bytes of a file is
  the parameter \<open>zips\<close>: nothing if they are no archive, else its members in order or the error of
  opening it.
\<close>

section \<open>The scanning boundary\<close>

definition path_error :: "string \<Rightarrow> error" where
  "path_error msg = Err PathValidationError msg"

definition repr_list :: "string list \<Rightarrow> string" where
  "repr_list xs = ''['' @ join '', '' (map py_repr xs) @ '']''"

definition allowed_by :: "node \<Rightarrow> string list \<Rightarrow> string list \<Rightarrow> string \<Rightarrow> bool" where
  "allowed_by tree cwd resolved allowed_raw =
     (case resolve_path tree cwd allowed_raw of Inl _ \<Rightarrow> False | Inr allowed \<Rightarrow> prefix allowed resolved)"

definition validate_path :: "string \<Rightarrow> Settings \<Rightarrow> node \<Rightarrow> string list \<Rightarrow> string list result" where
  "validate_path requested_path st tree cwd =
     (if st_allowed_scan_paths st = []
      then Inl (path_error ''No allowed scan paths configured. Set ALLOWED_SCAN_PATHS in environment.'')
      else (case resolve_path tree cwd requested_path of
        Inl e \<Rightarrow> Inl (path_error (''Cannot resolve path '' @ [CHR 0x27] @ requested_path @ [CHR 0x27]
                  @ '': '' @ err_msg e))
      | Inr resolved \<Rightarrow>
          if \<not> exists_at tree resolved
          then Inl (path_error (''Path does not exist: '' @ show_path resolved))
          else if \<not> dir_at tree resolved
          then Inl (path_error (''Path is not a directory: '' @ show_path resolved))
          else if list_ex (allowed_by tree cwd resolved) (st_allowed_scan_paths st)
          then Inr resolved
          else Inl (path_error (''Path '' @ [CHR 0x27] @ show_path resolved @ [CHR 0x27]
                  @ '' is outside all allowed scan paths. Allowed: ''
                  @ repr_list (st_allowed_scan_paths st)))))"

definition validate_scan_path :: "string \<Rightarrow> Settings \<Rightarrow> host \<Rightarrow> string list result \<times> host" where
  "validate_scan_path requested_path st h =
     (let (tree, h) = access h in (validate_path requested_path st tree (hs_cwd h), h))"

section \<open>Sources\<close>

record SourceHandle =
  sh_root :: "string list"
  sh_source_type :: string
  sh_is_temporary :: bool
  sh_original_path :: "string list"

text \<open>The state of a run: the platform (or a session on it) and the host.\<close>

type_synonym 's world = "'s \<times> host"

definition source_cleanup :: "SourceHandle \<Rightarrow> host \<Rightarrow> host" where
  "source_cleanup self h =
     (if sh_is_temporary self
      then (let (tree, h) = access h
            in if exists_at tree (sh_root self) then h\<lparr>hs_tree := remove_at (sh_root self) tree\<rparr> else h)
      else h)"

definition ingest_local_directory :: "string \<Rightarrow> Settings \<Rightarrow> host \<Rightarrow> SourceHandle result \<times> host" where
  "ingest_local_directory path st h =
     and_then (validate_scan_path path st h)
       (\<lambda>resolved h. (Inr \<lparr>sh_root = resolved, sh_source_type = ''directory'', sh_is_temporary = False,
          sh_original_path = resolved\<rparr>, h))"

section \<open>The members of an archive\<close>

record ZipInfo =
  zi_filename :: string
  zi_file_size :: int
  zi_compress_size :: int
  zi_external_attr :: int
  zi_open_error :: "error option"
  zi_read :: "bytes result"

type_synonym zip_library = "bytes \<Rightarrow> ZipInfo list result option"

definition ingestion_error :: "string \<Rightarrow> error" where
  "ingestion_error msg = Err SourceIngestionError msg"

definition backslash :: char where
  "backslash = CHR 0x5C"

definition reject_unsafe_member_name :: "string \<Rightarrow> unit result" where
  "reject_unsafe_member_name name =
     (if name = [] \<or> strip name = []
      then Inl (ingestion_error ''Archive contains an entry with an empty name.'')
      else if startswith name [slash] \<or> startswith name [backslash]
      then Inl (ingestion_error (''Archive entry uses an absolute path: '' @ py_repr name))
      else if 1 < length name \<and> name ! 1 = CHR '':''
      then Inl (ingestion_error (''Archive entry uses an absolute path: '' @ py_repr name))
      else if ''..'' \<in> set (split_on slash (replace_char backslash [slash] name))
      then Inl (ingestion_error (''Archive entry attempts path traversal: '' @ py_repr name))
      else Inr ())"

definition compression_ratio :: "ZipInfo \<Rightarrow> rat" where
  "compression_ratio info = fl (of_int (zi_file_size info) / of_int (max (zi_compress_size info) 1))"

text \<open>\<open>stat.S_ISLNK\<close> of the Unix mode in the upper half of the attributes.\<close>

definition member_is_link :: "ZipInfo \<Rightarrow> bool" where
  "member_is_link info = (zi_external_attr info div 2 ^ 16 div 2 ^ 12 mod 16 = 10)"

definition validate_member :: "Settings \<Rightarrow> ZipInfo \<Rightarrow> unit result" where
  "validate_member st info =
     rbind (reject_unsafe_member_name (zi_filename info)) (\<lambda>_.
       if 0 < zi_compress_size info
          \<and> of_int (st_max_archive_compression_ratio st) < compression_ratio info
       then Inl (ingestion_error (''Archive entry '' @ [CHR 0x27] @ zi_filename info @ [CHR 0x27]
              @ '' has a suspicious compression ratio ('' @ show_fixed0 (compression_ratio info) @ ''x) ''
              @ em_dash @ '' rejected as a possible archive bomb.''))
       else if member_is_link info
       then Inl (ingestion_error (''Archive entry '' @ [CHR 0x27] @ zi_filename info @ [CHR 0x27]
              @ '' is a symbolic link '' @ em_dash @ '' not permitted.''))
       else Inr ())"

fun validate_members :: "Settings \<Rightarrow> int \<Rightarrow> ZipInfo list \<Rightarrow> int result" where
  "validate_members st sum_bytes [] = Inr sum_bytes"
| "validate_members st sum_bytes (info # infos) =
     rbind (validate_member st info) (\<lambda>_. validate_members st (sum_bytes + zi_file_size info) infos)"

definition validate_archive_members :: "Settings \<Rightarrow> ZipInfo list \<Rightarrow> unit result" where
  "validate_archive_members st infos =
     (if st_max_archive_entry_count st < int (length infos)
      then Inl (ingestion_error (''Archive has '' @ show_nat (length infos) @ '' entries, exceeding the limit of ''
             @ show_int (st_max_archive_entry_count st) @ '' (possible archive bomb).''))
      else rbind (validate_members st 0 infos) (\<lambda>total_uncompressed.
        if st_max_archive_uncompressed_bytes st < total_uncompressed
        then Inl (ingestion_error (''Archive would expand to '' @ show_int total_uncompressed
               @ '' bytes, exceeding the limit of '' @ show_int (st_max_archive_uncompressed_bytes st)
               @ '' bytes.''))
        else Inr ()))"

section \<open>Extraction\<close>

definition extraction_target :: "node \<Rightarrow> string list \<Rightarrow> string \<Rightarrow> string list result" where
  "extraction_target tree extract_dir filename = resolve_path tree extract_dir filename"

definition extract_member :: "string list \<Rightarrow> ZipInfo \<Rightarrow> node \<Rightarrow> unit result \<times> node" where
  "extract_member extract_dir info tree =
     (if endswith (zi_filename info) [slash] then (Inr (), tree)
      else (case extraction_target tree extract_dir (zi_filename info) of
        Inl e \<Rightarrow> (Inl e, tree)
      | Inr target \<Rightarrow>
          if \<not> prefix extract_dir target
          then (Inl (ingestion_error (''Archive entry resolves outside the extraction root: ''
                  @ py_repr (zi_filename info))), tree)
          else (case make_dirs (butlast target) tree of
            Inl e \<Rightarrow> (Inl e, tree)
          | Inr tree \<Rightarrow>
              (case zi_open_error info of
                 Some e \<Rightarrow> (Inl e, tree)
               | None \<Rightarrow>
                   if dir_at tree target then (Inl (os_error 21 ''Is a directory'' target), tree)
                   else (case zi_read info of
                     Inl e \<Rightarrow> (Inl e, put_at target (File (Inr 0) (Inr [])) tree)
                   | Inr data \<Rightarrow>
                       (Inr (), put_at target (File (Inr (int (length data))) (Inr data)) tree))))))"

fun safe_extract :: "string list \<Rightarrow> ZipInfo list \<Rightarrow> node \<Rightarrow> unit result \<times> node" where
  "safe_extract extract_dir [] tree = (Inr (), tree)"
| "safe_extract extract_dir (info # infos) tree =
     and_then (extract_member extract_dir info tree) (\<lambda>_. safe_extract extract_dir infos)"

definition draw_uuid :: "('z) platform_scheme \<Rightarrow> string \<times> ('z) platform_scheme" where
  "draw_uuid s = (pf_uuid s (pf_draws s), s\<lparr>pf_draws := Suc (pf_draws s)\<rparr>)"

text \<open>\<open>uuid4().hex\<close>: without the dashes.\<close>

definition uuid_hex :: "string \<Rightarrow> string" where
  "uuid_hex u = filter (\<lambda>c. c \<noteq> CHR ''-'') u"

definition parent_path :: "string \<Rightarrow> string" where
  "parent_path p =
     (let cs = path_components p
      in if startswith p [slash] then show_path (butlast cs)
         else if length cs \<le> 1 then ''.'' else join [slash] (butlast cs))"

text \<open>Reading the archive, and extracting it when its members pass.\<close>

definition extract_archive ::
  "zip_library \<Rightarrow> Settings \<Rightarrow> bytes result \<Rightarrow> string list \<Rightarrow> node \<Rightarrow> unit result \<times> node" where
  "extract_archive zips st data extract_dir tree =
     (case rbind data (\<lambda>bs. case zips bs of
              None \<Rightarrow> Inl (Err PyException ''File is not a zip file'') | Some members \<Rightarrow> members) of
        Inl e \<Rightarrow> (Inl e, tree)
      | Inr infos \<Rightarrow>
          (case validate_archive_members st infos of
             Inl e \<Rightarrow> (Inl e, tree)
           | Inr _ \<Rightarrow> safe_extract extract_dir infos tree))"

definition is_zipfile :: "zip_library \<Rightarrow> bytes result \<Rightarrow> bool" where
  "is_zipfile zips data = (case data of Inl _ \<Rightarrow> False | Inr bs \<Rightarrow> zips bs \<noteq> None)"

definition is_file_node :: "node option \<Rightarrow> bool" where
  "is_file_node n =
     (case n of
        Some (File st _) \<Rightarrow> \<not> isl st
      | Some (Link to_dir _ st _) \<Rightarrow> \<not> to_dir \<and> \<not> isl st
      | _ \<Rightarrow> False)"

definition check_archive_file :: "zip_library \<Rightarrow> node \<Rightarrow> string list \<Rightarrow> string \<Rightarrow> unit result" where
  "check_archive_file zips tree archive_path name =
     (if \<not> is_file_node (node_at tree archive_path)
      then Inl (ingestion_error (''Archive not found: '' @ show_path archive_path))
      else if lower (path_suffix name) \<noteq> ''.zip''
      then Inl (ingestion_error (''Only .zip archives are supported, got: '' @ path_suffix name))
      else if \<not> is_zipfile zips (read_at tree archive_path)
      then Inl (ingestion_error (''Not a valid zip archive: '' @ show_path archive_path))
      else Inr ())"

text \<open>The new extraction directory under the temporary root.\<close>

definition make_extract_dir ::
  "Settings \<Rightarrow> string \<Rightarrow> string list \<Rightarrow> node \<Rightarrow> (string list \<times> node) result" where
  "make_extract_dir st uuid cwd tree =
     rbind (resolve_path tree cwd (st_scan_temp_dir st)) (\<lambda>temp_root.
     rbind (make_dirs temp_root tree) (\<lambda>tree.
       (let extract_dir = temp_root @ [''scan_'' @ uuid_hex uuid]
        in if exists_at tree extract_dir then Inl (os_error 17 ''File exists'' extract_dir)
           else Inr (extract_dir, put_at extract_dir (Dir []) tree))))"

definition failed_extraction :: "error \<Rightarrow> error" where
  "failed_extraction e =
     (if isinstance e SourceIngestionError then e
      else ingestion_error (''Failed to extract archive: '' @ err_msg e))"

definition ingest_zip_archive ::
  "zip_library \<Rightarrow> string \<Rightarrow> Settings \<Rightarrow> ('z) platform_scheme world
     \<Rightarrow> SourceHandle result \<times> ('z) platform_scheme world" where
  "ingest_zip_archive zips path st w =
     (case w of (s, h) \<Rightarrow>
        (case validate_scan_path (parent_path path) st h of
           (Inl e, h) \<Rightarrow> (Inl e, (s, h))
         | (Inr directory, h) \<Rightarrow>
             (let name = path_name path;
                  archive_path = directory @ (if name = [] then [] else [name]);
                  (tree, h) = access h
              in case check_archive_file zips tree archive_path name of
                   Inl e \<Rightarrow> (Inl e, (s, h))
                 | Inr _ \<Rightarrow>
                     (let (uuid, s) = draw_uuid s
                      in case make_extract_dir st uuid (hs_cwd h) tree of
                           Inl e \<Rightarrow> (Inl e, (s, h))
                         | Inr (extract_dir, tree) \<Rightarrow>
                             (case extract_archive zips st (read_at tree archive_path) extract_dir tree of
                                (Inl e, tree) \<Rightarrow>
                                  (Inl (failed_extraction e),
                                   (s, h\<lparr>hs_tree := remove_at extract_dir tree\<rparr>))
                              | (Inr _, tree) \<Rightarrow>
                                  (Inr \<lparr>sh_root = extract_dir, sh_source_type = ''archive'',
                                        sh_is_temporary = True, sh_original_path = archive_path\<rparr>,
                                   (s, h\<lparr>hs_tree := tree\<rparr>)))))))"

section \<open>Where the demonstration systems are\<close>

text \<open>
  Where the two demonstration systems are: \<open>mock_banking_system_path\<close> and
  \<open>reference_banking_system_path\<close> of \<^verbatim>\<open>core/config.py\<close>, which look at the host.
\<close>

text \<open>\<open>str(Path(directory) / name)\<close>.\<close>

definition path_join :: "string \<Rightarrow> string \<Rightarrow> string" where
  "path_join directory name = (if directory = [] then name else directory @ [slash] @ name)"

definition path_str :: "string \<Rightarrow> string" where
  "path_str p =
     (let cs = path_components p
      in if startswith p [slash] then show_path cs else if cs = [] then ''.'' else join [slash] cs)"

text \<open>\<open>Path.exists\<close>: a name that cannot exist does not.\<close>

definition path_exists :: "node \<Rightarrow> string list \<Rightarrow> string \<Rightarrow> bool" where
  "path_exists tree cwd p =
     (case resolve_path tree cwd p of Inl _ \<Rightarrow> False | Inr resolved \<Rightarrow> exists_at tree resolved)"

definition rstrip_chars :: "string \<Rightarrow> string \<Rightarrow> string" where
  "rstrip_chars chars s = rev (dropWhile (\<lambda>c. c \<in> set chars) (rev s))"

primrec demo_location :: "string \<Rightarrow> node \<Rightarrow> string list \<Rightarrow> string list \<Rightarrow> string" where
  "demo_location name tree cwd [] = name"
| "demo_location name tree cwd (allowed_path # paths) =
     (let normalized = rstrip_chars [slash] (replace_char backslash [slash] allowed_path);
          candidate = path_join allowed_path name
      in if endswith normalized (slash # name) \<or> normalized = name
         then rstrip_chars [backslash, slash] allowed_path
         else if endswith normalized ''/scan-targets'' then normalized @ slash # name
         else if path_exists tree cwd candidate then path_str candidate
         else demo_location name tree cwd paths)"

definition mock_banking_system_path :: "Settings \<Rightarrow> node \<Rightarrow> string list \<Rightarrow> string" where
  "mock_banking_system_path s tree cwd =
     demo_location ''mock_banking_system'' tree cwd (st_allowed_scan_paths s)"

definition reference_banking_system_path :: "Settings \<Rightarrow> node \<Rightarrow> string list \<Rightarrow> string" where
  "reference_banking_system_path s tree cwd =
     demo_location ''reference_banking_system'' tree cwd (st_allowed_scan_paths s)"

text \<open>The first allowed path that decides is the one that is taken; without one it is the name alone.\<close>

definition decides :: "string \<Rightarrow> node \<Rightarrow> string list \<Rightarrow> string \<Rightarrow> bool" where
  "decides name tree cwd allowed_path =
     (let normalized = rstrip_chars [slash] (replace_char backslash [slash] allowed_path)
      in endswith normalized (slash # name) \<or> normalized = name \<or> endswith normalized ''/scan-targets''
         \<or> path_exists tree cwd (path_join allowed_path name))"

lemma demo_location_first:
  "demo_location name tree cwd paths =
     (case List.find (decides name tree cwd) paths of
        None \<Rightarrow> name
      | Some allowed_path \<Rightarrow> demo_location name tree cwd [allowed_path])"
  by (induction paths) (auto simp: decides_def Let_def)

end
