(* ===== verification/FileClassifier.thy ===== *)
theory FileClassifier
  imports Paths Regex ScanTypes
begin

text \<open>
  \<^verbatim>\<open>scanners/file_classifier.py\<close> and \<^verbatim>\<open>scanners/domain_mapper.py\<close>: what a discovered file is,
  judged by its path, and the banking domains it belongs to, with the signal each mapping rests
  on. A dict is an association list in the source's order.
\<close>

section \<open>Classification\<close>

definition LANGUAGE_BY_EXTENSION :: "(string \<times> string) list" where
  "LANGUAGE_BY_EXTENSION =
     [(''.py'', ''python''), (''.js'', ''javascript''), (''.jsx'', ''javascript''),
      (''.ts'', ''typescript''), (''.tsx'', ''typescript''), (''.java'', ''java''),
      (''.cs'', ''csharp''), (''.go'', ''go''), (''.sh'', ''shell''), (''.bash'', ''shell''),
      (''.ps1'', ''powershell''), (''.sql'', ''sql'')]"

definition CONFIG_EXTENSIONS :: "string list" where
  "CONFIG_EXTENSIONS =
     [''.json'', ''.yaml'', ''.yml'', ''.xml'', ''.toml'', ''.ini'', ''.cfg'', ''.conf'', ''.env'',
      ''.properties'']"

definition IAC_HINTS :: "string list" where
  "IAC_HINTS = [''terraform'', ''.tf'', ''kubernetes'', ''k8s'', ''helm'', ''ansible'', ''cloudformation'']"

definition DEPLOYMENT_HINTS :: "string list" where
  "DEPLOYMENT_HINTS =
     [''dockerfile'', ''docker-compose'', ''.github/workflows'', ''deployment'', ''deploy/'', ''ci/'', ''cd/'']"

definition DOMAIN_HINT_KEYWORDS :: "(string \<times> string list) list" where
  "DOMAIN_HINT_KEYWORDS =
     [(''database_schema_or_migration'',
         [''migration'', ''schema'', ''alembic'', ''flyway'', ''liquibase'', ''ddl'']),
      (''api_definition'', [''openapi'', ''swagger'', ''api_spec'', ''routes'', ''endpoints'', ''.proto'']),
      (''auth_config'', [''auth'', ''oauth'', ''oidc'', ''saml'', ''jwt'', ''login'', ''credential'']),
      (''logging_config'', [''logging'', ''logger'', ''log4j'', ''logback'']),
      (''monitoring_config'', [''prometheus'', ''grafana'', ''monitoring'', ''metrics'', ''alertmanager'']),
      (''audit_related'', [''audit'', ''compliance_log'', ''activity_log'']),
      (''payment_related'',
         [''payment'', ''settlement'', ''transfer'', ''wire'', ''ach'', ''swift'', ''card_processing'']),
      (''account_related'', [''account'', ''ledger'', ''balance'', ''statement'']),
      (''credit_lending_related'', [''credit'', ''loan'', ''lending'', ''underwriting'', ''collections'']),
      (''investment_related'',
         [''investment'', ''portfolio'', ''trading'', ''trade'', ''brokerage'', ''securities'']),
      (''customer_identity_related'', [''customer'', ''kyc'', ''identity'', ''onboarding'', ''profile'']),
      (''data_governance_related'', [''retention'', ''classification'', ''governance'', ''data_policy'']),
      (''security_controls'',
         [''security'', ''iam'', ''rbac'', ''acl'', ''permission'', ''encryption'', ''tls''])]"

record ClassificationResult =
  cf_language :: "string option"
  cf_detected_type :: string
  cf_category_flags :: "(string \<times> bool) list"

definition any_in :: "string list \<Rightarrow> string \<Rightarrow> bool" where
  "any_in hints txt = list_ex (contains txt) hints"

definition detect_type :: "string \<Rightarrow> string \<Rightarrow> string \<Rightarrow> string" where
  "detect_type path_lower name_lower ext =
     (if name_lower = ''dockerfile'' \<or> startswith name_lower ''dockerfile.'' then ''dockerfile''
      else if contains name_lower ''docker-compose'' then ''docker_compose''
      else if ext = ''.tf'' \<or> ext = ''.tfvars'' then ''terraform''
      else if ext = ''.sql'' then ''sql''
      else if ext \<in> {''.yaml'', ''.yml''} \<and> any_in [''.github/workflows''] path_lower then ''ci_workflow''
      else if ext \<in> set CONFIG_EXTENSIONS then ''configuration''
      else if map_of LANGUAGE_BY_EXTENSION ext \<noteq> None then ''source_code''
      else if ext = ''.md'' then ''documentation''
      else if ext = ''.csv'' then ''data_file''
      else ''text'')"

definition classify_file :: "string \<Rightarrow> string \<Rightarrow> ClassificationResult" where
  "classify_file relative_path extension =
     (let path_lower = lower relative_path;
          name_lower = lower (path_name relative_path);
          ext = lower extension;
          language = map_of LANGUAGE_BY_EXTENSION ext
      in \<lparr>cf_language = language, cf_detected_type = detect_type path_lower name_lower ext,
          cf_category_flags =
            [(''is_programming_language'', language \<noteq> None),
             (''is_configuration'', ext \<in> set CONFIG_EXTENSIONS),
             (''is_infrastructure_as_code'', any_in IAC_HINTS path_lower \<or> ext = ''.tf''),
             (''is_deployment_or_environment'',
                any_in DEPLOYMENT_HINTS path_lower \<or> name_lower = ''dockerfile'')]
            @ map (\<lambda>(flag_name, keywords). (flag_name, any_in keywords path_lower)) DOMAIN_HINT_KEYWORDS\<rparr>)"

definition secret_like_name :: re where
  "secret_like_name =
     Grp 1 (alts [lit_i ''secret'', lit_i ''credential'', lit_i ''password'', lit_i ''key'', lit_i ''token''])"

definition looks_sensitive_by_name :: "string \<Rightarrow> bool" where
  "looks_sensitive_by_name relative_path = (re_search secret_like_name relative_path \<noteq> None)"

section \<open>Domains\<close>

definition FLAG_TO_DOMAIN :: "(string \<times> BankingDomain \<times> ConfidenceLevel) list" where
  "FLAG_TO_DOMAIN =
     [(''payment_related'', BankingDomain.PAYMENTS, ConfidenceLevel.HIGH),
      (''account_related'', BankingDomain.CORE_BANKING, ConfidenceLevel.MEDIUM),
      (''credit_lending_related'', BankingDomain.CREDIT_LENDING, ConfidenceLevel.HIGH),
      (''investment_related'', BankingDomain.INVESTMENTS_TRADING, ConfidenceLevel.HIGH),
      (''customer_identity_related'', BankingDomain.ONBOARDING_IDENTITY_ACCESS, ConfidenceLevel.HIGH),
      (''auth_config'', BankingDomain.ONBOARDING_IDENTITY_ACCESS, ConfidenceLevel.MEDIUM),
      (''audit_related'', BankingDomain.HUMAN_APPROVAL_AUDITABILITY, ConfidenceLevel.HIGH),
      (''logging_config'', BankingDomain.MONITORING_OBSERVABILITY, ConfidenceLevel.MEDIUM),
      (''monitoring_config'', BankingDomain.MONITORING_OBSERVABILITY, ConfidenceLevel.HIGH),
      (''data_governance_related'', BankingDomain.PRIVACY_DATA_PROTECTION, ConfidenceLevel.MEDIUM),
      (''security_controls'', BankingDomain.APPLICATION_SECURITY, ConfidenceLevel.MEDIUM),
      (''database_schema_or_migration'', BankingDomain.DATABASE_CONTROLS_SOD, ConfidenceLevel.MEDIUM),
      (''api_definition'', BankingDomain.INFRASTRUCTURE_API_SECURITY, ConfidenceLevel.MEDIUM),
      (''is_infrastructure_as_code'', BankingDomain.INFRASTRUCTURE_API_SECURITY, ConfidenceLevel.MEDIUM),
      (''is_deployment_or_environment'', BankingDomain.CHANGE_MANAGEMENT, ConfidenceLevel.LOW)]"

definition TERMINOLOGY_HINTS :: "(string \<times> BankingDomain) list" where
  "TERMINOLOGY_HINTS =
     [(''fraud'', BankingDomain.FRAUD_CONTROLS), (''aml'', BankingDomain.FRAUD_CONTROLS),
      (''sanctions'', BankingDomain.FRAUD_CONTROLS),
      (''reconcil'', BankingDomain.TRANSACTION_PROCESSING_REPORTING),
      (''ledger'', BankingDomain.TRANSACTION_PROCESSING_REPORTING),
      (''disaster_recovery'', BankingDomain.BUSINESS_CONTINUITY_DR),
      (''backup'', BankingDomain.BUSINESS_CONTINUITY_DR),
      (''failover'', BankingDomain.BUSINESS_CONTINUITY_DR),
      (''model_governance'', BankingDomain.MODEL_AI_GOVERNANCE),
      (''ml_model'', BankingDomain.MODEL_AI_GOVERNANCE)]"

text \<open>One step of either loop: a mapping is added unless its domain is already mapped.\<close>

definition add_mapping :: "DomainMapping \<Rightarrow> DomainMapping list \<Rightarrow> DomainMapping list" where
  "add_mapping m mappings = (if mp_domain m \<in> mp_domain ` set mappings then mappings else mappings @ [m])"

definition flag_step :: "string \<times> bool \<Rightarrow> DomainMapping list \<Rightarrow> DomainMapping list" where
  "flag_step flag mappings =
     (case flag of (flag_name, is_set) \<Rightarrow>
        if \<not> is_set then mappings
        else (case map_of FLAG_TO_DOMAIN flag_name of
                None \<Rightarrow> mappings
              | Some (domain, confidence) \<Rightarrow>
                  add_mapping
                    \<lparr>mp_domain = domain, mp_confidence = confidence,
                     mp_reason = ''classification flag '' @ [CHR 0x27] @ flag_name @ [CHR 0x27]
                       @ '' was set for this file'',
                     mp_source = MappingSource.SCANNER_RESULT\<rparr> mappings))"

definition term_step :: "string \<Rightarrow> string \<times> BankingDomain \<Rightarrow> DomainMapping list \<Rightarrow> DomainMapping list" where
  "term_step path_lower hint mappings =
     (case hint of (keyword, domain) \<Rightarrow>
        if \<not> contains path_lower keyword then mappings
        else add_mapping
          \<lparr>mp_domain = domain, mp_confidence = ConfidenceLevel.LOW,
           mp_reason = ''path contains banking terminology keyword '' @ [CHR 0x27] @ keyword @ [CHR 0x27],
           mp_source = MappingSource.BANKING_TERMINOLOGY\<rparr> mappings)"

definition map_file_to_domains :: "string \<Rightarrow> ClassificationResult \<Rightarrow> DomainMapping list" where
  "map_file_to_domains relative_path classification =
     fold (term_step (lower relative_path)) TERMINOLOGY_HINTS
       (fold flag_step (cf_category_flags classification) [])"

definition all_domains_available :: "BankingDomain list" where
  "all_domains_available = BankingDomain_members"

section \<open>Facts\<close>

lemma add_mapping_domains [simp]:
  "mp_domain ` set (add_mapping m ms) = insert (mp_domain m) (mp_domain ` set ms)"
  by (auto simp: add_mapping_def)

lemma add_mapping_distinct:
  "distinct (map mp_domain ms) \<Longrightarrow> distinct (map mp_domain (add_mapping m ms))"
  by (simp add: add_mapping_def)

definition flag_domain :: "string \<times> bool \<Rightarrow> BankingDomain set" where
  "flag_domain flag = (if snd flag then (case map_of FLAG_TO_DOMAIN (fst flag) of
     None \<Rightarrow> {} | Some (d, _) \<Rightarrow> {d}) else {})"

definition term_domain :: "string \<Rightarrow> string \<times> BankingDomain \<Rightarrow> BankingDomain set" where
  "term_domain txt hint = (if contains txt (fst hint) then {snd hint} else {})"

lemma fold_flags:
  "distinct (map mp_domain ms) \<Longrightarrow>
     distinct (map mp_domain (fold flag_step flags ms))
     \<and> mp_domain ` set (fold flag_step flags ms) = mp_domain ` set ms \<union> \<Union> (flag_domain ` set flags)"
proof (induction flags arbitrary: ms)
  case (Cons f fs)
  have "distinct (map mp_domain (flag_step f ms))"
    and "mp_domain ` set (flag_step f ms) = mp_domain ` set ms \<union> flag_domain f"
    using Cons.prems
    by (cases f; cases "map_of FLAG_TO_DOMAIN (fst f)"; force simp: flag_step_def flag_domain_def add_mapping_distinct)+
  with Cons.IH [of "flag_step f ms"] show ?case by auto
qed simp

lemma fold_terms:
  "distinct (map mp_domain ms) \<Longrightarrow>
     distinct (map mp_domain (fold (term_step txt) hints ms))
     \<and> mp_domain ` set (fold (term_step txt) hints ms)
        = mp_domain ` set ms \<union> \<Union> (term_domain txt ` set hints)"
proof (induction hints arbitrary: ms)
  case (Cons h hs)
  have "distinct (map mp_domain (term_step txt h ms))"
    and "mp_domain ` set (term_step txt h ms) = mp_domain ` set ms \<union> term_domain txt h"
    using Cons.prems by (cases h; simp add: term_step_def term_domain_def add_mapping_distinct)+
  with Cons.IH [of "term_step txt h ms"] show ?case by auto
qed simp

lemma flag_domains_iff:
  "d \<in> \<Union> (flag_domain ` set flags) \<longleftrightarrow>
     (\<exists>flag confidence. (flag, True) \<in> set flags \<and> map_of FLAG_TO_DOMAIN flag = Some (d, confidence))"
  by (force simp: flag_domain_def split: if_splits option.splits)

lemma term_domains_iff:
  "d \<in> \<Union> (term_domain txt ` set hints) \<longleftrightarrow> (\<exists>term. (term, d) \<in> set hints \<and> contains txt term)"
  by (force simp: term_domain_def split: if_splits)

text \<open>A signal for every domain: a flag or a term, and a keyword that raises it.\<close>

definition domain_signal :: "BankingDomain \<Rightarrow> (string + string) \<times> string" where
  "domain_signal d =
     (case d of
        BankingDomain.CORE_BANKING \<Rightarrow> (Inl ''account_related'', ''balance'')
      | BankingDomain.PAYMENTS \<Rightarrow> (Inl ''payment_related'', ''payment'')
      | BankingDomain.CREDIT_LENDING \<Rightarrow> (Inl ''credit_lending_related'', ''loan'')
      | BankingDomain.INVESTMENTS_TRADING \<Rightarrow> (Inl ''investment_related'', ''portfolio'')
      | BankingDomain.ONBOARDING_IDENTITY_ACCESS \<Rightarrow> (Inl ''customer_identity_related'', ''kyc'')
      | BankingDomain.TRANSACTION_PROCESSING_REPORTING \<Rightarrow> (Inr ''reconcil'', ''reconcil'')
      | BankingDomain.FRAUD_CONTROLS \<Rightarrow> (Inr ''fraud'', ''fraud'')
      | BankingDomain.PRIVACY_DATA_PROTECTION \<Rightarrow> (Inl ''data_governance_related'', ''retention'')
      | BankingDomain.APPLICATION_SECURITY \<Rightarrow> (Inl ''security_controls'', ''rbac'')
      | BankingDomain.INFRASTRUCTURE_API_SECURITY \<Rightarrow> (Inl ''api_definition'', ''openapi'')
      | BankingDomain.DATABASE_CONTROLS_SOD \<Rightarrow> (Inl ''database_schema_or_migration'', ''schema'')
      | BankingDomain.CHANGE_MANAGEMENT \<Rightarrow> (Inl ''is_deployment_or_environment'', ''dockerfile'')
      | BankingDomain.MONITORING_OBSERVABILITY \<Rightarrow> (Inl ''logging_config'', ''logger'')
      | BankingDomain.BUSINESS_CONTINUITY_DR \<Rightarrow> (Inr ''backup'', ''backup'')
      | BankingDomain.MODEL_AI_GOVERNANCE \<Rightarrow> (Inr ''ml_model'', ''ml_model'')
      | BankingDomain.HUMAN_APPROVAL_AUDITABILITY \<Rightarrow> (Inl ''audit_related'', ''audit''))"

definition hints_of :: "string \<Rightarrow> string list option" where
  "hints_of = map_of ((''is_deployment_or_environment'', DEPLOYMENT_HINTS) # DOMAIN_HINT_KEYWORDS)"

definition signal_ok :: "BankingDomain \<Rightarrow> bool" where
  "signal_ok d =
     (case domain_signal d of (signal, keyword) \<Rightarrow>
        lower keyword = keyword
        \<and> (case signal of
             Inr term \<Rightarrow> (term, d) \<in> set TERMINOLOGY_HINTS \<and> term = keyword
           | Inl flag \<Rightarrow> map_option fst (map_of FLAG_TO_DOMAIN flag) = Some d
               \<and> (case hints_of flag of None \<Rightarrow> False | Some hints \<Rightarrow> keyword \<in> set hints)))"

lemma signals_ok: "list_all signal_ok BankingDomain_members"
  by code_simp

lemma contains_self [simp]: "contains s s"
  by (cases s) (simp_all add: startswith_def)

lemma any_in_self: "k \<in> set hints \<Longrightarrow> any_in hints k"
  by (auto simp: any_in_def list_ex_iff intro!: bexI [of _ k])

lemma flag_hints:
  assumes "hints_of flag = Some hints"
  shows "\<exists>b. (flag, any_in hints (lower path) \<or> b) \<in> set (cf_category_flags (classify_file path extension))"
proof (cases "flag = ''is_deployment_or_environment''")
  case True
  with assms have "hints = DEPLOYMENT_HINTS" by (simp add: hints_of_def)
  with True show ?thesis by (auto simp: classify_file_def Let_def)
next
  case False
  with assms have "(flag, hints) \<in> set DOMAIN_HINT_KEYWORDS"
    by (auto simp: hints_of_def dest: map_of_SomeD)
  then have "(flag, any_in hints (lower path)) \<in>
      (\<lambda>(flag_name, keywords). (flag_name, any_in keywords (lower path))) ` set DOMAIN_HINT_KEYWORDS"
    by (rule rev_image_eqI) simp
  then show ?thesis
    by (intro exI [of _ False]) (simp add: classify_file_def Let_def)
qed

lemma hints_raise_flag:
  "hints_of flag = Some hints \<Longrightarrow> keyword \<in> set hints \<Longrightarrow> lower keyword = keyword \<Longrightarrow>
     (flag, True) \<in> set (cf_category_flags (classify_file keyword extension))"
  using flag_hints [of flag hints keyword extension] any_in_self [of keyword hints] by simp

lemma mapped_domains:
  "distinct (map mp_domain (map_file_to_domains path (classify_file path extension)))
   \<and> (\<forall>d. d \<in> mp_domain ` set (map_file_to_domains path (classify_file path extension)) \<longleftrightarrow>
        (\<exists>flag confidence. (flag, True) \<in> set (cf_category_flags (classify_file path extension))
           \<and> map_of FLAG_TO_DOMAIN flag = Some (d, confidence))
        \<or> (\<exists>term. (term, d) \<in> set TERMINOLOGY_HINTS \<and> contains (lower path) term))"
proof -
  let ?flags = "cf_category_flags (classify_file path extension)"
  have flags: "distinct (map mp_domain (fold flag_step ?flags []))"
    "mp_domain ` set (fold flag_step ?flags []) = \<Union> (flag_domain ` set ?flags)"
    using fold_flags [of "[]" ?flags] by simp_all
  have all: "distinct (map mp_domain (map_file_to_domains path (classify_file path extension)))"
    "mp_domain ` set (map_file_to_domains path (classify_file path extension)) =
       \<Union> (flag_domain ` set ?flags) \<union> \<Union> (term_domain (lower path) ` set TERMINOLOGY_HINTS)"
    using fold_terms [OF flags(1), of "lower path" TERMINOLOGY_HINTS]
    unfolding map_file_to_domains_def flags(2) by blast+
  then show ?thesis by (simp only: Let_def Un_iff flag_domains_iff term_domains_iff) simp
qed

lemma domain_reachable:
  "\<exists>path extension. d \<in> mp_domain ` set (map_file_to_domains path (classify_file path extension))"
proof -
  have "signal_ok d"
    using signals_ok banking_domain.complete by (auto simp: list_all_iff)
  then show ?thesis
    using mapped_domains [of "snd (domain_signal d)" "[]"]
    by (fastforce simp: signal_ok_def split: prod.splits sum.splits option.splits
        intro: hints_raise_flag)
qed

text \<open>A file is mapped to each banking domain at most once, and to exactly those for which a
  classification flag is set or a banking term occurs in its path, in any letter case; and no
  domain is out of reach: every one of the 16 is the domain of some path.\<close>

theorem file_domains:
  "(let mappings = map_file_to_domains path (classify_file path extension) in
      distinct (map mp_domain mappings)
      \<and> (\<forall>d. d \<in> mp_domain ` set mappings \<longleftrightarrow>
           (\<exists>flag confidence. (flag, True) \<in> set (cf_category_flags (classify_file path extension))
              \<and> map_of FLAG_TO_DOMAIN flag = Some (d, confidence))
           \<or> (\<exists>term. (term, d) \<in> set TERMINOLOGY_HINTS \<and> contains (lower path) term)))
   \<and> (\<forall>d. \<exists>path extension. d \<in> mp_domain ` set (map_file_to_domains path (classify_file path extension)))"
proof
  show "let mappings = map_file_to_domains path (classify_file path extension) in
      distinct (map mp_domain mappings)
      \<and> (\<forall>d. d \<in> mp_domain ` set mappings \<longleftrightarrow>
           (\<exists>flag confidence. (flag, True) \<in> set (cf_category_flags (classify_file path extension))
              \<and> map_of FLAG_TO_DOMAIN flag = Some (d, confidence))
           \<or> (\<exists>term. (term, d) \<in> set TERMINOLOGY_HINTS \<and> contains (lower path) term))"
    unfolding Let_def by (rule mapped_domains)
 show "\<forall>d. \<exists>path extension. d \<in> mp_domain ` set (map_file_to_domains path (classify_file path extension))"
    using domain_reachable by blast
qed

end
