(* ===== verification/ContentReader.thy ===== *)
theory ContentReader
  imports Prelude Paths Payload
begin

text \<open>
  \<^verbatim>\<open>scanners/content_reader.py\<close>: the safe reading of a file as text, line numbers of offsets,
  and \<open>str.splitlines\<close>. Text is a string of the Latin-1 range; a character beyond it appears as
  the bytes of its UTF-8 encoding.
\<close>

section \<open>Decoding\<close>

definition char_of_byte :: "byte \<Rightarrow> char" where
  "char_of_byte b = char_of (nat_of_byte b)"

definition latin1 :: "bytes \<Rightarrow> string" where
  "latin1 bs = map char_of_byte bs"

definition continuation :: "nat \<Rightarrow> bool" where
  "continuation n = (128 \<le> n \<and> n < 192)"

text \<open>
  One character of well-formed UTF-8: how many bytes it takes. The second byte's range excludes
  overlong forms, surrogates and codes past U+10FFFF.
\<close>

definition utf8_length :: "nat list \<Rightarrow> nat option" where
  "utf8_length ns =
     (case ns of
        [] \<Rightarrow> None
      | a # rest \<Rightarrow>
          if a < 128 then Some 1
          else (case rest of
                  [] \<Rightarrow> None
                | b # rest2 \<Rightarrow>
                    if 194 \<le> a \<and> a < 224 then (if continuation b then Some 2 else None)
                    else (case rest2 of
                            [] \<Rightarrow> None
                          | c # rest3 \<Rightarrow>
                              if a = 224 \<and> 160 \<le> b \<and> b < 192 \<and> continuation c
                                 \<or> (225 \<le> a \<and> a < 237 \<or> a = 238 \<or> a = 239) \<and> continuation b \<and> continuation c
                                 \<or> a = 237 \<and> 128 \<le> b \<and> b < 160 \<and> continuation c
                              then Some 3
                              else (case rest3 of
                                      [] \<Rightarrow> None
                                    | d # _ \<Rightarrow>
                                        if continuation c \<and> continuation d
                                           \<and> (a = 240 \<and> 144 \<le> b \<and> b < 192
                                              \<or> 241 \<le> a \<and> a < 244 \<and> continuation b
                                              \<or> a = 244 \<and> 128 \<le> b \<and> b < 144)
                                        then Some 4 else None))))"

definition utf8_text :: "bytes \<Rightarrow> string" where
  "utf8_text bs =
     (case map nat_of_byte bs of
        [a, b] \<Rightarrow> if a < 196 then [char_of ((a - 192) * 64 + (b - 128))] else latin1 bs
      | _ \<Rightarrow> latin1 bs)"

function decode_utf8 :: "bytes \<Rightarrow> string option" where
  "decode_utf8 bs =
     (if bs = [] then Some []
      else (case utf8_length (map nat_of_byte bs) of
              None \<Rightarrow> None
            | Some n \<Rightarrow>
                map_option (\<lambda>rest. utf8_text (take n bs) @ rest) (decode_utf8 (drop n bs))))"
  by pat_completeness auto

lemma utf8_length_pos: "utf8_length ns = Some n \<Longrightarrow> 0 < n"
  by (auto simp: utf8_length_def split: list.splits if_splits)

termination decode_utf8
  by (relation "measure length") (auto dest: utf8_length_pos)

declare decode_utf8.simps [simp del]

section \<open>Reading\<close>

definition DEFAULT_MAX_READ_BYTES :: nat where
  "DEFAULT_MAX_READ_BYTES = 2000000"

definition BINARY_SNIFF_WINDOW :: nat where
  "BINARY_SNIFF_WINDOW = 8192"

record ReadResult =
  rr_text :: string
  rr_encoding_used :: string
  rr_truncated :: bool
  rr_line_count :: int

definition looks_binary :: "bytes \<Rightarrow> bool" where
  "looks_binary raw = (0 \<in> set (take BINARY_SNIFF_WINDOW raw))"

definition count_char :: "char \<Rightarrow> string \<Rightarrow> nat" where
  "count_char c s = length (filter (\<lambda>d. d = c) s)"

text \<open>\<open>content\<close> is what opening and reading the file gives: its bytes or an \<open>OSError\<close>.\<close>

definition read_text_safely :: "string \<Rightarrow> bytes result \<Rightarrow> nat \<Rightarrow> ReadResult result" where
  "read_text_safely path content max_bytes =
     rbind content (\<lambda>all.
       (let raw0 = take (max_bytes + 1) all;
            truncated = max_bytes < length raw0;
            raw = (if truncated then take max_bytes raw0 else raw0)
        in if looks_binary raw
           then Inl (Err BinaryContentError (path @ '' appears to be binary content''))
           else (let (txt, encoding) = (case decode_utf8 raw of
                   Some t \<Rightarrow> (t, ''utf-8'') | None \<Rightarrow> (latin1 raw, ''latin-1''))
                 in Inr \<lparr>rr_text = txt, rr_encoding_used = encoding, rr_truncated = truncated,
                      rr_line_count = int (count_char newline txt)
                        + (if txt \<noteq> [] \<and> \<not> endswith txt [newline] then 1 else 0)\<rparr>)))"

definition line_for_offset :: "string \<Rightarrow> nat \<Rightarrow> int" where
  "line_for_offset txt offset =
     (if offset = 0 then 1 else int (count_char newline (take offset txt)) + 1)"

definition sanitize_for_log :: "string \<Rightarrow> nat \<Rightarrow> string" where
  "sanitize_for_log txt max_len =
     (let single_line = concat (map (\<lambda>c. if c = newline then [CHR 0x5C, CHR ''n'']
            else if c = CHR 0x0D then [CHR 0x5C, CHR ''r''] else [c]) txt)
      in if max_len < length single_line then take max_len single_line @ ''...[truncated]''
         else single_line)"

section \<open>Lines\<close>

definition is_line_break :: "char \<Rightarrow> bool" where
  "is_line_break c = (code c \<in> {10, 11, 12, 13, 28, 29, 30, 133})"

text \<open>\<open>str.splitlines\<close>: \<open>after_cr\<close> is set right after a carriage return, whose line feed does not
  break again.\<close>

fun splitlines_from :: "bool \<Rightarrow> string \<Rightarrow> string \<Rightarrow> string list" where
  "splitlines_from after_cr line [] = (if line = [] then [] else [rev line])"
| "splitlines_from after_cr line (c # s) =
     (if after_cr \<and> c = newline then splitlines_from False [] s
      else if is_line_break c then rev line # splitlines_from (c = CHR 0x0D) [] s
      else splitlines_from False (c # line) s)"

definition splitlines :: "string \<Rightarrow> string list" where
  "splitlines s = splitlines_from False [] s"

section \<open>Facts\<close>

lemma utf8_length_char: "utf8_length (map nat_of_byte (utf8_char c @ bs)) = Some (length (utf8_char c))"
proof -
  have "code c div 64 < 4" "192 + code c div 64 < 256" "128 + code c mod 64 < 256"
    using code_lt [of c] by linarith+
  then show ?thesis
    using code_lt [of c] by (auto simp: utf8_char_def utf8_length_def continuation_def)
qed

lemma utf8_text_char: "utf8_text (utf8_char c) = [c]"
proof (cases "code c < 128")
  case True
  then show ?thesis by (simp add: utf8_char_def utf8_text_def latin1_def char_of_byte_def code_def)
next
  case False
  have "192 + code c div 64 < 196" "128 + code c mod 64 < 256" using code_lt [of c] by linarith+
  then show ?thesis using False by (simp add: utf8_char_def utf8_text_def code_def)
qed

lemma decode_utf8_utf8: "decode_utf8 (utf8 s) = Some s"
proof (induction s)
  case Nil
  then show ?case by (simp add: decode_utf8.simps utf8_def)
next
  case (Cons c s)
  have "utf8 (c # s) = utf8_char c @ utf8 s" by (simp add: utf8_def)
  with Cons show ?case
    using utf8_length_char [of c "utf8 s"]
    by (subst decode_utf8.simps) (simp add: utf8_text_char del: map_append)
qed

text \<open>Text survives being stored and scanned: what was written as UTF-8 (without a NUL byte
  near its start, and within the limit) is read back as exactly that text, as UTF-8 and not
  truncated, and every file that can be opened is either binary or read as some text.\<close>

theorem text_file_round_trip:
  assumes "length (utf8 txt) \<le> max_bytes" and "0 \<notin> set (take BINARY_SNIFF_WINDOW (utf8 txt))"
  shows "(\<exists>r. read_text_safely path (Inr (utf8 txt)) max_bytes = Inr r
           \<and> rr_text r = txt \<and> rr_encoding_used r = ''utf-8'' \<and> \<not> rr_truncated r)
     \<and> (\<forall>raw. (\<exists>r. read_text_safely path (Inr raw) max_bytes = Inr r)
           \<longleftrightarrow> \<not> looks_binary (take max_bytes raw))"
proof
  show "\<exists>r. read_text_safely path (Inr (utf8 txt)) max_bytes = Inr r
           \<and> rr_text r = txt \<and> rr_encoding_used r = ''utf-8'' \<and> \<not> rr_truncated r"
    using assms by (simp add: read_text_safely_def Let_def looks_binary_def decode_utf8_utf8)
  show "\<forall>raw. (\<exists>r. read_text_safely path (Inr raw) max_bytes = Inr r)
           \<longleftrightarrow> \<not> looks_binary (take max_bytes raw)"
    by (simp add: read_text_safely_def Let_def split_beta min_def)
qed

lemma text_file_round_trip_witness:
  "\<exists>r. read_text_safely ''a'' (Inr (utf8 [CHR ''h'', CHR 0xE9])) 10 = Inr r
     \<and> rr_text r = [CHR ''h'', CHR 0xE9]"
proof -
  have "length (utf8 [CHR ''h'', CHR 0xE9]) \<le> 10"
    "0 \<notin> set (take BINARY_SNIFF_WINDOW (utf8 [CHR ''h'', CHR 0xE9]))"
    by (simp_all add: utf8_def utf8_char_def code_def byte_of_def BINARY_SNIFF_WINDOW_def)
  from text_file_round_trip [OF this] show ?thesis by blast
qed

text \<open>A match on a line is within the lines that \<open>splitlines\<close> gives: a line feed always breaks.\<close>

lemma splitlines_from_line: "line \<noteq> [] \<Longrightarrow> 0 < length (splitlines_from False line s)"
  by (induction s arbitrary: line) auto

lemma newline_breaks [simp]: "is_line_break newline"
  by (simp add: is_line_break_def newline_def code_def)

lemma count_char_Cons [simp]: "count_char c (d # s) = (if d = c then 1 else 0) + count_char c s"
  by (simp add: count_char_def)

lemma count_char_Nil [simp]: "count_char c [] = 0"
  by (simp add: count_char_def)

lemma length_splitlines_from:
  "offset < length s \<Longrightarrow>
     count_char newline (take offset s) < length (splitlines_from cr line s) + (if cr then 1 else 0)"
proof (induction s arbitrary: offset cr line)
  case (Cons c s)
  show ?case
  proof (cases offset)
    case 0
    then show ?thesis using splitlines_from_line [of "c # line" s] by simp
  next
    case (Suc n)
    then have n: "n < length s" using Cons.prems by simp
    have cr: "newline \<noteq> CHR 0x0D" by (simp add: newline_def)
    show ?thesis
      using Cons.IH [OF n, of False "[]"] Cons.IH [OF n, of "c = CHR 0x0D" "[]"]
        Cons.IH [OF n, of False "c # line"] Suc cr newline_breaks
      by (cases "c = newline"; cases "c = CHR 0x0D"; auto)
  qed
qed simp

lemma line_within_splitlines:
  assumes "offset < length txt"
  shows "0 < line_for_offset txt offset \<and> nat (line_for_offset txt offset) - 1 < length (splitlines txt)"
  using length_splitlines_from [OF assms, of False "[]"]
  by (auto simp: line_for_offset_def splitlines_def nat_add_distrib)

end
