(* ===== verification/ScanRules.thy ===== *)
theory ScanRules
  imports ContentReader Sanitizer ScanTypes Display
begin

text \<open>
  The content rules on secrets, personal data, logging and audit
  (\<^verbatim>\<open>scanners/rules/secret_scanner.py\<close>, \<^verbatim>\<open>pii_scanner.py\<close>, \<^verbatim>\<open>unsafe_logging_scanner.py\<close>,
  \<^verbatim>\<open>audit_scanner.py\<close>), over the regular expression matcher. A rule takes the text of a file and
  gives its findings in the order in which the source reports them.
\<close>

section \<open>Findings\<close>

definition raw_finding ::
  "string \<Rightarrow> FindingType \<Rightarrow> FindingCategory \<Rightarrow> Severity \<Rightarrow> ConfidenceLevel \<Rightarrow> int \<Rightarrow> int \<Rightarrow> string \<Rightarrow> string
     \<Rightarrow> string \<Rightarrow> string \<Rightarrow> string \<Rightarrow> string \<Rightarrow> (string \<times> json) list \<Rightarrow> RawFinding" where
  "raw_finding title finding_type category severity confidence line_start line_end evidence
       masked_evidence description impact recommended_action rule_id metadata =
     \<lparr>rf_title = title, rf_finding_type = finding_type, rf_category = category,
      rf_severity = severity, rf_confidence = confidence, rf_line_start = line_start,
      rf_line_end = line_end, rf_evidence = evidence, rf_masked_evidence = masked_evidence,
      rf_description = description, rf_impact = impact, rf_recommended_action = recommended_action,
      rf_rule_id = rule_id, rf_remediation_mode = RemediationMode.ADVISORY_ONLY,
      rf_read_only_confirmation = True, rf_metadata = metadata\<rparr>"

definition slice :: "nat \<Rightarrow> nat \<Rightarrow> 'a list \<Rightarrow> 'a list" where
  "slice start stop xs = take (stop - start) (drop start xs)"

text \<open>The first of the matches on each line, with its line number.\<close>

fun first_per_line :: "string \<Rightarrow> int list \<Rightarrow> (nat \<times> 'm) list \<Rightarrow> (int \<times> nat \<times> 'm) list" where
  "first_per_line txt seen [] = []"
| "first_per_line txt seen ((start, m) # ms) =
     (let line_no = line_for_offset txt start
      in if line_no \<in> set seen then first_per_line txt seen ms
         else (line_no, start, m) # first_per_line txt (line_no # seen) ms)"

section \<open>Secrets\<close>

definition secret_finding :: "int \<Rightarrow> string \<Rightarrow> RawFinding" where
  "secret_finding line_no raw_snippet =
     raw_finding ''Likely secret or credential found in source'' FindingType.OBSERVED_EVIDENCE
       FindingCategory.SECRET_EXPOSURE Severity.HIGH ConfidenceLevel.MEDIUM line_no line_no
       raw_snippet (mask_secrets raw_snippet)
       (''A pattern matching a known secret/credential format ''
        @ ''(API key, password assignment, token, private key ''
        @ ''marker, or connection-string credential) was found in this file.'')
       (''If this is a real, active credential committed to ''
        @ ''source, anyone with read access to this file can ''
        @ ''use it to impersonate the associated system or account.'')
       (''Rotate the credential if it is real, remove it ''
        @ ''from source, and load it from an environment ''
        @ ''variable or secret manager instead. This is ''
        @ ''pattern-based detection; verify manually before acting.'')
       ''SECRET-001'' []"

definition secret_scan :: "string \<Rightarrow> RawFinding list" where
  "secret_scan txt =
     map (\<lambda>(line_no, start, stop). secret_finding line_no (slice start stop txt))
       (first_per_line txt [] (sort_key fst (sort_key snd (find_secret_spans txt))))"

section \<open>Personal data\<close>

definition separator_then_quote :: "re" where
  "separator_then_quote = cats [star space, Chr (one_of '':=''), star space, opt quote_mark]"

definition card_like_re :: re where
  "card_like_re = cats [word_boundary, between 13 19 (Cat (Chr is_digit) (opt (Chr (one_of '' -'')))),
     word_boundary]"

definition ssn_shaped_re :: re where
  "ssn_shaped_re = cats [word_boundary, exactly 3 (Chr is_digit), lit ''-'', exactly 2 (Chr is_digit),
     lit ''-'', exactly 4 (Chr is_digit), word_boundary]"

definition dob_field_re :: re where
  "dob_field_re = cats [word_boundary,
     Grp 1 (alts [lit_i ''date_of_birth'', lit_i ''dob'', cats [lit_i ''birth'', opt (lit ''_''), lit_i ''date'']]),
     word_boundary, separator_then_quote, exactly 4 (Chr is_digit), lit ''-'', exactly 2 (Chr is_digit),
     lit ''-'', exactly 2 (Chr is_digit)]"

definition account_field_re :: re where
  "account_field_re = cats [word_boundary,
     Grp 1 (alts [cats [lit_i ''account'', opt (lit ''_''), lit_i ''number''],
       cats [lit_i ''acct'', opt (lit ''_''), lit_i ''no''], lit_i ''iban'']),
     word_boundary, separator_then_quote,
     at_least 6 (Chr (\<lambda>c. ci is_ascii_upper c \<or> is_digit c))]"

definition mask_middle :: "string \<Rightarrow> string" where
  "mask_middle v =
     (if length v \<le> 4 then replicate (length v) (CHR ''*'')
      else take 2 v @ replicate (length v - 4) (CHR ''*'') @ drop (length v - 2) v)"

definition pii_finding :: "string \<Rightarrow> string \<Rightarrow> Severity \<Rightarrow> int \<Rightarrow> string \<Rightarrow> RawFinding" where
  "pii_finding kind title severity line_no snippet =
     raw_finding title FindingType.OBSERVED_EVIDENCE FindingCategory.PII_EXPOSURE severity
       ConfidenceLevel.LOW line_no line_no snippet (mask_middle snippet)
       (''A text pattern resembling '' @ replace_char (CHR ''_'') '' '' kind
        @ '' was found. This is a pattern match only '' @ em_dash @ '' it does ''
        @ ''not confirm real customer data is present, and it ''
        @ ''is not a determination of regulatory compliance or non-compliance.'')
       (''If this is real customer data present in source, ''
        @ ''logs, or fixtures, it represents unnecessary ''
        @ ''exposure of sensitive information outside production data stores.'')
       (''Confirm manually whether this is real or synthetic ''
        @ ''data. If real, remove it from this location and review how it was introduced.'')
       (''PII-'' @ upper kind) [(''pii_kind'', JStr kind)]"

definition pii_matches :: "string \<Rightarrow> re \<Rightarrow> string \<Rightarrow> string \<Rightarrow> Severity \<Rightarrow> RawFinding list" where
  "pii_matches txt pattern kind title severity =
     map (\<lambda>(line_no, start, m). pii_finding kind title severity line_no (fst m))
       (first_per_line txt [] (finditer pattern txt))"

definition pii_scan :: "string \<Rightarrow> RawFinding list" where
  "pii_scan txt =
     pii_matches txt email_re ''email'' ''Email address pattern found'' Severity.LOW
     @ pii_matches txt phone_re ''phone'' ''Phone number pattern found'' Severity.LOW
     @ pii_matches txt card_like_re ''card_like''
         ''Card- or account-number-shaped digit sequence found'' Severity.HIGH
     @ pii_matches txt ssn_shaped_re ''national_id_shaped'' ''National-ID-shaped pattern found'' Severity.HIGH
     @ pii_matches txt dob_field_re ''date_of_birth'' ''Date-of-birth field found'' Severity.MEDIUM
     @ pii_matches txt account_field_re ''account_number_field'' ''Account/IBAN-labeled field found''
         Severity.HIGH"

section \<open>Logging\<close>

definition log_call_re :: re where
  "log_call_re =
     (let any = star (Chr not_newline); dash = opt (Chr (one_of ''_-'')); under = opt (lit ''_'')
      in cats [bol, any, word_boundary,
        alts [cats [lit_i ''log'', opt (lit_i ''ger''), lit ''.'', plus (Chr is_word)],
          lit_i ''console.log'', lit_i ''print'', cats [lit_i ''System.out.'', plus (Chr is_word)]],
        star space, lit ''('', any, word_boundary,
        Grp 1 (alts [lit_i ''password'', lit_i ''passwd'', lit_i ''token'', lit_i ''secret'',
          cats [lit_i ''api'', dash, lit_i ''key''], lit_i ''ssn'',
          cats [lit_i ''account'', under, lit_i ''number''], cats [lit_i ''card'', under, lit_i ''number''],
          lit_i ''cvv'', cats [lit_i ''auth'', opt (lit_i ''orization''), dash, lit_i ''header''],
          cats [lit_i ''request'', under, lit_i ''body''], cats [lit_i ''response'', under, lit_i ''body'']]),
        word_boundary, any, lit '')''])"

definition SEVERITY_BY_KEYWORD :: "(string \<times> Severity) list" where
  "SEVERITY_BY_KEYWORD =
     [(''password'', Severity.HIGH), (''passwd'', Severity.HIGH), (''token'', Severity.HIGH),
      (''secret'', Severity.HIGH), (''cvv'', Severity.CRITICAL), (''card_number'', Severity.CRITICAL),
      (''cardnumber'', Severity.CRITICAL), (''ssn'', Severity.HIGH), (''account_number'', Severity.HIGH),
      (''accountnumber'', Severity.HIGH), (''auth_header'', Severity.MEDIUM),
      (''authorization_header'', Severity.MEDIUM), (''request_body'', Severity.MEDIUM),
      (''response_body'', Severity.MEDIUM), (''api_key'', Severity.HIGH), (''apikey'', Severity.HIGH)]"

definition severity_of_keyword :: "string \<Rightarrow> Severity" where
  "severity_of_keyword keyword =
     (case map_of SEVERITY_BY_KEYWORD keyword of None \<Rightarrow> Severity.MEDIUM | Some s \<Rightarrow> s)"

definition quoted_text_re :: re where
  "quoted_text_re = cats [quote_mark, at_least 4 (Chr (none_of [single_quote, double_quote])), quote_mark]"

definition mask_snippet :: "string \<Rightarrow> string" where
  "mask_snippet snippet =
     re_sub quoted_text_re (\<lambda>_. [single_quote] @ ''[REDACTED]'' @ [single_quote]) snippet"

definition log_finding :: "string \<Rightarrow> int \<Rightarrow> string \<Rightarrow> RawFinding" where
  "log_finding keyword line_no snippet =
     raw_finding ''Logging call may include sensitive data'' FindingType.INFERENCE
       FindingCategory.UNSAFE_LOGGING (severity_of_keyword keyword) ConfidenceLevel.LOW line_no line_no
       snippet (mask_snippet snippet)
       (''A logging call on this line also mentions ''
        @ [CHR 0x27] @ keyword @ [CHR 0x27] @ '', which suggests (but does not ''
        @ ''confirm) that sensitive data may be written to logs.'')
       (''Logs are often retained longer and accessed more ''
        @ ''broadly than the systems that generate them; ''
        @ ''sensitive values in logs increase exposure.'')
       (''Review this log statement manually. If it logs a ''
        @ ''sensitive value directly, mask or remove it from the log line.'')
       ''LOG-001'' [(''matched_keyword'', JStr keyword)]"

definition logging_scan :: "string \<Rightarrow> RawFinding list" where
  "logging_scan txt =
     map (\<lambda>(start, m). log_finding (replace_char (CHR ''-'') ''_'' (lower (group_or_empty 1 m)))
            (line_for_offset txt start) (strip (fst m)))
       (finditer log_call_re txt)"

section \<open>Audit\<close>

definition BODY_WINDOW_LINES :: nat where
  "BODY_WINDOW_LINES = 25"

definition audit_disabled_re :: re where
  "audit_disabled_re = cats [word_boundary,
     Grp 1 (cats [lit_i ''audit'', opt (cats [lit_i ''_log'', opt (lit_i ''ging'')]), lit_i ''_enabled'']),
     star space, Chr (one_of '':=''), star space,
     Grp 2 (alts [lit_i ''false'', lit ''0'', lit_i ''off'', lit_i ''no'']), word_boundary]"

definition sensitive_op_def_re :: re where
  "sensitive_op_def_re = cats [bol, star blank, alts [lit_i ''def'', lit_i ''function''], plus space,
     Grp 1 (cats [star (Chr is_word),
       alts [lit_i ''transfer'', lit_i ''withdraw'', lit_i ''deposit'', lit_i ''approve'', lit_i ''reject'',
         lit_i ''delete_account'', lit_i ''close_account'', lit_i ''grant_access'', lit_i ''revoke_access'',
         lit_i ''update_permission'', lit_i ''override''],
       star (Chr is_word)]),
     star space, lit ''('']"

definition audit_call_hint_re :: re where
  "audit_call_hint_re = cats [word_boundary,
     Grp 1 (alts [lit_i ''audit_log'', lit_i ''audit.record'', lit_i ''log_audit'', lit_i ''auditlogger'',
       lit_i ''record_audit'', lit_i ''audit_event'']), word_boundary]"

definition audit_block_hint_re :: re where
  "audit_block_hint_re = Cat word_boundary (lit_i ''audit'')"

definition AUDIT_FIELD_HINTS :: "string list" where
  "AUDIT_FIELD_HINTS = [''user'', ''actor'', ''action'', ''timestamp'', ''correlation_id'', ''request_id'']"

definition audit_disabled :: "string \<Rightarrow> RawFinding list" where
  "audit_disabled txt =
     map (\<lambda>(start, m). raw_finding ''Audit logging appears disabled in configuration''
            FindingType.OBSERVED_EVIDENCE FindingCategory.AUDIT_GAP Severity.HIGH ConfidenceLevel.HIGH
            (line_for_offset txt start) (line_for_offset txt start) (fst m) (fst m)
            ''A configuration key matching an audit-logging enable flag is set to a disabled value.''
            ''If audit logging is genuinely disabled, actions in this system may not be traceable after the fact.''
            ''Confirm whether audit logging is intentionally disabled here; if not, re-enable it.''
            ''AUDIT-001'' [])
       (finditer audit_disabled_re txt)"

text \<open>\<open>lines[i]\<close>, and the window of lines from a line on.\<close>

definition nth_line :: "string list \<Rightarrow> nat \<Rightarrow> string result" where
  "nth_line ls i = (if i < length ls then Inr (ls ! i) else Inl (Err PyIndexError ''list index out of range''))"

definition window_from :: "string list \<Rightarrow> nat \<Rightarrow> string" where
  "window_from ls i = join [newline] (take BODY_WINDOW_LINES (drop i ls))"

definition missing_audit_finding :: "string list \<Rightarrow> string \<Rightarrow> int \<Rightarrow> string \<Rightarrow> RawFinding" where
  "missing_audit_finding ls op_name line_no evidence =
     raw_finding (''Sensitive operation '' @ [CHR 0x27] @ op_name @ [CHR 0x27] @ '' has no obvious nearby audit call'')
       FindingType.INFERENCE FindingCategory.AUDIT_GAP Severity.MEDIUM ConfidenceLevel.LOW line_no
       (min (line_no + int BODY_WINDOW_LINES) (int (length ls))) evidence evidence
       (''The function/method '' @ [CHR 0x27] @ op_name @ [CHR 0x27] @ '' matches a sensitive-operation ''
        @ ''naming pattern, but no known audit-call pattern ''
        @ ''was found in the following '' @ show_nat BODY_WINDOW_LINES @ '' lines. This is ''
        @ ''a heuristic based on nearby text, not a control-flow analysis '' @ em_dash @ '' ''
        @ ''it may miss an audit call made elsewhere (e.g. via a decorator or middleware).'')
       ''A sensitive operation without traceable audit records is harder to investigate after an incident.''
       ''Confirm manually whether this operation is audited (directly or via middleware/decorator).''
       ''AUDIT-002'' [(''operation_name'', JStr op_name)]"

fun sensitive_ops :: "string \<Rightarrow> string list \<Rightarrow> (nat \<times> re_match) list \<Rightarrow> RawFinding list result" where
  "sensitive_ops txt ls [] = Inr []"
| "sensitive_ops txt ls ((start, m) # ms) =
     (let line_no = line_for_offset txt start; i = nat (line_no - 1)
      in if re_search audit_call_hint_re (window_from ls i) \<noteq> None then sensitive_ops txt ls ms
         else rbind (nth_line ls i) (\<lambda>line.
           rbind (sensitive_ops txt ls ms) (\<lambda>rest.
             Inr (missing_audit_finding ls (group_or_empty 1 m) line_no (strip line) # rest))))"

definition sensitive_op_without_audit :: "string \<Rightarrow> RawFinding list result" where
  "sensitive_op_without_audit txt =
     sensitive_ops txt (splitlines txt) (finditer sensitive_op_def_re txt)"

definition missing_fields_finding :: "string list \<Rightarrow> int \<Rightarrow> string \<Rightarrow> RawFinding" where
  "missing_fields_finding ls line_no evidence =
     raw_finding ''Audit-related content may be missing standard metadata fields''
       FindingType.INFERENCE FindingCategory.AUDIT_GAP Severity.LOW ConfidenceLevel.LOW line_no
       (min (line_no + int BODY_WINDOW_LINES) (int (length ls))) evidence evidence
       (''Audit-related content was found, but fewer than two of the ''
        @ ''standard fields ('' @ join '', '' AUDIT_FIELD_HINTS @ '') were found ''
        @ ''nearby. This is a keyword-proximity heuristic, not a schema validation.'')
       ''Audit records missing actor/action/timestamp/correlation identifiers are harder to use during an investigation.''
       ''Confirm manually whether this audit record includes who did what, when, and how it correlates to a request.''
       ''AUDIT-003'' []"

fun missing_fields :: "string \<Rightarrow> string list \<Rightarrow> int list \<Rightarrow> nat list \<Rightarrow> RawFinding list result" where
  "missing_fields txt ls reported [] = Inr []"
| "missing_fields txt ls reported (start # starts) =
     (let line_no = line_for_offset txt start; i = nat (line_no - 1)
      in if line_no \<in> set reported then missing_fields txt ls reported starts
         else if 2 \<le> length (filter (contains (lower (window_from ls i))) AUDIT_FIELD_HINTS)
         then missing_fields txt ls reported starts
         else rbind (nth_line ls i) (\<lambda>line.
           rbind (missing_fields txt ls (line_no # reported) starts) (\<lambda>rest.
             Inr (missing_fields_finding ls line_no (strip line) # rest))))"

definition audit_record_missing_fields :: "string \<Rightarrow> RawFinding list result" where
  "audit_record_missing_fields txt =
     missing_fields txt (splitlines txt) [] (map fst (finditer audit_block_hint_re txt))"

definition audit_scan :: "string \<Rightarrow> RawFinding list result" where
  "audit_scan txt =
     rbind (sensitive_op_without_audit txt) (\<lambda>ops.
       rbind (audit_record_missing_fields txt) (\<lambda>fields.
         Inr (audit_disabled txt @ ops @ fields)))"

end
