(* ===== verification/ConfigRules.thy ===== *)
theory ConfigRules
  imports ScanRules FileClassifier
begin

text \<open>
  The content rules on permissions, SQL and configuration
  (\<^verbatim>\<open>scanners/rules/permission_scanner.py\<close>, \<^verbatim>\<open>sql_scanner.py\<close>,
  \<^verbatim>\<open>insecure_config_scanner.py\<close>), the rule on skipped files
  (\<^verbatim>\<open>unsupported_file_scanner.py\<close>) and the list of content scanners (\<^verbatim>\<open>registry.py\<close>).
\<close>

text \<open>Words in any letter case, as alternatives.\<close>

definition words_i :: "string list \<Rightarrow> re" where
  "words_i ws = alts (map lit_i ws)"

definition assign :: re where
  "assign = cats [star space, Chr (one_of '':=''), star space]"

section \<open>Broad permissions\<close>

definition quoted_lit :: "string \<Rightarrow> re" where
  "quoted_lit s = cats [quote_mark, lit s, quote_mark]"

definition PERMISSION_PATTERNS :: "(re \<times> string \<times> Severity \<times> string) list" where
  "PERMISSION_PATTERNS =
     [(cats [quoted_lit ''Action'', assign, quoted_lit ''*''],
       ''IAM policy grants wildcard Action ('' @ [CHR 0x22] @ ''*'' @ [CHR 0x22] @ '')'',
       Severity.CRITICAL, ''PERM-001''),
      (cats [quoted_lit ''Resource'', assign, quoted_lit ''*''],
       ''IAM policy grants access to wildcard Resource ('' @ [CHR 0x22] @ ''*'' @ [CHR 0x22] @ '')'',
       Severity.HIGH, ''PERM-002''),
      (cats [word_boundary, lit_i ''role'', assign, opt quote_mark,
         Grp 1 (words_i [''admin'', ''administrator'', ''superuser'', ''root'']), word_boundary],
       ''Administrator-level role assignment found'', Severity.HIGH, ''PERM-003''),
      (cats [word_boundary, opt (Grp 1 (lit_i ''is_'')), lit_i ''public'', assign,
         Grp 2 (words_i [''true'', ''1'']), word_boundary],
       ''Public access flag set to true'', Severity.HIGH, ''PERM-004''),
      (cats [word_boundary, lit_i ''allow'', opt (Chr (one_of ''_-'')), lit_i ''anonymous'', assign,
         Grp 1 (words_i [''true'', ''1'']), word_boundary],
       ''Anonymous access explicitly allowed'', Severity.HIGH, ''PERM-005''),
      (cats [word_boundary, lit_i ''chmod'', plus space, lit ''777'', word_boundary],
       ''World-writable file permission (chmod 777) found'', Severity.MEDIUM, ''PERM-006'')]"

text \<open>All matches of a list of patterns, pattern by pattern.\<close>

definition pattern_findings ::
  "(re \<times> string \<times> Severity \<times> string) list
     \<Rightarrow> (string \<Rightarrow> Severity \<Rightarrow> string \<Rightarrow> int \<Rightarrow> string \<Rightarrow> RawFinding) \<Rightarrow> string \<Rightarrow> RawFinding list" where
  "pattern_findings patterns build txt =
     concat (map (\<lambda>(pattern, title, severity, rule_id).
       map (\<lambda>(start, m). build title severity rule_id (line_for_offset txt start) (fst m))
         (finditer pattern txt)) patterns)"

definition permission_finding :: "string \<Rightarrow> Severity \<Rightarrow> string \<Rightarrow> int \<Rightarrow> string \<Rightarrow> RawFinding" where
  "permission_finding title severity rule_id line_no matched =
     raw_finding title FindingType.OBSERVED_EVIDENCE FindingCategory.BROAD_PERMISSIONS severity
       ConfidenceLevel.MEDIUM line_no line_no matched matched
       (title @ '' '' @ em_dash @ '' a broad-access pattern was matched directly in this file.'')
       ''Overly broad permissions increase blast radius if this credential, role, or resource is compromised.''
       ''Review whether this scope is actually required; apply least-privilege scoping if not.''
       rule_id []"

definition permission_scan :: "string \<Rightarrow> RawFinding list" where
  "permission_scan = pattern_findings PERMISSION_PATTERNS permission_finding"

section \<open>SQL\<close>

definition sql_verb :: "nat \<Rightarrow> re" where
  "sql_verb n = cats [word_boundary, Grp n (words_i [''SELECT'', ''INSERT'', ''UPDATE'', ''DELETE'']),
     word_boundary]"

definition in_statement :: re where
  "in_statement = between 0 200 (Chr (none_of [CHR '';'', newline]))"

definition in_string :: re where
  "in_string = star (Chr (none_of [single_quote, double_quote, newline]))"

definition string_concat_sql_re :: re where
  "string_concat_sql_re = Alt
     (cats [sql_verb 1, in_statement, quote_mark, star space, lit ''+'', star space, plus (Chr is_word)])
     (cats [sql_verb 2, in_statement, lit ''+'', star space, quote_mark])"

definition fstring_sql_re :: re where
  "fstring_sql_re = cats [lit_i ''f'', quote_mark, in_string, sql_verb 1, in_string, lit ''{'',
     plus (Chr (none_of ''}'')), lit ''}'']"

definition percent_format_sql_re :: re where
  "percent_format_sql_re = cats [quote_mark, in_string, sql_verb 1, in_string, quote_mark, star space,
     lit ''%'', star space]"

definition destructive_sql_re :: re where
  "destructive_sql_re = cats [bol, star space,
     Grp 1 (alts [cats [lit_i ''DROP'', plus space, lit_i ''TABLE''],
       cats [lit_i ''DROP'', plus space, lit_i ''DATABASE''],
       cats [lit_i ''TRUNCATE'', plus space, lit_i ''TABLE'']]), word_boundary]"

definition bare_value :: re where
  "bare_value = at_least 3 (Chr (\<lambda>c. c \<noteq> single_quote \<and> c \<noteq> double_quote \<and> \<not> is_space c))"

definition plaintext_db_cred_re :: re where
  "plaintext_db_cred_re = cats [word_boundary,
     Grp 1 (words_i [''DB_PASSWORD'', ''DATABASE_PASSWORD'', ''SA_PASSWORD'']),
     star space, lit ''='', star space, opt quote_mark, bare_value]"

definition mask_cred :: "string \<Rightarrow> string" where
  "mask_cred snippet =
     re_sub (cats [lit ''='', star space, opt quote_mark, bare_value]) (\<lambda>_. ''=[REDACTED]'') snippet"

definition sql_finding :: "string \<Rightarrow> Severity \<Rightarrow> string \<Rightarrow> string \<Rightarrow> int \<Rightarrow> string \<Rightarrow> RawFinding" where
  "sql_finding rule_id severity title description line_no snippet =
     raw_finding title FindingType.OBSERVED_EVIDENCE FindingCategory.UNSAFE_SQL severity
       ConfidenceLevel.MEDIUM line_no line_no snippet
       (if rule_id \<noteq> ''SQL-005'' then snippet else mask_cred snippet)
       (description @ '' No SQL was executed by this scan '' @ em_dash
        @ '' detection is text-pattern-based only.'')
       (''Unsafe SQL construction can allow injection attacks; destructive statements can cause ''
        @ ''irreversible data loss if run unintentionally.'')
       (''Use parameterized queries / an ORM query builder instead of string interpolation; review ''
        @ ''destructive statements for guardrails (backups, confirmation, restricted execution).'')
       rule_id []"

definition sql_match :: "string \<Rightarrow> re \<Rightarrow> string \<Rightarrow> Severity \<Rightarrow> string \<Rightarrow> string \<Rightarrow> RawFinding list" where
  "sql_match txt pattern rule_id severity title description =
     map (\<lambda>(start, m). sql_finding rule_id severity title description (line_for_offset txt start)
            (strip (fst m)))
       (finditer pattern txt)"

definition sql_scan :: "string \<Rightarrow> RawFinding list" where
  "sql_scan txt =
     sql_match txt string_concat_sql_re ''SQL-001'' Severity.HIGH ''String-concatenated SQL query''
       (''SQL built via string concatenation with a variable was found '' @ em_dash
        @ '' a classic SQL-injection pattern.'')
     @ sql_match txt fstring_sql_re ''SQL-002'' Severity.HIGH ''Dynamic (f-string) SQL query''
         ''SQL built via an f-string/template with interpolated values was found.''
     @ sql_match txt percent_format_sql_re ''SQL-003'' Severity.MEDIUM
         ''SQL built via %-style string formatting''
         (''SQL built via %-style string formatting was found '' @ em_dash
          @ '' verify parameterized queries are used instead.'')
     @ sql_match txt destructive_sql_re ''SQL-004'' Severity.HIGH ''Destructive SQL statement found''
         ''A DROP TABLE/DROP DATABASE/TRUNCATE TABLE statement was found in this file.''
     @ sql_match txt plaintext_db_cred_re ''SQL-005'' Severity.HIGH
         ''Plaintext database credential in configuration''
         ''A database credential appears to be set in plaintext.''"

section \<open>Insecure configuration\<close>

definition switched_off :: "nat \<Rightarrow> re" where
  "switched_off n = cats [assign, Grp n (words_i [''false'', ''0'', ''off'']), word_boundary]"

definition switched_on :: "nat \<Rightarrow> re" where
  "switched_on n = cats [assign, Grp n (words_i [''true'', ''1'', ''on'']), word_boundary]"

text \<open>\<open>(?<!secure)\<close>\<close>

definition not_after_secure :: re where
  "not_after_secure = At (\<lambda>lhs rhs. \<not> startswith (lower lhs) (rev ''secure''))"

definition CONFIG_PATTERNS :: "(re \<times> string \<times> Severity \<times> string) list" where
  "CONFIG_PATTERNS =
     [(cats [word_boundary, lit_i ''DEBUG'', switched_on 1],
       ''Debug mode appears enabled'', Severity.MEDIUM, ''CFG-001''),
      (Alt (cats [word_boundary,
              Grp 1 (alts [lit_i ''verify'', lit_i ''ssl_verify'', lit_i ''tls_verify'', lit_i ''verify_ssl'',
                cats [lit_i ''verify_cert'', opt (lit_i ''s'')]]), switched_off 2])
           (cats [word_boundary, lit_i ''requests.'', plus (Chr is_word), lit ''('',
              star (Chr (none_of '')'')), lit_i ''verify'', star space, lit ''='', star space, lit_i ''False'']),
       ''TLS/SSL certificate verification appears disabled'', Severity.HIGH, ''CFG-002''),
      (cats [word_boundary, Grp 1 (cats [lit_i ''auth'', opt (lit_i ''entication''), lit_i ''_enabled'']),
         switched_off 2],
       ''Authentication appears disabled in configuration'', Severity.CRITICAL, ''CFG-003''),
      (cats [word_boundary, Grp 1 (cats [lit_i ''encrypt'', opt (lit_i ''ion''), lit_i ''_enabled'']),
         switched_off 2],
       ''Encryption appears disabled in configuration'', Severity.HIGH, ''CFG-004''),
      (cats [lit_i ''Access-Control-Allow-Origin'', assign, opt quote_mark, lit ''*''],
       ''Permissive CORS policy (Access-Control-Allow-Origin: *)'', Severity.MEDIUM, ''CFG-005''),
      (cats [word_boundary, lit_i ''host'', assign, opt quote_mark, lit ''0.0.0.0'', word_boundary],
       ''Service binds to all network interfaces (0.0.0.0)'', Severity.MEDIUM, ''CFG-006''),
      (cats [word_boundary, Grp 1 (words_i [''admin'', ''root'', ''test'', ''guest'', ''password'']), assign,
         opt quote_mark, Grp 2 (words_i [''admin'', ''password'', ''changeme'', ''123456'', ''root'']),
         opt quote_mark, word_boundary],
       ''Default or well-known weak credential pattern found'', Severity.HIGH, ''CFG-007''),
      (cats [word_boundary, Grp 1 (words_i [''display_errors'', ''debug_errors'', ''show_stacktrace'']),
         switched_on 2],
       ''Verbose error/stack-trace exposure appears enabled'', Severity.LOW, ''CFG-008''),
      (cats [lit_i ''set-cookie'', star (Chr not_newline), not_after_secure, star space, eol],
       ''Cookie set without a Secure flag'', Severity.LOW, ''CFG-009'')]"

definition config_finding :: "string \<Rightarrow> Severity \<Rightarrow> string \<Rightarrow> int \<Rightarrow> string \<Rightarrow> RawFinding" where
  "config_finding title severity rule_id line_no matched =
     raw_finding title FindingType.OBSERVED_EVIDENCE FindingCategory.INSECURE_CONFIGURATION severity
       ConfidenceLevel.MEDIUM line_no line_no (strip matched) (strip matched)
       (title @ '' '' @ em_dash @ '' matched directly in configuration/source text.'')
       ''Insecure configuration defaults are a common root cause of otherwise-preventable incidents.''
       ''Confirm this setting is intentional for this environment; harden the default if not.''
       rule_id []"

definition config_scan :: "string \<Rightarrow> RawFinding list" where
  "config_scan = pattern_findings CONFIG_PATTERNS config_finding"

section \<open>Skipped files\<close>

definition REASON_SEVERITY :: "SkipReason \<Rightarrow> Severity" where
  "REASON_SEVERITY reason =
     (case reason of
        SkipReason.UNSUPPORTED_TYPE \<Rightarrow> Severity.MEDIUM
      | SkipReason.SIZE_LIMIT \<Rightarrow> Severity.LOW
      | SkipReason.TOTAL_SIZE_LIMIT \<Rightarrow> Severity.LOW
      | SkipReason.SYMLINK \<Rightarrow> Severity.LOW
      | SkipReason.UNREADABLE \<Rightarrow> Severity.INFO
      | SkipReason.BINARY_UNSUPPORTED \<Rightarrow> Severity.LOW
      | _ \<Rightarrow> Severity.LOW)"

definition skipped_finding :: "SkippedFile \<Rightarrow> RawFinding" where
  "skipped_finding item =
     raw_finding ''Sensitive-looking file was not scanned'' FindingType.INFERENCE
       FindingCategory.UNSUPPORTED_SENSITIVE_FILE (REASON_SEVERITY (sk_reason item)) ConfidenceLevel.LOW 0 0
       (sk_relative_path item) (sk_relative_path item)
       ([CHR 0x27] @ sk_relative_path item @ [CHR 0x27] @ '' has a name suggesting it may contain ''
        @ ''sensitive material (e.g. secret/credential/key), but it was ''
        @ ''skipped during discovery ('' @ SkipReason_value (sk_reason item) @ '': '' @ sk_detail item @ '') ''
        @ ''and its content was never read or evaluated.'')
       ((''This file'' @ [CHR 0x27] @ ''s contents were not assessed by any Phase 2 scanner. '')
        @ (''It may or may not contain a real issue '' @ em_dash @ '' this finding exists so '')
        @ ''a human can decide whether to review it directly.'')
       (''Review this file manually, or adjust scan limits/allowlists if ''
        @ ''it should be included in a future scan.'')
       ''SKIP-001'' [(''skip_reason'', JStr (SkipReason_value (sk_reason item)))]"

definition scan_skipped_files :: "SkippedFile list \<Rightarrow> RawFinding list" where
  "scan_skipped_files skipped =
     map skipped_finding (filter (\<lambda>item. looks_sensitive_by_name (sk_relative_path item)) skipped)"

section \<open>The content scanners\<close>

record Scanner =
  sx_scanner_id :: string
  sx_scanner_version :: string
  sx_category :: FindingCategory
  sx_scan :: "string \<Rightarrow> string \<Rightarrow> RawFinding list result"

definition content_scanner ::
  "string \<Rightarrow> FindingCategory \<Rightarrow> (string \<Rightarrow> RawFinding list result) \<Rightarrow> Scanner" where
  "content_scanner scanner_id category scan =
     \<lparr>sx_scanner_id = scanner_id, sx_scanner_version = ''1.0.0'', sx_category = category,
      sx_scan = (\<lambda>relative_path. scan)\<rparr>"

definition get_content_scanners :: "Scanner list" where
  "get_content_scanners =
     [content_scanner ''secret_exposure'' FindingCategory.SECRET_EXPOSURE (\<lambda>txt. Inr (secret_scan txt)),
      content_scanner ''pii_exposure'' FindingCategory.PII_EXPOSURE (\<lambda>txt. Inr (pii_scan txt)),
      content_scanner ''unsafe_logging'' FindingCategory.UNSAFE_LOGGING (\<lambda>txt. Inr (logging_scan txt)),
      content_scanner ''audit_gap'' FindingCategory.AUDIT_GAP audit_scan,
      content_scanner ''broad_permissions'' FindingCategory.BROAD_PERMISSIONS
        (\<lambda>txt. Inr (permission_scan txt)),
      content_scanner ''unsafe_sql'' FindingCategory.UNSAFE_SQL (\<lambda>txt. Inr (sql_scan txt)),
      content_scanner ''insecure_configuration'' FindingCategory.INSECURE_CONFIGURATION
        (\<lambda>txt. Inr (config_scan txt))]"

end
