(* ===== verification/RuleFacts.thy ===== *)
theory RuleFacts
  imports ConfigRules Catalog "HOL-Library.Sublist"
begin

text \<open>
  What holds of every content scanner: it never fails, and each of its findings quotes a part of
  the text, points at a line of it, stays advisory and is charged to a control of the catalog.
\<close>

section \<open>Where matches are\<close>

lemma segment_text_simps [simp]: "segment_text (Inl c) = [c]" "segment_text (Inr m) = fst m"
  by (simp_all add: segment_text_def)

lemma segments_nonempty: "Inr m \<in> set (segments_from r pre skip s) \<Longrightarrow> fst m \<noteq> []"
  by (induction r pre skip s rule: segments_from.induct) (auto split: if_splits option.splits)

lemma offsets_split:
  "(start, m) \<in> set (offsets n xs) \<Longrightarrow>
     \<exists>ys zs. xs = ys @ Inr m # zs \<and> start = n + length (concat (map segment_text ys))"
proof (induction n xs rule: offsets.induct)
  case (2 n c xs)
  then obtain ys zs where "xs = ys @ Inr m # zs" "start = Suc n + length (concat (map segment_text ys))"
    by auto
  then show ?case by - (rule exI [of _ "Inl c # ys"], rule exI [of _ zs], simp)
next
  case (3 n k xs)
  show ?case
  proof (cases "(start, m) = (n, k)")
    case True
    then show ?thesis by - (rule exI [of _ "[]"], rule exI [of _ xs], simp)
  next
    case False
    with 3 obtain ys zs where "xs = ys @ Inr m # zs"
      "start = n + length (fst k) + length (concat (map segment_text ys))" by auto
    then show ?thesis by - (rule exI [of _ "Inr k # ys"], rule exI [of _ zs], simp)
  qed
qed simp

lemma finditer_match:
  assumes "(start, m) \<in> set (finditer r s)"
  shows "\<exists>before after. s = before @ fst m @ after \<and> start = length before \<and> fst m \<noteq> []"
proof -
  obtain ys zs where split: "segments r s = ys @ Inr m # zs" "start = length (concat (map segment_text ys))"
    using offsets_split [of start m 0 "segments r s"] assms unfolding finditer_def by auto
  have "s = concat (map segment_text ys) @ fst m @ concat (map segment_text zs)"
    using segments_text [of r s] split(1) by simp
  moreover have "fst m \<noteq> []"
    using split(1) segments_nonempty [of m r "[]" 0 s] by (simp add: segments_def)
  ultimately show ?thesis using split(2) by blast
qed

lemma finditer_sublist: "(start, m) \<in> set (finditer r s) \<Longrightarrow> sublist (fst m) s"
  by (drule finditer_match) (auto simp: sublist_def)

lemma finditer_less: "(start, m) \<in> set (finditer r s) \<Longrightarrow> start < length s"
  by (drule finditer_match) auto

lemma sublist_strip: "sublist (strip s) s"
proof -
  have "sublist (lstrip s) s" unfolding lstrip_def using suffix_dropWhile by (rule suffix_imp_sublist)
  moreover have "sublist (rstrip t) t" for t
    unfolding rstrip_def
    by (rule prefix_imp_sublist) (metis rev_rev_ident suffix_dropWhile suffix_to_prefix)
  ultimately show ?thesis unfolding strip_def using sublist_order.order_trans by blast
qed

lemma sublist_slice: "sublist (slice start stop s) s"
  by (metis slice_def sublist_drop sublist_order.order_trans sublist_take)

lemma sublist_later: "sublist l s \<Longrightarrow> sublist l (xs @ c # s)"
  unfolding sublist_def by (metis append.assoc append_Cons append_Nil)

lemma splitlines_from_sublist:
  "l \<in> set (splitlines_from cr line s) \<Longrightarrow> sublist l (rev line @ s)"
proof (induction cr line s rule: splitlines_from.induct)
  case (2 cr line c s)
  then consider "l = rev line" | cr' where "l \<in> set (splitlines_from cr' [] s)" "sublist l s"
    | "l \<in> set (splitlines_from False (c # line) s)" "sublist l (rev line @ c # s)"
    by (auto split: if_splits)
  then show ?case
    by cases (auto intro: sublist_later)
qed (auto split: if_splits)

lemma splitlines_sublist: "l \<in> set (splitlines s) \<Longrightarrow> sublist l s"
  unfolding splitlines_def using splitlines_from_sublist by fastforce

section \<open>Sound findings\<close>

definition sound_finding :: "string \<Rightarrow> FindingCategory \<Rightarrow> RawFinding \<Rightarrow> bool" where
  "sound_finding txt category f =
     (rf_category f = category \<and> sublist (rf_evidence f) txt
      \<and> 1 \<le> rf_line_start f \<and> rf_line_start f \<le> rf_line_end f
      \<and> rf_line_start f \<le> int (count_char newline txt) + 1
      \<and> rf_remediation_mode f = RemediationMode.ADVISORY_ONLY \<and> rf_read_only_confirmation f
      \<and> control_for_rule_id (rf_rule_id f) \<noteq> None)"

lemma raw_finding_fields [simp]:
  "rf_category (raw_finding t ft c sv cf l1 l2 ev mk d im ra ri md) = c"
  "rf_evidence (raw_finding t ft c sv cf l1 l2 ev mk d im ra ri md) = ev"
  "rf_line_start (raw_finding t ft c sv cf l1 l2 ev mk d im ra ri md) = l1"
  "rf_line_end (raw_finding t ft c sv cf l1 l2 ev mk d im ra ri md) = l2"
  "rf_remediation_mode (raw_finding t ft c sv cf l1 l2 ev mk d im ra ri md) = RemediationMode.ADVISORY_ONLY"
  "rf_read_only_confirmation (raw_finding t ft c sv cf l1 l2 ev mk d im ra ri md)"
  "rf_rule_id (raw_finding t ft c sv cf l1 l2 ev mk d im ra ri md) = ri"
  "rf_severity (raw_finding t ft c sv cf l1 l2 ev mk d im ra ri md) = sv"
  by (simp_all add: raw_finding_def)

lemma rule_has_control:
  "startswith rule start_of \<Longrightarrow> start_of \<in> cd_rule_prefix ` set CONTROL_CATALOG \<Longrightarrow>
     control_for_rule_id rule \<noteq> None"
  by (auto simp: control_for_rule_id_def find_None_iff)

lemma rule_prefixes:
  "{''SECRET-'', ''PII-'', ''LOG-'', ''AUDIT-'', ''PERM-'', ''SQL-'', ''CFG-'', ''SKIP-''}
     \<subseteq> cd_rule_prefix ` set CONTROL_CATALOG"
  by (simp add: catalog_defs)

lemma known_rule:
  "startswith rule start_of \<Longrightarrow>
     start_of \<in> {''SECRET-'', ''PII-'', ''LOG-'', ''AUDIT-'', ''PERM-'', ''SQL-'', ''CFG-'', ''SKIP-''} \<Longrightarrow>
     control_for_rule_id rule \<noteq> None"
  by (rule rule_has_control, assumption, rule subsetD [OF rule_prefixes])

lemma line_bounds:
  "1 \<le> line_for_offset txt start \<and> line_for_offset txt start \<le> int (count_char newline txt) + 1"
proof -
  have "count_char newline (take start txt) \<le> count_char newline txt"
    unfolding count_char_def
    by (metis append_take_drop_id filter_append le_add1 length_append)
  then show ?thesis by (simp add: line_for_offset_def)
qed

lemma sound_raw_finding:
  assumes "sublist ev txt" and "startswith rule start_of"
    and "start_of \<in> {''SECRET-'', ''PII-'', ''LOG-'', ''AUDIT-'', ''PERM-'', ''SQL-'', ''CFG-'', ''SKIP-''}"
  shows "sound_finding txt c (raw_finding t ft c sv cf (line_for_offset txt start)
           (line_for_offset txt start) ev mk d im ra rule md)"
  using assms line_bounds [of "txt" start] known_rule [OF assms(2,3)] by (simp add: sound_finding_def)

lemma first_per_line_in:
  "(line_no, start, m) \<in> set (first_per_line txt seen ms) \<Longrightarrow>
     line_no = line_for_offset txt start \<and> (start, m) \<in> set ms"
  by (induction "txt" seen ms rule: first_per_line.induct) (auto simp: Let_def split: if_splits)

lemma secret_scan_sound: "list_all (sound_finding txt FindingCategory.SECRET_EXPOSURE) (secret_scan txt)"
  unfolding secret_scan_def list_all_iff
  by (auto simp: secret_finding_def startswith_def sublist_slice dest!: first_per_line_in
      intro!: sound_raw_finding [where start_of = "''SECRET-''"])

lemma pii_matches_sound:
  "list_all (sound_finding txt FindingCategory.PII_EXPOSURE) (pii_matches txt pattern kind title severity)"
  unfolding pii_matches_def list_all_iff
  by (auto simp: pii_finding_def startswith_def dest!: first_per_line_in intro: finditer_sublist
      intro!: sound_raw_finding [where start_of = "''PII-''"])

lemma pii_scan_sound: "list_all (sound_finding txt FindingCategory.PII_EXPOSURE) (pii_scan txt)"
  by (simp only: pii_scan_def list_all_append pii_matches_sound simp_thms)

lemma logging_scan_sound: "list_all (sound_finding txt FindingCategory.UNSAFE_LOGGING) (logging_scan txt)"
  unfolding logging_scan_def list_all_iff
  by (auto simp: log_finding_def startswith_def
      intro: finditer_sublist sublist_order.order_trans [OF sublist_strip]
      intro!: sound_raw_finding [where start_of = "''LOG-''"])

lemma sql_match_sound:
  "startswith rule ''SQL-'' \<Longrightarrow>
     list_all (sound_finding txt FindingCategory.UNSAFE_SQL) (sql_match txt pattern rule sv t d)"
  unfolding sql_match_def list_all_iff
  by (auto simp: sql_finding_def intro: finditer_sublist sublist_order.order_trans [OF sublist_strip]
      intro!: sound_raw_finding [where start_of = "''SQL-''"])

lemma sql_scan_sound: "list_all (sound_finding txt FindingCategory.UNSAFE_SQL) (sql_scan txt)"
  unfolding sql_scan_def list_all_append
  by (intro conjI sql_match_sound) (simp_all add: startswith_def)

lemma pattern_findings_sound:
  assumes "\<And>p t sv rule start m. (p, t, sv, rule) \<in> set patterns \<Longrightarrow> (start, m) \<in> set (finditer p txt) \<Longrightarrow>
             sound_finding txt c (build t sv rule (line_for_offset txt start) (fst m))"
  shows "list_all (sound_finding txt c) (pattern_findings patterns build txt)"
  using assms by (fastforce simp: pattern_findings_def list_all_iff)

lemma permission_rules: "(p, t, sv, rule) \<in> set PERMISSION_PATTERNS \<Longrightarrow> startswith rule ''PERM-''"
  by (auto simp: PERMISSION_PATTERNS_def startswith_def)

lemma config_rules: "(p, t, sv, rule) \<in> set CONFIG_PATTERNS \<Longrightarrow> startswith rule ''CFG-''"
  by (auto simp: CONFIG_PATTERNS_def startswith_def)

lemma permission_scan_sound:
  "list_all (sound_finding txt FindingCategory.BROAD_PERMISSIONS) (permission_scan txt)"
  unfolding permission_scan_def permission_finding_def
  by (rule pattern_findings_sound)
     (rule sound_raw_finding [where start_of = "''PERM-''"]; auto dest: permission_rules finditer_sublist)

lemma config_scan_sound:
  "list_all (sound_finding txt FindingCategory.INSECURE_CONFIGURATION) (config_scan txt)"
  unfolding config_scan_def config_finding_def
  by (rule pattern_findings_sound)
     (rule sound_raw_finding [where start_of = "''CFG-''"];
      auto dest: config_rules finditer_sublist intro: sublist_order.order_trans [OF sublist_strip])

text \<open>The audit rules look up a line of the text by the number of line feeds before the match.\<close>

lemma nth_line_of_match:
  assumes "start < length txt"
  shows "\<exists>line. nth_line (splitlines txt) (nat (line_for_offset txt start - 1)) = Inr line
           \<and> sublist (strip line) txt
           \<and> line_for_offset txt start \<le> int (length (splitlines txt))"
proof -
  let ?i = "nat (line_for_offset txt start - 1)"
  have i: "?i < length (splitlines txt)"
    using line_within_splitlines [OF assms] by (simp add: nat_diff_distrib')
  then have "sublist (strip (splitlines txt ! ?i)) txt"
    using splitlines_sublist [OF nth_mem [OF i]] sublist_strip sublist_order.order_trans by blast
  with i show ?thesis by (auto simp: nth_line_def)
qed

lemma audit_finding_sound:
  assumes "start < length txt" and "sublist ev txt" and "startswith rule ''AUDIT-''"
  shows "sound_finding txt FindingCategory.AUDIT_GAP
     (raw_finding t ft FindingCategory.AUDIT_GAP sv cf (line_for_offset txt start)
       (min (line_for_offset txt start + int BODY_WINDOW_LINES) (int (length (splitlines txt))))
       ev mk d im ra rule md)"
proof -
  have "control_for_rule_id rule \<noteq> None"
    by (rule known_rule [OF assms(3)]) simp
  then show ?thesis
    using assms(2) line_bounds [of "txt" start] nth_line_of_match [OF assms(1)]
    by (auto simp: sound_finding_def)
qed

lemma sensitive_ops_sound:
  assumes "\<forall>(start, m) \<in> set ms. start < length txt"
  shows "\<exists>fs. sensitive_ops txt (splitlines txt) ms = Inr fs
           \<and> list_all (sound_finding txt FindingCategory.AUDIT_GAP) fs"
  using assms
proof (induction ms)
  case (Cons x ms)
  obtain start m where x: "x = (start, m)" by (cases x)
  with Cons have start: "start < length txt" by auto
  from Cons obtain fs where fs: "sensitive_ops txt (splitlines txt) ms = Inr fs"
    "list_all (sound_finding txt FindingCategory.AUDIT_GAP) fs" by auto
  from nth_line_of_match [OF start] obtain line where
    line: "nth_line (splitlines txt) (nat (line_for_offset txt start - 1)) = Inr line"
    "sublist (strip line) txt" by blast
  have "sound_finding txt FindingCategory.AUDIT_GAP
      (missing_audit_finding (splitlines txt) (group_or_empty 1 m) (line_for_offset txt start) (strip line))"
    unfolding missing_audit_finding_def
    by (rule audit_finding_sound [OF start line(2)]) (simp add: startswith_def)
  with x fs line show ?case by (auto simp: Let_def)
qed simp

lemma missing_fields_sound:
  assumes "\<forall>start \<in> set starts. start < length txt"
  shows "\<exists>fs. missing_fields txt (splitlines txt) reported starts = Inr fs
           \<and> list_all (sound_finding txt FindingCategory.AUDIT_GAP) fs"
  using assms
proof (induction starts arbitrary: reported)
  case (Cons start starts)
  then have start: "start < length txt" by auto
  from Cons have rest: "\<exists>fs. missing_fields txt (splitlines txt) r starts = Inr fs
      \<and> list_all (sound_finding txt FindingCategory.AUDIT_GAP) fs" for r by auto
  from nth_line_of_match [OF start] obtain line where
    line: "nth_line (splitlines txt) (nat (line_for_offset txt start - 1)) = Inr line"
    "sublist (strip line) txt" by blast
  have "sound_finding txt FindingCategory.AUDIT_GAP
      (missing_fields_finding (splitlines txt) (line_for_offset txt start) (strip line))"
    unfolding missing_fields_finding_def
    by (rule audit_finding_sound [OF start line(2)]) (simp add: startswith_def)
  with line rest [of reported] rest [of "line_for_offset txt start # reported"] show ?case
    by (auto simp: Let_def)
qed simp

lemma audit_disabled_sound: "list_all (sound_finding txt FindingCategory.AUDIT_GAP) (audit_disabled txt)"
  unfolding audit_disabled_def list_all_iff
  by (auto intro: finditer_sublist simp: startswith_def
      intro!: sound_raw_finding [where start_of = "''AUDIT-''"])

lemma audit_scan_sound:
  "\<exists>fs. audit_scan txt = Inr fs \<and> list_all (sound_finding txt FindingCategory.AUDIT_GAP) fs"
proof -
  have "\<exists>fs. sensitive_op_without_audit txt = Inr fs \<and> list_all (sound_finding txt FindingCategory.AUDIT_GAP) fs"
    unfolding sensitive_op_without_audit_def
    by (rule sensitive_ops_sound) (auto dest: finditer_less)
  moreover have "\<exists>fs. audit_record_missing_fields txt = Inr fs
      \<and> list_all (sound_finding txt FindingCategory.AUDIT_GAP) fs"
    unfolding audit_record_missing_fields_def
    by (rule missing_fields_sound) (auto dest: finditer_less)
  ultimately show ?thesis
    using audit_disabled_sound [of "txt"] by (auto simp: audit_scan_def)
qed


end
