(* ===== verification/Orchestrator.thy ===== *)
theory Orchestrator
  imports Ingestion FileClassifier RuleFacts
begin

text \<open>
  \<^verbatim>\<open>scanners/scan_orchestrator.py\<close>: one read-only scan of an accepted source. Every look at the
  source (the two integrity hashes, the discovery, each reading of a file by a scanner) is an
  access of its own, between which other processes may change the tree.
\<close>

section \<open>Classifying the inventory\<close>

text \<open>\<open>flags.get(name)\<close>, as a truth value.\<close>

definition flag_set :: "(string \<times> bool) list \<Rightarrow> string \<Rightarrow> bool" where
  "flag_set flags name = (map_of flags name = Some True)"

definition looks_sensitive :: "ClassificationResult \<Rightarrow> bool" where
  "looks_sensitive classification =
     list_ex (flag_set (cf_category_flags classification))
       [''payment_related'', ''customer_identity_related'', ''auth_config'', ''account_related'']"

definition classify_item :: "FileInventoryItem \<Rightarrow> ClassificationResult" where
  "classify_item item = classify_file (it_relative_path item) (it_extension item)"

definition annotate_item :: "FileInventoryItem \<Rightarrow> FileInventoryItem" where
  "annotate_item item =
     (let classification = classify_item item
      in item\<lparr>it_metadata :=
           fold (\<lambda>(key, v). AList.update key v)
             [(''detected_type'', JStr (cf_detected_type classification)),
              (''language'', case cf_language classification of None \<Rightarrow> JNull | Some l \<Rightarrow> JStr l),
              (''sensitivity_hint'', JBool (looks_sensitive classification))]
             (it_metadata item)\<rparr>)"

definition map_inventory :: "FileInventoryItem list \<Rightarrow> (string \<times> DomainMapping list) list" where
  "map_inventory inventory =
     fold (\<lambda>item. AList.update (it_relative_path item)
             (map_file_to_domains (it_relative_path item) (classify_item item))) inventory []"

definition mapped_domain_values :: "(string \<times> DomainMapping list) list \<Rightarrow> string \<Rightarrow> string list" where
  "mapped_domain_values mappings relative_path =
     (case map_of mappings relative_path of
        None \<Rightarrow> []
      | Some ms \<Rightarrow> map (BankingDomain_value \<circ> mp_domain) ms)"

section \<open>Running one scanner\<close>

text \<open>\<open>type(exc).__name__\<close> of the exceptions that a rule can raise.\<close>

definition class_name :: "err_class \<Rightarrow> string" where
  "class_name c =
     (if c = PyIndexError then ''IndexError'' else if c = PyValueError then ''ValueError''
      else if c = PyKeyError then ''KeyError'' else if c = PyTypeError then ''TypeError'' else ''Exception'')"

record scanner_run =
  sr_processed :: int
  sr_errored :: int
  sr_produced :: int
  sr_error_details :: "string list"
  sr_findings :: "NormalizedFinding list"

definition scanner_failed :: "string \<Rightarrow> scanner_run \<Rightarrow> scanner_run" where
  "scanner_failed detail r =
     r\<lparr>sr_errored := sr_errored r + 1, sr_error_details := sr_error_details r @ [detail]\<rparr>"

definition normalize ::
  "Scanner \<Rightarrow> string \<Rightarrow> string \<Rightarrow> string list \<Rightarrow> RawFinding \<Rightarrow> NormalizedFinding" where
  "normalize scanner scan_id relative_path domains raw =
     \<lparr>nf_scan_id = scan_id, nf_source_relative_path = relative_path, nf_banking_domains = domains,
      nf_scanner_id = sx_scanner_id scanner, nf_scanner_version = sx_scanner_version scanner,
      nf_raw = raw\<rparr>"

text \<open>What one scanner does with what reading a file gave.\<close>

definition scan_content ::
  "Scanner \<Rightarrow> string \<Rightarrow> (string \<times> DomainMapping list) list \<Rightarrow> string \<Rightarrow> bytes result
     \<Rightarrow> scanner_run \<Rightarrow> scanner_run result" where
  "scan_content scanner scan_id mappings relative_path data r =
     (case read_text_safely relative_path data DEFAULT_MAX_READ_BYTES of
        Inl e \<Rightarrow>
          if isinstance e BinaryContentError then Inr r
          else if isinstance e PyOSError then Inr (scanner_failed (relative_path @ '': unreadable'') r)
          else Inl e
      | Inr read_result \<Rightarrow>
          (case sx_scan scanner relative_path (rr_text read_result) of
             Inl e \<Rightarrow> Inr (scanner_failed
                (relative_path @ '': scanner error ('' @ class_name (err_class e) @ '')'') r)
           | Inr raw_findings \<Rightarrow>
               Inr (r\<lparr>sr_processed := sr_processed r + 1,
                  sr_produced := sr_produced r + int (length raw_findings),
                  sr_findings := sr_findings r @ map (normalize scanner scan_id relative_path
                    (mapped_domain_values mappings relative_path)) raw_findings\<rparr>)))"

fun scan_items ::
  "Scanner \<Rightarrow> string list \<Rightarrow> string \<Rightarrow> (string \<times> DomainMapping list) list \<Rightarrow> FileInventoryItem list
     \<Rightarrow> scanner_run \<Rightarrow> host \<Rightarrow> scanner_run result \<times> host" where
  "scan_items scanner base scan_id mappings [] r h = (Inr r, h)"
| "scan_items scanner base scan_id mappings (item # items) r h =
     (let (tree, h) = access h;
          data = read_at tree (base @ path_components (it_relative_path item))
      in case scan_content scanner scan_id mappings (it_relative_path item) data r of
           Inl e \<Rightarrow> (Inl e, h)
         | Inr r \<Rightarrow> scan_items scanner base scan_id mappings items r h)"

definition summarize_run :: "Scanner \<Rightarrow> scanner_run \<Rightarrow> ScannerExecutionSummary" where
  "summarize_run scanner r =
     \<lparr>xs_scanner_id = sx_scanner_id scanner, xs_scanner_version = sx_scanner_version scanner,
      xs_status = (if sr_errored r \<noteq> 0 then ''completed_with_errors'' else ''completed''),
      xs_files_processed = sr_processed r, xs_files_errored = sr_errored r,
      xs_findings_produced = sr_produced r,
      xs_error_summary = (if sr_error_details r \<noteq> [] then Some (join ''; '' (take 10 (sr_error_details r)))
                          else None)\<rparr>"

definition run_one_scanner ::
  "Scanner \<Rightarrow> FileInventoryItem list \<Rightarrow> string list \<Rightarrow> string \<Rightarrow> (string \<times> DomainMapping list) list
     \<Rightarrow> NormalizedFinding list \<Rightarrow> host \<Rightarrow> (ScannerExecutionSummary \<times> NormalizedFinding list) result \<times> host" where
  "run_one_scanner scanner inventory base scan_id mappings findings h =
     and_then (scan_items scanner base scan_id mappings inventory
         \<lparr>sr_processed = 0, sr_errored = 0, sr_produced = 0, sr_error_details = [], sr_findings = findings\<rparr> h)
       (\<lambda>r h. (Inr (summarize_run scanner r, sr_findings r), h))"

fun run_scanners ::
  "Scanner list \<Rightarrow> FileInventoryItem list \<Rightarrow> string list \<Rightarrow> string \<Rightarrow> (string \<times> DomainMapping list) list
     \<Rightarrow> NormalizedFinding list \<Rightarrow> host
     \<Rightarrow> (ScannerExecutionSummary list \<times> NormalizedFinding list) result \<times> host" where
  "run_scanners [] inventory base scan_id mappings findings h = (Inr ([], findings), h)"
| "run_scanners (scanner # scanners) inventory base scan_id mappings findings h =
     and_then (run_one_scanner scanner inventory base scan_id mappings findings h)
       (\<lambda>(summary, findings) h.
          and_then (run_scanners scanners inventory base scan_id mappings findings h)
            (\<lambda>(summaries, findings) h. (Inr (summary # summaries, findings), h)))"

definition scanner_warning :: "ScannerExecutionSummary \<Rightarrow> string" where
  "scanner_warning summary =
     xs_scanner_id summary @ '': '' @ show_int (xs_files_errored summary) @ '' file(s) could not be scanned''"

definition with_errors :: "ScannerExecutionSummary \<Rightarrow> bool" where
  "with_errors summary = (xs_status summary = ''completed_with_errors'')"

section \<open>Skipped files, duplicates and counts\<close>

definition skip_normalized :: "string \<Rightarrow> RawFinding \<Rightarrow> NormalizedFinding" where
  "skip_normalized scan_id raw =
     \<lparr>nf_scan_id = scan_id, nf_source_relative_path = rf_evidence raw, nf_banking_domains = [],
      nf_scanner_id = ''unsupported_sensitive_file'', nf_scanner_version = ''1.0.0'', nf_raw = raw\<rparr>"

definition skip_execution :: "SkippedFile list \<Rightarrow> RawFinding list \<Rightarrow> ScannerExecutionSummary" where
  "skip_execution skipped findings =
     \<lparr>xs_scanner_id = ''unsupported_sensitive_file'', xs_scanner_version = ''1.0.0'',
      xs_status = ''completed'', xs_files_processed = int (length skipped), xs_files_errored = 0,
      xs_findings_produced = int (length findings), xs_error_summary = None\<rparr>"

definition dedup_key :: "NormalizedFinding \<Rightarrow> string \<times> string \<times> int \<times> int" where
  "dedup_key f =
     (rf_rule_id (nf_raw f), nf_source_relative_path f, rf_line_start (nf_raw f), rf_line_end (nf_raw f))"

fun dedup_from :: "(string \<times> string \<times> int \<times> int) list \<Rightarrow> NormalizedFinding list \<Rightarrow> NormalizedFinding list" where
  "dedup_from seen [] = []"
| "dedup_from seen (f # fs) =
     (if dedup_key f \<in> set seen then dedup_from seen fs
      else f # dedup_from (dedup_key f # seen) fs)"

definition deduplicate :: "NormalizedFinding list \<Rightarrow> NormalizedFinding list" where
  "deduplicate findings = dedup_from [] findings"

definition bump :: "string \<Rightarrow> (string \<times> int) list \<Rightarrow> (string \<times> int) list" where
  "bump k counts = AList.update k ((case map_of counts k of None \<Rightarrow> 0 | Some n \<Rightarrow> n) + 1) counts"

definition count_by :: "(NormalizedFinding \<Rightarrow> string) \<Rightarrow> NormalizedFinding list \<Rightarrow> (string \<times> int) list" where
  "count_by key findings = fold (\<lambda>f. bump (key f)) findings []"

definition count_by_domain :: "NormalizedFinding list \<Rightarrow> (string \<times> int) list" where
  "count_by_domain findings = fold (\<lambda>f. fold bump (nf_banking_domains f)) findings []"

section \<open>The scan\<close>

definition integrity_warning :: string where
  "integrity_warning =
     ''SOURCE INTEGRITY CHECK FAILED '' @ em_dash @ '' source hash changed during scan''"

definition scan_status :: "bool \<Rightarrow> bool \<Rightarrow> bool \<Rightarrow> ScanStatus" where
  "scan_status integrity_verified any_scanner_errors truncated =
     (if \<not> integrity_verified then ScanStatus.FAILED
      else if any_scanner_errors \<or> truncated then ScanStatus.COMPLETED_WITH_WARNINGS
      else ScanStatus.COMPLETED)"

text \<open>The result, from what the discovery, the scanners and the two hashes gave.\<close>

definition scan_result ::
  "string \<Rightarrow> SourceHandle \<Rightarrow> datetime \<Rightarrow> DiscoveryResult \<Rightarrow> FileInventoryItem list
     \<Rightarrow> (string \<times> DomainMapping list) list \<Rightarrow> ScannerExecutionSummary list \<Rightarrow> NormalizedFinding list
     \<Rightarrow> string \<Rightarrow> string \<Rightarrow> ScanResult" where
  "scan_result scan_id source t discovery inventory mappings summaries scanned hash_before hash_after =
     (let skip_findings = scan_skipped_files (dv_skipped discovery);
          executions = summaries @ [skip_execution (dv_skipped discovery) skip_findings];
          findings = deduplicate (scanned @ map (skip_normalized scan_id) skip_findings);
          integrity_verified = (hash_before = hash_after);
          warnings = map scanner_warning (filter with_errors summaries)
            @ (if integrity_verified then [] else [integrity_warning])
      in \<lparr>rs_summary =
            \<lparr>sm_scan_id = scan_id,
             sm_status = scan_status integrity_verified (list_ex with_errors executions) (dv_truncated discovery),
             sm_source_path = show_path (sh_original_path source),
             sm_source_type = sh_source_type source,
             sm_total_files_found = dv_total_files_found discovery,
             sm_files_scanned = int (length inventory),
             sm_files_skipped = int (length (dv_skipped discovery)),
             sm_total_findings = int (length findings),
             sm_truncated = dv_truncated discovery,
             sm_integrity_verified = integrity_verified,
             sm_source_hash_before = hash_before,
             sm_source_hash_after = hash_after,
             sm_findings_by_severity = count_by (\<lambda>f. Severity_value (rf_severity (nf_raw f))) findings,
             sm_findings_by_domain = count_by_domain findings,
             sm_scanner_warnings = warnings,
             sm_error_message = (if integrity_verified then None else Some ''Source integrity check failed''),
             sm_started_at = t, sm_completed_at = Some t\<rparr>,
          rs_inventory = inventory, rs_skipped = dv_skipped discovery, rs_domain_mappings = mappings,
          rs_findings = findings, rs_scanner_executions = executions\<rparr>)"

definition hash_source :: "string list \<Rightarrow> host \<Rightarrow> string \<times> host" where
  "hash_source base h =
     (let (tree, h) = access h in (compute_source_integrity_hash (tree_at tree base), h))"

definition discover_source :: "string list \<Rightarrow> Settings \<Rightarrow> host \<Rightarrow> DiscoveryResult \<times> host" where
  "discover_source base st h =
     (let (tree, h) = access h in (discover_files (resolve_from tree [] base) st (tree_at tree base), h))"

definition run_scan ::
  "SourceHandle \<Rightarrow> Settings \<Rightarrow> ('z) platform_scheme world \<Rightarrow> ScanResult result \<times> ('z) platform_scheme world" where
  "run_scan source st w =
     (case w of (s, h) \<Rightarrow>
        (let (scan_id, s) = draw_uuid s;
             (hash_before, h) = hash_source (sh_root source) h;
             (discovery, h) = discover_source (sh_root source) st h;
             mappings = map_inventory (dv_inventory discovery);
             inventory = map annotate_item (dv_inventory discovery)
         in case run_scanners get_content_scanners inventory (sh_root source) scan_id mappings [] h of
              (Inl e, h) \<Rightarrow> (Inl e, (s, h))
            | (Inr (summaries, scanned), h) \<Rightarrow>
                (let (hash_after, h) = hash_source (sh_root source) h
                 in (Inr (scan_result scan_id source (now s) discovery inventory mappings summaries
                      scanned hash_before hash_after), (s, h)))))"

end
