(* ===== verification/Pipeline.thy ===== *)
theory Pipeline
  imports Secured Orchestrator
begin

text \<open>
  The whole run of an assessment: \<open>run_assessment\<close> of \<^verbatim>\<open>assessment/engine.py\<close> (ingest, scan,
  persist, score, evaluate), the service function around it
  (\<^verbatim>\<open>ui/services/assessment_service.py\<close>) and the two authorized operations of
  \<^verbatim>\<open>auth/secured_services.py\<close> that scan a source. Their state is the platform, or a session on
  it, together with the host.
\<close>

definition ingest_source ::
  "zip_library \<Rightarrow> string \<Rightarrow> Settings \<Rightarrow> bool \<Rightarrow> ('z) platform_scheme world
     \<Rightarrow> SourceHandle result \<times> ('z) platform_scheme world" where
  "ingest_source zips source_path st is_archive w =
     (if is_archive then ingest_zip_archive zips source_path st w
      else (case w of (s, h) \<Rightarrow>
        (let (r, h) = ingest_local_directory source_path st h in (r, (s, h)))))"

text \<open>\<open>run_scan\<close> with the \<open>finally\<close> that cleans the source up.\<close>

definition scan_and_cleanup ::
  "SourceHandle \<Rightarrow> Settings \<Rightarrow> ('z) platform_scheme world \<Rightarrow> ScanResult result \<times> ('z) platform_scheme world" where
  "scan_and_cleanup source st w =
     (case run_scan source st w of (r, (s, h)) \<Rightarrow> (r, (s, source_cleanup source h)))"

definition assessment_error :: "string \<Rightarrow> error \<Rightarrow> error" where
  "assessment_error what e =
     Err AssessmentError (''assessment could not run: '' @ what @ '' failed: '' @ err_msg e)"

definition run_assessment ::
  "zip_library \<Rightarrow> string \<Rightarrow> Settings \<Rightarrow> bool \<Rightarrow> session world \<Rightarrow> AssessmentResult result \<times> session world" where
  "run_assessment zips source_path st is_archive w =
     (case ingest_source zips source_path st is_archive w of
        (Inl e, w) \<Rightarrow> (Inl (assessment_error ''source ingestion'' e), w)
      | (Inr handle, w) \<Rightarrow>
          (case scan_and_cleanup handle st w of
             (Inl e, w) \<Rightarrow> (Inl (assessment_error ''scan'' e), w)
           | (Inr scanned, (s, h)) \<Rightarrow>
               (case persist_assessment scanned s of (r, s) \<Rightarrow> (r, (s, h)))))"

definition svc_run_new_assessment ::
  "zip_library \<Rightarrow> Settings \<Rightarrow> string \<Rightarrow> bool \<Rightarrow> platform world \<Rightarrow> AssessmentResult result \<times> platform world" where
  "svc_run_new_assessment zips settings source_path is_archive w =
     (case w of (pf, h) \<Rightarrow>
        if \<not> truthy (st_database_url settings)
        then (Inl (Err PyException ''could not parse the database URL''), w)
        else (case run_assessment zips source_path settings is_archive (begin_session pf, h) of
                (r, (s, h)) \<Rightarrow> (r, (platform.truncate s, h))))"

text \<open>A step on the platform alone.\<close>

definition on_platform :: "(platform \<Rightarrow> 'a result \<times> platform) \<Rightarrow> platform world \<Rightarrow> 'a result \<times> platform world" where
  "on_platform f w = (case w of (pf, h) \<Rightarrow> (case f pf of (r, pf) \<Rightarrow> (r, (pf, h))))"

definition source_kind :: "bool \<Rightarrow> string" where
  "source_kind is_archive = (if is_archive then ''archive'' else ''directory'')"

definition secured_run_new_assessment ::
  "zip_library \<Rightarrow> Authorizer \<Rightarrow> Principal \<Rightarrow> string \<Rightarrow> bool \<Rightarrow> platform world
     \<Rightarrow> AssessmentResult result \<times> platform world" where
  "secured_run_new_assessment zips self caller source_path is_archive w =
     and_then (on_platform (require self caller RUN_ASSESSMENT ''run a full assessment'' None) w)
       (\<lambda>principal w. and_then (svc_run_new_assessment zips (settings_of self) source_path is_archive w)
       (\<lambda>result w. and_then (on_platform (secured_audit self principal AuthEventType.ASSESSMENT_REQUESTED
             ''Full assessment requested'' [(''source_type'', JStr (source_kind is_archive))]
             (Some (am_scan_id result))) w)
       (\<lambda>_ w. (Inr result, w))))"

definition secured_run_quick_scan ::
  "zip_library \<Rightarrow> Authorizer \<Rightarrow> Principal \<Rightarrow> string \<Rightarrow> bool \<Rightarrow> platform world
     \<Rightarrow> ScanResult result \<times> platform world" where
  "secured_run_quick_scan zips self caller source_path is_archive w =
     and_then (on_platform (require self caller RUN_QUICK_SCAN ''run a quick scan'' None) w)
       (\<lambda>principal w. and_then (ingest_source zips source_path (settings_of self) is_archive w)
       (\<lambda>source w. and_then (scan_and_cleanup source (settings_of self) w)
       (\<lambda>result w. and_then (on_platform (secured_audit self principal AuthEventType.QUICK_SCAN_REQUESTED
             ''Quick scan run (not persisted)''
             [(''quick_scan_id'', JStr (sm_scan_id (rs_summary result))),
              (''total_findings'', JInt (sm_total_findings (rs_summary result)))] None) w)
       (\<lambda>_ w. (Inr result, w)))))"

end
