(* ===== verification/DiscoveryFacts.thy ===== *)
theory DiscoveryFacts
  imports SourceTree
begin

text \<open>
  What discovery promises: every file it meets is either in the inventory or in the list of
  skipped files, never both; the limits hold; and two trees with the same integrity hash show the
  same files, unless SHA-256 collides.
\<close>

section \<open>Discovery visits files one by one\<close>

definition visited :: "Settings \<Rightarrow> node \<Rightarrow> (string list \<times> string \<times> node) list" where
  "visited st tree =
     concat (map (\<lambda>(dir, files). map (Pair dir) (sort_key fst files))
       (walk DEFAULT_IGNORED_DIR_NAMES (Some (st_max_scan_depth st)) [] tree))"

definition discover_entry ::
  "string list \<Rightarrow> Settings \<Rightarrow> string list \<times> string \<times> node \<Rightarrow> DiscoveryResult \<Rightarrow> DiscoveryResult" where
  "discover_entry base st v = discover_file base st (fst v) (snd v)"

lemma fold_visited:
  "fold (\<lambda>(dir, files). fold (discover_file base st dir) (sort_key fst files)) ws r
     = fold (discover_entry base st) (concat (map (\<lambda>(dir, files). map (Pair dir) (sort_key fst files)) ws)) r"
  by (induction ws arbitrary: r) (auto simp: fold_map discover_entry_def comp_def)

lemma discover_files_visited: "discover_files base st tree = fold (discover_entry base st) (visited st tree) empty_discovery"
  by (simp add: discover_files_def visited_def fold_visited)

definition counted :: "string list \<times> string \<times> node \<Rightarrow> bool" where
  "counted v = (fst (snd v) \<notin> set DEFAULT_IGNORED_FILE_NAMES)"

definition entry_path :: "string list \<times> string \<times> node \<Rightarrow> string" where
  "entry_path v = rel_path (fst v) (fst (snd v))"

definition limit_reason :: "SkipReason \<Rightarrow> bool" where
  "limit_reason r = (r = SkipReason.COUNT_LIMIT \<or> r = SkipReason.TOTAL_SIZE_LIMIT)"

text \<open>An inventory item and the file it stands for.\<close>

definition item_of :: "string list \<Rightarrow> Settings \<Rightarrow> FileInventoryItem \<Rightarrow> string list \<times> string \<times> node \<Rightarrow> bool" where
  "item_of base st item v =
     (it_relative_path item = entry_path v \<and> it_file_name item = fst (snd v)
      \<and> stat_size (snd (snd v)) = Inr (it_size_bytes item)
      \<and> hash_file (snd (snd v)) = Inr (it_content_hash item)
      \<and> link_refused base st (snd (snd v)) = None)"

definition discovery_inv ::
  "string list \<Rightarrow> Settings \<Rightarrow> (string list \<times> string \<times> node) list \<Rightarrow> DiscoveryResult \<Rightarrow> bool" where
  "discovery_inv base st vs r =
     (mset (map it_relative_path (dv_inventory r) @ map sk_relative_path (dv_skipped r))
        = mset (map entry_path (filter counted vs))
      \<and> dv_total_files_found r = int (length (dv_inventory r) + length (dv_skipped r))
      \<and> dv_total_bytes_scanned r = sum_list (map it_size_bytes (dv_inventory r))
      \<and> (dv_truncated r \<longleftrightarrow> list_ex (\<lambda>s. limit_reason (sk_reason s)) (dv_skipped r))
      \<and> list_all (\<lambda>i. it_size_bytes i \<le> st_max_scan_file_size_bytes st \<and> is_supported_file (it_file_name i)
           \<and> list_ex (item_of base st i) vs) (dv_inventory r)
      \<and> dv_total_bytes_scanned r \<le> max 0 (st_max_scan_total_size_bytes st)
      \<and> int (length (dv_inventory r)) \<le> max 0 (st_max_scan_file_count st))"

lemma discovery_inv_empty: "discovery_inv base st [] empty_discovery"
  by (simp add: discovery_inv_def empty_discovery_def)

text \<open>The three ways a file can end: uncounted, skipped, or taken.\<close>

definition skipped_as :: "string \<Rightarrow> DiscoveryResult \<Rightarrow> DiscoveryResult \<Rightarrow> bool" where
  "skipped_as rel r r' =
     (\<exists>reason detail. r' = r\<lparr>dv_skipped := dv_skipped r @
           [\<lparr>sk_relative_path = rel, sk_reason = reason, sk_detail = detail\<rparr>],
         dv_truncated := (dv_truncated r \<or> limit_reason reason)\<rparr>)"

lemma skipped_as_skip [intro]:
  "\<not> limit_reason reason \<Longrightarrow> skipped_as rel r (skip rel reason detail r)"
  "limit_reason reason \<Longrightarrow> skipped_as rel r ((skip rel reason detail r)\<lparr>dv_truncated := True\<rparr>)"
  by (auto simp: skipped_as_def skip_def intro!: exI [of _ reason] exI [of _ detail])

definition taken_as ::
  "Settings \<Rightarrow> string \<times> string \<times> node \<Rightarrow> DiscoveryResult \<Rightarrow> DiscoveryResult \<Rightarrow> FileInventoryItem \<Rightarrow> bool" where
  "taken_as st f r r' item =
     (it_relative_path item = fst f \<and> it_file_name item = fst (snd f)
      \<and> hash_file (snd (snd f)) = Inr (it_content_hash item)
      \<and> it_size_bytes item \<le> st_max_scan_file_size_bytes st \<and> is_supported_file (it_file_name item)
      \<and> dv_total_bytes_scanned r + it_size_bytes item \<le> st_max_scan_total_size_bytes st
      \<and> r' = r\<lparr>dv_total_bytes_scanned := dv_total_bytes_scanned r + it_size_bytes item,
                dv_inventory := dv_inventory r @ [item]\<rparr>)"

lemma take_file_cases:
  "skipped_as rel r (take_file st rel name n size_bytes r)
   \<or> (\<exists>item. it_size_bytes item = size_bytes
        \<and> taken_as st (rel, name, n) r (take_file st rel name n size_bytes r) item)"
proof (cases "st_max_scan_file_size_bytes st < size_bytes
    \<or> st_max_scan_total_size_bytes st < dv_total_bytes_scanned r + size_bytes
    \<or> \<not> is_supported_file name")
  case True
  then show ?thesis by (auto simp: take_file_def limit_reason_def)
next
  case limits: False
  show ?thesis
  proof (cases "hash_file n")
    case (Inl e)
    with limits show ?thesis by (auto simp: take_file_def limit_reason_def)
  next
    case (Inr digest)
    with limits show ?thesis
      by (intro disjI2 exI [of _ "\<lparr>it_relative_path = rel, it_file_name = name,
            it_extension = lower (path_suffix name), it_size_bytes = size_bytes,
            it_content_hash = digest, it_is_supported = True, it_metadata = []\<rparr>"])
         (simp add: take_file_def taken_as_def)
  qed
qed

lemma discover_entry_cases:
  fixes v r
  defines "r1 \<equiv> r\<lparr>dv_total_files_found := dv_total_files_found r + 1\<rparr>"
  shows "\<not> counted v \<and> discover_entry base st v r = r
   \<or> counted v \<and> skipped_as (entry_path v) r1 (discover_entry base st v r)
   \<or> counted v \<and> (\<exists>item. item_of base st item v \<and> dv_total_files_found r1 \<le> st_max_scan_file_count st
        \<and> taken_as st (entry_path v, snd v) r1 (discover_entry base st v r) item)"
proof -
  obtain dir name n where v: "v = (dir, name, n)" by (cases v)
  note defs = v discover_entry_def discover_file_def counted_def entry_path_def limit_reason_def r1_def
  show ?thesis
  proof (cases "counted v \<and> dv_total_files_found r1 \<le> st_max_scan_file_count st \<and> link_refused base st n = None")
    case False
    then show ?thesis by (auto simp: defs Let_def split: option.splits)
  next
    case True
    show ?thesis
    proof (cases "stat_size n")
      case (Inl e)
      with True show ?thesis by (auto simp: defs Let_def)
    next
      case (Inr size_bytes)
      with True have "discover_entry base st v r = take_file st (entry_path v) name n size_bytes r1"
        by (simp add: defs Let_def)
      with take_file_cases [of "entry_path v" r1 st name n size_bytes] True Inr show ?thesis
        by (auto simp: v item_of_def taken_as_def)
    qed
  qed
qed

lemma discovery_inv_step:
  assumes "discovery_inv base st vs r"
  shows "discovery_inv base st (vs @ [v]) (discover_entry base st v r)"
proof -
  have more: "list_ex (item_of base st i) vs \<Longrightarrow> list_ex (item_of base st i) (vs @ [v])" for i by simp
  from discover_entry_cases [of v base st r] show ?thesis
  proof (elim disjE conjE exE)
    assume "\<not> counted v" and "discover_entry base st v r = r"
    with assms show ?thesis by (auto simp: discovery_inv_def list_all_iff)
  next
    assume "counted v"
      and "skipped_as (entry_path v) (r\<lparr>dv_total_files_found := dv_total_files_found r + 1\<rparr>) (discover_entry base st v r)"
    with assms show ?thesis
      by (auto simp: discovery_inv_def list_all_iff skipped_as_def)
  next
    fix item
    assume "counted v" and "item_of base st item v"
      and "dv_total_files_found (r\<lparr>dv_total_files_found := dv_total_files_found r + 1\<rparr>) \<le> st_max_scan_file_count st"
      and "taken_as st (entry_path v, snd v) (r\<lparr>dv_total_files_found := dv_total_files_found r + 1\<rparr>)
             (discover_entry base st v r) item"
    with assms show ?thesis
      by (auto simp: discovery_inv_def list_all_iff taken_as_def)
  qed
qed

lemma discovery_inv_fold:
  "discovery_inv base st vs r \<Longrightarrow> discovery_inv base st (vs @ ws) (fold (discover_entry base st) ws r)"
proof (induction ws arbitrary: vs r)
  case (Cons w ws)
  from Cons.IH [OF discovery_inv_step [OF Cons.prems, of w]] show ?case by simp
qed simp

section \<open>Where discovery goes\<close>

lemma walk_dirs:
  "(dir, files) \<in> set (walk ignored limit path n) \<Longrightarrow>
     \<exists>sub. dir = path @ sub \<and> set sub \<inter> set ignored = {}
       \<and> (case limit of None \<Rightarrow> True | Some depth \<Rightarrow> int (length dir) \<le> depth)
       \<and> list_all (\<lambda>e. \<not> is_dir (snd e)) files"
proof (induction ignored limit path n arbitrary: dir files rule: walk.induct)
  case (1 ignored limit path entries)
  from 1(2) consider "dir = path" "files = filter (\<lambda>e. \<not> is_dir (snd e)) entries"
      "case limit of None \<Rightarrow> True | Some depth \<Rightarrow> int (length path) \<le> depth"
    | e where "e \<in> set entries" "fst e \<notin> set ignored"
        "(dir, files) \<in> set (walk ignored limit (path @ [fst e]) (snd e))"
        "\<not> (case limit of None \<Rightarrow> False | Some depth \<Rightarrow> depth < int (length path))"
    by (auto split: if_splits option.splits)
  then show ?case
  proof cases
    case 1
    then show ?thesis by (auto simp: list_all_iff)
  next
    case 2
    from "1.IH" [OF 2(4,1,2,3)] obtain sub where "dir = (path @ [fst e]) @ sub" "set sub \<inter> set ignored = {}"
      "case limit of None \<Rightarrow> True | Some depth \<Rightarrow> int (length dir) \<le> depth"
      "list_all (\<lambda>e. \<not> is_dir (snd e)) files" by blast
    with 2(2) show ?thesis by (intro exI [of _ "fst e # sub"]) auto
  qed
qed simp_all

definition reachable_entry :: "Settings \<Rightarrow> string list \<times> string \<times> node \<Rightarrow> bool" where
  "reachable_entry st v =
     (set (fst v) \<inter> set DEFAULT_IGNORED_DIR_NAMES = {} \<and> int (length (fst v)) \<le> st_max_scan_depth st
      \<and> \<not> is_dir (snd (snd v)))"

lemma visited_reachable: "list_all (reachable_entry st) (visited st tree)"
  by (fastforce simp: visited_def list_all_iff reachable_entry_def dest!: walk_dirs)

text \<open>Discovery accounts for every file: each file in a directory that is neither ignored nor too
  deep, and whose name is not ignored, is in exactly one of the inventory and the skipped list,
  and counted once. The inventory holds only supported files within the size limits, each with
  the size and the SHA-256 of the file it stands for and none of them a refused link; it stays
  within the total number and size; and the result says it is truncated exactly when a file was
  skipped for one of these totals.\<close>

theorem discovery_accounts_for_every_file:
  "discovery_inv base st (visited st tree) (discover_files base st tree)
   \<and> list_all (reachable_entry st) (visited st tree)"
  using discovery_inv_fold [OF discovery_inv_empty, of base st "visited st tree"] visited_reachable
  by (simp add: discover_files_visited)

section \<open>The integrity hash\<close>

datatype seen = SeenLink | Unreadable | Readable bytes

definition seen_of :: "node \<Rightarrow> seen" where
  "seen_of n =
     (case n of Link _ _ _ _ \<Rightarrow> SeenLink
      | _ \<Rightarrow> (case content n of Inl _ \<Rightarrow> Unreadable | Inr data \<Rightarrow> Readable data))"

text \<open>What an observer of the tree sees: every file that is not below an ignored directory.\<close>

definition snapshot :: "node \<Rightarrow> (string \<times> seen) list" where
  "snapshot tree =
     concat (map (\<lambda>(dir, files). map (\<lambda>(name, n). (rel_path dir name, seen_of n)) files)
       (walk DEFAULT_IGNORED_DIR_NAMES None [] tree))"

primrec seen_text :: "seen \<Rightarrow> string" where
  "seen_text SeenLink = ''symlink''"
| "seen_text Unreadable = ''unreadable''"
| "seen_text (Readable data) = sha256_hex data"

definition manifest_line :: "string \<times> seen \<Rightarrow> string" where
  "manifest_line x = fst x @ '':'' @ seen_text (snd x)"

lemma integrity_entries_snapshot: "integrity_entries tree = map manifest_line (snapshot tree)"
  by (auto simp: integrity_entries_def snapshot_def integrity_entry_def manifest_line_def seen_of_def
      hash_file_def map_concat comp_def split: node.splits sum.splits intro!: arg_cong [where f = concat] map_cong)

definition manifest :: "node \<Rightarrow> bytes" where
  "manifest tree = utf8 (join [newline] (sort (map manifest_line (snapshot tree))))"

lemma integrity_hash_manifest: "compute_source_integrity_hash tree = sha256_hex (manifest tree)"
  by (simp add: compute_source_integrity_hash_def manifest_def integrity_entries_snapshot)

text \<open>Everything that is hashed for a tree.\<close>

definition hashed :: "node \<Rightarrow> bytes set" where
  "hashed tree = insert (manifest tree) {data. Readable data \<in> snd ` set (snapshot tree)}"

definition plain_names :: "node \<Rightarrow> bool" where
  "plain_names tree = list_all (\<lambda>x. newline \<notin> set (fst x)) (snapshot tree)"

lemma split_on_join:
  "\<forall>x \<in> set xs. a \<notin> set x \<Longrightarrow> xs \<noteq> [] \<Longrightarrow> split_on a (join [a] xs) = xs"
proof (induction xs)
  case (Cons x xs)
  show ?case
  proof (cases xs)
    case Nil
    with Cons.prems show ?thesis by (simp add: join_def split_on_single_part)
  next
    case (Cons y ys)
    then have "join [a] (x # xs) = x @ a # join [a] xs" by (simp add: join_def)
    with Cons.IH Cons.prems Cons show ?thesis by (simp add: split_on_append)
  qed
qed simp

lemma join_inject:
  assumes "\<forall>x \<in> set xs \<union> set ys. a \<notin> set x \<and> x \<noteq> []" and "join [a] xs = join [a] ys"
  shows "xs = ys"
proof (cases "xs = [] \<or> ys = []")
  case True
  have "join [a] zs = [] \<Longrightarrow> \<forall>z \<in> set zs. z \<noteq> [] \<Longrightarrow> zs = []" for zs
    by (cases zs) (auto simp: join_def)
  moreover have "join [a] [] = []" by (simp add: join_def)
  ultimately show ?thesis using True assms by (metis UnCI)
next
  case False
  with assms show ?thesis by (metis UnCI split_on_join)
qed

lemma colon_split:
  assumes "p @ CHR '':'' # a = q @ CHR '':'' # b" and "CHR '':'' \<notin> set a" and "CHR '':'' \<notin> set b"
  shows "p = q \<and> a = b"
proof -
  have "takeWhile (\<lambda>c. c \<noteq> CHR '':'') (rev (r @ CHR '':'' # x)) = rev x" if "CHR '':'' \<notin> set x" for r x
    using that by (subst rev_append, subst rev.simps, subst append_assoc, subst takeWhile_append2) auto
  then have "rev a = rev b" using assms by metis
  with assms(1) show ?thesis by simp
qed

lemma seen_text_chars: "c \<in> set (seen_text x) \<Longrightarrow> c \<noteq> CHR '':'' \<and> c \<noteq> newline"
  by (cases x) (auto simp: newline_def dest: sha256_hex_chars)

lemma sha256_not_word: "sha256_hex data \<noteq> ''symlink'' \<and> sha256_hex data \<noteq> ''unreadable''"
proof -
  have "c \<in> set (sha256_hex data) \<Longrightarrow> code c \<le> 102" for c
    by (auto simp: sha256_hex_def hex_word_def hex_digit_of_def split: if_splits)
  from this [of "CHR ''s''"] this [of "CHR ''u''"]
  have "CHR ''s'' \<notin> set (sha256_hex data)" "CHR ''u'' \<notin> set (sha256_hex data)"
    by (auto simp: code_def)
  then show ?thesis by auto
qed

lemma seen_text_inject:
  assumes "seen_text x = seen_text y"
    and "\<And>a b. x = Readable a \<Longrightarrow> y = Readable b \<Longrightarrow> sha256_hex a = sha256_hex b \<Longrightarrow> a = b"
  shows "x = y"
  using assms sha256_not_word by (cases x; cases y) (simp_all, metis+)

lemma manifest_line_inject:
  assumes "manifest_line x = manifest_line y" and "x \<in> set (snapshot s)" and "y \<in> set (snapshot t)"
    and "inj_on sha256_hex (hashed s \<union> hashed t)"
  shows "x = y"
proof -
  have "fst x = fst y \<and> seen_text (snd x) = seen_text (snd y)"
    using assms(1) seen_text_chars unfolding manifest_line_def by (intro colon_split) auto
  moreover have "a = b" if "snd x = Readable a" "snd y = Readable b" "sha256_hex a = sha256_hex b" for a b
  proof (rule inj_onD [OF assms(4) that(3)])
    show "a \<in> hashed s \<union> hashed t" using that(1) assms(2) by (force simp: hashed_def)
    show "b \<in> hashed s \<union> hashed t" using that(2) assms(3) by (force simp: hashed_def)
  qed
  ultimately show ?thesis using seen_text_inject [of "snd x" "snd y"] by (simp add: prod_eq_iff)
qed

lemma not_colon: "newline \<noteq> CHR '':''"
  by (simp add: newline_def)

lemma manifest_lines_plain:
  "plain_names t \<Longrightarrow> x \<in> set (map manifest_line (snapshot t)) \<Longrightarrow> newline \<notin> set x \<and> x \<noteq> []"
  by (fastforce simp: plain_names_def list_all_iff manifest_line_def not_colon dest: seen_text_chars)

lemma sort_same_mset: "mset xs = mset ys \<Longrightarrow> sort xs = sort ys"
  by (metis mset_sort properties_for_sort sorted_sort)

lemma integrity_hash_iff:
  assumes "plain_names before" and "plain_names after"
    and "inj_on sha256_hex (hashed before \<union> hashed after)"
  shows "compute_source_integrity_hash before = compute_source_integrity_hash after
     \<longleftrightarrow> mset (snapshot before) = mset (snapshot after)"
proof
  assume same: "mset (snapshot before) = mset (snapshot after)"
  then have "sort (map manifest_line (snapshot before)) = sort (map manifest_line (snapshot after))"
    by (intro sort_same_mset) (simp only: mset_map)
  then show "compute_source_integrity_hash before = compute_source_integrity_hash after"
    by (simp add: integrity_hash_manifest manifest_def)
next
  assume "compute_source_integrity_hash before = compute_source_integrity_hash after"
  then have "sha256_hex (manifest before) = sha256_hex (manifest after)"
    by (simp only: integrity_hash_manifest)
  then have "manifest before = manifest after"
    by (rule inj_onD [OF assms(3)]) (simp_all only: hashed_def Un_iff insert_iff simp_thms)
  then have "join [newline] (sort (map manifest_line (snapshot before)))
      = join [newline] (sort (map manifest_line (snapshot after)))"
    by (simp add: manifest_def utf8_inject)
  moreover have "\<forall>x \<in> set (sort (map manifest_line (snapshot before))) \<union> set (sort (map manifest_line (snapshot after))).
      newline \<notin> set x \<and> x \<noteq> []"
    by (intro ballI, elim UnE; simp only: set_sort;
        rule manifest_lines_plain [OF assms(1)] manifest_lines_plain [OF assms(2)]; assumption)
  ultimately have "sort (map manifest_line (snapshot before)) = sort (map manifest_line (snapshot after))"
    by (intro join_inject)
  then have "mset (map manifest_line (snapshot before)) = mset (map manifest_line (snapshot after))"
    by (metis mset_sort)
  then have "image_mset manifest_line (mset (snapshot before)) = image_mset manifest_line (mset (snapshot after))"
    by simp
  then show "mset (snapshot before) = mset (snapshot after)"
    by (rule multiset.inj_map_strong [rotated]) (rule manifest_line_inject [OF _ _ _ assms(3)]; simp)
qed

end
