(* ===== verification/ScanFacts.thy ===== *)
theory ScanFacts
  imports Orchestrator DiscoveryFacts
begin

text \<open>
  What a scan guarantees: it ends and reports a verified source when nobody else touches the
  tree, it reports FAILED when the tree it shows at the end differs from the one at the start,
  and its result is consistent: no finding twice, and counts that add up.
\<close>

section \<open>Counting and duplicates\<close>

lemma dedup_from_keys:
  "dedup_key ` set (dedup_from seen fs) = dedup_key ` set fs - set seen"
  by (induction fs arbitrary: seen) auto

lemma dedup_from_distinct: "distinct (map dedup_key (dedup_from seen fs))"
proof (induction fs arbitrary: seen)
  case (Cons f fs)
  have "dedup_key f \<notin> dedup_key ` set (dedup_from (dedup_key f # seen) fs)"
    unfolding dedup_from_keys by simp
  with Cons show ?case by simp
qed simp

lemma dedup_from_subset: "set (dedup_from seen fs) \<subseteq> set fs"
  by (induction fs arbitrary: seen) auto

text \<open>The finding kept for a key is the first one with it.\<close>

lemma dedup_from_first:
  "k \<notin> set seen \<Longrightarrow>
     List.find (\<lambda>f. dedup_key f = k) (dedup_from seen fs) = List.find (\<lambda>f. dedup_key f = k) fs"
  by (induction fs arbitrary: seen) auto

lemma map_of_bump:
  "map_of (bump k counts) j =
     (if j = k then Some ((case map_of counts k of None \<Rightarrow> 0 | Some n \<Rightarrow> n) + 1) else map_of counts j)"
  by (simp add: bump_def update_conv')

definition tally :: "(string \<times> int) list \<Rightarrow> string \<Rightarrow> int" where
  "tally counts k = (case map_of counts k of None \<Rightarrow> 0 | Some n \<Rightarrow> n)"

lemma tally_Nil: "tally [] k = 0"
  by (simp add: tally_def)

lemma tally_bump: "tally (bump k counts) j = (if j = k then 1 else 0) + tally counts j"
  by (simp add: tally_def map_of_bump)

lemma tally_fold_bump: "tally (fold bump ks counts) j = int (length (filter (\<lambda>k. k = j) ks)) + tally counts j"
  by (induction ks arbitrary: counts) (simp_all add: tally_bump)

lemma count_by_fold: "count_by key fs = fold bump (map key fs) []"
proof -
  have "fold (\<lambda>f. bump (key f)) fs counts = fold bump (map key fs) counts" for counts
    by (induction fs arbitrary: counts) simp_all
  then show ?thesis by (simp add: count_by_def)
qed

lemma count_by_domain_fold: "count_by_domain fs = fold bump (concat (map nf_banking_domains fs)) []"
proof -
  have "fold (\<lambda>f. fold bump (nf_banking_domains f)) fs counts
      = fold bump (concat (map nf_banking_domains fs)) counts" for counts
    by (induction fs arbitrary: counts) simp_all
  then show ?thesis by (simp add: count_by_domain_def)
qed

lemma keys_bump: "fst ` set (bump k counts) = insert k (fst ` set counts)"
  by (simp add: bump_def dom_update)

lemma distinct_bump: "distinct (map fst counts) \<Longrightarrow> distinct (map fst (bump k counts))"
  by (simp add: bump_def distinct_update)

lemma sum_bump:
  "distinct (map fst counts) \<Longrightarrow> sum_list (map snd (bump k counts)) = sum_list (map snd counts) + 1"
  unfolding bump_def by (induction counts) (auto simp: map_of_eq_None_iff)

lemma sum_fold_bump:
  "distinct (map fst counts) \<Longrightarrow> distinct (map fst (fold bump ks counts))
     \<and> sum_list (map snd (fold bump ks counts)) = sum_list (map snd counts) + int (length ks)"
  by (induction ks arbitrary: counts) (simp_all add: distinct_bump sum_bump)

lemma tally_count_by: "tally (count_by key fs) k = int (length (filter (\<lambda>f. key f = k) fs))"
  unfolding count_by_fold tally_fold_bump by (simp add: tally_def filter_map comp_def)

lemma sum_count_by: "sum_list (map snd (count_by key fs)) = int (length fs)"
  unfolding count_by_fold using sum_fold_bump [of "[]"] by simp

text \<open>The result of a scan adds up, whatever the scanners reported: no two findings have the same
  rule, file and lines and for each of these the first report is the one that is kept; the counts
  by severity and by domain are the numbers of such findings, and those by severity sum up to the
  total; the scan is FAILED exactly when the two hashes differ, and COMPLETED without warnings
  exactly when they agree, nothing was truncated and no scanner had an error.\<close>

theorem scan_result_adds_up:
  "let r = scan_result scan_id source t discovery inventory mappings summaries scanned hash_before hash_after;
       sm = rs_summary r;
       reported = scanned @ map (skip_normalized scan_id) (scan_skipped_files (dv_skipped discovery))
   in distinct (map dedup_key (rs_findings r))
    \<and> (\<forall>k. List.find (\<lambda>f. dedup_key f = k) (rs_findings r) = List.find (\<lambda>f. dedup_key f = k) reported)
    \<and> sm_total_findings sm = int (length (rs_findings r))
    \<and> sum_list (map snd (sm_findings_by_severity sm)) = sm_total_findings sm
    \<and> (\<forall>v. tally (sm_findings_by_severity sm) v
          = int (length (filter (\<lambda>f. Severity_value (rf_severity (nf_raw f)) = v) (rs_findings r))))
    \<and> (\<forall>d. tally (sm_findings_by_domain sm) d
          = int (length (filter (\<lambda>k. k = d) (concat (map nf_banking_domains (rs_findings r))))))
    \<and> (sm_status sm = ScanStatus.FAILED \<longleftrightarrow> hash_before \<noteq> hash_after)
    \<and> (sm_status sm = ScanStatus.COMPLETED \<longleftrightarrow>
          hash_before = hash_after \<and> \<not> dv_truncated discovery \<and> \<not> list_ex with_errors summaries)"
proof -
  have "\<not> with_errors (skip_execution sk fs)" for sk fs
    by (simp add: with_errors_def skip_execution_def)
  then show ?thesis
    by (simp add: scan_result_def Let_def deduplicate_def dedup_from_distinct dedup_from_first
        tally_count_by sum_count_by scan_status_def count_by_domain_fold tally_fold_bump tally_Nil)
qed

section \<open>Scanning an undisturbed tree\<close>

text \<open>Reading a file fails with an \<open>OSError\<close>, if it fails.\<close>

fun os_errors_only :: "node \<Rightarrow> bool" where
  "os_errors_only (File _ c) = (case c of Inl e \<Rightarrow> isinstance e PyOSError | Inr _ \<Rightarrow> True)"
| "os_errors_only (Link _ _ _ c) = (case c of Inl e \<Rightarrow> isinstance e PyOSError | Inr _ \<Rightarrow> True)"
| "os_errors_only (Dir entries) = list_all (\<lambda>e. os_errors_only (snd e)) entries"

lemma os_errors_lookup: "os_errors_only n \<Longrightarrow> lookup n p = Some m \<Longrightarrow> os_errors_only m"
proof (induction n p rule: lookup.induct)
  case (2 entries c cs)
  then show ?case by (fastforce simp: list_all_iff split: option.splits dest: map_of_SomeD)
qed simp_all

lemma read_at_os_error:
  assumes "os_errors_only tree" and "read_at tree p = Inl e"
  shows "isinstance e PyOSError"
proof -
  have dir: "isinstance (Err PyOSError msg) PyOSError" for msg by (simp add: isinstance_def)
  show ?thesis
  proof (cases "node_at tree p")
    case None
    then show ?thesis using assms(2) dir by (auto simp: read_at_def os_error_def)
  next
    case (Some n)
    then have "os_errors_only n"
      using assms(1) os_errors_lookup by (auto simp: node_at_def split: if_splits)
    then show ?thesis
      using Some assms(2) dir by (cases n) (auto simp: read_at_def content_def split: sum.splits)
  qed
qed

definition run_ok :: "nat \<Rightarrow> scanner_run \<Rightarrow> bool" where
  "run_ok n r = (0 \<le> sr_processed r \<and> 0 \<le> sr_errored r \<and> sr_processed r + sr_errored r \<le> int n
     \<and> sr_errored r = int (length (sr_error_details r)))"

lemma scan_content_ok:
  assumes "run_ok n r" and "\<And>e. data = Inl e \<Longrightarrow> isinstance e PyOSError"
  shows "\<exists>r'. scan_content scanner scan_id mappings p data r = Inr r' \<and> run_ok (Suc n) r'"
proof (cases "read_text_safely p data DEFAULT_MAX_READ_BYTES")
  case (Inl e)
  have "isinstance e PyOSError \<or> isinstance e BinaryContentError"
    using Inl assms(2) by (cases data) (auto simp: read_text_safely_def Let_def isinstance_def split: if_splits option.splits)
  then show ?thesis using Inl assms(1) by (auto simp: scan_content_def run_ok_def scanner_failed_def)
next
  case (Inr t)
  then show ?thesis
    using assms(1)
    by (cases "sx_scan scanner p (rr_text t)") (auto simp: scan_content_def run_ok_def scanner_failed_def)
qed

lemma scan_items_ok:
  assumes "quiet h" and "os_errors_only (hs_tree h)" and "run_ok n r"
  shows "\<exists>r' h'. scan_items scanner base scan_id mappings items r h = (Inr r', h')
     \<and> run_ok (n + length items) r' \<and> quiet h' \<and> hs_tree h' = hs_tree h"
  using assms
proof (induction items arbitrary: n r h)
  case (Cons item items)
  let ?h = "h\<lparr>hs_accesses := Suc (hs_accesses h)\<rparr>"
    and ?data = "read_at (hs_tree h) (base @ path_components (it_relative_path item))"
  obtain r1 where "scan_content scanner scan_id mappings (it_relative_path item) ?data r = Inr r1"
    and "run_ok (Suc n) r1"
    using scan_content_ok [OF Cons.prems(3)] read_at_os_error [OF Cons.prems(2)] by blast
  with Cons.IH [of ?h "Suc n" r1] Cons.prems show ?case by (simp add: access_quiet)
qed simp

definition summary_ok :: "nat \<Rightarrow> ScannerExecutionSummary \<Rightarrow> bool" where
  "summary_ok n x = (0 \<le> xs_files_processed x \<and> 0 \<le> xs_files_errored x
     \<and> xs_files_processed x + xs_files_errored x \<le> int n
     \<and> (with_errors x \<longleftrightarrow> 0 < xs_files_errored x) \<and> (xs_error_summary x = None \<longleftrightarrow> xs_files_errored x = 0))"

lemma run_one_scanner_ok:
  assumes "quiet h" and "os_errors_only (hs_tree h)"
  shows "\<exists>x fs' h'. run_one_scanner scanner items base scan_id mappings fs h = (Inr (x, fs'), h')
     \<and> xs_scanner_id x = sx_scanner_id scanner \<and> summary_ok (length items) x
     \<and> quiet h' \<and> hs_tree h' = hs_tree h"
proof -
  let ?r = "\<lparr>sr_processed = 0, sr_errored = 0, sr_produced = 0, sr_error_details = [], sr_findings = fs\<rparr>"
  have "run_ok 0 ?r" by (simp add: run_ok_def)
  then obtain r' h' where "scan_items scanner base scan_id mappings items ?r h = (Inr r', h')"
    and "run_ok (length items) r'" and "quiet h'" and "hs_tree h' = hs_tree h"
    using scan_items_ok [OF assms, of 0] by fastforce
  then show ?thesis
    by (simp add: run_one_scanner_def summary_ok_def run_ok_def summarize_run_def with_errors_def)
qed

lemma run_scanners_ok:
  assumes "quiet h" and "os_errors_only (hs_tree h)"
  shows "\<exists>xs fs' h'. run_scanners scanners items base scan_id mappings fs h = (Inr (xs, fs'), h')
     \<and> map xs_scanner_id xs = map sx_scanner_id scanners \<and> list_all (summary_ok (length items)) xs
     \<and> quiet h' \<and> hs_tree h' = hs_tree h"
  using assms
proof (induction scanners arbitrary: fs h)
  case (Cons scanner scanners)
  obtain x fs1 h1 where one: "run_one_scanner scanner items base scan_id mappings fs h = (Inr (x, fs1), h1)"
    and x: "xs_scanner_id x = sx_scanner_id scanner" "summary_ok (length items) x"
    and h1: "quiet h1" "hs_tree h1 = hs_tree h"
    using run_one_scanner_ok [OF Cons.prems] by blast
  from Cons.IH [of h1 fs1] one x h1 Cons.prems(2) show ?case by auto
qed simp


lemma scan_completes:
  assumes "quiet h" and "os_errors_only (hs_tree h)"
  shows "\<exists>r s' h'. run_scan source st (s, h) = (Inr r, (s', h')) \<and> hs_tree h' = hs_tree h
     \<and> sm_integrity_verified (rs_summary r) \<and> sm_status (rs_summary r) \<noteq> ScanStatus.FAILED
     \<and> map xs_scanner_id (rs_scanner_executions r)
         = map sx_scanner_id get_content_scanners @ [''unsupported_sensitive_file'']
     \<and> list_all (summary_ok (length (rs_inventory r))) (butlast (rs_scanner_executions r))
     \<and> (sm_status (rs_summary r) = ScanStatus.COMPLETED \<longleftrightarrow>
          \<not> sm_truncated (rs_summary r)
          \<and> list_all (\<lambda>x. xs_files_errored x = 0) (rs_scanner_executions r))"
proof -
  let ?base = "sh_root source" and ?t = "hs_tree h"
  let ?id = "pf_uuid s (pf_draws s)" and ?h1 = "h\<lparr>hs_accesses := Suc (Suc (hs_accesses h))\<rparr>"
  let ?d = "discover_files (resolve_from ?t [] ?base) st (tree_at ?t ?base)"
  let ?hash = "compute_source_integrity_hash (tree_at ?t ?base)"
  let ?inv = "map annotate_item (dv_inventory ?d)"
  obtain xs fs h2 where run: "run_scanners get_content_scanners ?inv ?base ?id
        (map_inventory (dv_inventory ?d)) [] ?h1 = (Inr (xs, fs), h2)"
    and xs: "map xs_scanner_id xs = map sx_scanner_id get_content_scanners"
      "list_all (summary_ok (length ?inv)) xs"
    and h2: "quiet h2" "hs_tree h2 = ?t"
    using run_scanners_ok [of ?h1 get_content_scanners ?inv ?base ?id "map_inventory (dv_inventory ?d)" "[]"]
      assms by auto
  let ?r = "scan_result ?id source (now s) ?d ?inv (map_inventory (dv_inventory ?d)) xs fs ?hash ?hash"
  obtain s' h' where result: "run_scan source st (s, h) = (Inr ?r, (s', h'))" and tree: "hs_tree h' = ?t"
    using run h2 by (simp add: run_scan_def draw_uuid_def hash_source_def discover_source_def
        access_quiet [OF assms(1)] access_quiet [OF h2(1)] access_quiet assms(1) now_def Let_def)
  have executions: "rs_scanner_executions ?r
      = xs @ [skip_execution (dv_skipped ?d) (scan_skipped_files (dv_skipped ?d))]"
    by (simp only: scan_result_def Let_def ScanResult.simps)
  have fields: "rs_inventory ?r = ?inv" "sm_integrity_verified (rs_summary ?r)"
    "sm_truncated (rs_summary ?r) = dv_truncated ?d"
    by (simp_all only: scan_result_def Let_def ScanResult.simps ScanSummary.simps)
  have status: "sm_status (rs_summary ?r)
      = scan_status True (list_ex with_errors (rs_scanner_executions ?r)) (dv_truncated ?d)"
    unfolding executions
    by (simp only: scan_result_def Let_def ScanResult.simps ScanSummary.simps simp_thms)
  have "list_ex with_errors xs \<longleftrightarrow> \<not> list_all (\<lambda>x. xs_files_errored x = 0) xs"
    using xs(2) by (auto simp: summary_ok_def list_all_iff list_ex_iff)
  then have errors: "list_ex with_errors (rs_scanner_executions ?r)
      \<longleftrightarrow> \<not> list_all (\<lambda>x. xs_files_errored x = 0) (rs_scanner_executions ?r)"
    unfolding executions by (simp add: skip_execution_def with_errors_def)
  have not_failed: "sm_status (rs_summary ?r) \<noteq> ScanStatus.FAILED"
    unfolding status scan_status_def by simp
  have completed: "sm_status (rs_summary ?r) = ScanStatus.COMPLETED \<longleftrightarrow>
      \<not> sm_truncated (rs_summary ?r) \<and> list_all (\<lambda>x. xs_files_errored x = 0) (rs_scanner_executions ?r)"
    unfolding status fields(3) errors scan_status_def by auto
  have ids: "map xs_scanner_id (rs_scanner_executions ?r)
      = map sx_scanner_id get_content_scanners @ [''unsupported_sensitive_file'']"
    unfolding executions
    by (simp only: map_append xs(1) list.map skip_execution_def ScannerExecutionSummary.simps)
  have counts: "list_all (summary_ok (length (rs_inventory ?r))) (butlast (rs_scanner_executions ?r))"
    unfolding executions butlast_snoc fields(1) by (rule xs(2))
  show ?thesis
    by (rule exI [of _ ?r], rule exI [of _ s'], rule exI [of _ h'])
      (rule conjI [OF result] conjI [OF tree] conjI [OF fields(2)] conjI [OF not_failed] conjI [OF ids]
        conjI [OF counts] completed)+
qed


section \<open>Identity of a scan\<close>

text \<open>Every finding of a scan carries its id.\<close>

definition of_scan :: "string \<Rightarrow> NormalizedFinding list \<Rightarrow> bool" where
  "of_scan scan_id fs = (\<forall>f \<in> set fs. nf_scan_id f = scan_id)"

lemma scan_items_of_scan:
  "scan_items scanner base i ms items r h = (Inr r', h') \<Longrightarrow> of_scan i (sr_findings r) \<Longrightarrow> of_scan i (sr_findings r')"
proof (induction items arbitrary: r h)
  case (Cons item items)
  obtain r1 where "scan_content scanner i ms (it_relative_path item)
      (read_at (fst (access h)) (base @ path_components (it_relative_path item))) r = Inr r1"
    and rest: "scan_items scanner base i ms items r1 (snd (access h)) = (Inr r', h')"
    using Cons.prems(1) by (auto simp: split_beta Let_def split: sum.splits)
  then have "of_scan i (sr_findings r1)"
    using Cons.prems(2)
    by (auto simp: scan_content_def scanner_failed_def normalize_def of_scan_def split: sum.splits if_splits)
  with Cons.IH rest show ?case by blast
qed simp

lemma run_scanners_of_scan:
  "run_scanners scanners items base i ms fs h = (Inr (xs, fs'), h') \<Longrightarrow> of_scan i fs \<Longrightarrow> of_scan i fs'"
proof (induction scanners arbitrary: fs h xs)
  case (Cons scanner scanners)
  obtain x fs1 h1 ys where one: "run_one_scanner scanner items base i ms fs h = (Inr (x, fs1), h1)"
    and rest: "run_scanners scanners items base i ms fs1 h1 = (Inr (ys, fs'), h')"
    using Cons.prems(1) by (auto simp: and_then_eq_Inr)
  have "of_scan i fs1"
    using one scan_items_of_scan [of scanner base i ms items _ h] Cons.prems(2)
    by (fastforce simp: run_one_scanner_def and_then_eq_Inr)
  with Cons.IH [OF rest] show ?case .
qed simp

lemma scan_result_identity:
  assumes "of_scan i fs"
  shows "sm_scan_id (rs_summary (scan_result i source t d inventory ms xs fs hb ha)) = i"
    and "sm_source_path (rs_summary (scan_result i source t d inventory ms xs fs hb ha))
      = show_path (sh_original_path source)"
    and "of_scan i (rs_findings (scan_result i source t d inventory ms xs fs hb ha))"
proof -
  let ?reported = "fs @ map (skip_normalized i) (scan_skipped_files (dv_skipped d))"
  show "sm_scan_id (rs_summary (scan_result i source t d inventory ms xs fs hb ha)) = i"
    and "sm_source_path (rs_summary (scan_result i source t d inventory ms xs fs hb ha))
      = show_path (sh_original_path source)"
    by (simp_all add: scan_result_def Let_def)
  have "rs_findings (scan_result i source t d inventory ms xs fs hb ha) = dedup_from [] ?reported"
    by (simp add: scan_result_def Let_def deduplicate_def)
  moreover have "of_scan i ?reported"
    using assms by (auto simp: of_scan_def skip_normalized_def)
  ultimately show "of_scan i (rs_findings (scan_result i source t d inventory ms xs fs hb ha))"
    using dedup_from_subset [of "[]" ?reported] unfolding of_scan_def by (metis subsetD)
qed

lemma run_scan_identity:
  assumes "run_scan source st (s, h) = (Inr r, (s', h'))"
  shows "s' = s\<lparr>pf_draws := Suc (pf_draws s)\<rparr>" and "sm_scan_id (rs_summary r) = pf_uuid s (pf_draws s)"
    and "sm_source_path (rs_summary r) = show_path (sh_original_path source)"
    and "of_scan (pf_uuid s (pf_draws s)) (rs_findings r)"
proof -
  let ?i = "pf_uuid s (pf_draws s)"
  obtain hb h0 where hb: "hash_source (sh_root source) h = (hb, h0)" by fastforce
  obtain d h1 where d: "discover_source (sh_root source) st h0 = (d, h1)" by fastforce
  let ?inventory = "map annotate_item (dv_inventory d)" and ?ms = "map_inventory (dv_inventory d)"
  obtain q h2 where q: "run_scanners get_content_scanners ?inventory (sh_root source) ?i ?ms [] h1 = (q, h2)"
    by fastforce
  have "\<not> isl q" using assms hb d q by (cases q) (simp_all add: run_scan_def draw_uuid_def Let_def)
  then obtain xs fs where run: "run_scanners get_content_scanners ?inventory (sh_root source) ?i ?ms [] h1 = (Inr (xs, fs), h2)"
    using q by (cases q) auto
  obtain ha h3 where ha: "hash_source (sh_root source) h2 = (ha, h3)" by fastforce
  have r: "r = scan_result ?i source (now (s\<lparr>pf_draws := Suc (pf_draws s)\<rparr>)) d ?inventory ?ms xs fs hb ha"
    and s': "s' = s\<lparr>pf_draws := Suc (pf_draws s)\<rparr>"
    using assms hb d run ha by (auto simp: run_scan_def draw_uuid_def Let_def)
  have "of_scan ?i fs" using run_scanners_of_scan [OF run] by (simp add: of_scan_def)
  note identity = scan_result_identity [OF this]
  show "s' = s\<lparr>pf_draws := Suc (pf_draws s)\<rparr>" by (rule s')
  show "sm_scan_id (rs_summary r) = ?i" unfolding r by (rule identity)
  show "sm_source_path (rs_summary r) = show_path (sh_original_path source)" unfolding r by (rule identity)
  show "of_scan ?i (rs_findings r)" unfolding r by (rule identity)
qed

section \<open>Detecting a change of the source\<close>

text \<open>The source as it shows at an access: first before the scan, and once more at its end.\<close>

definition shown_source :: "SourceHandle \<Rightarrow> host \<Rightarrow> node" where
  "shown_source source h = tree_at (fst (access h)) (sh_root source)"

definition source_after :: "SourceHandle \<Rightarrow> host \<Rightarrow> node" where
  "source_after source h = tree_at (hs_tree h) (sh_root source)"

lemma scan_result_hashes:
  "sm_source_hash_before (rs_summary (scan_result i source t d inventory ms xs fs hash_before hash_after)) = hash_before"
  "sm_source_hash_after (rs_summary (scan_result i source t d inventory ms xs fs hash_before hash_after)) = hash_after"
  "sm_status (rs_summary (scan_result i source t d inventory ms xs fs hash_before hash_after)) = ScanStatus.FAILED
     \<longleftrightarrow> hash_before \<noteq> hash_after"
  by (simp_all add: scan_result_def Let_def scan_status_def)

lemma scan_result_verified:
  "sm_integrity_verified (rs_summary (scan_result i source t d inventory ms xs fs hash_before hash_after))
     \<longleftrightarrow> hash_before = hash_after"
  by (simp add: scan_result_def Let_def)

lemma run_scan_hashes:
  assumes "run_scan source st (s, h) = (Inr r, (s', h'))"
  shows "sm_source_hash_before (rs_summary r) = compute_source_integrity_hash (shown_source source h)
     \<and> sm_source_hash_after (rs_summary r) = compute_source_integrity_hash (source_after source h')
     \<and> (sm_status (rs_summary r) = ScanStatus.FAILED
          \<longleftrightarrow> sm_source_hash_before (rs_summary r) \<noteq> sm_source_hash_after (rs_summary r))"
  using assms
  by (auto simp: run_scan_def hash_source_def discover_source_def draw_uuid_def shown_source_def
      source_after_def access_def Let_def scan_result_hashes split: sum.splits prod.splits)

lemma run_scan_verdict:
  assumes "run_scan source st (s, h) = (Inr r, (s', h'))"
  shows "sm_status (rs_summary r) = ScanStatus.FAILED \<longleftrightarrow> \<not> sm_integrity_verified (rs_summary r)"
proof -
  have "sm_integrity_verified (rs_summary r)
      \<longleftrightarrow> sm_source_hash_before (rs_summary r) = sm_source_hash_after (rs_summary r)"
    using assms by (auto simp: run_scan_def Let_def scan_result_verified scan_result_hashes
        split: sum.splits prod.splits)
  then show ?thesis using run_scan_hashes [OF assms] by simp
qed

text \<open>C38: A scan notices that its source changed. As long as SHA-256 keeps the byte strings hashed
  for the two looks apart (and file names have no line feed), a finished scan is FAILED exactly when
  the source at its end does not show the same files as the source at its start: the same paths,
  each with the same content, or a link, or unreadable.\<close>

theorem tampering_is_detected:
  assumes "run_scan source st (s, h) = (Inr r, (s', h'))"
    and "plain_names (shown_source source h)" and "plain_names (source_after source h')"
    and "inj_on sha256_hex (hashed (shown_source source h) \<union> hashed (source_after source h'))"
  shows "sm_status (rs_summary r) = ScanStatus.FAILED
     \<longleftrightarrow> mset (snapshot (shown_source source h)) \<noteq> mset (snapshot (source_after source h'))"
  using run_scan_hashes [OF assms(1)] integrity_hash_iff [OF assms(2-4)] by simp


section \<open>A small source\<close>

definition demo_link :: node where
  "demo_link = Link False [''etc''] (Inr 1) (Inr [])"

definition sample_tree :: node where
  "sample_tree = Dir [(''src'', Dir [(''a'', demo_link), (''b'', File (Inr 0) (Inl (Err PyOSError ''denied'')))])]"

definition sample_host :: "(nat \<Rightarrow> node \<Rightarrow> node) \<Rightarrow> host" where
  "sample_host others = \<lparr>hs_tree = sample_tree, hs_cwd = [], hs_accesses = 0, hs_others = others\<rparr>"

definition sample_source :: SourceHandle where
  "sample_source = \<lparr>sh_root = [''src''], sh_source_type = ''directory'', sh_is_temporary = False,
     sh_original_path = [''src'']\<rparr>"

definition sample_platform :: platform where
  "sample_platform = \<lparr>pf_store = empty_database, pf_clock = 0, pf_uuid = show_nat, pf_urandom = (\<lambda>_ _. []),
     pf_draws = 0, pf_kdf_calls = 0\<rparr>"

text \<open>Another process rewrites the directory right before the last look, which lists the same
  files in another order.\<close>

definition sample_reordered :: node where
  "sample_reordered = Dir [(''src'', Dir [(''b'', File (Inr 0) (Inl (Err PyOSError ''denied''))), (''a'', demo_link)])]"

definition sample_reorder :: "nat \<Rightarrow> node \<Rightarrow> node" where
  "sample_reorder n tree = (if n = 2 then sample_reordered else tree)"


lemma run_scanners_nothing: "\<exists>xs. run_scanners scanners [] base scan_id ms fs h = (Inr (xs, fs), h)"
  by (induction scanners) (auto simp: run_one_scanner_def)

lemma sample_scan:
  "\<exists>r s' h'. run_scan sample_source default_settings (sample_platform, sample_host sample_reorder) = (Inr r, (s', h'))
     \<and> hs_tree h' = sample_reordered"
proof -
  have inventory: "dv_inventory (discover_files [''src''] default_settings (tree_at sample_tree [''src''])) = []"
    by code_simp
  have base: "lookup sample_tree [''src'']
      = Some (Dir [(''a'', demo_link), (''b'', File (Inr 0) (Inl (Err PyOSError ''denied'')))])"
    by (simp add: sample_tree_def)
  obtain xs where "run_scanners get_content_scanners [] [''src''] (show_nat 0) (map_inventory []) []
      (sample_host sample_reorder\<lparr>hs_accesses := Suc (Suc 0)\<rparr>)
    = (Inr (xs, []), sample_host sample_reorder\<lparr>hs_accesses := Suc (Suc 0)\<rparr>)"
    using run_scanners_nothing by blast
  then show ?thesis
    by (simp add: run_scan_def hash_source_def discover_source_def draw_uuid_def access_def sample_host_def
        sample_source_def sample_platform_def sample_reorder_def inventory base Let_def)
qed

lemma tampering_is_detected_witness:
  "\<exists>r s' h'. run_scan sample_source default_settings (sample_platform, sample_host sample_reorder) = (Inr r, (s', h'))
     \<and> sm_status (rs_summary r) \<noteq> ScanStatus.FAILED
     \<and> shown_source sample_source (sample_host sample_reorder) \<noteq> source_after sample_source h'"
proof -
  obtain r s' h' where run: "run_scan sample_source default_settings (sample_platform, sample_host sample_reorder) = (Inr r, (s', h'))"
    and tree: "hs_tree h' = sample_reordered"
    using sample_scan by blast
  let ?s = "shown_source sample_source (sample_host sample_reorder)" and ?t = "source_after sample_source h'"
  have trees: "?s = Dir [(''a'', demo_link), (''b'', File (Inr 0) (Inl (Err PyOSError ''denied'')))]"
    "?t = Dir [(''b'', File (Inr 0) (Inl (Err PyOSError ''denied''))), (''a'', demo_link)]"
    by (simp_all add: shown_source_def source_after_def tree sample_source_def sample_host_def access_def
        sample_reorder_def sample_tree_def sample_reordered_def tree_at_def Let_def)
  have snap: "snapshot ?s = [(''a'', SeenLink), (''b'', Unreadable)]" "snapshot ?t = [(''b'', Unreadable), (''a'', SeenLink)]"
    by (simp_all add: trees snapshot_def demo_link_def is_dir_def rel_path_def join_def seen_of_def content_def)
  have "manifest ?t = manifest ?s"
    unfolding manifest_def
    by (rule arg_cong [where f = "\<lambda>ls. utf8 (join [newline] ls)"], rule sort_same_mset) (simp add: snap)
  then have "inj_on sha256_hex (hashed ?s \<union> hashed ?t)"
    by (simp add: hashed_def snap)
  moreover have "plain_names ?s" "plain_names ?t"
    by (simp_all add: plain_names_def snap newline_def)
  ultimately have "sm_status (rs_summary r) = ScanStatus.FAILED \<longleftrightarrow> mset (snapshot ?s) \<noteq> mset (snapshot ?t)"
    by (intro tampering_is_detected [OF run])
  moreover have "?s \<noteq> ?t" unfolding trees by simp
  ultimately show ?thesis using run by (auto simp: snap add_mset_commute)
qed

end
