(* ===== verification/IngestionFacts.thy ===== *)
theory IngestionFacts
  imports Ingestion
begin

text \<open>
  What accepting a source guarantees: only directories inside the configured boundary are
  scanned, and an archive can neither write outside its own extraction directory nor leave it
  behind when it is refused.
\<close>

section \<open>Paths that are written\<close>

lemma lookup_put_same: "\<not> blocked n p \<Longrightarrow> lookup (put_at p new n) (p @ q) = lookup new q"
proof (induction p new n arbitrary: q rule: put_at.induct)
  case (2 c cs new entries)
  show ?case
  proof (cases "map_of entries c")
    case None
    have "\<not> blocked (Dir []) cs" by (cases cs) simp_all
    with 2(1) [of q] show ?thesis using None by (simp add: update_conv')
  next
    case (Some m)
    with 2 show ?thesis by (simp add: update_conv')
  qed
qed simp_all

lemma lookup_put_above:
  "\<not> blocked n p \<Longrightarrow> strict_prefix q p \<Longrightarrow> \<exists>es. lookup (put_at p new n) q = Some (Dir es)"
proof (induction p new n arbitrary: q rule: put_at.induct)
  case (2 c cs new entries)
  show ?case
  proof (cases q)
    case (Cons d ds)
    then have d: "d = c" "strict_prefix ds cs" using 2(3) by auto
    have "\<not> blocked (case map_of entries c of None \<Rightarrow> Dir [] | Some m \<Rightarrow> m) cs"
      using 2(2) by (cases cs) (auto split: option.splits)
    from 2(1) [OF this d(2)] show ?thesis using Cons d(1) by (simp add: update_conv')
  qed simp
qed simp_all

lemma dir_not_blocked: "dir_at n p \<Longrightarrow> \<not> blocked n (p @ [c])"
proof (induction n p rule: lookup.induct)
  case (1 n)
  then show ?case by (cases n) (auto simp: dir_at_def split: option.splits)
next
  case (2 entries d ds)
  then show ?case by (auto simp: dir_at_def split: option.splits)
qed (simp_all add: dir_at_def)

lemma make_dirs_ok:
  assumes "make_dirs path tree = Inr tree'"
  shows "tree' = tree \<and> dir_at tree path \<or> tree' = put_at path (Dir []) tree \<and> \<not> exists_at tree path \<and> \<not> blocked tree path"
  using assms by (auto simp: make_dirs_def split: if_splits)

lemma make_dirs_dir: "make_dirs path tree = Inr tree' \<Longrightarrow> dir_at tree' path"
  using make_dirs_ok [of path tree tree'] lookup_put_same [of tree path "Dir []" "[]"]
  by (auto simp: dir_at_def)

section \<open>Names of members\<close>

lemma split_on_map:
  assumes "f a = a"
  shows "split_on a (map f s) = concat (map (\<lambda>part. split_on a (map f part)) (split_on a s))"
proof (induction s)
  case (Cons c s)
  obtain p ps where split: "split_on a s = p # ps" by (cases "split_on a s") simp_all
  show ?case
  proof (cases "c = a")
    case True
    then show ?thesis using Cons by (simp add: assms)
  next
    case False
    obtain q qs where "split_on a (map f p) = q # qs" by (cases "split_on a (map f p)") simp_all
    then show ?thesis using Cons False split by simp
  qed
qed simp

lemma parts_of_name:
  assumes "reject_unsafe_member_name name = Inr u"
  shows "\<not> startswith name [slash] \<and> ''..'' \<notin> set (path_components name)"
proof -
  let ?f = "\<lambda>c. if c = backslash then slash else c"
  have name: "\<not> startswith name [slash]" "''..'' \<notin> set (split_on slash (replace_char backslash [slash] name))"
    using assms by (auto simp: reject_unsafe_member_name_def split: if_splits)
  have "replace_char backslash [slash] name = map ?f name"
    unfolding replace_char_def by (induction name) simp_all
  then have "split_on slash (replace_char backslash [slash] name)
      = concat (map (\<lambda>part. split_on slash (map ?f part)) (split_on slash name))"
    using split_on_map [of ?f slash name] by (simp add: slash_def backslash_def)
  moreover have "split_on slash (map ?f ''..'') = [''..'']"
    by (simp add: slash_def backslash_def)
  ultimately have "''..'' \<notin> set (split_on slash name)"
    using name(2) by force
  then show ?thesis using name(1) by (simp add: path_components_def)
qed

section \<open>Extraction without links\<close>

definition link_free :: "node \<Rightarrow> string list \<Rightarrow> bool" where
  "link_free tree base = (\<forall>q. case lookup tree (base @ q) of Some (Link _ _ _ _) \<Rightarrow> False | _ \<Rightarrow> True)"

lemma link_free_step: "link_free tree base \<Longrightarrow> link_free tree (base @ [c])"
  by (simp add: link_free_def)

lemma resolve_link_free:
  "link_free tree base \<Longrightarrow> ''..'' \<notin> set cs \<Longrightarrow> resolve_from tree base cs = base @ cs"
proof (induction cs arbitrary: base)
  case (Cons c cs)
  have "case lookup tree (base @ [c]) of Some (Link _ _ _ _) \<Rightarrow> False | _ \<Rightarrow> True"
    using Cons.prems(1) by (simp add: link_free_def)
  then have "(case lookup tree (base @ [c]) of Some (Link _ target _ _) \<Rightarrow> target | _ \<Rightarrow> base @ [c]) = base @ [c]"
    by (auto split: option.splits node.splits)
  moreover have "c \<noteq> ''..''" "''..'' \<notin> set cs" using Cons.prems(2) by auto
  ultimately show ?case using Cons.IH [OF link_free_step [OF Cons.prems(1)]] by simp
qed simp


text \<open>Putting a plain file or an empty directory below the base keeps the base free of links.\<close>

definition plain :: "node \<Rightarrow> bool" where
  "plain n = (case n of File _ _ \<Rightarrow> True | Dir entries \<Rightarrow> entries = [] | Link _ _ _ _ \<Rightarrow> False)"

lemma lookup_plain: "plain n \<Longrightarrow> lookup n q = (if q = [] then Some n else None)"
  by (cases n; cases q) (auto simp: plain_def)

lemma lookup_put:
  assumes "\<not> blocked tree p" and "plain n"
  shows "lookup (put_at p n tree) q =
     (if q = p then Some n else if prefix p q then None
      else if prefix q p then Some (Dir (dir_entries (the (lookup (put_at p n tree) q))))
      else lookup tree q)"
proof (cases "prefix p q")
  case True
  then obtain r where "q = p @ r" by (auto simp: prefix_def)
  then show ?thesis using lookup_put_same [OF assms(1)] lookup_plain [OF assms(2)] by simp
next
  case False
  show ?thesis
  proof (cases "prefix q p")
    case True
    then have "strict_prefix q p" using False by auto
    then obtain es where "lookup (put_at p n tree) q = Some (Dir es)"
      using lookup_put_above [OF assms(1)] by blast
    then show ?thesis using True False by auto
  next
    case above: False
    then show ?thesis using False lookup_put_other [OF False above] by auto
  qed
qed

lemma link_free_put:
  assumes "link_free tree base" and "\<not> blocked tree p" and "plain n"
  shows "link_free (put_at p n tree) base"
  unfolding link_free_def
proof
  fix q
  show "case lookup (put_at p n tree) (base @ q) of Some (Link _ _ _ _) \<Rightarrow> False | _ \<Rightarrow> True"
    using assms by (subst lookup_put [OF assms(2,3)]) (auto simp: link_free_def plain_def split: node.splits)
qed

text \<open>What writing into the extraction directory keeps.\<close>

definition confined :: "string list \<Rightarrow> node \<Rightarrow> node \<Rightarrow> bool" where
  "confined base tree tree' =
     ((\<forall>q. \<not> prefix base q \<and> \<not> prefix q base \<longrightarrow> lookup tree' q = lookup tree q)
      \<and> (dir_at tree base \<longrightarrow> dir_at tree' base) \<and> (link_free tree base \<longrightarrow> link_free tree' base))"

lemma confined_refl [simp]: "confined base tree tree"
  by (simp add: confined_def)

lemma confined_trans: "confined base t1 t2 \<Longrightarrow> confined base t2 t3 \<Longrightarrow> confined base t1 t3"
  by (simp add: confined_def)

lemma confined_put:
  assumes "strict_prefix base p" and "\<not> blocked tree p" and "plain n"
  shows "confined base tree (put_at p n tree)"
proof -
  have "lookup (put_at p n tree) q = lookup tree q" if "\<not> prefix base q" "\<not> prefix q base" for q
  proof (rule lookup_put_other)
    have "prefix base p" using assms(1) by (rule prefix_order.less_imp_le)
    then show "\<not> prefix p q" using that(1) prefix_order.order_trans by blast
    show "\<not> prefix q p" using that \<open>prefix base p\<close> prefix_same_cases by blast
  qed
  moreover have "dir_at (put_at p n tree) base"
    using lookup_put_above [OF assms(2,1), of n] by (auto simp: dir_at_def)
  ultimately show ?thesis using link_free_put [OF _ assms(2,3)] by (simp add: confined_def)
qed

lemma confined_make_dirs:
  assumes "make_dirs p tree = Inr tree'" and "prefix base p" and "dir_at tree base"
  shows "confined base tree tree'"
proof (cases "dir_at tree p")
  case True
  then show ?thesis using assms(1) by (simp add: make_dirs_def)
next
  case False
  then have "p \<noteq> base" using assms(3) by auto
  then have "strict_prefix base p" using assms(2) by simp
  then show ?thesis
    using make_dirs_ok [OF assms(1)] False confined_put [of base p tree "Dir []"] by (auto simp: plain_def)
qed

lemma confined_parent:
  assumes made: "make_dirs (butlast target) tree = Inr tree1" and "prefix base target" and dir: "dir_at tree base"
  shows "confined base tree tree1"
proof (cases "target = base")
  case True
  then have "dir_at tree (butlast target) \<or> target = []"
    using dir by (cases target rule: rev_cases) (auto simp: dir_at_def lookup_append split: option.splits node.splits)
  then show ?thesis using made True dir by (auto simp: make_dirs_def split: if_splits)
next
  case False
  then have "prefix base (butlast target)"
    using assms(2) by (metis prefix_snoc append_butlast_last_id prefix_bot.extremum_uniqueI)
  then show ?thesis by (rule confined_make_dirs [OF made _ dir])
qed

text \<open>Writing one member.\<close>

lemma extract_member_confined:
  assumes "dir_at tree base"
  shows "confined base tree (snd (extract_member base info tree))"
proof (cases "extraction_target tree base (zi_filename info)")
  case (Inl e)
  then show ?thesis by (simp add: extract_member_def)
next
  case (Inr target)
  show ?thesis
  proof (cases "prefix base target \<and> \<not> endswith (zi_filename info) [slash]")
    case False
    then show ?thesis using Inr by (auto simp: extract_member_def)
  next
    case inside: True
    show ?thesis
    proof (cases "make_dirs (butlast target) tree")
      case (Inl e)
      then show ?thesis using \<open>extraction_target _ _ _ = _\<close> by (simp add: extract_member_def)
    next
      case made: (Inr tree1)
      have "confined base tree tree1" using confined_parent [OF made _ assms] inside by blast
      moreover have "confined base tree1 (put_at target n tree1)" if "\<not> dir_at tree1 target" "plain n" for n
      proof -
        have "target \<noteq> base" using that(1) calculation assms by (auto simp: confined_def)
        then have "target \<noteq> []" "strict_prefix base target" using inside by auto
        then have "\<not> blocked tree1 target"
          using dir_not_blocked [OF make_dirs_dir [OF made], of "last target"] by simp
        then show ?thesis using \<open>strict_prefix base target\<close> that(2) by (intro confined_put)
      qed
      ultimately show ?thesis
        using Inr inside made
        by (auto simp: extract_member_def plain_def split: sum.splits option.splits intro: confined_trans)
    qed
  qed
qed

lemma safe_extract_confined:
  "dir_at tree base \<Longrightarrow> confined base tree (snd (safe_extract base infos tree))"
proof (induction infos arbitrary: tree)
  case (Cons info infos)
  obtain r tree1 where member: "extract_member base info tree = (r, tree1)"
    by (cases "extract_member base info tree")
  then have one: "confined base tree tree1"
    using extract_member_confined [OF Cons.prems, of info] by simp
  then have "dir_at tree1 base" using Cons.prems by (simp add: confined_def)
  with Cons.IH one have "confined base tree (snd (safe_extract base infos tree1))"
    by (blast intro: confined_trans)
  with one show ?case by (cases r) (simp_all add: member)
qed simp


section \<open>What was extracted\<close>

text \<open>The content of the file at a path, and what the members of an archive say it should be: that of
  the last member with this path.\<close>

definition file_at :: "node \<Rightarrow> string list \<Rightarrow> bytes option" where
  "file_at tree p = (case lookup tree p of Some (File _ (Inr data)) \<Rightarrow> Some data | _ \<Rightarrow> None)"

definition member_path :: "ZipInfo \<Rightarrow> string list" where
  "member_path info = path_components (zi_filename info)"

definition member_is_dir :: "ZipInfo \<Rightarrow> bool" where
  "member_is_dir info = endswith (zi_filename info) [slash]"

definition member_data :: "ZipInfo list \<Rightarrow> string list \<Rightarrow> bytes option" where
  "member_data infos p =
     (case List.find (\<lambda>i. \<not> member_is_dir i \<and> member_path i = p) (rev infos) of
        None \<Rightarrow> None | Some i \<Rightarrow> Some (projr (zi_read i)))"

lemma not_blocked_above:
  "\<not> blocked n p \<Longrightarrow> strict_prefix q p \<Longrightarrow> (case lookup n q of Some (Dir _) \<Rightarrow> True | None \<Rightarrow> True | _ \<Rightarrow> False)"
proof (induction n p arbitrary: q rule: blocked.induct)
  case (2 entries c cs)
  then show ?case by (cases q) (fastforce split: option.splits)+
qed (auto simp: strict_prefix_def)

lemma file_at_above: "\<not> blocked n p \<Longrightarrow> strict_prefix q p \<Longrightarrow> file_at n q = None"
  using not_blocked_above [of n p q] by (auto simp: file_at_def split: option.splits node.splits)

lemma lookup_below_file: "lookup n p = Some (File a b) \<Longrightarrow> q \<noteq> [] \<Longrightarrow> lookup n (p @ q) = None"
  by (cases q) (simp_all add: lookup_append)

lemma lookup_below_none: "lookup n p = None \<Longrightarrow> lookup n (p @ q) = None"
  by (simp add: lookup_append)

lemma file_at_put:
  assumes "\<not> blocked n p" and "plain new"
    and "case lookup n p of None \<Rightarrow> True | Some (File _ _) \<Rightarrow> True | _ \<Rightarrow> False"
  shows "file_at (put_at p new n) q = (if q = p then (case new of File _ (Inr data) \<Rightarrow> Some data | _ \<Rightarrow> None) else file_at n q)"
proof -
  consider "q = p" | "strict_prefix p q" | "strict_prefix q p" | "\<not> prefix p q" "\<not> prefix q p"
    by (metis prefix_order.le_less)
  then show ?thesis
  proof cases
    case 1
    then show ?thesis
      using lookup_put_same [OF assms(1), of new "[]"] by (auto simp: file_at_def split: node.splits sum.splits)
  next
    case 2
    then obtain r where r: "q = p @ r" "r \<noteq> []" by (auto simp: strict_prefix_def prefix_def)
    then have "lookup n q = None"
      using assms(3) by (auto split: option.splits node.splits simp: lookup_below_none lookup_below_file)
    then show ?thesis
      using r lookup_put_same [OF assms(1), of new r] lookup_plain [OF assms(2), of r] by (simp add: file_at_def)
  next
    case 3
    then have "q \<noteq> p" by auto
    moreover obtain es where "lookup (put_at p new n) q = Some (Dir es)"
      using lookup_put_above [OF assms(1) 3] by blast
    ultimately show ?thesis using file_at_above [OF assms(1) 3] by (simp add: file_at_def)
  next
    case 4
    then show ?thesis using lookup_put_other [of p q new n] by (auto simp: file_at_def)
  qed
qed

lemma file_at_make_dirs:
  assumes "make_dirs p tree = Inr tree'"
  shows "file_at tree' q = file_at tree q"
proof (cases "dir_at tree p")
  case True
  then show ?thesis using assms by (simp add: make_dirs_def)
next
  case False
  then have new: "tree' = put_at p (Dir []) tree" "lookup tree p = None" "\<not> blocked tree p"
    using make_dirs_ok [OF assms] by (auto simp: exists_at_def)
  then show ?thesis
    using file_at_put [of tree p "Dir []" q] by (simp add: plain_def file_at_def)
qed

lemma extract_member_content:
  assumes "extract_member base info tree = (Inr u, tree')" and "dir_at tree base" and "link_free tree base"
    and "reject_unsafe_member_name (zi_filename info) = Inr v"
  shows "file_at tree' (base @ q) =
     (if \<not> member_is_dir info \<and> member_path info = q then Some (projr (zi_read info)) else file_at tree (base @ q))
   \<and> (\<not> member_is_dir info \<longrightarrow> \<not> isl (zi_read info))"
proof (cases "member_is_dir info")
  case True
  then show ?thesis using assms(1) by (simp add: extract_member_def member_is_dir_def)
next
  case False
  let ?target = "base @ member_path info"
  have target: "extraction_target tree base (zi_filename info) = Inr ?target \<or> (\<exists>e. extraction_target tree base (zi_filename info) = Inl e)"
    using parts_of_name [OF assms(4)] resolve_link_free [OF assms(3)]
    by (simp add: extraction_target_def resolve_path_def member_path_def)
  then obtain tree1 data where made: "make_dirs (butlast ?target) tree = Inr tree1" and no_dir: "\<not> dir_at tree1 ?target"
    and data: "zi_read info = Inr data"
    and tree': "tree' = put_at ?target (File (Inr (int (length data))) (Inr data)) tree1"
    using assms(1) False
    by (auto simp: extract_member_def member_is_dir_def split: sum.splits option.splits if_splits)
  have free: "link_free tree1 base"
    using confined_parent [OF made _ assms(2)] assms(3) by (simp add: confined_def)
  have "?target \<noteq> []" using no_dir make_dirs_dir [OF made] by auto
  then have "\<not> blocked tree1 ?target"
    using dir_not_blocked [OF make_dirs_dir [OF made], of "last ?target"] by simp
  moreover have "case lookup tree1 ?target of None \<Rightarrow> True | Some (File _ _) \<Rightarrow> True | _ \<Rightarrow> False"
    using no_dir free [unfolded link_free_def, rule_format, of "member_path info"]
    by (auto simp: dir_at_def split: option.splits node.splits)
  ultimately show ?thesis
    using False data file_at_make_dirs [OF made]
    by (simp add: tree' file_at_put plain_def eq_commute)
qed

lemma find_append: "List.find P (xs @ ys) = (case List.find P xs of None \<Rightarrow> List.find P ys | Some x \<Rightarrow> Some x)"
  by (induction xs) simp_all

lemma member_data_Cons:
  "member_data (info # infos) p =
     (case member_data infos p of None \<Rightarrow> if \<not> member_is_dir info \<and> member_path info = p then Some (projr (zi_read info)) else None
      | Some d \<Rightarrow> Some d)"
  by (simp add: member_data_def find_append split: option.split)

lemma safe_extract_content:
  assumes "safe_extract base infos tree = (Inr u, tree')" and "dir_at tree base" and "link_free tree base"
    and "list_all (\<lambda>i. \<not> isl (reject_unsafe_member_name (zi_filename i))) infos"
  shows "file_at tree' (base @ q) = (case member_data infos q of None \<Rightarrow> file_at tree (base @ q) | Some d \<Rightarrow> Some d)"
  using assms
proof (induction infos arbitrary: tree)
  case Nil
  then show ?case by (simp add: member_data_def)
next
  case (Cons info infos)
  obtain tree1 where one: "extract_member base info tree = (Inr (), tree1)"
    and rest: "safe_extract base infos tree1 = (Inr u, tree')"
    using Cons.prems(1) by (auto simp: and_then_eq_Inr)
  have "confined base tree tree1"
    using extract_member_confined [OF Cons.prems(2), of info] one by simp
  then have "dir_at tree1 base" "link_free tree1 base" using Cons.prems(2,3) by (simp_all add: confined_def)
  moreover obtain v where "reject_unsafe_member_name (zi_filename info) = Inr v"
    using Cons.prems(4) by (cases "reject_unsafe_member_name (zi_filename info)") auto
  ultimately show ?case
    using Cons.IH [OF rest] Cons.prems(4) extract_member_content [OF one Cons.prems(2,3)]
    by (auto simp: member_data_Cons split: option.splits)
qed


section \<open>Accepting an archive\<close>

definition outside_same :: "string list \<Rightarrow> node \<Rightarrow> node \<Rightarrow> bool" where
  "outside_same base tree tree' =
     (\<forall>q. prefix base q \<or> prefix q base \<or> lookup tree' q = lookup tree q)"

lemma outside_trans: "outside_same b t1 t2 \<Longrightarrow> outside_same b t2 t3 \<Longrightarrow> outside_same b t1 t3"
  by (simp add: outside_same_def) metis

lemma outside_below: "outside_same (b @ c) t t' \<Longrightarrow> outside_same b t t'"
proof -
  assume "outside_same (b @ c) t t'"
  moreover have "prefix b q" if "prefix (b @ c) q" for q
    using that by (metis append_assoc prefix_def)
  moreover have "prefix b q \<or> prefix q b" if "prefix q (b @ c)" for q
    using that by (metis prefixI prefix_same_cases)
  ultimately show ?thesis unfolding outside_same_def by blast
qed

lemma outside_put: "outside_same p t (put_at p n t)"
  unfolding outside_same_def using lookup_put_other by blast

lemma outside_remove: "outside_same p t (remove_at p t)"
  unfolding outside_same_def using lookup_remove_other by blast

lemma make_extract_dir_ok:
  assumes "make_extract_dir st uuid cwd tree = Inr (d, tree')"
  obtains temp where "resolve_path tree cwd (st_scan_temp_dir st) = Inr temp"
    and "d = temp @ [''scan_'' @ uuid_hex uuid]" and "lookup tree' d = Some (Dir [])"
    and "outside_same temp tree tree'"
proof -
  obtain temp t1 where temp: "resolve_path tree cwd (st_scan_temp_dir st) = Inr temp"
    and made: "make_dirs temp tree = Inr t1" and d: "d = temp @ [''scan_'' @ uuid_hex uuid]"
    and tree': "tree' = put_at d (Dir []) t1"
    using assms by (auto simp: make_extract_dir_def rbind_Inr_iff Let_def split: if_splits)
  have "\<not> blocked t1 d" unfolding d by (rule dir_not_blocked [OF make_dirs_dir [OF made]])
  then have "lookup tree' d = Some (Dir [])"
    using lookup_put_same [of t1 d "Dir []" "[]"] by (simp add: tree')
  moreover have "outside_same temp tree t1"
    using make_dirs_ok [OF made] outside_put by (auto simp: outside_same_def)
  moreover have "outside_same temp t1 tree'"
    unfolding tree' d by (rule outside_below [OF outside_put])
  ultimately show thesis using that temp d outside_trans by blast
qed

lemma extract_archive_confined:
  assumes "dir_at tree d"
  shows "confined d tree (snd (extract_archive zips st data d tree))"
  using safe_extract_confined [OF assms]
  by (auto simp: extract_archive_def split: sum.splits)

lemma validate_members_safe:
  "validate_members st n infos = Inr total_bytes \<Longrightarrow>
     list_all (\<lambda>i. \<not> isl (reject_unsafe_member_name (zi_filename i))) infos
     \<and> total_bytes = n + sum_list (map zi_file_size infos)"
proof (induction infos arbitrary: n)
  case (Cons info infos)
  then obtain u where one: "validate_member st info = Inr u"
    and rest: "validate_members st (n + zi_file_size info) infos = Inr total_bytes"
    by (auto simp: rbind_Inr_iff)
  have "\<not> isl (reject_unsafe_member_name (zi_filename info))"
    using one by (cases "reject_unsafe_member_name (zi_filename info)") (simp_all add: validate_member_def)
  with Cons.IH [OF rest] show ?case by simp
qed simp

definition within_limits :: "Settings \<Rightarrow> ZipInfo list \<Rightarrow> bool" where
  "within_limits st infos =
     (int (length infos) \<le> st_max_archive_entry_count st
      \<and> sum_list (map zi_file_size infos) \<le> st_max_archive_uncompressed_bytes st)"

lemma extract_archive_content:
  assumes "extract_archive zips st data d tree = (Inr u, tree')" and "lookup tree d = Some (Dir [])"
  obtains bs infos where "data = Inr bs" and "zips bs = Some (Inr infos)" and "within_limits st infos"
    and "\<And>q. file_at tree' (d @ q) = member_data infos q" and "link_free tree' d"
proof -
  obtain bs infos where read: "data = Inr bs" "zips bs = Some (Inr infos)"
    and valid: "validate_archive_members st infos = Inr ()"
    and written: "safe_extract d infos tree = (Inr (), tree')"
    using assms(1) by (auto simp: extract_archive_def rbind_Inr_iff split: sum.splits option.splits)
  obtain n where members: "validate_members st 0 infos = Inr n" and n: "n \<le> st_max_archive_uncompressed_bytes st"
    and entries: "int (length infos) \<le> st_max_archive_entry_count st"
    using valid by (auto simp: validate_archive_members_def rbind_Inr_iff split: if_splits)
  have dir: "dir_at tree d" using assms(2) by (simp add: dir_at_def)
  have empty: "lookup tree (d @ q) = (if q = [] then Some (Dir []) else None)" for q
    using assms(2) by (cases q) (simp_all add: lookup_append)
  then have free: "link_free tree d" by (simp add: link_free_def)
  have "file_at tree' (d @ q) = member_data infos q" for q
    using safe_extract_content [OF written dir free] validate_members_safe [OF members] empty [of q]
    by (auto simp: file_at_def split: option.splits)
  moreover have "link_free tree' d"
    using safe_extract_confined [OF dir, of infos] written free by (simp add: confined_def)
  ultimately show thesis
    using that read validate_members_safe [OF members] n entries by (simp add: within_limits_def)
qed


text \<open>An archive that was accepted: its own new directory, holding exactly the files that the members
  say, without links, and removed by \<open>cleanup\<close>.\<close>

definition accepted_archive ::
  "zip_library \<Rightarrow> Settings \<Rightarrow> string list \<Rightarrow> SourceHandle \<Rightarrow> host \<Rightarrow> bool" where
  "accepted_archive zips st d source h =
     (sh_root source = d \<and> sh_is_temporary source
      \<and> (\<exists>bs infos. zips bs = Some (Inr infos) \<and> within_limits st infos
           \<and> (\<forall>q. file_at (hs_tree h) (d @ q) = member_data infos q))
      \<and> link_free (hs_tree h) d
      \<and> \<not> exists_at (hs_tree (source_cleanup source h)) d)"

lemma removed: "p \<noteq> [] \<Longrightarrow> \<not> exists_at (remove_at p t) p"
  using lookup_remove_same [of p t "[]"] by (simp add: exists_at_def)

lemma cleanup_removes:
  assumes "quiet h" and "sh_is_temporary source" and "sh_root source \<noteq> []"
  shows "\<not> exists_at (hs_tree (source_cleanup source h)) (sh_root source)"
  using assms by (simp add: source_cleanup_def access_quiet removed)

lemma extraction_outcome:
  assumes quiet: "quiet h" and "sh_is_temporary source" and "sh_root source = d"
    and dir: "make_extract_dir st uuid cwd (hs_tree h) = Inr (d, t1)"
    and temp: "resolve_path (hs_tree h) cwd (st_scan_temp_dir st) = Inr temp"
    and run: "extract_archive zips st data d t1 = (r, t2)"
  shows "d = temp @ [''scan_'' @ uuid_hex uuid]"
    and "isl r \<Longrightarrow> outside_same temp (hs_tree h) (remove_at d t2) \<and> \<not> exists_at (remove_at d t2) d"
    and "r = Inr u \<Longrightarrow> outside_same temp (hs_tree h) t2
        \<and> accepted_archive zips st d source (h\<lparr>hs_tree := t2\<rparr>)"
proof -
  have d: "d = temp @ [''scan_'' @ uuid_hex uuid]" and fresh: "lookup t1 d = Some (Dir [])"
    and same: "outside_same temp (hs_tree h) t1"
    using make_extract_dir_ok [OF dir] temp by auto
  then show "d = temp @ [''scan_'' @ uuid_hex uuid]" by simp
  have "dir_at t1 d" using fresh by (simp add: dir_at_def)
  then have "confined d t1 t2" using extract_archive_confined [of t1 d zips st data] run by simp
  then have "outside_same d t1 t2" by (auto simp: confined_def outside_same_def)
  then have t2: "outside_same temp (hs_tree h) t2"
    using same outside_below outside_trans unfolding d by blast
  show "outside_same temp (hs_tree h) (remove_at d t2) \<and> \<not> exists_at (remove_at d t2) d" if "isl r"
    using t2 outside_below [OF outside_remove [of d t2, unfolded d]] outside_trans d removed [of d t2] by blast
  show "outside_same temp (hs_tree h) t2 \<and> accepted_archive zips st d source (h\<lparr>hs_tree := t2\<rparr>)" if "r = Inr u"
  proof -
    have run': "extract_archive zips st data d t1 = (Inr u, t2)" using run that by simp
    obtain bs infos where "zips bs = Some (Inr infos)" "within_limits st infos"
      "\<And>q. file_at t2 (d @ q) = member_data infos q" "link_free t2 d"
      using extract_archive_content [OF run' fresh] by blast
    moreover have "\<not> exists_at (hs_tree (source_cleanup source (h\<lparr>hs_tree := t2\<rparr>))) d"
      using cleanup_removes [of "h\<lparr>hs_tree := t2\<rparr>" source] assms(1-3) d by auto
    ultimately show ?thesis using t2 assms(2,3) by (auto simp: accepted_archive_def)
  qed
qed

text \<open>C28: An archive can do no harm when it is unpacked, and what is scanned is what it holds. On an
  undisturbed host nothing outside the temporary directory changes, whatever the members are
  called; if the archive is refused, no extraction directory stays behind; if it is accepted, its
  new directory holds exactly the files of the members (the last one for each path), no links,
  at most the configured number of members and of bytes they declare, and cleaning up removes it.\<close>

theorem archive_is_contained:
  assumes "ingest_zip_archive zips path st (s, h) = (r, (s', h'))" and "quiet h"
    and "resolve_path (hs_tree h) (hs_cwd h) (st_scan_temp_dir st) = Inr temp"
  shows "let d = temp @ [''scan_'' @ uuid_hex (pf_uuid s (pf_draws s))]
     in outside_same temp (hs_tree h) (hs_tree h')
      \<and> (case r of Inl e \<Rightarrow> hs_tree h' = hs_tree h \<or> \<not> exists_at (hs_tree h') d
         | Inr source \<Rightarrow> accepted_archive zips st d source h')"
proof -
  have refl: "outside_same temp (hs_tree h) (hs_tree h)" by (simp add: outside_same_def)
  show ?thesis
  proof (cases "validate_path (parent_path path) st (hs_tree h) (hs_cwd h)")
    case (Inl e)
    then show ?thesis
      using assms(1,2) refl by (auto simp: ingest_zip_archive_def validate_scan_path_def access_quiet Let_def)
  next
    case (Inr directory)
    let ?name = "path_name path" and ?h = "h\<lparr>hs_accesses := Suc (Suc (hs_accesses h))\<rparr>"
    let ?archive = "directory @ (if ?name = [] then [] else [?name])"
    let ?u = "pf_uuid s (pf_draws s)"
    show ?thesis
    proof (cases "isl (check_archive_file zips (hs_tree h) ?archive ?name)
        \<or> isl (make_extract_dir st ?u (hs_cwd h) (hs_tree h))")
      case True
      then show ?thesis
        using assms(1,2) refl Inr
        by (auto simp: ingest_zip_archive_def validate_scan_path_def access_quiet draw_uuid_def Let_def
            split: sum.splits)
    next
      case False
      then obtain v d t1 where checked: "check_archive_file zips (hs_tree h) ?archive ?name = Inr v"
        and dir: "make_extract_dir st ?u (hs_cwd h) (hs_tree h) = Inr (d, t1)"
        by (metis isl_def obj_sumE surj_pair)
      obtain q t2 where run: "extract_archive zips st (read_at t1 ?archive) d t1 = (q, t2)"
        by fastforce
      let ?source = "\<lparr>sh_root = d, sh_source_type = ''archive'', sh_is_temporary = True, sh_original_path = ?archive\<rparr>"
      have result: "(r, h') = (case q of Inl e \<Rightarrow> (Inl (failed_extraction e), ?h\<lparr>hs_tree := remove_at d t2\<rparr>)
          | Inr _ \<Rightarrow> (Inr ?source, ?h\<lparr>hs_tree := t2\<rparr>))"
        using assms(1,2) Inr checked dir run
        by (auto simp: ingest_zip_archive_def validate_scan_path_def access_quiet draw_uuid_def Let_def
            split: sum.splits)
      note outcome = extraction_outcome [of ?h ?source d st ?u "hs_cwd h" t1 temp zips "read_at t1 ?archive" q t2]
      show ?thesis
        using result outcome assms(2,3) dir run by (cases q) (auto simp: Let_def)
    qed
  qed
qed

end
