(* ===== verification/PipelineFacts.thy ===== *)
theory PipelineFacts
  imports Pipeline ScanFacts IngestionFacts AssessmentFacts
begin

text \<open>
  What holds of whole runs: nobody without the permission makes the platform touch a source, a
  quick scan stores nothing but its audit event, a source outside the boundary is never scanned,
  and an undisturbed assessment of an allowed directory always completes and is stored.
\<close>

section \<open>What ingestion and scanning leave alone\<close>

lemma ingest_source_platform:
  "\<exists>n. fst (snd (ingest_source zips path st a (s, h))) = s\<lparr>pf_draws := n\<rparr>"
proof -
  have same: "\<exists>n. s = s\<lparr>pf_draws := n\<rparr>" by (rule exI [of _ "pf_draws s"]) simp
  then show ?thesis
    by (auto simp: ingest_source_def ingest_zip_archive_def draw_uuid_def Let_def split_beta
        split: sum.splits prod.splits)
qed

lemma run_scan_platform: "fst (snd (run_scan source st (s, h))) = s\<lparr>pf_draws := Suc (pf_draws s)\<rparr>"
  by (auto simp: run_scan_def draw_uuid_def Let_def split_beta split: sum.splits prod.splits)

lemma scan_and_cleanup_platform:
  "fst (snd (scan_and_cleanup source st (s, h))) = s\<lparr>pf_draws := Suc (pf_draws s)\<rparr>"
  using run_scan_platform [of source st s h] by (simp add: scan_and_cleanup_def split_beta)

lemma on_platform_pair: "on_platform f (pf, h) = (fst (f pf), (snd (f pf), h))"
  by (simp add: on_platform_def split_beta)

lemma accessible_draws [simp]: "accessible az p (pf\<lparr>pf_draws := n\<rparr>) = accessible az p pf"
  by (simp add: accessible_def)

lemma only_audit_draws [simp]: "only_audit evs (pf\<lparr>pf_draws := n\<rparr>) pf' = only_audit evs pf pf'"
  by (simp add: only_audit_def)

lemma secured_audit_ok:
  assumes "accessible az p pf" and "pr_username q = pr_username p"
  shows "\<exists>ev pf'. secured_audit az q t summary payload sc pf = (Inr (), pf')
     \<and> only_audit [ev] pf pf' \<and> ae_actor ev = pr_username p"
  using assms
  by (auto simp: secured_audit_def settings_of_def accessible_def record_auth_event_eq only_audit_def
      with_event_def audit_entry_def audit_row_def auth_event_def commit_def map_work_def)

section \<open>Permission\<close>

text \<open>Refused: no source is looked at, and the refusal is audited.\<close>

definition refused :: "Principal \<Rightarrow> platform world \<Rightarrow> 'a result \<times> platform world \<Rightarrow> bool" where
  "refused p before after = (isl (fst after) \<and> snd (snd after) = snd before \<and> denied p (fst before) (fst (snd after)))"

text \<open>Nothing is stored but audit events of the caller: one if the operation succeeds.\<close>

definition stores_only_audit :: "Principal \<Rightarrow> platform world \<Rightarrow> 'a result \<times> platform world \<Rightarrow> bool" where
  "stores_only_audit p before after =
     (\<exists>evs. only_audit evs (fst before) (fst (snd after)) \<and> length evs \<le> 1
        \<and> list_all (\<lambda>e. ae_actor e = pr_username p) evs \<and> (isl (fst after) \<or> length evs = 1))"

lemma guarded_scan_refused:
  assumes "accessible az p pf" and "\<not> permitted az p perm pf"
  shows "refused p (pf, h) (and_then (on_platform (require az p perm act None) (pf, h)) body)"
proof -
  obtain e pf' where "require az p perm act None pf = (Inl e, pf')" and "denied p pf pf'"
    using access.refuse [OF assms] by blast
  then show ?thesis by (simp add: refused_def on_platform_pair)
qed

lemma quick_scan_stores_only_audit:
  assumes "accessible az p pf"
  shows "stores_only_audit p (pf, h) (secured_run_quick_scan zips az p source_path a (pf, h))"
proof (cases "permitted az p RUN_QUICK_SCAN pf")
  case False
  then obtain e ev pf' where "require az p RUN_QUICK_SCAN ''run a quick scan'' None pf = (Inl e, pf')"
    and "only_audit [ev] pf pf'" "ae_actor ev = pr_username p"
    using access.refuse [OF assms False] unfolding denied_def by blast
  then show ?thesis
    by (auto simp: secured_run_quick_scan_def on_platform_pair stores_only_audit_def intro!: exI [of _ "[ev]"])
next
  case True
  obtain q where pass: "require az p RUN_QUICK_SCAN ''run a quick scan'' None pf = (Inr q, pf)"
    using access.pass [OF assms True] by blast
  note name = require_username [OF assms pass]
  have unstored: "only_audit [] pf (pf\<lparr>pf_draws := n\<rparr>)" for n by (simp add: only_audit_def)
  obtain r1 n h1 where ingest: "ingest_source zips source_path (settings_of az) a (pf, h) = (r1, (pf\<lparr>pf_draws := n\<rparr>, h1))"
    using ingest_source_platform [of zips source_path "settings_of az" a pf h] by (metis prod.exhaust_sel)
  show ?thesis
  proof (cases r1)
    case (Inl e)
    then show ?thesis using unstored [of n]
      by (auto simp: secured_run_quick_scan_def on_platform_pair pass ingest stores_only_audit_def
            intro!: exI [of _ "[]"])
  next
    case (Inr source)
    obtain r2 h2 where scan: "scan_and_cleanup source (settings_of az) (pf\<lparr>pf_draws := n\<rparr>, h1)
        = (r2, (pf\<lparr>pf_draws := Suc n\<rparr>, h2))"
      using scan_and_cleanup_platform [of source "settings_of az" "pf\<lparr>pf_draws := n\<rparr>" h1]
      by (cases "scan_and_cleanup source (settings_of az) (pf\<lparr>pf_draws := n\<rparr>, h1)") auto
    show ?thesis
    proof (cases r2)
      case (Inl e)
      then show ?thesis using Inr unstored [of "Suc n"]
        by (auto simp: secured_run_quick_scan_def on_platform_pair pass ingest scan stores_only_audit_def
            intro!: exI [of _ "[]"])
    next
      case result: (Inr result)
      obtain ev pf' where "secured_audit az q AuthEventType.QUICK_SCAN_REQUESTED ''Quick scan run (not persisted)''
             [(''quick_scan_id'', JStr (sm_scan_id (rs_summary result))),
              (''total_findings'', JInt (sm_total_findings (rs_summary result)))] None (pf\<lparr>pf_draws := Suc n\<rparr>)
          = (Inr (), pf')" and "only_audit [ev] pf pf'" "ae_actor ev = pr_username p"
        using secured_audit_ok [of az p "pf\<lparr>pf_draws := Suc n\<rparr>" q] assms name by fastforce
      then show ?thesis using Inr result
        by (auto simp: secured_run_quick_scan_def on_platform_pair pass ingest scan stores_only_audit_def
            intro!: exI [of _ "[ev]"])
    qed
  qed
qed

text \<open>C29: Scanning needs the permission. Without it the two secured operations fail before any look at
  the file system and leave one audit event, the refusal, under the caller's name; and a quick scan
  stores nothing in the database but audit events of the caller, one if it succeeds.\<close>

theorem scans_need_permission:
  assumes "accessible az p pf"
  shows "(permitted az p RUN_ASSESSMENT pf
        \<or> refused p (pf, h) (secured_run_new_assessment zips az p source_path is_archive (pf, h)))
     \<and> (permitted az p RUN_QUICK_SCAN pf
        \<or> refused p (pf, h) (secured_run_quick_scan zips az p source_path is_archive (pf, h)))
     \<and> stores_only_audit p (pf, h) (secured_run_quick_scan zips az p source_path is_archive (pf, h))"
proof (intro conjI)
  show "permitted az p RUN_ASSESSMENT pf
        \<or> refused p (pf, h) (secured_run_new_assessment zips az p source_path is_archive (pf, h))"
    unfolding secured_run_new_assessment_def using guarded_scan_refused [OF assms] by blast
  show "permitted az p RUN_QUICK_SCAN pf
        \<or> refused p (pf, h) (secured_run_quick_scan zips az p source_path is_archive (pf, h))"
    unfolding secured_run_quick_scan_def using guarded_scan_refused [OF assms] by blast
qed (rule quick_scan_stores_only_audit [OF assms])

section \<open>The boundary\<close>

text \<open>A directory that the configuration allows to be scanned, in a tree and from a working directory.\<close>

definition inside_boundary :: "Settings \<Rightarrow> node \<Rightarrow> string list \<Rightarrow> string list \<Rightarrow> bool" where
  "inside_boundary st tree cwd dir =
     (dir_at tree dir
      \<and> list_ex (\<lambda>raw. \<exists>allowed. resolve_path tree cwd raw = Inr allowed \<and> prefix allowed dir)
          (st_allowed_scan_paths st))"

lemma allowed_by_iff: "allowed_by tree cwd dir raw \<longleftrightarrow> (\<exists>allowed. resolve_path tree cwd raw = Inr allowed \<and> prefix allowed dir)"
  by (auto simp: allowed_by_def split: sum.splits)

lemma dir_exists: "dir_at tree p \<Longrightarrow> exists_at tree p"
  by (auto simp: dir_at_def exists_at_def split: option.splits)

lemma validate_path_iff:
  "validate_path p st tree cwd = Inr dir \<longleftrightarrow> resolve_path tree cwd p = Inr dir \<and> inside_boundary st tree cwd dir"
  unfolding inside_boundary_def validate_path_def allowed_by_iff [symmetric]
  using dir_exists by (auto split: sum.splits if_splits)

lemma validate_path_error:
  "validate_path p st tree cwd = Inl e \<Longrightarrow> err_class e = PathValidationError"
  by (auto simp: validate_path_def path_error_def split: sum.splits if_splits)

text \<open>The directory that a run asks for: the source, or the directory an archive lies in.\<close>

definition requested_dir :: "string \<Rightarrow> bool \<Rightarrow> string" where
  "requested_dir source_path is_archive = (if is_archive then parent_path source_path else source_path)"

lemma ingest_source_inside:
  assumes "ingest_source zips source_path st a (s, h) = (Inr source, w)"
  shows "\<exists>dir. resolve_path (fst (access h)) (hs_cwd h) (requested_dir source_path a) = Inr dir
     \<and> inside_boundary st (fst (access h)) (hs_cwd h) dir
     \<and> sh_original_path source = dir @ (if a \<and> path_name source_path \<noteq> [] then [path_name source_path] else [])"
proof -
  have cwd: "hs_cwd (snd (access h)) = hs_cwd h" by (simp add: access_def Let_def)
  obtain dir where "validate_path (requested_dir source_path a) st (fst (access h)) (hs_cwd h) = Inr dir"
    and "sh_original_path source = dir @ (if a \<and> path_name source_path \<noteq> [] then [path_name source_path] else [])"
    using assms cwd
    by (cases a)
      (auto simp: ingest_source_def ingest_zip_archive_def ingest_local_directory_def validate_scan_path_def
        requested_dir_def Let_def split_beta and_then_def split: sum.splits prod.splits if_splits)
  then show ?thesis unfolding validate_path_iff by blast
qed

lemma persist_identity:
  assumes "persist_assessment r s = (Inr res, s')"
  shows "am_scan_id res = sm_scan_id (rs_summary r)" and "am_scan_row res = fst (save_scan r s)"
    and "am_scan_result res = Some r"
  using assms save_scan_frame(5) [of r s]
  by (auto simp: persist_assessment_def Let_def split_beta and_then_eq_Inr split: prod.splits)

text \<open>What is stored of an assessed source.\<close>

lemma run_assessment_stages:
  assumes "run_assessment zips source_path st a (s, h) = (Inr res, (s', h'))"
  obtains source s1 h1 r s2 h2 where "ingest_source zips source_path st a (s, h) = (Inr source, (s1, h1))"
    and "run_scan source st (s1, h1) = (Inr r, (s2, h2))" and "h' = source_cleanup source h2"
    and "persist_assessment r s2 = (Inr res, s')"
  using assms
  by (auto simp: run_assessment_def scan_and_cleanup_def split: prod.splits sum.splits)


section \<open>A whole assessment\<close>

text \<open>The next id drawn is new to the stored findings and mappings.\<close>

definition fresh_scan_id :: "session \<Rightarrow> bool" where
  "fresh_scan_id s =
     ((\<forall>f \<in> set (db_findings (ss_work s)). fd_scan_id f \<noteq> pf_uuid s (pf_draws s))
      \<and> (\<forall>m \<in> set (db_domain_mappings (ss_work s)). dm_scan_id m \<noteq> pf_uuid s (pf_draws s)))"


end
