(* ===== verification/DemoScan.thy ===== *)
theory DemoScan
  imports Demo PipelineFacts
begin

text \<open>Concrete runs of scans and assessments on a small host.\<close>

section \<open>A directory\<close>

lemma scans_need_permission_witness:
  "accessible demo_authorizer (demo_principal ''emil'' Role.MANAGER) demo_platform
   \<and> stores_only_audit (demo_principal ''emil'' Role.MANAGER) (demo_platform, sample_host (\<lambda>_ t. t))
       (secured_run_quick_scan (\<lambda>_. None) demo_authorizer (demo_principal ''emil'' Role.MANAGER) ''/src'' False
          (demo_platform, sample_host (\<lambda>_ t. t)))"
  using scans_need_permission [OF demo_accessible [of Role.MANAGER], of "sample_host (\<lambda>_ t. t)" "\<lambda>_. None" "''/src''" False]
    demo_accessible [of Role.MANAGER] by blast

definition sample_settings :: Settings where
  "sample_settings = default_settings\<lparr>st_allowed_scan_paths := [''/src''], st_scan_temp_dir := ''/tmp''\<rparr>"


section \<open>An archive\<close>

definition sample_member :: ZipInfo where
  "sample_member = \<lparr>zi_filename = ''a/b.py'', zi_file_size = 1, zi_compress_size = 1, zi_external_attr = 0,
     zi_open_error = None, zi_read = Inr [7]\<rparr>"

definition sample_zips :: zip_library where
  "sample_zips bs = (if bs = [1] then Some (Inr [sample_member]) else None)"

definition archive_host :: host where
  "archive_host = \<lparr>hs_tree = Dir [(''src'', Dir [(''x.zip'', File (Inr 1) (Inr [1]))])], hs_cwd = [], hs_accesses = 0,
     hs_others = (\<lambda>_ t. t)\<rparr>"

lemma archive_is_contained_witness:
  "\<exists>source s' h'. ingest_zip_archive sample_zips ''/src/x.zip'' sample_settings (sample_platform, archive_host)
       = (Inr source, (s', h'))
     \<and> accepted_archive sample_zips sample_settings [''tmp'', ''scan_0''] source h'"
proof -
  have "\<not> isl (fst (ingest_zip_archive sample_zips ''/src/x.zip'' sample_settings (sample_platform, archive_host)))"
    by code_simp
  then obtain source s' h' where run: "ingest_zip_archive sample_zips ''/src/x.zip'' sample_settings
      (sample_platform, archive_host) = (Inr source, (s', h'))"
    by (metis (no_types, lifting) isl_def obj_sumE prod.collapse)
  have "quiet archive_host" by (simp add: quiet_def archive_host_def)
  moreover have "resolve_path (hs_tree archive_host) (hs_cwd archive_host) (st_scan_temp_dir sample_settings) = Inr [''tmp'']"
    by code_simp
  moreover have "uuid_hex (pf_uuid sample_platform (pf_draws sample_platform)) = ''0''" by code_simp
  ultimately show ?thesis using archive_is_contained [OF run] run by (simp add: Let_def)
qed

end
