(* ===== verification/UserNames.thy ===== *)
theory UserNames
  imports Authorization
begin

text \<open>
  Which user names \<^verbatim>\<open>auth/user_admin_service.py\<close> accepts: the regular expression of \<open>create_user\<close>,
  read by the backtracking matcher, against a plain description of the names.
\<close>

section \<open>A bounded repetition of one character class\<close>

text \<open>From a position, \<open>lo\<close> to \<open>hi\<close> characters of the class were consumed.\<close>

definition taken :: "(char \<Rightarrow> bool) \<Rightarrow> nat \<Rightarrow> nat \<Rightarrow> position \<Rightarrow> position \<Rightarrow> bool" where
  "taken P lo hi p q =
     (\<exists>k. lo \<le> k \<and> k \<le> hi \<and> k \<le> length (ahead p) \<and> list_all P (take k (ahead p)) \<and> q = consume k p)"

lemma taken_none:
  assumes "ahead p = [] \<or> \<not> P (hd (ahead p))"
  shows "taken P lo hi p q \<longleftrightarrow> lo = 0 \<and> q = p"
proof -
  have "k \<le> length (ahead p) \<and> list_all P (take k (ahead p)) \<and> X \<longleftrightarrow> k = 0 \<and> X" for k X
    using assms by (cases "ahead p"; cases k) auto
  then show ?thesis
    unfolding taken_def by (auto simp: consume_def split: prod.split)
qed

lemma taken_some:
  assumes "ahead p = c # s" and "P c"
  shows "taken P lo (Suc hi) p q \<longleftrightarrow> (lo = 0 \<and> q = p) \<or> taken P (lo - 1) hi (consume (Suc 0) p) q"
proof -
  have one: "ahead (consume (Suc 0) p) = s" "consume k (consume (Suc 0) p) = consume (Suc k) p" for k
    using assms(1) by (auto simp: consume_def ahead_def split: prod.splits)
  have zero: "consume 0 p = p" by (simp add: consume_def split: prod.split)
  show ?thesis
  proof
    assume "taken P lo (Suc hi) p q"
    then obtain k where k: "lo \<le> k" "k \<le> Suc hi" "k \<le> Suc (length s)" "list_all P (take k (c # s))" "q = consume k p"
      using assms(1) by (auto simp: taken_def)
    show "(lo = 0 \<and> q = p) \<or> taken P (lo - 1) hi (consume (Suc 0) p) q"
      using k zero by (cases k) (auto simp: taken_def one intro!: exI [of _ "k - 1"])
  next
    assume "(lo = 0 \<and> q = p) \<or> taken P (lo - 1) hi (consume (Suc 0) p) q"
    then show "taken P lo (Suc hi) p q"
    proof
      assume "lo = 0 \<and> q = p"
      then show ?thesis using zero by (auto simp: taken_def intro!: exI [of _ 0])
    next
      assume "taken P (lo - 1) hi (consume (Suc 0) p) q"
      then obtain k where "lo - 1 \<le> k" "k \<le> hi" "k \<le> length s" "list_all P (take k s)" "q = consume (Suc k) p"
        by (auto simp: taken_def one)
      then show ?thesis using assms by (auto simp: taken_def intro!: exI [of _ "Suc k"])
    qed
  qed
qed

lemma matches_Chr_none: "ahead p = [] \<or> \<not> P (hd (ahead p)) \<Longrightarrow> matches (Chr P) p = []"
  by (cases "ahead p") auto

lemma matches_Chr_some: "ahead p = c # s \<Longrightarrow> P c \<Longrightarrow> matches (Chr P) p = [consume (Suc 0) p]"
  by simp

lemma rounds_Chr:
  "lo \<le> hi \<Longrightarrow> q \<in> set (rounds (matches (Chr P)) greedy hi lo p) \<longleftrightarrow> taken P lo hi p q"
proof (induction hi arbitrary: lo p)
  case 0
  then show ?case by (auto simp: taken_def consume_def split: prod.split)
next
  case (Suc hi)
  show ?case
  proof (cases "ahead p = [] \<or> \<not> P (hd (ahead p))")
    case True
    have "q \<in> set (rounds (matches (Chr P)) greedy (Suc hi) lo p) \<longleftrightarrow> lo = 0 \<and> q = p"
      unfolding rounds.simps matches_Chr_none [of p P, OF True] by (cases greedy) (simp_all add: Let_def)
    then show ?thesis using taken_none [of p P, OF True] by blast
  next
    case False
    then obtain c s where c: "ahead p = c # s" "P c" by (cases "ahead p") auto
    then have "ahead (consume (Suc 0) p) \<noteq> ahead p" by (auto simp: consume_def ahead_def split: prod.splits)
    then have "q \<in> set (rounds (matches (Chr P)) greedy (Suc hi) lo p) \<longleftrightarrow>
        (lo = 0 \<and> q = p) \<or> q \<in> set (rounds (matches (Chr P)) greedy hi (lo - 1) (consume (Suc 0) p))"
      unfolding rounds.simps matches_Chr_some [where P = P, OF c] by (cases greedy) (auto simp: Let_def)
    moreover have "q \<in> set (rounds (matches (Chr P)) greedy hi (lo - 1) (consume (Suc 0) p))
        \<longleftrightarrow> taken P (lo - 1) hi (consume (Suc 0) p) q"
      using Suc.prems by (intro Suc.IH) simp
    ultimately show ?thesis unfolding taken_some [where P = P, OF c] by blast
  qed
qed

section \<open>User names\<close>

definition name_start :: "char \<Rightarrow> bool" where
  "name_start c = (is_ascii_lower c \<or> is_digit c)"

definition name_char :: "char \<Rightarrow> bool" where
  "name_char c = (name_start c \<or> c \<in> set ''._-'')"

text \<open>The description: 3 to 64 plain characters, the first a letter or a digit.\<close>

definition plain_user_name :: "string \<Rightarrow> bool" where
  "plain_user_name s = (3 \<le> length s \<and> length s \<le> 64 \<and> name_start (hd s) \<and> list_all name_char s)"

lemma username_re_eq: "username_re = cats [bos, Chr name_start, between 2 63 (Chr name_char), eos]"
  by (simp add: username_re_def name_start_def [abs_def] name_char_def [abs_def] one_of_def [abs_def] Let_def)

lemma re_match_username:
  "re_match username_re (c # s) \<noteq> None \<longleftrightarrow>
     name_start c \<and> (\<exists>k. 2 \<le> k \<and> k \<le> 63 \<and> k \<le> length s \<and> list_all name_char (take k s)
        \<and> (drop k s = [] \<or> drop k s = [newline]))"
proof -
  have "re_match username_re (c # s) \<noteq> None \<longleftrightarrow>
      (\<exists>q. q \<in> set (matches username_re ([], c # s, Map.empty)))"
    unfolding ex_in_conv by (auto simp: re_match_def match_at_def split: list.split)
  also have "\<dots> \<longleftrightarrow> name_start c \<and> (\<exists>q. taken name_char 2 63 ([c], s, Map.empty) q
      \<and> (ahead q = [] \<or> ahead q = [newline]))"
  proof (cases "name_start c")
    case True
    have "matches (Chr name_start) ([], c # s, Map.empty) = [([c], s, Map.empty)]"
      using True by (simp add: ahead_def consume_def)
    then have "q \<in> set (matches username_re ([], c # s, Map.empty)) \<longleftrightarrow>
        q \<in> set (rounds (matches (Chr name_char)) True 63 2 ([c], s, Map.empty))
          \<and> (ahead q = [] \<or> ahead q = [newline])" for q
      unfolding username_re_eq cats_def bos_def eos_def
      by (auto simp del: matches.simps(2) rounds.simps split: if_splits)
    then show ?thesis using True by (simp add: rounds_Chr)
  next
    case False
    then have "matches (Chr name_start) ([], c # s, Map.empty) = []" by (simp add: ahead_def)
    with False show ?thesis by (simp add: username_re_eq cats_def bos_def del: matches.simps(2))
  qed
  also have "(\<exists>q. taken name_char 2 63 ([c], s, Map.empty) q \<and> (ahead q = [] \<or> ahead q = [newline])) \<longleftrightarrow>
      (\<exists>k. 2 \<le> k \<and> k \<le> 63 \<and> k \<le> length s \<and> list_all name_char (take k s)
        \<and> (ahead (consume k ([c], s, Map.empty)) = [] \<or> ahead (consume k ([c], s, Map.empty)) = [newline]))"
    unfolding taken_def ahead_def fst_conv snd_conv by blast
  finally show ?thesis by (simp only: ahead_def consume_def prod.case fst_conv snd_conv)
qed

lemma plain_user_name_Cons:
  "plain_user_name (c # s) \<longleftrightarrow> name_start c \<and> 2 \<le> length s \<and> length s \<le> 63 \<and> list_all name_char s"
  by (auto simp: plain_user_name_def name_char_def)

lemma user_name_accepted:
  "(re_match username_re (normalize_username n) \<noteq> None) = plain_user_name (normalize_username n)"
proof (cases "normalize_username n")
  case Nil
  then show ?thesis
    by (simp add: plain_user_name_def re_match_def match_at_def username_re_def cats_def bos_def ahead_def Let_def)
next
  case (Cons c s)
  have "rstrip (normalize_username n) = normalize_username n"
    by (simp add: normalize_username_def strip_def flip: lower_rstrip)
  then have end_plain: "drop k s \<noteq> [newline]" for k
  proof -
    assume fixed: "rstrip (normalize_username n) = normalize_username n"
    show ?thesis
    proof
      assume "drop k s = [newline]"
      then have "normalize_username n = (c # take k s) @ [newline]"
        using Cons append_take_drop_id [of k s] by simp
      with fixed have "rstrip ((c # take k s) @ [newline]) = (c # take k s) @ [newline]" by simp
      then show False using length_dropWhile_le [of is_space "rev (take k s) @ [c]"]
        by (auto simp: rstrip_def newline_def is_space_def code_def simp del: length_dropWhile_le dest: arg_cong [of _ _ length])
    qed
  qed
  have "(\<exists>k. 2 \<le> k \<and> k \<le> 63 \<and> k \<le> length s \<and> list_all name_char (take k s) \<and> drop k s = [])
      \<longleftrightarrow> 2 \<le> length s \<and> length s \<le> 63 \<and> list_all name_char s"
    by (auto intro!: exI [of _ "length s"])
  then show ?thesis
    unfolding Cons re_match_username plain_user_name_Cons by (simp add: end_plain)
qed

text \<open>C10: The regular expression for user names means what its message says: after normalization (which
  trims and lowers the name) it matches exactly the names of 3 to 64 lower-case letters, digits, dots,
  underscores and dashes that start with a letter or digit; the line end that \<open>$\<close> would let through
  cannot occur there.\<close>

theorem accepted_user_names:
  "(re_match username_re (normalize_username n) \<noteq> None) = plain_user_name (normalize_username n)"
  by (rule user_name_accepted)

end
