(* ===== verification/Scripts.thy ===== *)
theory Scripts
  imports UserNames AccountFacts Display "HOL-Library.AList"
begin

text \<open>
  The command-line scripts that create accounts, \<^verbatim>\<open>scripts/create_admin.py\<close> and
  \<^verbatim>\<open>scripts/seed_demo_users.py\<close>: their exit code, the line they print and what they do to the
  platform. Reading arguments, files and passwords from the terminal is not part of the model: the
  lines of the file and the answers to the prompts are arguments.
\<close>

section \<open>Services\<close>

text \<open>\<open>AuthService(settings)\<close> makes its dummy hash when it is constructed.\<close>

definition new_auth :: "Settings \<Rightarrow> PasswordHasher \<Rightarrow> platform \<Rightarrow> AuthService result \<times> platform" where
  "new_auth settings hasher pf =
     (make_auth_service settings hasher (pf_urandom pf (pf_draws pf) (ph_salt_bytes hasher)),
      pf\<lparr>pf_draws := Suc (pf_draws pf), pf_kdf_calls := Suc (pf_kdf_calls pf)\<rparr>)"

section \<open>Creating an administrator\<close>

text \<open>\<open>str.upper\<close> on Latin-1: two letters have a capital outside it.\<close>

definition py_upper :: "string \<Rightarrow> string" where
  "py_upper s = concat (map (\<lambda>c.
     if code c = 0xDF then ''SS''
     else if code c = 0xFF then [CHR 0xC5, CHR 0xB8]
     else if code c = 0xB5 then [CHR 0xCE, CHR 0x9C]
     else if is_ascii_lower c \<or> 0xE0 \<le> code c \<and> code c \<noteq> 0xF7 then [char_of (code c - 32)]
     else [c]) s)"

definition strip_char :: "char \<Rightarrow> string \<Rightarrow> string" where
  "strip_char a s = rev (dropWhile (\<lambda>c. c = a) (rev (dropWhile (\<lambda>c. c = a) s)))"

definition parse_line :: "string \<Rightarrow> (string \<times> string) option" where
  "parse_line raw =
     (let line = strip raw
      in if line = [] \<or> hd line = CHR ''#'' \<or> CHR ''='' \<notin> set line then None
         else (let key = takeWhile (\<lambda>c. c \<noteq> CHR ''='') line;
                   value = drop (Suc (length key)) line
               in Some (py_upper (strip key), strip_char (CHR 0x27) (strip_char (CHR 0x22) (strip value)))))"

definition parse_credentials :: "string list \<Rightarrow> (string \<times> string) list" where
  "parse_credentials lines =
     fold (\<lambda>raw values. case parse_line raw of None \<Rightarrow> values | Some (k, v) \<Rightarrow> AList.update k v values) lines []"

definition credential :: "string \<Rightarrow> (string \<times> string) list \<Rightarrow> string" where
  "credential key values = (case map_of values key of None \<Rightarrow> [] | Some v \<Rightarrow> v)"

type_synonym exit = "nat \<times> string"

definition create_admin_account ::
  "Settings \<Rightarrow> PasswordHasher \<Rightarrow> string \<Rightarrow> string \<Rightarrow> string \<Rightarrow> platform \<Rightarrow> exit result \<times> platform" where
  "create_admin_account settings hasher username display_name password pf =
     and_then (new_auth settings hasher pf) (\<lambda>auth pf.
       (case bootstrap_user auth username (if display_name = [] then username else display_name)
               Role.ADMIN password ''system:create_admin'' pf of
          (Inl e, pf) \<Rightarrow>
            if isinstance e PlatformError
            then (Inr (1, ''Could not create administrator: '' @ err_msg e), pf) else (Inl e, pf)
        | (Inr user, pf) \<Rightarrow>
            (Inr (0, ''Administrator '' @ quoted (uv_username user)
               @ '' created. Sign in at the platform login screen.''), pf)))"

text \<open>The interactive mode; \<open>typed\<close> and \<open>repeated\<close> are the answers to the two prompts.\<close>

definition create_admin ::
  "Settings \<Rightarrow> PasswordHasher \<Rightarrow> string \<Rightarrow> string \<Rightarrow> string \<Rightarrow> string \<Rightarrow> platform \<Rightarrow> exit result \<times> platform" where
  "create_admin settings hasher username display_name typed repeated pf =
     (if typed \<noteq> repeated then (Inr (1, ''Passwords do not match. No account was created.''), pf)
      else create_admin_account settings hasher username display_name typed pf)"

definition create_admin_from_file ::
  "Settings \<Rightarrow> PasswordHasher \<Rightarrow> string list \<Rightarrow> platform \<Rightarrow> exit result \<times> platform" where
  "create_admin_from_file settings hasher lines pf =
     (let values = parse_credentials lines;
          username = credential ''ADMIN_USERNAME'' values;
          password = credential ''ADMIN_PASSWORD'' values
      in if username = [] \<or> password = []
         then (Inr (1, ''The credentials file must define ADMIN_USERNAME and ADMIN_PASSWORD.''), pf)
         else
           and_then (new_auth settings hasher pf) (\<lambda>auth pf.
           and_then (with_session (as_settings auth) (\<lambda>s. (Inr (get_by_username username (ss_work s)), s)) pf)
             (\<lambda>existing pf.
               case existing of
                 Some _ \<Rightarrow> (Inr (0, ''User '' @ quoted (lower (strip username))
                              @ '' already exists; it was not modified.''), pf)
               | None \<Rightarrow> create_admin_account settings hasher username
                           (credential ''ADMIN_DISPLAY_NAME'' values) password pf)))"

section \<open>Demo accounts\<close>

definition DEMO_USERS :: "(string \<times> string \<times> Role) list" where
  "DEMO_USERS =
     [(''demo.admin'', ''Demo Administrator'', Role.ADMIN), (''demo.manager'', ''Demo Manager'', Role.MANAGER),
      (''demo.employee'', ''Demo Employee'', Role.EMPLOYEE)]"

text \<open>\<open>secrets.token_urlsafe(n)\<close>.\<close>

definition token_urlsafe :: "nat \<Rightarrow> platform \<Rightarrow> string \<times> platform" where
  "token_urlsafe size_bytes pf =
     (map (\<lambda>c. if c = CHR ''+'' then CHR ''-'' else if c = CHR 0x2F then CHR ''_'' else c)
        (takeWhile (\<lambda>c. c \<noteq> pad) (b64encode (pf_urandom pf (pf_draws pf) size_bytes))),
      pf\<lparr>pf_draws := Suc (pf_draws pf)\<rparr>)"

primrec seed_users ::
  "AuthService \<Rightarrow> (string \<times> string \<times> Role) list \<Rightarrow> (string \<times> string) list \<Rightarrow> platform
     \<Rightarrow> (string \<times> string) list result \<times> platform" where
  "seed_users auth [] created pf = (Inr created, pf)"
| "seed_users auth (user # rest) created pf =
     (case user of (username, display_name, role) \<Rightarrow>
        and_then (with_session (as_settings auth) (\<lambda>s. (Inr (get_by_username username (ss_work s)), s)) pf)
          (\<lambda>existing pf.
            if existing \<noteq> None then seed_users auth rest created pf
            else (case token_urlsafe 15 pf of
                    (password, pf) \<Rightarrow>
                      and_then (bootstrap_user auth username display_name role password
                                  ''system:seed_demo_users'' pf)
                        (\<lambda>_ pf. seed_users auth rest (created @ [(username, password)]) pf))))"

definition seed_demo_users ::
  "Settings \<Rightarrow> PasswordHasher \<Rightarrow> platform \<Rightarrow> (string \<times> string) list result \<times> platform" where
  "seed_demo_users settings hasher pf =
     and_then (new_auth settings hasher pf) (\<lambda>auth. seed_users auth DEMO_USERS [])"

text \<open>\<open>main\<close> after parsing the flag \<open>--demo\<close>: the exit code and the lines printed.\<close>

definition credential_line :: "string \<times> string \<Rightarrow> string" where
  "credential_line entry =
     (case entry of (username, password) \<Rightarrow>
        ''  '' @ username @ replicate (15 - length username) (CHR '' '') @ '' '' @ password)"

definition seed_main ::
  "Settings \<Rightarrow> PasswordHasher \<Rightarrow> bool \<Rightarrow> platform \<Rightarrow> (nat \<times> string list) result \<times> platform" where
  "seed_main settings hasher demo pf =
     (if \<not> demo then (Inr (2, [''Refusing to create demo users without --demo.'']), pf)
      else and_then (seed_demo_users settings hasher pf) (\<lambda>created pf.
        if created = []
        then (Inr (0, [''All demo users already exist; nothing created (existing passwords were not changed).'']), pf)
        else (Inr (0,
          [''WARNING: synthetic demo accounts for local demonstration only. Deactivate them before any shared use.'']
            @ map credential_line created
            @ [''These passwords are shown once and are not stored anywhere in plain text.'']), pf)))"

section \<open>What the scripts do\<close>

definition valid_account :: "int \<Rightarrow> string \<Rightarrow> string \<Rightarrow> string \<Rightarrow> bool" where
  "valid_account min_length name display pw =
     (re_match username_re (normalize_username name) \<noteq> None \<and> strip display \<noteq> [] \<and> length (strip display) \<le> 128
      \<and> validate_new_password pw (normalize_username name) min_length = Inr ())"

lemma create_account_error:
  assumes "fst (create_account auth n dn role pw must s) = Inl e" and "scrypt_ok (as_hasher auth)"
  shows "isinstance e PlatformError
     \<and> (get_by_username n (ss_work s) = None \<longrightarrow> \<not> valid_account (st_password_min_length (as_settings auth)) n dn pw)"
proof -
  obtain enc where "hash_password (as_hasher auth) (pf_urandom s (pf_draws s) (ph_salt_bytes (as_hasher auth))) pw
      = Inr enc"
    using hash_total [OF assms(2)] by blast
  with assms(1) show ?thesis
    by (auto simp: create_account_def valid_account_def hash_in_eq validate_new_password_def and_then_eq_Inl
        isinstance_def get_by_username_def Let_def split: if_splits prod.splits)
qed

lemma created_valid:
  assumes "create_account auth n dn role pw must s = (Inr u, s')"
  shows "valid_account (st_password_min_length (as_settings auth)) n dn pw"
  using assms by (auto simp: create_account_def valid_account_def and_then_eq_Inr Let_def split: if_splits)

lemma system_actor: "strip ''system:create_admin'' \<noteq> []" "startswith ''system:create_admin'' ''system:''"
  by (simp add: strip_eq_Nil is_space_def code_def) code_simp

text \<open>The two outcomes of creating an account from the command line.\<close>

lemma bootstrap_cases:
  assumes "auth_ok auth" and "strip actor \<noteq> []" and "startswith actor ''system:''"
    and "bootstrap_user auth n dn role pw actor pf = (r, pf')"
  obtains (refused) e where "r = Inl e" and "isinstance e PlatformError" and "users_of pf' = users_of pf"
        and "get_by_username n (pf_store pf) = None
               \<Longrightarrow> \<not> valid_account (st_password_min_length (as_settings auth)) n dn pw"
    | (created) view u enc where "r = Inr view" and "users_of pf' = users_of pf @ [u]"
        and "u = new_account auth n dn role enc False (begin_session pf)"
        and "hash_password (as_hasher auth) (pf_urandom pf (pf_draws pf) (ph_salt_bytes (as_hasher auth))) pw = Inr enc"
        and "get_by_username n (pf_store pf) = None" and "uv_username view = us_username u"
        and "valid_account (st_password_min_length (as_settings auth)) n dn pw" and "pf_uuid pf' = pf_uuid pf"
        and "pf_clock pf' = pf_clock pf"
proof -
  have ok: "truthy (st_database_url (as_settings auth))" and kdf: "scrypt_ok (as_hasher auth)"
    using assms(1) by (simp_all add: auth_ok_def)
  obtain made s where make: "create_account auth n dn role pw False (begin_session pf) = (made, s)"
    by (cases "create_account auth n dn role pw False (begin_session pf)")
  show ?thesis
  proof (cases made)
    case (Inl e)
    with make assms(3,4) ok create_account_Inl(1) [of auth n dn role pw False "begin_session pf" e]
      create_account_error [of auth n dn role pw False "begin_session pf" e] kdf
    show ?thesis by (intro refused) (auto simp: bootstrap_user_def)
  next
    case (Inr u)
    with make have inr: "create_account auth n dn role pw False (begin_session pf) = (Inr u, s)" by simp
    from create_account_Inr [OF this] obtain enc where
      enc: "hash_password (as_hasher auth) (pf_urandom pf (pf_draws pf) (ph_salt_bytes (as_hasher auth))) pw = Inr enc"
      and u: "u = new_account auth n dn role enc False (begin_session pf)"
      and absent: "get_by_username n (pf_store pf) = None"
      and s: "db_users (ss_work s) = users_of pf @ [u]" "pf_uuid s = pf_uuid pf" "pf_clock s = pf_clock pf"
      by auto
    have "us_role u \<in> range Role_value" by (simp add: u new_account_def del: Role_value.simps)
    then obtain view where view: "user_view u (pf_clock s) = Inr view" "uv_username view = us_username u"
      by (auto simp: user_view_def rbind_Inr_iff)
    with inr assms(2-4) ok s have "r = Inr view" "users_of pf' = users_of pf @ [u]" "pf_uuid pf' = pf_uuid pf" "pf_clock pf' = pf_clock pf"
      by (auto simp: bootstrap_user_def record_auth_event_eq)
    with enc u created_valid [OF inr] absent view(2) show ?thesis by (intro created)
  qed
qed

lemma new_auth_ok:
  assumes "truthy (st_database_url st)" and "scrypt_ok h"
  obtains auth where "new_auth st h pf = (Inr auth, pf\<lparr>pf_draws := Suc (pf_draws pf), pf_kdf_calls := Suc (pf_kdf_calls pf)\<rparr>)"
    and "auth_ok auth" and "as_settings auth = st" and "as_hasher auth = h"
proof -
  let ?salt = "pf_urandom pf (pf_draws pf) (ph_salt_bytes h)"
  obtain d where "hash_password h ?salt ''timing-equalization-placeholder'' = Inr d" using hash_total [OF assms(2)] by blast
  then have make: "make_auth_service st h ?salt = Inr \<lparr>as_settings = st, as_hasher = h, as_dummy_hash = d\<rparr>"
    by (simp add: make_auth_service_def)
  then have "new_auth st h pf = (Inr \<lparr>as_settings = st, as_hasher = h, as_dummy_hash = d\<rparr>,
      pf\<lparr>pf_draws := Suc (pf_draws pf), pf_kdf_calls := Suc (pf_kdf_calls pf)\<rparr>)"
    by (simp add: new_auth_def)
  from this make_auth_service_ok [OF make assms] show ?thesis by (rule that) simp_all
qed

lemma wf_accounts_drawn [simp]:
  "wf_accounts pf \<Longrightarrow> wf_accounts (pf\<lparr>pf_draws := Suc (pf_draws pf), pf_kdf_calls := n\<rparr>)"
  by (simp add: wf_accounts_def fresh_ids_def)

text \<open>A sign-in as an administrator, with a service made for it.\<close>

definition admin_signs_in :: "Settings \<Rightarrow> PasswordHasher \<Rightarrow> string \<Rightarrow> string \<Rightarrow> platform \<Rightarrow> bool" where
  "admin_signs_in st h name pw pf =
     (case new_auth st h pf of
        (Inl e, pf') \<Rightarrow> False
      | (Inr auth, pf') \<Rightarrow>
          (case fst (login auth name pw pf') of
             Inl e \<Rightarrow> False
           | Inr p \<Rightarrow> pr_role p = Role.ADMIN \<and> \<not> pr_must_change_password p))"

lemma created_admin_signs_in:
  assumes "truthy (st_database_url st)" and "scrypt_ok h" and "wf_users (users_of pf)"
    and "get_by_username name (pf_store pf) = Some u" and "us_role u = Role_value Role.ADMIN"
    and "us_is_active u" and "us_locked_until u = None" and "\<not> us_must_change_password u"
    and "hash_password h salt pw = Inr (us_password_hash u)"
  shows "admin_signs_in st h name pw pf"
proof -
  obtain auth where auth: "new_auth st h pf = (Inr auth, pf\<lparr>pf_draws := Suc (pf_draws pf), pf_kdf_calls := Suc (pf_kdf_calls pf)\<rparr>)"
    "auth_ok auth" "as_hasher auth = h"
    using new_auth_ok [OF assms(1,2)] by metis
  have "password_matches h pw (us_password_hash u)"
    using verify_hash [OF assms(2,9), of pw] by (simp add: password_matches_def)
  moreover have "\<not> is_locked_at u t" for t using assms(7) by (simp add: is_locked_at_def as_utc_def)
  ultimately have "fst (login auth name pw (pf\<lparr>pf_draws := Suc (pf_draws pf), pf_kdf_calls := Suc (pf_kdf_calls pf)\<rparr>))
      = principal_for (login_user h pw (pf_clock pf) u) (Aware (pf_clock pf)) None"
    using auth(2,3) assms(3-6) by (simp add: login_result login_spec_def may_sign_in_def now_def Let_def)
  moreover have "enum_of Role_members Role_value (Role_value Role.ADMIN) = Inr Role.ADMIN" by code_simp
  ultimately show ?thesis
    using auth(1) assms(5,8) by (auto simp: admin_signs_in_def principal_for_def simp del: Role_value.simps)
qed

lemma create_admin_account_outcome:
  assumes "truthy (st_database_url st)" and "scrypt_ok h" and "wf_accounts pf"
    and "create_admin_account st h name dn pw pf = (r, pf')"
  obtains (refused) msg where "r = Inr (1, msg)" and "users_of pf' = users_of pf"
        and "get_by_username name (pf_store pf) = None
               \<Longrightarrow> \<not> valid_account (st_password_min_length st) name (if dn = [] then name else dn) pw"
    | (created) msg u where "r = Inr (0, msg)" and "users_of pf' = users_of pf @ [u]" and "is_active_admin u"
        and "get_by_username name (pf_store pf') = Some u" and "admin_signs_in st h name pw pf'"
        and "valid_account (st_password_min_length st) name (if dn = [] then name else dn) pw"
proof -
  let ?pf = "pf\<lparr>pf_draws := Suc (pf_draws pf), pf_kdf_calls := Suc (pf_kdf_calls pf)\<rparr>"
  obtain auth where auth: "new_auth st h pf = (Inr auth, ?pf)" "auth_ok auth" "as_settings auth = st" "as_hasher auth = h"
    using new_auth_ok [OF assms(1,2)] by metis
  let ?dn = "if dn = [] then name else dn"
  obtain made pf1 where run: "bootstrap_user auth name ?dn Role.ADMIN pw ''system:create_admin'' ?pf = (made, pf1)"
    by (cases "bootstrap_user auth name ?dn Role.ADMIN pw ''system:create_admin'' ?pf")
  from auth(2) system_actor run show ?thesis
  proof (cases rule: bootstrap_cases)
    case (refused e)
    with run assms(4) auth show ?thesis
      by (intro that(1)) (auto simp: create_admin_account_def)
  next
    case (created view u enc)
    have drawn: "wf_accounts ?pf" using assms(3) by simp
    have "wf_accounts pf1"
      using account_step_wf [OF bootstrap_user_account_step [OF drawn] drawn, of auth name ?dn Role.ADMIN pw
          "''system:create_admin''"] run by simp
    then have wf: "wf_users (users_of pf1)" by (simp add: wf_accounts_def)
    have fields: "us_username u = normalize_username name" "us_role u = Role_value Role.ADMIN" "us_is_active u"
      "us_locked_until u = None" "\<not> us_must_change_password u" "us_password_hash u = enc"
      by (simp_all add: created(3) new_account_def)
    have row: "get_by_username name (pf_store pf1) = Some u"
      using created(2,5) fields(1) by (simp add: get_by_username_def get_row_append) (simp add: get_row_def)
    then have "admin_signs_in st h name pw pf1"
      using created(4) fields auth(4) by (intro created_admin_signs_in [OF assms(1,2) wf]) auto
    moreover have "is_active_admin u" using fields by (simp add: is_active_admin_def)
    ultimately show ?thesis
      using run assms(4) auth(1,3) created(1,2,7) row by (intro that(2)) (auto simp: create_admin_account_def)
  qed
qed

definition credentials :: "string list \<Rightarrow> string \<times> string \<times> string" where
  "credentials lines =
     (let values = parse_credentials lines;
          name = credential ''ADMIN_USERNAME'' values; display = credential ''ADMIN_DISPLAY_NAME'' values
      in (name, if display = [] then name else display, credential ''ADMIN_PASSWORD'' values))"

lemma file_existing:
  assumes "truthy (st_database_url st)" and "scrypt_ok h" and "credentials lines = (name, display, pw)"
    and "name \<noteq> []" and "pw \<noteq> []" and "get_by_username name (pf_store pf) = Some u"
  shows "users_of (snd (create_admin_from_file st h lines pf)) = users_of pf
     \<and> (\<exists>msg. fst (create_admin_from_file st h lines pf) = Inr (0, msg))"
proof -
  obtain auth where auth: "new_auth st h pf = (Inr auth, pf\<lparr>pf_draws := Suc (pf_draws pf), pf_kdf_calls := Suc (pf_kdf_calls pf)\<rparr>)"
    "as_settings auth = st"
    using new_auth_ok [OF assms(1,2)] by metis
  with assms show ?thesis by (simp add: create_admin_from_file_def credentials_def Let_def)
qed

text \<open>C31: The command line makes the first administrator, and running it again is harmless. With a
  database configured, \<open>create_admin --credentials-file\<close> never fails with an exception. It exits with 1
  and leaves every account as it is when the file lacks the name or the password, or when they (or the
  display name) break the rules for accounts; it exits with 0 and leaves every account as it is when
  the name exists; otherwise it exits with 0 having added exactly one account, an active administrator
  of the name in the file, who can sign in at once with the password in the file, without having to
  change it; and a second run with the same file then changes no account.\<close>

theorem administrator_from_command_line:
  assumes "truthy (st_database_url st)" and "scrypt_ok h" and "wf_accounts pf"
    and "credentials lines = (name, display, pw)" and "create_admin_from_file st h lines pf = (r, pf')"
  shows "if name = [] \<or> pw = []
           \<or> get_by_username name (pf_store pf) = None \<and> \<not> valid_account (st_password_min_length st) name display pw
         then (\<exists>msg. r = Inr (1, msg)) \<and> users_of pf' = users_of pf
         else if get_by_username name (pf_store pf) \<noteq> None
         then (\<exists>msg. r = Inr (0, msg)) \<and> users_of pf' = users_of pf
         else (\<exists>msg u. r = Inr (0, msg) \<and> users_of pf' = users_of pf @ [u] \<and> is_active_admin u
                 \<and> get_by_username name (pf_store pf') = Some u \<and> admin_signs_in st h name pw pf'
                 \<and> users_of (snd (create_admin_from_file st h lines pf')) = users_of pf')"
proof (cases "name = [] \<or> pw = []")
  case True
  with assms(4,5) show ?thesis by (auto simp: create_admin_from_file_def credentials_def Let_def)
next
  case False
  let ?pf = "pf\<lparr>pf_draws := Suc (pf_draws pf), pf_kdf_calls := Suc (pf_kdf_calls pf)\<rparr>"
  show ?thesis
  proof (cases "get_by_username name (pf_store pf)")
    case (Some u)
    with False file_existing [OF assms(1,2,4) _ _ Some] assms(5)
    obtain msg where "r = Inr (0, msg)" and "users_of pf' = users_of pf" by auto
    with Some False show ?thesis by simp
  next
    case None
    obtain auth where auth: "new_auth st h pf = (Inr auth, ?pf)" "as_settings auth = st"
      using new_auth_ok [OF assms(1,2)] by metis
    have wf: "wf_accounts ?pf" using assms(3) by simp
    let ?dn = "credential ''ADMIN_DISPLAY_NAME'' (parse_credentials lines)"
    have display: "display = (if ?dn = [] then name else ?dn)"
      using assms(4) by (auto simp: credentials_def Let_def)
    have run: "create_admin_account st h name (credential ''ADMIN_DISPLAY_NAME'' (parse_credentials lines)) pw ?pf = (r, pf')"
      using assms(5) False None auth assms(1) assms(4)
      by (simp add: create_admin_from_file_def credentials_def Let_def)
    from assms(1,2) wf run show ?thesis
    proof (cases rule: create_admin_account_outcome)
      case (refused msg)
      with None display show ?thesis by simp
    next
      case (created msg u)
      from False file_existing [OF assms(1,2,4) _ _ created(4)]
      have again: "users_of (snd (create_admin_from_file st h lines pf')) = users_of pf'" by blast
      with created None False display show ?thesis by auto
    qed
  qed
qed

end
