(* ===== verification/TextFormats.thy ===== *)
theory TextFormats
  imports Display PasswordHash
begin

text \<open>The two text formats of the exports: JSON as \<open>json.dumps\<close> prints it, and CSV with a reader of it.\<close>

section \<open>JSON\<close>

text \<open>
  \<open>json.dumps(value, indent=2)\<close>: objects and lists over several lines, everything that is not printable
  ASCII as an escape. A character beyond Latin-1 is three or four UTF-8 bytes in the model (as in
  \<open>em_dash\<close>); it is escaped as the one character it stands for.
\<close>

definition u_escape :: "nat \<Rightarrow> string" where
  "u_escape n = [CHR 0x5C, CHR ''u''] @ map (\<lambda>i. hex_digit (n div 16 ^ (3 - i))) [0..<4]"

definition json_point :: "nat \<Rightarrow> string" where
  "json_point n =
     (if n = 0x22 \<or> n = 0x5C then [CHR 0x5C, char_of n]
      else if n = 0x0A then [CHR 0x5C, CHR ''n'']
      else if n = 0x0D then [CHR 0x5C, CHR ''r'']
      else if n = 0x09 then [CHR 0x5C, CHR ''t'']
      else if n = 0x08 then [CHR 0x5C, CHR ''b'']
      else if n = 0x0C then [CHR 0x5C, CHR ''f'']
      else if 32 \<le> n \<and> n \<le> 126 then [char_of n]
      else if n < 0x10000 then u_escape n
      else u_escape (0xD800 + (n - 0x10000) div 0x400) @ u_escape (0xDC00 + (n - 0x10000) mod 0x400))"

text \<open>The character at the start of a text and how many model characters it takes.\<close>

definition trailing :: "nat \<Rightarrow> bool" where
  "trailing n = (128 \<le> n \<and> n < 192)"

definition head_point :: "string \<Rightarrow> nat \<times> nat" where
  "head_point s =
     (case map code s of
        a # b # c # rest \<Rightarrow>
          if 224 \<le> a \<and> a < 240 \<and> trailing b \<and> trailing c \<and> (a = 224 \<longrightarrow> 160 \<le> b)
          then ((a - 224) * 4096 + (b - 128) * 64 + (c - 128), 3)
          else (case rest of
                  d # _ \<Rightarrow>
                    if 240 \<le> a \<and> a < 245 \<and> trailing b \<and> trailing c \<and> trailing d
                       \<and> (a = 240 \<longrightarrow> 144 \<le> b) \<and> (a = 244 \<longrightarrow> b < 144)
                    then ((a - 240) * 262144 + (b - 128) * 4096 + (c - 128) * 64 + (d - 128), 4)
                    else (a, 1)
                | [] \<Rightarrow> (a, 1))
      | a # _ \<Rightarrow> (a, 1)
      | [] \<Rightarrow> (0, 1))"

fun json_chars :: "nat \<Rightarrow> string \<Rightarrow> string" where
  "json_chars skip [] = []"
| "json_chars (Suc k) (c # s) = json_chars k s"
| "json_chars 0 (c # s) =
     (let (n, taken) = head_point (c # s) in json_point n @ json_chars (taken - 1) s)"

definition json_string :: "string \<Rightarrow> string" where
  "json_string s = [CHR 0x22] @ json_chars 0 s @ [CHR 0x22]"

text \<open>A line end and the indentation of a depth.\<close>

definition json_line :: "nat \<Rightarrow> string" where
  "json_line depth = newline # replicate (2 * depth) (CHR '' '')"

definition json_block :: "char \<Rightarrow> char \<Rightarrow> nat \<Rightarrow> string list \<Rightarrow> string" where
  "json_block opening closing depth items =
     (if items = [] then [opening, closing]
      else [opening] @ json_line (Suc depth) @ join ('','' @ json_line (Suc depth)) items
        @ json_line depth @ [closing])"

primrec dump :: "json \<Rightarrow> nat \<Rightarrow> string" where
  "dump JNull = (\<lambda>depth. ''null'')"
| "dump (JBool b) = (\<lambda>depth. if b then ''true'' else ''false'')"
| "dump (JInt i) = (\<lambda>depth. show_int i)"
| "dump (JFloat x) = (\<lambda>depth. show_float x)"
| "dump (JStr s) = (\<lambda>depth. json_string s)"
| "dump (JList vs) = (\<lambda>depth. json_block (CHR ''['') (CHR '']'') depth (map (\<lambda>f. f (Suc depth)) (map dump vs)))"
| "dump (JObj kvs) = (\<lambda>depth. json_block (CHR ''{'') (CHR ''}'') depth
     (map (\<lambda>kf. json_string (fst kf) @ '': '' @ snd kf (Suc depth)) (map (map_prod id dump) kvs)))"

definition json_dumps :: "json \<Rightarrow> string" where
  "json_dumps value = dump value 0"

subsection \<open>What comes out is plain ASCII\<close>

definition plain_ascii :: "char \<Rightarrow> bool" where
  "plain_ascii c = (32 \<le> code c \<and> code c \<le> 126)"

lemma plain_ascii_char_of [simp]: "(n :: nat) < 256 \<Longrightarrow> plain_ascii (char_of n) \<longleftrightarrow> 32 \<le> n \<and> n \<le> 126"
  by (simp add: plain_ascii_def)

lemma hex_digit_plain [simp]: "plain_ascii (hex_digit n)"
proof -
  have "list_all plain_ascii ''0123456789abcdef''" by (simp add: plain_ascii_def code_def)
  then have "plain_ascii (''0123456789abcdef'' ! (n mod 16))" by (subst (asm) list_all_length) simp
  then show ?thesis by (simp add: hex_digit_def)
qed

lemma u_escape_plain [simp]: "list_all plain_ascii (u_escape n)"
  by (simp add: u_escape_def list_all_iff) (simp add: plain_ascii_def code_def)

lemma json_point_plain: "list_all plain_ascii (json_point n)"
  by (simp add: json_point_def) (simp add: plain_ascii_def code_def)

lemma json_chars_plain: "list_all plain_ascii (json_chars k s)"
  by (induction k s rule: json_chars.induct) (auto simp: json_point_plain split: prod.split)

text \<open>Numbers consist of digits, signs, a point and an exponent mark.\<close>

definition number_char :: "char \<Rightarrow> bool" where
  "number_char c = (is_digit c \<or> c \<in> set ''-+.e'')"

lemma number_plain: "number_char c \<Longrightarrow> plain_ascii c"
  by (auto simp: number_char_def plain_ascii_def is_digit_def code_def)

lemma show_nat_number: "list_all number_char (show_nat n)"
  by (auto simp: list_all_iff number_char_def dest: set_show_nat)

lemma show_int_number: "list_all number_char (show_int i)"
  using show_nat_number by (simp add: show_int_def number_char_def)

lemma list_all_parts:
  "list_all P xs \<Longrightarrow> list_all P (take n xs)" "list_all P xs \<Longrightarrow> list_all P (drop n xs)"
  "list_all P s \<Longrightarrow> list_all P (strip_zeros s)" "P x \<Longrightarrow> list_all P (replicate n x)"
  by (auto simp: list_all_iff strip_zeros_def dest: in_set_takeD in_set_dropD set_dropWhileD)

lemma show_float_number: "list_all number_char (show_float x)"
proof -
  have zero: "number_char (CHR ''0'')" "number_char (CHR ''.'')" "number_char (CHR ''-'')" "number_char (CHR ''+'')"
    "number_char (CHR ''e'')"
    by (simp_all add: number_char_def is_digit_def code_def)
  have "list_all number_char (show_float_pos y)" for y
    by (auto simp: show_float_pos_def Let_def zero show_nat_number intro!: list_all_parts split: prod.split)
  then show ?thesis by (simp add: show_float_def show_signed_def zero)
qed

definition export_char :: "char \<Rightarrow> bool" where
  "export_char c = (plain_ascii c \<or> c = newline)"

lemma export_plain: "list_all plain_ascii s \<Longrightarrow> list_all export_char s"
  by (simp add: list_all_iff export_char_def)

lemma export_join: "list_all export_char sep \<Longrightarrow> list_all (list_all export_char) xs \<Longrightarrow> list_all export_char (join sep xs)"
  by (auto simp: join_def list_all_iff split: list.split)

lemma json_block_export:
  assumes "plain_ascii a" and "plain_ascii b" and "list_all (list_all export_char) items"
  shows "list_all export_char (json_block a b depth items)"
proof -
  have "list_all export_char (json_line n)" for n
    by (simp add: json_line_def export_char_def list_all_iff plain_ascii_def code_def)
  moreover have "export_char (CHR '','')" by (simp add: export_char_def plain_ascii_def code_def)
  ultimately show ?thesis using assms
    by (simp add: json_block_def export_char_def [of a] export_char_def [of b] export_join)
qed

lemma json_string_export: "list_all export_char (json_string s)"
  by (simp add: json_string_def export_plain json_chars_plain) (simp add: export_char_def plain_ascii_def code_def)

lemma dump_export: "list_all export_char (dump v depth)"
proof (induction v arbitrary: depth)
  case (JInt i)
  then show ?case
    using show_int_number [of i] number_plain by (auto simp: list_all_iff export_char_def)
next
  case (JFloat x)
  then show ?case
    using show_float_number [of x] number_plain by (auto simp: list_all_iff export_char_def)
next
  case (JList vs)
  then show ?case
    unfolding dump.simps by (intro json_block_export) (auto simp: list_all_iff plain_ascii_def code_def)
next
  case (JObj kvs)
  have colon: "list_all export_char '': ''" by (simp add: export_char_def plain_ascii_def code_def)
  have "list_all export_char (json_string (fst kv) @ '': '' @ dump (snd kv) (Suc depth))" if "kv \<in> set kvs" for kv
    using JObj [of kv "snd kv" "Suc depth"] that
    unfolding list_all_append using colon by (cases kv) (simp add: json_string_export)
  then show ?case
    unfolding dump.simps by (intro json_block_export) (auto simp: list_all_iff plain_ascii_def code_def)
qed (simp_all add: json_string_export export_char_def plain_ascii_def code_def)

lemma json_dumps_export: "list_all export_char (json_dumps v)"
  by (simp add: json_dumps_def dump_export)

section \<open>CSV\<close>

text \<open>
  Comma separated values as \<^verbatim>\<open>reporting/\<close> writes them (\<open>_csv_escape\<close>, lines joined by commas and line
  feeds), and a reader of RFC 4180 that shows what a spreadsheet gets back.
\<close>

subsection \<open>Writing\<close>

definition dquote :: char where
  "dquote = CHR 0x22"

definition csv_escape :: "string \<Rightarrow> string" where
  "csv_escape value = [dquote] @ replace_char dquote [dquote, dquote] value @ [dquote]"

definition csv_lines :: "string list list \<Rightarrow> string" where
  "csv_lines rows = join [newline] (map (join '','') rows)"

subsection \<open>Reading\<close>

definition new_cell :: "string list list \<Rightarrow> string list list" where
  "new_cell rows = ([] # hd rows) # tl rows"

definition onto_cell :: "string \<Rightarrow> string list list \<Rightarrow> string list list" where
  "onto_cell x rows = ((x @ hd (hd rows)) # tl (hd rows)) # tl rows"

text \<open>The rows of a text, inside or outside a quoted cell.\<close>

fun csv_rows :: "bool \<Rightarrow> string \<Rightarrow> string list list" where
  "csv_rows quoted [] = [[[]]]"
| "csv_rows True (c # s) =
     (if c = dquote
      then (case s of
              d # t \<Rightarrow> if d = dquote then onto_cell [dquote] (csv_rows True t) else csv_rows False s
            | [] \<Rightarrow> csv_rows False s)
      else onto_cell [c] (csv_rows True s))"
| "csv_rows False (c # s) =
     (if c = dquote then csv_rows True s
      else if c = CHR '','' then new_cell (csv_rows False s)
      else if c = newline then [[]] # csv_rows False s
      else onto_cell [c] (csv_rows False s))"

definition csv_read :: "string \<Rightarrow> string list list" where
  "csv_read s = csv_rows False s"

subsection \<open>What is written is read back\<close>

definition plain_cell :: "string \<Rightarrow> bool" where
  "plain_cell x = (list_all (\<lambda>c. c \<noteq> dquote \<and> c \<noteq> CHR '','' \<and> c \<noteq> newline) x)"

lemma onto_cell_Nil [simp]: "rows \<noteq> [] \<Longrightarrow> hd rows \<noteq> [] \<Longrightarrow> onto_cell [] rows = rows"
  by (cases rows; cases "hd rows") (auto simp: onto_cell_def)

lemma onto_cell_append: "onto_cell (x @ y) rows = onto_cell x (onto_cell y rows)"
  by (simp add: onto_cell_def)

lemma onto_cell_ne [simp]: "onto_cell x rows \<noteq> []" "hd (onto_cell x rows) \<noteq> []"
  by (simp_all add: onto_cell_def)

lemma csv_rows_ne: "csv_rows q s \<noteq> [] \<and> hd (csv_rows q s) \<noteq> []"
proof (induction q s rule: csv_rows.induct)
  case (2 c s)
  then show ?case by (cases s) simp_all
next
  case (3 c s)
  then show ?case by (simp add: new_cell_def)
qed simp

text \<open>A cell and how it was written.\<close>

definition writes :: "string \<Rightarrow> string \<Rightarrow> bool" where
  "writes x written = (written = csv_escape x \<or> plain_cell x \<and> written = x)"

lemma csv_plain: "plain_cell x \<Longrightarrow> csv_rows False (x @ rest) = onto_cell x (csv_rows False rest)"
proof (induction x)
  case Nil
  then show ?case using csv_rows_ne [of False rest] by simp
next
  case (Cons c x)
  then show ?case using onto_cell_append [of "[c]" x] by (simp add: plain_cell_def)
qed

lemma csv_quoted:
  assumes "rest = [] \<or> hd rest \<noteq> dquote"
  shows "csv_rows True (replace_char dquote [dquote, dquote] x @ dquote # rest)
     = onto_cell x (csv_rows False rest)"
proof (induction x)
  case Nil
  then show ?case using assms csv_rows_ne [of False rest] by (cases rest) (simp_all add: replace_char_def)
next
  case (Cons c x)
  then show ?case using onto_cell_append [of "[c]" x]
    by (cases "c = dquote") (simp_all add: replace_char_def)
qed

lemma csv_cell:
  assumes "writes x written" and "rest = [] \<or> hd rest \<noteq> dquote"
  shows "csv_rows False (written @ rest) = onto_cell x (csv_rows False rest)"
  using assms csv_quoted [OF assms(2), of x] csv_plain [of x rest] by (auto simp: writes_def csv_escape_def)

lemma csv_row:
  assumes "list_all2 writes xs written" and "xs \<noteq> []" and "rest = [] \<or> hd rest = newline"
  shows "csv_rows False (join '','' written @ rest)
     = (case csv_rows False rest of row # rows \<Rightarrow> (butlast xs @ (last xs @ hd row) # tl row) # rows)"
  using assms
proof (induction xs written rule: list_all2_induct)
  case (Cons x xs w ws)
  show ?case
  proof (cases "xs = []")
    case True
    with Cons have "rest = [] \<or> hd rest \<noteq> dquote" by (auto simp: newline_def dquote_def)
    with True Cons csv_cell [of x w rest] csv_rows_ne [of False rest] show ?thesis
      by (auto simp: onto_cell_def join_def split: list.split)
  next
    case False
    with Cons have ws: "ws \<noteq> []" by auto
    have "csv_rows False (w @ CHR '','' # join '','' ws @ rest)
        = onto_cell x (new_cell (csv_rows False (join '','' ws @ rest)))"
      using Cons csv_cell [of x w "CHR '','' # join '','' ws @ rest"] by (simp add: dquote_def newline_def)
    with False ws Cons csv_rows_ne [of False rest] show ?thesis
      by (cases ws) (auto simp: onto_cell_def new_cell_def join_def split: list.split)
  qed
qed simp

lemma csv_line:
  assumes "list_all2 writes xs written" and "xs \<noteq> []"
  shows "csv_rows False (join '','' written) = [xs]"
    and "csv_rows False (join '','' written @ newline # t) = xs # csv_rows False t"
  using csv_row [OF assms, of "[]"] csv_row [OF assms, of "newline # t"] assms(2)
  by (simp_all add: dquote_def newline_def)

lemma csv_read_lines:
  assumes "list_all2 (list_all2 writes) rows written" and "list_all (\<lambda>row. row \<noteq> []) rows" and "rows \<noteq> []"
  shows "csv_read (csv_lines written) = rows"
  using assms
proof (induction rows written rule: list_all2_induct)
  case (Cons row rows w ws)
  show ?case
  proof (cases "rows = []")
    case True
    with Cons show ?thesis by (simp add: csv_read_def csv_lines_def join_def csv_line [unfolded join_def])
  next
    case False
    with Cons have "ws \<noteq> []" by auto
    then have "csv_lines (w # ws) = join '','' w @ newline # csv_lines ws"
      by (cases ws) (simp_all add: csv_lines_def join_def)
    with Cons False show ?thesis using csv_line(2) [of row w "csv_lines ws"] by (simp add: csv_read_def)
  qed
qed simp

lemma writes_escape [intro, simp]: "writes x (csv_escape x)"
  by (simp add: writes_def)

lemma writes_plain [intro]: "plain_cell x \<Longrightarrow> writes x x"
  by (simp add: writes_def)

end
