(* ===== verification/ScanReport.thy ===== *)
theory ScanReport
  imports TextFormats ScanTypes Sanitizer
begin

text \<open>
  \<^verbatim>\<open>reporting/scan_report_exporter.py\<close>: a scan as JSON, as Markdown and its findings as CSV. The time of
  an export is the argument \<open>generated_at\<close>.
\<close>

section \<open>JSON\<close>

definition json_opt :: "('a \<Rightarrow> json) \<Rightarrow> 'a option \<Rightarrow> json" where
  "json_opt f x = (case x of None \<Rightarrow> JNull | Some a \<Rightarrow> f a)"

definition json_counts :: "(string \<times> int) list \<Rightarrow> json" where
  "json_counts counts = JObj (map (\<lambda>(key, n). (key, JInt n)) counts)"

definition json_execution :: "ScannerExecutionSummary \<Rightarrow> json" where
  "json_execution e = JObj
     [(''scanner_id'', JStr (xs_scanner_id e)), (''scanner_version'', JStr (xs_scanner_version e)),
      (''status'', JStr (xs_status e)), (''files_processed'', JInt (xs_files_processed e)),
      (''files_errored'', JInt (xs_files_errored e)),
      (''findings_produced'', JInt (xs_findings_produced e)),
      (''error_summary'', (case xs_error_summary e of
          None \<Rightarrow> JNull | Some s \<Rightarrow> if s = [] then JNull else JStr (sanitize_report s)))]"

definition json_finding :: "NormalizedFinding \<Rightarrow> json" where
  "json_finding n =
     (let raw = nf_raw n in JObj
       [(''scanner_id'', JStr (nf_scanner_id n)), (''scanner_version'', JStr (nf_scanner_version n)),
        (''rule_id'', JStr (rf_rule_id raw)), (''title'', JStr (sanitize_report (rf_title raw))),
        (''finding_type'', JStr (FindingType_value (rf_finding_type raw))),
        (''category'', JStr (FindingCategory_value (rf_category raw))),
        (''severity'', JStr (Severity_value (rf_severity raw))),
        (''confidence'', JStr (ConfidenceLevel_value (rf_confidence raw))),
        (''banking_domains'', JList (map JStr (nf_banking_domains n))),
        (''source_relative_path'', JStr (nf_source_relative_path n)),
        (''line_start'', JInt (rf_line_start raw)), (''line_end'', JInt (rf_line_end raw)),
        (''masked_evidence'', JStr (rf_masked_evidence raw)),
        (''description'', JStr (sanitize_report (rf_description raw))),
        (''impact'', JStr (sanitize_report (rf_impact raw))),
        (''recommended_action'', JStr (sanitize_report (rf_recommended_action raw))),
        (''remediation_mode'', JStr (RemediationMode_value (rf_remediation_mode raw))),
        (''read_only_confirmation'', JBool (rf_read_only_confirmation raw))])"

definition build_payload :: "ScanResult \<Rightarrow> int \<Rightarrow> json" where
  "build_payload result generated_at =
     (let summary = rs_summary result in JObj
       [(''generated_at'', JStr (isoformat_utc generated_at)),
        (''read_only_statement'', JStr
           (''This scan never wrote to, executed, or modified the scanned source. ''
            @ ''Recommendations are advisory only.'')),
        (''scan_metadata'', JObj
           [(''scan_id'', JStr (sm_scan_id summary)), (''status'', JStr (ScanStatus_value (sm_status summary))),
            (''source_type'', JStr (sm_source_type summary)),
            (''started_at'', JStr (isoformat (sm_started_at summary))),
            (''completed_at'', json_opt (\<lambda>d. JStr (isoformat d)) (sm_completed_at summary))]),
        (''integrity_verification'', JObj
           [(''verified'', JBool (sm_integrity_verified summary)),
            (''hash_before'', JStr (sm_source_hash_before summary)),
            (''hash_after'', JStr (sm_source_hash_after summary))]),
        (''file_inventory_summary'', JObj
           [(''total_files_found'', JInt (sm_total_files_found summary)),
            (''files_scanned'', JInt (sm_files_scanned summary)),
            (''files_skipped'', JInt (sm_files_skipped summary)),
            (''truncated'', JBool (sm_truncated summary))]),
        (''domain_coverage'', json_counts (sm_findings_by_domain summary)),
        (''findings_summary'', JObj
           [(''total'', JInt (sm_total_findings summary)),
            (''by_severity'', json_counts (sm_findings_by_severity summary))]),
        (''scanner_execution_summary'', JList (map json_execution (rs_scanner_executions result))),
        (''findings'', JList (map json_finding (rs_findings result))),
        (''warnings'', JList (map JStr (sm_scanner_warnings summary))),
        (''limitations'', JList
           [JStr (''Phase 2 scanners are pattern-based and deterministic; no code is executed or ''
              @ ''semantically analyzed.''),
            JStr ''PII/sensitive-data findings are pattern matches only, not a regulatory compliance determination.'',
            JStr (''Files skipped due to safety limits, unsupported types, or symlink restrictions ''
              @ ''were not evaluated.'')])])"

definition to_json :: "ScanResult \<Rightarrow> int \<Rightarrow> string" where
  "to_json result generated_at = json_dumps (build_payload result generated_at)"

section \<open>Markdown\<close>

definition code_span :: "string \<Rightarrow> string" where
  "code_span s = ''`'' @ s @ ''`''"

definition py_bool :: "bool \<Rightarrow> string" where
  "py_bool b = (if b then ''True'' else ''False'')"

text \<open>\<open>sorted(counts.items())\<close>: the keys of a dict are distinct.\<close>

definition sorted_items :: "(string \<times> 'a) list \<Rightarrow> (string \<times> 'a) list" where
  "sorted_items counts = sort_key fst counts"

definition scan_header_lines :: "ScanSummary \<Rightarrow> string list" where
  "scan_header_lines summary =
     [''# Banking Systems Assurance Platform '' @ em_dash @ '' Scan Report'', [],
      ''**Read-only statement:** This scan never wrote to, executed, or modified ''
        @ ''the scanned source in any way. Recommendations are advisory only '' @ em_dash @ '' this ''
        @ ''platform never applies fixes automatically.'', [],
      ''## Scan Metadata'',
      ''- Scan ID: '' @ code_span (sm_scan_id summary),
      ''- Status: '' @ code_span (ScanStatus_value (sm_status summary)),
      ''- Source type: '' @ code_span (sm_source_type summary),
      ''- Started: '' @ isoformat (sm_started_at summary),
      ''- Completed: '' @ (case sm_completed_at summary of Some d \<Rightarrow> isoformat d | None \<Rightarrow> ''N/A''), [],
      ''## Source Integrity Verification'',
      ''- Integrity verified: **'' @ py_bool (sm_integrity_verified summary) @ ''**'',
      ''- Hash before: '' @ code_span (sm_source_hash_before summary),
      ''- Hash after: '' @ code_span (sm_source_hash_after summary), [],
      ''## File Inventory Summary'',
      ''- Total files found: '' @ show_int (sm_total_files_found summary),
      ''- Files scanned: '' @ show_int (sm_files_scanned summary),
      ''- Files skipped: '' @ show_int (sm_files_skipped summary),
      ''- Scan truncated by a safety limit: '' @ py_bool (sm_truncated summary), []]"

definition count_lines :: "string \<Rightarrow> (string \<times> int) list \<Rightarrow> string list" where
  "count_lines tail counts =
     map (\<lambda>(key, n). ''- '' @ key @ '': '' @ show_int n @ tail) (sorted_items counts)"

definition execution_line :: "ScannerExecutionSummary \<Rightarrow> string" where
  "execution_line e =
     ''- '' @ code_span (xs_scanner_id e) @ '' v'' @ xs_scanner_version e @ '': '' @ xs_status e @ '', ''
       @ show_int (xs_files_processed e) @ '' file(s) processed, '' @ show_int (xs_files_errored e)
       @ '' error(s), '' @ show_int (xs_findings_produced e) @ '' finding(s)''"

definition finding_markdown :: "NormalizedFinding \<Rightarrow> string list" where
  "finding_markdown n =
     (let raw = nf_raw n in
       [[], ''### '' @ sanitize_report (rf_title raw),
        ''- Rule: '' @ code_span (rf_rule_id raw) @ '' ('' @ code_span (nf_scanner_id n) @ '' v''
          @ nf_scanner_version n @ '')'',
        ''- Category: '' @ code_span (FindingCategory_value (rf_category raw)),
        ''- Severity: '' @ code_span (Severity_value (rf_severity raw)) @ '' '' @ em_dash @ '' Confidence: ''
          @ code_span (ConfidenceLevel_value (rf_confidence raw)),
        ''- Finding type: '' @ code_span (FindingType_value (rf_finding_type raw))
          @ '' (observed evidence vs. inference)'',
        ''- File: '' @ code_span (nf_source_relative_path n) @ '' (line '' @ show_int (rf_line_start raw) @ '')'']
       @ (if nf_banking_domains n = [] then []
          else [''- Banking domains: '' @ join '', '' (nf_banking_domains n)])
       @ [''- Evidence (masked): '' @ code_span (rf_masked_evidence raw),
          ''- Description: '' @ sanitize_report (rf_description raw),
          ''- Impact: '' @ sanitize_report (rf_impact raw),
          ''- Recommended action (advisory only): '' @ sanitize_report (rf_recommended_action raw)])"

definition limitation_lines :: "string list" where
  "limitation_lines =
     [[], ''## Limitations'',
      ''- Phase 2 scanners are pattern-based and deterministic; they do not execute ''
        @ ''or semantically analyze code.'',
      ''- PII/sensitive-data findings are pattern matches only and are not a ''
        @ ''regulatory compliance determination.'',
      ''- Files skipped due to safety limits, unsupported types, or symlink ''
        @ ''restrictions were not evaluated by any scanner.'', []]"

definition to_markdown :: "ScanResult \<Rightarrow> string" where
  "to_markdown result =
     (let summary = rs_summary result in join [newline]
       (scan_header_lines summary
        @ [''## Domain Coverage'']
        @ (if sm_findings_by_domain summary = []
           then [''- No findings were mapped to a banking domain in this scan.'']
           else count_lines '' finding(s)'' (sm_findings_by_domain summary))
        @ [[], ''## Findings Summary'', ''- Total findings: '' @ show_int (sm_total_findings summary)]
        @ count_lines [] (sm_findings_by_severity summary)
        @ [[], ''## Scanner Execution Summary'']
        @ map execution_line (rs_scanner_executions result)
        @ (if sm_scanner_warnings summary = [] then []
           else [[], ''### Warnings''] @ map (\<lambda>w. ''- '' @ sanitize_report w) (sm_scanner_warnings summary))
        @ [[], ''## Detailed Findings (Sanitized)'']
        @ (if rs_findings result = [] then [''No findings were produced by this scan.''] else [])
        @ concat (map finding_markdown (rs_findings result))
        @ limitation_lines))"

section \<open>CSV\<close>

definition findings_csv_header :: "string list" where
  "findings_csv_header =
     [''finding_id_ordinal'', ''scanner_id'', ''rule_id'', ''title'', ''category'', ''severity'', ''confidence'',
      ''finding_type'', ''source_relative_path'', ''line_start'', ''line_end'', ''banking_domains'',
      ''masked_evidence'']"

definition finding_csv_row :: "nat \<times> NormalizedFinding \<Rightarrow> string list" where
  "finding_csv_row i_n =
     (let (i, n) = i_n; raw = nf_raw n in
       [show_nat i, nf_scanner_id n, rf_rule_id raw, csv_escape (rf_title raw),
        FindingCategory_value (rf_category raw), Severity_value (rf_severity raw),
        ConfidenceLevel_value (rf_confidence raw), FindingType_value (rf_finding_type raw),
        csv_escape (nf_source_relative_path n), show_int (rf_line_start raw), show_int (rf_line_end raw),
        csv_escape (join ''|'' (nf_banking_domains n)), csv_escape (rf_masked_evidence raw)])"

definition to_findings_csv :: "ScanResult \<Rightarrow> string" where
  "to_findings_csv result =
     csv_lines (findings_csv_header # map finding_csv_row (enumerate 1 (rs_findings result)))"

section \<open>The CSV is read back\<close>

text \<open>The cells that a reader of the export gets for a finding.\<close>

definition finding_cells :: "nat \<times> NormalizedFinding \<Rightarrow> string list" where
  "finding_cells i_n =
     (let (i, n) = i_n; raw = nf_raw n in
       [show_nat i, nf_scanner_id n, rf_rule_id raw, rf_title raw,
        FindingCategory_value (rf_category raw), Severity_value (rf_severity raw),
        ConfidenceLevel_value (rf_confidence raw), FindingType_value (rf_finding_type raw),
        nf_source_relative_path n, show_int (rf_line_start raw), show_int (rf_line_end raw),
        join ''|'' (nf_banking_domains n), rf_masked_evidence raw])"

lemma number_cell: "list_all number_char s \<Longrightarrow> plain_cell s"
  by (auto simp: plain_cell_def list_all_iff number_char_def is_digit_def dquote_def newline_def code_def)

lemma plain_numbers [simp]: "plain_cell (show_nat n)" "plain_cell (show_int i)"
  by (simp_all add: number_cell show_nat_number show_int_number)

lemma plain_enums:
  "plain_cell (FindingCategory_value category)" "plain_cell (Severity_value severity)"
  "plain_cell (ConfidenceLevel_value confidence)" "plain_cell (FindingType_value kind)"
proof -
  show "plain_cell (FindingCategory_value category)"
    by (cases category) (simp_all add: plain_cell_def dquote_def newline_def)
  show "plain_cell (Severity_value severity)"
    by (cases severity) (simp_all add: plain_cell_def dquote_def newline_def)
  show "plain_cell (ConfidenceLevel_value confidence)"
    by (cases confidence) (simp_all add: plain_cell_def dquote_def newline_def)
  show "plain_cell (FindingType_value kind)"
    by (cases kind) (simp_all add: plain_cell_def dquote_def newline_def)
qed

lemma finding_csv_row_writes:
  assumes "plain_cell (nf_scanner_id n)" and "plain_cell (rf_rule_id (nf_raw n))"
  shows "list_all2 writes (finding_cells (i, n)) (finding_csv_row (i, n))"
  using assms plain_enums unfolding finding_cells_def finding_csv_row_def Let_def prod.case
  by (intro list.rel_intros writes_plain writes_escape plain_numbers)

lemma header_writes: "list_all plain_cell header \<Longrightarrow> list_all2 writes header header"
  by (auto simp: list_all_iff writes_def list_all2_same)

lemma scan_csv_read:
  assumes "list_all (\<lambda>n. plain_cell (nf_scanner_id n) \<and> plain_cell (rf_rule_id (nf_raw n))) (rs_findings result)"
  shows "csv_read (to_findings_csv result)
     = findings_csv_header # map finding_cells (enumerate 1 (rs_findings result))"
proof -
  have "list_all2 (list_all2 writes) (map finding_cells (enumerate 1 (rs_findings result)))
      (map finding_csv_row (enumerate 1 (rs_findings result)))"
    unfolding list.rel_map
    using assms by (intro list_all2_same [THEN iffD2]) (auto simp: list_all_iff in_set_enumerate_eq intro!: finding_csv_row_writes)
  moreover have "list_all plain_cell findings_csv_header"
    by (simp add: findings_csv_header_def plain_cell_def dquote_def newline_def)
  ultimately show ?thesis
    unfolding to_findings_csv_def
    by (intro csv_read_lines)
       (auto simp: header_writes findings_csv_header_def list_all_iff finding_cells_def Let_def)
qed

end
