(* ===== verification/AssessmentReport.thy ===== *)
theory AssessmentReport
  imports ScanReport Assessment Orchestrator
begin

text \<open>
  \<^verbatim>\<open>reporting/assessment_report_exporter.py\<close>: an assessment as Markdown and JSON, its findings and its
  scores as CSV. A \<open>Counter\<close> is an association list in order of first occurrence.
\<close>

definition counter :: "string list \<Rightarrow> (string \<times> int) list" where
  "counter xs = fold bump xs []"

definition GOVERNANCE_DISCLAIMERS :: "string list" where
  "GOVERNANCE_DISCLAIMERS =
     [''This report is not a banking regulatory or compliance certification. Controls evaluated ''
        @ ''here are illustrative, engineering-derived technical checks, not citations to any specific ''
        @ ''regulation or standard (see docs/SECURITY.md).'',
      ''All findings default to a pending human-review status. A domain scored high_risk or ''
        @ ''critical_risk with any pending finding blocks this assessment from being finalized ''
        @ em_dash @ '' see the Human Review Status section below.'',
      ''Recommendations are advisory only. This platform never generates, applies, or auto-executes ''
        @ ''a remediation, patch, or configuration change against the assessed system.'',
      ''All detection, scoring, and control-evaluation logic in this report is deterministic and ''
        @ ''pattern-based. No AI/LLM or RAG component generated, altered, or influenced any finding, ''
        @ ''score, control evaluation, or recommendation.'',
      ''A human reviewer may override a score or a finding'' @ [CHR 0x27] @ ''s review status; every override is ''
        @ ''recorded in the audit trail with a mandatory justification and is never silent.'']"

section \<open>Markdown\<close>

definition score_markdown :: "Score \<Rightarrow> string" where
  "score_markdown s =
     ''- '' @ code_span (so_domain s) @ '': '' @ so_decision_category s @ '' (weighted score: ''
       @ (case so_weighted_score s of Some w \<Rightarrow> show_fixed1 w | None \<Rightarrow> ''N/A'')
       @ '', confidence: '' @ so_confidence_level s @ '', evidence: '' @ so_evidence_completeness s @ '')''"

definition event_line :: "AuditEvent \<Rightarrow> string" where
  "event_line e =
     ''- '' @ code_span (isoformat (ae_created_at e)) @ '' ['' @ ae_event_type e @ ''] ('' @ ae_actor e @ ''): ''
       @ ae_summary e"

definition to_assessment_markdown :: "AssessmentResult \<Rightarrow> int \<Rightarrow> string" where
  "to_assessment_markdown result generated_at = join [newline]
     ([''# Banking Systems Assurance Platform '' @ em_dash @ '' Assessment Report'', [],
       ''- Scan ID: '' @ code_span (am_scan_id result),
       ''- Generated at: '' @ isoformat_utc generated_at, [],
       ''## Governance Disclaimers'']
      @ map (\<lambda>d. ''- '' @ d) GOVERNANCE_DISCLAIMERS
      @ [[], ''## Domain Scores'']
      @ count_lines '' domain(s)'' (counter (map so_decision_category (am_scores result)))
      @ [[]]
      @ map score_markdown (sort_key so_domain (am_scores result))
      @ [[], ''## Control Evaluation Summary'']
      @ count_lines '' (domain, control) result(s)'' (counter (map ce_status (am_control_evaluations result)))
      @ [[], ''## Recommendations'']
      @ (if am_recommendations result = [] then [''No recommendations were generated for this scan.''] else [])
      @ map (\<lambda>r. ''- ['' @ rc_priority r @ ''] ('' @ rc_status r @ '') '' @ sanitize_report (rc_text r))
          (am_recommendations result)
      @ [[], ''## Human Review Status'']
      @ count_lines '' finding(s)'' (counter (map fd_human_review_status (am_findings result)))
      @ [[], ''## Audit Trail'']
      @ map event_line (am_audit_events result)
      @ [[]])"

section \<open>JSON\<close>

definition json_float_opt :: "rat option \<Rightarrow> json" where
  "json_float_opt x = json_opt JFloat x"

definition json_score :: "Score \<Rightarrow> json" where
  "json_score s = JObj
     [(''domain'', JStr (so_domain s)), (''decision_category'', JStr (so_decision_category s)),
      (''raw_score'', json_float_opt (so_raw_score s)), (''weighted_score'', json_float_opt (so_weighted_score s)),
      (''confidence_level'', JStr (so_confidence_level s)),
      (''evidence_completeness'', JStr (so_evidence_completeness s)),
      (''files_evaluated'', JInt (so_files_evaluated s)), (''findings_count'', JInt (so_findings_count s))]"

definition json_control_evaluation :: "ControlEvaluation \<Rightarrow> json" where
  "json_control_evaluation ce = JObj
     [(''domain'', JStr (ce_domain ce)), (''control_id'', json_opt_str (ce_control_id ce)),
      (''status'', JStr (ce_status ce)), (''finding_ids'', JList (map JStr (ce_finding_ids ce)))]"

definition json_recommendation :: "Recommendation \<Rightarrow> json" where
  "json_recommendation r = JObj
     [(''finding_id'', JStr (rc_finding_id r)), (''control_id'', json_opt_str (rc_control_id r)),
      (''text'', JStr (sanitize_report (rc_text r))), (''priority'', JStr (rc_priority r)),
      (''status'', JStr (rc_status r))]"

definition json_event :: "AuditEvent \<Rightarrow> json" where
  "json_event e = JObj
     [(''event_type'', JStr (ae_event_type e)), (''actor'', JStr (ae_actor e)),
      (''summary'', JStr (ae_summary e)), (''created_at'', JStr (isoformat (ae_created_at e)))]"

definition to_assessment_json :: "AssessmentResult \<Rightarrow> int \<Rightarrow> string" where
  "to_assessment_json result generated_at = json_dumps (JObj
     [(''generated_at'', JStr (isoformat_utc generated_at)), (''scan_id'', JStr (am_scan_id result)),
      (''governance_disclaimers'', JList (map JStr GOVERNANCE_DISCLAIMERS)),
      (''scores'', JList (map json_score (am_scores result))),
      (''control_evaluations'', JList (map json_control_evaluation (am_control_evaluations result))),
      (''recommendations'', JList (map json_recommendation (am_recommendations result))),
      (''human_review_status_counts'',
         json_counts (counter (map fd_human_review_status (am_findings result)))),
      (''audit_trail'', JList (map json_event (am_audit_events result)))])"

section \<open>CSV\<close>

definition assessment_findings_header :: "string list" where
  "assessment_findings_header =
     [''finding_id'', ''rule_id'', ''severity'', ''confidence'', ''banking_domains'', ''source_relative_path'',
      ''line_start'', ''human_review_status'', ''masked_evidence'']"

definition assessment_finding_row :: "Finding \<Rightarrow> string list" where
  "assessment_finding_row f =
     [fd_id f, fd_rule_id f, fd_severity f, fd_confidence f,
      csv_escape (join ''|'' (fd_banking_domains f)), csv_escape (fd_source_relative_path f),
      show_int (fd_line_start f), fd_human_review_status f,
      csv_escape (sanitize_report (fd_masked_evidence f))]"

definition to_assessment_findings_csv :: "AssessmentResult \<Rightarrow> string" where
  "to_assessment_findings_csv result =
     csv_lines (assessment_findings_header # map assessment_finding_row (am_findings result))"

definition scores_header :: "string list" where
  "scores_header =
     [''domain'', ''decision_category'', ''raw_score'', ''weighted_score'', ''confidence_level'',
      ''evidence_completeness'', ''findings_count'', ''files_evaluated'', ''override_of'']"

definition show_float_opt :: "rat option \<Rightarrow> string" where
  "show_float_opt x = (case x of None \<Rightarrow> [] | Some v \<Rightarrow> show_float v)"

definition score_csv_row :: "Score \<Rightarrow> string list" where
  "score_csv_row s =
     [so_domain s, so_decision_category s, show_float_opt (so_raw_score s), show_float_opt (so_weighted_score s),
      so_confidence_level s, so_evidence_completeness s, show_int (so_findings_count s),
      show_int (so_files_evaluated s), (case so_override_of s of None \<Rightarrow> [] | Some i \<Rightarrow> i)]"

definition to_scores_csv :: "AssessmentResult \<Rightarrow> string" where
  "to_scores_csv result = csv_lines (scores_header # map score_csv_row (am_scores result))"

section \<open>The CSV is read back\<close>

definition assessment_finding_cells :: "Finding \<Rightarrow> string list" where
  "assessment_finding_cells f =
     [fd_id f, fd_rule_id f, fd_severity f, fd_confidence f, join ''|'' (fd_banking_domains f),
      fd_source_relative_path f, show_int (fd_line_start f), fd_human_review_status f,
      sanitize_report (fd_masked_evidence f)]"

text \<open>The columns that are written without quotes: ids, rules, enumeration values and domains.\<close>

definition unquoted_ok :: "AssessmentResult \<Rightarrow> bool" where
  "unquoted_ok result =
     (list_all (\<lambda>f. list_all plain_cell
          [fd_id f, fd_rule_id f, fd_severity f, fd_confidence f, fd_human_review_status f]) (am_findings result)
      \<and> list_all (\<lambda>s. list_all plain_cell
          [so_domain s, so_decision_category s, so_confidence_level s, so_evidence_completeness s,
           (case so_override_of s of None \<Rightarrow> [] | Some i \<Rightarrow> i)]) (am_scores result))"

lemma plain_floats: "plain_cell (show_float_opt x)"
  by (cases x) (simp_all add: show_float_opt_def number_cell show_float_number) 

lemma assessment_finding_row_writes:
  "list_all plain_cell [fd_id f, fd_rule_id f, fd_severity f, fd_confidence f, fd_human_review_status f] \<Longrightarrow>
     list_all2 writes (assessment_finding_cells f) (assessment_finding_row f)"
  unfolding assessment_finding_cells_def assessment_finding_row_def
  by (intro list.rel_intros writes_plain writes_escape plain_numbers) simp_all

lemma score_csv_row_writes:
  "list_all plain_cell [so_domain s, so_decision_category s, so_confidence_level s, so_evidence_completeness s,
      (case so_override_of s of None \<Rightarrow> [] | Some i \<Rightarrow> i)] \<Longrightarrow>
     list_all2 writes (score_csv_row s) (score_csv_row s)"
  unfolding score_csv_row_def
  by (intro list.rel_intros writes_plain plain_numbers plain_floats) simp_all

lemma csv_table_read:
  assumes "list_all plain_cell header" and "header \<noteq> []"
    and "list_all (\<lambda>x. list_all2 writes (cells x) (row x)) xs" and "list_all (\<lambda>x. cells x \<noteq> []) xs"
  shows "csv_read (csv_lines (header # map row xs)) = header # map cells xs"
proof (rule csv_read_lines)
  show "list_all2 (list_all2 writes) (header # map cells xs) (header # map row xs)"
    using header_writes [OF assms(1)] assms(3) by (simp add: list.rel_map list_all2_same list_all_iff)
qed (use assms in \<open>auto simp: list_all_iff\<close>)

lemma assessment_csv_read:
  assumes "unquoted_ok result"
  shows "csv_read (to_assessment_findings_csv result)
       = assessment_findings_header # map assessment_finding_cells (am_findings result)"
    and "csv_read (to_scores_csv result) = scores_header # map score_csv_row (am_scores result)"
proof -
  have "list_all plain_cell assessment_findings_header" "list_all plain_cell scores_header"
    by (simp_all add: assessment_findings_header_def scores_header_def plain_cell_def dquote_def newline_def)
  moreover have "assessment_findings_header \<noteq> []" "scores_header \<noteq> []"
    by (simp_all add: assessment_findings_header_def scores_header_def)
  moreover have "assessment_finding_cells f \<noteq> []" "score_csv_row s \<noteq> []" for f s
    by (simp_all add: assessment_finding_cells_def score_csv_row_def)
  ultimately show "csv_read (to_assessment_findings_csv result)
       = assessment_findings_header # map assessment_finding_cells (am_findings result)"
    and "csv_read (to_scores_csv result) = scores_header # map score_csv_row (am_scores result)"
    unfolding to_assessment_findings_csv_def to_scores_csv_def
    using assms by (auto intro!: csv_table_read simp: unquoted_ok_def list_all_iff assessment_finding_row_writes score_csv_row_writes)
qed

text \<open>C32: Exports can be read back. A reader of comma separated values gets from the CSV exports exactly the
  header and, for every finding and every score in order, its cells, whatever commas, quotes and line
  feeds the titles, paths, domains and masked evidence contain, provided that the ids, rules and
  enumeration values, which are written without quotes, are plain; and the JSON exports consist of
  printable ASCII and line feeds only, whatever the texts contain.\<close>

theorem exports_read_back:
  assumes "list_all (\<lambda>n. plain_cell (nf_scanner_id n) \<and> plain_cell (rf_rule_id (nf_raw n))) (rs_findings scan)"
    and "unquoted_ok result"
  shows "csv_read (to_findings_csv scan) = findings_csv_header # map finding_cells (enumerate 1 (rs_findings scan))
     \<and> csv_read (to_assessment_findings_csv result)
         = assessment_findings_header # map assessment_finding_cells (am_findings result)
     \<and> csv_read (to_scores_csv result) = scores_header # map score_csv_row (am_scores result)
     \<and> list_all export_char (to_json scan t) \<and> list_all export_char (to_assessment_json result t)"
  using scan_csv_read [OF assms(1)] assessment_csv_read [OF assms(2)]
  by (simp add: to_json_def to_assessment_json_def json_dumps_export)

end
