(* ===== verification/Badges.thy ===== *)
theory Badges
  imports Comparison AssessmentReport
begin

text \<open>
  Labels and badges (\<^verbatim>\<open>ui/components/badges.py\<close>) and what the charts of \<^verbatim>\<open>ui/components/charts.py\<close> are drawn
  from: one list of rows per chart, in the order in which they appear. A badge is a piece of Markdown,
  \<open>:color-badge[text]\<close>.
\<close>

section \<open>Badges\<close>

definition SEVERITY_ORDER :: "string list" where
  "SEVERITY_ORDER = [''critical'', ''high'', ''medium'', ''low'', ''info'']"

definition SEVERITY_COLORS :: "(string \<times> string) list" where
  "SEVERITY_COLORS =
     [(''critical'', ''red''), (''high'', ''orange''), (''medium'', ''violet''), (''low'', ''blue''), (''info'', ''gray'')]"

definition SEVERITY_HEX :: "(string \<times> string) list" where
  "SEVERITY_HEX =
     [(''critical'', ''#C62828''), (''high'', ''#EF6C00''), (''medium'', ''#7B4FB8''), (''low'', ''#1E6FB8''),
      (''info'', ''#7A8794'')]"

definition DECISION_ORDER :: "string list" where
  "DECISION_ORDER =
     [''critical_risk'', ''high_risk'', ''remediation_required'', ''manual_review_required'',
      ''insufficient_evidence'', ''acceptable_with_observations'', ''acceptable'']"

definition DECISION_COLORS :: "(string \<times> string) list" where
  "DECISION_COLORS =
     [(''critical_risk'', ''red''), (''high_risk'', ''orange''), (''remediation_required'', ''violet''),
      (''manual_review_required'', ''blue''), (''insufficient_evidence'', ''gray''),
      (''acceptable_with_observations'', ''green''), (''acceptable'', ''green'')]"

definition DECISION_HEX :: "(string \<times> string) list" where
  "DECISION_HEX =
     [(''critical_risk'', ''#C62828''), (''high_risk'', ''#EF6C00''), (''remediation_required'', ''#7B4FB8''),
      (''manual_review_required'', ''#1E6FB8''), (''insufficient_evidence'', ''#7A8794''),
      (''acceptable_with_observations'', ''#5E9E4B''), (''acceptable'', ''#2E7D32'')]"

definition REVIEW_COLORS :: "(string \<times> string) list" where
  "REVIEW_COLORS = [(''pending'', ''orange''), (''approved'', ''green''), (''rejected'', ''gray''), (''overridden'', ''blue'')]"

definition ROLE_COLORS :: "(string \<times> string) list" where
  "ROLE_COLORS = [(''admin'', ''red''), (''manager'', ''blue''), (''employee'', ''green'')]"

definition color_of :: "(string \<times> string) list \<Rightarrow> string \<Rightarrow> string" where
  "color_of colors key = (case map_of colors key of None \<Rightarrow> ''gray'' | Some c \<Rightarrow> c)"

definition badge_safe :: "string \<Rightarrow> string" where
  "badge_safe txt = replace_char (CHR '']'') '')'' (replace_char (CHR ''['') ''('' txt)"

definition badge :: "string \<Rightarrow> string \<Rightarrow> string" where
  "badge txt color = '':'' @ color @ ''-badge['' @ badge_safe txt @ '']''"

text \<open>\<open>s.capitalize()\<close> and \<open>s.title()\<close> on ASCII letters.\<close>

definition capitalize :: "string \<Rightarrow> string" where
  "capitalize s = (case s of [] \<Rightarrow> [] | c # cs \<Rightarrow> upper [c] @ lower cs)"

definition humanize :: "string \<Rightarrow> string" where
  "humanize value = capitalize (replace_char (CHR ''_'') '' '' value)"

definition severity_badge :: "string \<Rightarrow> string" where
  "severity_badge severity = badge (upper severity) (color_of SEVERITY_COLORS (lower severity))"

definition decision_badge :: "string \<Rightarrow> string" where
  "decision_badge category = badge (humanize category) (color_of DECISION_COLORS category)"

definition review_badge :: "string \<Rightarrow> string" where
  "review_badge status = badge (humanize status) (color_of REVIEW_COLORS status)"

definition role_badge :: "string \<Rightarrow> string" where
  "role_badge role = badge (upper role) (color_of ROLE_COLORS role)"

definition domain_label :: "string \<Rightarrow> string" where
  "domain_label domain_value =
     (case enum_of BankingDomain_members BankingDomain_value domain_value of
        Inr d \<Rightarrow> get_domain_label d
      | Inl _ \<Rightarrow> domain_value)"

definition index_in :: "string list \<Rightarrow> string \<Rightarrow> nat" where
  "index_in xs x = length (takeWhile (\<lambda>y. y \<noteq> x) xs)"

definition severity_rank :: "string \<Rightarrow> nat" where
  "severity_rank severity =
     (if lower severity \<in> set SEVERITY_ORDER then index_in SEVERITY_ORDER (lower severity)
      else length SEVERITY_ORDER)"

section \<open>Charts\<close>

record score_bar =
  sb_domain :: string
  sb_weighted :: rat
  sb_score :: string
  sb_decision :: string
  sb_category :: string

text \<open>Bars in ascending order of the score (equal scores as they come), and the legend: the decisions that occur, with their colours.\<close>

definition score_bars :: "(string \<times> Score) list \<Rightarrow> score_bar list" where
  "score_bars effective =
     order_by sb_weighted (map (\<lambda>(domain, s).
       \<lparr>sb_domain = domain_label domain,
        sb_weighted = (case so_weighted_score s of None \<Rightarrow> 0 | Some x \<Rightarrow> x),
        sb_score = (case so_weighted_score s of None \<Rightarrow> ''n/a'' | Some x \<Rightarrow> show_fixed1 x),
        sb_decision = humanize (so_decision_category s),
        sb_category = so_decision_category s\<rparr>) effective)"

definition score_legend :: "score_bar list \<Rightarrow> (string \<times> string) list" where
  "score_legend bars =
     map (\<lambda>c. (humanize c, the (map_of DECISION_HEX c)))
       (filter (\<lambda>c. c \<in> set (map sb_category bars)) DECISION_ORDER)"

text \<open>Severities in their order, then unknown ones by name: label, colour and count.\<close>

definition severity_bars :: "string list \<Rightarrow> (string \<times> string \<times> int) list" where
  "severity_bars severities =
     (let counts = counter (map lower severities);
          order = filter (\<lambda>s. s \<in> fst ` set counts) SEVERITY_ORDER
            @ sort (filter (\<lambda>s. s \<notin> set SEVERITY_ORDER) (map fst counts))
      in map (\<lambda>s. (upper s, (case map_of SEVERITY_HEX s of None \<Rightarrow> ''#7A8794'' | Some c \<Rightarrow> c),
                   the (map_of counts s))) order)"

definition count_bars :: "(string \<times> int) list \<Rightarrow> (string \<times> int) list" where
  "count_bars counts = map (\<lambda>(k, n). (humanize k, n)) counts"

section \<open>Facts\<close>

text \<open>The text of a badge cannot end it: its brackets are the badge's own.\<close>

lemma badge_safe_brackets: "CHR ''['' \<notin> set (badge_safe txt) \<and> CHR '']'' \<notin> set (badge_safe txt)"
  by (auto simp: badge_safe_def replace_char_def)

text \<open>Counting: each value once, and the counts add up.\<close>

lemma counter_facts:
  "distinct (map fst (counter xs)) \<and> fst ` set (counter xs) = set xs
   \<and> (\<forall>x n. (x, n) \<in> set (counter xs) \<longrightarrow> n = int (length (filter (\<lambda>y. y = x) xs)))"
proof (induction xs rule: rev_induct)
  case Nil
  then show ?case by (simp add: counter_def)
next
  case (snoc x xs)
  have bumped: "counter (xs @ [x]) = bump x (counter xs)" by (simp add: counter_def)
  have lookup: "map_of (counter xs) y = (if y \<in> set xs then Some (int (length (filter (\<lambda>z. z = y) xs))) else None)" for y
  proof (cases "map_of (counter xs) y")
    case None
    with snoc show ?thesis by (auto simp: map_of_eq_None_iff)
  next
    case (Some n)
    with snoc show ?thesis by (force dest: map_of_SomeD)
  qed
  have "distinct (map fst (bump x (counter xs)))" "fst ` set (bump x (counter xs)) = set (xs @ [x])"
    using snoc by (auto simp: bump_def distinct_update dom_update)
  moreover have "n = int (length (filter (\<lambda>z. z = y) (xs @ [x])))" if "(y, n) \<in> set (bump x (counter xs))" for y n
  proof -
    from that calculation(1) have "map_of (bump x (counter xs)) y = Some n" by (simp add: map_of_is_SomeI)
    then show ?thesis
      by (auto simp: bump_def update_conv' lookup filter_empty_conv split: if_splits option.splits)
  qed
  ultimately show ?case unfolding bumped by blast
qed

lemma counts_add_up: "distinct ks \<Longrightarrow> set xs \<subseteq> set ks \<Longrightarrow> (\<Sum>k\<leftarrow>ks. int (length (filter (\<lambda>y. y = k) xs))) = int (length xs)"
proof (induction xs)
  case (Cons x xs)
  have "(\<Sum>k\<leftarrow>ks. if x = k then 1 else 0 :: int) = 1"
    using Cons.prems by (subst sum_list_distinct_conv_sum_set) auto
  moreover have "(\<Sum>k\<leftarrow>ks. int (length (filter (\<lambda>y. y = k) (x # xs))))
      = (\<Sum>k\<leftarrow>ks. if x = k then 1 else 0) + (\<Sum>k\<leftarrow>ks. int (length (filter (\<lambda>y. y = k) xs)))"
    unfolding sum_list_addf [symmetric] by (rule arg_cong [where f = sum_list]) auto
  ultimately show ?case using Cons by simp
qed (simp add: sum_list_0)

text \<open>Every finding is in a bar, whatever its severity.\<close>

lemma severity_bars_total: "(\<Sum>(label, color, n) \<leftarrow> severity_bars severities. n) = int (length severities)"
proof -
  let ?present = "map lower severities"
  let ?counts = "counter ?present"
  let ?order = "filter (\<lambda>s. s \<in> fst ` set ?counts) SEVERITY_ORDER
    @ sort (filter (\<lambda>s. s \<notin> set SEVERITY_ORDER) (map fst ?counts))"
  have facts: "distinct (map fst ?counts)" "fst ` set ?counts = set ?present"
    "\<And>x n. (x, n) \<in> set ?counts \<Longrightarrow> n = int (length (filter (\<lambda>y. y = x) ?present))"
    using counter_facts [of ?present] by blast+
  have "distinct ?order" using facts(1) by (auto simp: SEVERITY_ORDER_def)
  moreover have order: "set ?order = set ?present" using facts(2) by auto
  ultimately have total: "(\<Sum>k\<leftarrow>?order. int (length (filter (\<lambda>y. y = k) ?present))) = int (length ?present)"
    by (intro counts_add_up) auto
  have each: "the (map_of ?counts k) = int (length (filter (\<lambda>y. y = k) ?present))" if "k \<in> set ?order" for k
  proof -
    from that order facts(2) obtain n where "(k, n) \<in> set ?counts" by (metis imageE prod.collapse)
    with facts(1,3) show ?thesis by (simp add: map_of_is_SomeI)
  qed
  have "(\<Sum>(label, color, n) \<leftarrow> severity_bars severities. n) = (\<Sum>k\<leftarrow>?order. the (map_of ?counts k))"
    by (simp add: severity_bars_def Let_def comp_def split_beta)
  also have "\<dots> = (\<Sum>k\<leftarrow>?order. int (length (filter (\<lambda>y. y = k) ?present)))"
    by (rule arg_cong [where f = sum_list], rule map_cong [OF refl], rule each)
  finally show ?thesis using total by simp
qed

end
