(* ===== verification/Exports.thy ===== *)
theory Exports
  imports AssessmentReport Secured
begin

text \<open>
  Exporting reports: \<open>export_assessment\<close> of \<^verbatim>\<open>ui/services/assessment_service.py\<close> and the authorized
  operations of \<^verbatim>\<open>auth/secured_services.py\<close> around it.
\<close>

record AssessmentExport =
  ex_json :: string
  ex_markdown :: string
  ex_findings_csv :: string
  ex_scores_csv :: string

definition svc_export_assessment ::
  "Settings \<Rightarrow> string \<Rightarrow> platform \<Rightarrow> AssessmentExport option result \<times> platform" where
  "svc_export_assessment settings scan_id =
     service_session settings (\<lambda>s.
       (Inr (case load_assessment_result scan_id (ss_work s) of
          None \<Rightarrow> None
        | Some result \<Rightarrow> Some
            \<lparr>ex_json = to_assessment_json result (pf_clock s),
             ex_markdown = to_assessment_markdown result (pf_clock s),
             ex_findings_csv = to_assessment_findings_csv result,
             ex_scores_csv = to_scores_csv result\<rparr>), s))"

definition export_reports :: string where
  "export_reports = ''export reports''"

definition secured_export_assessment ::
  "Authorizer \<Rightarrow> Principal \<Rightarrow> string \<Rightarrow> platform \<Rightarrow> AssessmentExport option result \<times> platform" where
  "secured_export_assessment self caller scan_id =
     secured self caller EXPORT_REPORTS export_reports (Some scan_id)
       (\<lambda>_. svc_export_assessment (settings_of self) scan_id)"

text \<open>JSON and Markdown of a scan that was not stored.\<close>

definition secured_export_quick_scan ::
  "Authorizer \<Rightarrow> Principal \<Rightarrow> ScanResult \<Rightarrow> platform \<Rightarrow> (string \<times> string) result \<times> platform" where
  "secured_export_quick_scan self caller scanned =
     secured self caller EXPORT_REPORTS export_reports None
       (\<lambda>_ pf. (Inr (to_json scanned (pf_clock pf), to_markdown scanned), pf))"

section \<open>Facts\<close>

text \<open>An export changes nothing, and without the permission nobody gets one.\<close>

definition exported_only :: "Authorizer \<Rightarrow> Principal \<Rightarrow> platform \<Rightarrow> 'a result \<times> platform \<Rightarrow> bool" where
  "exported_only az p pf outcome =
     (if permitted az p EXPORT_REPORTS pf then pf_store (snd outcome) = pf_store pf
      else isl (fst outcome) \<and> denied p pf (snd outcome))"

lemma exported_only_guarded:
  assumes "accessible az p pf" and "\<And>q. pf_store (snd (body q pf)) = pf_store pf"
  shows "exported_only az p pf (secured az p EXPORT_REPORTS export_reports sc body pf)"
proof (cases "permitted az p EXPORT_REPORTS pf")
  case True
  obtain q where "require az p EXPORT_REPORTS export_reports sc pf = (Inr q, pf)"
    using access.pass [OF assms(1) True] by blast
  with True assms(2) show ?thesis by (simp add: exported_only_def secured_def)
next
  case False
  obtain e pf' where "require az p EXPORT_REPORTS export_reports sc pf = (Inl e, pf')" "denied p pf pf'"
    using access.refuse [OF assms(1) False] by blast
  with False show ?thesis by (simp add: exported_only_def secured_def)
qed

lemma exports_guarded:
  assumes "accessible az p pf"
  shows "exported_only az p pf (secured_export_assessment az p i pf)"
    and "exported_only az p pf (secured_export_quick_scan az p scanned pf)"
    and "permitted az p EXPORT_REPORTS pf \<Longrightarrow>
      \<exists>ev. only_audit [ev] pf (snd (record_export az p fmt sc q pf)) \<and> ae_actor ev = pr_username p"
proof -
  show "exported_only az p pf (secured_export_assessment az p i pf)"
    "exported_only az p pf (secured_export_quick_scan az p scanned pf)"
    unfolding secured_export_assessment_def secured_export_quick_scan_def
    by (rule exported_only_guarded [OF assms], simp add: svc_export_assessment_def service_session_def)+
  assume True: "permitted az p EXPORT_REPORTS pf"
  obtain q where pass: "require az p EXPORT_REPORTS export_reports sc pf = (Inr q, pf)"
    using access.pass [OF assms True] by blast
  show "\<exists>ev. only_audit [ev] pf (snd (record_export az p fmt sc q' pf)) \<and> ae_actor ev = pr_username p" for q'
    using pass require_username [OF assms pass] assms
    by (auto simp: record_export_def export_reports_def secured_def secured_audit_def settings_of_def accessible_def
        record_auth_event_eq only_audit_def with_event_def audit_entry_def audit_row_def auth_event_def
        commit_def map_work_def)
qed

end
