(* ===== verification/Views.thy ===== *)
theory Views
  imports Badges Exports
begin

text \<open>
  What the pages of \<^verbatim>\<open>ui/views\<close> and the frame of \<^verbatim>\<open>ui/components/layout.py\<close> show: figures, lines of
  Markdown and tables. A row of a table is the list of its columns and cells, in order, a cell a JSON
  value. The choices of a list box are the values it returns. What a request does is in \<open>Pages\<close>.
\<close>

type_synonym view_row = "(string \<times> json) list"

text \<open>\<open>str(d)[:n]\<close> of a datetime.\<close>

definition str_time :: "nat \<Rightarrow> datetime \<Rightarrow> string" where
  "str_time n d = take n (replace_char (CHR ''T'') '' '' (isoformat d))"

definition back_tick :: string where
  "back_tick = [CHR 0x60]"

definition middle_dot :: string where
  "middle_dot = '' '' @ [CHR 0xB7] @ '' ''"

definition spaced_dash :: string where
  "spaced_dash = '' '' @ em_dash @ '' ''"

definition markdown_break :: string where
  "markdown_break = ''  '' @ [newline]"

definition str_float :: "rat option \<Rightarrow> string" where
  "str_float x = (case x of None \<Rightarrow> ''None'' | Some w \<Rightarrow> show_float w)"

section \<open>The frame of a page\<close>

definition footer_text :: "Settings \<Rightarrow> string" where
  "footer_text s = ''Version '' @ st_app_version s @ '' | Built and developed by Oren Salami''"

text \<open>\<open>reachable\<close>: whether the last probe of the database succeeded.\<close>

definition status_badges :: "Settings \<Rightarrow> bool \<Rightarrow> string list" where
  "status_badges s reachable =
     [badge ''Read-only'' ''blue'',
      badge (if st_local_only_mode s then ''Local-only'' else ''Local-only: off'')
        (if st_local_only_mode s then ''green'' else ''orange''),
      badge (if st_external_providers_enabled s then ''External AI providers: enabled''
             else ''External AI providers: disabled'')
        (if st_external_providers_enabled s then ''orange'' else ''gray''),
      badge (''Vector backend: '' @ st_vector_backend s) ''gray'',
      (if \<not> truthy (st_database_url s) then badge ''Database: not configured'' ''red''
       else if reachable then badge ''Database: connected'' ''green''
       else badge ''Database: unreachable'' ''red'')]"

definition rstrip_slash :: "string \<Rightarrow> string" where
  "rstrip_slash s = rev (dropWhile (\<lambda>c. c = CHR ''/'') (rev s))"

definition scan_label :: "ScanSummaryRow \<Rightarrow> string" where
  "scan_label scan =
     (let source = last (split_on (CHR ''/'') (rstrip_slash (replace_char (CHR 0x5C) ''/'' (sw_source_path scan))));
          created = (if sw_created_at scan = [] then ''?''
            else replace_char (CHR ''T'') '' '' (take 16 (sw_created_at scan)))
      in created @ middle_dot @ (if source = [] then sw_source_path scan else source) @ middle_dot
         @ show_int (sw_total_findings scan) @ '' findings'')"

section \<open>Dashboard\<close>

definition pending_findings :: "Finding list \<Rightarrow> Finding list" where
  "pending_findings = filter (\<lambda>f. fd_human_review_status f = HumanReviewStatus_value HumanReviewStatus.PENDING)"

definition critical_or_high :: "Finding list \<Rightarrow> Finding list" where
  "critical_or_high = filter (\<lambda>f. lower (fd_severity f) \<in> {''critical'', ''high''})"

definition risky_domains :: "(string \<times> Score) list \<Rightarrow> string list" where
  "risky_domains scores =
     map fst (filter (\<lambda>(d, s). so_decision_category s \<in> {''critical_risk'', ''high_risk''}) scores)"

definition dashboard_metrics :: "AssessmentResult \<Rightarrow> FinalizationCheckResult option \<Rightarrow> (string \<times> string) list" where
  "dashboard_metrics result finalization =
     (let findings = am_findings result; scores = effective_scores (am_scores result)
      in [(''Findings'', show_len findings),
          (''Critical / high'', show_len (critical_or_high findings)),
          (''Pending review'', show_len (pending_findings findings)),
          (''High-risk domains'', show_len (risky_domains scores) @ '' of '' @ show_len scores)]
         @ (case finalization of None \<Rightarrow> []
            | Some check \<Rightarrow> [(''Finalization'', if fz_can_finalize check then ''Ready'' else ''Blocked'')]))"

definition assessment_panel :: "Scan \<Rightarrow> string" where
  "assessment_panel scan =
     ''**Source:** '' @ back_tick @ sc_source_path scan @ back_tick @ markdown_break
     @ ''**Run at:** '' @ str_time 19 (sc_created_at scan) @ '' UTC'' @ markdown_break
     @ ''**Status:** '' @ humanize (sc_status scan) @ middle_dot @ ''**Files scanned:** ''
     @ show_int (sc_files_scanned scan) @ markdown_break
     @ ''**Source integrity:** ''
     @ (if sc_integrity_verified scan then ''verified'' @ spaced_dash @ ''nothing was modified''
        else ''NOT verified'' @ spaced_dash @ ''see warnings'')"

definition finding_place :: "Finding \<Rightarrow> string" where
  "finding_place f = fd_source_relative_path f @ '':'' @ show_int (fd_line_start f)"

definition pending_lines :: "Finding list \<Rightarrow> string list" where
  "pending_lines pending =
     map (\<lambda>f. severity_badge (fd_severity f) @ '' **'' @ fd_rule_id f @ ''**'' @ middle_dot
           @ back_tick @ finding_place f @ back_tick)
       (take 6 (order_by (\<lambda>f. severity_rank (fd_severity f)) pending))"

definition blocker_lines :: "FinalizationCheckResult option \<Rightarrow> string list" where
  "blocker_lines finalization =
     (case finalization of None \<Rightarrow> []
      | Some check \<Rightarrow> if fz_can_finalize check then []
          else map (\<lambda>b. ''Blocks finalization: '' @ fb_reason b) (take 4 (fz_blockers check)))"

definition activity_lines :: "AuditEvent list \<Rightarrow> string list" where
  "activity_lines events =
     map (\<lambda>e. back_tick @ str_time 16 (ae_created_at e) @ back_tick @ '' **'' @ ae_actor e @ ''**''
           @ spaced_dash @ humanize (ae_event_type e)) events"

text \<open>Domains by score, those without one last; acceptable ones are not shown.\<close>

definition attention_lines :: "(string \<times> Score) list \<Rightarrow> string list" where
  "attention_lines scores =
     map (\<lambda>s. decision_badge (so_decision_category s) @ '' **'' @ so_domain s @ ''**'' @ spaced_dash
           @ show_int (so_findings_count s) @ '' finding(s)'')
       (filter (\<lambda>s. so_decision_category s \<notin> {''acceptable'', ''acceptable_with_observations''})
         (order_by (\<lambda>s. (so_weighted_score s = None, case so_weighted_score s of None \<Rightarrow> 0 | Some w \<Rightarrow> w))
           (map snd scores)))"

section \<open>Findings\<close>

definition sorted_findings :: "Finding list \<Rightarrow> Finding list" where
  "sorted_findings =
     order_by (\<lambda>f. (severity_rank (fd_severity f), fd_rule_id f, fd_source_relative_path f, fd_line_start f))"

record finding_filter =
  ff_severities :: "string list"
  ff_domains :: "string list"
  ff_rules :: "string list"
  ff_reviews :: "string list"
  ff_path :: string

text \<open>The values each box offers.\<close>

definition finding_choices :: "Finding list \<Rightarrow> finding_filter" where
  "finding_choices findings =
     \<lparr>ff_severities = order_by severity_rank (sorted_set (map fd_severity findings)),
      ff_domains = sorted_set (concat (map fd_banking_domains findings)),
      ff_rules = sorted_set (map fd_rule_id findings),
      ff_reviews = sorted_set (map fd_human_review_status findings),
      ff_path = []\<rparr>"

definition finding_selected :: "finding_filter \<Rightarrow> Finding \<Rightarrow> bool" where
  "finding_selected chosen f =
     ((ff_severities chosen = [] \<or> fd_severity f \<in> set (ff_severities chosen))
      \<and> (ff_domains chosen = [] \<or> set (fd_banking_domains f) \<inter> set (ff_domains chosen) \<noteq> {})
      \<and> (ff_rules chosen = [] \<or> fd_rule_id f \<in> set (ff_rules chosen))
      \<and> (ff_reviews chosen = [] \<or> fd_human_review_status f \<in> set (ff_reviews chosen))
      \<and> (ff_path chosen = [] \<or> contains (lower (ff_path chosen)) (lower (fd_source_relative_path f))))"

definition finding_domains :: "Finding \<Rightarrow> string" where
  "finding_domains f = join '', '' (map domain_label (fd_banking_domains f))"

definition finding_table_row :: "Finding \<Rightarrow> view_row" where
  "finding_table_row f =
     [(''Severity'', JStr (upper (fd_severity f))), (''Rule'', JStr (fd_rule_id f)),
      (''Title'', JStr (fd_title f)), (''File'', JStr (fd_source_relative_path f)),
      (''Line'', JInt (fd_line_start f)), (''Domains'', JStr (finding_domains f)),
      (''Review'', JStr (humanize (fd_human_review_status f))), (''Confidence'', JStr (fd_confidence f))]"

definition finding_label :: "Finding \<Rightarrow> string" where
  "finding_label f = ''['' @ upper (fd_severity f) @ ''] '' @ fd_rule_id f @ spaced_dash @ finding_place f"

definition finding_details :: "Finding \<Rightarrow> string list" where
  "finding_details f =
     [severity_badge (fd_severity f) @ '' '' @ review_badge (fd_human_review_status f) @ '' &nbsp; **''
        @ fd_title f @ ''**'',
      fd_rule_id f @ middle_dot @ back_tick @ fd_source_relative_path f @ back_tick @ '', line ''
        @ show_int (fd_line_start f) @ middle_dot @ ''confidence '' @ fd_confidence f @ middle_dot
        @ ''domains: '' @ (if finding_domains f = [] then ''none'' else finding_domains f),
      ''**Evidence (masked)**'',
      fd_masked_evidence f,
      ''**Description:** '' @ fd_description f,
      ''**Impact:** '' @ fd_impact f,
      ''**Recommended action (advisory only):** '' @ fd_recommended_action f]
     @ (case fd_reviewed_by f of
          None \<Rightarrow> []
        | Some who \<Rightarrow> if who = [] then [] else
            [''Reviewed by '' @ who @ '' at ''
               @ (case fd_reviewed_at f of None \<Rightarrow> ''None'' | Some t \<Rightarrow> str_time 19 t) @ '' UTC''])"

definition trace_json :: "TraceabilityRecord \<Rightarrow> json" where
  "trace_json trace =
     JObj [(''control_ids'', JList (map JStr (tr_control_ids trace))),
           (''control_evaluation_statuses'',
              JObj (map (\<lambda>(k, v). (k, JStr v)) (tr_control_evaluation_statuses trace))),
           (''evidence_ids'', JList (map JStr (tr_evidence_ids trace))),
           (''domain_scores'', JObj (map (\<lambda>(d, z). (d, JObj
              [(''decision_category'', JStr (dz_decision_category z)),
               (''weighted_score'', json_float_opt (dz_weighted_score z)),
               (''confidence_level'', JStr (dz_confidence_level z))])) (tr_domain_scores trace))),
           (''recommendation_ids'', JList (map JStr (tr_recommendation_ids trace)))]"

section \<open>Controls\<close>

definition control_domains :: "ControlEvaluation list \<Rightarrow> string list" where
  "control_domains evaluations = sorted_set (map ce_domain evaluations)"

definition control_statuses :: "ControlEvaluation list \<Rightarrow> string list" where
  "control_statuses evaluations = sorted_set (map ce_status evaluations)"

text \<open>\<open>catalog.get(ce.control_id, fallback)\<close>: the catalog has no entry for \<open>None\<close>.\<close>

definition control_name :: "(string \<times> string \<times> string) list \<Rightarrow> string option \<Rightarrow> string \<times> string" where
  "control_name catalog control_id =
     (case Option.bind control_id (map_of catalog) of
        Some entry \<Rightarrow> entry
      | None \<Rightarrow> (case control_id of None \<Rightarrow> ''N/A'' | Some i \<Rightarrow> if i = [] then ''N/A'' else i, []))"

definition control_row :: "(string \<times> string \<times> string) list \<Rightarrow> ControlEvaluation \<Rightarrow> view_row" where
  "control_row catalog ce =
     [(''Domain'', JStr (domain_label (ce_domain ce))),
      (''Control'', JStr (fst (control_name catalog (ce_control_id ce)))),
      (''Title'', JStr (snd (control_name catalog (ce_control_id ce)))),
      (''Status'', JStr (humanize (ce_status ce))),
      (''Findings'', JInt (int (length (ce_finding_ids ce))))]"

definition control_rows ::
  "(string \<times> string \<times> string) list \<Rightarrow> string list \<Rightarrow> string list \<Rightarrow> ControlEvaluation list \<Rightarrow> view_row list" where
  "control_rows catalog domain_filter status_filter evaluations =
     map (control_row catalog)
       (filter (\<lambda>ce. (domain_filter = [] \<or> ce_domain ce \<in> set domain_filter)
                   \<and> (status_filter = [] \<or> ce_status ce \<in> set status_filter))
         (order_by (\<lambda>ce. (ce_domain ce, ce_status ce)) evaluations))"

section \<open>Comparison\<close>

text \<open>
  Which two assessments the boxes show first: the active one (else the newest) and, before it, the newest
  older one of the same source, else any other.
\<close>

definition default_current :: "ScanSummaryRow list \<Rightarrow> string option \<Rightarrow> string" where
  "default_current scans active =
     (let ids = map sw_scan_id scans
      in case active of
           Some i \<Rightarrow> if i \<in> set ids then i else hd ids
         | None \<Rightarrow> hd ids)"

definition default_baseline :: "ScanSummaryRow list \<Rightarrow> string \<Rightarrow> string option" where
  "default_baseline scans current =
     (let chosen = map_of (rev (map (\<lambda>s. (sw_scan_id s, s)) scans)) current;
          older = filter (\<lambda>s. case chosen of None \<Rightarrow> False
            | Some c \<Rightarrow> sw_source_path s = sw_source_path c \<and> sw_created_at s < sw_created_at c) scans
      in if older \<noteq> [] then Some (sw_scan_id (hd older))
         else find (\<lambda>i. i \<noteq> current) (map sw_scan_id scans))"

definition changed_domains :: "ScanComparison \<Rightarrow> DomainScoreChange list" where
  "changed_domains comparison =
     filter (\<lambda>c. category_changed c \<or> (case score_delta c of None \<Rightarrow> False | Some d \<Rightarrow> d \<noteq> 0))
       (cm_domain_changes comparison)"

definition comparison_metrics :: "ScanComparison \<Rightarrow> (string \<times> string) list" where
  "comparison_metrics comparison =
     [(''New findings'', show_len (cm_new_findings comparison)),
      (''Resolved findings'', show_len (cm_resolved_findings comparison)),
      (''Unchanged findings'', show_len (cm_unchanged_findings comparison)),
      (''Domains changed'', show_len (changed_domains comparison))]"

definition finding_ref_row :: "FindingRef \<Rightarrow> view_row" where
  "finding_ref_row r =
     [(''Severity'', JStr (upper (FindingRef.fr_severity r))), (''Rule'', JStr (FindingRef.fr_rule_id r)),
      (''Title'', JStr (FindingRef.fr_title r)), (''File'', JStr (FindingRef.fr_source_relative_path r)),
      (''Line'', JInt (FindingRef.fr_line_start r)),
      (''Review'', JStr (humanize (FindingRef.fr_human_review_status r)))]"

text \<open>A tab of findings: its table, or the text that says there are none.\<close>

definition findings_tab :: "FindingRef list \<Rightarrow> string \<Rightarrow> string + view_row list" where
  "findings_tab refs otherwise = (if refs = [] then Inl otherwise else Inr (map finding_ref_row refs))"

definition category_cell :: "string option \<Rightarrow> json" where
  "category_cell category =
     JStr (case category of None \<Rightarrow> em_dash | Some c \<Rightarrow> if c = [] then em_dash else humanize c)"

definition domain_change_row :: "DomainScoreChange \<Rightarrow> view_row" where
  "domain_change_row c =
     [(''Domain'', JStr (domain_label (dc_domain c))),
      (''Baseline'', category_cell (dc_baseline_category c)),
      (''Current'', category_cell (dc_current_category c)),
      (''Baseline score'', json_float_opt (dc_baseline_weighted c)),
      (''Current score'', json_float_opt (dc_current_weighted c)),
      (''Change'', json_float_opt (score_delta c))]"

record comparison_view =
  cv_metrics :: "(string \<times> string) list"
  cv_new :: "string + view_row list"
  cv_resolved :: "string + view_row list"
  cv_unchanged :: "string + view_row list"
  cv_domains :: "view_row list"

definition comparison_content :: "ScanComparison \<Rightarrow> comparison_view" where
  "comparison_content comparison =
     \<lparr>cv_metrics = comparison_metrics comparison,
      cv_new = findings_tab (cm_new_findings comparison) ''No new findings.'',
      cv_resolved = findings_tab (cm_resolved_findings comparison) ''No findings were resolved.'',
      cv_unchanged = findings_tab (cm_unchanged_findings comparison) ''No findings carried over.'',
      cv_domains = map domain_change_row (cm_domain_changes comparison)\<rparr>"

section \<open>Review queue\<close>

definition review_queue :: "Finding list \<Rightarrow> Finding list" where
  "review_queue findings =
     order_by (\<lambda>f. (severity_rank (fd_severity f), fd_rule_id f)) (pending_findings findings)"

definition queue_row :: "Finding \<Rightarrow> view_row" where
  "queue_row f =
     [(''Severity'', JStr (upper (fd_severity f))), (''Rule'', JStr (fd_rule_id f)),
      (''File'', JStr (fd_source_relative_path f)), (''Line'', JInt (fd_line_start f))]"

definition finalization_lines :: "FinalizationCheckResult option \<Rightarrow> string list" where
  "finalization_lines checked =
     (case checked of
        None \<Rightarrow> []
      | Some check \<Rightarrow>
          if fz_can_finalize check
          then [''This assessment CAN be finalized'' @ spaced_dash @ ''no high/critical-risk domain has a pending review.'']
          else ''This assessment CANNOT be finalized yet:'' # map (\<lambda>b. ''- '' @ fb_reason b) (fz_blockers check))"

definition read_only_note :: "Role \<Rightarrow> string" where
  "read_only_note role =
     ''You have read-only access to governance. Finding reviews and score overrides are made by a Manager''
     @ (if Role_value role = ''admin''
        then spaced_dash @ ''administrators manage accounts but do not make governance decisions.'' else ''.'')"

text \<open>Decisions the form offers, the first one chosen.\<close>

definition REVIEW_CHOICES :: "string list" where
  "REVIEW_CHOICES = map HumanReviewStatus_value
     [HumanReviewStatus.APPROVED, HumanReviewStatus.REJECTED, HumanReviewStatus.OVERRIDDEN]"

definition domain_score_line :: "string \<times> Score \<Rightarrow> string" where
  "domain_score_line ds =
     (case ds of (domain, s) \<Rightarrow>
        decision_badge (so_decision_category s) @ '' **'' @ domain_label domain @ ''**'' @ spaced_dash
        @ ''weighted '' @ str_float (so_weighted_score s))"

definition score_lines :: "(string \<times> Score) list \<Rightarrow> string list" where
  "score_lines current = map domain_score_line (order_by fst current)"

definition score_label :: "Score \<Rightarrow> string" where
  "score_label s =
     domain_label (so_domain s) @ spaced_dash @ humanize (so_decision_category s) @ '' (weighted=''
     @ str_float (so_weighted_score s) @ '')''"

definition audit_trail_row :: "AuditEvent \<Rightarrow> view_row" where
  "audit_trail_row e =
     [(''Time (UTC)'', JStr (str_time 19 (ae_created_at e))), (''Event'', JStr (humanize (ae_event_type e))),
      (''Actor'', JStr (ae_actor e)), (''Summary'', JStr (ae_summary e))]"

section \<open>Reports\<close>

record download =
  dl_format :: string
  dl_label :: string
  dl_data :: string
  dl_file_name :: string
  dl_mime :: string

text \<open>\<open>title.split(" (")[-1].rstrip(")")\<close> is the format's name.\<close>

definition report_downloads :: "string \<Rightarrow> AssessmentExport \<Rightarrow> download list" where
  "report_downloads scan_id exports =
     [\<lparr>dl_format = ''json'', dl_label = ''Download JSON'', dl_data = ex_json exports,
       dl_file_name = ''assessment_'' @ scan_id @ ''.json'', dl_mime = ''application/json''\<rparr>,
      \<lparr>dl_format = ''markdown'', dl_label = ''Download Markdown'', dl_data = ex_markdown exports,
       dl_file_name = ''assessment_'' @ scan_id @ ''.md'', dl_mime = ''text/markdown''\<rparr>,
      \<lparr>dl_format = ''findings_csv'', dl_label = ''Download CSV'', dl_data = ex_findings_csv exports,
       dl_file_name = ''findings_'' @ scan_id @ ''.csv'', dl_mime = ''text/csv''\<rparr>,
      \<lparr>dl_format = ''scores_csv'', dl_label = ''Download CSV'', dl_data = ex_scores_csv exports,
       dl_file_name = ''scores_'' @ scan_id @ ''.csv'', dl_mime = ''text/csv''\<rparr>]"

definition quick_scan_downloads :: "string \<Rightarrow> string \<times> string \<Rightarrow> download list" where
  "quick_scan_downloads scan_id exports =
     [\<lparr>dl_format = ''quick_scan_json'', dl_label = ''Download JSON'', dl_data = fst exports,
       dl_file_name = ''scan_'' @ scan_id @ ''.json'', dl_mime = ''application/json''\<rparr>,
      \<lparr>dl_format = ''quick_scan_markdown'', dl_label = ''Download Markdown'', dl_data = snd exports,
       dl_file_name = ''scan_'' @ scan_id @ ''.md'', dl_mime = ''text/markdown''\<rparr>]"

section \<open>Audit log\<close>

text \<open>\<open>json.dumps(payload)\<close> on one line.\<close>

primrec dump_line :: "json \<Rightarrow> string" where
  "dump_line JNull = ''null''"
| "dump_line (JBool b) = (if b then ''true'' else ''false'')"
| "dump_line (JInt i) = show_int i"
| "dump_line (JFloat x) = show_float x"
| "dump_line (JStr s) = json_string s"
| "dump_line (JList vs) = ''['' @ join '', '' (map dump_line vs) @ '']''"
| "dump_line (JObj kvs) =
     ''{'' @ join '', '' (map (\<lambda>kv. json_string (fst kv) @ '': '' @ snd kv) (map (map_prod id dump_line) kvs)) @ ''}''"

record audit_filter =
  af_types :: "string list"
  af_actor :: string
  af_scan :: string

definition event_selected :: "audit_filter \<Rightarrow> AuditEvent \<Rightarrow> bool" where
  "event_selected chosen e =
     ((af_types chosen = [] \<or> ae_event_type e \<in> set (af_types chosen))
      \<and> (af_actor chosen = [] \<or> contains (lower (af_actor chosen)) (lower (ae_actor e)))
      \<and> (af_scan chosen = [] \<or> contains (lower (af_scan chosen))
           (lower (case ae_scan_id e of None \<Rightarrow> [] | Some i \<Rightarrow> i))))"

definition audit_log_row :: "AuditEvent \<Rightarrow> view_row" where
  "audit_log_row e =
     audit_trail_row e
     @ [(''Scan'', JStr (case ae_scan_id e of None \<Rightarrow> [] | Some i \<Rightarrow> i)),
        (''Details'', JStr (if ae_payload e = [] then [] else dump_line (JObj (ae_payload e))))]"

section \<open>Users\<close>

definition user_row :: "UserView \<Rightarrow> view_row" where
  "user_row u =
     [(''Username'', JStr (uv_username u)), (''Name'', JStr (uv_display_name u)),
      (''Role'', JStr (capitalize (Role_value (uv_role u)))), (''Active'', JBool (uv_is_active u)),
      (''Locked'', JBool (uv_is_locked u)), (''Must change password'', JBool (uv_must_change_password u)),
      (''Last sign-in (UTC)'',
         JStr (case uv_last_login_at u of None \<Rightarrow> ''never'' | Some t \<Rightarrow> str_time 16 t))]"

definition account_label :: "UserView \<Rightarrow> string" where
  "account_label u =
     uv_username u @ spaced_dash @ Role_value (uv_role u) @ '' (''
     @ (if uv_is_active u then ''active'' else ''inactive'') @ '')''"

definition other_accounts :: "Principal \<Rightarrow> UserView list \<Rightarrow> UserView list" where
  "other_accounts p = filter (\<lambda>u. uv_user_id u \<noteq> pr_user_id p)"

section \<open>Run and history\<close>

definition SOURCES :: "string list" where
  "SOURCES =
     [''Mock Banking System (demo)'', ''Reference Banking System (well-governed demo)'',
      ''Custom local directory'', ''Custom ZIP archive'']"

definition history_row :: "ScanSummaryRow \<Rightarrow> view_row" where
  "history_row s =
     [(''Run at'', JStr (replace_char (CHR ''T'') '' '' (take 19 (sw_created_at s)))),
      (''Source'', JStr (sw_source_path s)), (''Status'', JStr (humanize (sw_status s))),
      (''Findings'', JInt (sw_total_findings s)), (''Integrity verified'', JBool (sw_integrity_verified s)),
      (''Scan ID'', JStr (sw_scan_id s))]"

definition summary_metrics :: "AssessmentResult \<Rightarrow> (string \<times> string) list" where
  "summary_metrics result =
     [(''Findings'', show_len (am_findings result)),
      (''Domains scored'', show_len (remdups (map so_domain (am_scores result)))),
      (''Control evaluations'', show_len (am_control_evaluations result)),
      (''Recommendations'', show_len (am_recommendations result)),
      (''Audit events'', show_len (am_audit_events result))]"

record score_history =
  sh_title :: string
  sh_details :: string
  sh_rows :: "string list"

definition history_line :: "Score \<Rightarrow> string" where
  "history_line h =
     ''- '' @ back_tick @ so_id h @ back_tick @ '' (''
     @ (case so_override_of h of
          None \<Rightarrow> ''original''
        | Some i \<Rightarrow> if i = [] then ''original'' else ''override of '' @ back_tick @ i @ back_tick)
     @ ''): '' @ humanize (so_decision_category h) @ '', weighted='' @ str_float (so_weighted_score h)"

definition score_details :: "Score \<Rightarrow> string" where
  "score_details latest =
     decision_badge (so_decision_category latest) @ markdown_break
     @ ''**Raw score:** '' @ str_float (so_raw_score latest) @ middle_dot
     @ ''**Weighted score:** '' @ str_float (so_weighted_score latest) @ middle_dot
     @ ''**Confidence:** '' @ so_confidence_level latest @ middle_dot
     @ ''**Evidence completeness:** '' @ so_evidence_completeness latest @ markdown_break
     @ ''**Findings:** '' @ show_int (so_findings_count latest) @ middle_dot
     @ ''**Files evaluated:** '' @ show_int (so_files_evaluated latest)"

text \<open>The scores of each domain, oldest first; the newest one is in the title.\<close>

definition domain_scores :: "Score list \<Rightarrow> string \<Rightarrow> Score list" where
  "domain_scores scores domain =
     order_by (\<lambda>s. replace_char (CHR ''T'') '' '' (isoformat (so_calculated_at s)))
       (filter (\<lambda>s. so_domain s = domain) scores)"

definition domain_history :: "Score list \<Rightarrow> string \<Rightarrow> score_history" where
  "domain_history scores domain =
     (let rows = domain_scores scores domain; latest = last rows
      in \<lparr>sh_title = domain_label domain @ spaced_dash @ humanize (so_decision_category latest)
            @ '' (weighted: '' @ (case so_weighted_score latest of Some w \<Rightarrow> show_fixed1 w
                | None \<Rightarrow> ''N/A (insufficient evidence)'') @ '')'',
          sh_details = score_details latest,
          sh_rows = (if 1 < length rows then map history_line rows else [])\<rparr>)"

definition score_histories :: "Score list \<Rightarrow> score_history list" where
  "score_histories scores = map (domain_history scores) (sorted_set (map so_domain scores))"

section \<open>Quick scan\<close>

definition uses_container_scan_mounts :: "Settings \<Rightarrow> string \<Rightarrow> bool" where
  "uses_container_scan_mounts s mock_path =
     (startswith mock_path ''/''
      \<or> list_ex (\<lambda>p. startswith (replace_char (CHR 0x5C) ''/'' p) ''/scan-targets'') (st_allowed_scan_paths s))"

definition quick_scan_help :: "Settings \<Rightarrow> string \<Rightarrow> bool \<Rightarrow> string \<times> string" where
  "quick_scan_help s mock_path archive =
     (if uses_container_scan_mounts s mock_path
      then (let example = (if archive then ''/scan-targets/target-system.zip'' else mock_path)
            in (example, ''Running in Docker: scan targets must be bind-mounted into the app container. Example ''
                  @ (if archive then ''ZIP file'' else ''directory'') @ '' path: '' @ back_tick @ example @ back_tick @ ''.''))
      else (if archive then ''C:'' @ [CHR 0x5C] @ ''path'' @ [CHR 0x5C] @ ''to'' @ [CHR 0x5C] @ ''archive.zip''
            else ''C:'' @ [CHR 0x5C] @ ''path'' @ [CHR 0x5C] @ ''to'' @ [CHR 0x5C] @ ''project'',
            ''Enter a local directory or ZIP archive path inside one of the configured ALLOWED_SCAN_PATHS entries.''))"

definition quick_scan_metrics :: "ScanSummary \<Rightarrow> (string \<times> string) list" where
  "quick_scan_metrics summary =
     [(''Status'', ScanStatus_value (sm_status summary)),
      (''Files scanned'', show_int (sm_files_scanned summary)),
      (''Total findings'', show_int (sm_total_findings summary)),
      (''Source integrity verified'',
         if sm_integrity_verified summary then ''YES'' else ''NO'' @ spaced_dash @ ''SEE WARNINGS'')]"

definition quick_scan_row :: "NormalizedFinding \<Rightarrow> view_row" where
  "quick_scan_row n =
     [(''Severity'', JStr (upper (Severity_value (rf_severity (nf_raw n))))),
      (''Rule'', JStr (rf_rule_id (nf_raw n))), (''File'', JStr (nf_source_relative_path n)),
      (''Line'', JInt (rf_line_start (nf_raw n))),
      (''Evidence (masked)'', JStr (rf_masked_evidence (nf_raw n)))]"

definition quick_scan_rows :: "NormalizedFinding list \<Rightarrow> view_row list" where
  "quick_scan_rows findings =
     map quick_scan_row
       (order_by (\<lambda>n. (severity_rank (Severity_value (rf_severity (nf_raw n))), rf_rule_id (nf_raw n))) findings)"

section \<open>Assistant\<close>

definition assistant_notice :: "AgentStatus \<Rightarrow> string" where
  "assistant_notice status =
     (if gs_is_local status
      then ''**Mode: Local (no external AI provider)**'' @ spaced_dash @ gs_reason status
        @ ''. No data leaves this environment. Responses are deterministic, sanitized restatements of existing assessment data, not AI-generated prose.''
      else ''**Mode: External'' @ spaced_dash @ ''provider '' @ back_tick @ gs_provider status @ back_tick
        @ ''.** Sanitized, size-limited evidence for the action you trigger **may leave the local environment** and be sent to this provider. Nothing is sent until you click.'')"

definition response_lines :: "AgentResponse option \<Rightarrow> string list" where
  "response_lines answer =
     (case answer of
        None \<Rightarrow> [''Nothing to show for this selection.'']
      | Some r \<Rightarrow>
          (if rp_success r then []
           else [''Provider call failed (fell back to local): ''
                   @ (case rp_error r of None \<Rightarrow> ''None'' | Some e \<Rightarrow> e)])
          @ [''['' @ (if rp_is_local r then ''Local'' else ''External'' @ spaced_dash @ rp_provider_name r) @ ''] ''
               @ rp_disclaimer r,
             rp_content r])"

definition assistant_domains :: "AssessmentResult \<Rightarrow> string list" where
  "assistant_domains result =
     sorted_set (concat (map fd_banking_domains (am_findings result)) @ map so_domain (am_scores result))"

section \<open>System\<close>

text \<open>\<open>f"{n:,}"\<close>: groups of three digits.\<close>

fun grouped :: "string \<Rightarrow> string" where
  "grouped (a # b # c # d # rest) = a # b # c # CHR '','' # grouped (d # rest)"
| "grouped s = s"

definition thousands :: "int \<Rightarrow> string" where
  "thousands n = (if n < 0 then ''-'' else []) @ rev (grouped (rev (show_nat (nat \<bar>n\<bar>))))"

definition configuration_rows :: "Settings \<Rightarrow> (string \<times> string) list" where
  "configuration_rows s =
     [(''Application version'', st_app_version s),
      (''Environment'', st_environment s),
      (''Local-only mode'', py_bool (st_local_only_mode s)),
      (''External providers enabled'', py_bool (st_external_providers_enabled s)),
      (''Vector backend'', st_vector_backend s),
      (''AI Assistant provider'',
         st_agent_provider s @ '' (feature '' @ (if st_agent_enabled s then ''on'' else ''off'') @ '')''),
      (''Allowed scan paths'',
         (let paths = join '', '' (st_allowed_scan_paths s)
          in if paths = [] then ''(none'' @ spaced_dash @ ''scanning disabled)'' else paths)),
      (''Max file size scanned'', thousands (st_max_scan_file_size_bytes s) @ '' bytes''),
      (''Data retention (days)'',
         (case st_data_retention_days s of None \<Rightarrow> ''not configured'' | Some d \<Rightarrow> show_int d))]"

definition access_lines :: "Settings \<Rightarrow> string list" where
  "access_lines s =
     [''- Passwords: salted scrypt (N=2'' @ [CHR 0xB9, CHR 0xE2, CHR 0x81, CHR 0xB7] @ '', r=8, p=1), minimum ''
        @ show_int (st_password_min_length s) @ '' characters'',
      ''- Lockout: '' @ show_int MAX_FAILED_ATTEMPTS @ '' failed attempts '' @ [CHR 0xE2, CHR 0x86, CHR 0x92]
        @ '' '' @ show_int (LOCKOUT_DURATION div timedelta_minutes 1) @ '' minutes'',
      ''- Idle session timeout: '' @ show_int (st_session_idle_timeout_minutes s) @ '' minutes'',
      ''- Sessions are invalidated on deactivation, role change, and password reset'',
      ''- Every denied action is recorded in the audit log'',
      ''- Network exposure: localhost only (Docker ports bound to 127.0.0.1). Configure HTTPS before ''
        @ ''allowing access from any other computer.'']"

text \<open>One column per role, one row per permission.\<close>

definition permission_table :: "(string \<times> view_row) list" where
  "permission_table =
     map (\<lambda>p. (humanize (Permission_value p),
       map (\<lambda>role. (capitalize (Role_value role),
              JStr (if policy_can ROLE_PERMISSIONS role p then [CHR 0xE2, CHR 0x9C, CHR 0x93] else em_dash)))
         Role_members)) Permission_members"

section \<open>Own account\<close>

definition profile_lines :: "Principal \<Rightarrow> string list" where
  "profile_lines p =
     (if pr_must_change_password p
      then [''Your password was set by an administrator. Choose a new password to continue.'']
      else [''**'' @ pr_display_name p @ ''** '' @ role_badge (Role_value (pr_role p)),
            ''Username: '' @ pr_username p @ middle_dot @ ''signed in at ''
              @ str_time 16 (pr_authenticated_at p) @ '' UTC'',
            ''**What your role allows:** ''
              @ join '', '' (map (humanize \<circ> Permission_value)
                  (order_by Permission_value (filter (policy_can ROLE_PERMISSIONS (pr_role p)) Permission_members)))])"

section \<open>Facts\<close>

text \<open>Every value a box of the findings page offers finds something, chosen alone.\<close>

definition no_filter :: finding_filter where
  "no_filter = \<lparr>ff_severities = [], ff_domains = [], ff_rules = [], ff_reviews = [], ff_path = []\<rparr>"

lemma choices_find_something:
  "v \<in> set (ff_severities (finding_choices fs)) \<Longrightarrow> filter (finding_selected (no_filter\<lparr>ff_severities := [v]\<rparr>)) fs \<noteq> []"
  "v \<in> set (ff_domains (finding_choices fs)) \<Longrightarrow> filter (finding_selected (no_filter\<lparr>ff_domains := [v]\<rparr>)) fs \<noteq> []"
  "v \<in> set (ff_rules (finding_choices fs)) \<Longrightarrow> filter (finding_selected (no_filter\<lparr>ff_rules := [v]\<rparr>)) fs \<noteq> []"
  "v \<in> set (ff_reviews (finding_choices fs)) \<Longrightarrow> filter (finding_selected (no_filter\<lparr>ff_reviews := [v]\<rparr>)) fs \<noteq> []"
  by (auto simp: finding_choices_def finding_selected_def no_filter_def filter_empty_conv order_by_def)

text \<open>The domains of the score histories are those with a score, each once, and a history shows them all.\<close>

lemma domain_scores_set: "set (domain_scores scores domain) = {s \<in> set scores. so_domain s = domain}"
  by (auto simp: domain_scores_def order_by_def)

text \<open>The boxes of the comparison never start with the same assessment twice.\<close>

lemma default_baseline_other:
  assumes "distinct (map sw_scan_id scans)" and "1 < length scans" and "current \<in> set (map sw_scan_id scans)"
  shows "\<exists>i. default_baseline scans current = Some i \<and> i \<in> set (map sw_scan_id scans) \<and> i \<noteq> current"
proof -
  obtain c where c: "c \<in> set scans" "sw_scan_id c = current" using assms(3) by auto
  then have chosen: "map_of (rev (map (\<lambda>s. (sw_scan_id s, s)) scans)) current = Some c"
    using assms(1) by (intro map_of_is_SomeI) (auto simp: rev_map [symmetric] comp_def)
  let ?older = "filter (\<lambda>s. sw_source_path s = sw_source_path c \<and> sw_created_at s < sw_created_at c) scans"
  show ?thesis
  proof (cases "?older")
    case (Cons w rest)
    then have "w \<in> set ?older" by simp
    then have "w \<in> set scans" by simp
    moreover from \<open>w \<in> set ?older\<close> have "sw_scan_id w \<noteq> current"
      using c assms(1) by (auto simp: distinct_map inj_on_def)
    ultimately show ?thesis using Cons chosen by (auto simp: default_baseline_def Let_def)
  next
    case Nil
    have "\<exists>i \<in> set (map sw_scan_id scans). i \<noteq> current"
    proof (rule ccontr)
      assume "\<not> ?thesis"
      then have "set (map sw_scan_id scans) \<subseteq> {current}" by blast
      then have "card (set (map sw_scan_id scans)) \<le> card {current}" by (rule card_mono [rotated]) simp
      with distinct_card [OF assms(1)] assms(2) show False by simp
    qed
    then obtain i where "find (\<lambda>i. i \<noteq> current) (map sw_scan_id scans) = Some i"
      by (metis (mono_tags, lifting) find_None_iff not_None_eq)
    with Nil chosen show ?thesis by (auto simp: default_baseline_def Let_def find_Some_iff)
  qed
qed

end
