(* ===== verification/Shell.thy ===== *)
theory Shell
  imports Secured Exports
begin

text \<open>
  The authenticated user interface, as far as it decides what a browser session may do:
  \<^verbatim>\<open>ui/app_context.py\<close> (the session state, the guard of every page, \<open>run_action\<close>), \<^verbatim>\<open>ui/shell.py\<close>
  (which pages exist) and the handlers of the sign-in, account and sign-out controls. What Streamlit
  draws is not modelled, except the messages. Streamlit ends a run early by raising control exceptions
  that no \<open>except Exception\<close> of the code catches; a run is a value of type \<open>flow\<close>.
\<close>

section \<open>Session state\<close>

record browser =
  bs_principal :: "Principal option"
  bs_notice :: "string option"
  bs_scan :: "string option"
  bs_flash :: "string option"
  bs_quick_scan :: "ScanResult option"
  bs_shown :: "string list" \<comment> \<open>messages of this run\<close>

datatype 'a flow = Continue 'a | Stopped | Rerun | Raised error

type_synonym ('a, 'w) page = "browser \<times> 'w \<Rightarrow> 'a flow \<times> browser \<times> 'w"

text \<open>What follows a part of a run that did not end it.\<close>

definition proceed :: "'a flow \<times> 's \<Rightarrow> ('a \<Rightarrow> 's \<Rightarrow> 'b flow \<times> 's) \<Rightarrow> 'b flow \<times> 's" where
  "proceed r k =
     (case r of
        (Continue a, s) \<Rightarrow> k a s
      | (Stopped, s) \<Rightarrow> (Stopped, s)
      | (Rerun, s) \<Rightarrow> (Rerun, s)
      | (Raised e, s) \<Rightarrow> (Raised e, s))"

lemma proceed_simps [simp]:
  "proceed (Continue a, s) k = k a s" "proceed (Stopped, s) k = (Stopped, s)"
  "proceed (Rerun, s) k = (Rerun, s)" "proceed (Raised e, s) k = (Raised e, s)"
  by (simp_all add: proceed_def)

definition cleared :: "browser \<Rightarrow> browser" where
  "cleared b = b\<lparr>bs_principal := None, bs_notice := None, bs_scan := None, bs_flash := None,
     bs_quick_scan := None\<rparr>"

definition start_session :: "Principal \<Rightarrow> browser \<Rightarrow> browser" where
  "start_session p b = (cleared b)\<lparr>bs_principal := Some p\<rparr>"

definition end_session :: "string \<Rightarrow> browser \<Rightarrow> browser" where
  "end_session notice b = (if notice = [] then cleared b else (cleared b)\<lparr>bs_notice := Some notice\<rparr>)"

definition show_message :: "string \<Rightarrow> browser \<Rightarrow> browser" where
  "show_message text b = b\<lparr>bs_shown := bs_shown b @ [text]\<rparr>"

definition set_active_scan :: "string option \<Rightarrow> browser \<Rightarrow> browser" where
  "set_active_scan scan_id b = b\<lparr>bs_scan := scan_id\<rparr>"

definition flash :: "string \<Rightarrow> browser \<Rightarrow> browser" where
  "flash message b = b\<lparr>bs_flash := Some message\<rparr>"

definition show_flash :: "browser \<Rightarrow> browser" where
  "show_flash b =
     (case bs_flash b of
        None \<Rightarrow> b
      | Some message \<Rightarrow>
          (let b = b\<lparr>bs_flash := None\<rparr> in if message = [] then b else show_message message b))"

section \<open>Actions\<close>

definition refresh_session :: "Authorizer \<Rightarrow> (Principal option, platform) page" where
  "refresh_session az bp =
     (case bp of (b, pf) \<Rightarrow>
        case bs_principal b of
          None \<Rightarrow> (Continue None, b, pf)
        | Some p \<Rightarrow>
            (case validate_session (az_auth az) p pf of
               (Inr p', pf') \<Rightarrow> (Continue (Some p'), b\<lparr>bs_principal := Some p'\<rparr>, pf')
             | (Inl e, pf') \<Rightarrow>
                 if isinstance e AuthenticationError then (Continue None, end_session (err_msg e) b, pf')
                 else (Raised e, b, pf')))"

definition operation_failed_message :: "string \<Rightarrow> string" where
  "operation_failed_message action = action @ '' '' @ em_dash @ '' see application logs for details.''"

definition USER_FACING_ERRORS :: "err_class list" where
  "USER_FACING_ERRORS = [AuthorizationError, UserAdministrationError, IncompatibleScansError, GovernanceError]"

text \<open>\<open>Continue None\<close>: the call failed and a message is shown.\<close>

definition run_action :: "string \<Rightarrow> ('w \<Rightarrow> 'a result \<times> 'w) \<Rightarrow> ('a option, 'w) page" where
  "run_action action fn bp =
     (case bp of (b, pf) \<Rightarrow>
        case fn pf of
          (Inr a, pf') \<Rightarrow> (Continue (Some a), b, pf')
        | (Inl e, pf') \<Rightarrow>
            if isinstance e AuthenticationError then (Rerun, end_session (err_msg e) b, pf')
            else if isinstance e AuthorizationError then (Continue None, show_message (err_msg e) b, pf')
            else if list_ex (isinstance e) USER_FACING_ERRORS
            then (Continue None, show_message (action @ '' '' @ em_dash @ '' '' @ err_msg e) b, pf')
            else (Continue None, show_message (operation_failed_message (action @ '' failed'')) b, pf'))"

definition page_setup :: "Authorizer \<Rightarrow> Permission option \<Rightarrow> (Principal, platform) page" where
  "page_setup az permission bp =
     (case bp of (b, pf) \<Rightarrow>
        case bs_principal b of
          None \<Rightarrow> (Stopped, b, pf)
        | Some p \<Rightarrow>
            proceed
              (case permission of
                 None \<Rightarrow> run_action ''Session check'' (validate_session (az_auth az) p) (b, pf)
               | Some perm \<Rightarrow>
                   run_action ''Access check''
                     (require az p perm (''open this page ('' @ Permission_value perm @ '')'') None) (b, pf))
              (\<lambda>refreshed (b, pf).
                 case refreshed of
                   None \<Rightarrow> (Stopped, b, pf)
                 | Some p' \<Rightarrow> (Continue p', b\<lparr>bs_principal := Some p'\<rparr>, pf)))"

section \<open>Navigation\<close>

record ui_page =
  pg_section :: string
  pg_script :: string
  pg_title :: string
  pg_permission :: "Permission option"

definition PAGES :: "ui_page list" where
  "PAGES =
     [\<lparr>pg_section = ''Overview'', pg_script = ''views/dashboard.py'', pg_title = ''Dashboard'', pg_permission = Some VIEW_ASSESSMENTS\<rparr>,
      \<lparr>pg_section = ''Assessments'', pg_script = ''views/assessments.py'', pg_title = ''Run & History'', pg_permission = Some VIEW_ASSESSMENTS\<rparr>,
      \<lparr>pg_section = ''Assessments'', pg_script = ''views/findings.py'', pg_title = ''Findings'', pg_permission = Some VIEW_ASSESSMENTS\<rparr>,
      \<lparr>pg_section = ''Assessments'', pg_script = ''views/controls.py'', pg_title = ''Controls'', pg_permission = Some VIEW_ASSESSMENTS\<rparr>,
      \<lparr>pg_section = ''Assessments'', pg_script = ''views/compare.py'', pg_title = ''Compare'', pg_permission = Some VIEW_ASSESSMENTS\<rparr>,
      \<lparr>pg_section = ''Assessments'', pg_script = ''views/quick_scan.py'', pg_title = ''Quick Scan'', pg_permission = Some RUN_QUICK_SCAN\<rparr>,
      \<lparr>pg_section = ''Assessments'', pg_script = ''views/ai_assistant.py'', pg_title = ''AI Assistant'', pg_permission = Some USE_AI_ASSISTANT\<rparr>,
      \<lparr>pg_section = ''Governance'', pg_script = ''views/review_queue.py'', pg_title = ''Review Queue'', pg_permission = Some VIEW_ASSESSMENTS\<rparr>,
      \<lparr>pg_section = ''Governance'', pg_script = ''views/reports.py'', pg_title = ''Reports'', pg_permission = Some EXPORT_REPORTS\<rparr>,
      \<lparr>pg_section = ''Governance'', pg_script = ''views/audit_log.py'', pg_title = ''Audit Log'', pg_permission = Some VIEW_AUDIT_LOG\<rparr>,
      \<lparr>pg_section = ''Administration'', pg_script = ''views/users.py'', pg_title = ''Users'', pg_permission = Some MANAGE_USERS\<rparr>,
      \<lparr>pg_section = ''Administration'', pg_script = ''views/system.py'', pg_title = ''System'', pg_permission = Some VIEW_SYSTEM_INFO\<rparr>,
      \<lparr>pg_section = ''Account'', pg_script = ''views/account.py'', pg_title = ''My Account'', pg_permission = None\<rparr>,
      \<lparr>pg_section = ''Account'', pg_script = ''views/help.py'', pg_title = ''Help & About'', pg_permission = None\<rparr>]"

definition page_allowed :: "Authorizer \<Rightarrow> Principal \<Rightarrow> ui_page \<Rightarrow> bool" where
  "page_allowed az p page =
     (case pg_permission page of None \<Rightarrow> True | Some perm \<Rightarrow> authorizer_can az (Some p) perm)"

text \<open>What a run of the application offers; the pages keep the order of the sections.\<close>

datatype view = SignInPage | ChangePasswordPage | Pages Principal "ui_page list"

definition NOT_CONFIGURED :: string where
  "NOT_CONFIGURED = ''DATABASE_URL is not configured. Sign-in, roles, and the audit trail require the platform database ''
     @ em_dash @ '' see README.md ('' @ [dquote] @ ''Run it'' @ [dquote] @ '').''"

definition run_app :: "Authorizer \<Rightarrow> (view, platform) page" where
  "run_app az bp =
     (case bp of (b, pf) \<Rightarrow>
        if \<not> truthy (st_database_url (settings_of az)) then (Stopped, show_message NOT_CONFIGURED b, pf)
        else proceed (refresh_session az (b, pf)) (\<lambda>refreshed (b, pf).
          case refreshed of
            None \<Rightarrow> (Continue SignInPage, b, pf)
          | Some p \<Rightarrow>
              if pr_must_change_password p then (Continue ChangePasswordPage, b, pf)
              else (Continue (Pages p (filter (page_allowed az p) PAGES)), b, pf)))"

section \<open>Signing in and out, changing the password\<close>

text \<open>The sign-in form (\<^verbatim>\<open>ui/views/login.py\<close>) submitted.\<close>

definition sign_in_submitted :: "Authorizer \<Rightarrow> string \<Rightarrow> string \<Rightarrow> (unit, platform) page" where
  "sign_in_submitted az username password bp =
     (case bp of (b, pf) \<Rightarrow>
        if strip username = [] \<or> password = []
        then (Continue (), show_message ''Enter your username and password.'' b, pf)
        else (case login (az_auth az) username password pf of
                (Inr p, pf') \<Rightarrow> (Rerun, start_session p b, pf')
              | (Inl e, pf') \<Rightarrow>
                  if isinstance e AuthenticationError then (Continue (), show_message (err_msg e) b, pf')
                  else (Continue (), show_message
                          (operation_failed_message ''Sign-in is temporarily unavailable'') b, pf')))"

text \<open>A run of the page: a notice left by the session that ended is shown once, then the form is handled.\<close>

definition login_page :: "Authorizer \<Rightarrow> (string \<times> string) option \<Rightarrow> (unit, platform) page" where
  "login_page az submitted bp =
     (case bp of (b, pf) \<Rightarrow>
        let notice = bs_notice b;
            b = b\<lparr>bs_notice := None\<rparr>;
            b = (case notice of None \<Rightarrow> b | Some text \<Rightarrow> if text = [] then b else show_message text b)
        in case submitted of
             None \<Rightarrow> (Continue (), b, pf)
           | Some (username, password) \<Rightarrow> sign_in_submitted az username password (b, pf))"

text \<open>\<open>_sign_out\<close> of \<^verbatim>\<open>ui/components/layout.py\<close>: the session ends even when recording fails.\<close>

definition sign_out :: "Authorizer \<Rightarrow> Principal \<Rightarrow> (unit, platform) page" where
  "sign_out az p bp =
     (case bp of (b, pf) \<Rightarrow>
        case logout (az_auth az) p pf of
          (Inr _, pf') \<Rightarrow> (Continue (), end_session ''You have signed out.'' b, pf')
        | (Inl e, pf') \<Rightarrow> (Raised e, end_session ''You have signed out.'' b, pf'))"

text \<open>The form of \<^verbatim>\<open>ui/views/account.py\<close> submitted, after its page was set up for \<open>p\<close>.\<close>

definition change_password_submitted ::
  "Authorizer \<Rightarrow> Principal \<Rightarrow> string \<Rightarrow> string \<Rightarrow> string \<Rightarrow> (unit, platform) page" where
  "change_password_submitted az p current new repeated bp =
     (case bp of (b, pf) \<Rightarrow>
        if new \<noteq> repeated then (Continue (), show_message ''The new passwords do not match.'' b, pf)
        else proceed
          (run_action ''Changing password'' (change_own_password (az_auth az) p current new) (b, pf))
          (\<lambda>updated (b, pf).
             case updated of
               None \<Rightarrow> (Continue (), b, pf)
             | Some p' \<Rightarrow> (Rerun, flash ''Password changed.'' (b\<lparr>bs_principal := Some p'\<rparr>), pf)))"

section \<open>What is offered and what is let through\<close>

definition offered :: "view flow \<Rightarrow> ui_page list" where
  "offered f = (case f of Continue (Pages p pages) \<Rightarrow> pages | _ \<Rightarrow> [])"

definition lets_through :: "'a flow \<Rightarrow> bool" where
  "lets_through f = (case f of Continue _ \<Rightarrow> True | _ \<Rightarrow> False)"

lemma session_errors: "isinstance session_expired_error AuthenticationError"
    "isinstance session_invalidated_error AuthenticationError"
    "err_msg session_expired_error \<noteq> []" "err_msg session_invalidated_error \<noteq> []"
  by (simp_all add: session_expired_error_def session_invalidated_error_def isinstance_def)

lemma refreshed_must_change [simp]:
  "pr_must_change_password (refreshed p u role t) = us_must_change_password u"
  by (simp add: refreshed_def)

lemma authorizer_can_refreshed:
  "authorizer_can az (Some (refreshed p u role t)) perm \<longleftrightarrow>
     \<not> us_must_change_password u \<and> policy_can (az_policy az) role perm"
  by (simp add: authorizer_can_def refreshed_def)

lemma permitted_current:
  assumes "session_current (az_auth az) p pf u" and "us_role u = Role_value role"
  shows "permitted az p perm pf \<longleftrightarrow> \<not> us_must_change_password u \<and> policy_can (az_policy az) role perm"
proof
  assume "permitted az p perm pf"
  then obtain u' role' where v: "session_current (az_auth az) p pf u'" "\<not> us_must_change_password u'"
    "us_role u' = Role_value role'" "policy_can (az_policy az) role' perm"
    unfolding permitted_def by blast
  have "u' = u" using v(1) assms(1) by (simp add: session_current_def)
  with v assms(2) have "role' = role" by simp
  with \<open>u' = u\<close> v show "\<not> us_must_change_password u \<and> policy_can (az_policy az) role perm" by simp
next
  assume "\<not> us_must_change_password u \<and> policy_can (az_policy az) role perm"
  with assms show "permitted az p perm pf" unfolding permitted_def by blast
qed

lemma permitted_has_current: "permitted az p perm pf \<Longrightarrow> \<exists>u. session_current (az_auth az) p pf u"
  unfolding permitted_def by blast

text \<open>A run of the application for a stored session.\<close>

lemma run_app_current:
  assumes "truthy (st_database_url (as_settings (az_auth az)))" and "bs_principal b = Some p"
    and "validate_session (az_auth az) p pf = (Inr q, pf)"
  shows "run_app az (b, pf) =
    (if pr_must_change_password q then (Continue ChangePasswordPage, b\<lparr>bs_principal := Some q\<rparr>, pf)
     else (Continue (Pages q (filter (page_allowed az q) PAGES)), b\<lparr>bs_principal := Some q\<rparr>, pf))"
  using assms by (simp add: run_app_def refresh_session_def settings_of_def)

lemma run_app_ended:
  assumes "truthy (st_database_url (as_settings (az_auth az)))" and "bs_principal b = Some p"
    and "fst (validate_session (az_auth az) p pf) = Inl e" and "isinstance e AuthenticationError"
  shows "run_app az (b, pf) =
    (Continue SignInPage, end_session (err_msg e) b, snd (validate_session (az_auth az) p pf))"
  using assms by (cases "validate_session (az_auth az) p pf")
    (simp add: run_app_def refresh_session_def settings_of_def)

lemma end_session_principal [simp]: "bs_principal (end_session notice b) = None"
  by (simp add: end_session_def cleared_def)

text \<open>The guard of a page.\<close>

lemma page_setup_permitted:
  assumes "bs_principal b = Some p" and "require az p perm (''open this page ('' @ Permission_value perm @ '')'') None pf = (Inr q, pf)"
  shows "page_setup az (Some perm) (b, pf) = (Continue q, b\<lparr>bs_principal := Some q\<rparr>, pf)"
  using assms by (simp add: page_setup_def run_action_def)

lemma page_setup_refused:
  assumes "bs_principal b = Some p"
    and "fst (require az p perm (''open this page ('' @ Permission_value perm @ '')'') None pf) = Inl e"
  shows "\<not> lets_through (fst (page_setup az (Some perm) (b, pf)))"
  using assms
  by (cases "require az p perm (''open this page ('' @ Permission_value perm @ '')'') None pf")
    (simp add: page_setup_def run_action_def lets_through_def)

lemma lets_through_iff:
  assumes "accessible az p pf" and "bs_principal b = Some p"
  shows "lets_through (fst (page_setup az (Some perm) (b, pf))) \<longleftrightarrow> permitted az p perm pf"
proof (cases "permitted az p perm pf")
  case True
  from access.pass [OF assms(1) True]
  obtain q where "require az p perm (''open this page ('' @ Permission_value perm @ '')'') None pf = (Inr q, pf)"
    by blast
  from page_setup_permitted [OF assms(2) this] True show ?thesis by (simp add: lets_through_def)
next
  case False
  with require_refused assms(1) obtain e where
    "fst (require az p perm (''open this page ('' @ Permission_value perm @ '')'') None pf) = Inl e"
    unfolding accessible_def by blast
  from page_setup_refused [OF assms(2) this] False show ?thesis by simp
qed


text \<open>Whether the navigation offers a page.\<close>

lemma offered_iff:
  assumes "accessible az p pf" and "bs_principal b = Some p" and "page \<in> set PAGES" and "pg_permission page = Some perm"
  shows "page \<in> set (offered (fst (run_app az (b, pf)))) \<longleftrightarrow> permitted az p perm pf"
proof (cases "\<exists>u. session_current (az_auth az) p pf u")
  case True
  with validate_session_cases assms(1) obtain u role where u: "session_current (az_auth az) p pf u"
    "us_role u = Role_value role" "validate_session (az_auth az) p pf = (Inr (refreshed p u role (now pf)), pf)"
    unfolding accessible_def by blast
  have db: "truthy (st_database_url (as_settings (az_auth az)))" using assms(1) by (simp add: accessible_def)
  show ?thesis
    using assms(3,4) run_app_current [OF db assms(2) u(3)] permitted_current [OF u(1,2)]
    by (simp add: offered_def page_allowed_def authorizer_can_refreshed)
next
  case False
  with validate_session_cases assms(1) obtain e where e: "fst (validate_session (az_auth az) p pf) = Inl e"
    "e \<in> {session_expired_error, session_invalidated_error}"
    unfolding accessible_def by blast
  have "isinstance e AuthenticationError" using e(2) session_errors by blast
  moreover have "truthy (st_database_url (as_settings (az_auth az)))" using assms(1) by (simp add: accessible_def)
  ultimately show ?thesis
    using run_app_ended [OF _ assms(2) e(1)] False permitted_has_current by (fastforce simp: offered_def)
qed

lemma run_app_no_session:
  assumes "accessible az p pf" and "bs_principal b = Some p" and "\<nexists>u. session_current (az_auth az) p pf u"
  shows "fst (run_app az (b, pf)) = Continue SignInPage \<and> bs_principal (fst (snd (run_app az (b, pf)))) = None"
proof -
  from assms(1,3) validate_session_cases obtain e where e: "fst (validate_session (az_auth az) p pf) = Inl e"
    "e \<in> {session_expired_error, session_invalidated_error}"
    unfolding accessible_def by blast
  have "isinstance e AuthenticationError" using e(2) session_errors by blast
  moreover have "truthy (st_database_url (as_settings (az_auth az)))" using assms(1) by (simp add: accessible_def)
  ultimately show ?thesis using run_app_ended [OF _ assms(2) e(1)] by simp
qed


end
