(* ===== verification/Pages.thy ===== *)
theory Pages
  imports Views Shell Pipeline
begin

text \<open>
  The pages of \<^verbatim>\<open>ui/views\<close> as runs of a script over the session state and the platform, and one
  request of a browser as \<open>run_app\<close> of \<^verbatim>\<open>ui/shell.py\<close> serves it: the callback of the pressed button, the
  session check, the sidebar, then the page. Streamlit runs the whole script for every interaction;
  what the user chose or pressed are the inputs of the run. A box returns one of its values, by
  default the first one; a button that is disabled is not pressed. The messages of a run are kept in
  order; what a page draws is the result of a run that reaches the end of its script.
\<close>

section \<open>The services of a page\<close>

text \<open>\<open>AppContext\<close>: every service is built on the authorizer. With it, what lies outside the platform: the
  reader of archives, the time an AI provider takes and the last probe of the database.\<close>

record AppContext =
  cx_authz :: Authorizer
  cx_zips :: zip_library
  cx_elapsed :: rat
  cx_reachable :: bool

definition cx_settings :: "AppContext \<Rightarrow> Settings" where
  "cx_settings cx = settings_of (cx_authz cx)"

definition cx_can :: "AppContext \<Rightarrow> Principal \<Rightarrow> Permission \<Rightarrow> bool" where
  "cx_can cx p permission = authorizer_can (cx_authz cx) (Some p) permission"

type_synonym 'a screen = "('a, platform world) page"

text \<open>A run that does not look at the host.\<close>

definition on_host :: "('a, platform) page \<Rightarrow> 'a screen" where
  "on_host run s = (case s of (b, pf, h) \<Rightarrow> (case run (b, pf) of (r, b', pf') \<Rightarrow> (r, b', pf', h)))"

text \<open>A path of the settings that depends on what is on the host.\<close>

definition located :: "(Settings \<Rightarrow> node \<Rightarrow> string list \<Rightarrow> string) \<Rightarrow> AppContext \<Rightarrow> string screen" where
  "located path cx s =
     (case s of (b, pf, h) \<Rightarrow>
        (case access h of (tree, h) \<Rightarrow> (Continue (path (cx_settings cx) tree (hs_cwd h)), b, pf, h)))"

definition set_up :: "AppContext \<Rightarrow> Permission option \<Rightarrow> Principal screen" where
  "set_up cx permission = on_host (page_setup (cx_authz cx) permission)"

definition action :: "string \<Rightarrow> (platform \<Rightarrow> 'a result \<times> platform) \<Rightarrow> 'a option screen" where
  "action name fn = run_action name (on_platform fn)"

definition tell :: "string \<Rightarrow> browser \<times> 'w \<Rightarrow> browser \<times> 'w" where
  "tell message = apfst (show_message message)"

definition stop :: "string \<Rightarrow> ('a, 'w) page" where
  "stop message s = (Stopped, tell message s)"

definition rerun_with :: "string \<Rightarrow> ('a, 'w) page" where
  "rerun_with message s = (Rerun, apfst (flash message) s)"

definition box_value :: "'v list \<Rightarrow> 'v \<Rightarrow> 'v option \<Rightarrow> 'v" where
  "box_value options shown chosen =
     (case chosen of None \<Rightarrow> shown | Some v \<Rightarrow> if v \<in> set options then v else shown)"

text \<open>A box over rows with distinct keys: the chosen row, or the first.\<close>

definition box_row :: "('r \<Rightarrow> string) \<Rightarrow> 'r list \<Rightarrow> string option \<Rightarrow> 'r" where
  "box_row key rows chosen =
     (case Option.bind chosen (\<lambda>i. get_row key i rows) of None \<Rightarrow> hd rows | Some r \<Rightarrow> r)"

section \<open>The frame of a page\<close>

definition render_sidebar :: "AppContext \<Rightarrow> Principal \<Rightarrow> string option \<Rightarrow> unit screen" where
  "render_sidebar cx p picked s =
     proceed (action ''Loading assessments'' (secured_list_recent_scans (cx_authz cx) p 50) s)
       (\<lambda>listed (b, w).
          case listed of
            None \<Rightarrow> (Continue (), b, w)
          | Some [] \<Rightarrow> (Continue (), b, w)
          | Some (scan # scans) \<Rightarrow>
              (let ids = map sw_scan_id (scan # scans);
                   known = (case bs_scan b of None \<Rightarrow> False | Some i \<Rightarrow> i \<in> set ids);
                   current = (if known then the (bs_scan b) else hd ids);
                   b = (if known then b else set_active_scan (Some current) b);
                   choice = box_value ids current picked
               in if choice \<noteq> current then (Rerun, set_active_scan (Some choice) b, w)
                  else (Continue (), b, w)))"

definition require_active_assessment :: "AppContext \<Rightarrow> Principal \<Rightarrow> AssessmentResult screen" where
  "require_active_assessment cx p s =
     (case bs_scan (fst s) of
        None \<Rightarrow> stop ''No assessment selected'' s
      | Some scan_id \<Rightarrow>
          if scan_id = [] then stop ''No assessment selected'' s
          else proceed (action ''Loading assessment'' (secured_get_assessment (cx_authz cx) p scan_id) s)
            (\<lambda>loaded s.
               case loaded of
                 None \<Rightarrow> (Stopped, s)
               | Some None \<Rightarrow> stop ''The selected assessment no longer exists. Pick another one in the sidebar.''
                   (apfst (set_active_scan None) s)
               | Some (Some result) \<Rightarrow> (Continue result, s)))"

section \<open>What pages draw\<close>

record dashboard_view =
  dv_metrics :: "(string \<times> string) list"
  dv_scores :: "score_bar list"
  dv_severities :: "(string \<times> string \<times> int) list"
  dv_assessment :: string
  dv_pending :: "string list"
  dv_review_note :: string
  dv_blockers :: "string list"
  dv_scope :: string
  dv_activity :: "string list"
  dv_attention :: "string list"

record findings_view =
  fv_caption :: string
  fv_rows :: "view_row list"
  fv_details :: "string list"
  fv_trace :: "json option"

record review_view =
  rv_finalization :: "string list"
  rv_note :: "string list"
  rv_pending :: string
  rv_rows :: "view_row list"
  rv_scores :: "string list"
  rv_audit :: "view_row list option"

record history_view =
  hv_rows :: "view_row list"
  hv_metrics :: "(string \<times> string) list"
  hv_decisions :: "(string \<times> int) list"
  hv_histories :: "score_history list"

record quick_scan_view =
  qv_help :: "string \<times> string"
  qv_metrics :: "(string \<times> string) list"
  qv_rows :: "view_row list"
  qv_downloads :: "download list"

datatype drawn_page =
    SignInDrawn
  | DashboardDrawn dashboard_view
  | FindingsDrawn findings_view
  | ControlsDrawn "(string \<times> int) list" string "view_row list"
  | CompareDrawn comparison_view
  | ReviewDrawn review_view
  | ReportsDrawn "download list"
  | AuditLogDrawn string "view_row list"
  | UsersDrawn "view_row list" "string list"
  | HistoryDrawn history_view
  | QuickScanDrawn quick_scan_view
  | AssistantDrawn string "string list" "string list"
  | SystemDrawn "string list" "(string \<times> string) list" "string list" "(string \<times> view_row) list"
  | AccountDrawn "string list"
  | HelpDrawn

section \<open>Reading pages\<close>

definition dashboard_page :: "AppContext \<Rightarrow> drawn_page screen" where
  "dashboard_page cx s =
     proceed (set_up cx (Some VIEW_ASSESSMENTS) s) (\<lambda>p s.
     proceed (require_active_assessment cx p s) (\<lambda>result s.
     proceed (action ''Finalization check''
        (secured_check_finalization (cx_authz cx) p (am_scan_id result)) s) (\<lambda>finalization s.
     proceed (action ''Loading activity'' (get_recent_activity (cx_authz cx) p 8) s) (\<lambda>events s.
       (let findings = am_findings result;
            scores = effective_scores (am_scores result);
            pending = pending_findings findings
        in (Continue (DashboardDrawn
             \<lparr>dv_metrics = dashboard_metrics result finalization,
              dv_scores = score_bars scores,
              dv_severities = severity_bars (map fd_severity findings),
              dv_assessment = assessment_panel (am_scan_row result),
              dv_pending = pending_lines pending,
              dv_review_note = (if pending = [] then ''Every finding in this assessment has been reviewed.''
                else if cx_can cx p REVIEW_FINDINGS then ''Review '' @ show_len pending @ '' pending finding(s)''
                else ''Findings are reviewed by a Manager.''),
              dv_blockers = blocker_lines finalization,
              dv_scope = (if cx_can cx p VIEW_AUDIT_LOG then ''Platform activity'' else ''Your recent activity''),
              dv_activity = (case events of None \<Rightarrow> [''No activity recorded yet.'']
                | Some es \<Rightarrow> if es = [] then [''No activity recorded yet.''] else activity_lines es),
              dv_attention = attention_lines scores\<rparr>), s))))))"

definition findings_page :: "AppContext \<Rightarrow> finding_filter \<Rightarrow> string option \<Rightarrow> bool \<Rightarrow> drawn_page screen" where
  "findings_page cx chosen selected trace_pressed s =
     proceed (set_up cx (Some VIEW_ASSESSMENTS) s) (\<lambda>p s.
     proceed (require_active_assessment cx p s) (\<lambda>result s.
       (let findings = sorted_findings (am_findings result);
            filtered = filter (finding_selected chosen) findings
        in if findings = [] then stop ''This assessment produced no findings.'' s
           else if filtered = [] then stop ''No findings match these filters.'' s
           else (let f = box_row fd_id filtered selected
             in proceed
                  (if trace_pressed
                   then action ''Traceability'' (secured_trace_finding (cx_authz cx) p (fd_id f)) s
                   else (Continue None, s))
                  (\<lambda>traced s.
                     (Continue (FindingsDrawn
                        \<lparr>fv_caption = ''Showing '' @ show_len filtered @ '' of '' @ show_len findings @ '' findings'',
                         fv_rows = map finding_table_row filtered,
                         fv_details = finding_details f,
                         fv_trace = map_option trace_json (Option.bind traced id)\<rparr>), s))))))"

definition controls_page :: "AppContext \<Rightarrow> string list \<Rightarrow> string list \<Rightarrow> drawn_page screen" where
  "controls_page cx domain_filter status_filter s =
     proceed (set_up cx (Some VIEW_ASSESSMENTS) s) (\<lambda>p s.
     proceed (require_active_assessment cx p s) (\<lambda>result s.
       (let evaluations = am_control_evaluations result
        in if evaluations = [] then stop ''No control evaluations were recorded for this assessment.'' s
           else proceed (action ''Loading control catalog'' (get_control_catalog (cx_authz cx) p) s) (\<lambda>loaded s.
             (let catalog = (case loaded of None \<Rightarrow> [] | Some entries \<Rightarrow> entries);
                  rows = control_rows catalog domain_filter status_filter evaluations
              in (Continue (ControlsDrawn (count_bars (counter (map ce_status evaluations)))
                    (show_len rows @ '' of '' @ show_len evaluations @ '' control results'') rows), s))))))"

definition compare_page :: "AppContext \<Rightarrow> string option \<Rightarrow> string option \<Rightarrow> bool \<Rightarrow> drawn_page screen" where
  "compare_page cx baseline_chosen current_chosen pressed s =
     proceed (set_up cx (Some VIEW_ASSESSMENTS) s) (\<lambda>p s.
     proceed (action ''Loading assessments'' (secured_list_recent_scans (cx_authz cx) p 100) s) (\<lambda>listed s.
       (let scans = (case listed of None \<Rightarrow> [] | Some rows \<Rightarrow> rows);
            ids = map sw_scan_id scans;
            current_default = default_current scans (bs_scan (fst s))
        in if length scans < 2 then stop ''Two assessments are needed'' s
           else (case default_baseline scans current_default of
             None \<Rightarrow> (Raised (Err PyException ''StopIteration''), s)
           | Some baseline_default \<Rightarrow>
               if \<not> pressed then (Stopped, s)
               else proceed (action ''Comparison'' (secured_compare_scans (cx_authz cx) p
                   (box_value ids baseline_default baseline_chosen)
                   (box_value ids current_default current_chosen)) s) (\<lambda>compared s.
                 case compared of
                   None \<Rightarrow> (Stopped, s)
                 | Some comparison \<Rightarrow>
                     (Continue (CompareDrawn (comparison_content comparison)),
                      (if cm_reordered comparison
                       then tell (''The selected baseline was the later run; the two were swapped so the ''
                              @ ''comparison reads earlier '' @ [CHR 0xE2, CHR 0x86, CHR 0x92] @ '' later.'') s
                       else s)))))))"

definition audit_log_page :: "AppContext \<Rightarrow> nat option \<Rightarrow> audit_filter \<Rightarrow> drawn_page screen" where
  "audit_log_page cx limit chosen s =
     proceed (set_up cx (Some VIEW_AUDIT_LOG) s) (\<lambda>p s.
     proceed (action ''Loading audit log''
        (get_platform_audit_log (cx_authz cx) p (box_value [100, 500, 2000] 500 limit)) s) (\<lambda>loaded s.
       case loaded of
         None \<Rightarrow> (Stopped, s)
       | Some [] \<Rightarrow> stop ''No audit events recorded yet.'' s
       | Some (event # later) \<Rightarrow>
           (let events = event # later; rows = map audit_log_row (filter (event_selected chosen) events)
            in (Continue (AuditLogDrawn
                  (show_len rows @ '' of '' @ show_len events @ '' loaded events. Entries are never edited or deleted.'')
                  rows), s))))"

definition reports_page :: "AppContext \<Rightarrow> drawn_page screen" where
  "reports_page cx s =
     proceed (set_up cx (Some EXPORT_REPORTS) s) (\<lambda>p s.
     proceed (require_active_assessment cx p s) (\<lambda>result s.
     proceed (action ''Preparing exports''
        (secured_export_assessment (cx_authz cx) p (am_scan_id result)) s) (\<lambda>prepared s.
       case prepared of
         None \<Rightarrow> (Stopped, s)
       | Some None \<Rightarrow> stop ''Nothing to export.'' s
       | Some (Some exports) \<Rightarrow> (Continue (ReportsDrawn (report_downloads (am_scan_id result) exports)), s))))"

definition system_page :: "AppContext \<Rightarrow> drawn_page screen" where
  "system_page cx s =
     proceed (set_up cx (Some VIEW_SYSTEM_INFO) s) (\<lambda>_ s.
       (Continue (SystemDrawn (status_badges (cx_settings cx) (cx_reachable cx)) (configuration_rows (cx_settings cx))
          (access_lines (cx_settings cx)) permission_table), s))"

definition help_page :: "AppContext \<Rightarrow> drawn_page screen" where
  "help_page cx s = proceed (set_up cx None s) (\<lambda>_ s. (Continue HelpDrawn, s))"

section \<open>Pages that change something\<close>

text \<open>A full assessment from the page \<open>Run & History\<close>: the chosen source, and whether it is an archive.\<close>

record run_input =
  ri_source_kind :: "string option"
  ri_path :: string
  ri_pressed :: bool

definition run_source :: "AppContext \<Rightarrow> run_input \<Rightarrow> (string \<times> bool) screen" where
  "run_source cx inp s =
     (let kind = box_value SOURCES (SOURCES ! 0) (ri_source_kind inp);
          demo = (\<lambda>source_path s. (Continue (source_path, False), s))
      in if kind = SOURCES ! 0 then proceed (located mock_banking_system_path cx s) demo
         else if kind = SOURCES ! 1 then proceed (located reference_banking_system_path cx s) demo
         else (Continue (ri_path inp, kind = SOURCES ! 3), s))"

definition run_form :: "AppContext \<Rightarrow> Principal \<Rightarrow> run_input \<Rightarrow> unit screen" where
  "run_form cx p inp s =
     proceed (run_source cx inp s) (\<lambda>(source_path, is_archive) s.
        if ri_pressed inp \<and> source_path \<noteq> []
        then proceed (run_action ''Assessment''
               (secured_run_new_assessment (cx_zips cx) (cx_authz cx) p source_path is_archive) s) (\<lambda>done s.
             case done of
               None \<Rightarrow> (Continue (), s)
             | Some result \<Rightarrow>
                 rerun_with (''Assessment complete'' @ spaced_dash @ show_len (am_findings result)
                     @ '' findings. It is now the active assessment.'')
                   (apfst (set_active_scan (Some (am_scan_id result))) s))
        else (Continue (), s))"

definition assessments_page :: "AppContext \<Rightarrow> run_input \<Rightarrow> string option \<Rightarrow> drawn_page screen" where
  "assessments_page cx inp picked s =
     proceed (set_up cx (Some VIEW_ASSESSMENTS) s) (\<lambda>p s.
     proceed (if cx_can cx p RUN_ASSESSMENT then run_form cx p inp s else (Continue (), s)) (\<lambda>_ s.
     proceed (action ''Loading assessments'' (secured_list_recent_scans (cx_authz cx) p 50) s) (\<lambda>listed s.
       (let scans = (case listed of None \<Rightarrow> [] | Some rows \<Rightarrow> rows);
            ids = map sw_scan_id scans;
            current = default_current scans (bs_scan (fst s));
            chosen = box_value ids current picked
        in if scans = [] then stop ''No assessments yet'' s
           else if chosen \<noteq> current then (Rerun, apfst (set_active_scan (Some chosen)) s)
           else proceed (action ''Loading assessment'' (secured_get_assessment (cx_authz cx) p chosen) s) (\<lambda>loaded s.
             case Option.bind loaded id of
               None \<Rightarrow> (Stopped, s)
             | Some result \<Rightarrow>
                 (Continue (HistoryDrawn
                    \<lparr>hv_rows = map history_row scans,
                     hv_metrics = summary_metrics result,
                     hv_decisions = count_bars (counter
                       (map (so_decision_category \<circ> snd) (effective_scores (am_scores result)))),
                     hv_histories = score_histories (am_scores result)\<rparr>), s))))))"

definition quick_scan_page :: "AppContext \<Rightarrow> bool \<Rightarrow> string \<Rightarrow> bool \<Rightarrow> drawn_page screen" where
  "quick_scan_page cx archive source_path pressed s =
     proceed (set_up cx (Some RUN_QUICK_SCAN) s) (\<lambda>p s.
     proceed (located mock_banking_system_path cx s) (\<lambda>mock_path s.
     proceed (if pressed \<and> source_path \<noteq> []
              then proceed (run_action ''Scan''
                     (secured_run_quick_scan (cx_zips cx) (cx_authz cx) p source_path archive) s) (\<lambda>scanned s.
                   (Continue (), apfst (\<lambda>b. b\<lparr>bs_quick_scan := scanned\<rparr>) s))
              else (Continue (), s)) (\<lambda>_ s.
       case bs_quick_scan (fst s) of
         None \<Rightarrow> (Stopped, s)
       | Some result \<Rightarrow>
           (let summary = rs_summary result
            in proceed
                 (if cx_can cx p EXPORT_REPORTS
                  then proceed (action ''Preparing export'' (secured_export_quick_scan (cx_authz cx) p result) s)
                         (\<lambda>prepared s.
                            (Continue (case prepared of None \<Rightarrow> []
                               | Some exports \<Rightarrow> quick_scan_downloads (sm_scan_id summary) exports), s))
                  else (Continue [], tell ''Report downloads are available to Managers and Administrators.'' s))
                 (\<lambda>downloads s.
                    (Continue (QuickScanDrawn
                       \<lparr>qv_help = quick_scan_help (cx_settings cx) mock_path archive,
                        qv_metrics = quick_scan_metrics summary,
                        qv_rows = quick_scan_rows (rs_findings result),
                        qv_downloads = downloads\<rparr>), s))))))"

text \<open>The four actions of the assistant.\<close>

datatype question =
    NoQuestion | ExplainFinding "string option" | SummarizeDomain "string option" | Ask string | ExecutiveSummary

definition asked :: "AppContext \<Rightarrow> Principal \<Rightarrow> AssessmentResult \<Rightarrow> question \<Rightarrow> string list screen" where
  "asked cx p result q s =
     (let az = cx_authz cx; scan_id = am_scan_id result; t = cx_elapsed cx;
          shown = (\<lambda>r s. (Continue (case r of None \<Rightarrow> [] | Some answer \<Rightarrow> response_lines answer), s))
      in case q of
           NoQuestion \<Rightarrow> (Continue [], s)
         | ExplainFinding chosen \<Rightarrow>
             if am_findings result = [] then (Continue [], s)
             else proceed (action ''Explain'' (secured_explain_finding az p scan_id
                    (fd_id (box_row fd_id (am_findings result) chosen)) t) s) shown
         | SummarizeDomain chosen \<Rightarrow>
             (let domains = assistant_domains result
              in if domains = [] then (Continue [], s)
                 else proceed (action ''Summarize'' (secured_summarize_domain az p scan_id
                        (box_value domains (hd domains) chosen) t) s) shown)
         | Ask text \<Rightarrow>
             if strip text = [] then (Continue [], s)
             else proceed (action ''Question could not be processed''
                    (secured_answer_question az p scan_id text t) s) (shown \<circ> map_option Some)
         | ExecutiveSummary \<Rightarrow>
             proceed (action ''Executive summary'' (secured_executive_summary az p scan_id t) s)
               (shown \<circ> map_option Some))"

definition ai_assistant_page :: "AppContext \<Rightarrow> question \<Rightarrow> drawn_page screen" where
  "ai_assistant_page cx q s =
     proceed (set_up cx (Some USE_AI_ASSISTANT) s) (\<lambda>p s.
     proceed (require_active_assessment cx p s) (\<lambda>result s.
     proceed (action ''Loading assistant status'' (secured_agent_status (cx_authz cx) p) s) (\<lambda>loaded s.
       case loaded of
         None \<Rightarrow> (Stopped, s)
       | Some status \<Rightarrow>
           proceed (asked cx p result q s) (\<lambda>answer s.
             (Continue (AssistantDrawn (assistant_notice status) (map (\<lambda>w. ''- '' @ w) (gs_warnings status))
                ((if am_findings result = [] then [''No findings to explain.''] else []) @ answer)), s)))))"

section \<open>Review queue\<close>

datatype decision_input =
    NoDecision
  | SubmitReview "string option" "string option" string
  | SubmitOverride "string option" "string option" string bool

text \<open>The review form: the decision is one of three or none; a ValueError could only come from another.\<close>

definition submit_review ::
  "AppContext \<Rightarrow> Principal \<Rightarrow> Finding \<Rightarrow> string option \<Rightarrow> string \<Rightarrow> unit screen" where
  "submit_review cx p f decision reason s =
     (case decision of
        None \<Rightarrow> (Continue (), tell ''Choose a decision.'' s)
      | Some d \<Rightarrow>
          let chosen = box_value REVIEW_CHOICES (hd REVIEW_CHOICES) (Some d)
          in case enum_of HumanReviewStatus_members HumanReviewStatus_value chosen of
               Inl e \<Rightarrow> (Raised e, s)
             | Inr status \<Rightarrow>
                 proceed (action ''Recording review'' (secured_review_finding (cx_authz cx) p (fd_id f) status
                     (if reason = [] then None else Some reason)) s) (\<lambda>recorded s.
                   case recorded of
                     None \<Rightarrow> (Continue (), s)
                   | Some _ \<Rightarrow> rerun_with (''Review recorded ('' @ humanize chosen @ '')'' @ spaced_dash
                       @ ''written to the append-only audit trail.'') s))"

definition submit_override ::
  "AppContext \<Rightarrow> Principal \<Rightarrow> string \<Rightarrow> Score \<Rightarrow> string option \<Rightarrow> string \<Rightarrow> bool \<Rightarrow> unit screen" where
  "submit_override cx p scan_id chosen category justification confirmed s =
     (let categories = map DecisionCategory_value DecisionCategory_members;
          new_category = box_value categories (hd categories) category
      in if strip justification = [] then (Continue (), tell ''A justification is required to override a score.'' s)
         else if \<not> confirmed then (Continue (), tell ''Confirm the override before submitting.'' s)
         else (case enum_of DecisionCategory_members DecisionCategory_value new_category of
             Inl e \<Rightarrow> (Raised e, s)
           | Inr decided \<Rightarrow>
               proceed (action ''Recording override'' (secured_override_score (cx_authz cx) p (so_id chosen) scan_id
                   (so_domain chosen) decided justification None) s) (\<lambda>recorded s.
                 case recorded of
                   None \<Rightarrow> (Continue (), s)
                 | Some _ \<Rightarrow> rerun_with ''Override recorded as a new score row (the original is preserved, never mutated).'' s)))"

definition review_tab :: "AppContext \<Rightarrow> Principal \<Rightarrow> Finding list \<Rightarrow> decision_input \<Rightarrow> view_row list screen" where
  "review_tab cx p pending inp s =
     (if pending = [] then (Continue [], tell ''Nothing left to review.'' s)
      else if \<not> cx_can cx p REVIEW_FINDINGS then (Continue (map queue_row pending), s)
      else (case inp of
          SubmitReview chosen decision reason \<Rightarrow>
            proceed (submit_review cx p (box_row fd_id pending chosen) decision reason s) (\<lambda>_ s. (Continue [], s))
        | _ \<Rightarrow> (Continue [], s)))"

definition override_tab :: "AppContext \<Rightarrow> Principal \<Rightarrow> AssessmentResult \<Rightarrow> decision_input \<Rightarrow> string list screen" where
  "override_tab cx p result inp s =
     (let current = effective_scores (am_scores result)
      in if current = [] then (Continue [''No domain scores to override.''], s)
         else if \<not> cx_can cx p OVERRIDE_SCORES then (Continue (score_lines current), s)
         else (case inp of
             SubmitOverride chosen category justification confirmed \<Rightarrow>
               proceed (submit_override cx p (am_scan_id result) (box_row so_id (map snd current) chosen) category
                   justification confirmed s) (\<lambda>_ s. (Continue (map (score_label \<circ> snd) current), s))
           | _ \<Rightarrow> (Continue (map (score_label \<circ> snd) current), s)))"

definition review_queue_page :: "AppContext \<Rightarrow> decision_input \<Rightarrow> drawn_page screen" where
  "review_queue_page cx inp s =
     proceed (set_up cx (Some VIEW_ASSESSMENTS) s) (\<lambda>p s.
     proceed (require_active_assessment cx p s) (\<lambda>result s.
     proceed (action ''Finalization check''
        (secured_check_finalization (cx_authz cx) p (am_scan_id result)) s) (\<lambda>finalization s.
     (let pending = review_queue (am_findings result)
      in proceed (review_tab cx p pending inp s) (\<lambda>rows s.
         proceed (override_tab cx p result inp s) (\<lambda>scores s.
         proceed (if cx_can cx p VIEW_AUDIT_LOG
                  then action ''Loading audit trail'' (secured_get_audit_trail (cx_authz cx) p (am_scan_id result)) s
                  else (Continue None, s)) (\<lambda>events s.
           (Continue (ReviewDrawn
              \<lparr>rv_finalization = finalization_lines finalization,
               rv_note = (if cx_can cx p REVIEW_FINDINGS \<or> cx_can cx p OVERRIDE_SCORES then []
                 else [read_only_note (pr_role p)]),
               rv_pending = show_len pending @ '' of '' @ show_len (am_findings result)
                 @ '' findings are pending review.'',
               rv_rows = rows, rv_scores = scores,
               rv_audit = map_option (map audit_trail_row) events\<rparr>), s))))))))"


section \<open>Users\<close>

record new_account_input =
  na_username :: string
  na_display_name :: string
  na_role :: "string option"
  na_password :: string
  na_confirm :: string

datatype users_input =
    NoChange
  | CreateUser new_account_input
  | UpdateRole "string option" "string option"
  | SetStatus "string option" bool
  | ResetPassword "string option" string string

definition role_names :: "string list" where
  "role_names = map Role_value Role_members"

definition changed_account ::
  "string \<Rightarrow> (platform \<Rightarrow> UserView result \<times> platform) \<Rightarrow> (UserView \<Rightarrow> string) \<Rightarrow> unit screen" where
  "changed_account name fn message s =
     proceed (action name fn s) (\<lambda>updated s.
       case updated of None \<Rightarrow> (Continue (), s) | Some u \<Rightarrow> rerun_with (message u) s)"

definition create_user_form :: "AppContext \<Rightarrow> Principal \<Rightarrow> new_account_input \<Rightarrow> unit screen" where
  "create_user_form cx p inp s =
     (if na_password inp \<noteq> na_confirm inp then (Continue (), tell ''The passwords do not match.'' s)
      else (case enum_of Role_members Role_value (box_value role_names (role_names ! 2) (na_role inp)) of
          Inl e \<Rightarrow> (Raised e, s)
        | Inr role \<Rightarrow>
            changed_account ''Creating user''
              (create_user (cx_authz cx) p (na_username inp) (na_display_name inp) role (na_password inp) True)
              (\<lambda>u. ''User '' @ quoted (uv_username u) @ '' created with role '' @ Role_value (uv_role u) @ ''.'') s))"

text \<open>The forms of the tab \<open>Manage user\<close> for the account chosen in its box; a button is disabled while the
  role is the present one, or the change of status is not confirmed.\<close>

definition manage_user :: "AppContext \<Rightarrow> Principal \<Rightarrow> UserView list \<Rightarrow> users_input \<Rightarrow> unit screen" where
  "manage_user cx p others inp s =
     (case inp of
        UpdateRole account chosen \<Rightarrow>
          (let target = box_row uv_user_id others account;
               present = Role_value (uv_role target);
               new_role = box_value role_names present chosen
           in if new_role = present then (Continue (), s)
              else (case enum_of Role_members Role_value new_role of
                  Inl e \<Rightarrow> (Raised e, s)
                | Inr role \<Rightarrow>
                    changed_account ''Changing role'' (change_role (cx_authz cx) p (uv_user_id target) role)
                      (\<lambda>u. uv_username u @ '' is now '' @ Role_value (uv_role u) @ ''.'') s))
      | SetStatus account confirmed \<Rightarrow>
          (let target = box_row uv_user_id others account
           in if \<not> confirmed then (Continue (), s)
              else changed_account ((if uv_is_active target then ''Deactivate'' else ''Activate'') @ '' user'')
                (set_active (cx_authz cx) p (uv_user_id target) (\<not> uv_is_active target))
                (\<lambda>u. uv_username u @ '' '' @ (if uv_is_active u then ''activated'' else ''deactivated'') @ ''.'') s)
      | ResetPassword account temporary repeated \<Rightarrow>
          (let target = box_row uv_user_id others account
           in if temporary \<noteq> repeated then (Continue (), tell ''The passwords do not match.'' s)
              else changed_account ''Resetting password'' (reset_password (cx_authz cx) p (uv_user_id target) temporary)
                (\<lambda>u. ''Temporary password set for '' @ uv_username u @ ''.'') s)
      | _ \<Rightarrow> (Continue (), s))"

definition users_page :: "AppContext \<Rightarrow> users_input \<Rightarrow> drawn_page screen" where
  "users_page cx inp s =
     proceed (set_up cx (Some MANAGE_USERS) s) (\<lambda>p s.
     proceed (action ''Loading users'' (list_users (cx_authz cx) p) s) (\<lambda>listed s.
       case listed of
         None \<Rightarrow> (Stopped, s)
       | Some users \<Rightarrow>
           proceed (case inp of CreateUser account \<Rightarrow> create_user_form cx p account s | _ \<Rightarrow> (Continue (), s)) (\<lambda>_ s.
             (let others = other_accounts p users
              in if others = [] then stop ''There are no other accounts yet.'' s
                 else proceed (manage_user cx p others inp s) (\<lambda>_ s.
                   (Continue (UsersDrawn (map user_row users) (map account_label others)), s))))))"

section \<open>Own account\<close>

record password_input =
  pi_current :: string
  pi_new :: string
  pi_repeat :: string

definition account_page :: "AppContext \<Rightarrow> password_input option \<Rightarrow> drawn_page screen" where
  "account_page cx submitted s =
     proceed (set_up cx None s) (\<lambda>p s.
     proceed (case submitted of
                None \<Rightarrow> (Continue (), s)
              | Some inp \<Rightarrow> on_host (change_password_submitted (cx_authz cx) p (pi_current inp) (pi_new inp) (pi_repeat inp)) s)
       (\<lambda>_ s. (Continue (AccountDrawn (profile_lines p)), s)))"

section \<open>A request\<close>

text \<open>What is pressed on a page, and the callbacks: they were drawn with the principal of an earlier run.\<close>

datatype page_input =
    NoInput
  | FindingsInput finding_filter "string option" bool
  | ControlsInput "string list" "string list"
  | CompareInput "string option" "string option" bool
  | RunInput run_input "string option"
  | QuickScanInput bool string bool
  | AssistantInput question
  | ReviewInput decision_input
  | AuditInput "nat option" audit_filter
  | UsersInput users_input
  | PasswordInput password_input
  | SignInInput string string

datatype callback =
    NoCallback
  | SignOut Principal
  | Download Principal string "string option" "string option"

record request =
  rq_callback :: callback
  rq_sidebar :: "string option"
  rq_page :: string
  rq_input :: page_input

text \<open>\<open>_record\<close> of the download buttons: the download goes on when it cannot be recorded.\<close>

definition record_download ::
  "AppContext \<Rightarrow> Principal \<Rightarrow> string \<Rightarrow> string option \<Rightarrow> string option \<Rightarrow> unit screen" where
  "record_download cx p fmt scan_id quick_scan_id s =
     (case s of (b, w) \<Rightarrow>
        (Continue (), b, snd (on_platform (record_export (cx_authz cx) p fmt scan_id quick_scan_id) w)))"

definition run_callback :: "AppContext \<Rightarrow> callback \<Rightarrow> unit screen" where
  "run_callback cx pressed s =
     (case pressed of
        NoCallback \<Rightarrow> (Continue (), s)
      | SignOut p \<Rightarrow> on_host (sign_out (cx_authz cx) p) s
      | Download p fmt scan_id quick_scan_id \<Rightarrow> record_download cx p fmt scan_id quick_scan_id s)"

definition no_run :: run_input where
  "no_run = \<lparr>ri_source_kind = None, ri_path = [], ri_pressed = False\<rparr>"

definition all_events :: audit_filter where
  "all_events = \<lparr>af_types = [], af_actor = [], af_scan = []\<rparr>"

definition password_of :: "page_input \<Rightarrow> password_input option" where
  "password_of inp = (case inp of PasswordInput submitted \<Rightarrow> Some submitted | _ \<Rightarrow> None)"

text \<open>The script of a page, with the input meant for it.\<close>

definition run_page :: "AppContext \<Rightarrow> string \<Rightarrow> page_input \<Rightarrow> drawn_page screen" where
  "run_page cx script inp =
     (if script = ''views/dashboard.py'' then dashboard_page cx
      else if script = ''views/assessments.py'' then
        (case inp of RunInput run picked \<Rightarrow> assessments_page cx run picked | _ \<Rightarrow> assessments_page cx no_run None)
      else if script = ''views/findings.py'' then
        (case inp of FindingsInput chosen selected trace \<Rightarrow> findings_page cx chosen selected trace
         | _ \<Rightarrow> findings_page cx no_filter None False)
      else if script = ''views/controls.py'' then
        (case inp of ControlsInput domains statuses \<Rightarrow> controls_page cx domains statuses | _ \<Rightarrow> controls_page cx [] [])
      else if script = ''views/compare.py'' then
        (case inp of CompareInput baseline current pressed \<Rightarrow> compare_page cx baseline current pressed
         | _ \<Rightarrow> compare_page cx None None False)
      else if script = ''views/quick_scan.py'' then
        (case inp of QuickScanInput archive path pressed \<Rightarrow> quick_scan_page cx archive path pressed
         | _ \<Rightarrow> quick_scan_page cx False [] False)
      else if script = ''views/ai_assistant.py'' then
        (case inp of AssistantInput q \<Rightarrow> ai_assistant_page cx q | _ \<Rightarrow> ai_assistant_page cx NoQuestion)
      else if script = ''views/review_queue.py'' then
        (case inp of ReviewInput decision \<Rightarrow> review_queue_page cx decision | _ \<Rightarrow> review_queue_page cx NoDecision)
      else if script = ''views/reports.py'' then reports_page cx
      else if script = ''views/audit_log.py'' then
        (case inp of AuditInput limit chosen \<Rightarrow> audit_log_page cx limit chosen | _ \<Rightarrow> audit_log_page cx None all_events)
      else if script = ''views/users.py'' then
        (case inp of UsersInput change \<Rightarrow> users_page cx change | _ \<Rightarrow> users_page cx NoChange)
      else if script = ''views/system.py'' then system_page cx
      else if script = ''views/account.py'' then account_page cx (password_of inp)
      else help_page cx)"

text \<open>Only the pages of the navigation can be reached: any other address shows the first of them.\<close>

definition routed :: "ui_page list \<Rightarrow> string \<Rightarrow> string" where
  "routed pages script = (if script \<in> pg_script ` set pages then script else pg_script (hd pages))"

definition serve :: "AppContext \<Rightarrow> request \<Rightarrow> drawn_page screen" where
  "serve cx rq s =
     proceed (run_callback cx (rq_callback rq) s) (\<lambda>_ s.
     proceed (on_host (run_app (cx_authz cx)) s) (\<lambda>shown s.
       case shown of
         SignInPage \<Rightarrow>
           proceed (on_host (login_page (cx_authz cx)
               (case rq_input rq of SignInInput username pw \<Rightarrow> Some (username, pw) | _ \<Rightarrow> None)) s)
             (\<lambda>_ s. (Continue SignInDrawn, s))
       | ChangePasswordPage \<Rightarrow> account_page cx (password_of (rq_input rq)) s
       | Pages p pages \<Rightarrow>
           proceed (render_sidebar cx p (rq_sidebar rq) s) (\<lambda>_ s.
             run_page cx (routed pages (rq_page rq)) (rq_input rq) (apfst show_flash s))))"

end
