(* ===== verification/AccountHistory.thy ===== *)
theory AccountHistory
  imports PipelineFacts AccountFacts Exports
begin

text \<open>
  What every operation of the platform keeps of its history. A relation that allows audit events to be
  added (\<open>audit_history\<close>) holds across every check, read, export and action of the agent; if it ignores
  changes of accounts too (\<open>account_history\<close>), also across sign-in and every operation on accounts, and
  across an assessment if storing one keeps it. What remains are the governance decisions.
\<close>

lemma audited_events:
  "audited_only actor scan_id answered pf pf' \<Longrightarrow>
     \<exists>events. pf_store pf' = (pf_store pf)\<lparr>db_audit_events := db_audit_events (pf_store pf) @ events\<rparr>"
  by (auto simp: audited_only_def)

lemmas agent_events = agent_audits [THEN audited_events]

text \<open>The outcome of an assessment: nothing happened to the session, or a scan was stored in it.\<close>

lemma ingest_source_draws:
  "\<exists>n. fst (snd (ingest_source zips path st a (s, h))) = s\<lparr>pf_draws := pf_draws s + n\<rparr>"
proof -
  have same: "\<exists>n. s = s\<lparr>pf_draws := pf_draws s + n\<rparr>" by (rule exI [of _ 0]) simp
  have once: "\<exists>n. s\<lparr>pf_draws := Suc (pf_draws s)\<rparr> = s\<lparr>pf_draws := pf_draws s + n\<rparr>" by (rule exI [of _ 1]) simp
  show ?thesis using same once
    by (auto simp: ingest_source_def ingest_zip_archive_def draw_uuid_def Let_def split_beta
        split: sum.splits prod.splits)
qed

lemma run_assessment_outcome:
  assumes "run_assessment zips path st a (s, h) = (r, (s', h'))"
  obtains (unstored) m where "s' = s\<lparr>pf_draws := pf_draws s + m\<rparr>"
    | (stored) m scanned where "s' = snd (persist_assessment scanned (s\<lparr>pf_draws := pf_draws s + m\<rparr>))"
proof -
  obtain n where ingest: "fst (snd (ingest_source zips path st a (s, h))) = s\<lparr>pf_draws := pf_draws s + n\<rparr>"
    using ingest_source_draws by blast
  have "(\<exists>m. s' = s\<lparr>pf_draws := pf_draws s + m\<rparr>)
      \<or> (\<exists>m scanned. s' = snd (persist_assessment scanned (s\<lparr>pf_draws := pf_draws s + m\<rparr>)))"
  proof (cases "ingest_source zips path st a (s, h)")
    case (fields r1 s1 h1)
    with ingest have s1: "s1 = s\<lparr>pf_draws := pf_draws s + n\<rparr>" by simp
    show ?thesis
    proof (cases r1)
      case (Inl e)
      with fields assms s1 have "s' = s\<lparr>pf_draws := pf_draws s + n\<rparr>" by (simp add: run_assessment_def)
      then show ?thesis by blast
    next
      case (Inr handle)
      obtain r2 s2 h2 where scan: "scan_and_cleanup handle st (s1, h1) = (r2, (s2, h2))"
        by (cases "scan_and_cleanup handle st (s1, h1)") auto
      with scan_and_cleanup_platform [of handle st s1 h1] s1
      have s2: "s2 = s\<lparr>pf_draws := pf_draws s + Suc n\<rparr>" by simp
      show ?thesis
      proof (cases r2)
        case (Inl e)
        with fields Inr scan assms s2 have "s' = s\<lparr>pf_draws := pf_draws s + Suc n\<rparr>"
          by (simp add: run_assessment_def)
        then show ?thesis by blast
      next
        case result: (Inr scanned)
        with fields Inr scan assms have "s' = snd (persist_assessment scanned s2)"
          by (auto simp: run_assessment_def split: prod.splits)
        with s2 show ?thesis by blast
      qed
    qed
  qed
  with that show ?thesis by blast
qed

section \<open>Relations that allow audit events\<close>

locale audit_history = history +
  assumes R_event: "R d e \<Longrightarrow> R d (e\<lparr>db_audit_events := db_audit_events e @ es\<rparr>)"
begin

definition session_kept :: "database \<Rightarrow> session \<Rightarrow> bool" where
  "session_kept d s = (R d (pf_store s) \<and> R d (ss_work s))"

lemma keeps_iff: "keeps f \<longleftrightarrow> (\<forall>d s. session_kept d s \<longrightarrow> session_kept d (snd (f s)))"
  by (simp add: keeps_def session_kept_def)

lemma kept_state [simp]:
  "session_kept d (s\<lparr>pf_draws := n\<rparr>) = session_kept d s"
  "session_kept d (s\<lparr>pf_kdf_calls := n\<rparr>) = session_kept d s"
  by (simp_all add: session_kept_def)

lemma kept_event [intro]: "session_kept d s \<Longrightarrow> session_kept d (snd (record_event e s))"
  by (auto simp: session_kept_def record_event_eq R_event simp del: with_event_fields(1,2))

lemma kept_auth_event [intro]: "session_kept d s \<Longrightarrow> session_kept d (snd (record_auth_event t a sm p sc s))"
  by (auto simp: session_kept_def record_auth_event_eq R_event simp del: with_event_fields(1,2))

lemma kept_kdf [intro]:
  "session_kept d s \<Longrightarrow> session_kept d (snd (verify_in h pw enc s))"
  "session_kept d s \<Longrightarrow> session_kept d (snd (hash_in h pw s))"
  by (simp_all add: verify_in_eq hash_in_eq)

lemma kept_and_then:
  "session_kept d (snd m) \<Longrightarrow> (\<And>a s. session_kept d s \<Longrightarrow> session_kept d (snd (f a s))) \<Longrightarrow>
     session_kept d (snd (and_then m f))"
  by (cases m; cases "fst m") auto

lemma kept_login_fail [intro]: "session_kept d s \<Longrightarrow> session_kept d (snd (login_fail u reason s))"
  unfolding login_fail_def by (intro kept_and_then kept_auth_event) simp_all

lemma kept_validate: "session_kept d s \<Longrightarrow> session_kept d (snd (validate_session_body self p s))"
  unfolding validate_session_body_def Let_def
  by (auto split: option.split intro!: kept_and_then kept_auth_event)

text \<open>Operations on the platform.\<close>

definition state_kept :: "platform \<Rightarrow> platform \<Rightarrow> bool" where
  "state_kept pf pf' = R (pf_store pf) (pf_store pf')"

lemma state_refl [simp]: "state_kept pf pf"
  by (simp add: state_kept_def R_refl)

lemma state_trans: "state_kept pf pf' \<Longrightarrow> state_kept pf' pf'' \<Longrightarrow> state_kept pf pf''"
  by (auto simp: state_kept_def intro: R_trans)

lemma state_draws [simp]: "state_kept pf (pf'\<lparr>pf_draws := n\<rparr>) = state_kept pf pf'"
  by (simp add: state_kept_def)

lemma state_and_then:
  assumes "state_kept pf (snd m)" and "\<And>a s. state_kept s (snd (f a s))"
  shows "state_kept pf (snd (and_then m f))"
  using assms state_trans by (cases m; cases "fst m") auto

lemma kept_session:
  assumes "\<And>d s. session_kept d s \<Longrightarrow> session_kept d (snd (f s))"
  shows "state_kept pf (snd (with_session st f pf))"
  unfolding state_kept_def
  by (rule with_session_keeps, rule keepsI) (use assms in \<open>auto simp: session_kept_def\<close>)

lemma kept_service: "keeps body \<Longrightarrow> state_kept pf (snd (service_session st body pf))"
  by (auto simp: service_session_def state_kept_def keeps_def R_refl split_beta Let_def)

lemma kept_read: "state_kept pf (snd (service_read st f pf))"
  unfolding service_read_def by (rule kept_service) simp

lemma sessions_kept:
  "state_kept pf (snd (logout auth p pf))"
  "state_kept pf (snd (validate_session auth p pf))"
  "state_kept pf (snd (secured_audit az p t summary payload i pf))"
  unfolding logout_def validate_session_def secured_audit_def
  by (auto intro!: kept_session kept_validate)

lemma require_kept: "state_kept pf (snd (require az p perm act sc pf))"
proof -
  have "state_kept pf (snd (validate_session (az_auth az) p pf))"
    by (rule sessions_kept)
  then show ?thesis
    unfolding require_def by (auto intro!: state_and_then kept_session kept_auth_event split: option.split)
qed

lemma secured_kept: "(\<And>q s. state_kept s (snd (body q s))) \<Longrightarrow> state_kept pf (snd (secured az p perm act sc body pf))"
  unfolding secured_def by (rule state_and_then [OF require_kept])

lemma events_kept:
  "\<exists>events. pf_store pf' = (pf_store pf)\<lparr>db_audit_events := db_audit_events (pf_store pf) @ events\<rparr> \<Longrightarrow> state_kept pf pf'"
  by (auto simp: state_kept_def R_event R_refl)

lemma agent_kept:
  "state_kept pf (snd (secured_agent_status az p pf))"
  "state_kept pf (snd (secured_explain_finding az p scan_id finding_id t pf))"
  "state_kept pf (snd (secured_summarize_domain az p scan_id domain t pf))"
  "state_kept pf (snd (secured_answer_question az p scan_id question t pf))"
  "state_kept pf (snd (secured_executive_summary az p scan_id t pf))"
  unfolding secured_agent_status_def secured_explain_finding_def secured_summarize_domain_def
    secured_answer_question_def secured_executive_summary_def secured_agent_def
  by (rule secured_kept, simp add: events_kept [OF agent_events(1)] events_kept [OF agent_events(2)]
      events_kept [OF agent_events(3)] events_kept [OF agent_events(4)])+

lemma reads_kept:
  "state_kept pf (snd (secured_list_recent_scans az p n pf))"
  "state_kept pf (snd (secured_get_assessment az p scan_id pf))"
  "state_kept pf (snd (secured_trace_finding az p finding_id pf))"
  "state_kept pf (snd (secured_check_finalization az p scan_id pf))"
  "state_kept pf (snd (get_control_catalog az p pf))"
  "state_kept pf (snd (secured_compare_scans az p baseline current pf))"
  "state_kept pf (snd (secured_get_audit_trail az p scan_id pf))"
  "state_kept pf (snd (get_platform_audit_log az p n pf))"
  "state_kept pf (snd (get_recent_activity az p n pf))"
  "state_kept pf (snd (list_users az p pf))"
  unfolding secured_list_recent_scans_def secured_get_assessment_def secured_trace_finding_def
    secured_check_finalization_def get_control_catalog_def secured_compare_scans_def secured_get_audit_trail_def
    get_platform_audit_log_def get_recent_activity_def list_recent_scans_def svc_get_assessment_def
    svc_trace_finding_def svc_check_finalization_def compare_scans_def svc_get_audit_trail_def
  by (rule secured_kept; auto intro!: kept_session kept_service kept_read)+
     (auto simp: list_users_def intro!: state_and_then [OF require_kept] kept_session)

lemma exports_kept:
  "state_kept pf (snd (secured_export_assessment az p scan_id pf))"
  "state_kept pf (snd (secured_export_quick_scan az p scanned pf))"
  "state_kept pf (snd (record_export az p fmt i quick_scan_id pf))"
  unfolding secured_export_assessment_def secured_export_quick_scan_def record_export_def svc_export_assessment_def
  by (auto intro!: secured_kept kept_service sessions_kept)

lemma world_and_then:
  fixes m :: "'a result \<times> platform world" and f :: "'a \<Rightarrow> platform world \<Rightarrow> 'b result \<times> platform world"
  assumes "state_kept s (fst (snd m))" and "\<And>x t h. state_kept t (fst (snd (f x (t, h))))"
  shows "state_kept s (fst (snd (and_then m f)))"
  using assms state_trans by (cases m; cases "fst m") auto

lemma world_on_platform: "state_kept s (snd (f s)) \<Longrightarrow> state_kept s (fst (snd (on_platform f (s, h))))"
  by (simp add: on_platform_pair)

lemma ingested_kept: "state_kept s (fst (snd (ingest_source zips path st a (s, h))))"
  using ingest_source_draws [of zips path st a s h] by auto

lemma quick_scan_kept: "state_kept pf (fst (snd (secured_run_quick_scan zips az p path a (pf, h))))"
  unfolding secured_run_quick_scan_def
  by (intro world_and_then world_on_platform require_kept ingested_kept sessions_kept;
      simp add: scan_and_cleanup_platform)

end

section \<open>Relations that ignore accounts\<close>

locale account_history = audit_history +
  assumes R_users: "R d e \<Longrightarrow> R d (e\<lparr>db_users := us\<rparr>)"
begin

lemma kept_put_user [intro]: "session_kept d s \<Longrightarrow> session_kept d (put_user u s)"
  by (simp add: session_kept_def put_user_def map_work_def R_users)

lemma kept_create_account [intro]:
  "session_kept d s \<Longrightarrow> session_kept d (snd (create_account auth n dn role pw must s))"
  by (auto simp: create_account_def hash_in_eq add_user_def new_uuid_def map_work_def session_kept_def
      and_then_def Let_def R_users split: sum.splits prod.splits)

lemmas kept_intros = kept_and_then kept_auth_event kept_kdf kept_login_fail kept_create_account kept_put_user

lemma kept_login: "session_kept d s \<Longrightarrow> session_kept d (snd (login_body self n pw s))"
  unfolding login_body_def Let_def
  by (auto split: option.split intro!: kept_intros)

lemma kept_change_own_password:
  "session_kept d s \<Longrightarrow> session_kept d (snd (change_own_password_body self p old new s))"
  unfolding change_own_password_body_def Let_def
  by (auto split: option.split intro!: kept_intros)

lemma kept_change_role: "session_kept d s \<Longrightarrow> session_kept d (snd (change_role_body p i role s))"
  unfolding change_role_body_def Let_def by (auto intro!: kept_intros)

lemma kept_set_active: "session_kept d s \<Longrightarrow> session_kept d (snd (set_active_body p i act s))"
  unfolding set_active_body_def Let_def by (auto intro!: kept_intros)

lemma kept_reset_password: "session_kept d s \<Longrightarrow> session_kept d (snd (reset_password_body auth p i pw s))"
  unfolding reset_password_body_def Let_def by (auto intro!: kept_intros)

lemma kept_create_user: "session_kept d s \<Longrightarrow> session_kept d (snd (create_user_body auth p n dn role pw must s))"
  unfolding create_user_body_def by (auto intro!: kept_intros)

lemma account_operations_kept:
  "state_kept pf (snd (login auth n pw pf))"
  "state_kept pf (snd (bootstrap_user auth n dn role pw actor pf))"
  "state_kept pf (snd (change_own_password auth p old new pf))"
  "state_kept pf (snd (create_user az p n dn role pw must pf))"
  "state_kept pf (snd (change_role az p i role pf))"
  "state_kept pf (snd (set_active az p i act pf))"
  "state_kept pf (snd (reset_password az p i pw pf))"
  unfolding login_def bootstrap_user_def change_own_password_def create_user_def change_role_def set_active_def
    reset_password_def
  by (auto intro!: state_and_then require_kept sessions_kept kept_session kept_login kept_change_own_password
      kept_create_user kept_change_role kept_set_active kept_reset_password kept_intros)

lemma assessment_kept:
  assumes "\<And>scanned. keeps (persist_assessment scanned)"
  shows "state_kept pf (fst (snd (svc_run_new_assessment zips st path a (pf, h))))"
proof (cases "truthy (st_database_url st)")
  case True
  obtain r s' h' where run: "run_assessment zips path st a (begin_session pf, h) = (r, (s', h'))"
    by (metis prod.exhaust)
  then have "session_kept (pf_store pf) s'"
    using assms by (cases rule: run_assessment_outcome) (auto simp: keeps_iff session_kept_def R_refl)
  with True run show ?thesis by (simp add: svc_run_new_assessment_def state_kept_def session_kept_def)
qed (simp add: svc_run_new_assessment_def)

lemma run_kept:
  assumes "\<And>scanned. keeps (persist_assessment scanned)"
  shows "state_kept pf (fst (snd (secured_run_new_assessment zips az p path a (pf, h))))"
  unfolding secured_run_new_assessment_def
  by (intro world_and_then world_on_platform require_kept assessment_kept assms sessions_kept) simp

end

end
