(* ===== verification/PlatformSteps.thy ===== *)
theory PlatformSteps
  imports AccountHistory
begin

text \<open>
  The platform as a state machine. Its steps are the operations of every component, in any order
  and by anyone; an authorized operation is two steps, the check and the change, since other
  operations may run between them (each opens a session of its own). What holds after every step
  holds in every reachable state.
\<close>

section \<open>Ids are drawn, never put back\<close>

definition drawn :: "('y) platform_scheme \<Rightarrow> ('z) platform_scheme \<Rightarrow> bool" where
  "drawn s t = (pf_uuid t = pf_uuid s \<and> pf_draws s \<le> pf_draws t)"

lemma drawn_refl [simp]: "drawn s s"
  by (simp add: drawn_def)

lemma drawn_trans: "drawn s t \<Longrightarrow> drawn t u \<Longrightarrow> drawn s u"
  by (simp add: drawn_def)

lemma drawn_state [simp]:
  "drawn s (map_work g t) = drawn s t" "drawn s (commit t) = drawn s t"
  "drawn s (put_user u t) = drawn s t" "drawn s (platform.truncate t) = drawn s t"
  "drawn (begin_session pf) t = drawn pf t" "drawn s (begin_session pf) = drawn s pf"
  by (simp_all add: drawn_def map_work_def commit_def)

lemma drawn_fresh [intro]:
  "drawn s t \<Longrightarrow> drawn s (t\<lparr>pf_draws := pf_draws t + n\<rparr>)" "drawn s t \<Longrightarrow> drawn s (snd (new_uuid t))"
  "drawn s t \<Longrightarrow> drawn s (snd (fresh_rows mk xs t))"
  by (simp_all add: drawn_def new_uuid_def fresh_rows_def)

lemma drawn_event [intro]: "drawn s t \<Longrightarrow> drawn s (snd (record_event e t))"
  by (simp add: drawn_def record_event_eq)

lemma drawn_and_then [intro]:
  "drawn s (snd m) \<Longrightarrow> (\<And>a t. drawn s t \<Longrightarrow> drawn s (snd (f a t))) \<Longrightarrow> drawn s (snd (and_then m f))"
  by (cases m; cases "fst m") auto

lemma drawn_upsert_controls: "drawn s t \<Longrightarrow> drawn s (snd (upsert_controls cs t))"
proof (induction cs arbitrary: t)
  case (Cons c cs)
  have "drawn s (snd (upsert_control c t))"
    using Cons.prems by (auto simp: upsert_control_def new_uuid_def Let_def drawn_def map_work_def split: option.splits)
  with Cons.IH show ?case by (simp add: split_beta Let_def)
qed simp

lemma drawn_save_scan: "drawn s t \<Longrightarrow> drawn s (snd (save_scan r t))"
  by (simp add: save_scan_def Let_def split_beta fresh_rows_def drawn_def map_work_def commit_def)

lemma drawn_score_scan: "drawn s t \<Longrightarrow> drawn s (snd (score_scan i t))"
  unfolding score_scan_def Let_def split_beta by (rule drawn_and_then) (auto simp: fresh_rows_def drawn_def map_work_def commit_def)

lemma drawn_score_and_generate: "drawn s t \<Longrightarrow> drawn s (snd (score_and_generate i t))"
  unfolding score_and_generate_def Let_def split_beta upsert_catalog_def
  by (intro drawn_and_then drawn_score_scan drawn_upsert_controls)
     (auto simp: fresh_rows_def drawn_def map_work_def commit_def)

lemma drawn_evaluate: "drawn s t \<Longrightarrow> drawn s (snd (evaluate_and_persist i t))"
  unfolding evaluate_and_persist_def Let_def split_beta upsert_catalog_def
  using drawn_upsert_controls [of s t CONTROL_CATALOG] by (simp add: fresh_rows_def drawn_def map_work_def commit_def)

lemma drawn_persist_assessment: "drawn s t \<Longrightarrow> drawn s (snd (persist_assessment r t))"
  unfolding persist_assessment_def Let_def split_beta
  by (intro drawn_and_then drawn_event drawn_score_and_generate drawn_save_scan)
     (auto simp: get_findings_def intro!: drawn_and_then drawn_event drawn_evaluate)


lemma drawn_review: "drawn s t \<Longrightarrow> drawn s (snd (review_finding d t))"
  by (auto simp: review_finding_def record_event_eq drawn_def map_work_def commit_def and_then_def Let_def
      split: sum.splits option.splits)

lemma drawn_override: "drawn s t \<Longrightarrow> drawn s (snd (override_score d t))"
  by (auto simp: override_score_def record_event_eq drawn_def map_work_def new_uuid_def and_then_def Let_def
      split: sum.splits option.splits)

section \<open>Records are kept, whatever happens to accounts\<close>

definition others_kept :: "database \<Rightarrow> database \<Rightarrow> bool" where
  "others_kept d e = records_kept (d\<lparr>db_users := []\<rparr>) (e\<lparr>db_users := []\<rparr>)"

interpretation others: account_history others_kept
proof unfold_locales
  show "others_kept d d" for d by (simp add: others_kept_def records.R_refl)
  show "others_kept d e \<Longrightarrow> others_kept e f \<Longrightarrow> others_kept d f" for d e f
    unfolding others_kept_def by (rule records.R_trans)
  show "others_kept d e \<Longrightarrow> others_kept d (e\<lparr>db_users := us\<rparr>)" for d e us
    by (simp add: others_kept_def)
  show "others_kept d e \<Longrightarrow> others_kept d (e\<lparr>db_audit_events := db_audit_events e @ es\<rparr>)" for d e es
    by (simp add: others_kept_def records_kept_def)
qed

lemma records_others_kept: "records_kept d e \<Longrightarrow> others_kept d e"
  by (simp add: others_kept_def records_kept_def)

lemma others_kept_audit: "others_kept d e \<Longrightarrow> prefix (db_audit_events d) (db_audit_events e)"
  by (simp add: others_kept_def records_kept_def)

section \<open>The contract of a step\<close>

definition platform_contract :: "platform \<Rightarrow> platform \<Rightarrow> bool" where
  "platform_contract pf pf' =
     (account_step pf pf' \<and> others_kept (pf_store pf) (pf_store pf') \<and> pf_clock pf \<le> pf_clock pf')"

lemma auth_contract:
  assumes "account_step pf (snd (with_session st f pf))"
    and "\<And>d s. others.session_kept d s \<Longrightarrow> others.session_kept d (snd (f s))"
    and "pf_clock (snd (f (begin_session pf))) = pf_clock pf"
  shows "platform_contract pf (snd (with_session st f pf))"
  using assms others.kept_session [of f pf st]
  by (cases "truthy (st_database_url st)") (simp_all add: platform_contract_def with_session_not_configured others.state_kept_def others.R_refl)

lemma records_contract:
  assumes "records.keeps body" and "drawn pf (snd (body (begin_session pf)))"
    and "pf_clock (snd (body (begin_session pf))) = pf_clock pf"
  shows "platform_contract pf (snd (service_session st body pf))"
proof (cases "truthy (st_database_url st)")
  case True
  have "records_kept (pf_store pf) (pf_store (snd (body (begin_session pf))))"
    using assms(1) by (simp add: records.keeps_def records.R_refl)
  moreover from this have "db_users (pf_store (snd (body (begin_session pf)))) = users_of pf"
    by (simp add: records_kept_def)
  ultimately show ?thesis using True assms(2,3)
    by (auto simp: platform_contract_def service_session_def split_beta Let_def drawn_def
        intro!: account_stepI_same records_others_kept)
next
  case False
  then show ?thesis
    by (auto simp: platform_contract_def service_session_def others.R_refl intro!: account_stepI_same)
qed


lemma draws_contract: "platform_contract pf (pf\<lparr>pf_draws := pf_draws pf + n\<rparr>)"
  by (auto simp: platform_contract_def others.R_refl intro!: account_stepI_same)

text \<open>The clock during a session.\<close>

lemma clock_state [simp]:
  "pf_clock (map_work g s) = pf_clock s" "pf_clock (commit s) = pf_clock s"
  "pf_clock (snd (new_uuid s)) = pf_clock s" "pf_clock (snd (fresh_rows mk xs s)) = pf_clock s"
  "pf_clock (snd (record_event e s)) = pf_clock s"
  "pf_clock (snd (record_auth_event t a sm p sc s)) = pf_clock s"
  "pf_clock (snd (verify_in h pw enc s)) = pf_clock s" "pf_clock (snd (hash_in h pw s)) = pf_clock s"
  by (simp_all add: map_work_def commit_def new_uuid_def fresh_rows_def record_event_eq record_auth_event_eq
      verify_in_eq hash_in_eq)

lemma clock_and_then:
  "pf_clock (snd m) = t \<Longrightarrow> (\<And>a s. pf_clock s = t \<Longrightarrow> pf_clock (snd (f a s)) = t) \<Longrightarrow>
     pf_clock (snd (and_then m f)) = t"
  by (cases m; cases "fst m") auto

lemma clock_login_fail [simp]: "pf_clock (snd (login_fail u reason s)) = pf_clock s"
  by (simp add: login_fail_eq Let_def)

lemma clock_create_account [simp]: "pf_clock (snd (create_account auth n dn role pw must s)) = pf_clock s"
  by (auto simp: create_account_def hash_in_eq add_user_def new_uuid_def and_then_def Let_def
      split: sum.splits prod.splits)

lemma clock_upsert_controls [simp]: "pf_clock (snd (upsert_controls cs s)) = pf_clock s"
proof (induction cs arbitrary: s)
  case (Cons c cs)
  have "pf_clock (snd (upsert_control c s)) = pf_clock s"
    by (auto simp: upsert_control_def Let_def split_beta split: option.splits)
  with Cons.IH show ?case by (simp add: split_beta Let_def)
qed simp

lemma clock_save_scan [simp]: "pf_clock (snd (save_scan r s)) = pf_clock s"
  by (simp add: save_scan_def Let_def split_beta)

lemma clock_score_scan: "pf_clock (snd (score_scan i s)) = pf_clock s"
  unfolding score_scan_def Let_def split_beta by (rule clock_and_then) auto

lemma clock_score_and_generate: "pf_clock (snd (score_and_generate i s)) = pf_clock s"
  unfolding score_and_generate_def Let_def split_beta upsert_catalog_def
  by (intro clock_and_then) (auto simp: clock_score_scan)

lemma clock_evaluate [simp]: "pf_clock (snd (evaluate_and_persist i s)) = pf_clock s"
  unfolding evaluate_and_persist_def Let_def split_beta upsert_catalog_def by simp

lemma clock_persist_assessment [simp]: "pf_clock (snd (persist_assessment r s)) = pf_clock s"
  unfolding persist_assessment_def Let_def split_beta
  by (intro clock_and_then) (auto simp: clock_score_and_generate get_findings_def intro!: clock_and_then)


lemma clock_login: "pf_clock (snd (login_body self n pw s)) = pf_clock s"
  unfolding login_body_def Let_def by (auto split: option.split intro!: clock_and_then)

lemma clock_validate: "pf_clock (snd (validate_session_body self p s)) = pf_clock s"
  unfolding validate_session_body_def Let_def by (auto split: option.split intro!: clock_and_then)

lemma clock_change_own_password: "pf_clock (snd (change_own_password_body self p old new s)) = pf_clock s"
  unfolding change_own_password_body_def Let_def by (auto split: option.split intro!: clock_and_then)

lemma clock_change_role: "pf_clock (snd (change_role_body p i role s)) = pf_clock s"
  unfolding change_role_body_def Let_def by (auto intro!: clock_and_then)

lemma clock_set_active: "pf_clock (snd (set_active_body p i act s)) = pf_clock s"
  unfolding set_active_body_def Let_def by (auto intro!: clock_and_then)

lemma clock_reset_password: "pf_clock (snd (reset_password_body auth p i pw s)) = pf_clock s"
  unfolding reset_password_body_def Let_def by (auto intro!: clock_and_then)

lemma clock_create_user: "pf_clock (snd (create_user_body auth p n dn role pw must s)) = pf_clock s"
  unfolding create_user_body_def by (auto intro!: clock_and_then)

lemma clock_review [simp]: "pf_clock (snd (review_finding d s)) = pf_clock s"
  by (auto simp: review_finding_def and_then_def Let_def record_event_eq split: sum.splits option.splits)

lemma clock_override [simp]: "pf_clock (snd (override_score d s)) = pf_clock s"
  by (auto simp: override_score_def and_then_def Let_def record_event_eq new_uuid_def split: sum.splits option.splits)

section \<open>Steps\<close>

text \<open>One operation of the platform, by anyone, at any time; between two of them time passes.\<close>

inductive platform_step :: "Authorizer \<Rightarrow> platform \<Rightarrow> platform \<Rightarrow> bool" for az where
  time_passes: "pf_clock pf \<le> t \<Longrightarrow> platform_step az pf (pf\<lparr>pf_clock := t\<rparr>)"
| sign_in: "platform_step az pf (snd (login (az_auth az) username pw pf))"
| sign_out: "platform_step az pf (snd (logout (az_auth az) p pf))"
| check_session: "platform_step az pf (snd (validate_session (az_auth az) p pf))"
| authorize: "platform_step az pf (snd (require az p perm action scan_id pf))"
| own_password:
    "platform_step az pf (snd (with_session (settings_of az)
       (change_own_password_body (az_auth az) p old_pw new_pw) pf))"
| add_account:
    "platform_step az pf (snd (with_session (settings_of az)
       (create_user_body (az_auth az) p username display_name role pw must_change) pf))"
| role_changed:
    "platform_step az pf (snd (with_session (settings_of az) (change_role_body p user_id role) pf))"
| activity_changed:
    "platform_step az pf (snd (with_session (settings_of az) (set_active_body p user_id active) pf))"
| password_reset:
    "platform_step az pf (snd (with_session (settings_of az)
       (reset_password_body (az_auth az) p user_id pw) pf))"
| command_line:
    "platform_step az pf (snd (bootstrap_user (az_auth az) username display_name role pw actor pf))"
| source_read: "platform_step az pf (fst (snd (ingest_source zips path (settings_of az) is_archive (pf, h))))"
| source_scanned: "platform_step az pf (fst (snd (scan_and_cleanup source (settings_of az) (pf, h))))"
| assessed:
    "platform_step az pf (fst (snd (svc_run_new_assessment zips (settings_of az) path is_archive (pf, h))))"
| reviewed:
    "platform_step az pf (snd (svc_review_finding (settings_of az) finding_id status reviewer reason pf))"
| overridden:
    "platform_step az pf (snd (svc_override_score (settings_of az) score_id scan_id domain category reviewer
       reason weighted pf))"
| explained: "platform_step az pf (snd (agent_explain_finding (settings_of az) scan_id finding_id user elapsed pf))"
| summarized: "platform_step az pf (snd (agent_summarize_domain (settings_of az) scan_id domain user elapsed pf))"
| answered:
    "platform_step az pf (snd (agent_answer_question (settings_of az) scan_id question user ids elapsed pf))"
| summed_up: "platform_step az pf (snd (agent_executive_summary (settings_of az) scan_id user elapsed pf))"
| action_audited: "platform_step az pf (snd (secured_audit az p t summary payload scan_id pf))"

inductive platform_run :: "Authorizer \<Rightarrow> platform \<Rightarrow> platform \<Rightarrow> bool" for az where
  run_refl: "platform_run az pf pf"
| run_step: "platform_run az pf pf' \<Longrightarrow> platform_step az pf' pf'' \<Longrightarrow> platform_run az pf pf''"

section \<open>Every step keeps the contract\<close>

lemma record_response_contract:
  "platform_contract pf (snd (service_session st (record_response i user asked) pf))"
  "platform_contract pf (snd (service_session st (found (record_response i user asked)) pf))"
proof -
  have keeps: "records.keeps (record_response i user asked)"
    unfolding record_response_def
    by (cases asked) (auto intro!: records.keeps_and_then)
  have frame: "drawn pf (snd (record_response i user asked (begin_session pf)))"
    "pf_clock (snd (record_response i user asked (begin_session pf))) = pf_clock pf"
    by (auto simp: record_response_def split: sum.splits intro!: drawn_and_then drawn_event clock_and_then)
  show "platform_contract pf (snd (service_session st (record_response i user asked) pf))"
    using keeps frame by (rule records_contract)
  show "platform_contract pf (snd (service_session st (found (record_response i user asked)) pf))"
    unfolding found_def [abs_def]
    by (rule records_contract)
       (use keeps frame in \<open>auto intro!: records.keeps_and_then drawn_and_then clock_and_then\<close>)
qed


lemma unanswered_contract: "platform_contract pf (snd (service_session st (\<lambda>s. (r s, s)) pf))"
  by (rule records_contract) auto

lemma agent_contract:
  "platform_contract pf (snd (agent_explain_finding st scan_id finding_id user elapsed pf))"
  "platform_contract pf (snd (agent_summarize_domain st scan_id domain user elapsed pf))"
  "platform_contract pf (snd (agent_answer_question st scan_id question user ids elapsed pf))"
  "platform_contract pf (snd (agent_executive_summary st scan_id user elapsed pf))"
proof -
  have same: "service_session st f pf = service_session st g pf" if "f (begin_session pf) = g (begin_session pf)"
    for f g :: "'a op"
    using that by (simp add: service_session_def)
  show "platform_contract pf (snd (agent_explain_finding st scan_id finding_id user elapsed pf))"
  proof (cases "get_row fd_id finding_id (db_findings (pf_store pf))")
    case None
    then show ?thesis unfolding agent_explain_finding_def
      by (subst same [of _ "\<lambda>s. (Inr None, s)"]) (simp_all add: unanswered_contract)
  next
    case (Some row)
    show ?thesis
    proof (cases "fd_scan_id row = scan_id")
      case True
      with Some show ?thesis unfolding agent_explain_finding_def
        by (subst same [of _ "found (record_response scan_id user
              (explain_finding st (finding_for_agent row) elapsed))"]) (simp_all add: record_response_contract)
    next
      case False
      with Some show ?thesis unfolding agent_explain_finding_def
        by (subst same [of _ "\<lambda>s. (Inr None, s)"]) (simp_all add: unanswered_contract)
    qed
  qed
  show "platform_contract pf (snd (agent_summarize_domain st scan_id domain user elapsed pf))"
  proof (cases "filter (\<lambda>row. so_domain row = domain) (scores_for_scan scan_id (pf_store pf))")
    case Nil
    then show ?thesis unfolding agent_summarize_domain_def
      by (subst same [of _ "\<lambda>s. (Inr None, s)"]) (simp_all add: unanswered_contract)
  next
    case (Cons score rest)
    then show ?thesis unfolding agent_summarize_domain_def
      by (subst same [of _ "found (record_response scan_id user
            (summarize_domain st (domain_score_for_agent score)
               (map finding_for_agent (filter (\<lambda>f. domain \<in> set (fd_banking_domains f))
                 (findings_for_scan scan_id (pf_store pf)))) elapsed))"])
         (simp_all add: record_response_contract)
  qed
  show "platform_contract pf (snd (agent_answer_question st scan_id question user ids elapsed pf))"
    unfolding agent_answer_question_def Let_def
    by (subst same) (rule refl, rule record_response_contract [THEN subst [where P = "\<lambda>x. platform_contract pf (snd x)", rotated]], rule same, rule refl)
  show "platform_contract pf (snd (agent_executive_summary st scan_id user elapsed pf))"
    unfolding agent_executive_summary_def
    by (rule record_response_contract [THEN subst [where P = "\<lambda>x. platform_contract pf (snd x)", rotated]], rule same, rule refl)
qed


lemma governance_contract:
  "platform_contract pf (snd (svc_review_finding st finding_id status reviewer reason pf))"
  "platform_contract pf (snd (svc_override_score st score_id scan_id domain category reviewer why weighted pf))"
  unfolding svc_review_finding_def svc_override_score_def
  by (rule records_contract;
      auto intro!: records.keeps_and_then drawn_and_then clock_and_then drawn_review drawn_override
        intro: records.keeps_after)+

lemma require_contract: "platform_contract pf (snd (require az p perm act sc pf))"
  using others.require_kept [of pf az p perm act sc]
  by (simp add: platform_contract_def require_account_step require_frame others.state_kept_def)

lemma draws_only_contract: "pf_draws pf \<le> n \<Longrightarrow> platform_contract pf (pf\<lparr>pf_draws := n\<rparr>)"
  using draws_contract [of pf "n - pf_draws pf"] by simp

lemma assessment_frame:
  assumes "run_assessment zips path st a (s, h) = (r, (s', h'))"
  shows "drawn s s'" and "pf_clock s' = pf_clock s" and "records_kept (pf_store s) (ss_work s) \<Longrightarrow>
    records_kept (pf_store s) (pf_store s') \<and> records_kept (pf_store s) (ss_work s')"
proof -
  have "drawn s (s\<lparr>pf_draws := pf_draws s + m\<rparr>)" for m by (simp add: drawn_def)
  with run_assessment_outcome [OF assms] show "drawn s s'" by (metis drawn_persist_assessment)
  show "pf_clock s' = pf_clock s" by (rule run_assessment_outcome [OF assms]) auto
  show "records_kept (pf_store s) (ss_work s) \<Longrightarrow>
    records_kept (pf_store s) (pf_store s') \<and> records_kept (pf_store s) (ss_work s')"
    by (rule run_assessment_outcome [OF assms])
       (use keeps_persist_assessment in \<open>auto simp: records.keeps_def records.R_refl\<close>)
qed

lemma assessment_contract:
  "platform_contract pf (fst (snd (svc_run_new_assessment zips st path a (pf, h))))"
proof (cases "truthy (st_database_url st)")
  case True
  obtain r s' h' where run: "run_assessment zips path st a (begin_session pf, h) = (r, (s', h'))"
    by (metis prod.exhaust)
  have kept: "records_kept (pf_store pf) (pf_store s')"
    using assessment_frame(3) [OF run] by (simp add: records.R_refl)
  with assessment_frame(1,2) [OF run] True run show ?thesis
    by (auto simp: platform_contract_def svc_run_new_assessment_def drawn_def records_kept_def
        intro!: account_stepI_same records_others_kept [OF kept])
next
  case False
  then show ?thesis
    by (auto simp: platform_contract_def svc_run_new_assessment_def others.R_refl intro!: account_stepI_same)
qed

lemma secured_audit_contract: "platform_contract pf (snd (secured_audit az p t summary payload i pf))"
  unfolding secured_audit_def
  by (rule auth_contract) (auto intro!: record_only_step others.kept_auth_event)

lemma user_bodies_contract:
  assumes "wf_users (users_of pf)"
  shows "platform_contract pf (snd (with_session st (change_own_password_body auth p old new) pf))"
    and "platform_contract pf (snd (with_session st (change_role_body p i role) pf))"
    and "platform_contract pf (snd (with_session st (set_active_body p i act) pf))"
    and "platform_contract pf (snd (with_session st (reset_password_body auth p i pw) pf))"
  by (rule auth_contract, rule change_own_password_account_step [OF assms], erule others.kept_change_own_password,
      simp add: clock_change_own_password)
     (rule auth_contract, rule change_role_account_step [OF assms], erule others.kept_change_role,
      simp add: clock_change_role,
      rule auth_contract, rule set_active_account_step [OF assms], erule others.kept_set_active,
      simp add: clock_set_active,
      rule auth_contract, rule reset_password_account_step [OF assms], erule others.kept_reset_password,
      simp add: clock_reset_password)

lemma new_account_contract:
  assumes "wf_accounts pf"
  shows "platform_contract pf (snd (with_session st (create_user_body auth p n dn role pw must) pf))"
    and "platform_contract pf (snd (bootstrap_user auth n dn role pw actor pf))"
proof -
  show "platform_contract pf (snd (with_session st (create_user_body auth p n dn role pw must) pf))"
    by (rule auth_contract, rule create_user_account_step [OF assms], erule others.kept_create_user,
        simp add: clock_create_user)
  have "others_kept (pf_store pf) (pf_store (snd (bootstrap_user auth n dn role pw actor pf)))"
    using others.account_operations_kept(2) [of pf auth n dn role pw actor] by (simp add: others.state_kept_def)
  moreover have "pf_clock (snd (bootstrap_user auth n dn role pw actor pf)) = pf_clock pf"
    by (cases "truthy (st_database_url (as_settings auth))")
       (auto simp: bootstrap_user_def with_session_not_configured intro!: clock_and_then)
  ultimately show "platform_contract pf (snd (bootstrap_user auth n dn role pw actor pf))"
    by (simp add: platform_contract_def bootstrap_user_account_step [OF assms])
qed

lemma sign_in_contract:
  assumes "auth_ok auth" and "wf_users (users_of pf)"
  shows "platform_contract pf (snd (login auth n pw pf))"
    and "platform_contract pf (snd (logout auth p pf))"
    and "platform_contract pf (snd (validate_session auth p pf))"
proof -
  show "platform_contract pf (snd (login auth n pw pf))"
    using login_account_step [OF assms] unfolding login_def
    by (rule auth_contract) (auto intro: others.kept_login simp: clock_login)
  show "platform_contract pf (snd (logout auth p pf))"
    unfolding logout_def by (rule auth_contract) (auto intro!: record_only_step others.kept_auth_event)
  show "platform_contract pf (snd (validate_session auth p pf))"
    using validate_account_step [of pf auth p] unfolding validate_session_def
    by (rule auth_contract) (auto intro: others.kept_validate simp: clock_validate)
qed

lemma step_contract:
  assumes "auth_ok (az_auth az)" and "wf_accounts pf" and "platform_step az pf pf'"
  shows "platform_contract pf pf'"
proof -
  have wf: "wf_users (users_of pf)" using assms(2) by (simp add: wf_accounts_def)
  from assms(3) show ?thesis
  proof cases
    case (time_passes t)
    then show ?thesis by (auto simp: platform_contract_def others.R_refl intro!: account_stepI_same)
  next
    case (source_read zips path a h)
    obtain n where "fst (snd (ingest_source zips path (settings_of az) a (pf, h))) = pf\<lparr>pf_draws := pf_draws pf + n\<rparr>"
      using ingest_source_draws by blast
    with source_read show ?thesis by (simp add: draws_only_contract)
  next
    case (source_scanned source h)
    then show ?thesis by (simp add: scan_and_cleanup_platform draws_only_contract)
  qed (simp_all add: sign_in_contract [OF assms(1) wf] require_contract user_bodies_contract [OF wf]
        new_account_contract [OF assms(2)] assessment_contract governance_contract agent_contract
        secured_audit_contract)
qed


section \<open>Runs\<close>

lemma contract_wf:
  assumes "platform_contract pf pf'" and "wf_accounts pf"
  shows "wf_accounts pf'" and "accounts_evolve (pf_store pf) (pf_store pf')"
proof -
  have "users_step (users_of pf) (users_of pf')" and step: "account_step pf pf'"
    using assms(1) by (simp_all add: platform_contract_def account_step_def)
  then show "wf_accounts pf'" "accounts_evolve (pf_store pf) (pf_store pf')"
    using assms(2) by (auto simp: wf_accounts_def intro: users_step_evolve account_step_wf [OF step, unfolded wf_accounts_def, THEN conjunct1] account_step_wf [OF step, unfolded wf_accounts_def, THEN conjunct2])
qed

definition has_active_admin :: "platform \<Rightarrow> bool" where
  "has_active_admin pf = list_ex is_active_admin (users_of pf)"

lemma run_contract:
  assumes "platform_run az pf pf'" and "auth_ok (az_auth az)" and "wf_accounts pf"
  shows "wf_accounts pf'" and "accounts_evolve (pf_store pf) (pf_store pf')"
    and "others_kept (pf_store pf) (pf_store pf')" and "pf_clock pf \<le> pf_clock pf'"
    and "has_active_admin pf \<Longrightarrow> has_active_admin pf'"
proof -
  have "wf_accounts pf' \<and> accounts_evolve (pf_store pf) (pf_store pf')
      \<and> others_kept (pf_store pf) (pf_store pf') \<and> pf_clock pf \<le> pf_clock pf'
      \<and> (has_active_admin pf \<longrightarrow> has_active_admin pf')"
    using assms
  proof (induction rule: platform_run.induct)
    case (run_refl pf)
    then show ?case by (simp add: account_history.R_refl others.R_refl)
  next
    case (run_step pf pf' pf'')
    then have contract: "platform_contract pf' pf''" and wf: "wf_accounts pf'"
      by (auto intro: step_contract)
    have "has_active_admin pf' \<longrightarrow> has_active_admin pf''"
      using contract wf users_step_admin [of "users_of pf'" "users_of pf''"]
      by (auto simp: has_active_admin_def list_ex_iff platform_contract_def account_step_def wf_accounts_def)
    with run_step contract_wf [OF contract wf] contract show ?case
      by (auto simp: platform_contract_def intro: account_history.R_trans others.R_trans)
  qed
  then show "wf_accounts pf'" "accounts_evolve (pf_store pf) (pf_store pf')"
    "others_kept (pf_store pf) (pf_store pf')" "pf_clock pf \<le> pf_clock pf'"
    "has_active_admin pf \<Longrightarrow> has_active_admin pf'" by blast+
qed

text \<open>C3: Whatever is done with the platform, by anyone, in any order and however checks and changes of
  different callers interleave: accounts stay well formed (ids and names unique, roles and password
  hashes readable), the platform never loses its last active administrator, no account disappears or
  changes its id or name, every change of a role, an activity or a password renews the session
  version, and scans, findings, scores, evidence and the audit trail only ever grow.\<close>

theorem platform_invariants:
  assumes "auth_ok (az_auth az)" and "wf_accounts pf" and "has_active_admin pf" and "platform_run az pf pf'"
  shows "wf_accounts pf' \<and> has_active_admin pf'
     \<and> accounts_evolve (pf_store pf) (pf_store pf')
     \<and> others_kept (pf_store pf) (pf_store pf')
     \<and> prefix (db_audit_events (pf_store pf)) (db_audit_events (pf_store pf'))"
  using run_contract [OF assms(4,1,2)] assms(3) by (simp add: others_kept_audit)

section \<open>Sessions\<close>

definition session_of :: "Principal \<Rightarrow> User \<Rightarrow> bool" where
  "session_of p u = (us_id u = pr_user_id p \<and> us_session_version u = pr_session_version p)"

lemma get_by_id_wf: "wf_users (db_users d) \<Longrightarrow> get_by_id i d = Some u \<longleftrightarrow> u \<in> set (db_users d) \<and> us_id u = i"
  using get_by_id_Some [of i d u] get_row_distinct [of us_id "db_users d" u]
  by (auto simp: get_by_id_def wf_users_def)

lemma evolved_user:
  fixes pf pf' :: platform
  assumes "wf_accounts pf'" and "accounts_evolve (pf_store pf) (pf_store pf')"
    and "get_by_id i (pf_store pf) = Some u"
  obtains u' where "get_by_id i (pf_store pf') = Some u'" and "user_change u u'"
proof -
  have u: "u \<in> set (users_of pf)" "us_id u = i" using get_by_id_Some [OF assms(3)] by simp_all
  then obtain u' where "u' \<in> set (users_of pf')" and change: "user_change u u'"
    using assms(2) unfolding accounts_evolve_def by blast
  with u have "get_by_id i (pf_store pf') = Some u'"
    using assms(1) by (simp add: get_by_id_wf wf_accounts_def user_change_def)
  from this change show ?thesis by (rule that)
qed

lemma stale_session_rejected:
  assumes "get_by_id (pr_user_id p) (pf_store pf) = Some u" and "us_session_version u \<noteq> pr_session_version p"
  shows "isl (fst (validate_session auth p pf))" and "isl (fst (require az p perm act sc pf))"
proof -
  have rejected: "isl (fst (validate_session auth p pf))" for auth
    using assms
    by (cases "truthy (st_database_url (as_settings auth))")
       (auto simp: validate_session_def validate_session_body_def record_auth_event_eq with_session_def
          open_session_def Let_def)
  then show "isl (fst (validate_session auth p pf))" .
  show "isl (fst (require az p perm act sc pf))"
    using rejected [of "az_auth az"] by (cases "validate_session (az_auth az) p pf"; cases "fst (validate_session (az_auth az) p pf)") (auto simp: require_def)
qed

text \<open>C4: A session ends with the authority it was given for. Once the account has another role, was
  deactivated (even if it is active again) or has another password, no operation ever accepts the
  session again, neither then nor at any later time, whatever else happens in between.\<close>

theorem stale_session_never_returns:
  assumes "auth_ok (az_auth az)" and "wf_accounts pf"
    and "get_by_id i (pf_store pf) = Some u" and "session_of p u"
    and "platform_run az pf pf'" and "get_by_id i (pf_store pf') = Some u'"
    and "security_state u' \<noteq> security_state u" and "platform_run az pf' pf''"
  shows "isl (fst (validate_session (az_auth az) p pf'')) \<and> isl (fst (require az p perm act sc pf''))"
proof -
  note first = run_contract [OF assms(5,1,2)]
  note later = run_contract [OF assms(8,1) first(1)]
  obtain v where "get_by_id i (pf_store pf') = Some v" "user_change u v"
    using evolved_user [OF first(1,2) assms(3)] .
  with assms(6,7) have grown: "us_session_version u < us_session_version u'"
    by (auto simp: user_change_def)
  obtain w where w: "get_by_id i (pf_store pf'') = Some w" "user_change u' w"
    using evolved_user [OF later(1,2) assms(6)] .
  then have "us_session_version w \<noteq> pr_session_version p"
    using grown assms(4) by (auto simp: user_change_def session_of_def)
  moreover have "pr_user_id p = i"
    using assms(3,4) by (auto simp: session_of_def dest: get_by_id_Some)
  ultimately show ?thesis
    using w(1) stale_session_rejected by blast
qed


section \<open>Recovering an account\<close>

lemma reset_password_effect:
  assumes "auth_ok (az_auth az)" and "wf_users (users_of pf)"
    and "reset_password az caller uid pw pf = (Inr view, pf')"
  obtains u enc salt where "wf_users (users_of pf')" and "get_by_id uid (pf_store pf') = Some u"
    and "hash_password (as_hasher (az_auth az)) salt pw = Inr enc" and "us_password_hash u = enc"
    and "us_must_change_password u" and "us_locked_until u = None"
proof -
  let ?auth = "az_auth az"
  have ok: "truthy (st_database_url (as_settings ?auth))" using assms(1) by (simp add: auth_ok_def)
  obtain q pf1 where req: "require az caller MANAGE_USERS ''reset user passwords'' None pf = (Inr q, pf1)"
    and body: "with_session (as_settings ?auth) (reset_password_body ?auth q uid pw) pf1 = (Inr view, pf')"
    using assms(3) by (auto simp: reset_password_def and_then_eq_Inr)
  have wf1: "wf_users (users_of pf1)" using require_frame(1) [of az caller MANAGE_USERS "''reset user passwords''" None pf] req assms(2)
    by simp
  from body ok obtain s where run: "reset_password_body ?auth q uid pw (begin_session pf1) = (Inr view, s)"
    and pf': "pf' = platform.truncate s"
    by (cases "reset_password_body ?auth q uid pw (begin_session pf1)") simp
  from run obtain u enc where u: "get_by_id uid (pf_store pf1) = Some u"
    and enc: "fst (hash_in (as_hasher ?auth) pw (begin_session pf1)) = Inr enc"
    and users: "users_of pf' = put_row us_id (u\<lparr>us_password_hash := enc, us_must_change_password := True,
        us_failed_attempts := 0, us_locked_until := None, us_session_version := us_session_version u + 1\<rparr>) (users_of pf1)"
    unfolding pf' by (auto simp: reset_password_body_def and_then_eq_Inr admin_target_Inr record_auth_event_eq
        hash_in_eq Let_def split: if_splits)
  have "wf_users (users_of pf')"
    using reset_password_account_step [OF wf1, of "as_settings ?auth" ?auth q uid pw] body wf1
    by (auto simp: account_step_def intro: users_step_wf)
  moreover have "get_by_id uid (pf_store pf') = Some (u\<lparr>us_password_hash := enc, us_must_change_password := True,
        us_failed_attempts := 0, us_locked_until := None, us_session_version := us_session_version u + 1\<rparr>)"
    using calculation u users get_by_id_Some [OF u]
    by (auto simp: get_by_id_wf intro!: put_row_self)
  ultimately show ?thesis
    using enc that by (auto simp: hash_in_eq)
qed


end
