(* ===== verification/PageFacts.thy ===== *)
theory PageFacts
  imports Pages PlatformSteps
begin

text \<open>
  What a request of a browser can do. The locale \<open>viewing\<close> has the operations that pages only look or
  audit with, \<open>acting\<close> adds those that change accounts or store assessments, \<open>governing\<close> the decisions: a
  relation between platforms that each operation keeps is kept by every page and every request. They
  are interpreted on three relations: only audit events are added, no decision is touched, and the
  platform runs by its steps.
\<close>

text \<open>The inputs that ask for a change.\<close>

definition submits :: "page_input \<Rightarrow> bool" where
  "submits inp =
     (case inp of
        SignInInput username pw \<Rightarrow> True
      | PasswordInput submitted \<Rightarrow> True
      | UsersInput change \<Rightarrow> change \<noteq> NoChange
      | RunInput run picked \<Rightarrow> ri_pressed run
      | ReviewInput decision \<Rightarrow> decision \<noteq> NoDecision
      | _ \<Rightarrow> False)"

section \<open>Looking\<close>

locale viewing =
  fixes cx :: AppContext and P :: "platform \<Rightarrow> platform \<Rightarrow> bool"
  assumes P_refl: "P pf pf"
    and P_trans: "P pf pf' \<Longrightarrow> P pf' pf'' \<Longrightarrow> P pf pf''"
    and P_validate: "P pf (snd (validate_session (az_auth (cx_authz cx)) p pf))"
    and P_require: "P pf (snd (require (cx_authz cx) p perm act sc pf))"
    and P_logout: "P pf (snd (logout (az_auth (cx_authz cx)) p pf))"
    and P_scans: "P pf (snd (secured_list_recent_scans (cx_authz cx) p n pf))"
    and P_assessment: "P pf (snd (secured_get_assessment (cx_authz cx) p i pf))"
    and P_trace: "P pf (snd (secured_trace_finding (cx_authz cx) p i pf))"
    and P_finalization: "P pf (snd (secured_check_finalization (cx_authz cx) p i pf))"
    and P_catalog: "P pf (snd (get_control_catalog (cx_authz cx) p pf))"
    and P_compare: "P pf (snd (secured_compare_scans (cx_authz cx) p i j pf))"
    and P_trail: "P pf (snd (secured_get_audit_trail (cx_authz cx) p i pf))"
    and P_log: "P pf (snd (get_platform_audit_log (cx_authz cx) p n pf))"
    and P_activity: "P pf (snd (get_recent_activity (cx_authz cx) p n pf))"
    and P_users: "P pf (snd (list_users (cx_authz cx) p pf))"
    and P_export: "P pf (snd (secured_export_assessment (cx_authz cx) p i pf))"
    and P_export_scan: "P pf (snd (secured_export_quick_scan (cx_authz cx) p scanned pf))"
    and P_exported: "P pf (snd (record_export (cx_authz cx) p fmt sc q pf))"
    and P_status: "P pf (snd (secured_agent_status (cx_authz cx) p pf))"
    and P_explain: "P pf (snd (secured_explain_finding (cx_authz cx) p i f t pf))"
    and P_summarize: "P pf (snd (secured_summarize_domain (cx_authz cx) p i dm t pf))"
    and P_answer: "P pf (snd (secured_answer_question (cx_authz cx) p i txt t pf))"
    and P_summary: "P pf (snd (secured_executive_summary (cx_authz cx) p i t pf))"
    and P_scan: "P pf (fst (snd (secured_run_quick_scan zips (cx_authz cx) p path a (pf, h))))"
begin

definition safe :: "browser \<times> platform world \<Rightarrow> 'a flow \<times> browser \<times> platform world \<Rightarrow> bool" where
  "safe s r = P (fst (snd s)) (fst (snd (snd r)))"

lemma safe_browser [simp]:
  "safe s (f, s)" "safe s (f, apfst g s)" "safe (b, w) (f, b', w)" "safe (apfst g s) r = safe s r"
  by (simp_all add: safe_def P_refl)

lemma safe_proceed:
  assumes "safe s r" and "\<And>a t. safe t (k a t)"
  shows "safe s (proceed r k)"
proof -
  obtain f t where "r = (f, t)" by (cases r) blast
  with assms(1) show ?thesis
    by (cases f) (use assms(2) P_trans in \<open>auto simp: safe_def\<close>)
qed

lemma run_action_state: "snd (snd (run_action name fn (b, w))) = snd (fn w)"
  by (cases "fn w"; cases "fst (fn w)") (auto simp: run_action_def)

lemma safe_run_action:
  "(\<And>pf h. P pf (fst (snd (fn (pf, h))))) \<Longrightarrow> safe s (run_action name fn s)"
  by (cases s; cases "snd s") (simp add: safe_def run_action_state)

lemma safe_action: "(\<And>pf. P pf (snd (fn pf))) \<Longrightarrow> safe s (action name fn s)"
  unfolding action_def by (rule safe_run_action) (simp add: on_platform_pair)

lemma safe_on_host:
  "(\<And>b pf. P pf (snd (snd (run (b, pf))))) \<Longrightarrow> safe s (on_host run s)"
  by (cases s; cases "snd s") (simp add: safe_def on_host_def split_beta)

lemma safe_located: "safe s (located path cx s)"
  by (cases s; cases "snd s") (simp add: located_def safe_def P_refl split_beta)

lemma P_setup: "P pf (snd (snd (page_setup (cx_authz cx) perm (b, pf))))"
proof -
  have acted: "P pf (snd (snd (run_action name fn (b, pf))))" if "P pf (snd (fn pf))" for name b and fn :: "platform \<Rightarrow> 'x result \<times> platform"
    using that by (simp add: run_action_state)
  have continued: "P pf (snd (snd (proceed r (\<lambda>x (b, s). case x of None \<Rightarrow> (Stopped, b, s) | Some q \<Rightarrow> (Continue q, g q b, s)))))"
    if "P pf (snd (snd r))" for r :: "Principal option flow \<times> browser \<times> platform" and g
    using that by (cases r; cases "fst r") (auto split: option.split)
  show ?thesis
    by (auto simp: page_setup_def P_refl intro!: continued acted P_validate P_require split: option.split)
qed

lemma P_run_app: "P pf (snd (snd (run_app (cx_authz cx) (b, pf))))"
proof -
  have "P pf (snd (snd (refresh_session (cx_authz cx) (b, pf))))"
    using P_validate [of pf] by (auto simp: refresh_session_def P_refl split_beta split: option.split sum.split)
  then show ?thesis
    by (cases "refresh_session (cx_authz cx) (b, pf)"; cases "fst (refresh_session (cx_authz cx) (b, pf))")
       (auto simp: run_app_def P_refl split: option.split)
qed

lemmas view_intros = safe_proceed safe_action safe_run_action safe_on_host P_setup P_logout P_scans P_assessment P_trace
  P_finalization P_catalog P_compare P_trail P_log P_activity P_users P_export P_export_scan P_exported P_status
  P_explain P_summarize P_answer P_summary P_scan P_run_app

lemma safe_set_up: "safe s (set_up cx perm s)"
  unfolding set_up_def by (auto intro!: view_intros)

lemma safe_active: "safe s (require_active_assessment cx p s)"
  unfolding require_active_assessment_def
  by (auto simp: stop_def tell_def intro!: view_intros split: option.split)

lemma safe_sidebar: "safe s (render_sidebar cx p picked s)"
  unfolding render_sidebar_def
  by (auto simp: Let_def intro!: view_intros split: option.split list.split)

lemmas page_intros = view_intros safe_located safe_set_up safe_active safe_sidebar
lemmas page_messages = stop_def tell_def rerun_with_def

lemma reading_pages_safe:
  shows "safe s (dashboard_page cx s)" "safe s (findings_page cx chosen selected trace s)"
    "safe s (controls_page cx ds ss s)" "safe s (compare_page cx i j pressed s)"
    "safe s (audit_log_page cx limit events s)" "safe s (reports_page cx s)" "safe s (system_page cx s)"
    "safe s (help_page cx s)"
  unfolding dashboard_page_def findings_page_def controls_page_def compare_page_def audit_log_page_def
    reports_page_def system_page_def help_page_def
  by (auto simp: Let_def page_messages  intro!: page_intros split: option.split list.split)

lemma safe_asked: "safe s (asked cx p result q s)"
  unfolding asked_def by (auto simp: Let_def comp_def intro!: page_intros split: question.split)

lemma auditing_pages_safe:
  shows "safe s (ai_assistant_page cx q s)" "safe s (quick_scan_page cx archive path pressed s)"
    "safe s (review_queue_page cx NoDecision s)" "safe s (users_page cx NoChange s)"
    "safe s (account_page cx None s)" "\<not> ri_pressed run \<Longrightarrow> safe s (assessments_page cx run picked s)"
  unfolding ai_assistant_page_def quick_scan_page_def review_queue_page_def users_page_def account_page_def
    review_tab_def override_tab_def manage_user_def assessments_page_def run_form_def run_source_def
  by (auto simp: Let_def page_messages  intro!: page_intros safe_asked split: option.split list.split)

lemma login_page_safe: "safe s (on_host (login_page (cx_authz cx) None) s)"
  by (rule safe_on_host) (auto simp: login_page_def P_refl Let_def)

lemma callback_safe: "safe s (run_callback cx pressed s)"
proof -
  have "P pf (snd (snd (sign_out (cx_authz cx) p (b, pf))))" for p b pf
    using P_logout [of pf p] by (auto simp: sign_out_def split: prod.split sum.split)
  moreover have "safe s (record_download cx p fmt i j s)" for p fmt i j
    using P_exported by (cases s; cases "snd s") (simp add: record_download_def safe_def on_platform_pair)
  ultimately show ?thesis by (auto simp: run_callback_def intro!: safe_on_host split: callback.split)
qed

lemma run_page_safe:
  assumes "\<not> submits inp"
  shows "safe s (run_page cx script inp s)"
proof -
  have "password_of inp = None" using assms by (simp add: submits_def password_of_def split: page_input.splits)
  then show ?thesis
    using assms reading_pages_safe auditing_pages_safe
    by (auto simp: run_page_def submits_def no_run_def split: page_input.splits)
qed

lemma serve_safe:
  assumes "\<And>script t. safe t (run_page cx script (rq_input rq) t)"
    and "\<And>t. safe t (account_page cx (password_of (rq_input rq)) t)"
    and "\<And>username pw t. rq_input rq = SignInInput username pw \<Longrightarrow> safe t (on_host (login_page (cx_authz cx) (Some (username, pw))) t)"
  shows "safe s (serve cx rq s)"
proof -
  have sign_in: "safe t (on_host (login_page (cx_authz cx)
      (case rq_input rq of SignInInput username pw \<Rightarrow> Some (username, pw) | _ \<Rightarrow> None)) t)" for t
    by (cases "rq_input rq") (auto intro: login_page_safe assms(3))
  have page: "safe t (run_page cx script (rq_input rq) (apfst show_flash t))" for script t
    using assms(1) [of "apfst show_flash t"] by simp
  have shown: "safe t (on_host (run_app (cx_authz cx)) t)" for t by (rule safe_on_host) (rule P_run_app)
  show ?thesis
    unfolding serve_def
    by (intro safe_proceed callback_safe shown)
       (auto intro!: safe_proceed safe_sidebar sign_in page assms(2) split: view.split)
qed

lemma viewing_request_safe:
  assumes "\<not> submits (rq_input rq)"
  shows "safe s (serve cx rq s)"
proof (rule serve_safe)
  show "safe t (run_page cx script (rq_input rq) t)" for script t by (rule run_page_safe [OF assms])
  have "password_of (rq_input rq) = None" using assms by (simp add: submits_def password_of_def split: page_input.splits)
  then show "safe t (account_page cx (password_of (rq_input rq)) t)" for t by (simp add: auditing_pages_safe)
qed (use assms in \<open>simp add: submits_def\<close>)

end

section \<open>Changing accounts, assessing\<close>

locale acting = viewing +
  assumes P_login: "P pf (snd (login (az_auth (cx_authz cx)) username pw pf))"
    and P_own_password: "P pf (snd (change_own_password (az_auth (cx_authz cx)) p old new pf))"
    and P_create: "P pf (snd (create_user (cx_authz cx) p n dn role pw must pf))"
    and P_role: "P pf (snd (change_role (cx_authz cx) p i role pf))"
    and P_active: "P pf (snd (set_active (cx_authz cx) p i act pf))"
    and P_reset: "P pf (snd (reset_password (cx_authz cx) p i pw pf))"
    and P_run: "P pf (fst (snd (secured_run_new_assessment zips (cx_authz cx) p path a (pf, h))))"
begin

lemma sign_in_safe: "safe s (on_host (login_page (cx_authz cx) submitted) s)"
proof (rule safe_on_host)
  have "P pf (snd (snd (sign_in_submitted (cx_authz cx) username pw (b, pf))))" for username pw b pf
    using P_login [of pf username pw] by (auto simp: sign_in_submitted_def P_refl split: prod.split sum.split)
  then show "P pf (snd (snd (login_page (cx_authz cx) submitted (b, pf))))" for b pf
    by (auto simp: login_page_def P_refl Let_def split: option.split)
qed

lemma password_safe: "safe s (account_page cx submitted s)"
proof -
  have "P pf (snd (snd (change_password_submitted (cx_authz cx) p old new again (b, pf))))" for p old new again b pf
  proof -
    let ?acted = "run_action ''Changing password'' (change_own_password (az_auth (cx_authz cx)) p old new) (b, pf)"
    have "P pf (snd (snd ?acted))" by (simp add: run_action_state P_own_password)
    then show ?thesis
      by (cases "?acted"; cases "fst ?acted") (auto simp: change_password_submitted_def P_refl split: option.split)
  qed
  then show ?thesis
    unfolding account_page_def
    by (auto intro!: safe_proceed safe_set_up safe_on_host split: option.split)
qed

lemma changed_account_safe:
  "(\<And>pf. P pf (snd (fn pf))) \<Longrightarrow> safe s (changed_account name fn message s)"
  unfolding changed_account_def by (auto simp: page_messages intro!: safe_proceed safe_action split: option.split)

lemma users_safe: "safe s (users_page cx inp s)"
proof -
  have "safe t (create_user_form cx p account t)" for t p account
    unfolding create_user_form_def
    by (auto simp: page_messages intro!: changed_account_safe P_create split: sum.split)
  moreover have "safe t (manage_user cx p others inp t)" for t p others
    unfolding manage_user_def
    by (auto simp: Let_def page_messages intro!: changed_account_safe P_role P_active P_reset
        split: users_input.split sum.split)
  ultimately show ?thesis
    unfolding users_page_def
    by (auto simp: Let_def page_messages intro!: safe_proceed safe_set_up safe_action P_users
        split: option.split users_input.split)
qed

lemma assessments_safe: "safe s (assessments_page cx run picked s)"
proof -
  have "safe t (run_form cx p run t)" for t p
    unfolding run_form_def run_source_def
    by (auto simp: Let_def page_messages intro!: safe_proceed safe_located safe_run_action P_run split: option.split prod.split)
  then show ?thesis
    unfolding assessments_page_def
    by (auto simp: Let_def page_messages intro!: page_intros split: option.split)
qed

lemma acting_page_safe:
  assumes "script = ''views/review_queue.py'' \<longrightarrow> (\<forall>decision. inp = ReviewInput decision \<longrightarrow> decision = NoDecision)"
  shows "safe s (run_page cx script inp s)"
proof (cases "script = ''views/review_queue.py''")
  case True
  with assms have "inp = ReviewInput decision \<Longrightarrow> decision = NoDecision" for decision by blast
  with True show ?thesis
    by (cases inp) (simp_all add: run_page_def auditing_pages_safe(3))
next
  case False
  then show ?thesis
    by (simp add: run_page_def reading_pages_safe auditing_pages_safe(1,2) users_safe password_safe assessments_safe
        split: page_input.split)
qed

end

section \<open>Governance decisions\<close>

locale governing = acting +
  assumes P_review: "P pf (snd (secured_review_finding (cx_authz cx) p i status reason pf))"
    and P_override: "P pf (snd (secured_override_score (cx_authz cx) p i sid dm cat why w pf))"
begin

lemma review_queue_safe: "safe s (review_queue_page cx inp s)"
proof -
  have "safe t (submit_review cx p finding decision reason t)" for t p finding decision reason
    unfolding submit_review_def
    by (auto simp: Let_def page_messages intro!: safe_proceed safe_action P_review split: option.split sum.split)
  moreover have "safe t (submit_override cx p i chosen category why confirmed t)" for t p i chosen category why confirmed
    unfolding submit_override_def
    by (auto simp: Let_def page_messages intro!: safe_proceed safe_action P_override split: option.split sum.split)
  note submitted = calculation this
  have "safe t (review_tab cx p pending inp t)" "safe t (override_tab cx p result inp t)" for t p pending result
    unfolding review_tab_def override_tab_def
    by (auto simp: Let_def page_messages intro!: safe_proceed submitted split: decision_input.split)
  then show ?thesis
    unfolding review_queue_page_def
    by (auto simp: Let_def intro!: page_intros)
qed

lemma request_safe: "safe s (serve cx rq s)"
proof (rule serve_safe)
  show "safe t (run_page cx script (rq_input rq) t)" for script t
  proof (cases "script = ''views/review_queue.py''")
    case True
    then show ?thesis by (auto simp: run_page_def review_queue_safe split: page_input.split)
  next
    case False
    then show ?thesis by (intro acting_page_safe) simp
  qed
qed (rule password_safe sign_in_safe)+

end

end
