(* ===== verification/RequestFacts.thy ===== *)
theory RequestFacts
  imports PageFacts
begin

text \<open>
  What follows for requests of a browser: each is a run of the platform, so what holds of every run holds
  through the user interface; one that submits nothing only adds audit events; and a decision on a
  finding or score needs the session of an active manager.
\<close>

section \<open>Requests that submit nothing\<close>

sublocale audit_history \<subseteq> views: viewing cx state_kept for cx
  by unfold_locales (auto simp: reads_kept sessions_kept require_kept exports_kept agent_kept quick_scan_kept
      intro: state_trans)

definition audit_added :: "database \<Rightarrow> database \<Rightarrow> bool" where
  "audit_added d e = (e = d\<lparr>db_audit_events := db_audit_events e\<rparr> \<and> prefix (db_audit_events d) (db_audit_events e))"

interpretation additions: audit_history audit_added
proof unfold_locales
  show "audit_added d d" for d by (simp add: audit_added_def)
  show "audit_added d e \<Longrightarrow> audit_added e f \<Longrightarrow> audit_added d f" for d e f
    unfolding audit_added_def by (metis database.surjective database.update_convs(2) prefix_order.trans)
  show "audit_added d e \<Longrightarrow> audit_added d (e\<lparr>db_audit_events := db_audit_events e @ es\<rparr>)" for d e es
    unfolding audit_added_def by (cases d, cases e) auto
qed

section \<open>Decisions\<close>

text \<open>Findings and scores may be added, but no finding changes and no score is an override.\<close>

definition decisions_kept :: "database \<Rightarrow> database \<Rightarrow> bool" where
  "decisions_kept d e =
     (prefix (db_findings d) (db_findings e)
      \<and> (\<exists>rows. db_scores e = db_scores d @ rows \<and> list_all (\<lambda>r. so_override_of r = None) rows))"

interpretation decisions: account_history decisions_kept
proof unfold_locales
  show "decisions_kept d d" for d by (simp add: decisions_kept_def)
  show "decisions_kept d e \<Longrightarrow> decisions_kept e f \<Longrightarrow> decisions_kept d f" for d e f
    unfolding decisions_kept_def by (auto intro: prefix_order.trans)
  show "decisions_kept d e \<Longrightarrow> decisions_kept d (e\<lparr>db_audit_events := db_audit_events e @ es\<rparr>)" for d e es
    by (simp add: decisions_kept_def)
  show "decisions_kept d e \<Longrightarrow> decisions_kept d (e\<lparr>db_users := us\<rparr>)" for d e us
    by (simp add: decisions_kept_def)
qed

lemma decisions_kept_tables [simp]:
  "decisions_kept d (e\<lparr>db_scans := x1\<rparr>) = decisions_kept d e"
  "decisions_kept d (e\<lparr>db_controls := x2\<rparr>) = decisions_kept d e"
  "decisions_kept d (e\<lparr>db_file_inventory := x3\<rparr>) = decisions_kept d e"
  "decisions_kept d (e\<lparr>db_domain_mappings := x4\<rparr>) = decisions_kept d e"
  "decisions_kept d (e\<lparr>db_scanner_executions := x5\<rparr>) = decisions_kept d e"
  "decisions_kept d (e\<lparr>db_evidence := x6\<rparr>) = decisions_kept d e"
  "decisions_kept d (e\<lparr>db_recommendations := x7\<rparr>) = decisions_kept d e"
  "decisions_kept d (e\<lparr>db_control_evaluations := x8\<rparr>) = decisions_kept d e"
  by (simp_all add: decisions_kept_def)

lemma decisions_kept_rows [intro]:
  "decisions_kept d e \<Longrightarrow> decisions_kept d (e\<lparr>db_findings := db_findings e @ fs\<rparr>)"
  "decisions_kept d e \<Longrightarrow> list_all (\<lambda>r. so_override_of r = None) rs \<Longrightarrow>
     decisions_kept d (e\<lparr>db_scores := db_scores e @ rs\<rparr>)"
  by (auto simp: decisions_kept_def)

lemma decided_save_scan: "decisions.keeps (save_scan r)"
  by (rule decisions.keepsI_step)
     (simp_all add: save_scan_def fresh_rows_def map_work_def commit_def decisions_kept_def Let_def)

lemma decided_upsert: "decisions_kept d (ss_work s) \<Longrightarrow>
    decisions_kept d (ss_work (snd (upsert_controls cs s))) \<and> pf_store (snd (upsert_controls cs s)) = pf_store s"
proof (induction cs arbitrary: s)
  case (Cons c cs)
  have "decisions_kept d (ss_work (snd (upsert_control c s))) \<and> pf_store (snd (upsert_control c s)) = pf_store s"
    using Cons.prems by (auto simp: upsert_control_def new_uuid_def map_work_def Let_def split: option.splits)
  with Cons.IH [of "snd (upsert_control c s)"] show ?case by (simp add: split_beta Let_def)
qed simp

lemma decided_catalog:
  "decisions.session_kept d s \<Longrightarrow> decisions.session_kept d (snd (upsert_catalog s))"
  using decided_upsert [of d s CONTROL_CATALOG] by (simp add: upsert_catalog_def decisions.session_kept_def)

lemma decided_score_scan: "decisions.session_kept d s \<Longrightarrow> decisions.session_kept d (snd (score_scan i s))"
proof -
  have "list_all (\<lambda>r. so_override_of r = None) (fst (fresh_rows (score_row i t) rs s))" for t rs s
    by (auto simp: list_all_iff elim!: in_fresh_rows simp: score_row_def)
  then show "decisions.session_kept d s \<Longrightarrow> ?thesis"
    unfolding score_scan_def Let_def split_beta
    by (intro decisions.kept_and_then) (auto simp: decisions.session_kept_def map_work_def)
qed

lemma decided_score_and_generate:
  "decisions.session_kept d s \<Longrightarrow> decisions.session_kept d (snd (score_and_generate i s))"
  unfolding score_and_generate_def Let_def split_beta
  by (intro decisions.kept_and_then decided_score_scan decided_catalog)
     (auto simp: decisions.session_kept_def map_work_def commit_def)

lemma decided_evaluate:
  "decisions.session_kept d s \<Longrightarrow> decisions.session_kept d (snd (evaluate_and_persist i s))"
  using decided_catalog [of d s]
  by (auto simp: evaluate_and_persist_def Let_def split_beta decisions.session_kept_def map_work_def commit_def)

lemma decided_persist: "decisions.keeps (persist_assessment scanned)"
  unfolding decisions.keeps_iff persist_assessment_def Let_def split_beta
  using decided_save_scan
  by (auto simp: get_findings_def decisions.keeps_iff
      intro!: decisions.kept_and_then decisions.kept_event decided_score_and_generate decided_evaluate)

interpretation decided: acting cx decisions.state_kept for cx
  by unfold_locales (simp_all add: decisions.account_operations_kept decisions.run_kept decided_persist)

section \<open>Requests are runs of the platform\<close>

text \<open>Requests that come in one after the other, from any browsers in any states.\<close>

primrec serve_all :: "AppContext \<Rightarrow> (browser \<times> request) list \<Rightarrow> platform world \<Rightarrow> platform world" where
  "serve_all cx [] w = w"
| "serve_all cx (r # rs) w = serve_all cx rs (snd (snd (serve cx (snd r) (fst r, w))))"

lemma run_one: "platform_step az pf pf' \<Longrightarrow> platform_run az pf pf'"
  by (rule platform_run.run_step [OF platform_run.run_refl])

lemma run_trans: "platform_run az pf pf' \<Longrightarrow> platform_run az pf' pf'' \<Longrightarrow> platform_run az pf pf''"
  by (rotate_tac, induction rule: platform_run.induct) (auto intro: platform_run.run_step)

lemma run_and_then:
  assumes "platform_run az pf (snd m)" and "\<And>a s. platform_run az s (snd (f a s))"
  shows "platform_run az pf (snd (and_then m f))"
  using assms run_trans by (cases m; cases "fst m") auto

lemma run_world_and_then:
  fixes m :: "'a result \<times> platform world" and f :: "'a \<Rightarrow> platform world \<Rightarrow> 'b result \<times> platform world"
  assumes "platform_run az s (fst (snd m))" and "\<And>x t h. platform_run az t (fst (snd (f x (t, h))))"
  shows "platform_run az s (fst (snd (and_then m f)))"
  using assms run_trans by (cases m; cases "fst m") auto

lemma run_on_platform:
  "platform_run az s (snd (f s)) \<Longrightarrow> platform_run az s (fst (snd (on_platform f (s, h))))"
  by (simp add: on_platform_pair)

lemma run_secured:
  "(\<And>q s. platform_run az s (snd (body q s))) \<Longrightarrow> platform_run az pf (snd (secured az p perm act sc body pf))"
  unfolding secured_def by (intro run_and_then run_one [OF authorize])

lemma run_nothing: "pf' = pf \<Longrightarrow> platform_run az pf pf'"
  by (simp add: platform_run.run_refl)

lemma service_read_same: "snd (service_read st f pf) = pf" "snd (service_session st (\<lambda>s. (r s, s)) pf) = pf"
  by (simp_all add: service_read_def service_session_def begin_session_def platform.defs)

lemma with_session_same: "snd (with_session st (\<lambda>s. (r s, s)) pf) = pf"
  by (cases "truthy (st_database_url st)") (simp_all add: with_session_not_configured begin_session_def platform.defs)

lemmas same_platform = service_read_same with_session_same run_nothing

lemma read_runs:
  "platform_run az pf (snd (secured_list_recent_scans az p n pf))"
  "platform_run az pf (snd (secured_get_assessment az p i pf))"
  "platform_run az pf (snd (secured_trace_finding az p i pf))"
  "platform_run az pf (snd (secured_check_finalization az p i pf))"
  "platform_run az pf (snd (get_control_catalog az p pf))"
  "platform_run az pf (snd (secured_compare_scans az p i j pf))"
  "platform_run az pf (snd (secured_get_audit_trail az p i pf))"
  "platform_run az pf (snd (get_platform_audit_log az p n pf))"
  "platform_run az pf (snd (get_recent_activity az p n pf))"
  "platform_run az pf (snd (secured_export_assessment az p i pf))"
  "platform_run az pf (snd (secured_export_quick_scan az p scanned pf))"
  "platform_run az pf (snd (secured_agent_status az p pf))"
  unfolding secured_list_recent_scans_def secured_get_assessment_def secured_trace_finding_def
    secured_check_finalization_def get_control_catalog_def secured_compare_scans_def secured_get_audit_trail_def
    get_platform_audit_log_def get_recent_activity_def secured_export_assessment_def secured_export_quick_scan_def
    secured_agent_status_def secured_agent_def list_recent_scans_def svc_get_assessment_def svc_trace_finding_def
    svc_check_finalization_def compare_scans_def svc_get_audit_trail_def svc_export_assessment_def
  by (rule run_secured; simp add: same_platform)+

lemma list_users_runs: "platform_run az pf (snd (list_users az p pf))"
  unfolding list_users_def by (intro run_and_then run_one [OF authorize]) (simp add: same_platform)

lemma acting_runs:
  "platform_run az pf (snd (record_export az p fmt sc q pf))"
  "platform_run az pf (snd (secured_explain_finding az p i f t pf))"
  "platform_run az pf (snd (secured_summarize_domain az p i dm t pf))"
  "platform_run az pf (snd (secured_answer_question az p i asked_text t pf))"
  "platform_run az pf (snd (secured_executive_summary az p i t pf))"
  "platform_run az pf (snd (secured_review_finding az p i status reason pf))"
  "platform_run az pf (snd (secured_override_score az p i sid dm cat why w pf))"
  unfolding record_export_def secured_explain_finding_def secured_summarize_domain_def secured_answer_question_def
    secured_executive_summary_def secured_agent_def secured_review_finding_def secured_override_score_def
  by (rule run_secured, rule run_one,
      rule action_audited explained summarized answered summed_up reviewed overridden)+

lemma account_runs:
  "platform_run az pf (snd (change_own_password (az_auth az) p old new pf))"
  "platform_run az pf (snd (create_user az p n dn role pw must pf))"
  "platform_run az pf (snd (change_role az p i role pf))"
  "platform_run az pf (snd (set_active az p i act pf))"
  "platform_run az pf (snd (reset_password az p i pw pf))"
  unfolding change_own_password_def create_user_def change_role_def set_active_def reset_password_def
    settings_of_def [symmetric]
  by (intro run_and_then run_one [OF authorize] run_one [OF check_session] run_one [OF own_password]
      run_one [OF add_account] run_one [OF role_changed] run_one [OF activity_changed] run_one [OF password_reset])+

lemma scan_runs:
  "platform_run az pf (fst (snd (secured_run_new_assessment zips az p path a (pf, h))))"
  "platform_run az pf (fst (snd (secured_run_quick_scan zips az p path a (pf, h))))"
  unfolding secured_run_new_assessment_def secured_run_quick_scan_def
  by (intro run_world_and_then run_on_platform run_one [OF authorize] run_one [OF assessed] run_one [OF source_read]
      run_one [OF source_scanned] run_one [OF action_audited]; simp add: platform_run.run_refl)+

interpretation runs: governing cx "platform_run (cx_authz cx)" for cx
  by unfold_locales
     (auto simp: platform_run.run_refl read_runs list_users_runs acting_runs account_runs scan_runs
        intro: run_trans run_one platform_step.intros)


section \<open>Who a request acts for\<close>

definition same_session :: "Principal \<Rightarrow> Principal \<Rightarrow> bool" where
  "same_session p q =
     (pr_user_id q = pr_user_id p \<and> pr_session_version q = pr_session_version p \<and> pr_username q = pr_username p)"

lemma same_session_refl [simp]: "same_session p p"
  by (simp add: same_session_def)

lemma same_session_trans: "same_session p q \<Longrightarrow> same_session q r \<Longrightarrow> same_session p r"
  by (simp add: same_session_def)

lemma validated_same: "validate_session auth p pf = (Inr q, pf') \<Longrightarrow> same_session p q"
  by (cases "truthy (st_database_url (as_settings auth))")
     (auto simp: validate_session_def validate_session_body_def with_session_def open_session_def Let_def
        same_session_def and_then_eq_Inr rbind_Inr_iff split: if_splits option.splits prod.splits)

lemma required_same: "require az p perm act sc pf = (Inr q, pf') \<Longrightarrow> same_session p q"
  by (auto simp: require_def and_then_eq_Inr split: option.splits dest: validated_same)

lemma run_action_Continue:
  "run_action name fn s = (Continue a, t) \<Longrightarrow>
     bs_principal (fst t) = bs_principal (fst s) \<and> (\<forall>x. a = Some x \<longrightarrow> fn (snd s) = (Inr x, snd t))"
  by (cases s) (auto simp: run_action_def show_message_def split: prod.splits sum.splits if_splits)

lemma page_setup_Continue:
  assumes "page_setup az perm s = (Continue q, t)"
  shows "bs_principal (fst t) = Some q \<and> (\<exists>p. bs_principal (fst s) = Some p \<and> same_session p q)"
proof -
  obtain b pf where s: "s = (b, pf)" by (cases s)
  with assms obtain p where p: "bs_principal b = Some p" by (auto simp: page_setup_def split: option.splits)
  obtain name fn where acts: "page_setup az perm (b, pf) = proceed (run_action name fn (b, pf)) (\<lambda>refreshed (b, pf).
      case refreshed of None \<Rightarrow> (Stopped, b, pf) | Some p' \<Rightarrow> (Continue p', b\<lparr>bs_principal := Some p'\<rparr>, pf))"
    and same: "\<And>x pf'. fn pf = (Inr x, pf') \<Longrightarrow> same_session p x"
    by (cases perm) (auto simp: page_setup_def p dest: validated_same required_same)
  obtain f u where r: "run_action name fn (b, pf) = (f, u)" by (cases "run_action name fn (b, pf)")
  with assms acts s obtain x where f: "f = Continue (Some x)" and t: "q = x" "fst t = (fst u)\<lparr>bs_principal := Some x\<rparr>"
    by (cases f; cases u) (auto split: option.splits)
  with run_action_Continue r have "fn pf = (Inr x, snd u)" by fastforce
  with same have "same_session p x" by blast
  with t p s show ?thesis by simp
qed

lemma set_up_Continue:
  "set_up cx perm s = (Continue q, t) \<Longrightarrow>
     bs_principal (fst t) = Some q \<and> (\<exists>p. bs_principal (fst s) = Some p \<and> same_session p q)"
  by (cases s) (auto simp: set_up_def on_host_def split: prod.splits dest!: page_setup_Continue)

lemma run_app_Continue:
  "run_app az s = (Continue (Pages q pages), t) \<Longrightarrow>
     bs_principal (fst t) = Some q \<and> (\<exists>p. bs_principal (fst s) = Some p \<and> same_session p q)"
  by (cases s) (auto simp: run_app_def refresh_session_def proceed_def
      split: prod.splits sum.splits option.splits flow.splits if_splits dest!: validated_same)

lemma sidebar_Continue: "render_sidebar cx p picked s = (Continue a, t) \<Longrightarrow> bs_principal (fst t) = bs_principal (fst s)"
  unfolding render_sidebar_def proceed_def action_def
  by (auto simp: Let_def set_active_scan_def split: flow.splits option.splits list.splits prod.splits if_splits
      dest!: run_action_Continue)

lemma callback_Continue:
  "run_callback cx pressed s = (Continue a, t) \<Longrightarrow>
     bs_principal (fst t) = None \<or> bs_principal (fst t) = bs_principal (fst s)"
  by (cases s) (auto simp: run_callback_def on_host_def sign_out_def record_download_def split: callback.splits prod.splits sum.splits)


section \<open>Decisions are the managers'\<close>

lemma audit_added_decisions: "audit_added d e \<Longrightarrow> decisions_kept d e"
  unfolding audit_added_def decisions_kept_def
  by (metis append_Nil2 database.select_convs(6,10) database.surjective database.update_convs(2) list.pred_inject(1)
      prefix_order.refl)

lemma audit_added_users: "audit_added d e \<Longrightarrow> db_users e = db_users d"
  unfolding audit_added_def by (metis database.select_convs(1) database.surjective database.update_convs(2))

text \<open>A user who can be asked for and is not a manager; so is the same session after events were added.\<close>

definition bystander :: "Authorizer \<Rightarrow> Principal \<Rightarrow> platform \<Rightarrow> bool" where
  "bystander az p pf = (accessible az p pf \<and> \<not> manager_session p pf)"

lemma bystander_stays:
  assumes "bystander az p pf" and "same_session p q" and "additions.state_kept pf pf'"
  shows "bystander az q pf'"
  using assms audit_added_users [of "pf_store pf" "pf_store pf'"]
  by (simp add: bystander_def accessible_def manager_session_def same_session_def additions.state_kept_def get_by_id_def)

lemma bystander_refused:
  assumes "bystander az p pf" and "az_policy az = ROLE_PERMISSIONS" and "perm \<in> {REVIEW_FINDINGS, OVERRIDE_SCORES}"
  shows "additions.state_kept pf (snd (secured az p perm act sc body pf))"
proof -
  have "\<not> permitted az p perm pf" using assms permitted_manager by (auto simp: bystander_def)
  then obtain e pf' where "secured az p perm act sc body pf = (Inl e, pf')" "denied p pf pf'"
    using access.guarded_refused [of az p pf perm act sc body] assms(1) by (auto simp: secured_def bystander_def)
  then show ?thesis
    by (auto simp: denied_def only_audit_def intro!: additions.events_kept)
qed

text \<open>The rest of a page is entered with the events that were added so far.\<close>

lemma added_proceed:
  assumes "additions.views.safe s r"
    and "\<And>a t. r = (Continue a, t) \<Longrightarrow> additions.state_kept (fst (snd s)) (fst (snd t)) \<Longrightarrow> additions.views.safe t (k a t)"
  shows "additions.views.safe s (proceed r k)"
proof -
  obtain f t where r: "r = (f, t)" by (cases r) blast
  show ?thesis
  proof (cases f)
    case (Continue a)
    with assms r have "additions.state_kept (fst (snd s)) (fst (snd t))" "additions.views.safe t (k a t)"
      by (auto simp: additions.views.safe_def)
    with Continue r show ?thesis by (auto simp: additions.views.safe_def intro: additions.state_trans)
  qed (use assms(1) r in \<open>simp_all add: additions.views.safe_def\<close>)
qed

lemma decision_tabs_refused:
  assumes "bystander (cx_authz cx) q (fst (snd t))" and "az_policy (cx_authz cx) = ROLE_PERMISSIONS"
  shows "additions.views.safe t (review_tab cx q pending inp t)" and "additions.views.safe t (override_tab cx q result inp t)"
proof -
  have acted: "additions.views.safe t (action name (secured (cx_authz cx) q perm act sc body) t)"
    if "perm \<in> {REVIEW_FINDINGS, OVERRIDE_SCORES}" for name perm act sc and body :: "Principal \<Rightarrow> platform \<Rightarrow> 'x result \<times> platform"
    using bystander_refused [OF assms that] by (cases t; cases "snd t")
      (simp add: action_def additions.views.safe_def additions.views.run_action_state on_platform_pair)
  have "additions.views.safe t (submit_review cx q f decision reason t)" for f decision reason
    unfolding submit_review_def secured_review_finding_def
    by (auto simp: Let_def stop_def tell_def rerun_with_def intro!: additions.views.safe_proceed acted split: option.split sum.split)
  then show "additions.views.safe t (review_tab cx q pending inp t)"
    unfolding review_tab_def
    by (auto simp: stop_def tell_def rerun_with_def intro!: additions.views.safe_proceed split: decision_input.split)
  have "additions.views.safe t (submit_override cx q i chosen category why confirmed t)" for i chosen category why confirmed
    unfolding submit_override_def secured_override_score_def
    by (auto simp: Let_def stop_def tell_def rerun_with_def intro!: additions.views.safe_proceed acted split: option.split sum.split)
  then show "additions.views.safe t (override_tab cx q result inp t)"
    unfolding override_tab_def
    by (auto simp: Let_def stop_def tell_def rerun_with_def intro!: additions.views.safe_proceed split: decision_input.split)
qed


lemma review_queue_refused:
  assumes "az_policy (cx_authz cx) = ROLE_PERMISSIONS"
    and "\<forall>p. bs_principal (fst s) = Some p \<longrightarrow> bystander (cx_authz cx) p (fst (snd s))"
  shows "additions.views.safe s (review_queue_page cx inp s)"
  unfolding review_queue_page_def
proof (rule added_proceed [OF additions.views.safe_set_up])
  fix q t
  assume run: "set_up cx (Some VIEW_ASSESSMENTS) s = (Continue q, t)"
    and kept: "additions.state_kept (fst (snd s)) (fst (snd t))"
  obtain p where "bs_principal (fst s) = Some p" "same_session p q" using set_up_Continue [OF run] by blast
  with assms(2) kept have q: "bystander (cx_authz cx) q (fst (snd t))" by (blast intro: bystander_stays)
  have later: "bystander (cx_authz cx) q (fst (snd u))" if "additions.state_kept (fst (snd t)) (fst (snd u))" for u :: "browser \<times> platform world"
    using bystander_stays [OF q _ that] by simp
  note refused = decision_tabs_refused [OF later assms(1)]
  show "additions.views.safe t
      (proceed (require_active_assessment cx q t) (\<lambda>result s.
       proceed (action ''Finalization check'' (secured_check_finalization (cx_authz cx) q (am_scan_id result)) s) (\<lambda>finalization s.
       (let pending = review_queue (am_findings result)
        in proceed (review_tab cx q pending inp s) (\<lambda>rows s.
           proceed (override_tab cx q result inp s) (\<lambda>scores s.
           proceed (if cx_can cx q VIEW_AUDIT_LOG
                    then action ''Loading audit trail'' (secured_get_audit_trail (cx_authz cx) q (am_scan_id result)) s
                    else (Continue None, s)) (\<lambda>events s.
             (Continue (ReviewDrawn
                \<lparr>rv_finalization = finalization_lines finalization,
                 rv_note = (if cx_can cx q REVIEW_FINDINGS \<or> cx_can cx q OVERRIDE_SCORES then []
                   else [read_only_note (pr_role q)]),
                 rv_pending = show_len pending @ '' of '' @ show_len (am_findings result)
                   @ '' findings are pending review.'',
                 rv_rows = rows, rv_scores = scores,
                 rv_audit = map_option (map audit_trail_row) events\<rparr>), s))))))))"
    unfolding Let_def
    by (intro added_proceed additions.views.safe_active additions.views.safe_action additions.views.P_finalization refused)
       (auto intro: additions.state_trans intro!: additions.views.safe_action additions.views.P_trail)
qed


lemma decided_proceed:
  assumes "additions.views.safe s r"
    and "\<And>a t. r = (Continue a, t) \<Longrightarrow> additions.state_kept (fst (snd s)) (fst (snd t)) \<Longrightarrow> decisions.views.safe t (k a t)"
  shows "decisions.views.safe s (proceed r k)"
proof -
  obtain f t where r: "r = (f, t)" by (cases r) blast
  have kept: "decisions.state_kept (fst (snd s)) (fst (snd t))"
    using assms(1) audit_added_decisions by (simp add: r additions.views.safe_def additions.state_kept_def decisions.state_kept_def)
  show ?thesis
  proof (cases f)
    case (Continue a)
    with assms r have "decisions.views.safe t (k a t)" by (auto simp: additions.views.safe_def)
    with Continue r kept show ?thesis by (auto simp: decisions.views.safe_def intro: decisions.state_trans)
  qed (use kept r in \<open>simp_all add: decisions.views.safe_def\<close>)
qed

lemma run_page_decided:
  assumes "az_policy (cx_authz cx) = ROLE_PERMISSIONS"
    and "\<forall>p. bs_principal (fst s) = Some p \<longrightarrow> bystander (cx_authz cx) p (fst (snd s))"
  shows "decisions.views.safe s (run_page cx script inp s)"
proof (cases "script = ''views/review_queue.py''")
  case True
  have "decisions.views.safe s (review_queue_page cx decision s)" for decision
    using review_queue_refused [OF assms] audit_added_decisions
    by (simp add: additions.views.safe_def decisions.views.safe_def additions.state_kept_def decisions.state_kept_def)
  with True show ?thesis by (simp add: run_page_def split: page_input.split)
next
  case False
  then show ?thesis by (intro decided.acting_page_safe) simp
qed

lemma show_flash_principal [simp]: "bs_principal (show_flash b) = bs_principal b"
  by (auto simp: show_flash_def show_message_def Let_def split: option.split)

abbreviation platform_after :: "'a flow \<times> browser \<times> platform world \<Rightarrow> platform" where
  "platform_after r \<equiv> fst (snd (snd r))"

text \<open>C6: Whatever a browser asks for (any page, any input, any button, signing in or out included), the
  request leaves every stored finding with its review as it is and adds no score that overrides another, unless
  the browser's session belongs to an active account whose stored role is manager: hiding and disabling forms
  is not what protects decisions, nor is the role that the session remembers.\<close>

theorem requests_decide_only_for_managers:
  assumes "az_policy (cx_authz cx) = ROLE_PERMISSIONS"
    and "\<forall>p. bs_principal b = Some p \<longrightarrow> accessible (cx_authz cx) p pf \<and> \<not> manager_session p pf"
  shows "decisions_kept (pf_store pf) (pf_store (platform_after (serve cx rq (b, pf, h))))"
proof -
  have start: "\<forall>p. bs_principal (fst (b, pf, h)) = Some p \<longrightarrow> bystander (cx_authz cx) p (fst (snd (b, pf, h)))"
    using assms(2) by (simp add: bystander_def)
  have "decisions.views.safe (b, pf, h) (serve cx rq (b, pf, h))"
    unfolding serve_def
  proof (rule decided_proceed [OF additions.views.callback_safe], rule decided_proceed)
    fix t :: "browser \<times> platform world"
    show "additions.views.safe t (on_host (run_app (cx_authz cx)) t)"
      by (rule additions.views.safe_on_host) (rule additions.views.P_run_app)
  next
    fix a t shown u
    assume called: "run_callback cx (rq_callback rq) (b, pf, h) = (Continue a, t)"
      and first: "additions.state_kept (fst (snd (b, pf, h))) (fst (snd t))"
      and app: "on_host (run_app (cx_authz cx)) t = (Continue shown, u)"
      and second: "additions.state_kept (fst (snd t)) (fst (snd u))"
    show "decisions.views.safe u (case shown of
         SignInPage \<Rightarrow>
           proceed (on_host (login_page (cx_authz cx)
               (case rq_input rq of SignInInput username pw \<Rightarrow> Some (username, pw) | _ \<Rightarrow> None)) u)
             (\<lambda>_ s. (Continue SignInDrawn, s))
       | ChangePasswordPage \<Rightarrow> account_page cx (password_of (rq_input rq)) u
       | Pages p pages \<Rightarrow>
           proceed (render_sidebar cx p (rq_sidebar rq) u) (\<lambda>_ s.
             run_page cx (routed pages (rq_page rq)) (rq_input rq) (apfst show_flash s)))"
    proof (cases shown)
      case SignInPage
      then show ?thesis by (auto intro!: decisions.views.safe_proceed decided.sign_in_safe)
    next
      case ChangePasswordPage
      then show ?thesis by (simp add: decided.password_safe)
    next
      case (Pages q pages)
      with app obtain p where q: "bs_principal (fst u) = Some q" "bs_principal (fst t) = Some p" "same_session p q"
        by (cases t; cases "snd t") (auto simp: on_host_def split: prod.splits dest!: run_app_Continue)
      with callback_Continue [OF called] start have "bystander (cx_authz cx) p (fst (snd (b, pf, h)))" by auto
      then have "bystander (cx_authz cx) p (fst (snd t))" by (rule bystander_stays) (simp, rule first)
      then have bystander: "bystander (cx_authz cx) q (fst (snd u))" by (rule bystander_stays [OF _ q(3) second])
      have "decisions.views.safe u (proceed (render_sidebar cx q (rq_sidebar rq) u) (\<lambda>_ s.
             run_page cx (routed pages (rq_page rq)) (rq_input rq) (apfst show_flash s)))"
      proof (rule decided_proceed [OF additions.views.safe_sidebar])
        fix c v
        assume "render_sidebar cx q (rq_sidebar rq) u = (Continue c, v)" "additions.state_kept (fst (snd u)) (fst (snd v))"
        with q bystander have "\<forall>p. bs_principal (fst (apfst show_flash v)) = Some p \<longrightarrow>
            bystander (cx_authz cx) p (fst (snd (apfst show_flash v)))"
          by (auto dest!: sidebar_Continue intro: bystander_stays)
        from run_page_decided [OF assms(1) this]
        show "decisions.views.safe v (run_page cx (routed pages (rq_page rq)) (rq_input rq) (apfst show_flash v))"
          by simp
      qed
      with Pages show ?thesis by simp
    qed
  qed
  then show ?thesis by (simp add: decisions.views.safe_def decisions.state_kept_def)
qed


text \<open>C22: Looking changes nothing. Unless it submits a sign-in, a new password, a change of an account, a new
  assessment or a decision, a request leaves the whole database as it is, except for audit events, which are
  added behind those that were there (a quick scan, an export, a download, a question to the assistant,
  signing out and every refusal are such requests).\<close>

theorem viewing_adds_only_audit_events:
  assumes "\<not> submits (rq_input rq)"
  shows "audit_added (pf_store pf) (pf_store (platform_after (serve cx rq (b, pf, h))))"
  using additions.views.viewing_request_safe [OF assms, of "(b, pf, h)" cx]
  by (simp add: additions.views.safe_def additions.state_kept_def)

text \<open>C5: The user interface has no way around the platform's steps: whatever any number of browsers ask
  for, in any order and in any state of their sessions, the platform after it is one that a run of its steps
  reaches, so that every invariant of runs holds through the user interface.\<close>

theorem requests_are_platform_runs:
  "platform_run (cx_authz cx) (fst w) (fst (serve_all cx requests w))"
proof (induction requests arbitrary: w)
  case (Cons r requests)
  have "platform_run (cx_authz cx) (fst w) (fst (snd (snd (serve cx (snd r) (fst r, w)))))"
    using runs.request_safe [of cx "(fst r, w)" "snd r"] by (simp add: runs.safe_def)
  from run_trans [OF this Cons.IH] show ?case by simp
qed (simp add: platform_run.run_refl)

end
