(* ===== verification/DemoPlatform.thy ===== *)
theory DemoPlatform
  imports Demo Scripts RequestFacts
begin

text \<open>
  The properties of runs of the platform at work on the concrete accounts: alice, the only active
  administrator, makes a manager an employee and resets a password. Then concrete reports, a run of
  the command line, a browser session and requests of it.
\<close>

lemma demo_has_admin: "has_active_admin demo_platform"
  by (simp add: has_active_admin_def demo_users_def demo_user_def is_active_admin_def)

lemma demo_authorizer_ok: "auth_ok (az_auth demo_authorizer)"
  by (simp add: demo_authorizer_def)

text \<open>Somebody tries alice's name with a wrong password.\<close>

theorem platform_invariants_witness:
  "wf_accounts (snd (login demo_auth ''alice'' ''wrong'' demo_platform))
   \<and> has_active_admin (snd (login demo_auth ''alice'' ''wrong'' demo_platform))"
proof -
  have "platform_step demo_authorizer demo_platform (snd (login demo_auth ''alice'' ''wrong'' demo_platform))"
    using sign_in [where az = demo_authorizer and username = "''alice''" and pw = "''wrong''" and pf = demo_platform]
    by (simp add: demo_authorizer_def)
  from platform_invariants [OF demo_authorizer_ok demo_wf_accounts demo_has_admin run_step [OF run_refl this]]
  show ?thesis by blast
qed

text \<open>Alice makes mona an employee.\<close>

definition demoted :: platform where
  "demoted = snd (with_session (settings_of demo_authorizer)
     (change_role_body (demo_principal ''alice'' Role.ADMIN) ''mona'' Role.EMPLOYEE) demo_platform)"

definition demoted_mona :: User where
  "demoted_mona = (demo_user ''mona'' Role.MANAGER)\<lparr>us_role := Role_value Role.EMPLOYEE, us_session_version := 2\<rparr>"

lemma demo_mona: "get_by_id ''mona'' (pf_store demo_platform) = Some (demo_user ''mona'' Role.MANAGER)"
  by (simp add: get_by_id_def get_row_def demo_users_def demo_user_def)

lemma demoted_mona: "get_by_id ''mona'' (pf_store demoted) = Some demoted_mona"
  using demo_mona
  by (simp add: demoted_def demoted_mona_def settings_of_def demo_authorizer_def change_role_body_def admin_target_def
      record_auth_event_eq demo_principal_def demo_user_def demo_users_def Let_def strip_def lstrip_def rstrip_def
      is_space_def code_def put_row_def get_by_id_def get_row_def)

theorem stale_session_never_returns_witness:
  "isl (fst (validate_session demo_auth (demo_principal ''mona'' Role.MANAGER) demoted))"
proof -
  have run: "platform_run demo_authorizer demo_platform demoted"
    unfolding demoted_def by (rule run_step [OF run_refl]) (rule role_changed)
  have "session_of (demo_principal ''mona'' Role.MANAGER) (demo_user ''mona'' Role.MANAGER)"
    by (simp add: session_of_def demo_principal_def demo_user_def)
  moreover have "security_state demoted_mona \<noteq> security_state (demo_user ''mona'' Role.MANAGER)"
    by (simp add: security_state_def demoted_mona_def demo_user_def)
  ultimately show ?thesis
    using stale_session_never_returns [OF demo_authorizer_ok demo_wf_accounts demo_mona _ run demoted_mona _ run_refl]
    by (simp add: demo_authorizer_def)
qed

text \<open>Alice resets emil's password.\<close>

definition temporary :: string where
  "temporary = ''temporary horse 42''"

definition after_reset :: "UserView result \<times> platform" where
  "after_reset = reset_password demo_authorizer (demo_principal ''alice'' Role.ADMIN) ''emil'' temporary demo_platform"

lemma demo_alice: "get_by_id ''alice'' (pf_store demo_platform) = Some (demo_user ''alice'' Role.ADMIN)"
  and demo_emil: "get_by_id ''emil'' (pf_store demo_platform) = Some (demo_user ''emil'' Role.EMPLOYEE)"
  by (simp_all add: get_by_id_def get_row_def demo_users_def demo_user_def)

lemma alice_required:
  "\<exists>q. require demo_authorizer (demo_principal ''alice'' Role.ADMIN) MANAGE_USERS act sc demo_platform = (Inr q, demo_platform)
     \<and> pr_user_id q = ''alice'' \<and> pr_username q = ''alice''"
proof -
  have "session_current demo_auth (demo_principal ''alice'' Role.ADMIN) demo_platform (demo_user ''alice'' Role.ADMIN)"
    using demo_alice
    by (simp add: session_current_def demo_principal_def demo_user_def demo_platform_def idle_timeout_def
        demo_auth_def demo_settings_def default_settings_def timedelta_minutes_def minute_def second_def)
  moreover have "policy_can ROLE_PERMISSIONS Role.ADMIN MANAGE_USERS" by code_simp
  moreover have "us_role (demo_user ''alice'' Role.ADMIN) = Role_value Role.ADMIN"
    "\<not> us_must_change_password (demo_user ''alice'' Role.ADMIN)" by (simp_all only: demo_user_def User.select_convs simp_thms not_False_eq_True)
  ultimately have "permitted demo_authorizer (demo_principal ''alice'' Role.ADMIN) MANAGE_USERS demo_platform"
    unfolding permitted_def by (metis demo_authorizer_def Authorizer.select_convs)
  moreover have "strip (pr_username (demo_principal ''alice'' Role.ADMIN)) \<noteq> []"
    by (simp add: demo_principal_def strip_eq_Nil is_space_def code_def)
  moreover have "truthy (st_database_url (as_settings (az_auth demo_authorizer)))" "wf_users (users_of demo_platform)"
    by (simp_all add: demo_authorizer_def)
  ultimately obtain u role where
    "require demo_authorizer (demo_principal ''alice'' Role.ADMIN) MANAGE_USERS act sc demo_platform
       = (Inr (refreshed (demo_principal ''alice'' Role.ADMIN) u role (now demo_platform)), demo_platform)"
    using require_permitted by metis
  then show ?thesis by (simp add: refreshed_def demo_principal_def)
qed

lemma reset_runs:
  "\<exists>view pf' u. after_reset = (Inr view, pf') \<and> get_by_id ''emil'' (pf_store pf') = Some u
     \<and> us_username u = ''emil'' \<and> us_is_active u"
proof -
  obtain q where q: "require demo_authorizer (demo_principal ''alice'' Role.ADMIN) MANAGE_USERS
      ''reset user passwords'' None demo_platform = (Inr q, demo_platform)"
    "pr_user_id q = ''alice''" "pr_username q = ''alice''"
    using alice_required by blast
  have fits: "validate_new_password temporary ''emil'' (st_password_min_length demo_settings) = Inr ()"
    by code_simp
  have alice: "strip ''alice'' \<noteq> []" by (simp add: strip_eq_Nil is_space_def code_def)
  have hashed: "\<exists>enc. hash_password toy_hasher salt temporary = Inr enc" for salt
    by (simp add: hash_password_def toy_hasher_def default_hasher_def toy_scrypt_def)
  obtain enc where enc: "hash_password toy_hasher (pf_urandom demo_platform (pf_draws demo_platform)
      (ph_salt_bytes toy_hasher)) temporary = Inr enc"
    using hashed by blast
  have emil: "us_id (demo_user ''emil'' Role.EMPLOYEE) = ''emil''" "us_username (demo_user ''emil'' Role.EMPLOYEE) = ''emil''"
    "us_role (demo_user ''emil'' Role.EMPLOYEE) = Role_value Role.EMPLOYEE"
    by (simp_all only: demo_user_def User.select_convs)
  have ok: "truthy (st_database_url (as_settings demo_auth))" by simp
  have auth: "az_auth demo_authorizer = demo_auth" "as_settings demo_auth = demo_settings" "as_hasher demo_auth = toy_hasher"
    by (simp_all add: demo_authorizer_def demo_auth_def)
  have "us_role (demo_user ''emil'' Role.EMPLOYEE) \<in> range Role_value" unfolding emil(3) by (rule rangeI)
  then have view: "\<exists>view. user_view (demo_user ''emil'' Role.EMPLOYEE\<lparr>us_password_hash := enc, us_must_change_password := True,
        us_failed_attempts := 0, us_locked_until := None, us_session_version := n\<rparr>) t = Inr view" for n t
    by (auto simp: user_view_def simp del: Role_value.simps)
  have active: "us_is_active (demo_user ''emil'' Role.EMPLOYEE)" by (simp only: demo_user_def User.select_convs)
  have get: "get_by_id ''emil'' (d\<lparr>db_users := put_row us_id (demo_user ''emil'' Role.EMPLOYEE\<lparr>us_password_hash := enc,
        us_must_change_password := True, us_failed_attempts := 0, us_locked_until := None, us_session_version := n\<rparr>) demo_users\<rparr>)
      = Some (demo_user ''emil'' Role.EMPLOYEE\<lparr>us_password_hash := enc,
        us_must_change_password := True, us_failed_attempts := 0, us_locked_until := None, us_session_version := n\<rparr>)" for d n
    by (simp add: get_by_id_def get_row_def put_row_def demo_users_def demo_user_def)
  have gets: "get_by_id i (d\<lparr>db_audit_events := es\<rparr>) = get_by_id i d" for i d es
    by (simp add: get_by_id_def)
  show ?thesis
    using q fits alice enc emil ok demo_emil view active
    by (auto simp: after_reset_def reset_password_def auth reset_password_body_def admin_target_def hash_in_eq
        record_auth_event_eq get gets Let_def)
qed


section \<open>Reports\<close>

definition demo_raw_finding :: RawFinding where
  "demo_raw_finding =
     \<lparr>rf_title = ''say '' @ [dquote] @ ''hi'' @ [dquote] @ '', twice'' @ [newline], rf_finding_type = FindingType.OBSERVED_EVIDENCE,
      rf_category = FindingCategory.SECRET_EXPOSURE, rf_severity = Severity.HIGH, rf_confidence = ConfidenceLevel.HIGH,
      rf_line_start = 1, rf_line_end = 2, rf_evidence = ''x'', rf_masked_evidence = ''a,b'', rf_description = [],
      rf_impact = [], rf_recommended_action = [], rf_rule_id = ''R-1'', rf_remediation_mode = RemediationMode.ADVISORY_ONLY,
      rf_read_only_confirmation = True, rf_metadata = []\<rparr>"

definition demo_report :: ScanResult where
  "demo_report =
     \<lparr>rs_summary =
        \<lparr>sm_scan_id = ''s1'', sm_status = ScanStatus.COMPLETED, sm_source_path = ''/src'', sm_source_type = ''directory'',
         sm_total_files_found = 1, sm_files_scanned = 1, sm_files_skipped = 0, sm_total_findings = 1,
         sm_truncated = False, sm_integrity_verified = True, sm_source_hash_before = ''h'', sm_source_hash_after = ''h'',
         sm_findings_by_severity = [], sm_findings_by_domain = [], sm_scanner_warnings = [], sm_error_message = None,
         sm_started_at = Aware 0, sm_completed_at = None\<rparr>,
      rs_inventory = [], rs_skipped = [], rs_domain_mappings = [],
      rs_findings = [\<lparr>nf_scan_id = ''s1'', nf_source_relative_path = ''a.py'', nf_banking_domains = [''payments''],
         nf_scanner_id = ''rules'', nf_scanner_version = ''1'', nf_raw = demo_raw_finding\<rparr>],
      rs_scanner_executions = []\<rparr>"

definition demo_assessment :: AssessmentResult where
  "demo_assessment =
     \<lparr>am_scan_id = ''s1'',
      am_scan_row =
        \<lparr>sc_id = ''s1'', sc_source_path = ''/src'', sc_source_type = ''directory'', sc_status = ''completed'',
         sc_total_files_found = 1, sc_files_scanned = 1, sc_files_skipped = 0, sc_total_findings = 0, sc_truncated = False,
         sc_source_hash_before = None, sc_source_hash_after = None, sc_integrity_verified = True,
         sc_error_message = None, sc_created_at = Aware 0, sc_started_at = None, sc_completed_at = None\<rparr>,
      am_scores =
        [\<lparr>so_id = ''x'', so_scan_id = ''s1'', so_domain = ''payments'', so_raw_score = Some 100, so_weighted_score = None,
          so_confidence_level = ''high'', so_evidence_completeness = ''complete'', so_decision_category = ''acceptable'',
          so_files_evaluated = 1, so_findings_count = 0, so_calculated_at = Aware 0, so_override_of = None\<rparr>],
      am_control_evaluations = [], am_evidence = [], am_recommendations = [], am_findings = [],
      am_audit_events = [], am_scan_result = None\<rparr>"

theorem exports_read_back_witness:
  "csv_read (to_findings_csv demo_report) = findings_csv_header # map finding_cells (enumerate 1 (rs_findings demo_report))
   \<and> csv_read (to_scores_csv demo_assessment) = scores_header # map score_csv_row (am_scores demo_assessment)
   \<and> list_all export_char (to_json demo_report 0)"
proof -
  have "list_all (\<lambda>n. plain_cell (nf_scanner_id n) \<and> plain_cell (rf_rule_id (nf_raw n))) (rs_findings demo_report)"
    by (simp add: demo_report_def demo_raw_finding_def plain_cell_def dquote_def newline_def)
  moreover have "unquoted_ok demo_assessment"
    by (simp add: demo_assessment_def unquoted_ok_def plain_cell_def dquote_def newline_def)
  ultimately show ?thesis
    using exports_read_back [of demo_report demo_assessment 0] by blast
qed

section \<open>The first administrator\<close>

definition demo_file :: "string list" where
  "demo_file = [''# local use'', ''ADMIN_USERNAME = zoe'', ''admin_password=correct horse battery'']"

lemma demo_file_credentials: "credentials demo_file = (''zoe'', ''zoe'', ''correct horse battery'')"
  by code_simp

lemma demo_file_valid: "valid_account 12 ''zoe'' ''zoe'' ''correct horse battery''"
  by code_simp

lemma demo_no_zoe: "get_by_username ''zoe'' (pf_store demo_platform) = None"
  by (simp add: get_by_username_def get_row_def demo_users_def demo_user_def) code_simp

theorem administrator_from_command_line_witness:
  "\<exists>msg u. fst (create_admin_from_file demo_settings toy_hasher demo_file demo_platform) = Inr (0, msg)
     \<and> users_of (snd (create_admin_from_file demo_settings toy_hasher demo_file demo_platform)) = demo_users @ [u]
     \<and> is_active_admin u"
proof -
  have "truthy (st_database_url demo_settings)" "st_password_min_length demo_settings = 12"
    by (simp_all add: demo_settings_def truthy_def default_settings_def)
  with administrator_from_command_line [OF _ toy_scrypt_ok demo_wf_accounts demo_file_credentials, of demo_settings
      "fst (create_admin_from_file demo_settings toy_hasher demo_file demo_platform)"
      "snd (create_admin_from_file demo_settings toy_hasher demo_file demo_platform)"]
    demo_file_valid demo_no_zoe
  show ?thesis by auto
qed

section \<open>A browser session\<close>

definition demo_browser :: browser where
  "demo_browser = \<lparr>bs_principal = Some (demo_principal ''emil'' Role.EMPLOYEE), bs_notice = None, bs_scan = None,
     bs_flash = None, bs_quick_scan = None, bs_shown = []\<rparr>"


section \<open>Requests\<close>

text \<open>Requests of an employee's browser, on the platform and the host of the other examples.\<close>

definition demo_context :: AppContext where
  "demo_context = \<lparr>cx_authz = demo_authorizer, cx_zips = (\<lambda>_. None), cx_elapsed = 0,
     cx_reachable = True\<rparr>"

definition demo_request :: "page_input \<Rightarrow> request" where
  "demo_request inp = \<lparr>rq_callback = NoCallback, rq_sidebar = None, rq_page = ''views/review_queue.py'', rq_input = inp\<rparr>"

theorem viewing_adds_only_audit_events_witness:
  "\<not> submits (rq_input (demo_request NoInput))
   \<and> audit_added (pf_store demo_platform) (pf_store (platform_after
       (serve demo_context (demo_request NoInput) (demo_browser, demo_platform, sample_host (\<lambda>_ t. t)))))"
proof
  show first: "\<not> submits (rq_input (demo_request NoInput))" by (simp add: demo_request_def submits_def)
  from viewing_adds_only_audit_events [OF first]
  show "audit_added (pf_store demo_platform) (pf_store (platform_after
       (serve demo_context (demo_request NoInput) (demo_browser, demo_platform, sample_host (\<lambda>_ t. t)))))" .
qed

text \<open>An employee asks for the review queue with an approval, and for a score's override.\<close>

theorem requests_decide_only_for_managers_witness:
  "accessible demo_authorizer (demo_principal ''emil'' Role.EMPLOYEE) demo_platform
   \<and> decisions_kept (pf_store demo_platform) (pf_store (platform_after (serve demo_context
       (demo_request (ReviewInput (SubmitReview (Some ''f1'') (Some ''approved'') [])))
       (demo_browser, demo_platform, sample_host (\<lambda>_ t. t)))))"
proof -
  have policy: "az_policy (cx_authz demo_context) = ROLE_PERMISSIONS"
    by (simp add: demo_context_def demo_authorizer_def)
  have emil: "get_by_id ''emil'' (pf_store demo_platform) = Some (demo_user ''emil'' Role.EMPLOYEE)"
    by (simp add: get_by_id_def get_row_def demo_users_def demo_user_def)
  have "us_role (demo_user ''emil'' Role.EMPLOYEE) \<noteq> Role_value Role.MANAGER"
    by (simp only: demo_user_def User.select_convs) simp
  with emil have "\<not> manager_session (demo_principal ''emil'' Role.EMPLOYEE) demo_platform"
    unfolding manager_session_def by (auto simp: demo_principal_def)
  then have "\<forall>p. bs_principal demo_browser = Some p \<longrightarrow>
      accessible (cx_authz demo_context) p demo_platform \<and> \<not> manager_session p demo_platform"
    using demo_accessible by (simp add: demo_browser_def demo_context_def)
  from requests_decide_only_for_managers [OF policy this] demo_accessible show ?thesis by blast
qed

end
