(* ===== verification/Schema.thy ===== *)
theory Schema
  imports Prelude
begin

text \<open>
  The database schema: what \<^verbatim>\<open>storage/db/models\<close> declares (the argument of \<open>mapped_column\<close> for every
  column), what the migrations under \<^verbatim>\<open>alembic/versions\<close> do, and the PostgreSQL catalogue on which
  they run, as far as those statements depend on it: tables with their columns, primary key, foreign
  keys and indexes, and whether a table holds rows. A failing statement undoes the whole run.
\<close>

section \<open>Tables and statements\<close>

datatype sql_type = Varchar nat | SqlText | SqlInteger | SqlFloat | SqlBoolean | SqlDateTime | SqlJson

record sql_column =
  cl_name :: string
  cl_type :: sql_type
  cl_nullable :: bool

record sql_table =
  tb_columns :: "sql_column list"
  tb_primary :: string
  tb_keys :: "(string \<times> string) list" \<comment> \<open>a column and the table whose primary key it refers to\<close>
  tb_indexes :: "(string \<times> string \<times> bool) list" \<comment> \<open>name, column, unique\<close>
  tb_filled :: bool

type_synonym schema = "(string \<times> sql_table) list"

definition column :: "string \<Rightarrow> sql_type \<Rightarrow> bool \<Rightarrow> sql_column" where
  "column name t nullable = \<lparr>cl_name = name, cl_type = t, cl_nullable = nullable\<rparr>"

datatype ddl =
    CreateTable string "sql_column list" string "(string \<times> string) list"
  | CreateIndex string "string \<times> string \<times> bool"
  | AddColumn string sql_column
  | DropIndex string string
  | DropTable string
  | DropColumn string string

datatype ddl_error =
    DuplicateName string | UndefinedName string | StillReferenced string | NullInColumn string

definition index_names :: "schema \<Rightarrow> string list" where
  "index_names s = concat (map (\<lambda>(n, t). map fst (tb_indexes t)) s)"

text \<open>Tables and indexes share one name space.\<close>

definition relation_names :: "schema \<Rightarrow> string list" where
  "relation_names s = map fst s @ index_names s"

definition column_names :: "sql_table \<Rightarrow> string list" where
  "column_names t = map cl_name (tb_columns t)"

definition change_table :: "string \<Rightarrow> (sql_table \<Rightarrow> sql_table) \<Rightarrow> schema \<Rightarrow> schema" where
  "change_table name f s = map (\<lambda>(n, t). (n, if n = name then f t else t)) s"

definition references_table :: "string \<Rightarrow> string \<times> sql_table \<Rightarrow> bool" where
  "references_table name entry = (fst entry \<noteq> name \<and> name \<in> snd ` set (tb_keys (snd entry)))"

fun execute :: "ddl \<Rightarrow> schema \<Rightarrow> ddl_error + schema" where
  "execute (CreateTable name columns primary keys) s =
     (if name \<in> set (relation_names s) then Inl (DuplicateName name)
      else if \<not> distinct (map cl_name columns) then Inl (DuplicateName name)
      else if primary \<notin> cl_name ` set columns \<or> \<not> fst ` set keys \<subseteq> cl_name ` set columns then Inl (UndefinedName name)
      else if \<not> snd ` set keys \<subseteq> insert name (fst ` set s) then Inl (UndefinedName name)
      else Inr (s @ [(name, \<lparr>tb_columns = columns, tb_primary = primary, tb_keys = keys, tb_indexes = [],
                             tb_filled = False\<rparr>)]))"
| "execute (CreateIndex table (name, col, unique)) s =
     (case map_of s table of
        None \<Rightarrow> Inl (UndefinedName table)
      | Some t \<Rightarrow>
          if name \<in> set (relation_names s) then Inl (DuplicateName name)
          else if col \<notin> set (column_names t) then Inl (UndefinedName col)
          else Inr (change_table table (\<lambda>t. t\<lparr>tb_indexes := tb_indexes t @ [(name, col, unique)]\<rparr>) s))"
| "execute (AddColumn table c) s =
     (case map_of s table of
        None \<Rightarrow> Inl (UndefinedName table)
      | Some t \<Rightarrow>
          if cl_name c \<in> set (column_names t) then Inl (DuplicateName (cl_name c))
          else if \<not> cl_nullable c \<and> tb_filled t then Inl (NullInColumn (cl_name c))
          else Inr (change_table table (\<lambda>t. t\<lparr>tb_columns := tb_columns t @ [c]\<rparr>) s))"
| "execute (DropIndex table name) s =
     (if name \<notin> set (index_names s) then Inl (UndefinedName name)
      else Inr (map (\<lambda>(n, t). (n, t\<lparr>tb_indexes := filter (\<lambda>ix. fst ix \<noteq> name) (tb_indexes t)\<rparr>)) s))"
| "execute (DropTable name) s =
     (if name \<notin> fst ` set s then Inl (UndefinedName name)
      else if \<exists>entry \<in> set s. references_table name entry then Inl (StillReferenced name)
      else Inr (filter (\<lambda>(n, t). n \<noteq> name) s))"
| "execute (DropColumn table name) s =
     (case map_of s table of
        None \<Rightarrow> Inl (UndefinedName table)
      | Some t \<Rightarrow>
          if name \<notin> set (column_names t) then Inl (UndefinedName name)
          else Inr (change_table table (\<lambda>t. t\<lparr>
                 tb_columns := filter (\<lambda>c. cl_name c \<noteq> name) (tb_columns t),
                 tb_keys := filter (\<lambda>k. fst k \<noteq> name) (tb_keys t),
                 tb_indexes := filter (\<lambda>ix. fst (snd ix) \<noteq> name) (tb_indexes t)\<rparr>) s))"

primrec executes :: "ddl list \<Rightarrow> schema \<Rightarrow> ddl_error + schema" where
  "executes [] s = Inr s"
| "executes (d # ds) s = (case execute d s of Inl e \<Rightarrow> Inl e | Inr s' \<Rightarrow> executes ds s')"

section \<open>Models\<close>

record mapped_column =
  mc_name :: string
  mc_type :: sql_type
  mc_nullable :: bool
  mc_primary :: bool
  mc_index :: bool
  mc_unique :: bool
  mc_key :: "string option"

text \<open>The arguments of \<open>mapped_column\<close>: a column is required unless it says otherwise.\<close>

definition mapped :: "string \<Rightarrow> sql_type \<Rightarrow> mapped_column" where
  "mapped name t = \<lparr>mc_name = name, mc_type = t, mc_nullable = False, mc_primary = False, mc_index = False,
     mc_unique = False, mc_key = None\<rparr>"

definition optional :: "mapped_column \<Rightarrow> mapped_column" where "optional c = c\<lparr>mc_nullable := True\<rparr>"

definition primary_key :: "mapped_column \<Rightarrow> mapped_column" where "primary_key c = c\<lparr>mc_primary := True\<rparr>"

definition indexed :: "mapped_column \<Rightarrow> mapped_column" where "indexed c = c\<lparr>mc_index := True\<rparr>"

definition unique :: "mapped_column \<Rightarrow> mapped_column" where "unique c = c\<lparr>mc_unique := True\<rparr>"

definition references :: "string \<Rightarrow> mapped_column \<Rightarrow> mapped_column" where
  "references table c = c\<lparr>mc_key := Some table\<rparr>"

definition scans_model :: "string \<times> mapped_column list" where
  "scans_model = (''scans'',
     [primary_key (mapped ''id'' (Varchar 36)),
      mapped ''source_path'' SqlText,
      mapped ''source_type'' (Varchar 20),
      mapped ''status'' (Varchar 30),
      mapped ''total_files_found'' SqlInteger,
      mapped ''files_scanned'' SqlInteger,
      mapped ''files_skipped'' SqlInteger,
      mapped ''total_findings'' SqlInteger,
      mapped ''truncated'' SqlBoolean,
      optional (mapped ''source_hash_before'' (Varchar 64)),
      optional (mapped ''source_hash_after'' (Varchar 64)),
      mapped ''integrity_verified'' SqlBoolean,
      optional (mapped ''error_message'' SqlText),
      mapped ''created_at'' SqlDateTime,
      optional (mapped ''started_at'' SqlDateTime),
      optional (mapped ''completed_at'' SqlDateTime)])"

definition file_inventory_model :: "string \<times> mapped_column list" where
  "file_inventory_model = (''file_inventory'',
     [primary_key (mapped ''id'' (Varchar 36)),
      indexed (references ''scans'' (mapped ''scan_id'' (Varchar 36))),
      mapped ''relative_path'' SqlText,
      mapped ''file_name'' (Varchar 255),
      mapped ''extension'' (Varchar 32),
      optional (mapped ''detected_type'' (Varchar 64)),
      optional (mapped ''language'' (Varchar 32)),
      mapped ''size_bytes'' SqlInteger,
      optional (mapped ''content_hash'' (Varchar 64)),
      mapped ''sensitivity_hint'' SqlBoolean,
      mapped ''scan_status'' (Varchar 20),
      optional (mapped ''skipped_reason'' (Varchar 40)),
      mapped ''created_at'' SqlDateTime])"

definition domain_mappings_model :: "string \<times> mapped_column list" where
  "domain_mappings_model = (''domain_mappings'',
     [primary_key (mapped ''id'' (Varchar 36)),
      indexed (references ''scans'' (mapped ''scan_id'' (Varchar 36))),
      indexed (optional (references ''file_inventory'' (mapped ''file_inventory_id'' (Varchar 36)))),
      mapped ''domain'' (Varchar 64),
      mapped ''confidence'' (Varchar 16),
      mapped ''reason'' SqlText,
      mapped ''source'' (Varchar 32),
      mapped ''created_at'' SqlDateTime])"

definition findings_model :: "string \<times> mapped_column list" where
  "findings_model = (''findings'',
     [primary_key (mapped ''id'' (Varchar 36)),
      indexed (references ''scans'' (mapped ''scan_id'' (Varchar 36))),
      mapped ''scanner_id'' (Varchar 64),
      mapped ''scanner_version'' (Varchar 16),
      mapped ''rule_id'' (Varchar 32),
      mapped ''title'' (Varchar 255),
      mapped ''finding_type'' (Varchar 20),
      mapped ''category'' (Varchar 40),
      mapped ''severity'' (Varchar 16),
      mapped ''confidence'' (Varchar 16),
      mapped ''banking_domains'' SqlJson,
      mapped ''source_relative_path'' SqlText,
      mapped ''line_start'' SqlInteger,
      mapped ''line_end'' SqlInteger,
      mapped ''masked_evidence'' SqlText,
      mapped ''description'' SqlText,
      mapped ''impact'' SqlText,
      mapped ''recommended_action'' SqlText,
      mapped ''remediation_mode'' (Varchar 20),
      mapped ''read_only_confirmation'' SqlBoolean,
      mapped ''metadata_json'' SqlJson,
      mapped ''created_at'' SqlDateTime,
      mapped ''human_review_status'' (Varchar 16),
      optional (mapped ''reviewed_by'' (Varchar 128)),
      optional (mapped ''reviewed_at'' SqlDateTime)])"

definition scanner_executions_model :: "string \<times> mapped_column list" where
  "scanner_executions_model = (''scanner_executions'',
     [primary_key (mapped ''id'' (Varchar 36)),
      indexed (references ''scans'' (mapped ''scan_id'' (Varchar 36))),
      mapped ''scanner_id'' (Varchar 64),
      mapped ''scanner_version'' (Varchar 16),
      mapped ''status'' (Varchar 20),
      mapped ''files_processed'' SqlInteger,
      mapped ''files_errored'' SqlInteger,
      mapped ''findings_produced'' SqlInteger,
      optional (mapped ''error_summary'' SqlText),
      mapped ''created_at'' SqlDateTime])"

definition controls_model :: "string \<times> mapped_column list" where
  "controls_model = (''controls'',
     [primary_key (mapped ''id'' (Varchar 36)),
      indexed (unique (mapped ''control_id'' (Varchar 64))),
      optional (mapped ''domain'' (Varchar 64)),
      optional (mapped ''subdomain'' (Varchar 64)),
      mapped ''title'' (Varchar 255),
      mapped ''description'' SqlText,
      mapped ''control_type'' (Varchar 32),
      mapped ''source_reference'' SqlText,
      mapped ''weight'' SqlFloat,
      mapped ''applies_to_domains'' SqlJson,
      mapped ''created_at'' SqlDateTime])"

definition evidence_model :: "string \<times> mapped_column list" where
  "evidence_model = (''evidence'',
     [primary_key (mapped ''id'' (Varchar 36)),
      indexed (references ''findings'' (mapped ''finding_id'' (Varchar 36))),
      indexed (optional (references ''controls'' (mapped ''control_id'' (Varchar 36)))),
      mapped ''evidence_type'' (Varchar 32),
      mapped ''content'' SqlText,
      mapped ''source_reference'' SqlText,
      optional (mapped ''retrieved_via'' (Varchar 64)),
      mapped ''captured_at'' SqlDateTime])"

definition recommendations_model :: "string \<times> mapped_column list" where
  "recommendations_model = (''recommendations'',
     [primary_key (mapped ''id'' (Varchar 36)),
      indexed (references ''findings'' (mapped ''finding_id'' (Varchar 36))),
      indexed (references ''scans'' (mapped ''scan_id'' (Varchar 36))),
      indexed (optional (references ''controls'' (mapped ''control_id'' (Varchar 36)))),
      mapped ''text'' SqlText,
      mapped ''priority'' (Varchar 16),
      mapped ''status'' (Varchar 16),
      mapped ''source'' (Varchar 32),
      optional (mapped ''reviewed_by'' (Varchar 128)),
      optional (mapped ''reviewed_at'' SqlDateTime),
      mapped ''created_at'' SqlDateTime])"

definition scores_model :: "string \<times> mapped_column list" where
  "scores_model = (''scores'',
     [primary_key (mapped ''id'' (Varchar 36)),
      indexed (references ''scans'' (mapped ''scan_id'' (Varchar 36))),
      mapped ''domain'' (Varchar 64),
      optional (mapped ''raw_score'' SqlFloat),
      optional (mapped ''weighted_score'' SqlFloat),
      mapped ''confidence_level'' (Varchar 16),
      mapped ''evidence_completeness'' (Varchar 16),
      mapped ''decision_category'' (Varchar 32),
      mapped ''files_evaluated'' SqlInteger,
      mapped ''findings_count'' SqlInteger,
      mapped ''calculated_at'' SqlDateTime,
      optional (references ''scores'' (mapped ''override_of'' (Varchar 36)))])"

definition control_evaluations_model :: "string \<times> mapped_column list" where
  "control_evaluations_model = (''control_evaluations'',
     [primary_key (mapped ''id'' (Varchar 36)),
      indexed (references ''scans'' (mapped ''scan_id'' (Varchar 36))),
      indexed (optional (references ''controls'' (mapped ''control_id'' (Varchar 36)))),
      mapped ''domain'' (Varchar 64),
      mapped ''status'' (Varchar 24),
      mapped ''finding_ids'' SqlJson,
      mapped ''evaluated_at'' SqlDateTime])"

definition audit_events_model :: "string \<times> mapped_column list" where
  "audit_events_model = (''audit_events'',
     [primary_key (mapped ''id'' (Varchar 36)),
      indexed (optional (references ''scans'' (mapped ''scan_id'' (Varchar 36)))),
      indexed (mapped ''event_type'' (Varchar 48)),
      mapped ''actor'' (Varchar 128),
      mapped ''summary'' SqlText,
      mapped ''payload'' SqlJson,
      mapped ''created_at'' SqlDateTime])"

definition users_model :: "string \<times> mapped_column list" where
  "users_model = (''users'',
     [primary_key (mapped ''id'' (Varchar 36)),
      indexed (unique (mapped ''username'' (Varchar 64))),
      mapped ''display_name'' (Varchar 128),
      mapped ''password_hash'' (Varchar 255),
      mapped ''role'' (Varchar 16),
      mapped ''is_active'' SqlBoolean,
      mapped ''must_change_password'' SqlBoolean,
      mapped ''failed_attempts'' SqlInteger,
      optional (mapped ''locked_until'' SqlDateTime),
      mapped ''session_version'' SqlInteger,
      optional (mapped ''last_login_at'' SqlDateTime),
      mapped ''created_at'' SqlDateTime,
      mapped ''updated_at'' SqlDateTime])"

definition metadata :: "(string \<times> mapped_column list) list" where
  "metadata = [scans_model,
     file_inventory_model,
     domain_mappings_model,
     findings_model,
     scanner_executions_model,
     controls_model,
     evidence_model,
     recommendations_model,
     scores_model,
     control_evaluations_model,
     audit_events_model,
     users_model]"

text \<open>The statements \<open>create_all\<close> issues for a model; index names follow SQLAlchemy's convention.\<close>

definition index_name :: "string \<Rightarrow> string \<Rightarrow> string" where
  "index_name table col = ''ix_'' @ table @ ''_'' @ col"

definition model_ddl :: "string \<times> mapped_column list \<Rightarrow> ddl list" where
  "model_ddl model =
     (case model of (name, columns) \<Rightarrow>
        CreateTable name (map (\<lambda>c. column (mc_name c) (mc_type c) (mc_nullable c)) columns)
          (case filter mc_primary columns of [] \<Rightarrow> [] | c # _ \<Rightarrow> mc_name c)
          (concat (map (\<lambda>c. case mc_key c of None \<Rightarrow> [] | Some t \<Rightarrow> [(mc_name c, t)]) columns))
        # map (\<lambda>c. CreateIndex name (index_name name (mc_name c), mc_name c, mc_unique c)) (filter mc_index columns))"

definition create_missing :: "string \<times> mapped_column list \<Rightarrow> schema \<Rightarrow> ddl_error + schema" where
  "create_missing model s = (if fst model \<in> fst ` set s then Inr s else executes (model_ddl model) s)"

primrec create_tables :: "(string \<times> mapped_column list) list \<Rightarrow> schema \<Rightarrow> ddl_error + schema" where
  "create_tables [] s = Inr s"
| "create_tables (m # ms) s = (case create_missing m s of Inl e \<Rightarrow> Inl e | Inr s' \<Rightarrow> create_tables ms s')"

definition create_all :: "schema \<Rightarrow> ddl_error + schema" where
  "create_all = create_tables metadata"

section \<open>Migrations\<close>

definition phase2_upgrade :: "ddl list" where
  "phase2_upgrade =
     [CreateTable ''scans''
        [column ''id'' (Varchar 36) False,
         column ''source_path'' SqlText False,
         column ''source_type'' (Varchar 20) False,
         column ''status'' (Varchar 30) False,
         column ''total_files_found'' SqlInteger False,
         column ''files_scanned'' SqlInteger False,
         column ''files_skipped'' SqlInteger False,
         column ''total_findings'' SqlInteger False,
         column ''truncated'' SqlBoolean False,
         column ''source_hash_before'' (Varchar 64) True,
         column ''source_hash_after'' (Varchar 64) True,
         column ''integrity_verified'' SqlBoolean False,
         column ''error_message'' SqlText True,
         column ''created_at'' SqlDateTime False,
         column ''started_at'' SqlDateTime True,
         column ''completed_at'' SqlDateTime True]
        ''id'' [],
      CreateTable ''file_inventory''
        [column ''id'' (Varchar 36) False,
         column ''scan_id'' (Varchar 36) False,
         column ''relative_path'' SqlText False,
         column ''file_name'' (Varchar 255) False,
         column ''extension'' (Varchar 32) False,
         column ''detected_type'' (Varchar 64) True,
         column ''language'' (Varchar 32) True,
         column ''size_bytes'' SqlInteger False,
         column ''content_hash'' (Varchar 64) True,
         column ''sensitivity_hint'' SqlBoolean False,
         column ''scan_status'' (Varchar 20) False,
         column ''skipped_reason'' (Varchar 40) True,
         column ''created_at'' SqlDateTime False]
        ''id'' [(''scan_id'', ''scans'')],
      CreateIndex ''file_inventory'' (''ix_file_inventory_scan_id'', ''scan_id'', False),
      CreateTable ''findings''
        [column ''id'' (Varchar 36) False,
         column ''scan_id'' (Varchar 36) False,
         column ''scanner_id'' (Varchar 64) False,
         column ''scanner_version'' (Varchar 16) False,
         column ''rule_id'' (Varchar 32) False,
         column ''title'' (Varchar 255) False,
         column ''finding_type'' (Varchar 20) False,
         column ''category'' (Varchar 40) False,
         column ''severity'' (Varchar 16) False,
         column ''confidence'' (Varchar 16) False,
         column ''banking_domains'' SqlJson False,
         column ''source_relative_path'' SqlText False,
         column ''line_start'' SqlInteger False,
         column ''line_end'' SqlInteger False,
         column ''masked_evidence'' SqlText False,
         column ''description'' SqlText False,
         column ''impact'' SqlText False,
         column ''recommended_action'' SqlText False,
         column ''remediation_mode'' (Varchar 20) False,
         column ''read_only_confirmation'' SqlBoolean False,
         column ''metadata_json'' SqlJson False,
         column ''created_at'' SqlDateTime False]
        ''id'' [(''scan_id'', ''scans'')],
      CreateIndex ''findings'' (''ix_findings_scan_id'', ''scan_id'', False),
      CreateTable ''scanner_executions''
        [column ''id'' (Varchar 36) False,
         column ''scan_id'' (Varchar 36) False,
         column ''scanner_id'' (Varchar 64) False,
         column ''scanner_version'' (Varchar 16) False,
         column ''status'' (Varchar 20) False,
         column ''files_processed'' SqlInteger False,
         column ''files_errored'' SqlInteger False,
         column ''findings_produced'' SqlInteger False,
         column ''error_summary'' SqlText True,
         column ''created_at'' SqlDateTime False]
        ''id'' [(''scan_id'', ''scans'')],
      CreateIndex ''scanner_executions'' (''ix_scanner_executions_scan_id'', ''scan_id'', False),
      CreateTable ''domain_mappings''
        [column ''id'' (Varchar 36) False,
         column ''scan_id'' (Varchar 36) False,
         column ''file_inventory_id'' (Varchar 36) True,
         column ''domain'' (Varchar 64) False,
         column ''confidence'' (Varchar 16) False,
         column ''reason'' SqlText False,
         column ''source'' (Varchar 32) False,
         column ''created_at'' SqlDateTime False]
        ''id'' [(''file_inventory_id'', ''file_inventory''), (''scan_id'', ''scans'')],
      CreateIndex ''domain_mappings'' (''ix_domain_mappings_file_inventory_id'', ''file_inventory_id'', False),
      CreateIndex ''domain_mappings'' (''ix_domain_mappings_scan_id'', ''scan_id'', False)]"

definition phase2_downgrade :: "ddl list" where
  "phase2_downgrade =
     [DropIndex ''domain_mappings'' ''ix_domain_mappings_scan_id'',
      DropIndex ''domain_mappings'' ''ix_domain_mappings_file_inventory_id'',
      DropTable ''domain_mappings'',
      DropIndex ''scanner_executions'' ''ix_scanner_executions_scan_id'',
      DropTable ''scanner_executions'',
      DropIndex ''findings'' ''ix_findings_scan_id'',
      DropTable ''findings'',
      DropIndex ''file_inventory'' ''ix_file_inventory_scan_id'',
      DropTable ''file_inventory'',
      DropTable ''scans'']"

definition phase3_upgrade :: "ddl list" where
  "phase3_upgrade =
     [CreateTable ''controls''
        [column ''id'' (Varchar 36) False,
         column ''control_id'' (Varchar 64) False,
         column ''domain'' (Varchar 64) True,
         column ''subdomain'' (Varchar 64) True,
         column ''title'' (Varchar 255) False,
         column ''description'' SqlText False,
         column ''control_type'' (Varchar 32) False,
         column ''source_reference'' SqlText False,
         column ''weight'' SqlFloat False,
         column ''applies_to_domains'' SqlJson False,
         column ''created_at'' SqlDateTime False]
        ''id'' [],
      CreateIndex ''controls'' (''ix_controls_control_id'', ''control_id'', True),
      CreateTable ''scores''
        [column ''id'' (Varchar 36) False,
         column ''scan_id'' (Varchar 36) False,
         column ''domain'' (Varchar 64) False,
         column ''raw_score'' SqlFloat True,
         column ''weighted_score'' SqlFloat True,
         column ''confidence_level'' (Varchar 16) False,
         column ''evidence_completeness'' (Varchar 16) False,
         column ''decision_category'' (Varchar 32) False,
         column ''files_evaluated'' SqlInteger False,
         column ''findings_count'' SqlInteger False,
         column ''calculated_at'' SqlDateTime False,
         column ''override_of'' (Varchar 36) True]
        ''id'' [(''override_of'', ''scores''), (''scan_id'', ''scans'')],
      CreateIndex ''scores'' (''ix_scores_scan_id'', ''scan_id'', False),
      CreateTable ''evidence''
        [column ''id'' (Varchar 36) False,
         column ''finding_id'' (Varchar 36) False,
         column ''control_id'' (Varchar 36) True,
         column ''evidence_type'' (Varchar 32) False,
         column ''content'' SqlText False,
         column ''source_reference'' SqlText False,
         column ''retrieved_via'' (Varchar 64) True,
         column ''captured_at'' SqlDateTime False]
        ''id'' [(''control_id'', ''controls''), (''finding_id'', ''findings'')],
      CreateIndex ''evidence'' (''ix_evidence_control_id'', ''control_id'', False),
      CreateIndex ''evidence'' (''ix_evidence_finding_id'', ''finding_id'', False),
      CreateTable ''recommendations''
        [column ''id'' (Varchar 36) False,
         column ''finding_id'' (Varchar 36) False,
         column ''scan_id'' (Varchar 36) False,
         column ''control_id'' (Varchar 36) True,
         column ''text'' SqlText False,
         column ''priority'' (Varchar 16) False,
         column ''status'' (Varchar 16) False,
         column ''source'' (Varchar 32) False,
         column ''reviewed_by'' (Varchar 128) True,
         column ''reviewed_at'' SqlDateTime True,
         column ''created_at'' SqlDateTime False]
        ''id'' [(''control_id'', ''controls''), (''finding_id'', ''findings''), (''scan_id'', ''scans'')],
      CreateIndex ''recommendations'' (''ix_recommendations_control_id'', ''control_id'', False),
      CreateIndex ''recommendations'' (''ix_recommendations_finding_id'', ''finding_id'', False),
      CreateIndex ''recommendations'' (''ix_recommendations_scan_id'', ''scan_id'', False),
      AddColumn ''findings'' (column ''human_review_status'' (Varchar 16) False),
      AddColumn ''findings'' (column ''reviewed_by'' (Varchar 128) True),
      AddColumn ''findings'' (column ''reviewed_at'' SqlDateTime True)]"

definition phase3_downgrade :: "ddl list" where
  "phase3_downgrade =
     [DropColumn ''findings'' ''reviewed_at'',
      DropColumn ''findings'' ''reviewed_by'',
      DropColumn ''findings'' ''human_review_status'',
      DropIndex ''recommendations'' ''ix_recommendations_scan_id'',
      DropIndex ''recommendations'' ''ix_recommendations_finding_id'',
      DropIndex ''recommendations'' ''ix_recommendations_control_id'',
      DropTable ''recommendations'',
      DropIndex ''evidence'' ''ix_evidence_finding_id'',
      DropIndex ''evidence'' ''ix_evidence_control_id'',
      DropTable ''evidence'',
      DropIndex ''scores'' ''ix_scores_scan_id'',
      DropTable ''scores'',
      DropIndex ''controls'' ''ix_controls_control_id'',
      DropTable ''controls'']"

definition phase4_upgrade :: "ddl list" where
  "phase4_upgrade =
     [CreateTable ''audit_events''
        [column ''id'' (Varchar 36) False,
         column ''scan_id'' (Varchar 36) True,
         column ''event_type'' (Varchar 48) False,
         column ''actor'' (Varchar 128) False,
         column ''summary'' SqlText False,
         column ''payload'' SqlJson False,
         column ''created_at'' SqlDateTime False]
        ''id'' [(''scan_id'', ''scans'')],
      CreateIndex ''audit_events'' (''ix_audit_events_event_type'', ''event_type'', False),
      CreateIndex ''audit_events'' (''ix_audit_events_scan_id'', ''scan_id'', False),
      CreateTable ''control_evaluations''
        [column ''id'' (Varchar 36) False,
         column ''scan_id'' (Varchar 36) False,
         column ''control_id'' (Varchar 36) True,
         column ''domain'' (Varchar 64) False,
         column ''status'' (Varchar 24) False,
         column ''finding_ids'' SqlJson False,
         column ''evaluated_at'' SqlDateTime False]
        ''id'' [(''control_id'', ''controls''), (''scan_id'', ''scans'')],
      CreateIndex ''control_evaluations'' (''ix_control_evaluations_control_id'', ''control_id'', False),
      CreateIndex ''control_evaluations'' (''ix_control_evaluations_scan_id'', ''scan_id'', False)]"

definition phase4_downgrade :: "ddl list" where
  "phase4_downgrade =
     [DropIndex ''control_evaluations'' ''ix_control_evaluations_scan_id'',
      DropIndex ''control_evaluations'' ''ix_control_evaluations_control_id'',
      DropTable ''control_evaluations'',
      DropIndex ''audit_events'' ''ix_audit_events_scan_id'',
      DropIndex ''audit_events'' ''ix_audit_events_event_type'',
      DropTable ''audit_events'']"

definition auth_upgrade :: "ddl list" where
  "auth_upgrade =
     [CreateTable ''users''
        [column ''id'' (Varchar 36) False,
         column ''username'' (Varchar 64) False,
         column ''display_name'' (Varchar 128) False,
         column ''password_hash'' (Varchar 255) False,
         column ''role'' (Varchar 16) False,
         column ''is_active'' SqlBoolean False,
         column ''must_change_password'' SqlBoolean False,
         column ''failed_attempts'' SqlInteger False,
         column ''locked_until'' SqlDateTime True,
         column ''session_version'' SqlInteger False,
         column ''last_login_at'' SqlDateTime True,
         column ''created_at'' SqlDateTime False,
         column ''updated_at'' SqlDateTime False]
        ''id'' [],
      CreateIndex ''users'' (''ix_users_username'', ''username'', True)]"

definition auth_downgrade :: "ddl list" where
  "auth_downgrade =
     [DropIndex ''users'' ''ix_users_username'',
      DropTable ''users'']"

text \<open>Alembic follows \<open>down_revision\<close> from the revision a database is at to the last one.\<close>

record revision =
  rv_id :: string
  rv_down :: "string option"
  rv_upgrade :: "schema \<Rightarrow> ddl list"
  rv_downgrade :: "ddl list"

definition REVISIONS :: "revision list" where
  "REVISIONS =
     [\<lparr>rv_id = ''0004_auth_users'', rv_down = Some ''a14a5514b9ab'',
       rv_upgrade = (\<lambda>s. if ''users'' \<in> fst ` set s then [] else auth_upgrade), rv_downgrade = auth_downgrade\<rparr>,
      \<lparr>rv_id = ''878b48b2cd5f'', rv_down = None, rv_upgrade = (\<lambda>_. phase2_upgrade), rv_downgrade = phase2_downgrade\<rparr>,
      \<lparr>rv_id = ''a14a5514b9ab'', rv_down = Some ''c05c9974fade'', rv_upgrade = (\<lambda>_. phase4_upgrade),
       rv_downgrade = phase4_downgrade\<rparr>,
      \<lparr>rv_id = ''c05c9974fade'', rv_down = Some ''878b48b2cd5f'', rv_upgrade = (\<lambda>_. phase3_upgrade),
       rv_downgrade = phase3_downgrade\<rparr>]"

primrec revisions_after :: "nat \<Rightarrow> string option \<Rightarrow> revision list" where
  "revisions_after 0 at = []"
| "revisions_after (Suc fuel) at =
     (case filter (\<lambda>r. rv_down r = at) REVISIONS of
        [] \<Rightarrow> []
      | r # _ \<Rightarrow> r # revisions_after fuel (Some (rv_id r)))"

record database_schema =
  dv_version :: "string option"
  dv_tables :: schema

primrec upgrade_through :: "revision list \<Rightarrow> database_schema \<Rightarrow> ddl_error + database_schema" where
  "upgrade_through [] d = Inr d"
| "upgrade_through (r # rs) d =
     (case executes (rv_upgrade r (dv_tables d)) (dv_tables d) of
        Inl e \<Rightarrow> Inl e
      | Inr s \<Rightarrow> upgrade_through rs \<lparr>dv_version = Some (rv_id r), dv_tables = s\<rparr>)"

definition upgrade_head :: "database_schema \<Rightarrow> ddl_error + database_schema" where
  "upgrade_head d = upgrade_through (revisions_after (length REVISIONS) (dv_version d)) d"

text \<open>\<open>downgrade base\<close>, from the last revision to the first.\<close>

primrec downgrade_through :: "revision list \<Rightarrow> database_schema \<Rightarrow> ddl_error + database_schema" where
  "downgrade_through [] d = Inr d"
| "downgrade_through (r # rs) d =
     (case executes (rv_downgrade r) (dv_tables d) of
        Inl e \<Rightarrow> Inl e
      | Inr s \<Rightarrow> downgrade_through rs \<lparr>dv_version = rv_down r, dv_tables = s\<rparr>)"

primrec revisions_before :: "nat \<Rightarrow> string option \<Rightarrow> revision list" where
  "revisions_before 0 at = []"
| "revisions_before (Suc fuel) at =
     (case at of
        None \<Rightarrow> []
      | Some i \<Rightarrow>
          (case filter (\<lambda>r. rv_id r = i) REVISIONS of
             [] \<Rightarrow> []
           | r # _ \<Rightarrow> r # revisions_before fuel (rv_down r)))"

definition downgrade_base :: "database_schema \<Rightarrow> ddl_error + database_schema" where
  "downgrade_base d = downgrade_through (revisions_before (length REVISIONS) (dv_version d)) d"

end
