(* ===== verification/SchemaFacts.thy ===== *)
theory SchemaFacts
  imports Schema "HOL-Library.Multiset"
begin

text \<open>
  What the migrations do to a database: they add exactly the tables of the models, and downgrading
  takes away exactly what upgrading added.
\<close>

section \<open>Well-formed schemas\<close>

definition wf_table :: "string set \<Rightarrow> sql_table \<Rightarrow> bool" where
  "wf_table tables t \<longleftrightarrow>
     distinct (column_names t) \<and> tb_primary t \<in> set (column_names t)
     \<and> fst ` set (tb_keys t) \<subseteq> set (column_names t) \<and> snd ` set (tb_keys t) \<subseteq> tables
     \<and> (fst \<circ> snd) ` set (tb_indexes t) \<subseteq> set (column_names t)"

definition wf_schema :: "schema \<Rightarrow> bool" where
  "wf_schema s \<longleftrightarrow> distinct (relation_names s) \<and> list_all (\<lambda>e. wf_table (fst ` set s) (snd e)) s"

lemma relation_names_append [simp]:
  "set (relation_names (s @ ts)) = set (relation_names s) \<union> set (relation_names ts)"
  by (auto simp: relation_names_def index_names_def)

lemma wf_tables_mono: "wf_table A t \<Longrightarrow> A \<subseteq> B \<Longrightarrow> wf_table B t"
  by (auto simp: wf_table_def)

lemma map_of_wf: "wf_schema s \<Longrightarrow> map_of s n = Some t \<Longrightarrow> wf_table (fst ` set s) t"
  unfolding wf_schema_def list_all_iff by (metis map_of_SomeD snd_conv)

lemma change_table_names [simp]: "map fst (change_table n f s) = map fst s" "fst ` set (change_table n f s) = fst ` set s"
  by (force simp: change_table_def image_iff split: prod.splits)+

text \<open>Distinct names mean one entry of each name.\<close>

lemma change_table_fresh: "n \<notin> fst ` set s \<Longrightarrow> change_table n f s = s"
  unfolding change_table_def by (rule map_idI) (auto simp: image_iff)

lemma change_table_at:
  assumes "n \<notin> fst ` set a" and "n \<notin> fst ` set b"
  shows "change_table n f (a @ (n, t) # b) = a @ (n, f t) # b"
    and "map_of (a @ (n, t) # b) n = Some t"
proof -
  show "change_table n f (a @ (n, t) # b) = a @ (n, f t) # b"
    using change_table_fresh [OF assms(1), of f] change_table_fresh [OF assms(2), of f]
    by (simp add: change_table_def)
  have "map_of a n = None" using assms(1) by (simp add: map_of_eq_None_iff)
  then show "map_of (a @ (n, t) # b) n = Some t" by (simp add: map_add_def)
qed

lemma wf_replaced:
  assumes "wf_schema (a @ (n, t) # b)" and "wf_table (fst ` set (a @ (n, t) # b)) u"
    and "distinct (relation_names (a @ (n, u) # b))"
  shows "wf_schema (a @ (n, u) # b)"
proof -
  have "fst ` set (a @ (n, u) # b) = fst ` set (a @ (n, t) # b)" by simp
  with assms show ?thesis unfolding wf_schema_def by (simp only:) (simp add: list_all_iff)
qed

lemma change_table_split:
  assumes "distinct (map fst s)" and "map_of s n = Some t"
  obtains a b where "s = a @ (n, t) # b" and "n \<notin> fst ` set a" and "n \<notin> fst ` set b"
proof -
  obtain a b where s: "s = a @ (n, t) # b"
    using map_of_SomeD [OF assms(2)] split_list by fastforce
  with assms(1) have "n \<notin> fst ` set a" "n \<notin> fst ` set b" by auto
  with s show ?thesis by (rule that)
qed

section \<open>Undoing statements\<close>

fun undo :: "ddl \<Rightarrow> ddl" where
  "undo (CreateTable n _ _ _) = DropTable n"
| "undo (CreateIndex t ix) = DropIndex t (fst ix)"
| "undo (AddColumn t c) = DropColumn t (cl_name c)"
| "undo d = d"

fun builds :: "ddl \<Rightarrow> bool" where
  "builds (CreateTable _ _ _ _) = True"
| "builds (CreateIndex _ _) = True"
| "builds (AddColumn _ _) = True"
| "builds _ = False"

lemma filter_fresh: "x \<notin> f ` set xs \<Longrightarrow> filter (\<lambda>y. f y \<noteq> x) xs = xs"
  by (auto intro!: filter_True)

lemma create_table_undone:
  assumes "wf_schema s" and "execute (CreateTable n cs p ks) s = Inr s'"
  shows "execute (DropTable n) s' = Inr s \<and> wf_schema s'"
proof -
  let ?t = "\<lparr>tb_columns = cs, tb_primary = p, tb_keys = ks, tb_indexes = [], tb_filled = False\<rparr>"
  from assms(2) have s': "s' = s @ [(n, ?t)]" and fresh: "n \<notin> set (relation_names s)"
    and ok: "distinct (map cl_name cs)" "p \<in> cl_name ` set cs" "fst ` set ks \<subseteq> cl_name ` set cs"
      "snd ` set ks \<subseteq> insert n (fst ` set s)"
    by (auto split: if_splits)
  have n: "n \<notin> fst ` set s" using fresh by (simp add: relation_names_def)
  have "\<not> references_table n e" if "e \<in> set s" for e
    using assms(1) that n by (auto simp: wf_schema_def wf_table_def list_all_iff references_table_def)
  then have "\<not> (\<exists>e \<in> set s'. references_table n e)" by (auto simp: s' references_table_def)
  moreover have "filter (\<lambda>(m, t). m \<noteq> n) s = s" using n by (intro filter_True) (auto simp: image_iff)
  ultimately have "execute (DropTable n) s' = Inr s" by (simp add: s')
  moreover have "wf_schema s'"
  proof -
    have "wf_table (fst ` set s') u" if "(m, u) \<in> set s" for m u
    proof (rule wf_tables_mono)
      show "wf_table (fst ` set s) u" using assms(1) that by (auto simp: wf_schema_def list_all_iff)
    qed (auto simp: s')
    moreover have "wf_table (fst ` set s') ?t" using ok by (auto simp: wf_table_def column_names_def s')
    moreover have "mset (relation_names s') = add_mset n (mset (relation_names s))"
      by (simp add: s' relation_names_def index_names_def)
    then have "distinct (relation_names s')"
      using assms(1) fresh by (metis distinct.simps(2) mset.simps(2) mset_eq_imp_distinct_iff wf_schema_def)
    ultimately show ?thesis unfolding wf_schema_def by (auto simp: list_all_iff s')
  qed
  ultimately show ?thesis by blast
qed

lemma index_names_change:
  assumes "distinct (map fst s)" and "map_of s t = Some tb"
  shows "mset (index_names (change_table t (\<lambda>t. t\<lparr>tb_indexes := tb_indexes t @ [ix]\<rparr>) s))
     = add_mset (fst ix) (mset (index_names s))"
proof -
  from change_table_split [OF assms] obtain a b where s: "s = a @ (t, tb) # b"
    and fresh: "t \<notin> fst ` set a" "t \<notin> fst ` set b" .
  show ?thesis unfolding s change_table_at [OF fresh] by (simp add: index_names_def)
qed

lemma create_index_undone:
  assumes "wf_schema s" and "execute (CreateIndex t ix) s = Inr s'"
  shows "execute (DropIndex t (fst ix)) s' = Inr s \<and> wf_schema s'"
proof -
  obtain name col u where ix: "ix = (name, col, u)" by (cases ix)
  from assms(2) obtain tb where tb: "map_of s t = Some tb" and fresh: "name \<notin> set (relation_names s)"
    and col: "col \<in> set (column_names tb)"
    and s': "s' = change_table t (\<lambda>t. t\<lparr>tb_indexes := tb_indexes t @ [ix]\<rparr>) s"
    by (auto simp: ix split: option.splits if_splits)
  have d: "distinct (map fst s)" using assms(1) by (simp add: wf_schema_def relation_names_def)
  from change_table_split [OF d tb] obtain a b where s: "s = a @ (t, tb) # b"
    and ab: "t \<notin> fst ` set a" "t \<notin> fst ` set b" .
  have s'_eq: "s' = a @ (t, tb\<lparr>tb_indexes := tb_indexes tb @ [ix]\<rparr>) # b"
    unfolding s' s by (rule change_table_at [OF ab])
  have fresh': "name \<notin> fst ` set (tb_indexes u)" if "(n, u) \<in> set s" for n u
    using fresh that by (force simp: relation_names_def index_names_def)
  let ?drop = "\<lambda>(n, t). (n, t\<lparr>tb_indexes := filter (\<lambda>ix. fst ix \<noteq> name) (tb_indexes t)\<rparr>)"
  have keep: "?drop e = e" if "e \<in> set s" for e
  proof -
    obtain n u where e: "e = (n, u)" by (cases e)
    with fresh' that have "filter (\<lambda>ix. fst ix \<noteq> name) (tb_indexes u) = tb_indexes u" by (intro filter_fresh) auto
    then show ?thesis by (simp add: e)
  qed
  then have "map ?drop a = a" "map ?drop b = b" by (auto intro!: map_idI simp: s)
  moreover have "?drop (t, tb\<lparr>tb_indexes := tb_indexes tb @ [ix]\<rparr>) = (t, tb)"
    using fresh' [of t tb] by (simp add: ix s filter_fresh)
  ultimately have "map ?drop s' = s" by (simp add: s'_eq) (simp add: s)
  moreover have mem: "set (index_names s') = insert name (set (index_names s))"
    using arg_cong [OF index_names_change [OF d tb, of ix], of set_mset] by (simp add: s' ix)
  ultimately have "execute (DropIndex t (fst ix)) s' = Inr s" by (simp add: ix)
  moreover have "wf_schema s'"
  proof -
    have "mset (relation_names s') = add_mset name (mset (relation_names s))"
      using index_names_change [OF d tb, of ix] by (simp add: s' ix relation_names_def)
    then have "distinct (relation_names s')"
      using assms(1) fresh by (metis distinct.simps(2) mset.simps(2) mset_eq_imp_distinct_iff wf_schema_def)
    moreover have "wf_table (fst ` set s) (tb\<lparr>tb_indexes := tb_indexes tb @ [ix]\<rparr>)"
      using map_of_wf [OF assms(1) tb] col by (simp add: wf_table_def column_names_def ix)
    ultimately show ?thesis using assms(1) unfolding s'_eq s by (metis wf_replaced)
  qed
  ultimately show ?thesis by blast
qed

lemma add_column_undone:
  assumes "wf_schema s" and "execute (AddColumn t c) s = Inr s'"
  shows "execute (DropColumn t (cl_name c)) s' = Inr s \<and> wf_schema s'"
proof -
  from assms(2) obtain tb where tb: "map_of s t = Some tb" and fresh: "cl_name c \<notin> set (column_names tb)"
    and s': "s' = change_table t (\<lambda>t. t\<lparr>tb_columns := tb_columns t @ [c]\<rparr>) s"
    by (auto split: option.splits if_splits)
  have d: "distinct (map fst s)" using assms(1) by (simp add: wf_schema_def relation_names_def)
  from change_table_split [OF d tb] obtain a b where s: "s = a @ (t, tb) # b"
    and ab: "t \<notin> fst ` set a" "t \<notin> fst ` set b" .
  have wf: "wf_table (fst ` set s) tb" using map_of_wf [OF assms(1) tb] .
  let ?tb = "tb\<lparr>tb_columns := tb_columns tb @ [c]\<rparr>"
  have s'_eq: "s' = a @ (t, ?tb) # b" unfolding s' s by (rule change_table_at [OF ab])
  have fresh': "cl_name c \<notin> cl_name ` set (tb_columns tb)" "cl_name c \<notin> fst ` set (tb_keys tb)"
    "cl_name c \<notin> (fst \<circ> snd) ` set (tb_indexes tb)"
    using fresh wf by (auto simp: wf_table_def column_names_def)
  have same: "filter (\<lambda>x. cl_name x \<noteq> cl_name c) (tb_columns tb) = tb_columns tb"
    "filter (\<lambda>k. fst k \<noteq> cl_name c) (tb_keys tb) = tb_keys tb"
    "filter (\<lambda>ix. fst (snd ix) \<noteq> cl_name c) (tb_indexes tb) = tb_indexes tb"
    using filter_fresh [OF fresh'(1)] filter_fresh [OF fresh'(2)] filter_fresh [OF fresh'(3)] by simp_all
  have "execute (DropColumn t (cl_name c)) s' = Inr s"
    unfolding s'_eq execute.simps change_table_at [OF ab] by (simp add: column_names_def same s)
  moreover have "wf_schema s'"
  proof -
    have "relation_names s' = relation_names s"
      unfolding s'_eq by (simp add: s relation_names_def index_names_def)
    then have "distinct (relation_names s')" using assms(1) by (simp add: wf_schema_def)
    moreover have "wf_table (fst ` set s) ?tb" using wf fresh by (auto simp: wf_table_def column_names_def)
    ultimately show ?thesis using assms(1) unfolding s'_eq s by (metis wf_replaced)
  qed
  ultimately show ?thesis by blast
qed

lemma execute_undone:
  assumes "builds d" and "wf_schema s" and "execute d s = Inr s'"
  shows "execute (undo d) s' = Inr s" and "wf_schema s'"
proof -
  have "execute (undo d) s' = Inr s \<and> wf_schema s'"
  proof (cases d)
    case (CreateTable n cs p ks)
    with create_table_undone [OF assms(2)] assms(3) show ?thesis by (simp del: execute.simps)
  next
    case (CreateIndex t ix)
    with create_index_undone [OF assms(2)] assms(3) show ?thesis by (simp del: execute.simps)
  next
    case (AddColumn t c)
    with add_column_undone [OF assms(2)] assms(3) show ?thesis by (simp del: execute.simps)
  qed (use assms(1) in simp_all)
  then show "execute (undo d) s' = Inr s" "wf_schema s'" by blast+
qed


section \<open>Rows in the tables\<close>

definition fill :: "string set \<Rightarrow> schema \<Rightarrow> schema" where
  "fill names s = map (\<lambda>(n, t). (n, t\<lparr>tb_filled := (tb_filled t \<or> n \<in> names)\<rparr>)) s"

fun drops :: "ddl \<Rightarrow> bool" where
  "drops (DropIndex _ _) = True"
| "drops (DropTable _) = True"
| "drops (DropColumn _ _) = True"
| "drops _ = False"

lemma drops_undo: "builds d \<Longrightarrow> drops (undo d)"
  by (cases d) simp_all

lemma fill_names [simp]: "map fst (fill F s) = map fst s" "fst ` set (fill F s) = fst ` set s" "index_names (fill F s) = index_names s"
proof -
  show "map fst (fill F s) = map fst s" by (simp add: fill_def split_def comp_def)
  then show "fst ` set (fill F s) = fst ` set s" by (metis list.set_map)
  show "index_names (fill F s) = index_names s" by (simp add: fill_def index_names_def split_def comp_def)
qed

lemma map_of_fill: "map_of (fill F s) n = map_option (\<lambda>t. t\<lparr>tb_filled := (tb_filled t \<or> n \<in> F)\<rparr>) (map_of s n)"
  by (induction s) (auto simp: fill_def)

text \<open>Dropping does not depend on rows.\<close>

lemma drop_index_fill: "execute (DropIndex t n) (fill F s) = map_sum id (fill F) (execute (DropIndex t n) s)"
  unfolding execute.simps fill_names by (simp add: fill_def split_def comp_def)

lemma drop_table_fill: "execute (DropTable n) (fill F s) = map_sum id (fill F) (execute (DropTable n) s)"
proof -
  have "(\<exists>e \<in> set (fill F s). references_table n e) = (\<exists>e \<in> set s. references_table n e)"
    by (force simp: fill_def references_table_def)
  moreover have "filter (\<lambda>(m, t). m \<noteq> n) (fill F s) = fill F (filter (\<lambda>(m, t). m \<noteq> n) s)"
    by (induction s) (auto simp: fill_def)
  ultimately show ?thesis by simp
qed

lemma drop_column_fill: "execute (DropColumn t c) (fill F s) = map_sum id (fill F) (execute (DropColumn t c) s)"
proof (cases "map_of s t")
  case (Some tb)
  have "change_table t (\<lambda>t. t\<lparr>tb_columns := filter (\<lambda>x. cl_name x \<noteq> c) (tb_columns t),
            tb_keys := filter (\<lambda>k. fst k \<noteq> c) (tb_keys t),
            tb_indexes := filter (\<lambda>ix. fst (snd ix) \<noteq> c) (tb_indexes t)\<rparr>) (fill F s)
      = fill F (change_table t (\<lambda>t. t\<lparr>tb_columns := filter (\<lambda>x. cl_name x \<noteq> c) (tb_columns t),
            tb_keys := filter (\<lambda>k. fst k \<noteq> c) (tb_keys t),
            tb_indexes := filter (\<lambda>ix. fst (snd ix) \<noteq> c) (tb_indexes t)\<rparr>) s)"
    by (simp add: change_table_def fill_def split_def comp_def)
  with Some show ?thesis by (simp add: map_of_fill column_names_def)
qed (simp add: map_of_fill)

lemma drop_fill: "drops d \<Longrightarrow> execute d (fill F s) = map_sum id (fill F) (execute d s)"
  using drop_index_fill drop_table_fill drop_column_fill by (cases d) (simp_all del: execute.simps)

lemma drops_fill: "list_all drops ds \<Longrightarrow> executes ds (fill F s) = map_sum id (fill F) (executes ds s)"
proof (induction ds arbitrary: s)
  case (Cons d ds)
  then show ?case by (cases "execute d s") (simp_all add: drop_fill)
qed simp

section \<open>Undoing runs\<close>

lemma executes_append:
  "executes (ds @ es) s = (case executes ds s of Inl e \<Rightarrow> Inl e | Inr s' \<Rightarrow> executes es s')"
  by (induction ds arbitrary: s) (auto split: sum.splits)

lemma executes_undone:
  assumes "list_all builds ds" and "wf_schema s" and "executes ds s = Inr s'"
  shows "executes (rev (map undo ds)) s' = Inr s \<and> wf_schema s'"
  using assms
proof (induction ds arbitrary: s)
  case (Cons d ds)
  then obtain m where m: "execute d s = Inr m" "executes ds m = Inr s'" by (auto split: sum.splits)
  with Cons.prems execute_undone [of d s m] have "execute (undo d) m = Inr s" "wf_schema m" by simp_all
  with Cons.IH [of m] Cons.prems m(2) show ?case by (simp add: executes_append)
qed simp

lemma rows_undone:
  assumes "list_all builds ds" and "wf_schema s" and "executes ds s = Inr s'"
  shows "executes (rev (map undo ds)) (fill F s') = Inr (fill F s)"
proof -
  have "list_all drops (rev (map undo ds))" using assms(1) by (auto simp: list_all_iff drops_undo)
  with executes_undone [OF assms] show ?thesis by (simp add: drops_fill)
qed


section \<open>Statements next to other tables\<close>

fun mentions :: "ddl \<Rightarrow> string list" where
  "mentions (CreateTable n _ _ _) = [n]"
| "mentions (CreateIndex t ix) = [t, fst ix]"
| "mentions (AddColumn t _) = [t]"
| "mentions (DropIndex t n) = [t, n]"
| "mentions (DropTable n) = [n]"
| "mentions (DropColumn t _) = [t]"

definition apart :: "string list \<Rightarrow> schema \<Rightarrow> bool" where
  "apart names s = list_all (\<lambda>n. n \<notin> set (relation_names s)) names"

lemma map_of_apart: "n \<notin> set (relation_names s) \<Longrightarrow> map_of (s @ ts) n = map_of ts n"
proof -
  assume "n \<notin> set (relation_names s)"
  then have "map_of s n = None" by (simp add: map_of_eq_None_iff relation_names_def)
  then show ?thesis by (simp add: map_add_def split: option.split)
qed

lemma change_apart: "n \<notin> set (relation_names s) \<Longrightarrow> change_table n f (s @ ts) = s @ change_table n f ts"
  using change_table_fresh [of n s f] by (simp add: change_table_def relation_names_def)

lemma execute_frame:
  assumes "builds d" and "apart (mentions d) s" and "execute d ts = Inr ts'"
  shows "execute d (s @ ts) = Inr (s @ ts')"
proof (cases d)
  case (CreateTable n cs p ks)
  with assms(2,3) show ?thesis by (auto simp: apart_def split: if_splits)
next
  case (CreateIndex t ix)
  then obtain name col u where ix: "ix = (name, col, u)" by (cases ix)
  with CreateIndex assms(2) have fresh: "t \<notin> set (relation_names s)" "name \<notin> set (relation_names s)"
    by (simp_all add: apart_def)
  with CreateIndex assms(3) show ?thesis
    by (auto simp: ix map_of_apart change_apart simp del: map_of_append split: option.splits if_splits)
next
  case (AddColumn t c)
  with assms(2) have "t \<notin> set (relation_names s)" by (simp add: apart_def)
  with AddColumn assms(3) show ?thesis
    by (auto simp: map_of_apart change_apart simp del: map_of_append split: option.splits if_splits)
qed (use assms(1) in simp_all)

lemma executes_frame:
  assumes "list_all builds ds" and "apart (concat (map mentions ds)) s" and "executes ds ts = Inr ts'"
  shows "executes ds (s @ ts) = Inr (s @ ts')"
  using assms
proof (induction ds arbitrary: ts)
  case (Cons d ds)
  then obtain m where m: "execute d ts = Inr m" "executes ds m = Inr ts'" by (auto split: sum.splits)
  have "apart (mentions d) s" "apart (concat (map mentions ds)) s" using Cons.prems(2) by (simp_all add: apart_def)
  with execute_frame [of d s ts m] Cons.IH [OF _ _ m(2)] Cons.prems(1) m(1) show ?case by simp
qed simp

section \<open>The revisions of the platform\<close>

definition migration_ddl :: "ddl list" where
  "migration_ddl = phase2_upgrade @ phase3_upgrade @ phase4_upgrade @ auth_upgrade"

definition models_ddl :: "ddl list" where
  "models_ddl = concat (map model_ddl metadata)"

text \<open>Two tables that differ at most in the order of their keys and indexes.\<close>

definition agrees :: "sql_table \<Rightarrow> sql_table \<Rightarrow> bool" where
  "agrees t u = (tb_columns t = tb_columns u \<and> tb_primary t = tb_primary u \<and> set (tb_keys t) = set (tb_keys u)
     \<and> set (tb_indexes t) = set (tb_indexes u) \<and> tb_filled t = tb_filled u)"

definition same_tables :: "schema \<Rightarrow> schema \<Rightarrow> bool" where
  "same_tables a b = (set (map fst a) = set (map fst b)
     \<and> list_all (\<lambda>(n, t). case map_of b n of None \<Rightarrow> False | Some u \<Rightarrow> agrees t u) a)"

lemma builds_all: "list_all builds migration_ddl" "list_all builds models_ddl"
  by code_simp+

lemma downgrades_undo:
  "phase2_downgrade = rev (map undo phase2_upgrade)" "phase3_downgrade = rev (map undo phase3_upgrade)"
  "phase4_downgrade = rev (map undo phase4_upgrade)" "auth_downgrade = rev (map undo auth_upgrade)"
  by code_simp+

lemma ddl_outcomes:
  "case (executes migration_ddl [], executes models_ddl []) of
     (Inr a, Inr b) \<Rightarrow> same_tables a b \<and> map fst metadata = map fst b | _ \<Rightarrow> False"
  by code_simp

lemma mentioned_names: "set (concat (map mentions migration_ddl)) = set (concat (map mentions models_ddl))"
  by code_simp


text \<open>Tables come from \<open>CREATE TABLE\<close> only.\<close>

fun creates :: "ddl \<Rightarrow> string list" where
  "creates (CreateTable n _ _ _) = [n]"
| "creates _ = []"

lemma execute_tables: "builds d \<Longrightarrow> execute d s = Inr s' \<Longrightarrow> map fst s' = map fst s @ creates d"
proof (cases d)
  case (CreateIndex t ix)
  moreover assume "execute d s = Inr s'"
  ultimately show ?thesis by (cases ix) (auto split: option.splits if_splits)
qed (auto split: option.splits if_splits)

lemma executes_tables:
  "list_all builds ds \<Longrightarrow> executes ds s = Inr s' \<Longrightarrow> map fst s' = map fst s @ concat (map creates ds)"
proof (induction ds arbitrary: s)
  case (Cons d ds)
  then obtain m where "execute d s = Inr m" "executes ds m = Inr s'" by (auto split: sum.splits)
  with Cons.IH [of m] Cons.prems execute_tables [of d s m] show ?case by simp
qed simp

lemma table_names: "fst ` set s = set (map fst s)"
  by simp

text \<open>The chain of revisions.\<close>

lemma revisions_from_base:
  "revisions_after (length REVISIONS) None =
     [\<lparr>rv_id = ''878b48b2cd5f'', rv_down = None, rv_upgrade = (\<lambda>_. phase2_upgrade), rv_downgrade = phase2_downgrade\<rparr>,
      \<lparr>rv_id = ''c05c9974fade'', rv_down = Some ''878b48b2cd5f'', rv_upgrade = (\<lambda>_. phase3_upgrade),
       rv_downgrade = phase3_downgrade\<rparr>,
      \<lparr>rv_id = ''a14a5514b9ab'', rv_down = Some ''c05c9974fade'', rv_upgrade = (\<lambda>_. phase4_upgrade),
       rv_downgrade = phase4_downgrade\<rparr>,
      \<lparr>rv_id = ''0004_auth_users'', rv_down = Some ''a14a5514b9ab'',
       rv_upgrade = (\<lambda>s. if ''users'' \<in> fst ` set s then [] else auth_upgrade), rv_downgrade = auth_downgrade\<rparr>]"
  by (simp add: REVISIONS_def)

lemma revisions_from_head:
  "revisions_before (length REVISIONS) (Some ''0004_auth_users'') = rev (revisions_after (length REVISIONS) None)"
  by (simp add: revisions_from_base) (simp add: REVISIONS_def)

lemma users_created_last: "''users'' \<notin> set (concat (map creates (phase2_upgrade @ phase3_upgrade @ phase4_upgrade)))"
  by code_simp

lemma upgrade_head_eq:
  assumes "''users'' \<notin> fst ` set s"
  shows "upgrade_head \<lparr>dv_version = None, dv_tables = s\<rparr> =
    map_sum id (\<lambda>t. \<lparr>dv_version = Some ''0004_auth_users'', dv_tables = t\<rparr>) (executes migration_ddl s)"
proof -
  have "''users'' \<notin> fst ` set t" if "executes (phase2_upgrade @ phase3_upgrade @ phase4_upgrade) s = Inr t" for t
    using executes_tables [OF _ that] builds_all(1) users_created_last assms
    unfolding table_names by (simp only: migration_ddl_def list_all_append set_append) simp
  then show ?thesis
    by (auto simp: upgrade_head_def revisions_from_base migration_ddl_def executes_append split: sum.splits)
qed

text \<open>\<open>create_all\<close> on a database without the models' tables.\<close>

lemma creates_model: "concat (map creates (model_ddl m)) = [fst m]" "list_all builds (model_ddl m)"
  by (auto simp: model_ddl_def list_all_iff split: prod.split)

lemma create_tables_eq:
  "distinct (map fst ms @ map fst s) \<Longrightarrow> create_tables ms s = executes (concat (map model_ddl ms)) s"
proof (induction ms arbitrary: s)
  case (Cons m ms)
  have "create_tables ms t = executes (concat (map model_ddl ms)) t" if "executes (model_ddl m) s = Inr t" for t
    using executes_tables [OF creates_model(2) that] Cons.prems
    by (intro Cons.IH) (auto simp: creates_model simp del: set_map)
  moreover have "create_missing m s = executes (model_ddl m) s" using Cons.prems by (simp add: create_missing_def)
  ultimately show ?case by (auto simp: executes_append split: sum.splits)
qed simp

section \<open>Properties\<close>

text \<open>C35: The migrations build what the models declare. On every database whose tables and indexes have
  other names than the platform's, \<open>alembic upgrade head\<close> succeeds, leaves the other tables as they
  are and adds the tables of the models with the same columns, types, nullability, primary keys,
  foreign keys and indexes that \<open>create_all\<close> would add, and no other table.\<close>

theorem migrations_build_the_models:
  assumes "apart (concat (map mentions models_ddl)) s" and "wf_schema s"
  shows "\<exists>migrated modelled. upgrade_head \<lparr>dv_version = None, dv_tables = s\<rparr>
        = Inr \<lparr>dv_version = Some ''0004_auth_users'', dv_tables = s @ migrated\<rparr>
     \<and> create_all s = Inr (s @ modelled) \<and> same_tables migrated modelled \<and> map fst modelled = map fst metadata"
proof -
  obtain a b where ab: "executes migration_ddl [] = Inr a" "executes models_ddl [] = Inr b" "same_tables a b"
    "map fst metadata = map fst b"
    using ddl_outcomes by (auto split: sum.splits)
  have "apart (concat (map mentions migration_ddl)) s"
    using assms(1) mentioned_names by (simp add: apart_def list_all_iff)
  from executes_frame [OF builds_all(1) this ab(1)] have up: "executes migration_ddl s = Inr (s @ a)" by simp
  have free: "n \<notin> fst ` set s" if "n \<in> set (concat (map mentions models_ddl))" for n
    using assms(1) that by (auto simp: apart_def list_all_iff relation_names_def)
  have "list_all (\<lambda>n. n \<in> set (concat (map mentions models_ddl))) (''users'' # map fst metadata)" by code_simp
  then have "set (''users'' # map fst metadata) \<subseteq> set (concat (map mentions models_ddl))"
    by (simp only: list_all_iff subset_code(1)) 
  with free have "set (''users'' # map fst metadata) \<inter> fst ` set s = {}" by blast
  then have "''users'' \<notin> fst ` set s" and disjoint: "set (map fst metadata) \<inter> set (map fst s) = {}" by auto
  with up have upgraded: "upgrade_head \<lparr>dv_version = None, dv_tables = s\<rparr>
      = Inr \<lparr>dv_version = Some ''0004_auth_users'', dv_tables = s @ a\<rparr>"
    by (simp add: upgrade_head_eq)
  have "distinct (map fst metadata)" by code_simp
  with disjoint assms(2) have "distinct (map fst metadata @ map fst s)"
    by (simp add: wf_schema_def relation_names_def)
  moreover from executes_frame [OF builds_all(2) assms(1) ab(2)] have "executes models_ddl s = Inr (s @ b)" by simp
  ultimately have "create_all s = Inr (s @ b)"
    unfolding create_all_def models_ddl_def by (simp only: create_tables_eq)
  with upgraded ab show ?thesis by metis
qed


section \<open>What does not work\<close>

text \<open>Findings already stored block the second migration: the new column is required and has no default.\<close>

lemma upgrade_fails_on_stored_findings:
  "case executes phase2_upgrade [] of Inl e \<Rightarrow> False | Inr s \<Rightarrow>
     upgrade_head \<lparr>dv_version = Some ''878b48b2cd5f'', dv_tables = fill {''findings''} s\<rparr>
       = Inl (NullInColumn ''human_review_status'')"
  by code_simp

text \<open>Only the last migration tolerates tables made by \<open>create_all\<close>.\<close>

lemma upgrade_fails_after_create_all:
  "case create_all [] of Inl e \<Rightarrow> False | Inr s \<Rightarrow>
     upgrade_head \<lparr>dv_version = None, dv_tables = s\<rparr> = Inl (DuplicateName ''scans'')"
  by code_simp

text \<open>A table \<open>users\<close> that the last migration found in place is nevertheless dropped by its downgrade.\<close>

lemma downgrade_drops_users_it_did_not_create:
  "case executes (phase2_upgrade @ phase3_upgrade @ phase4_upgrade) [] of Inl e \<Rightarrow> False | Inr s \<Rightarrow>
     case create_missing users_model s of Inl e \<Rightarrow> False | Inr s' \<Rightarrow>
       upgrade_head \<lparr>dv_version = Some ''a14a5514b9ab'', dv_tables = s'\<rparr>
         = Inr \<lparr>dv_version = Some ''0004_auth_users'', dv_tables = s'\<rparr>
       \<and> executes auth_downgrade s' = Inr s"
  by code_simp

end
