(* ===== verification/Columns.thy ===== *)
theory Columns
  imports SchemaFacts RuleFacts Orchestrator Repositories UserNames AccountFacts
begin

text \<open>
  Whether what a scan stores fits the columns it is stored in: the widths of \<open>VARCHAR\<close> columns come
  from the models, the texts from the rows the repository makes of findings.
\<close>

definition width :: "string \<times> mapped_column list \<Rightarrow> string \<Rightarrow> nat option" where
  "width model col =
     (case filter (\<lambda>c. mc_name c = col) (snd model) of
        [] \<Rightarrow> None
      | c # _ \<Rightarrow> (case mc_type c of Varchar n \<Rightarrow> Some n | _ \<Rightarrow> None))"

definition fits :: "string \<times> mapped_column list \<Rightarrow> (string \<times> string) list \<Rightarrow> bool" where
  "fits model texts =
     list_all (\<lambda>(col, v). case width model col of None \<Rightarrow> True | Some n \<Rightarrow> length v \<le> n) texts"

definition finding_texts :: "Finding \<Rightarrow> (string \<times> string) list" where
  "finding_texts f =
     [(''scanner_id'', fd_scanner_id f), (''scanner_version'', fd_scanner_version f), (''rule_id'', fd_rule_id f),
      (''title'', fd_title f), (''finding_type'', fd_finding_type f), (''category'', fd_category f),
      (''severity'', fd_severity f), (''confidence'', fd_confidence f),
      (''remediation_mode'', fd_remediation_mode f), (''human_review_status'', fd_human_review_status f)]"

text \<open>These are the columns with a width, apart from the keys and the reviewer, who is a user.\<close>

lemma finding_texts_complete:
  "set (filter (\<lambda>c. width findings_model c \<noteq> None) (map mc_name (snd findings_model)))
     = set (map fst (finding_texts f)) \<union> {''id'', ''scan_id'', ''reviewed_by''}"
proof -
  have "set (filter (\<lambda>c. width findings_model c \<noteq> None) (map mc_name (snd findings_model)))
      = set [''scanner_id'', ''scanner_version'', ''rule_id'', ''title'', ''finding_type'', ''category'', ''severity'',
          ''confidence'', ''remediation_mode'', ''human_review_status'', ''id'', ''scan_id'', ''reviewed_by'']"
    by code_simp
  then show ?thesis by (simp add: finding_texts_def insert_commute)
qed

text \<open>A finding names an operation of the source whose name has more than 200 characters.\<close>

definition long_operation :: "RawFinding \<Rightarrow> bool" where
  "long_operation f =
     (case map_of (rf_metadata f) ''operation_name'' of Some (JStr name) \<Rightarrow> 200 < length name | _ \<Rightarrow> False)"

definition short_texts :: "RawFinding \<Rightarrow> bool" where
  "short_texts f = ((length (rf_title f) \<le> 255 \<longleftrightarrow> \<not> long_operation f) \<and> length (rf_rule_id f) \<le> 32)"

lemma short_raw_finding:
  "short_texts (raw_finding t ft c sv cf l1 l2 ev mk d im ra rule md) \<longleftrightarrow>
     (length t \<le> 255 \<longleftrightarrow> \<not> (case map_of md ''operation_name'' of Some (JStr name) \<Rightarrow> 200 < length name | _ \<Rightarrow> False))
     \<and> length rule \<le> 32"
  by (simp add: short_texts_def long_operation_def raw_finding_def)

lemma secret_scan_short: "list_all short_texts (secret_scan txt)"
  by (auto simp: secret_scan_def secret_finding_def short_raw_finding list_all_iff)

lemma pii_matches_short:
  "length title \<le> 255 \<Longrightarrow> length kind \<le> 28 \<Longrightarrow> list_all short_texts (pii_matches txt pattern kind title severity)"
  by (auto simp: pii_matches_def pii_finding_def short_raw_finding list_all_iff upper_def)

lemma pii_scan_short: "list_all short_texts (pii_scan txt)"
  by (simp add: pii_scan_def pii_matches_short)

lemma logging_scan_short: "list_all short_texts (logging_scan txt)"
  by (auto simp: logging_scan_def log_finding_def short_raw_finding list_all_iff)

lemma sql_match_short:
  "length rule \<le> 32 \<Longrightarrow> length title \<le> 255 \<Longrightarrow> list_all short_texts (sql_match txt pattern rule sv title d)"
  by (auto simp: sql_match_def sql_finding_def short_raw_finding list_all_iff)

lemma sql_scan_short: "list_all short_texts (sql_scan txt)"
  by (simp add: sql_scan_def sql_match_short)

lemma pattern_findings_short:
  assumes "list_all (\<lambda>(p, t, sv, rule). length t \<le> 255 \<and> length rule \<le> 32) patterns"
    and "\<And>t sv rule l m. length t \<le> 255 \<Longrightarrow> length rule \<le> 32 \<Longrightarrow> short_texts (build t sv rule l m)"
  shows "list_all short_texts (pattern_findings patterns build txt)"
  using assms by (fastforce simp: pattern_findings_def list_all_iff)

lemma permission_scan_short: "list_all short_texts (permission_scan txt)"
  unfolding permission_scan_def
  by (rule pattern_findings_short)
     (simp_all add: PERMISSION_PATTERNS_def permission_finding_def short_raw_finding)

lemma config_scan_short: "list_all short_texts (config_scan txt)"
  unfolding config_scan_def
  by (rule pattern_findings_short) (simp_all add: CONFIG_PATTERNS_def config_finding_def short_raw_finding)

lemma sensitive_ops_short: "sensitive_ops txt ls ms = Inr fs \<Longrightarrow> list_all short_texts fs"
proof (induction "txt" ls ms arbitrary: fs rule: sensitive_ops.induct)
  case (2 tx ls start m ms)
  have "short_texts (missing_audit_finding ls name l ev)" for name l ev
    by (auto simp: missing_audit_finding_def short_raw_finding)
  with 2 show ?case by (auto simp: Let_def rbind_Inr_iff split: if_splits)
qed simp

lemma missing_fields_short: "missing_fields txt ls reported starts = Inr fs \<Longrightarrow> list_all short_texts fs"
proof (induction "txt" ls reported starts arbitrary: fs rule: missing_fields.induct)
  case (2 tx ls reported start starts)
  have "short_texts (missing_fields_finding ls l ev)" for l ev
    by (simp add: missing_fields_finding_def short_raw_finding)
  with 2 show ?case by (auto simp: Let_def rbind_Inr_iff split: if_splits)
qed simp

lemma audit_scan_short: "audit_scan txt = Inr fs \<Longrightarrow> list_all short_texts fs"
  by (auto simp: audit_scan_def rbind_Inr_iff sensitive_op_without_audit_def audit_record_missing_fields_def
      audit_disabled_def short_raw_finding list_all_iff
      dest!: sensitive_ops_short missing_fields_short)

lemma scanners_short:
  assumes "scanner \<in> set get_content_scanners" and "sx_scan scanner path txt = Inr findings"
  shows "list_all short_texts findings \<and> length (sx_scanner_id scanner) \<le> 64 \<and> sx_scanner_version scanner = ''1.0.0''"
  using assms audit_scan_short
  by (auto simp: get_content_scanners_def content_scanner_def secret_scan_short pii_scan_short logging_scan_short
      permission_scan_short sql_scan_short config_scan_short)

lemma finding_widths:
  "map (\<lambda>c. width findings_model c)
     [''scanner_id'', ''scanner_version'', ''rule_id'', ''title'', ''finding_type'', ''category'', ''severity'',
      ''confidence'', ''remediation_mode'', ''human_review_status'']
   = map Some [64, 16, 32, 255, 20, 40, 16, 16, 20, 16]"
  by code_simp

lemma enum_widths:
  "length (FindingType_value t) \<le> 20" "length (FindingCategory_value c) \<le> 40" "length (Severity_value s) \<le> 16"
  "length (ConfidenceLevel_value l) \<le> 16" "length (RemediationMode_value m) \<le> 20" "length (HumanReviewStatus_value h) \<le> 16"
proof -
  show "length (FindingType_value t) \<le> 20" by (cases t) simp_all
  show "length (FindingCategory_value c) \<le> 40" by (cases c) simp_all
  show "length (Severity_value s) \<le> 16" by (cases s) simp_all
  show "length (ConfidenceLevel_value l) \<le> 16" by (cases l) simp_all
  show "length (RemediationMode_value m) \<le> 20" by (cases m) simp_all
  show "length (HumanReviewStatus_value h) \<le> 16" by (cases h) simp_all
qed

lemma row_fits:
  assumes "short_texts f" and "length (nf_scanner_id n) \<le> 64" and "length (nf_scanner_version n) \<le> 16" and "nf_raw n = f"
  shows "fits findings_model (finding_texts (finding_row t i n)) \<longleftrightarrow> \<not> long_operation f"
  using assms finding_widths enum_widths
  by (simp add: fits_def finding_texts_def finding_row_def Let_def short_texts_def del: FindingType_value.simps
      FindingCategory_value.simps Severity_value.simps ConfidenceLevel_value.simps RemediationMode_value.simps
      HumanReviewStatus_value.simps)

text \<open>C37: Every row that a finding of a content scanner is stored in fits the columns of its table,
  with one exception: the title of a finding about a sensitive operation quotes the operation's name,
  and exactly the names of more than 200 characters make it longer than its column.\<close>

theorem finding_rows_fit_their_columns:
  assumes "scanner \<in> set get_content_scanners" and "sx_scan scanner path txt = Inr findings" and "f \<in> set findings"
  shows "fits findings_model (finding_texts (finding_row t i (normalize scanner scan_id path domains f)))
     \<longleftrightarrow> \<not> long_operation f"
  using scanners_short [OF assms(1,2)] assms(3) by (intro row_fits) (auto simp: normalize_def list_all_iff)

section \<open>Accounts\<close>

definition user_texts :: "User \<Rightarrow> (string \<times> string) list" where
  "user_texts u =
     [(''username'', us_username u), (''display_name'', us_display_name u),
      (''password_hash'', us_password_hash u), (''role'', us_role u)]"

lemma user_texts_complete:
  "set (filter (\<lambda>c. width users_model c \<noteq> None) (map mc_name (snd users_model))) = set (map fst (user_texts u)) \<union> {''id''}"
proof -
  have "set (filter (\<lambda>c. width users_model c \<noteq> None) (map mc_name (snd users_model)))
      = set [''username'', ''display_name'', ''password_hash'', ''role'', ''id'']"
    by code_simp
  then show ?thesis by (simp add: user_texts_def insert_commute)
qed

lemma user_widths:
  "map (\<lambda>c. width users_model c) [''username'', ''display_name'', ''password_hash'', ''role''] = map Some [64, 128, 255, 16]"
  by code_simp

lemma length_b64encode: "length (b64encode bs) \<le> 2 * length bs + 2"
proof -
  have "length (b64_sextets ns) \<le> 2 * length ns" for ns
    by (induction ns rule: b64_sextets.induct) simp_all
  from this [of "map nat_of_byte bs"] show ?thesis by (simp add: b64encode_def)
qed

lemma length_default_hash:
  assumes "scrypt_ok (default_hasher k)" and "length salt = 16" and "hash_password (default_hasher k) salt pw = Inr enc"
  shows "length enc \<le> 255"
proof -
  let ?h = "default_hasher k"
  obtain d where "ph_scrypt ?h (utf8 pw) salt (ph_n ?h) (ph_r ?h) (ph_p ?h) (ph_dklen ?h) = Inr d" "length d = ph_dklen ?h"
    using assms(1) unfolding scrypt_ok_def by blast
  with assms(3) have enc: "enc = encode_hash (2 ^ 17) 8 1 salt d" and d: "length d = 32"
    by (auto simp: hash_password_def default_hasher_def)
  have "length (show_int (2 ^ 17)) = 6" "length (show_int 8) = 1" "length (show_int 1) = 1"
    by (simp_all add: show_int_def show_nat.simps)
  with length_b64encode [of salt] length_b64encode [of d] assms(2) d show ?thesis
    by (simp add: enc encode_hash_def SCHEME_def)
qed

lemma length_user_name: "plain_user_name n \<Longrightarrow> length n \<le> 64"
  by (cases n) (simp_all add: plain_user_name_def)

lemma length_role: "length (Role_value r) \<le> 16"
  by (cases r) simp_all

lemma created_display_name:
  "create_account auth n dn role pw must s = (Inr u, s') \<Longrightarrow> length (strip dn) \<le> 128"
  by (auto simp: create_account_def and_then_eq_Inr Let_def split: if_splits)

text \<open>The row of every account that is created fits its columns: with the platform's password hasher,
  and a source of random bytes that gives as many as it is asked for, user name, display name,
  password hash and role are never longer than the columns of \<open>users\<close>.\<close>

theorem account_rows_fit_their_columns:
  assumes "create_account auth n dn role pw must s = (Inr u, s')"
    and "as_hasher auth = default_hasher k" and "scrypt_ok (default_hasher k)"
    and "\<And>i size. length (pf_urandom s i size) = size"
  shows "fits users_model (user_texts u)"
proof -
  from create_account_Inr [OF assms(1)] obtain enc where
    enc: "hash_password (default_hasher k) (pf_urandom s (pf_draws s) (ph_salt_bytes (default_hasher k))) pw = Inr enc"
    and u: "u = new_account auth n dn role enc must s" and accepted: "re_match username_re (normalize_username n) \<noteq> None"
    unfolding assms(2) by blast
  from accepted have name: "plain_user_name (normalize_username n)" by (simp only: user_name_accepted)
  have "length enc \<le> 255"
    using enc by (intro length_default_hash [OF assms(3)]) (simp_all add: assms(4) default_hasher_def)
  moreover have "length (strip dn) \<le> 128" using created_display_name [OF assms(1)] .
  ultimately show ?thesis
    using user_widths length_user_name [OF name] length_role
    by (simp add: fits_def user_texts_def u new_account_def del: Role_value.simps)
qed

end
