(* ===== verification/DemoSchema.thy ===== *)
theory DemoSchema
  imports Columns DemoPlatform
begin

text \<open>A database that already holds a vector collection, a scanned line and a new account.\<close>

definition collection_table :: schema where
  "collection_table =
     [(''vs_chunks'', \<lparr>tb_columns = [column ''chunk_id'' SqlText False, column ''doc_id'' SqlText False],
        tb_primary = ''chunk_id'', tb_keys = [], tb_indexes = [], tb_filled = False\<rparr>)]"

lemma collection_apart: "apart (concat (map mentions models_ddl)) collection_table"
  by code_simp

lemma collection_wf: "wf_schema collection_table"
  by (simp add: collection_table_def wf_schema_def wf_table_def column_names_def column_def relation_names_def
      index_names_def)

theorem migrations_build_the_models_witness:
  "\<exists>migrated modelled. upgrade_head \<lparr>dv_version = None, dv_tables = collection_table\<rparr>
        = Inr \<lparr>dv_version = Some ''0004_auth_users'', dv_tables = collection_table @ migrated\<rparr>
     \<and> create_all collection_table = Inr (collection_table @ modelled) \<and> same_tables migrated modelled"
  using migrations_build_the_models [OF collection_apart collection_wf] by blast


definition public_flag :: string where
  "public_flag = ''is_public=1''"

lemma public_flag_found: "permission_scan public_flag \<noteq> [] \<and> \<not> list_ex long_operation (permission_scan public_flag)"
  by code_simp

theorem finding_rows_fit_their_columns_witness:
  "list_all (\<lambda>f. fits findings_model (finding_texts (finding_row (Aware 0) ''f1''
       (normalize (content_scanner ''broad_permissions'' FindingCategory.BROAD_PERMISSIONS (\<lambda>txt. Inr (permission_scan txt)))
          ''s1'' ''a.cfg'' [] f)))) (permission_scan public_flag)
   \<and> permission_scan public_flag \<noteq> []"
proof -
  let ?scanner = "content_scanner ''broad_permissions'' FindingCategory.BROAD_PERMISSIONS (\<lambda>txt. Inr (permission_scan txt))"
  have "?scanner \<in> set get_content_scanners" by (simp add: get_content_scanners_def)
  moreover have "sx_scan ?scanner ''a.cfg'' public_flag = Inr (permission_scan public_flag)"
    by (simp add: content_scanner_def)
  ultimately show ?thesis
    using finding_rows_fit_their_columns [of ?scanner "''a.cfg''" public_flag] public_flag_found
    by (auto simp: list_all_iff list_ex_iff)
qed

theorem account_rows_fit_their_columns_witness:
  "\<exists>u. fst (create_account demo_auth ''zoe'' ''zoe'' Role.MANAGER ''correct horse battery'' True (begin_session demo_platform)) = Inr u
     \<and> fits users_model (user_texts u)"
proof -
  let ?run = "create_account demo_auth ''zoe'' ''zoe'' Role.MANAGER ''correct horse battery'' True (begin_session demo_platform)"
  have toy: "as_hasher demo_auth = default_hasher toy_scrypt" by (simp add: demo_auth_def toy_hasher_def)
  with toy_scrypt_ok have ok: "scrypt_ok (default_hasher toy_scrypt)" by (simp add: toy_hasher_def)
  have "st_password_min_length (as_settings demo_auth) = 12"
    by (simp add: demo_auth_def demo_settings_def default_settings_def)
  with demo_file_valid demo_no_zoe ok toy have "fst ?run \<noteq> Inl e" for e
    using create_account_error [of demo_auth "''zoe''" "''zoe''" Role.MANAGER "''correct horse battery''" True
        "begin_session demo_platform" e] by auto
  then obtain u where u: "fst ?run = Inr u" by (cases "fst ?run") auto
  then have run: "?run = (Inr u, snd ?run)" by (metis prod.collapse)
  have "length (pf_urandom (begin_session demo_platform) i n) = n" for i n by (simp add: demo_platform_def)
  with account_rows_fit_their_columns [OF run toy ok] u show ?thesis by blast
qed

end
