(* ===== verification/VectorStore.thy ===== *)
theory VectorStore
  imports TextFormats Float64 Config
begin

text \<open>
  \<^verbatim>\<open>core/contracts.py\<close>: chunks of text with their embeddings, and what the two vector stores promise. The
  abstract class \<open>VectorStore\<close> is the locale \<open>vector_store\<close>: a store holds a map from chunk identifiers
  to what was stored under them; adding, deleting a document and clearing change the map, searching
  reads it. \<open>exact_vector_store\<close> adds that a search misses nothing. Both are interpreted on the code's
  stores in \<open>PgVector\<close> and \<open>Chroma\<close>. A store and the service behind it are one state \<open>'s\<close>; \<open>'p\<close> is the
  service's behaviour.
\<close>

section \<open>Data\<close>

type_synonym vector = "rat list"
type_synonym metadata = "(string \<times> json) list"

record Chunk =
  ck_id :: string
  ck_doc :: string
  ck_text :: string
  ck_metadata :: metadata
  ck_embedding :: "vector option"
  ck_score :: "rat option"
  ck_rank :: "nat option"

record HealthStatus =
  hs_healthy :: bool
  hs_backend :: string
  hs_detail :: string

definition vector_store_error :: "string \<Rightarrow> error" where
  "vector_store_error msg = Err VectorStoreError msg"

text \<open>\<open>except Exception as exc: raise VectorStoreError(f"... failed: {exc}") from exc\<close>\<close>

definition or_vector_store_error :: "string \<Rightarrow> 'a result \<times> 's \<Rightarrow> 'a result \<times> 's" where
  "or_vector_store_error what outcome =
     (case outcome of
        (Inl e, s) \<Rightarrow> (Inl (vector_store_error (what @ '': '' @ err_msg e)), s)
      | (Inr a, s) \<Rightarrow> (Inr a, s))"

lemma or_vector_store_error_simps [simp]:
  "or_vector_store_error what (Inr a, s) = (Inr a, s)"
  "or_vector_store_error what (Inl e, s) = (Inl (vector_store_error (what @ '': '' @ err_msg e)), s)"
  by (simp_all add: or_vector_store_error_def)

text \<open>The identifiers of the chunks that have no embedding; both stores refuse such a batch.\<close>

definition missing_embeddings :: "Chunk list \<Rightarrow> string list" where
  "missing_embeddings chunks = map ck_id (filter (\<lambda>c. ck_embedding c = None) chunks)"

definition chunk_vector :: "Chunk \<Rightarrow> vector" where
  "chunk_vector c = (case ck_embedding c of None \<Rightarrow> [] | Some v \<Rightarrow> v)"

text \<open>A vector of dimension \<open>n\<close> that single precision can hold, with the squares of its components, and that
  has a direction.\<close>

definition usable_vector :: "nat \<Rightarrow> vector \<Rightarrow> bool" where
  "usable_vector n v =
     (length v = n \<and> list_ex (\<lambda>x. x \<noteq> 0) v
      \<and> list_all (\<lambda>x. x = 0 \<or> 1 / 2 ^ 50 \<le> \<bar>x\<bar> \<and> \<bar>x\<bar> < 2 ^ 50) v)"

definition no_nul :: "string \<Rightarrow> bool" where
  "no_nul s = (CHR 0x00 \<notin> set s)"

section \<open>Python's text of a value\<close>

primrec json_repr :: "json \<Rightarrow> string" where
  "json_repr JNull = ''None''"
| "json_repr (JBool b) = (if b then ''True'' else ''False'')"
| "json_repr (JInt i) = show_int i"
| "json_repr (JFloat x) = show_float x"
| "json_repr (JStr s) = py_repr s"
| "json_repr (JList vs) = ''['' @ join '', '' (map json_repr vs) @ '']''"
| "json_repr (JObj kvs) =
     ''{'' @ join '', '' (map (\<lambda>kf. py_repr (fst kf) @ '': '' @ snd kf) (map (map_prod id json_repr) kvs)) @ ''}''"

definition json_str :: "json \<Rightarrow> string" where
  "json_str v = (case v of JStr s \<Rightarrow> s | _ \<Rightarrow> json_repr v)"

text \<open>\<open>str(list(embedding))\<close>\<close>

definition vector_text :: "vector \<Rightarrow> string" where
  "vector_text v = ''['' @ join '', '' (map show_float v) @ '']''"

section \<open>What a store promises\<close>

text \<open>What is kept of a chunk; a backend has its own form \<open>'v\<close> of a vector.\<close>

record 'v stored =
  sd_doc :: string
  sd_text :: string
  sd_metadata :: "string \<rightharpoonup> json"
  sd_vector :: 'v

definition put_all :: "(string \<rightharpoonup> 'v stored) \<Rightarrow> (string \<times> 'v stored) list \<Rightarrow> string \<rightharpoonup> 'v stored" where
  "put_all held entries = held ++ map_of entries"

definition without_document :: "string \<Rightarrow> (string \<rightharpoonup> 'v stored) \<Rightarrow> string \<rightharpoonup> 'v stored" where
  "without_document d held i =
     (case held i of None \<Rightarrow> None | Some e \<Rightarrow> if sd_doc e = d then None else Some e)"

text \<open>The hits of a search: at most \<open>k\<close> different stored chunks that the filter selects, as they were stored,
  the closest first, numbered from 1; and, if it misses nothing, no selected chunk left out is closer
  than a hit or would still fit.\<close>

definition is_hit ::
  "(string \<rightharpoonup> 'v stored) \<Rightarrow> ('v \<Rightarrow> rat) \<Rightarrow> ('v stored \<Rightarrow> bool) \<Rightarrow> Chunk \<Rightarrow> bool" where
  "is_hit held close selected c =
     (case held (ck_id c) of
        None \<Rightarrow> False
      | Some e \<Rightarrow> selected e \<and> ck_doc c = sd_doc e \<and> ck_text c = sd_text e
          \<and> map_of (ck_metadata c) = sd_metadata e \<and> ck_score c = Some (close (sd_vector e)))"

definition retrieved ::
  "(string \<rightharpoonup> 'v stored) \<Rightarrow> ('v \<Rightarrow> rat) \<Rightarrow> ('v stored \<Rightarrow> bool) \<Rightarrow> nat \<Rightarrow> Chunk list \<Rightarrow> bool" where
  "retrieved held close selected k hits =
     (length hits \<le> k \<and> distinct (map ck_id hits) \<and> list_all (is_hit held close selected) hits
      \<and> sorted_wrt (\<lambda>a b. the (ck_score b) \<le> the (ck_score a)) hits
      \<and> map ck_rank hits = map Some [1..<Suc (length hits)])"

definition misses_nothing ::
  "(string \<rightharpoonup> 'v stored) \<Rightarrow> ('v \<Rightarrow> rat) \<Rightarrow> ('v stored \<Rightarrow> bool) \<Rightarrow> nat \<Rightarrow> Chunk list \<Rightarrow> bool" where
  "misses_nothing held close selected k hits =
     (\<forall>i e. held i = Some e \<and> selected e \<and> i \<notin> ck_id ` set hits \<longrightarrow>
        length hits = k \<and> (\<forall>c \<in> set hits. close (sd_vector e) \<le> the (ck_score c)))"

lemma without_document_eq_Some [simp]:
  "without_document d held i = Some e \<longleftrightarrow> held i = Some e \<and> sd_doc e \<noteq> d"
  by (auto simp: without_document_def split: option.splits)

lemma retrieved_hit:
  assumes "retrieved held close selected k hits" and "c \<in> set hits"
  shows "\<exists>e. held (ck_id c) = Some e \<and> selected e \<and> ck_doc c = sd_doc e \<and> ck_text c = sd_text e
    \<and> map_of (ck_metadata c) = sd_metadata e \<and> ck_score c = Some (close (sd_vector e))"
  using assms by (auto simp: retrieved_def list_all_iff is_hit_def split: option.splits)

section \<open>The contract\<close>

datatype vs_op = Add "Chunk list" | DeleteDocument string | Clear

text \<open>What an operation does to what is held, when \<open>kept\<close> is what a backend keeps of a chunk.\<close>

primrec held_after :: "(Chunk \<Rightarrow> 'v stored) \<Rightarrow> vs_op \<Rightarrow> (string \<rightharpoonup> 'v stored) \<Rightarrow> string \<rightharpoonup> 'v stored" where
  "held_after kept (Add cs) = (\<lambda>held. put_all held (map (\<lambda>c. (ck_id c, kept c)) cs))"
| "held_after kept (DeleteDocument d) = without_document d"
| "held_after kept Clear = (\<lambda>held. Map.empty)"

text \<open>A chunk stored again replaces the old one; whether metadata keys it no longer has would go too is not
  promised, so it comes with the same keys.\<close>

definition same_keys :: "(Chunk \<Rightarrow> 'v stored) \<Rightarrow> (string \<rightharpoonup> 'v stored) \<Rightarrow> Chunk \<Rightarrow> bool" where
  "same_keys kept held c =
     (case held (ck_id c) of None \<Rightarrow> True | Some e \<Rightarrow> dom (sd_metadata e) = dom (sd_metadata (kept c)))"

primrec admissible ::
  "(Chunk \<Rightarrow> bool) \<Rightarrow> (Chunk \<Rightarrow> 'v stored) \<Rightarrow> (string \<rightharpoonup> 'v stored) \<Rightarrow> vs_op \<Rightarrow> bool" where
  "admissible storable kept held (Add cs) =
     (list_all storable cs \<and> distinct (map ck_id cs) \<and> list_all (same_keys kept held) cs)"
| "admissible storable kept held (DeleteDocument d) = no_nul d"
| "admissible storable kept held Clear = True"

primrec admissible_run ::
  "(Chunk \<Rightarrow> bool) \<Rightarrow> (Chunk \<Rightarrow> 'v stored) \<Rightarrow> (string \<rightharpoonup> 'v stored) \<Rightarrow> vs_op list \<Rightarrow> bool" where
  "admissible_run storable kept held [] = True"
| "admissible_run storable kept held (x # xs) =
     (admissible storable kept held x \<and> admissible_run storable kept (held_after kept x held) xs)"

text \<open>Operations on a store that has these methods.\<close>

primrec perform ::
  "(Chunk list \<Rightarrow> 's \<Rightarrow> unit result \<times> 's) \<Rightarrow> (string \<Rightarrow> 's \<Rightarrow> unit result \<times> 's) \<Rightarrow> ('s \<Rightarrow> unit result \<times> 's)
     \<Rightarrow> vs_op \<Rightarrow> 's \<Rightarrow> unit result \<times> 's" where
  "perform add_op delete_op clear_op (Add cs) = add_op cs"
| "perform add_op delete_op clear_op (DeleteDocument d) = delete_op d"
| "perform add_op delete_op clear_op Clear = clear_op"

primrec perform_all ::
  "('x \<Rightarrow> 's \<Rightarrow> unit result \<times> 's) \<Rightarrow> 'x list \<Rightarrow> 's \<Rightarrow> unit result \<times> 's" where
  "perform_all step [] s = (Inr (), s)"
| "perform_all step (x # xs) s = and_then (step x s) (\<lambda>_. perform_all step xs)"

locale vector_store =
  fixes add :: "'p \<Rightarrow> Chunk list \<Rightarrow> 's \<Rightarrow> unit result \<times> 's"
    and search :: "'p \<Rightarrow> vector \<Rightarrow> nat \<Rightarrow> metadata option \<Rightarrow> 's \<Rightarrow> Chunk list result \<times> 's"
    and delete_by_document :: "'p \<Rightarrow> string \<Rightarrow> 's \<Rightarrow> unit result \<times> 's"
    and clear :: "'p \<Rightarrow> 's \<Rightarrow> unit result \<times> 's"
    and ready :: "'p \<Rightarrow> nat \<Rightarrow> 's \<Rightarrow> bool" \<comment> \<open>usable for vectors of that dimension\<close>
    and holds :: "'p \<Rightarrow> 's \<Rightarrow> string \<rightharpoonup> 'v stored"
    and kept :: "Chunk \<Rightarrow> 'v stored"
    and storable :: "nat \<Rightarrow> Chunk \<Rightarrow> bool"
    and askable :: "metadata option \<Rightarrow> bool"
    and selects :: "'p \<Rightarrow> metadata option \<Rightarrow> 'v stored \<Rightarrow> bool"
    and closeness :: "'p \<Rightarrow> vector \<Rightarrow> 'v \<Rightarrow> rat"
  assumes add_stores:
      "ready p n s \<Longrightarrow> admissible (storable n) kept (holds p s) (Add cs) \<Longrightarrow>
         \<exists>s'. add p cs s = (Inr (), s') \<and> ready p n s' \<and> holds p s' = held_after kept (Add cs) (holds p s)"
    and delete_removes:
      "ready p n s \<Longrightarrow> no_nul d \<Longrightarrow>
         \<exists>s'. delete_by_document p d s = (Inr (), s') \<and> ready p n s' \<and> holds p s' = without_document d (holds p s)"
    and clear_empties:
      "ready p n s \<Longrightarrow> \<exists>s'. clear p s = (Inr (), s') \<and> ready p n s' \<and> holds p s' = Map.empty"
    and search_finds:
      "ready p n s \<Longrightarrow> usable_vector n q \<Longrightarrow> 0 < k \<Longrightarrow> askable filters \<Longrightarrow>
         \<exists>hits s'. search p q k filters s = (Inr hits, s') \<and> ready p n s' \<and> holds p s' = holds p s
           \<and> retrieved (holds p s) (closeness p q) (selects p filters) k hits"
begin

lemma perform_refines:
  "ready p n s \<Longrightarrow> admissible (storable n) kept (holds p s) x \<Longrightarrow>
     \<exists>s'. perform (add p) (delete_by_document p) (clear p) x s = (Inr (), s') \<and> ready p n s'
       \<and> holds p s' = held_after kept x (holds p s)"
  using add_stores delete_removes clear_empties by (cases x) auto

lemma history_refines:
  "ready p n s \<Longrightarrow> admissible_run (storable n) kept (holds p s) xs \<Longrightarrow>
     \<exists>s'. perform_all (perform (add p) (delete_by_document p) (clear p)) xs s = (Inr (), s') \<and> ready p n s'
       \<and> holds p s' = fold (held_after kept) xs (holds p s)"
proof (induction xs arbitrary: s)
  case (Cons x xs)
  then obtain s' where s': "perform (add p) (delete_by_document p) (clear p) x s = (Inr (), s')" "ready p n s'"
    "holds p s' = held_after kept x (holds p s)"
    using perform_refines [OF Cons.prems(1), of x] by auto
  with Cons.IH [OF s'(2)] Cons.prems(2) show ?case by simp
qed simp

lemma deleted_never_found:
  assumes "ready p n s" and "no_nul d" and "usable_vector n q" and "0 < k" and "askable filters"
  shows "\<exists>s' hits s''. delete_by_document p d s = (Inr (), s') \<and> search p q k filters s' = (Inr hits, s'')
    \<and> (\<forall>c \<in> set hits. ck_doc c \<noteq> d)"
proof -
  obtain s' where s': "delete_by_document p d s = (Inr (), s')" "ready p n s'" "holds p s' = without_document d (holds p s)"
    using delete_removes [OF assms(1,2)] by blast
  obtain hits s'' where "search p q k filters s' = (Inr hits, s'')"
    "retrieved (without_document d (holds p s)) (closeness p q) (selects p filters) k hits"
    using search_finds [OF s'(2) assms(3-)] s'(3) by auto
  moreover from retrieved_hit [OF this(2)] have "\<forall>c \<in> set hits. ck_doc c \<noteq> d" by fastforce
  ultimately show ?thesis using s'(1) by blast
qed

end

text \<open>A store whose search misses nothing returns every selected chunk when asked for enough.\<close>

locale exact_vector_store = vector_store +
  assumes search_exact:
      "ready p n s \<Longrightarrow> usable_vector n q \<Longrightarrow> 0 < k \<Longrightarrow> askable filters \<Longrightarrow> search p q k filters s = (Inr hits, s') \<Longrightarrow>
         misses_nothing (holds p s) (closeness p q) (selects p filters) k hits"
begin

lemma all_found:
  assumes "ready p n s" and "usable_vector n q" and "0 < k" and "askable filters"
    and "search p q k filters s = (Inr hits, s')" and "length hits < k"
  shows "ck_id ` set hits = {i. \<exists>e. holds p s i = Some e \<and> selects p filters e}"
proof -
  from assms(1-5) search_finds have "retrieved (holds p s) (closeness p q) (selects p filters) k hits"
    by (metis Inr_inject fst_conv)
  moreover from assms search_exact have "misses_nothing (holds p s) (closeness p q) (selects p filters) k hits"
    by blast
  ultimately show ?thesis using assms(6) by (fastforce simp: misses_nothing_def dest: retrieved_hit)
qed

end

end
