(* ===== verification/PgVector.thy ===== *)
theory PgVector
  imports VectorStore
begin

text \<open>
  \<^verbatim>\<open>rag/vectorstores/pgvector_store.py\<close>. SQLAlchemy, the PostgreSQL server and the pgvector extension are
  the parameter \<open>postgres\<close>: a transaction (\<open>engine.begin()\<close>) runs a list of statements, a connection
  (\<open>engine.connect()\<close>) one query. A statement is the text the code writes, by its form and by what the code
  puts into it; the part built from filter keys is the text itself. \<open>postgres_ok\<close> is what PostgreSQL and
  pgvector document of these statements.
\<close>

section \<open>Statements\<close>

text \<open>The text \<open>json.dumps\<close> writes of a dictionary, which \<open>json.loads\<close> reads back.\<close>

datatype json_text = JsonText metadata

text \<open>The bound parameters of one row.\<close>

record pg_chunk =
  pc_id :: string
  pc_doc :: string
  pc_text :: string
  pc_metadata :: json_text
  pc_embedding :: string

datatype pg_statement =
    CreateExtension
  | CreateTable string nat
  | Upsert string pg_chunk
  | DeleteDoc string string
  | Truncate string

text \<open>\<open>Nearest table where_clause embedding top_k filter_params\<close>\<close>

datatype pg_query = SelectOne | Nearest string string string nat "string list"

datatype row_metadata = Decoded metadata | Encoded json_text

record pg_row =
  rw_id :: string
  rw_doc :: string
  rw_text :: string
  rw_metadata :: row_metadata
  rw_score :: rat

record 'w postgres =
  pg_create_engine :: "string \<Rightarrow> unit result"
  pg_begin :: "string \<Rightarrow> pg_statement list \<Rightarrow> 'w \<Rightarrow> unit result \<times> 'w"
  pg_connect :: "string \<Rightarrow> pg_query \<Rightarrow> 'w \<Rightarrow> pg_row list result \<times> 'w"

section \<open>The store\<close>

record PgVectorStore =
  pgs_database_url :: string
  pgs_collection_name :: string
  pgs_dimension :: nat
  pgs_engine :: "string option" \<comment> \<open>what it connects to\<close>

definition new_pg_vector_store :: "string \<Rightarrow> string \<Rightarrow> nat \<Rightarrow> PgVectorStore result" where
  "new_pg_vector_store database_url collection_name dimension =
     (if database_url = []
      then Inl (vector_store_error (''PgVectorStore requires a non-empty database_url (set DATABASE_URL ''
             @ em_dash @ '' no default is provided, by design).''))
      else Inr \<lparr>pgs_database_url = database_url, pgs_collection_name = collection_name,
             pgs_dimension = dimension, pgs_engine = None\<rparr>)"

definition table_name :: "PgVectorStore \<Rightarrow> string" where
  "table_name self = ''vs_'' @ map (\<lambda>c. if is_word c then c else CHR ''_'') (pgs_collection_name self)"

definition ensure_engine :: "('w, 'z) postgres_scheme \<Rightarrow> PgVectorStore \<times> 'w \<Rightarrow> string result \<times> PgVectorStore \<times> 'w" where
  "ensure_engine db s =
     (case s of (self, w) \<Rightarrow>
        case pgs_engine self of
          Some engine \<Rightarrow> (Inr engine, self, w)
        | None \<Rightarrow>
            (case pg_create_engine db (pgs_database_url self) of
               Inl e \<Rightarrow> (Inl e, self, w)
             | Inr _ \<Rightarrow> (Inr (pgs_database_url self), self\<lparr>pgs_engine := Some (pgs_database_url self)\<rparr>, w)))"

text \<open>What the service does next to a store.\<close>

definition on_world :: "('w \<Rightarrow> 'a result \<times> 'w) \<Rightarrow> 'o \<times> 'w \<Rightarrow> 'a result \<times> 'o \<times> 'w" where
  "on_world f s = (case s of (self, w) \<Rightarrow> case f w of (r, w') \<Rightarrow> (r, self, w'))"

definition ensure_schema :: "('w, 'z) postgres_scheme \<Rightarrow> PgVectorStore \<times> 'w \<Rightarrow> unit result \<times> PgVectorStore \<times> 'w" where
  "ensure_schema db s =
     and_then (ensure_engine db s) (\<lambda>engine s.
       on_world (pg_begin db engine
         [CreateExtension, CreateTable (table_name (fst s)) (pgs_dimension (fst s))]) s)"

definition chunk_params :: "Chunk \<Rightarrow> pg_chunk" where
  "chunk_params c =
     \<lparr>pc_id = ck_id c, pc_doc = ck_doc c, pc_text = ck_text c,
      pc_metadata = JsonText (ck_metadata c), pc_embedding = vector_text (chunk_vector c)\<rparr>"

definition pg_add :: "('w, 'z) postgres_scheme \<Rightarrow> Chunk list \<Rightarrow> PgVectorStore \<times> 'w \<Rightarrow> unit result \<times> PgVectorStore \<times> 'w" where
  "pg_add db chunks s =
     (if chunks = [] then (Inr (), s)
      else if missing_embeddings chunks \<noteq> []
      then (Inl (vector_store_error (''Chunks missing embeddings: ''
              @ json_repr (JList (map JStr (missing_embeddings chunks))))), s)
      else and_then (ensure_engine db s) (\<lambda>engine s.
        or_vector_store_error ''pgvector add failed''
          (on_world (pg_begin db engine (map (\<lambda>c. Upsert (table_name (fst s)) (chunk_params c)) chunks)) s)))"

text \<open>\<open>metadata ->> 'key' = :filter_i\<close>, one condition per filter.\<close>

definition filter_condition :: "nat \<Rightarrow> string \<Rightarrow> string" where
  "filter_condition i key =
     ''metadata ->> '' @ [CHR 0x27] @ key @ [CHR 0x27] @ '' = :filter_'' @ show_nat i"

definition where_clause :: "string list \<Rightarrow> string" where
  "where_clause keys =
     (if keys = [] then []
      else ''WHERE '' @ join '' AND '' (map (\<lambda>(i, k). filter_condition i k) (enumerate 0 keys)))"

definition entries_of :: "metadata option \<Rightarrow> metadata" where
  "entries_of filters = (case filters of None \<Rightarrow> [] | Some fs \<Rightarrow> fs)"

definition row_chunk :: "nat \<Rightarrow> pg_row \<Rightarrow> metadata \<Rightarrow> Chunk" where
  "row_chunk rank row meta =
     \<lparr>ck_id = rw_id row, ck_doc = rw_doc row, ck_text = rw_text row, ck_metadata = meta,
      ck_embedding = None, ck_score = Some (rw_score row), ck_rank = Some rank\<rparr>"

definition decode_metadata :: "row_metadata \<Rightarrow> metadata" where
  "decode_metadata m = (case m of Decoded d \<Rightarrow> d | Encoded (JsonText d) \<Rightarrow> d)"

definition rows_chunks :: "pg_row list \<Rightarrow> Chunk list" where
  "rows_chunks rows = map (\<lambda>(rank, row). row_chunk rank row (decode_metadata (rw_metadata row))) (enumerate 1 rows)"

definition pg_search ::
  "('w, 'z) postgres_scheme \<Rightarrow> vector \<Rightarrow> nat \<Rightarrow> metadata option \<Rightarrow> PgVectorStore \<times> 'w
     \<Rightarrow> Chunk list result \<times> PgVectorStore \<times> 'w" where
  "pg_search db query_embedding top_k filters s =
     and_then (ensure_engine db s) (\<lambda>engine s.
       and_then
         (or_vector_store_error ''pgvector search failed''
           (on_world (pg_connect db engine
             (Nearest (table_name (fst s)) (where_clause (map fst (entries_of filters)))
                (vector_text query_embedding) top_k (map (json_str \<circ> snd) (entries_of filters)))) s))
         (\<lambda>rows s. (Inr (rows_chunks rows), s)))"

definition pg_delete_by_document ::
  "('w, 'z) postgres_scheme \<Rightarrow> string \<Rightarrow> PgVectorStore \<times> 'w \<Rightarrow> unit result \<times> PgVectorStore \<times> 'w" where
  "pg_delete_by_document db doc_id s =
     and_then (ensure_engine db s) (\<lambda>engine s.
       or_vector_store_error ''pgvector delete_by_document failed''
         (on_world (pg_begin db engine [DeleteDoc (table_name (fst s)) doc_id]) s))"

definition pg_clear :: "('w, 'z) postgres_scheme \<Rightarrow> PgVectorStore \<times> 'w \<Rightarrow> unit result \<times> PgVectorStore \<times> 'w" where
  "pg_clear db s =
     and_then (ensure_engine db s) (\<lambda>engine s.
       or_vector_store_error ''pgvector clear failed''
         (on_world (pg_begin db engine [Truncate (table_name (fst s))]) s))"

definition pg_health_check :: "('w, 'z) postgres_scheme \<Rightarrow> PgVectorStore \<times> 'w \<Rightarrow> HealthStatus \<times> PgVectorStore \<times> 'w" where
  "pg_health_check db s =
     (case and_then (ensure_engine db s) (\<lambda>engine s. on_world (pg_connect db engine SelectOne) s) of
        (Inr _, s') \<Rightarrow>
          (\<lparr>hs_healthy = True, hs_backend = ''pgvector'',
             hs_detail = ''connected, collection table '' @ [CHR 0x27] @ table_name (fst s') @ [CHR 0x27]\<rparr>, s')
      | (Inl e, s') \<Rightarrow> (\<lparr>hs_healthy = False, hs_backend = ''pgvector'', hs_detail = err_msg e\<rparr>, s'))"

section \<open>What PostgreSQL and pgvector document\<close>

text \<open>How the statements are explained: the tables of a database by name (the dimension of the column and the
  rows by primary key), the value of a JSON text stored as \<open>jsonb\<close>, the text \<open>->>\<close> gives of a value, and
  the cosine distance \<open><=>\<close> of two vectors given as texts. Only the hypotheses speak of it.\<close>

record 'w documented_postgres = "'w postgres" +
  pv_table :: "string \<Rightarrow> 'w \<Rightarrow> string \<Rightarrow> (nat \<times> (string \<rightharpoonup> pg_chunk)) option"
  pv_jsonb :: "json_text \<Rightarrow> metadata"
  pv_text :: "json \<Rightarrow> string option"
  pv_distance :: "string \<Rightarrow> string \<Rightarrow> rat"

text \<open>Text and \<open>jsonb\<close> cannot hold the character 0; \<open>jsonb\<close> keeps neither the form of a number with a
  fraction nor the order of the keys of an object.\<close>

primrec jsonb_exact :: "json \<Rightarrow> bool" where
  "jsonb_exact JNull = True"
| "jsonb_exact (JBool b) = True"
| "jsonb_exact (JInt i) = True"
| "jsonb_exact (JFloat x) = False"
| "jsonb_exact (JStr s) = no_nul s"
| "jsonb_exact (JList vs) = list_all id (map jsonb_exact vs)"
| "jsonb_exact (JObj kvs) = False"

definition exact_metadata :: "metadata \<Rightarrow> bool" where
  "exact_metadata m =
     (distinct (map fst m) \<and> list_all (\<lambda>(k, v). no_nul k \<and> jsonb_exact v) m)"

definition row_fits :: "nat \<Rightarrow> pg_chunk \<Rightarrow> bool" where
  "row_fits n c =
     (no_nul (pc_id c) \<and> no_nul (pc_doc c) \<and> no_nul (pc_text c)
      \<and> (\<exists>m. exact_metadata m \<and> pc_metadata c = JsonText m)
      \<and> (\<exists>v. usable_vector n v \<and> pc_embedding c = vector_text v))"

definition upsert_rows :: "pg_chunk list \<Rightarrow> (string \<rightharpoonup> pg_chunk) \<Rightarrow> string \<rightharpoonup> pg_chunk" where
  "upsert_rows cs rows = fold (\<lambda>c m. m(pc_id c \<mapsto> c)) cs rows"

definition rows_without :: "string \<Rightarrow> (string \<rightharpoonup> pg_chunk) \<Rightarrow> string \<rightharpoonup> pg_chunk" where
  "rows_without d rows i = (case rows i of None \<Rightarrow> None | Some c \<Rightarrow> if pc_doc c = d then None else Some c)"

definition row_selected :: "'w documented_postgres \<Rightarrow> string list \<Rightarrow> string list \<Rightarrow> pg_chunk \<Rightarrow> bool" where
  "row_selected db keys params c =
     list_all2 (\<lambda>k p. Option.bind (map_of (pv_jsonb db (pc_metadata c)) k) (pv_text db) = Some p) keys params"

text \<open>The rows of \<open>SELECT ... WHERE ... ORDER BY embedding <=> q LIMIT k\<close>.\<close>

definition row_answers ::
  "'w documented_postgres \<Rightarrow> (string \<rightharpoonup> pg_chunk) \<Rightarrow> string \<Rightarrow> string list \<Rightarrow> string list \<Rightarrow> pg_row \<Rightarrow> bool" where
  "row_answers db rows q keys params r =
     (case rows (rw_id r) of
        None \<Rightarrow> False
      | Some c \<Rightarrow> row_selected db keys params c \<and> rw_doc r = pc_doc c \<and> rw_text r = pc_text c
          \<and> rw_metadata r = Decoded (pv_jsonb db (pc_metadata c))
          \<and> rw_score r = fsub 1 (pv_distance db q (pc_embedding c)))"

definition nearest_rows ::
  "'w documented_postgres \<Rightarrow> (string \<rightharpoonup> pg_chunk) \<Rightarrow> string \<Rightarrow> nat \<Rightarrow> string list \<Rightarrow> string list \<Rightarrow> pg_row list \<Rightarrow> bool" where
  "nearest_rows db rows q k keys params answer =
     (length answer \<le> k \<and> distinct (map rw_id answer) \<and> list_all (row_answers db rows q keys params) answer
      \<and> sorted_wrt (\<lambda>a b. rw_score b \<le> rw_score a) answer
      \<and> (\<forall>i c. rows i = Some c \<and> row_selected db keys params c \<and> i \<notin> rw_id ` set answer \<longrightarrow>
           length answer = k \<and> (\<forall>r \<in> set answer. fsub 1 (pv_distance db q (pc_embedding c)) \<le> rw_score r)))"

text \<open>A filter key that is a name needs no escaping in the text of a statement.\<close>

definition plain_key :: "string \<Rightarrow> bool" where
  "plain_key k = (k \<noteq> [] \<and> list_all is_word k)"

definition upsert_documented :: "'w documented_postgres \<Rightarrow> string \<Rightarrow> bool" where
  "upsert_documented db url =
     (\<forall>t n rows cs w. pv_table db url w t = Some (n, rows) \<and> list_all (row_fits n) cs \<longrightarrow>
        (\<exists>w'. pg_begin db url (map (Upsert t) cs) w = (Inr (), w')
           \<and> pv_table db url w' t = Some (n, upsert_rows cs rows)))"

definition delete_documented :: "'w documented_postgres \<Rightarrow> string \<Rightarrow> bool" where
  "delete_documented db url =
     (\<forall>t n rows d w. pv_table db url w t = Some (n, rows) \<and> no_nul d \<longrightarrow>
        (\<exists>w'. pg_begin db url [DeleteDoc t d] w = (Inr (), w') \<and> pv_table db url w' t = Some (n, rows_without d rows)))"

definition truncate_documented :: "'w documented_postgres \<Rightarrow> string \<Rightarrow> bool" where
  "truncate_documented db url =
     (\<forall>t n rows w. pv_table db url w t = Some (n, rows) \<longrightarrow>
        (\<exists>w'. pg_begin db url [Truncate t] w = (Inr (), w') \<and> pv_table db url w' t = Some (n, Map.empty)))"

definition select_documented :: "'w documented_postgres \<Rightarrow> string \<Rightarrow> bool" where
  "select_documented db url =
     (\<forall>t n rows q k keys params w. pv_table db url w t = Some (n, rows) \<and> usable_vector n q
          \<and> distinct keys \<and> list_all plain_key keys \<and> length keys = length params \<and> list_all no_nul params \<longrightarrow>
        (\<exists>answer w'. pg_connect db url (Nearest t (where_clause keys) (vector_text q) k params) w = (Inr answer, w')
           \<and> pv_table db url w' t = Some (n, rows)
           \<and> nearest_rows db rows (vector_text q) k keys params answer))"

definition schema_documented :: "'w documented_postgres \<Rightarrow> string \<Rightarrow> bool" where
  "schema_documented db url =
     (\<forall>t n w. \<exists>w'. pg_begin db url [CreateExtension, CreateTable t n] w = (Inr (), w')
        \<and> pv_table db url w' t = Some (case pv_table db url w t of None \<Rightarrow> (n, Map.empty) | Some held \<Rightarrow> held))"

definition jsonb_documented :: "'w documented_postgres \<Rightarrow> bool" where
  "jsonb_documented db = (\<forall>m. exact_metadata m \<longrightarrow> map_of (pv_jsonb db (JsonText m)) = map_of m)"

definition postgres_ok :: "'w documented_postgres \<Rightarrow> string \<Rightarrow> bool" where
  "postgres_ok db url =
     (pg_create_engine db url = Inr () \<and> schema_documented db url \<and> upsert_documented db url
      \<and> delete_documented db url \<and> truncate_documented db url \<and> select_documented db url \<and> jsonb_documented db)"

section \<open>The store implements the contract\<close>

definition pg_stored :: "'w documented_postgres \<Rightarrow> pg_chunk \<Rightarrow> string stored" where
  "pg_stored db c =
     \<lparr>sd_doc = pc_doc c, sd_text = pc_text c, sd_metadata = map_of (pv_jsonb db (pc_metadata c)),
      sd_vector = pc_embedding c\<rparr>"

definition pg_holds :: "'w documented_postgres \<Rightarrow> PgVectorStore \<times> 'w \<Rightarrow> string \<rightharpoonup> string stored" where
  "pg_holds db s i =
     (case pv_table db (pgs_database_url (fst s)) (snd s) (table_name (fst s)) of
        None \<Rightarrow> None
      | Some (n, rows) \<Rightarrow> map_option (pg_stored db) (rows i))"

definition pg_kept :: "Chunk \<Rightarrow> string stored" where
  "pg_kept c =
     \<lparr>sd_doc = ck_doc c, sd_text = ck_text c, sd_metadata = map_of (ck_metadata c),
      sd_vector = vector_text (chunk_vector c)\<rparr>"

definition pg_storable :: "nat \<Rightarrow> Chunk \<Rightarrow> bool" where
  "pg_storable n c =
     (no_nul (ck_id c) \<and> no_nul (ck_doc c) \<and> no_nul (ck_text c) \<and> exact_metadata (ck_metadata c)
      \<and> ck_embedding c \<noteq> None \<and> usable_vector n (chunk_vector c))"

definition pg_askable :: "metadata option \<Rightarrow> bool" where
  "pg_askable filters =
     (distinct (map fst (entries_of filters)) \<and> list_all (\<lambda>(k, v). plain_key k \<and> no_nul (json_str v)) (entries_of filters))"

definition pg_selects :: "'w documented_postgres \<Rightarrow> metadata option \<Rightarrow> string stored \<Rightarrow> bool" where
  "pg_selects db filters e =
     list_all (\<lambda>(k, v). Option.bind (sd_metadata e k) (pv_text db) = Some (json_str v)) (entries_of filters)"

definition pg_closeness :: "'w documented_postgres \<Rightarrow> vector \<Rightarrow> string \<Rightarrow> rat" where
  "pg_closeness db q v = fsub 1 (pv_distance db (vector_text q) v)"

text \<open>The documented behaviour, a schema in place, and an engine that is of the store's own database.\<close>

definition pg_ready :: "'w documented_postgres \<Rightarrow> nat \<Rightarrow> PgVectorStore \<times> 'w \<Rightarrow> bool" where
  "pg_ready db n s =
     (case s of (self, w) \<Rightarrow>
        postgres_ok db (pgs_database_url self)
        \<and> (pgs_engine self = None \<or> pgs_engine self = Some (pgs_database_url self))
        \<and> (\<exists>rows. pv_table db (pgs_database_url self) w (table_name self) = Some (n, rows)))"

section \<open>Proofs\<close>

lemma ready_engine:
  assumes "pg_ready db n (self, w)"
  shows "ensure_engine db (self, w)
    = (Inr (pgs_database_url self), self\<lparr>pgs_engine := Some (pgs_database_url self)\<rparr>, w)"
  using assms by (cases "pgs_engine self") (auto simp: pg_ready_def postgres_ok_def ensure_engine_def)

lemma table_name_engine [simp]: "table_name (self\<lparr>pgs_engine := e\<rparr>) = table_name self"
  by (simp add: table_name_def)

lemma pg_stored_params:
  assumes "postgres_ok db url" and "pg_storable n c"
  shows "pg_stored db (chunk_params c) = pg_kept c" and "row_fits n (chunk_params c)"
proof -
  have exact: "exact_metadata (ck_metadata c)" using assms(2) by (simp add: pg_storable_def)
  with assms(1) show "pg_stored db (chunk_params c) = pg_kept c"
    by (simp add: pg_stored_def pg_kept_def chunk_params_def postgres_ok_def jsonb_documented_def)
  show "row_fits n (chunk_params c)"
    using assms(2) exact by (auto simp: chunk_params_def pg_storable_def row_fits_def)
qed

lemma upsert_rows_stored:
  assumes "postgres_ok db url" and "list_all (pg_storable n) cs" and "distinct (map ck_id cs)"
  shows "(\<lambda>i. map_option (pg_stored db) (upsert_rows (map chunk_params cs) rows i))
    = put_all (\<lambda>i. map_option (pg_stored db) (rows i)) (map (\<lambda>c. (ck_id c, pg_kept c)) cs)"
  using assms(2,3)
proof (induction cs arbitrary: rows)
  case (Cons c cs)
  let ?held = "\<lambda>rows i. map_option (pg_stored db) (rows i)"
  have "?held (rows(ck_id c \<mapsto> chunk_params c)) = (?held rows)(ck_id c \<mapsto> pg_kept c)"
    using pg_stored_params(1) [OF assms(1)] Cons.prems(1) by (auto simp: fun_eq_iff)
  moreover have "ck_id c \<notin> dom (map_of (map (\<lambda>c. (ck_id c, pg_kept c)) cs))"
    using Cons.prems(2) by (auto simp: dom_map_of_conv_image_fst)
  moreover have "pc_id (chunk_params c) = ck_id c" by (simp add: chunk_params_def)
  ultimately show ?case
    using Cons.IH [of "rows(ck_id c \<mapsto> chunk_params c)"] Cons.prems
    by (simp add: upsert_rows_def put_all_def map_add_upd_left del: fun_upd_apply)
qed (simp add: upsert_rows_def put_all_def)

lemma no_missing: "list_all (pg_storable n) cs \<Longrightarrow> missing_embeddings cs = []"
  by (auto simp: missing_embeddings_def pg_storable_def list_all_iff filter_empty_conv)

lemma pg_holds_eq:
  "pv_table db (pgs_database_url self) w (table_name self) = Some (n, rows) \<Longrightarrow>
     pg_holds db (self, w) = (\<lambda>i. map_option (pg_stored db) (rows i))"
  by (simp add: pg_holds_def fun_eq_iff)

lemma pg_ready_next:
  assumes "pg_ready db n (self, w)" and "pv_table db (pgs_database_url self) w' (table_name self) = Some (n, rows)"
  shows "pg_ready db n (self\<lparr>pgs_engine := Some (pgs_database_url self)\<rparr>, w')"
    and "pg_holds db (self\<lparr>pgs_engine := e\<rparr>, w') = (\<lambda>i. map_option (pg_stored db) (rows i))"
  using assms by (auto simp: pg_ready_def pg_holds_def)

lemma pg_add_stores:
  assumes "pg_ready db n s" and "admissible (pg_storable n) pg_kept (pg_holds db s) (Add cs)"
  shows "\<exists>s'. pg_add db cs s = (Inr (), s') \<and> pg_ready db n s' \<and> pg_holds db s' = held_after pg_kept (Add cs) (pg_holds db s)"
proof (cases "cs = []")
  case False
  obtain self w where s: "s = (self, w)" by (cases s)
  let ?url = "pgs_database_url self" and ?t = "table_name self"
  from assms(1) s obtain rows where rows: "pv_table db ?url w ?t = Some (n, rows)" and ok: "postgres_ok db ?url"
    by (auto simp: pg_ready_def)
  from assms(2) have cs: "list_all (pg_storable n) cs" "distinct (map ck_id cs)" by simp_all
  then have "list_all (row_fits n) (map chunk_params cs)"
    using pg_stored_params(2) [OF ok] by (auto simp: list_all_iff)
  with ok rows obtain w' where w': "pg_begin db ?url (map (Upsert ?t) (map chunk_params cs)) w = (Inr (), w')"
    "pv_table db ?url w' ?t = Some (n, upsert_rows (map chunk_params cs) rows)"
    unfolding postgres_ok_def upsert_documented_def by blast
  have "pg_add db cs s = (Inr (), self\<lparr>pgs_engine := Some ?url\<rparr>, w')"
    using False w'(1) no_missing [OF cs(1)] ready_engine [OF assms(1) [unfolded s]]
    by (simp add: pg_add_def s on_world_def comp_def)
  moreover have "pg_holds db s = (\<lambda>i. map_option (pg_stored db) (rows i))"
    using rows by (simp add: pg_holds_eq s)
  ultimately show ?thesis
    using pg_ready_next [OF assms(1) [unfolded s] w'(2)] upsert_rows_stored [OF ok cs] by simp
qed (use assms in \<open>simp add: pg_add_def put_all_def\<close>)

lemma rows_without_stored:
  "(\<lambda>i. map_option (pg_stored db) (rows_without d rows i)) = without_document d (\<lambda>i. map_option (pg_stored db) (rows i))"
  by (auto simp: fun_eq_iff rows_without_def without_document_def pg_stored_def split: option.splits)

lemma pg_delete_removes:
  assumes "pg_ready db n s" and "no_nul d"
  shows "\<exists>s'. pg_delete_by_document db d s = (Inr (), s') \<and> pg_ready db n s' \<and> pg_holds db s' = without_document d (pg_holds db s)"
proof -
  obtain self w where s: "s = (self, w)" by (cases s)
  let ?url = "pgs_database_url self" and ?t = "table_name self"
  from assms(1) s obtain rows where rows: "pv_table db ?url w ?t = Some (n, rows)" and ok: "postgres_ok db ?url"
    by (auto simp: pg_ready_def)
  with assms(2) obtain w' where w': "pg_begin db ?url [DeleteDoc ?t d] w = (Inr (), w')"
    "pv_table db ?url w' ?t = Some (n, rows_without d rows)"
    unfolding postgres_ok_def delete_documented_def by blast
  have "pg_holds db s = (\<lambda>i. map_option (pg_stored db) (rows i))" using rows by (simp add: pg_holds_eq s)
  then show ?thesis
    using pg_ready_next [OF assms(1) [unfolded s] w'(2)] w'(1) ready_engine [OF assms(1) [unfolded s]]
    by (simp add: pg_delete_by_document_def s on_world_def rows_without_stored)
qed

lemma pg_clear_empties:
  assumes "pg_ready db n s"
  shows "\<exists>s'. pg_clear db s = (Inr (), s') \<and> pg_ready db n s' \<and> pg_holds db s' = Map.empty"
proof -
  obtain self w where s: "s = (self, w)" by (cases s)
  let ?url = "pgs_database_url self" and ?t = "table_name self"
  from assms(1) s obtain rows where rows: "pv_table db ?url w ?t = Some (n, rows)" and ok: "postgres_ok db ?url"
    by (auto simp: pg_ready_def)
  then obtain w' where w': "pg_begin db ?url [Truncate ?t] w = (Inr (), w')"
    "pv_table db ?url w' ?t = Some (n, Map.empty)"
    unfolding postgres_ok_def truncate_documented_def by blast
  then show ?thesis
    using pg_ready_next [OF assms(1) [unfolded s] w'(2)] w'(1) ready_engine [OF assms(1) [unfolded s]]
    by (simp add: pg_clear_def s on_world_def)
qed

text \<open>The rows of an answer as chunks.\<close>

definition row_becomes :: "pg_row \<Rightarrow> Chunk \<Rightarrow> bool" where
  "row_becomes r c =
     (ck_id c = rw_id r \<and> ck_doc c = rw_doc r \<and> ck_text c = rw_text r
      \<and> rw_metadata r = Decoded (ck_metadata c) \<and> ck_score c = Some (rw_score r))"

lemma rows_chunks_decoded:
  assumes "\<forall>r \<in> set rows. \<exists>m. rw_metadata r = Decoded m"
  shows "list_all2 row_becomes rows (rows_chunks rows)"
    and "map ck_rank (rows_chunks rows) = map Some [1..<1 + length rows]"
proof -
  have "row_becomes r (row_chunk i r (decode_metadata (rw_metadata r)))" if "r \<in> set rows" for r i
    using assms that by (force simp: row_becomes_def row_chunk_def decode_metadata_def)
  then show "list_all2 row_becomes rows (rows_chunks rows)"
    by (simp add: rows_chunks_def list_all2_conv_all_nth nth_enumerate_eq)
  have "map ck_rank (rows_chunks rows) = map Some (map fst (enumerate 1 rows))"
    by (simp add: rows_chunks_def row_chunk_def comp_def split_beta del: map_fst_enumerate)
  then show "map ck_rank (rows_chunks rows) = map Some [1..<1 + length rows]" by simp
qed

lemma row_becomes_map:
  assumes "list_all2 row_becomes rows cs"
  shows "map ck_id cs = map rw_id rows" and "map ck_score cs = map (Some \<circ> rw_score) rows"
  using assms by (induction rows cs rule: list_all2_induct) (auto simp: row_becomes_def)

lemma row_selected_iff:
  "row_selected db (map fst (entries_of filters)) (map (json_str \<circ> snd) (entries_of filters)) c
     \<longleftrightarrow> pg_selects db filters (pg_stored db c)"
  by (simp add: row_selected_def pg_selects_def pg_stored_def list_all2_map1 list_all2_map2 list_all2_same
      list_all_iff split_beta)

lemma row_answer_is_hit:
  assumes "row_answers db rows (vector_text q) (map fst (entries_of filters)) (map (json_str \<circ> snd) (entries_of filters)) r"
    and "row_becomes r c"
  shows "is_hit (\<lambda>i. map_option (pg_stored db) (rows i)) (pg_closeness db q) (pg_selects db filters) c"
proof -
  obtain row where row: "rows (rw_id r) = Some row" using assms(1) by (auto simp: row_answers_def split: option.splits)
  with assms(1) have "pg_selects db filters (pg_stored db row)" by (simp add: row_answers_def row_selected_iff)
  with assms row show ?thesis
    by (simp add: row_answers_def row_becomes_def is_hit_def pg_stored_def pg_closeness_def)
qed

lemma pg_stored_vector [simp]: "sd_vector (pg_stored db c) = pc_embedding c"
  by (simp add: pg_stored_def)

lemma nearest_rows_retrieved:
  assumes near: "nearest_rows db rows (vector_text q) k (map fst (entries_of filters))
      (map (json_str \<circ> snd) (entries_of filters)) answer"
    and becomes: "list_all2 row_becomes answer hits" and ranks: "map ck_rank hits = map Some [1..<1 + length answer]"
  shows "retrieved (\<lambda>i. map_option (pg_stored db) (rows i)) (pg_closeness db q) (pg_selects db filters) k hits"
    and "misses_nothing (\<lambda>i. map_option (pg_stored db) (rows i)) (pg_closeness db q) (pg_selects db filters) k hits"
proof -
  note ids = row_becomes_map(1) [OF becomes] and scores = row_becomes_map(2) [OF becomes]
  have len: "length hits = length answer" using becomes by (simp add: list_all2_lengthD)
  have "sorted_wrt (\<lambda>a b. the b \<le> the a) (map ck_score hits)"
    using near by (simp add: scores nearest_rows_def sorted_wrt_map)
  moreover have "list_all (is_hit (\<lambda>i. map_option (pg_stored db) (rows i)) (pg_closeness db q) (pg_selects db filters)) hits"
    using becomes near row_answer_is_hit by (fastforce simp: list_all_length list_all2_conv_all_nth nearest_rows_def)
  ultimately show "retrieved (\<lambda>i. map_option (pg_stored db) (rows i)) (pg_closeness db q) (pg_selects db filters) k hits"
    using near ids ranks len by (simp add: retrieved_def nearest_rows_def sorted_wrt_map)
  have "ck_id ` set hits = rw_id ` set answer" by (metis ids set_map)
  moreover have "\<exists>r \<in> set answer. the (ck_score c) = rw_score r" if "c \<in> set hits" for c
  proof -
    from that have "ck_score c \<in> set (map ck_score hits)" by simp
    then show ?thesis unfolding scores by auto
  qed
  ultimately show "misses_nothing (\<lambda>i. map_option (pg_stored db) (rows i)) (pg_closeness db q) (pg_selects db filters) k hits"
    using near len unfolding misses_nothing_def nearest_rows_def row_selected_iff
    by (fastforce simp: pg_closeness_def)
qed

lemma pg_search_finds:
  assumes "pg_ready db n s" and "usable_vector n q" and "pg_askable filters"
  shows "\<exists>hits s'. pg_search db q k filters s = (Inr hits, s') \<and> pg_ready db n s' \<and> pg_holds db s' = pg_holds db s
    \<and> retrieved (pg_holds db s) (pg_closeness db q) (pg_selects db filters) k hits
    \<and> misses_nothing (pg_holds db s) (pg_closeness db q) (pg_selects db filters) k hits"
proof -
  obtain self w where s: "s = (self, w)" by (cases s)
  let ?url = "pgs_database_url self" and ?t = "table_name self"
  let ?keys = "map fst (entries_of filters)" and ?params = "map (json_str \<circ> snd) (entries_of filters)"
  from assms(1) s obtain rows where rows: "pv_table db ?url w ?t = Some (n, rows)" and ok: "postgres_ok db ?url"
    by (auto simp: pg_ready_def)
  have "distinct ?keys" "list_all plain_key ?keys" "length ?keys = length ?params" "list_all no_nul ?params"
    using assms(3) by (auto simp: pg_askable_def list_all_iff)
  with ok rows assms(2) obtain answer w' where
    w': "pg_connect db ?url (Nearest ?t (where_clause ?keys) (vector_text q) k ?params) w = (Inr answer, w')"
    "pv_table db ?url w' ?t = Some (n, rows)" "nearest_rows db rows (vector_text q) k ?keys ?params answer"
    unfolding postgres_ok_def select_documented_def by blast
  from w'(3) have "\<forall>r \<in> set answer. \<exists>m. rw_metadata r = Decoded m"
    by (auto simp: nearest_rows_def list_all_iff row_answers_def split: option.splits)
  note hits = rows_chunks_decoded [OF this]
  have "pg_search db q k filters s = (Inr (rows_chunks answer), self\<lparr>pgs_engine := Some ?url\<rparr>, w')"
    using w'(1) ready_engine [OF assms(1) [unfolded s]] by (simp add: pg_search_def s on_world_def)
  then show ?thesis
    using pg_ready_next [OF assms(1) [unfolded s] w'(2)] nearest_rows_retrieved [OF w'(3) hits] rows
    by (simp add: s pg_holds_eq)
qed

interpretation pgvector: exact_vector_store pg_add pg_search pg_delete_by_document pg_clear
  pg_ready pg_holds pg_kept pg_storable pg_askable pg_selects pg_closeness
proof unfold_locales
  show "\<exists>hits s'. pg_search p q k filters s = (Inr hits, s') \<and> pg_ready p n s' \<and> pg_holds p s' = pg_holds p s
      \<and> retrieved (pg_holds p s) (pg_closeness p q) (pg_selects p filters) k hits"
    if "pg_ready p n s" "usable_vector n q" "0 < k" "pg_askable filters" for p :: "'a documented_postgres" and n s q k filters
    using pg_search_finds that by blast
  show "misses_nothing (pg_holds p s) (pg_closeness p q) (pg_selects p filters) k hits"
    if "pg_ready p n s" "usable_vector n q" "pg_askable filters" "pg_search p q k filters s = (Inr hits, s')"
    for p :: "'a documented_postgres" and n s q k filters hits s'
    using pg_search_finds [OF that(1-3), of k] that(4) by auto
qed (use pg_add_stores pg_delete_removes pg_clear_empties in blast)+

end
