(* ===== verification/Chroma.thy ===== *)
theory Chroma
  imports PgVector "HOL-Library.AList"
begin

text \<open>
  \<^verbatim>\<open>rag/vectorstores/chroma_store.py\<close>. The package chromadb and the directory it persists in are the
  parameter \<open>chromadb\<close>; a client stands for the directory it was opened on, a collection for its client
  and its name. \<open>chroma_ok\<close> is what Chroma documents of the calls. Its search is approximate: nothing says
  that it misses no chunk.
\<close>

section \<open>Calls\<close>

record ch_entry =
  ce_id :: string
  ce_embedding :: vector
  ce_document :: string
  ce_metadata :: metadata

text \<open>The result of a query: for each query vector a list.\<close>

record ch_results =
  cr_ids :: "string list list option"
  cr_documents :: "string list list option"
  cr_metadatas :: "metadata list list option"
  cr_distances :: "rat list list option"

record 'w chromadb =
  ch_import :: "unit result"
  ch_makedirs :: "string \<Rightarrow> 'w \<Rightarrow> unit result \<times> 'w"
  ch_persistent_client :: "string \<Rightarrow> 'w \<Rightarrow> unit result \<times> 'w"
  ch_get_or_create_collection :: "string \<Rightarrow> string \<Rightarrow> 'w \<Rightarrow> unit result \<times> 'w"
  ch_delete_collection :: "string \<Rightarrow> string \<Rightarrow> 'w \<Rightarrow> unit result \<times> 'w"
  ch_upsert :: "string \<Rightarrow> string \<Rightarrow> ch_entry list \<Rightarrow> 'w \<Rightarrow> unit result \<times> 'w"
  ch_count :: "string \<Rightarrow> string \<Rightarrow> 'w \<Rightarrow> nat result \<times> 'w"
  ch_query :: "string \<Rightarrow> string \<Rightarrow> vector \<Rightarrow> nat \<Rightarrow> metadata option \<Rightarrow> 'w \<Rightarrow> ch_results result \<times> 'w"
  ch_delete :: "string \<Rightarrow> string \<Rightarrow> metadata \<Rightarrow> 'w \<Rightarrow> unit result \<times> 'w"

section \<open>The store\<close>

record ChromaVectorStore =
  cs_persist_directory :: string
  cs_collection_name :: string
  cs_client :: "string option"
  cs_collection :: "(string \<times> string) option"

definition new_chroma_vector_store :: "string \<Rightarrow> string \<Rightarrow> ChromaVectorStore" where
  "new_chroma_vector_store persist_directory collection_name =
     \<lparr>cs_persist_directory = persist_directory, cs_collection_name = collection_name,
      cs_client = None, cs_collection = None\<rparr>"

definition quoted :: "string \<Rightarrow> string" where
  "quoted s = [CHR 0x27] @ s @ [CHR 0x27]"

definition ensure_client ::
  "('w, 'z) chromadb_scheme \<Rightarrow> ChromaVectorStore \<times> 'w \<Rightarrow> string result \<times> ChromaVectorStore \<times> 'w" where
  "ensure_client ch s =
     (case s of (self, w) \<Rightarrow>
        case cs_client self of
          Some client \<Rightarrow> (Inr client, self, w)
        | None \<Rightarrow>
            (case ch_import ch of
               Inl _ \<Rightarrow> (Inl (vector_store_error (''chromadb package is required for ChromaVectorStore. ''
                         @ ''Install it with: pip install chromadb'')), self, w)
             | Inr _ \<Rightarrow>
                 and_then (on_world (ch_makedirs ch (cs_persist_directory self)) (self, w)) (\<lambda>_ s.
                   and_then
                     (or_vector_store_error
                       (''Failed to create ChromaDB client at '' @ quoted (cs_persist_directory self))
                       (on_world (ch_persistent_client ch (cs_persist_directory self)) s))
                     (\<lambda>_ (self, w).
                        (Inr (cs_persist_directory self),
                         self\<lparr>cs_client := Some (cs_persist_directory self)\<rparr>, w)))))"

definition get_collection ::
  "('w, 'z) chromadb_scheme \<Rightarrow> ChromaVectorStore \<times> 'w \<Rightarrow> (string \<times> string) result \<times> ChromaVectorStore \<times> 'w" where
  "get_collection ch s =
     (case cs_collection (fst s) of
        Some collection \<Rightarrow> (Inr collection, s)
      | None \<Rightarrow>
          and_then (ensure_client ch s) (\<lambda>client s.
            and_then
              (or_vector_store_error
                (''Failed to get/create ChromaDB collection '' @ quoted (cs_collection_name (fst s)))
                (on_world (ch_get_or_create_collection ch client (cs_collection_name (fst s))) s))
              (\<lambda>_ (self, w).
                 let collection = (client, cs_collection_name self)
                 in (Inr collection, self\<lparr>cs_collection := Some collection\<rparr>, w))))"

text \<open>A dictionary with the chunk's document first, into which the metadata is written entry by entry.\<close>

definition scalar :: "json \<Rightarrow> bool" where
  "scalar v = (case v of JStr _ \<Rightarrow> True | JInt _ \<Rightarrow> True | JFloat _ \<Rightarrow> True | JBool _ \<Rightarrow> True | _ \<Rightarrow> False)"

definition put_metadata :: "string \<times> json \<Rightarrow> metadata \<Rightarrow> metadata" where
  "put_metadata entry meta =
     (case entry of (k, v) \<Rightarrow>
        if scalar v then AList.update k v meta
        else if v \<noteq> JNull then AList.update k (JStr (json_repr v)) meta
        else meta)"

definition build_chroma_metadata :: "Chunk \<Rightarrow> metadata" where
  "build_chroma_metadata c = fold put_metadata (ck_metadata c) [(''doc_id'', JStr (ck_doc c))]"

definition chroma_entry :: "Chunk \<Rightarrow> ch_entry" where
  "chroma_entry c =
     \<lparr>ce_id = ck_id c, ce_embedding = chunk_vector c, ce_document = ck_text c,
      ce_metadata = build_chroma_metadata c\<rparr>"

definition chroma_add ::
  "('w, 'z) chromadb_scheme \<Rightarrow> Chunk list \<Rightarrow> ChromaVectorStore \<times> 'w \<Rightarrow> unit result \<times> ChromaVectorStore \<times> 'w" where
  "chroma_add ch chunks s =
     (if chunks = [] then (Inr (), s)
      else if missing_embeddings chunks \<noteq> []
      then (Inl (vector_store_error (''Chunks missing embeddings: ''
              @ json_repr (JList (map JStr (missing_embeddings chunks))))), s)
      else and_then (get_collection ch s) (\<lambda>(client, name) s.
        or_vector_store_error ''ChromaDB add failed''
          (on_world (ch_upsert ch client name (map chroma_entry chunks)) s)))"

text \<open>\<open>results.get(key, [[]])[0]\<close>\<close>

definition first_list :: "'a list list option \<Rightarrow> 'a list result" where
  "first_list found =
     (case found of
        None \<Rightarrow> Inr []
      | Some [] \<Rightarrow> Inl (Err PyIndexError ''list index out of range'')
      | Some (xs # _) \<Rightarrow> Inr xs)"

text \<open>\<open>meta.pop("doc_id", "")\<close>: the value and the rest. A value that is not a string would be kept as it is; the
  model has its text.\<close>

definition pop_doc_id :: "metadata \<Rightarrow> string \<times> metadata" where
  "pop_doc_id meta =
     (case map_of meta ''doc_id'' of None \<Rightarrow> [] | Some v \<Rightarrow> json_str v, AList.delete ''doc_id'' meta)"

fun parsed_chunks :: "nat \<Rightarrow> string list \<Rightarrow> string list \<Rightarrow> metadata list \<Rightarrow> rat list \<Rightarrow> Chunk list" where
  "parsed_chunks rank (i # ids) (d # docs) (m # metas) (x # dists) =
     \<lparr>ck_id = i, ck_doc = fst (pop_doc_id m), ck_text = d, ck_metadata = snd (pop_doc_id m),
      ck_embedding = None, ck_score = Some (fsub 1 x), ck_rank = Some rank\<rparr>
     # parsed_chunks (Suc rank) ids docs metas dists"
| "parsed_chunks rank ids docs metas dists = []"

definition parse_results :: "ch_results \<Rightarrow> Chunk list result" where
  "parse_results results =
     rbind (first_list (cr_ids results)) (\<lambda>ids.
     rbind (first_list (cr_documents results)) (\<lambda>docs.
     rbind (first_list (cr_metadatas results)) (\<lambda>metas.
     rbind (first_list (cr_distances results)) (\<lambda>dists.
       Inr (parsed_chunks 1 ids docs metas dists)))))"

text \<open>\<open>filters or None\<close>\<close>

definition chroma_where :: "metadata option \<Rightarrow> metadata option" where
  "chroma_where filters = (if filters = Some [] then None else filters)"

definition chroma_search ::
  "('w, 'z) chromadb_scheme \<Rightarrow> vector \<Rightarrow> nat \<Rightarrow> metadata option \<Rightarrow> ChromaVectorStore \<times> 'w
     \<Rightarrow> Chunk list result \<times> ChromaVectorStore \<times> 'w" where
  "chroma_search ch query_embedding top_k filters s =
     and_then (get_collection ch s) (\<lambda>(client, name) s.
       and_then (or_vector_store_error ''ChromaDB count failed'' (on_world (ch_count ch client name) s))
         (\<lambda>n s.
            if n = 0 then (Inr [], s)
            else and_then
              (or_vector_store_error ''ChromaDB search failed''
                (on_world (ch_query ch client name query_embedding (min top_k n) (chroma_where filters)) s))
              (\<lambda>results s. (parse_results results, s))))"

definition chroma_delete_by_document ::
  "('w, 'z) chromadb_scheme \<Rightarrow> string \<Rightarrow> ChromaVectorStore \<times> 'w \<Rightarrow> unit result \<times> ChromaVectorStore \<times> 'w" where
  "chroma_delete_by_document ch doc_id s =
     and_then (get_collection ch s) (\<lambda>(client, name) s.
       or_vector_store_error ''ChromaDB delete_by_document failed''
         (on_world (ch_delete ch client name [(''doc_id'', JStr doc_id)]) s))"

text \<open>Whatever deleting the collection raised is passed over.\<close>

definition chroma_clear ::
  "('w, 'z) chromadb_scheme \<Rightarrow> ChromaVectorStore \<times> 'w \<Rightarrow> unit result \<times> ChromaVectorStore \<times> 'w" where
  "chroma_clear ch s =
     and_then (ensure_client ch s) (\<lambda>client s.
       case on_world (ch_delete_collection ch client (cs_collection_name (fst s))) s of
         (_, self, w) \<Rightarrow> (Inr (), self\<lparr>cs_collection := None\<rparr>, w))"

definition chroma_health_check ::
  "('w, 'z) chromadb_scheme \<Rightarrow> ChromaVectorStore \<times> 'w \<Rightarrow> HealthStatus \<times> ChromaVectorStore \<times> 'w" where
  "chroma_health_check ch s =
     (case and_then (get_collection ch s) (\<lambda>(client, name) s. on_world (ch_count ch client name) s) of
        (Inr n, s') \<Rightarrow>
          (\<lparr>hs_healthy = True, hs_backend = ''chroma'',
             hs_detail = ''collection '' @ quoted (cs_collection_name (fst s')) @ '' reachable, ''
               @ show_nat n @ '' chunks''\<rparr>, s')
      | (Inl e, s') \<Rightarrow> (\<lparr>hs_healthy = False, hs_backend = ''chroma'', hs_detail = err_msg e\<rparr>, s'))"

section \<open>What Chroma documents\<close>

text \<open>How the calls are explained: the collections of a directory, and the cosine distance. Only the
  hypotheses speak of it.\<close>

record 'w documented_chromadb = "'w chromadb" +
  cv_collection :: "string \<Rightarrow> 'w \<Rightarrow> string \<Rightarrow> (string \<rightharpoonup> ch_entry) option"
  cv_distance :: "vector \<Rightarrow> vector \<Rightarrow> rat"

definition exact_scalar :: "json \<Rightarrow> bool" where
  "exact_scalar v =
     (case v of JStr s \<Rightarrow> no_nul s | JInt i \<Rightarrow> - (2 ^ 63) \<le> i \<and> i < 2 ^ 63 | JFloat _ \<Rightarrow> True | JBool _ \<Rightarrow> True
      | _ \<Rightarrow> False)"

definition metadata_key :: "string \<Rightarrow> bool" where
  "metadata_key k = (k \<noteq> [] \<and> no_nul k \<and> \<not> startswith k ''chroma:'')"

definition entry_fits :: "nat \<Rightarrow> ch_entry \<Rightarrow> bool" where
  "entry_fits n e =
     (ce_id e \<noteq> [] \<and> no_nul (ce_id e) \<and> no_nul (ce_document e) \<and> usable_vector n (ce_embedding e)
      \<and> ce_metadata e \<noteq> [] \<and> distinct (map fst (ce_metadata e))
      \<and> list_all (\<lambda>(k, v). metadata_key k \<and> exact_scalar v) (ce_metadata e))"

definition collection_fits :: "nat \<Rightarrow> (string \<rightharpoonup> ch_entry) \<Rightarrow> bool" where
  "collection_fits n held =
     (finite (dom held) \<and> (\<forall>i e. held i = Some e \<longrightarrow> ce_id e = i \<and> entry_fits n e))"

definition collection_name_ok :: "string \<Rightarrow> bool" where
  "collection_name_ok name =
     (3 \<le> length name \<and> length name \<le> 63
      \<and> list_all (\<lambda>c. is_digit c \<or> is_ascii_lower c \<or> is_ascii_upper c \<or> c \<in> set ''._-'') name
      \<and> hd name \<notin> set ''._-'' \<and> last name \<notin> set ''._-'')"

definition open_documented :: "'w documented_chromadb \<Rightarrow> string \<Rightarrow> bool" where
  "open_documented ch path =
     (ch_import ch = Inr ()
      \<and> (\<forall>w. \<exists>w'. ch_makedirs ch path w = (Inr (), w') \<and> cv_collection ch path w' = cv_collection ch path w)
      \<and> (\<forall>w. \<exists>w'. ch_persistent_client ch path w = (Inr (), w') \<and> cv_collection ch path w' = cv_collection ch path w))"

definition create_documented :: "'w documented_chromadb \<Rightarrow> string \<Rightarrow> bool" where
  "create_documented ch path =
     (\<forall>name w. collection_name_ok name \<longrightarrow>
        (\<exists>w'. ch_get_or_create_collection ch path name w = (Inr (), w')
           \<and> cv_collection ch path w' name
             = Some (case cv_collection ch path w name of None \<Rightarrow> Map.empty | Some held \<Rightarrow> held)))"

definition upsert_keeps_keys :: "(string \<rightharpoonup> ch_entry) \<Rightarrow> ch_entry \<Rightarrow> bool" where
  "upsert_keeps_keys held e =
     (case held (ce_id e) of
        None \<Rightarrow> True
      | Some e' \<Rightarrow> dom (map_of (ce_metadata e')) = dom (map_of (ce_metadata e)))"

definition chroma_upsert_documented :: "'w documented_chromadb \<Rightarrow> string \<Rightarrow> bool" where
  "chroma_upsert_documented ch path =
     (\<forall>n name held es w. cv_collection ch path w name = Some held \<and> collection_fits n held \<and> es \<noteq> []
          \<and> list_all (entry_fits n) es \<and> distinct (map ce_id es) \<and> list_all (upsert_keeps_keys held) es \<longrightarrow>
        (\<exists>w'. ch_upsert ch path name es w = (Inr (), w')
           \<and> cv_collection ch path w' name = Some (held ++ map_of (map (\<lambda>e. (ce_id e, e)) es))))"

definition chroma_delete_documented :: "'w documented_chromadb \<Rightarrow> string \<Rightarrow> bool" where
  "chroma_delete_documented ch path =
     (\<forall>name held k v w. cv_collection ch path w name = Some held \<and> no_nul v \<longrightarrow>
        (\<exists>w'. ch_delete ch path name [(k, JStr v)] w = (Inr (), w')
           \<and> cv_collection ch path w' name
             = Some (held |` {i. \<exists>e. held i = Some e \<and> map_of (ce_metadata e) k \<noteq> Some (JStr v)})))"

definition drop_documented :: "'w documented_chromadb \<Rightarrow> string \<Rightarrow> bool" where
  "drop_documented ch path =
     (\<forall>name w. cv_collection ch path (snd (ch_delete_collection ch path name w)) name = None)"

text \<open>A filter names one key with a plain value.\<close>

definition chroma_askable :: "metadata option \<Rightarrow> bool" where
  "chroma_askable filters =
     (case filters of
        Some [(k, v)] \<Rightarrow> plain_key k \<and> exact_scalar v
      | Some (_ # _ # _) \<Rightarrow> False
      | _ \<Rightarrow> True)"

definition entry_selected :: "metadata option \<Rightarrow> ch_entry \<Rightarrow> bool" where
  "entry_selected filters e =
     (case filters of None \<Rightarrow> True | Some fs \<Rightarrow> list_all (\<lambda>(k, v). map_of (ce_metadata e) k = Some v) fs)"

text \<open>One line of a query's result: identifier, document, metadata and distance.\<close>

type_synonym ch_hit = "string \<times> string \<times> metadata \<times> rat"

definition results_of :: "ch_hit list \<Rightarrow> ch_results" where
  "results_of hits =
     \<lparr>cr_ids = Some [map fst hits], cr_documents = Some [map (fst \<circ> snd) hits],
      cr_metadatas = Some [map (fst \<circ> snd \<circ> snd) hits], cr_distances = Some [map (snd \<circ> snd \<circ> snd) hits]\<rparr>"

definition hit_answers ::
  "'w documented_chromadb \<Rightarrow> (string \<rightharpoonup> ch_entry) \<Rightarrow> vector \<Rightarrow> metadata option \<Rightarrow> ch_hit \<Rightarrow> bool" where
  "hit_answers ch held q filters hit =
     (case hit of (i, text, meta, distance) \<Rightarrow>
        case held i of
          None \<Rightarrow> False
        | Some e \<Rightarrow> entry_selected filters e \<and> text = ce_document e \<and> map_of meta = map_of (ce_metadata e)
            \<and> distance = cv_distance ch q (ce_embedding e))"

definition query_documented :: "'w documented_chromadb \<Rightarrow> string \<Rightarrow> bool" where
  "query_documented ch path =
     (\<forall>n name held q k filters w. cv_collection ch path w name = Some held \<and> collection_fits n held
          \<and> usable_vector n q \<and> 0 < k \<and> k \<le> card (dom held) \<and> filters \<noteq> Some [] \<and> chroma_askable filters \<longrightarrow>
        (\<exists>hits w'. ch_query ch path name q k filters w = (Inr (results_of hits), w')
           \<and> cv_collection ch path w' name = Some held
           \<and> length hits \<le> k \<and> distinct (map fst hits) \<and> list_all (hit_answers ch held q filters) hits
           \<and> sorted (map (snd \<circ> snd \<circ> snd) hits)))"

definition count_documented :: "'w documented_chromadb \<Rightarrow> string \<Rightarrow> bool" where
  "count_documented ch path =
     (\<forall>name held w. cv_collection ch path w name = Some held \<and> finite (dom held) \<longrightarrow>
        (\<exists>w'. ch_count ch path name w = (Inr (card (dom held)), w') \<and> cv_collection ch path w' name = Some held))"

definition chroma_ok :: "'w documented_chromadb \<Rightarrow> string \<Rightarrow> bool" where
  "chroma_ok ch path =
     (open_documented ch path \<and> create_documented ch path \<and> chroma_upsert_documented ch path
      \<and> chroma_delete_documented ch path \<and> drop_documented ch path \<and> query_documented ch path
      \<and> count_documented ch path)"

section \<open>The store implements the contract\<close>

definition chroma_stored :: "ch_entry \<Rightarrow> vector stored" where
  "chroma_stored e =
     \<lparr>sd_doc = fst (pop_doc_id (ce_metadata e)), sd_text = ce_document e,
      sd_metadata = map_of (snd (pop_doc_id (ce_metadata e))), sd_vector = ce_embedding e\<rparr>"

definition chroma_holds :: "'w documented_chromadb \<Rightarrow> ChromaVectorStore \<times> 'w \<Rightarrow> string \<rightharpoonup> vector stored" where
  "chroma_holds ch s i =
     (case cv_collection ch (cs_persist_directory (fst s)) (snd s) (cs_collection_name (fst s)) of
        None \<Rightarrow> None
      | Some held \<Rightarrow> map_option chroma_stored (held i))"

definition chroma_kept :: "Chunk \<Rightarrow> vector stored" where
  "chroma_kept c =
     \<lparr>sd_doc = ck_doc c, sd_text = ck_text c, sd_metadata = (map_of (ck_metadata c))(''doc_id'' := None),
      sd_vector = chunk_vector c\<rparr>"

text \<open>Metadata of plain values; its own \<open>doc_id\<close> would replace the chunk's.\<close>

definition chroma_storable :: "nat \<Rightarrow> Chunk \<Rightarrow> bool" where
  "chroma_storable n c =
     (ck_id c \<noteq> [] \<and> no_nul (ck_id c) \<and> no_nul (ck_doc c) \<and> no_nul (ck_text c)
      \<and> distinct (map fst (ck_metadata c))
      \<and> list_all (\<lambda>(k, v). metadata_key k \<and> exact_scalar v \<and> (k = ''doc_id'' \<longrightarrow> v = JStr (ck_doc c))) (ck_metadata c)
      \<and> ck_embedding c \<noteq> None \<and> usable_vector n (chunk_vector c))"

definition chroma_selects :: "'w documented_chromadb \<Rightarrow> metadata option \<Rightarrow> vector stored \<Rightarrow> bool" where
  "chroma_selects ch filters e =
     list_all (\<lambda>(k, v). ((sd_metadata e)(''doc_id'' \<mapsto> JStr (sd_doc e))) k = Some v) (entries_of filters)"

definition chroma_closeness :: "'w documented_chromadb \<Rightarrow> vector \<Rightarrow> vector \<Rightarrow> rat" where
  "chroma_closeness ch q v = fsub 1 (cv_distance ch q v)"

text \<open>Every entry of the collection came from a chunk: its document is text under \<open>doc_id\<close>.\<close>

definition from_chunks :: "(string \<rightharpoonup> ch_entry) \<Rightarrow> bool" where
  "from_chunks held = (\<forall>i e. held i = Some e \<longrightarrow> (\<exists>d. map_of (ce_metadata e) ''doc_id'' = Some (JStr d)))"

definition chroma_ready :: "'w documented_chromadb \<Rightarrow> nat \<Rightarrow> ChromaVectorStore \<times> 'w \<Rightarrow> bool" where
  "chroma_ready ch n s =
     (case s of (self, w) \<Rightarrow>
        let path = cs_persist_directory self; name = cs_collection_name self
        in chroma_ok ch path \<and> collection_name_ok name
           \<and> (cs_client self = None \<or> cs_client self = Some path)
           \<and> (case cs_collection self of
                None \<Rightarrow> True
              | Some collection \<Rightarrow> collection = (path, name) \<and> cs_client self = Some path
                  \<and> cv_collection ch path w name \<noteq> None)
           \<and> (case cv_collection ch path w name of
                None \<Rightarrow> True
              | Some held \<Rightarrow> collection_fits n held \<and> from_chunks held))"

section \<open>Proofs\<close>

subsection \<open>Metadata\<close>

lemma exact_scalar_scalar: "exact_scalar v \<Longrightarrow> scalar v"
  by (cases v) (simp_all add: exact_scalar_def scalar_def)

lemma put_all_metadata:
  assumes "list_all (\<lambda>(k, v). scalar v) m" and "distinct (map fst m)"
  shows "map_of (fold put_metadata m a) = map_of a ++ map_of m"
  using assms
proof (induction m arbitrary: a)
  case (Cons kv m)
  obtain k v where "kv = (k, v)" by (cases kv)
  moreover from this Cons.prems have "k \<notin> dom (map_of m)" by (simp add: dom_map_of_conv_image_fst)
  ultimately show ?case
    using Cons by (simp add: put_metadata_def update_conv' map_add_upd_left del: fun_upd_apply)
qed simp

lemma distinct_put_metadata: "distinct (map fst a) \<Longrightarrow> distinct (map fst (fold put_metadata m a))"
  by (induction m arbitrary: a) (auto simp: put_metadata_def distinct_update split: prod.split)

lemma built_metadata:
  assumes "chroma_storable n c"
  shows "map_of (build_chroma_metadata c) = (map_of (ck_metadata c))(''doc_id'' \<mapsto> JStr (ck_doc c))"
    and "distinct (map fst (build_chroma_metadata c))"
proof -
  have all: "list_all (\<lambda>(k, v). scalar v) (ck_metadata c)" and dist: "distinct (map fst (ck_metadata c))"
    using assms exact_scalar_scalar by (auto simp: chroma_storable_def list_all_iff)
  have "v = JStr (ck_doc c)" if "map_of (ck_metadata c) ''doc_id'' = Some v" for v
    using assms map_of_SomeD [OF that] by (auto simp: chroma_storable_def list_all_iff)
  then have "map_of [(''doc_id'', JStr (ck_doc c))] ++ map_of (ck_metadata c)
      = (map_of (ck_metadata c))(''doc_id'' \<mapsto> JStr (ck_doc c))"
    by (auto simp: fun_eq_iff map_add_def split: option.split)
  with put_all_metadata [OF all dist] show "map_of (build_chroma_metadata c) = (map_of (ck_metadata c))(''doc_id'' \<mapsto> JStr (ck_doc c))"
    by (simp add: build_chroma_metadata_def)
  show "distinct (map fst (build_chroma_metadata c))"
    by (simp add: build_chroma_metadata_def distinct_put_metadata)
qed

lemma pop_doc_id_map:
  "fst (pop_doc_id m) = (case map_of m ''doc_id'' of None \<Rightarrow> [] | Some v \<Rightarrow> json_str v)"
  "map_of (snd (pop_doc_id m)) = (map_of m)(''doc_id'' := None)"
  by (simp_all add: pop_doc_id_def delete_conv')

lemma chroma_entry_stored:
  assumes "chroma_storable n c"
  shows "chroma_stored (chroma_entry c) = chroma_kept c"
  using built_metadata(1) [OF assms]
  by (simp add: chroma_stored_def chroma_entry_def chroma_kept_def pop_doc_id_map json_str_def fun_eq_iff)

lemma chroma_entry_fits:
  assumes "chroma_storable n c"
  shows "entry_fits n (chroma_entry c)"
proof -
  have "metadata_key k \<and> exact_scalar v" if "(k, v) \<in> set (build_chroma_metadata c)" for k v
  proof -
    from that built_metadata [OF assms] have "((map_of (ck_metadata c))(''doc_id'' \<mapsto> JStr (ck_doc c))) k = Some v"
      by (metis map_of_is_SomeI)
    then show ?thesis
      using assms by (auto simp: chroma_storable_def list_all_iff metadata_key_def no_nul_def startswith_def
          exact_scalar_def dest!: map_of_SomeD split: if_splits)
  qed
  moreover have "build_chroma_metadata c \<noteq> []" using built_metadata(1) [OF assms]
    by (metis fun_upd_same map_of.simps(1) option.distinct(1))
  ultimately show ?thesis
    using assms built_metadata(2) [OF assms]
    by (auto simp: entry_fits_def chroma_entry_def chroma_storable_def list_all_iff)
qed

lemma chroma_entry_keys:
  assumes "chroma_storable n c" and "map_of (ce_metadata e) ''doc_id'' = Some v"
    and "dom (sd_metadata (chroma_stored e)) = dom (sd_metadata (chroma_kept c))"
  shows "dom (map_of (ce_metadata e)) = dom (map_of (ce_metadata (chroma_entry c)))"
proof -
  have "dom (map_of (ce_metadata e)) = insert ''doc_id'' (dom (sd_metadata (chroma_stored e)))"
    using assms(2) by (auto simp: chroma_stored_def pop_doc_id_map)
  moreover have "dom (map_of (ce_metadata (chroma_entry c))) = insert ''doc_id'' (dom (sd_metadata (chroma_kept c)))"
    using built_metadata(1) [OF assms(1)] by (auto simp: chroma_entry_def chroma_kept_def)
  ultimately show ?thesis using assms(3) by simp
qed

subsection \<open>The operations\<close>

lemma chroma_holds_eq:
  "cv_collection ch (cs_persist_directory self) w (cs_collection_name self) = Some held \<Longrightarrow>
     chroma_holds ch (self, w) = (\<lambda>i. map_option chroma_stored (held i))"
  by (simp add: chroma_holds_def fun_eq_iff)

text \<open>A store that has opened its collection.\<close>

definition opened :: "ChromaVectorStore \<Rightarrow> ChromaVectorStore" where
  "opened self = self\<lparr>cs_client := Some (cs_persist_directory self),
     cs_collection := Some (cs_persist_directory self, cs_collection_name self)\<rparr>"

definition has_collection ::
  "'w documented_chromadb \<Rightarrow> nat \<Rightarrow> ChromaVectorStore \<Rightarrow> (string \<rightharpoonup> ch_entry) \<Rightarrow> 'w \<Rightarrow> bool" where
  "has_collection ch n self held w =
     (cv_collection ch (cs_persist_directory self) w (cs_collection_name self) = Some held
      \<and> collection_fits n held \<and> from_chunks held)"

lemma opened_ready:
  assumes "chroma_ok ch (cs_persist_directory self)" and "collection_name_ok (cs_collection_name self)"
    and "has_collection ch n self held w"
  shows "chroma_ready ch n (opened self, w)"
    and "chroma_holds ch (opened self, w) = (\<lambda>i. map_option chroma_stored (held i))"
  using assms by (auto simp: chroma_ready_def opened_def has_collection_def chroma_holds_def fun_eq_iff Let_def)

lemma open_client:
  assumes "chroma_ok ch (cs_persist_directory self)" and "cs_client self = None \<or> cs_client self = Some (cs_persist_directory self)"
  shows "\<exists>w'. ensure_client ch (self, w)
      = (Inr (cs_persist_directory self), self\<lparr>cs_client := Some (cs_persist_directory self)\<rparr>, w')
    \<and> cv_collection ch (cs_persist_directory self) w' = cv_collection ch (cs_persist_directory self) w"
proof (cases "cs_client self")
  case None
  let ?path = "cs_persist_directory self"
  from assms(1) have doc: "open_documented ch ?path" by (simp add: chroma_ok_def)
  then obtain w1 where w1: "ch_makedirs ch ?path w = (Inr (), w1)" "cv_collection ch ?path w1 = cv_collection ch ?path w"
    unfolding open_documented_def by blast
  from doc obtain w2 where "ch_persistent_client ch ?path w1 = (Inr (), w2)"
    "cv_collection ch ?path w2 = cv_collection ch ?path w1"
    unfolding open_documented_def by blast
  with None w1 doc show ?thesis by (simp add: ensure_client_def on_world_def open_documented_def)
next
  case (Some client)
  with assms(2) show ?thesis by (simp add: ensure_client_def)
qed

lemma open_collection:
  assumes "chroma_ready ch n (self, w)"
  shows "\<exists>held w'. get_collection ch (self, w)
      = (Inr (cs_persist_directory self, cs_collection_name self), opened self, w')
    \<and> has_collection ch n self held w' \<and> chroma_holds ch (self, w) = (\<lambda>i. map_option chroma_stored (held i))"
proof (cases "cs_collection self")
  case (Some collection)
  with assms obtain held where collection: "collection = (cs_persist_directory self, cs_collection_name self)"
    "cs_client self = Some (cs_persist_directory self)" and held: "has_collection ch n self held w"
    by (auto simp: chroma_ready_def has_collection_def Let_def)
  from collection Some have "opened self = self" by (simp add: opened_def)
  moreover have "chroma_holds ch (self, w) = (\<lambda>i. map_option chroma_stored (held i))"
    using held by (intro chroma_holds_eq) (simp add: has_collection_def)
  ultimately show ?thesis using Some collection held by (auto simp: get_collection_def)
next
  case None
  let ?path = "cs_persist_directory self" and ?name = "cs_collection_name self"
  from assms have ok: "chroma_ok ch ?path" "collection_name_ok ?name"
      "cs_client self = None \<or> cs_client self = Some ?path"
    by (auto simp: chroma_ready_def Let_def)
  obtain w1 where w1: "ensure_client ch (self, w) = (Inr ?path, self\<lparr>cs_client := Some ?path\<rparr>, w1)"
    "cv_collection ch ?path w1 = cv_collection ch ?path w"
    using open_client [OF ok(1,3)] by blast
  define held where "held = (case cv_collection ch ?path w ?name of None \<Rightarrow> Map.empty | Some held \<Rightarrow> held)"
  from ok(1,2) w1(2) obtain w2 where w2: "ch_get_or_create_collection ch ?path ?name w1 = (Inr (), w2)"
    "cv_collection ch ?path w2 ?name = Some held"
    unfolding chroma_ok_def create_documented_def held_def by metis
  have "get_collection ch (self, w) = (Inr (?path, ?name), opened self, w2)"
    using None w1(1) w2(1) by (simp add: get_collection_def on_world_def opened_def Let_def)
  moreover have "has_collection ch n self held w2"
    using assms w2(2) by (auto simp: chroma_ready_def has_collection_def held_def collection_fits_def from_chunks_def
        Let_def split: option.splits)
  moreover have "chroma_holds ch (self, w) = (\<lambda>i. map_option chroma_stored (held i))"
    by (auto simp: chroma_holds_def held_def fun_eq_iff split: option.split)
  ultimately show ?thesis by blast
qed

lemma ready_parts:
  "chroma_ready ch n (self, w) \<Longrightarrow> chroma_ok ch (cs_persist_directory self)"
  "chroma_ready ch n (self, w) \<Longrightarrow> collection_name_ok (cs_collection_name self)"
  "chroma_ready ch n (self, w) \<Longrightarrow> cs_client self = None \<or> cs_client self = Some (cs_persist_directory self)"
  by (auto simp: chroma_ready_def Let_def)

lemma chroma_laws:
  assumes "chroma_ok ch path"
  shows "chroma_upsert_documented ch path" "chroma_delete_documented ch path" "drop_documented ch path"
    "query_documented ch path" "count_documented ch path"
  using assms by (simp_all add: chroma_ok_def)

lemma opened_fields [simp]:
  "cs_persist_directory (opened self) = cs_persist_directory self"
  "cs_collection_name (opened self) = cs_collection_name self"
  by (simp_all add: opened_def)

lemma chroma_no_missing: "list_all (chroma_storable n) cs \<Longrightarrow> missing_embeddings cs = []"
  by (auto simp: missing_embeddings_def chroma_storable_def list_all_iff filter_empty_conv)

lemma put_all_map:
  "map_of ys = map_option f \<circ> map_of xs \<Longrightarrow>
     (\<lambda>i. map_option f ((held ++ map_of xs) i)) = put_all (\<lambda>i. map_option f (held i)) ys"
  by (auto simp: put_all_def fun_eq_iff map_add_def split: option.split)

lemma restricted_Some: "(m |` A) i = Some e \<longleftrightarrow> i \<in> A \<and> m i = Some e"
  by (simp add: restrict_map_def)

lemma entries_added:
  assumes "has_collection ch n self held w" and "list_all (chroma_storable n) cs"
    and "cv_collection ch (cs_persist_directory self) w' (cs_collection_name self)
      = Some (held ++ map_of (map (\<lambda>e. (ce_id e, e)) (map chroma_entry cs)))"
  shows "has_collection ch n self (held ++ map_of (map (\<lambda>e. (ce_id e, e)) (map chroma_entry cs))) w'"
    and "(\<lambda>i. map_option chroma_stored ((held ++ map_of (map (\<lambda>e. (ce_id e, e)) (map chroma_entry cs))) i))
      = put_all (\<lambda>i. map_option chroma_stored (held i)) (map (\<lambda>c. (ck_id c, chroma_kept c)) cs)"
proof -
  let ?new = "map_of (map (\<lambda>e. (ce_id e, e)) (map chroma_entry cs))"
  have new: "\<exists>c \<in> set cs. e = chroma_entry c \<and> i = ck_id c" if "?new i = Some e" for i e
    using map_of_SomeD [OF that] by (auto simp: chroma_entry_def)
  have "ce_id e = i \<and> entry_fits n e \<and> (\<exists>d. map_of (ce_metadata e) ''doc_id'' = Some (JStr d))"
    if added: "?new i = Some e" for i e
  proof -
    obtain c where c: "c \<in> set cs" "e = chroma_entry c" "i = ck_id c" using new [OF added] by blast
    from c(1) assms(2) have ok: "chroma_storable n c" by (simp add: list_all_iff)
    have "ce_id e = i" "map_of (ce_metadata e) ''doc_id'' = Some (JStr (ck_doc c))"
      using c built_metadata(1) [OF ok] by (simp_all add: chroma_entry_def)
    with c(2) chroma_entry_fits [OF ok] show ?thesis by blast
  qed
  moreover have "finite (dom (held ++ ?new))"
    using assms(1) by (simp add: has_collection_def collection_fits_def finite_dom_map_of)
  ultimately show "has_collection ch n self (held ++ ?new) w'"
    using assms(1,3) unfolding has_collection_def collection_fits_def from_chunks_def map_add_Some_iff by blast
  have eq: "map (\<lambda>(i, e). (i, chroma_stored e)) (map (\<lambda>e. (ce_id e, e)) (map chroma_entry cs))
      = map (\<lambda>c. (ck_id c, chroma_kept c)) cs"
    using assms(2) chroma_entry_stored by (auto simp: list_all_iff chroma_entry_def)
  have "map_of (map (\<lambda>c. (ck_id c, chroma_kept c)) cs) = map_option chroma_stored \<circ> ?new"
    unfolding map_of_map [symmetric] eq ..
  then show "(\<lambda>i. map_option chroma_stored ((held ++ ?new) i))
      = put_all (\<lambda>i. map_option chroma_stored (held i)) (map (\<lambda>c. (ck_id c, chroma_kept c)) cs)"
    by (rule put_all_map)
qed

lemma chroma_add_stores:
  assumes "chroma_ready ch n s" and "admissible (chroma_storable n) chroma_kept (chroma_holds ch s) (Add cs)"
  shows "\<exists>s'. chroma_add ch cs s = (Inr (), s') \<and> chroma_ready ch n s'
    \<and> chroma_holds ch s' = held_after chroma_kept (Add cs) (chroma_holds ch s)"
proof (cases "cs = []")
  case False
  obtain self w where s: "s = (self, w)" by (cases s)
  let ?path = "cs_persist_directory self" and ?name = "cs_collection_name self" and ?es = "map chroma_entry cs"
  note ok = ready_parts [OF assms(1) [unfolded s]]
  obtain held w1 where w1: "get_collection ch s = (Inr (?path, ?name), opened self, w1)"
    "has_collection ch n self held w1" "chroma_holds ch s = (\<lambda>i. map_option chroma_stored (held i))"
    using open_collection [OF assms(1) [unfolded s]] unfolding s by blast
  from assms(2) have cs: "list_all (chroma_storable n) cs" "distinct (map ck_id cs)"
    "list_all (same_keys chroma_kept (chroma_holds ch s)) cs" by simp_all
  have keys: "upsert_keeps_keys held (chroma_entry c)" if "c \<in> set cs" for c
  proof (cases "held (ck_id c)")
    case (Some e)
    with w1(2) obtain d where "map_of (ce_metadata e) ''doc_id'' = Some (JStr d)"
      by (auto simp: has_collection_def from_chunks_def)
    moreover have "chroma_storable n c" "dom (sd_metadata (chroma_stored e)) = dom (sd_metadata (chroma_kept c))"
      using cs that Some by (auto simp: list_all_iff same_keys_def w1(3) split: option.splits)
    ultimately show ?thesis using Some chroma_entry_keys by (simp add: upsert_keeps_keys_def chroma_entry_def)
  qed (simp add: upsert_keeps_keys_def chroma_entry_def)
  have es: "list_all (entry_fits n) ?es" "distinct (map ce_id ?es)" "?es \<noteq> []" "list_all (upsert_keeps_keys held) ?es"
    using cs chroma_entry_fits keys False by (auto simp: list_all_iff comp_def chroma_entry_def)
  from chroma_laws(1) [OF ok(1)] w1(2) es obtain w2 where w2: "ch_upsert ch ?path ?name ?es w1 = (Inr (), w2)"
    "cv_collection ch ?path w2 ?name = Some (held ++ map_of (map (\<lambda>e. (ce_id e, e)) ?es))"
    unfolding chroma_upsert_documented_def has_collection_def by blast
  have "chroma_add ch cs s = (Inr (), opened self, w2)"
    using False w1(1) w2(1) chroma_no_missing [OF cs(1)] by (simp add: chroma_add_def on_world_def)
  then show ?thesis
    using entries_added [OF w1(2) cs(1) w2(2)] opened_ready [OF ok(1,2)] w1(3) by simp
qed (use assms in \<open>simp add: chroma_add_def put_all_def\<close>)

lemma chroma_delete_removes:
  assumes "chroma_ready ch n s" and "no_nul d"
  shows "\<exists>s'. chroma_delete_by_document ch d s = (Inr (), s') \<and> chroma_ready ch n s'
    \<and> chroma_holds ch s' = without_document d (chroma_holds ch s)"
proof -
  obtain self w where s: "s = (self, w)" by (cases s)
  let ?path = "cs_persist_directory self" and ?name = "cs_collection_name self"
  note ok = ready_parts [OF assms(1) [unfolded s]]
  obtain held w1 where w1: "get_collection ch s = (Inr (?path, ?name), opened self, w1)"
    "has_collection ch n self held w1" "chroma_holds ch s = (\<lambda>i. map_option chroma_stored (held i))"
    using open_collection [OF assms(1) [unfolded s]] unfolding s by blast
  let ?left = "held |` {i. \<exists>e. held i = Some e \<and> map_of (ce_metadata e) ''doc_id'' \<noteq> Some (JStr d)}"
  from chroma_laws(2) [OF ok(1)] w1(2) assms(2) obtain w2 where
    w2: "ch_delete ch ?path ?name [(''doc_id'', JStr d)] w1 = (Inr (), w2)" "cv_collection ch ?path w2 ?name = Some ?left"
    unfolding chroma_delete_documented_def has_collection_def by blast
  have run: "chroma_delete_by_document ch d s = (Inr (), opened self, w2)"
    using w1(1) w2(1) by (simp add: chroma_delete_by_document_def on_world_def)
  have fin: "finite (dom ?left)" using w1(2) by (simp add: has_collection_def collection_fits_def)
  have left: "has_collection ch n self ?left w2"
    using w1(2) w2(2) fin unfolding has_collection_def collection_fits_def from_chunks_def
      restricted_Some by blast
  have "map_option chroma_stored (?left i) = without_document d (\<lambda>i. map_option chroma_stored (held i)) i" for i
  proof (cases "held i")
    case (Some e)
    with w1(2) obtain d' where "map_of (ce_metadata e) ''doc_id'' = Some (JStr d')"
      unfolding has_collection_def from_chunks_def by blast
    with Some show ?thesis
      by (simp add: restrict_map_def without_document_def chroma_stored_def pop_doc_id_map json_str_def)
  qed (simp add: restrict_map_def without_document_def)
  then have "(\<lambda>i. map_option chroma_stored (?left i)) = without_document d (chroma_holds ch s)"
    unfolding w1(3) by (intro ext)
  with run opened_ready [OF ok(1,2) left] show ?thesis by (intro exI [of _ "(opened self, w2)"]) simp
qed

lemma chroma_clear_empties:
  assumes "chroma_ready ch n s"
  shows "\<exists>s'. chroma_clear ch s = (Inr (), s') \<and> chroma_ready ch n s' \<and> chroma_holds ch s' = Map.empty"
proof -
  obtain self w where s: "s = (self, w)" by (cases s)
  let ?path = "cs_persist_directory self" and ?name = "cs_collection_name self"
  note ok = ready_parts [OF assms(1) [unfolded s]]
  obtain w1 where w1: "ensure_client ch s = (Inr ?path, self\<lparr>cs_client := Some ?path\<rparr>, w1)"
    using open_client [OF ok(1,3)] unfolding s by blast
  obtain r w2 where w2: "ch_delete_collection ch ?path ?name w1 = (r, w2)" by fastforce
  with chroma_laws(3) [OF ok(1)] have gone: "cv_collection ch ?path w2 ?name = None"
    unfolding drop_documented_def by (metis snd_conv)
  let ?self = "self\<lparr>cs_client := Some ?path, cs_collection := None\<rparr>"
  have "chroma_clear ch s = (Inr (), ?self, w2)"
    using w1 w2 by (simp add: chroma_clear_def on_world_def)
  moreover have "chroma_ready ch n (?self, w2)" using ok gone by (simp add: chroma_ready_def)
  moreover have "chroma_holds ch (?self, w2) = Map.empty" using gone by (simp add: chroma_holds_def fun_eq_iff)
  ultimately show ?thesis by blast
qed

text \<open>Searching.\<close>

definition hit_chunk :: "nat \<Rightarrow> ch_hit \<Rightarrow> Chunk" where
  "hit_chunk rank hit =
     (case hit of (i, text, meta, distance) \<Rightarrow>
        \<lparr>ck_id = i, ck_doc = fst (pop_doc_id meta), ck_text = text, ck_metadata = snd (pop_doc_id meta),
         ck_embedding = None, ck_score = Some (fsub 1 distance), ck_rank = Some rank\<rparr>)"

lemma parsed_hits:
  "parsed_chunks r (map fst hits) (map (fst \<circ> snd) hits) (map (fst \<circ> snd \<circ> snd) hits) (map (snd \<circ> snd \<circ> snd) hits)
     = map (\<lambda>(j, hit). hit_chunk j hit) (enumerate r hits)"
  by (induction hits arbitrary: r) (auto simp: hit_chunk_def)

lemma parse_results_of: "parse_results (results_of hits) = Inr (map (\<lambda>(j, hit). hit_chunk j hit) (enumerate 1 hits))"
  by (simp add: parse_results_def results_of_def first_list_def parsed_hits)

lemma hit_chunk_fields [simp]:
  "ck_id (hit_chunk r hit) = fst hit" "ck_rank (hit_chunk r hit) = Some r"
  "ck_score (hit_chunk r hit) = Some (fsub 1 (snd (snd (snd hit))))"
  by (simp_all add: hit_chunk_def split: prod.split)

lemma chroma_selected:
  assumes "map_of (ce_metadata e) ''doc_id'' = Some (JStr d)"
  shows "entry_selected filters e \<longleftrightarrow> chroma_selects ch filters (chroma_stored e)"
proof -
  have "((sd_metadata (chroma_stored e))(''doc_id'' \<mapsto> JStr (sd_doc (chroma_stored e)))) = map_of (ce_metadata e)"
    using assms by (auto simp: chroma_stored_def pop_doc_id_map json_str_def fun_eq_iff)
  then show ?thesis
    by (auto simp: entry_selected_def chroma_selects_def entries_of_def split: option.split)
qed

lemma chroma_selects_where: "chroma_selects ch (chroma_where filters) = chroma_selects ch filters"
  by (simp add: fun_eq_iff chroma_selects_def chroma_where_def entries_of_def)

lemma hit_chunk_is_hit:
  assumes "hit_answers ch held q filters hit" and "from_chunks held"
  shows "is_hit (\<lambda>i. map_option chroma_stored (held i)) (chroma_closeness ch q) (chroma_selects ch filters) (hit_chunk r hit)"
proof -
  obtain i doc meta x where hit: "hit = (i, doc, meta, x)" by (metis prod_cases4)
  with assms(1) obtain e where e: "held i = Some e" "entry_selected filters e" "doc = ce_document e"
    "map_of meta = map_of (ce_metadata e)" "x = cv_distance ch q (ce_embedding e)"
    by (auto simp: hit_answers_def split: option.splits)
  with assms(2) chroma_selected have "chroma_selects ch filters (chroma_stored e)"
    unfolding from_chunks_def by blast
  with e show ?thesis
    by (simp add: is_hit_def hit hit_chunk_def chroma_stored_def pop_doc_id_map chroma_closeness_def)
qed

lemma hits_retrieved:
  assumes "length hits \<le> k" and "distinct (map fst hits)" and "list_all (hit_answers ch held q filters) hits"
    and "sorted (map (snd \<circ> snd \<circ> snd) hits)" and "from_chunks held"
  shows "retrieved (\<lambda>i. map_option chroma_stored (held i)) (chroma_closeness ch q) (chroma_selects ch filters) k
    (map (\<lambda>(j, hit). hit_chunk j hit) (enumerate 1 hits))"
proof -
  let ?chunks = "map (\<lambda>(j, hit). hit_chunk j hit) (enumerate 1 hits)"
  have "map ck_id ?chunks = map fst (map snd (enumerate 1 hits))"
    by (simp add: comp_def split_beta del: map_snd_enumerate)
  then have "map ck_id ?chunks = map fst hits" by simp
  moreover have "map ck_rank ?chunks = map Some (map fst (enumerate 1 hits))"
    by (simp add: comp_def split_beta del: map_fst_enumerate)
  then have "map ck_rank ?chunks = map Some [1..<Suc (length ?chunks)]" by simp
  moreover have "sorted_wrt (\<lambda>a b. the (ck_score b) \<le> the (ck_score a)) ?chunks"
    using assms(4) by (auto simp: sorted_wrt_iff_nth_less nth_enumerate_eq sorted_iff_nth_mono_less fsub_def
        split_beta intro!: fl_mono)
  moreover have "list_all (is_hit (\<lambda>i. map_option chroma_stored (held i)) (chroma_closeness ch q)
      (chroma_selects ch filters)) ?chunks"
    using assms(3) by (auto simp: list_all_length nth_enumerate_eq split_beta intro!: hit_chunk_is_hit [OF _ assms(5)])
  ultimately show ?thesis using assms(1,2) by (simp add: retrieved_def)
qed

lemma chroma_search_finds:
  assumes "chroma_ready ch n s" and "usable_vector n q" and "0 < k" and "chroma_askable filters"
  shows "\<exists>hits s'. chroma_search ch q k filters s = (Inr hits, s') \<and> chroma_ready ch n s' \<and> chroma_holds ch s' = chroma_holds ch s
    \<and> retrieved (chroma_holds ch s) (chroma_closeness ch q) (chroma_selects ch filters) k hits"
proof -
  obtain self w where s: "s = (self, w)" by (cases s)
  let ?path = "cs_persist_directory self" and ?name = "cs_collection_name self"
  note ok = ready_parts [OF assms(1) [unfolded s]]
  obtain held w1 where w1: "get_collection ch s = (Inr (?path, ?name), opened self, w1)"
    "has_collection ch n self held w1" "chroma_holds ch s = (\<lambda>i. map_option chroma_stored (held i))"
    using open_collection [OF assms(1) [unfolded s]] unfolding s by blast
  then have fits: "collection_fits n held" "from_chunks held" "finite (dom held)"
    by (simp_all add: has_collection_def collection_fits_def)
  from chroma_laws(5) [OF ok(1)] w1(2) fits(3) obtain w2 where
    w2: "ch_count ch ?path ?name w1 = (Inr (card (dom held)), w2)" "cv_collection ch ?path w2 ?name = Some held"
    unfolding count_documented_def has_collection_def by blast
  have same: "chroma_ready ch n (opened self, w') \<and> chroma_holds ch (opened self, w') = chroma_holds ch s"
    if "cv_collection ch ?path w' ?name = Some held" for w'
    using opened_ready [OF ok(1,2), of n held w'] that fits w1(3) by (simp add: has_collection_def)
  show ?thesis
  proof (cases "card (dom held) = 0")
    case True
    with w1(1) w2(1) have "chroma_search ch q k filters s = (Inr [], opened self, w2)"
      by (simp add: chroma_search_def on_world_def)
    with same [OF w2(2)] show ?thesis by (auto simp: retrieved_def)
  next
    case False
    have "chroma_askable (chroma_where filters)" "chroma_where filters \<noteq> Some []"
      using assms(4) by (auto simp: chroma_where_def chroma_askable_def)
    moreover have "0 < min k (card (dom held))" "min k (card (dom held)) \<le> card (dom held)"
      using False assms(3) by auto
    ultimately obtain hits w3 where w3:
      "ch_query ch ?path ?name q (min k (card (dom held))) (chroma_where filters) w2 = (Inr (results_of hits), w3)"
      "cv_collection ch ?path w3 ?name = Some held" "length hits \<le> min k (card (dom held))" "distinct (map fst hits)"
      "list_all (hit_answers ch held q (chroma_where filters)) hits" "sorted (map (snd \<circ> snd \<circ> snd) hits)"
      using chroma_laws(4) [OF ok(1)] w2(2) fits(1) assms(2) unfolding query_documented_def by blast
    have "chroma_search ch q k filters s
        = (Inr (map (\<lambda>(j, hit). hit_chunk j hit) (enumerate 1 hits)), opened self, w3)"
      using w1(1) w2(1) w3(1) False by (simp add: chroma_search_def on_world_def parse_results_of)
    moreover have "length hits \<le> k" using w3(3) by simp
    ultimately show ?thesis
      using same [OF w3(2)] hits_retrieved [OF _ w3(4,5,6) fits(2)] w1(3) chroma_selects_where by metis
  qed
qed

interpretation chroma: vector_store chroma_add chroma_search chroma_delete_by_document chroma_clear
  chroma_ready chroma_holds chroma_kept chroma_storable chroma_askable chroma_selects chroma_closeness
proof unfold_locales
  show "\<exists>hits s'. chroma_search p q k filters s = (Inr hits, s') \<and> chroma_ready p n s' \<and> chroma_holds p s' = chroma_holds p s
      \<and> retrieved (chroma_holds p s) (chroma_closeness p q) (chroma_selects p filters) k hits"
    if "chroma_ready p n s" "usable_vector n q" "0 < k" "chroma_askable filters"
    for p :: "'a documented_chromadb" and n s q k filters
    using chroma_search_finds that by blast
qed (use chroma_add_stores chroma_delete_removes chroma_clear_empties in blast)+

end
