(* ===== verification/VectorStores.thy ===== *)
theory VectorStores
  imports Chroma Sha256
begin

text \<open>
  Which store is used (\<^verbatim>\<open>rag/vectorstores/registry.py\<close>), the vectors of the default embedding provider
  (\<^verbatim>\<open>rag/embeddings/mock_embedding_provider.py\<close>), and what holds of both stores because both implement
  the contract: the same history of operations leaves the same chunks, and a deleted document is not found.
\<close>

section \<open>The registry\<close>

datatype configured_store = PgStore PgVectorStore | ChromaStore ChromaVectorStore

definition configuration_error :: "string \<Rightarrow> error" where
  "configuration_error msg = Err ConfigurationError msg"

definition DEFAULT_DIMENSION :: nat where
  "DEFAULT_DIMENSION = 128"

definition get_vector_store :: "Settings \<Rightarrow> configured_store result" where
  "get_vector_store settings =
     (if st_vector_backend settings = ''pgvector''
      then (if \<not> truthy (st_database_url settings)
            then Inl (configuration_error ''VECTOR_BACKEND=pgvector requires DATABASE_URL to be set.'')
            else rbind (new_pg_vector_store (the (st_database_url settings)) (st_chroma_collection_name settings)
                          DEFAULT_DIMENSION)
                   (\<lambda>store. Inr (PgStore store)))
      else if st_vector_backend settings = ''chroma''
      then Inr (ChromaStore (new_chroma_vector_store (st_chroma_persist_directory settings)
             (st_chroma_collection_name settings)))
      else Inl (configuration_error (''Unknown vector backend: '' @ py_repr (st_vector_backend settings))))"

section \<open>Embeddings\<close>

text \<open>The parts of NumPy the provider uses, if it is installed: the normal deviates of a seeded generator, the
  norm, and the division of a vector. Without it the vector is drawn with SHAKE128 (\<open>shake\<close>) and scaled
  with \<open>math.sqrt\<close> (\<open>root\<close>), which are arguments too.\<close>

record numpy =
  np_standard_normal :: "nat \<Rightarrow> nat \<Rightarrow> rat list"
  np_norm :: "rat list \<Rightarrow> rat"
  np_divide :: "rat list \<Rightarrow> rat \<Rightarrow> rat list"

definition numpy_vector :: "numpy \<Rightarrow> nat \<Rightarrow> vector" where
  "numpy_vector np seed =
     (let vec = np_standard_normal np seed DEFAULT_DIMENSION; norm = np_norm np vec
      in if 0 < norm then np_divide np vec norm else vec)"

definition signed_words :: "bytes \<Rightarrow> int list" where
  "signed_words raw = map sint (words_of raw)"

definition stdlib_vector :: "(bytes \<Rightarrow> nat \<Rightarrow> bytes) \<Rightarrow> (rat \<Rightarrow> rat) \<Rightarrow> bytes \<Rightarrow> vector" where
  "stdlib_vector shake sqrt_of digest =
     (let raw = shake digest (4 * DEFAULT_DIMENSION);
          values = map (\<lambda>n. fl (of_int n / 2147483648)) (signed_words raw);
          norm = sqrt_of (fsum (map (\<lambda>x. fmul x x) values))
      in if 0 < norm then map (\<lambda>x. fl (x / norm)) values else values)"

definition digest_bytes :: "word32 list \<Rightarrow> bytes" where
  "digest_bytes words = concat (map (\<lambda>w. be_bytes 4 (unat w)) words)"

text \<open>The first four bytes of a digest are its first word.\<close>

definition text_to_vector ::
  "numpy option \<Rightarrow> (bytes \<Rightarrow> nat \<Rightarrow> bytes) \<Rightarrow> (rat \<Rightarrow> rat) \<Rightarrow> string \<Rightarrow> vector" where
  "text_to_vector np shake sqrt_of txt =
     (let digest = sha256 (utf8 txt)
      in case np of
           Some np \<Rightarrow> numpy_vector np (unat (hd digest))
         | None \<Rightarrow> stdlib_vector shake sqrt_of (digest_bytes digest))"

definition embed ::
  "numpy option \<Rightarrow> (bytes \<Rightarrow> nat \<Rightarrow> bytes) \<Rightarrow> (rat \<Rightarrow> rat) \<Rightarrow> string list \<Rightarrow> vector list" where
  "embed np shake sqrt_of texts = map (text_to_vector np shake sqrt_of) texts"

text \<open>The dimension the registry's pgvector store expects is the one the provider produces.\<close>

lemma words_of_length: "4 dvd length bs \<Longrightarrow> length (words_of bs) = length bs div 4"
proof (induction bs rule: words_of.induct)
  case (1 a b c d bs)
  from 1(2) have "4 dvd length bs" by simp presburger
  with 1 show ?case by (simp add: Let_def)
qed auto

lemma embedded_dimension:
  assumes "\<And>n. length (shake (digest_bytes (sha256 (utf8 txt))) n) = n"
    and "\<And>np seed n. libs = Some np \<Longrightarrow> length (np_standard_normal np seed n) = n"
    and "\<And>np v x. libs = Some np \<Longrightarrow> length (np_divide np v x) = length v"
  shows "length (text_to_vector libs shake sqrt_of txt) = DEFAULT_DIMENSION"
  using assms
  by (simp add: text_to_vector_def numpy_vector_def stdlib_vector_def signed_words_def words_of_length Let_def
      split: option.split)

section \<open>Chunks both stores keep alike\<close>

definition plain_kept :: "Chunk \<Rightarrow> unit stored" where
  "plain_kept c =
     \<lparr>sd_doc = ck_doc c, sd_text = ck_text c, sd_metadata = map_of (ck_metadata c), sd_vector = ()\<rparr>"

definition without_vector :: "'v stored \<Rightarrow> unit stored" where
  "without_vector e = \<lparr>sd_doc = sd_doc e, sd_text = sd_text e, sd_metadata = sd_metadata e, sd_vector = ()\<rparr>"

definition contents :: "(string \<rightharpoonup> 'v stored) \<Rightarrow> string \<rightharpoonup> unit stored" where
  "contents held i = map_option without_vector (held i)"

lemma contents_eq: "contents held = (\<lambda>i. map_option without_vector (held i))"
  by (simp add: contents_def fun_eq_iff)

definition interchangeable :: "nat \<Rightarrow> Chunk \<Rightarrow> bool" where
  "interchangeable n c =
     (pg_storable n c \<and> chroma_storable n c \<and> ''doc_id'' \<notin> fst ` set (ck_metadata c))"

lemma interchangeable_storable:
  "interchangeable n c \<Longrightarrow> pg_storable n c" "interchangeable n c \<Longrightarrow> chroma_storable n c"
  by (simp_all add: interchangeable_def)

lemma interchangeable_kept:
  assumes "interchangeable n c"
  shows "without_vector (pg_kept c) = plain_kept c" and "without_vector (chroma_kept c) = plain_kept c"
proof -
  show "without_vector (pg_kept c) = plain_kept c" by (simp add: without_vector_def pg_kept_def plain_kept_def)
  have "map_of (ck_metadata c) ''doc_id'' = None"
    using assms by (simp add: interchangeable_def map_of_eq_None_iff)
  then have "(map_of (ck_metadata c))(''doc_id'' := None) = map_of (ck_metadata c)" by auto
  then show "without_vector (chroma_kept c) = plain_kept c"
    by (simp add: without_vector_def chroma_kept_def plain_kept_def)
qed

text \<open>What is held, less the vectors, follows the operations in the same way for every backend.\<close>

locale keeps_plain =
  fixes kept :: "Chunk \<Rightarrow> 'v stored" and storable :: "Chunk \<Rightarrow> bool"
  assumes plain: "storable c \<Longrightarrow> without_vector (kept c) = plain_kept c"
begin

lemma contents_put_all:
  assumes "list_all storable cs"
  shows "contents (put_all held (map (\<lambda>c. (ck_id c, kept c)) cs))
    = put_all (contents held) (map (\<lambda>c. (ck_id c, plain_kept c)) cs)"
proof -
  have "map (\<lambda>c. (ck_id c, plain_kept c)) cs
      = map (\<lambda>(i, e). (i, without_vector e)) (map (\<lambda>c. (ck_id c, kept c)) cs)"
    using assms plain by (auto simp: list_all_iff)
  then have "map_of (map (\<lambda>c. (ck_id c, plain_kept c)) cs)
      = map_option without_vector \<circ> map_of (map (\<lambda>c. (ck_id c, kept c)) cs)"
    by (simp only: map_of_map)
  from put_all_map [OF this, of held] show ?thesis by (simp add: contents_eq put_all_def)
qed

lemma contents_held_after:
  assumes "admissible storable plain_kept held' x"
  shows "contents (held_after kept x held) = held_after plain_kept x (contents held)"
proof (cases x)
  case (Add cs)
  with assms contents_put_all show ?thesis by simp
next
  case (DeleteDocument d)
  then show ?thesis
    by (auto simp: contents_def without_document_def without_vector_def fun_eq_iff split: option.splits)
qed (simp add: contents_def fun_eq_iff)

lemma same_keys_contents:
  assumes "storable c"
  shows "same_keys plain_kept (contents held) c \<longleftrightarrow> same_keys kept held c"
  using plain [OF assms] by (auto simp: same_keys_def contents_def without_vector_def plain_kept_def split: option.split)

lemma admissible_contents:
  "admissible storable plain_kept (contents held) x \<Longrightarrow> admissible storable kept held x"
  using same_keys_contents by (cases x) (auto simp: list_all_iff)

lemma history_contents:
  "admissible_run storable plain_kept (contents held) xs \<Longrightarrow>
     admissible_run storable kept held xs
     \<and> contents (fold (held_after kept) xs held) = fold (held_after plain_kept) xs (contents held)"
proof (induction xs arbitrary: held)
  case (Cons x xs)
  then have x: "admissible storable plain_kept (contents held) x" by simp
  note step = contents_held_after [OF x, of held] and ok = admissible_contents [OF x]
  from Cons.prems step have "admissible_run storable plain_kept (contents (held_after kept x held)) xs" by simp
  from Cons.IH [OF this] step ok show ?case by simp
qed simp

end

interpretation pg_plain: keeps_plain pg_kept "interchangeable n" for n
  by unfold_locales (rule interchangeable_kept)

interpretation chroma_plain: keeps_plain chroma_kept "interchangeable n" for n
  by unfold_locales (rule interchangeable_kept)

lemma admissible_mono:
  assumes "\<And>c. P c \<Longrightarrow> Q c"
  shows "admissible P kept held x \<Longrightarrow> admissible Q kept held x"
  using assms by (cases x) (auto simp: list_all_iff)

lemma admissible_run_mono:
  assumes "\<And>c. P c \<Longrightarrow> Q c"
  shows "admissible_run P kept held xs \<Longrightarrow> admissible_run Q kept held xs"
  using admissible_mono [of P Q, OF assms] by (induction xs arbitrary: held) auto



section \<open>Where the stores differ\<close>

text \<open>A chunk whose metadata has a key \<open>doc_id\<close> belongs to that document in Chroma, not to its own.\<close>

lemma chroma_document_from_metadata:
  assumes "ck_metadata c = [(''doc_id'', JStr d)]"
  shows "sd_doc (chroma_stored (chroma_entry c)) = d"
  using assms by (simp add: chroma_stored_def chroma_entry_def build_chroma_metadata_def put_metadata_def scalar_def
      pop_doc_id_def json_str_def)

text \<open>Clearing a Chroma store succeeds whenever a client can be opened, also when deleting its collection fails.\<close>

lemma chroma_clear_hides_failure:
  assumes "ensure_client ch s = (Inr client, s')"
  shows "fst (chroma_clear ch s) = Inr ()"
  using assms by (cases s') (simp add: chroma_clear_def on_world_def split: prod.split)

end
