(* ===== verification/DemoVector.thy ===== *)
theory DemoVector
  imports VectorStores
begin

text \<open>
  A database and a Chroma directory as lists, with every two vectors at distance 0, behave as documented:
  the hypotheses of the properties about the vector stores can hold.
\<close>

section \<open>Lists with keys\<close>

text \<open>A list of records as a map from their keys, of which an earlier one hides the later ones, and the records
  that are not hidden.\<close>

definition keyed :: "('a \<Rightarrow> string) \<Rightarrow> 'a list \<Rightarrow> string \<rightharpoonup> 'a" where
  "keyed key xs = map_of (map (\<lambda>x. (key x, x)) xs)"

definition live :: "('a \<Rightarrow> string) \<Rightarrow> 'a list \<Rightarrow> 'a list" where
  "live key xs = map snd (AList.clearjunk (map (\<lambda>x. (key x, x)) xs))"

lemma live_entry:
  "(i, x) \<in> set (AList.clearjunk (map (\<lambda>x. (key x, x)) xs)) \<longleftrightarrow> map_of (map (\<lambda>x. (key x, x)) xs) i = Some x"
  by (simp add: map_of_clearjunk flip: map_of_eq_Some_iff [OF distinct_clearjunk])

lemma clearjunk_keyed:
  "(i, x) \<in> set (AList.clearjunk (map (\<lambda>x. (key x, x)) xs)) \<Longrightarrow> i = key x"
  by (drule iffD1 [OF live_entry], drule map_of_SomeD) auto

lemma live_keyed: "keyed key xs i = Some x \<longleftrightarrow> x \<in> set (live key xs) \<and> key x = i"
proof -
  have "keyed key xs i = Some x \<longleftrightarrow> (i, x) \<in> set (AList.clearjunk (map (\<lambda>x. (key x, x)) xs))"
    by (simp only: keyed_def live_entry)
  moreover have "x \<in> set (live key xs) \<longleftrightarrow> (\<exists>j. (j, x) \<in> set (AList.clearjunk (map (\<lambda>x. (key x, x)) xs)))"
    by (force simp: live_def)
  ultimately show ?thesis using clearjunk_keyed [of _ x key xs] by blast
qed

lemma live_keys: "map key (live key xs) = map fst (AList.clearjunk (map (\<lambda>x. (key x, x)) xs))"
  unfolding live_def map_map
proof (rule map_cong [OF refl])
  fix x assume "x \<in> set (AList.clearjunk (map (\<lambda>x. (key x, x)) xs))"
  then show "(key \<circ> snd) x = fst x" using clearjunk_keyed [of "fst x" "snd x" key xs] by simp
qed

lemma live_distinct: "distinct (map key (live key xs))"
  unfolding live_keys by simp

lemma distinct_keyed: "distinct (map key xs) \<Longrightarrow> keyed key xs i = Some x \<longleftrightarrow> x \<in> set xs \<and> key x = i"
  unfolding keyed_def by (subst map_of_eq_Some_iff) (auto simp: comp_def)

lemma filter_live: "keyed key (filter P (live key xs)) i = Some x \<longleftrightarrow> keyed key xs i = Some x \<and> P x"
proof -
  have "distinct (map key (filter P (live key xs)))" by (simp add: distinct_map_filter live_distinct)
  from distinct_keyed [OF this] show ?thesis by (auto simp: live_keyed)
qed

section \<open>A database of chunk tables\<close>

type_synonym tables = "(string \<times> nat \<times> pg_chunk list) list"

fun run_statement :: "pg_statement \<Rightarrow> tables \<Rightarrow> tables" where
  "run_statement CreateExtension w = w"
| "run_statement (CreateTable t n) w = (if map_of w t = None then (t, n, []) # w else w)"
| "run_statement (Upsert t c) w = (case map_of w t of None \<Rightarrow> w | Some (n, rows) \<Rightarrow> (t, n, c # rows) # w)"
| "run_statement (DeleteDoc t d) w =
     (case map_of w t of None \<Rightarrow> w | Some (n, rows) \<Rightarrow> (t, n, filter (\<lambda>c. pc_doc c \<noteq> d) (live pc_id rows)) # w)"
| "run_statement (Truncate t) w = (case map_of w t of None \<Rightarrow> w | Some (n, rows) \<Rightarrow> (t, n, []) # w)"

definition json_text_value :: "json_text \<Rightarrow> metadata" where
  "json_text_value x = (case x of JsonText m \<Rightarrow> m)"

definition text_of_value :: "json \<Rightarrow> string option" where
  "text_of_value v = (case v of JStr s \<Rightarrow> Some s | JInt i \<Rightarrow> Some (show_int i) | _ \<Rightarrow> None)"

text \<open>The keys of a clause are what stands in quotes.\<close>

fun every_second :: "'a list \<Rightarrow> 'a list" where
  "every_second (x # y # zs) = y # every_second zs"
| "every_second zs = []"

definition clause_keys :: "string \<Rightarrow> string list" where
  "clause_keys clause = every_second (split_on (CHR 0x27) clause)"

definition toy_selected :: "string list \<Rightarrow> string list \<Rightarrow> pg_chunk \<Rightarrow> bool" where
  "toy_selected keys params c =
     list_all2 (\<lambda>k p. Option.bind (map_of (json_text_value (pc_metadata c)) k) text_of_value = Some p) keys params"

definition list_row :: "pg_chunk \<Rightarrow> pg_row" where
  "list_row c = \<lparr>rw_id = pc_id c, rw_doc = pc_doc c, rw_text = pc_text c,
     rw_metadata = Decoded (json_text_value (pc_metadata c)), rw_score = fsub 1 0\<rparr>"

primrec toy_answer :: "pg_query \<Rightarrow> tables \<Rightarrow> pg_row list" where
  "toy_answer SelectOne w = []"
| "toy_answer (Nearest t clause q k params) w =
     (case map_of w t of
        None \<Rightarrow> []
      | Some (n, rows) \<Rightarrow>
          take k (map list_row (filter (toy_selected (clause_keys clause) params) (live pc_id rows))))"

definition toy_postgres :: "tables documented_postgres" where
  "toy_postgres =
     \<lparr>pg_create_engine = (\<lambda>url. Inr ()),
      pg_begin = (\<lambda>url statements w. (Inr (), fold run_statement statements w)),
      pg_connect = (\<lambda>url query w. (Inr (toy_answer query w), w)),
      pv_table = (\<lambda>url w t. map_option (map_prod id (keyed pc_id)) (map_of w t)),
      pv_jsonb = json_text_value, pv_text = text_of_value, pv_distance = (\<lambda>u v. 0)\<rparr>"

lemma toy_postgres_simps [simp]:
  "pg_create_engine toy_postgres url = Inr ()"
  "pg_begin toy_postgres url statements w = (Inr (), fold run_statement statements w)"
  "pg_connect toy_postgres url query w = (Inr (toy_answer query w), w)"
  "pv_table toy_postgres url w t = map_option (map_prod id (keyed pc_id)) (map_of w t)"
  "pv_jsonb toy_postgres = json_text_value" "pv_text toy_postgres = text_of_value"
  "pv_distance toy_postgres u v = 0"
  by (simp_all add: toy_postgres_def)

lemma keyed_Cons: "keyed key (c # rows) = (keyed key rows)(key c \<mapsto> c)"
  by (simp add: keyed_def)

lemma upserted_rows:
  "map_of w t = Some (n, rows) \<Longrightarrow>
     \<exists>rows'. map_of (fold run_statement (map (Upsert t) cs) w) t = Some (n, rows')
       \<and> keyed pc_id rows' = upsert_rows cs (keyed pc_id rows)"
proof (induction cs arbitrary: w rows)
  case (Cons c cs)
  from Cons.IH [of "(t, n, c # rows) # w" "c # rows"] Cons.prems show ?case
    by (simp add: upsert_rows_def keyed_Cons fun_upd_same del: fun_upd_apply)
qed (simp add: upsert_rows_def)

lemma map_eqI: "(\<And>x. f i = Some x \<longleftrightarrow> g i = Some x) \<Longrightarrow> f i = g i"
  by (metis not_None_eq)

lemma deleted_rows: "keyed pc_id (filter (\<lambda>c. pc_doc c \<noteq> d) (live pc_id rows)) = rows_without d (keyed pc_id rows)"
proof (rule ext, rule map_eqI)
  fix i c
  have "rows_without d (keyed pc_id rows) i = Some c \<longleftrightarrow> keyed pc_id rows i = Some c \<and> pc_doc c \<noteq> d"
    by (auto simp: rows_without_def split: option.splits)
  then show "keyed pc_id (filter (\<lambda>c. pc_doc c \<noteq> d) (live pc_id rows)) i = Some c
      \<longleftrightarrow> rows_without d (keyed pc_id rows) i = Some c" by (simp only: filter_live)
qed

subsection \<open>The keys of a clause\<close>

lemma split_on_skip: "q \<notin> set a \<Longrightarrow> split_on q (a @ q # b) = a # split_on q b"
  by (induction a) auto

lemma split_on_none: "q \<notin> set a \<Longrightarrow> split_on q a = [a]"
  by (induction a) auto

lemma word_not_quote: "list_all is_word k \<Longrightarrow> CHR 0x27 \<notin> set k"
  by (auto simp: list_all_iff is_word_def is_digit_def is_ascii_lower_def is_ascii_upper_def code_def)

lemma show_nat_not_quote: "CHR 0x27 \<notin> set (show_nat i)"
  using set_show_nat [of "CHR 0x27" i] by (auto simp: is_digit_def code_def)

lemma condition_split:
  assumes "CHR 0x27 \<notin> set a" and "list_all is_word k"
  shows "split_on (CHR 0x27) (a @ filter_condition i k @ rest)
    = (a @ ''metadata ->> '') # k # split_on (CHR 0x27) ('' = :filter_'' @ show_nat i @ rest)"
proof -
  have "CHR 0x27 \<notin> set (a @ ''metadata ->> '')" using assms(1) by simp
  from split_on_skip [OF this, of "k @ CHR 0x27 # '' = :filter_'' @ show_nat i @ rest"]
    split_on_skip [OF word_not_quote [OF assms(2)], of "'' = :filter_'' @ show_nat i @ rest"]
  show ?thesis by (simp add: filter_condition_def)
qed

lemma clause_rest:
  "CHR 0x27 \<notin> set a \<Longrightarrow> list_all (list_all is_word) ks \<Longrightarrow>
     every_second (split_on (CHR 0x27) (a @ concat (map ((@) '' AND '') (map (\<lambda>(i, k). filter_condition i k) (enumerate n ks))))) = ks"
proof (induction ks arbitrary: a n)
  case (Cons k ks)
  have "CHR 0x27 \<notin> set (a @ '' AND '')" "CHR 0x27 \<notin> set ('' = :filter_'' @ show_nat n)"
    using Cons.prems(1) show_nat_not_quote by simp_all
  with condition_split [of "a @ '' AND ''" k n] Cons.IH [of "'' = :filter_'' @ show_nat n" "Suc n"] Cons.prems(2)
  show ?case by simp
qed (simp add: split_on_none)

lemma clause_keys_where: "list_all plain_key keys \<Longrightarrow> clause_keys (where_clause keys) = keys"
proof (cases keys)
  case (Cons k ks)
  assume "list_all plain_key keys"
  with Cons have ok: "list_all is_word k" "list_all (list_all is_word) ks"
    by (auto simp: plain_key_def list_all_iff)
  let ?rest = "concat (map ((@) '' AND '') (map (\<lambda>(i, k). filter_condition i k) (enumerate 1 ks)))"
  have clause: "where_clause keys = ''WHERE '' @ filter_condition 0 k @ ?rest"
    by (simp add: Cons where_clause_def join_def)
  have none: "CHR 0x27 \<notin> set ''WHERE ''" "CHR 0x27 \<notin> set ('' = :filter_'' @ show_nat 0)"
    using show_nat_not_quote by simp_all
  show ?thesis
    unfolding clause_keys_def clause condition_split [OF none(1) ok(1)] every_second.simps
    using clause_rest [OF none(2) ok(2), of 1] by (simp only: append_assoc Cons)
qed (simp add: clause_keys_def where_clause_def)

lemma toy_nearest:
  "nearest_rows toy_postgres (keyed pc_id rows) q k keys params
     (take k (map list_row (filter (toy_selected keys params) (live pc_id rows))))"
proof -
  let ?found = "filter (toy_selected keys params) (live pc_id rows)"
  let ?answer = "take k (map list_row ?found)"
  have selected: "row_selected toy_postgres keys params c \<longleftrightarrow> toy_selected keys params c" for c
    by (simp add: row_selected_def toy_selected_def)
  have ids: "map rw_id (map list_row ?found) = map pc_id ?found" by (simp add: list_row_def)
  have "distinct (map pc_id ?found)" by (simp add: distinct_map_filter live_distinct)
  then have "distinct (map rw_id ?answer)" by (metis distinct_take ids take_map)
  moreover have "row_answers toy_postgres (keyed pc_id rows) q keys params r" if "r \<in> set ?answer" for r
  proof -
    from in_set_takeD [OF that] obtain c where c: "c \<in> set (live pc_id rows)" "toy_selected keys params c" "r = list_row c"
      by auto
    then have "keyed pc_id rows (pc_id c) = Some c" by (simp add: live_keyed)
    with c(2,3) show ?thesis by (simp add: row_answers_def list_row_def selected)
  qed
  moreover have "rw_score r = fsub 1 0" if "r \<in> set ?answer" for r
    using in_set_takeD [OF that] by (auto simp: list_row_def)
  then have "sorted_wrt (\<lambda>a b. rw_score b \<le> rw_score a) ?answer" "\<forall>r \<in> set ?answer. fsub 1 0 \<le> rw_score r"
    by (auto intro: sorted_wrt_mono_rel [of _ "\<lambda>a b. True"] simp: sorted_wrt_true)
  moreover have "length ?answer = k" if "keyed pc_id rows i = Some c" "toy_selected keys params c" "i \<notin> rw_id ` set ?answer" for i c
  proof (rule ccontr)
    assume "length ?answer \<noteq> k"
    then have "?answer = map list_row ?found" by (simp add: min_def split: if_splits)
    moreover from that have "c \<in> set ?found" "pc_id c = i" using live_keyed [of pc_id rows i c] by simp_all
    then have "i \<in> rw_id ` set (map list_row ?found)" by (force simp: list_row_def)
    ultimately show False using that(3) by simp
  qed
  moreover have "length ?answer \<le> k" by simp
  ultimately show ?thesis unfolding nearest_rows_def list_all_iff selected toy_postgres_simps by blast
qed

lemma toy_postgres_ok: "postgres_ok toy_postgres url"
proof -
  have "schema_documented toy_postgres url"
    by (auto simp: schema_documented_def keyed_def split: option.split)
  moreover have "upsert_documented toy_postgres url"
    using upserted_rows by (fastforce simp: upsert_documented_def)
  moreover have "delete_documented toy_postgres url"
    using deleted_rows by (auto simp: delete_documented_def)
  moreover have "truncate_documented toy_postgres url"
    by (auto simp: truncate_documented_def keyed_def)
  moreover have "jsonb_documented toy_postgres" by (simp add: jsonb_documented_def json_text_value_def)
  moreover have "select_documented toy_postgres url"
  proof -
    have "nearest_rows toy_postgres (keyed pc_id rows) q k keys params
        (take k (map list_row (filter (toy_selected keys params) (live pc_id rows))))" for rows q k keys params
      by (rule toy_nearest)
    then show ?thesis by (auto simp: select_documented_def clause_keys_where)
  qed
  ultimately show ?thesis by (simp add: postgres_ok_def)
qed

section \<open>A Chroma directory\<close>

type_synonym collections = "(string \<times> ch_entry list) list"

definition entries_in :: "collections \<Rightarrow> string \<Rightarrow> ch_entry list" where
  "entries_in w name = (case map_of w name of None \<Rightarrow> [] | Some es \<Rightarrow> es)"

definition entry_hit :: "ch_entry \<Rightarrow> ch_hit" where
  "entry_hit e = (ce_id e, ce_document e, ce_metadata e, 0)"

definition toy_hits :: "collections \<Rightarrow> string \<Rightarrow> nat \<Rightarrow> metadata option \<Rightarrow> ch_hit list" where
  "toy_hits w name k filters =
     take k (map entry_hit (filter (entry_selected filters) (live ce_id (entries_in w name))))"

definition toy_chroma :: "collections documented_chromadb" where
  "toy_chroma =
     \<lparr>ch_import = Inr (), ch_makedirs = (\<lambda>path w. (Inr (), w)), ch_persistent_client = (\<lambda>path w. (Inr (), w)),
      ch_get_or_create_collection = (\<lambda>path name w. (Inr (), (name, entries_in w name) # w)),
      ch_delete_collection = (\<lambda>path name w. (Inr (), filter (\<lambda>(n, es). n \<noteq> name) w)),
      ch_upsert = (\<lambda>path name es w. (Inr (), (name, rev es @ entries_in w name) # w)),
      ch_count = (\<lambda>path name w. (Inr (length (live ce_id (entries_in w name))), w)),
      ch_query = (\<lambda>path name q k filters w. (Inr (results_of (toy_hits w name k filters)), w)),
      ch_delete = (\<lambda>path name filters w. (Inr (),
        (name, filter (\<lambda>e. \<not> entry_selected (Some filters) e) (live ce_id (entries_in w name))) # w)),
      cv_collection = (\<lambda>path w name. map_option (keyed ce_id) (map_of w name)),
      cv_distance = (\<lambda>u v. 0)\<rparr>"

lemma toy_chroma_simps [simp]:
  "ch_import toy_chroma = Inr ()" "ch_makedirs toy_chroma path w = (Inr (), w)"
  "ch_persistent_client toy_chroma path w = (Inr (), w)"
  "ch_get_or_create_collection toy_chroma path name w = (Inr (), (name, entries_in w name) # w)"
  "ch_delete_collection toy_chroma path name w = (Inr (), filter (\<lambda>(n, es). n \<noteq> name) w)"
  "ch_upsert toy_chroma path name es w = (Inr (), (name, rev es @ entries_in w name) # w)"
  "ch_count toy_chroma path name w = (Inr (length (live ce_id (entries_in w name))), w)"
  "ch_query toy_chroma path name q k filters w = (Inr (results_of (toy_hits w name k filters)), w)"
  "ch_delete toy_chroma path name fs w = (Inr (),
     (name, filter (\<lambda>e. \<not> entry_selected (Some fs) e) (live ce_id (entries_in w name))) # w)"
  "cv_collection toy_chroma path w name = map_option (keyed ce_id) (map_of w name)"
  "cv_distance toy_chroma u v = 0"
  by (simp_all add: toy_chroma_def)

lemma entries_in_Some [simp]: "map_of w name = Some es \<Longrightarrow> entries_in w name = es"
  by (simp add: entries_in_def)

lemma live_entries_card: "card (dom (keyed ce_id es)) = length (live ce_id es)"
proof -
  have "dom (keyed ce_id es) = ce_id ` set (live ce_id es)" using live_keyed [of ce_id es] by (auto simp: dom_def)
  then have "card (dom (keyed ce_id es)) = length (map ce_id (live ce_id es))"
    using distinct_card [OF live_distinct [of ce_id es]] by simp
  then show ?thesis by simp
qed

lemma upserted_entries:
  "distinct (map ce_id es) \<Longrightarrow> keyed ce_id (rev es @ old) = keyed ce_id old ++ map_of (map (\<lambda>e. (ce_id e, e)) es)"
proof -
  assume "distinct (map ce_id es)"
  then have "map_of (rev (map (\<lambda>e. (ce_id e, e)) es)) = map_of (map (\<lambda>e. (ce_id e, e)) es)"
    by (subst map_of_inject_set) (simp_all add: comp_def rev_map [symmetric])
  then show ?thesis by (simp add: keyed_def rev_map)
qed

lemma deleted_entries:
  "keyed ce_id (filter (\<lambda>e. \<not> entry_selected (Some [(k, JStr v)]) e) (live ce_id es))
     = keyed ce_id es |` {i. \<exists>e. keyed ce_id es i = Some e \<and> map_of (ce_metadata e) k \<noteq> Some (JStr v)}"
  by (rule ext, rule map_eqI) (unfold filter_live restricted_Some, auto simp: entry_selected_def)

lemma toy_hits_answer:
  assumes "map_of w name = Some es"
  shows "distinct (map fst (toy_hits w name k filters))"
    and "list_all (hit_answers toy_chroma (keyed ce_id es) q filters) (toy_hits w name k filters)"
    and "sorted (map (snd \<circ> snd \<circ> snd) (toy_hits w name k filters))"
proof -
  let ?found = "filter (entry_selected filters) (live ce_id es)"
  have hits: "toy_hits w name k filters = take k (map entry_hit ?found)" using assms by (simp add: toy_hits_def)
  have "distinct (map ce_id ?found)" by (simp add: distinct_map_filter live_distinct)
  moreover have "map fst (map entry_hit ?found) = map ce_id ?found" by (simp add: entry_hit_def)
  ultimately show "distinct (map fst (toy_hits w name k filters))"
    unfolding hits by (metis distinct_take take_map)
  have "hit_answers toy_chroma (keyed ce_id es) q filters hit" if "hit \<in> set (take k (map entry_hit ?found))" for hit
  proof -
    from in_set_takeD [OF that] obtain e where e: "e \<in> set (live ce_id es)" "entry_selected filters e" "hit = entry_hit e"
      by auto
    then have "keyed ce_id es (ce_id e) = Some e" by (simp add: live_keyed)
    with e(2,3) show ?thesis by (simp add: hit_answers_def entry_hit_def)
  qed
  then show "list_all (hit_answers toy_chroma (keyed ce_id es) q filters) (toy_hits w name k filters)"
    by (simp add: hits list_all_iff)
  have "map (snd \<circ> snd \<circ> snd) (toy_hits w name k filters) = replicate (length (toy_hits w name k filters)) 0"
    by (rule nth_equalityI) (simp_all add: hits entry_hit_def)
  then show "sorted (map (snd \<circ> snd \<circ> snd) (toy_hits w name k filters))" by simp
qed

lemma dropped_collection: "map_of (filter (\<lambda>(n, es). n \<noteq> name) w) name = None"
  by (induction w) auto

lemma toy_chroma_ok: "chroma_ok toy_chroma path"
proof -
  have "open_documented toy_chroma path" by (simp add: open_documented_def fun_eq_iff)
  moreover have "create_documented toy_chroma path"
    by (auto simp: create_documented_def entries_in_def keyed_def split: option.split)
  moreover have "chroma_upsert_documented toy_chroma path"
    by (auto simp: chroma_upsert_documented_def upserted_entries)
  moreover have "chroma_delete_documented toy_chroma path"
    by (auto simp: chroma_delete_documented_def deleted_entries)
  moreover have "drop_documented toy_chroma path" by (simp add: drop_documented_def dropped_collection)
  moreover have "query_documented toy_chroma path"
  proof -
    have "\<exists>hits w'. ch_query toy_chroma path name q k filters w = (Inr (results_of hits), w')
        \<and> cv_collection toy_chroma path w' name = Some held \<and> length hits \<le> k \<and> distinct (map fst hits)
        \<and> list_all (hit_answers toy_chroma held q filters) hits \<and> sorted (map (snd \<circ> snd \<circ> snd) hits)"
      if held: "cv_collection toy_chroma path w name = Some held" for name held q k filters w
    proof (intro exI conjI)
      show "ch_query toy_chroma path name q k filters w = (Inr (results_of (toy_hits w name k filters)), w)" by simp
      show "cv_collection toy_chroma path w name = Some held" by (rule held)
      show "length (toy_hits w name k filters) \<le> k" by (simp add: toy_hits_def)
      from held obtain es where es: "map_of w name = Some es" "held = keyed ce_id es" by auto
      show "distinct (map fst (toy_hits w name k filters))" using es(1) by (rule toy_hits_answer)
      show "list_all (hit_answers toy_chroma held q filters) (toy_hits w name k filters)"
        unfolding es(2) using es(1) by (rule toy_hits_answer)
      show "sorted (map (snd \<circ> snd \<circ> snd) (toy_hits w name k filters))" using es(1) by (rule toy_hits_answer)
    qed
    then show ?thesis unfolding query_documented_def by blast
  qed
  moreover have "count_documented toy_chroma path"
    by (auto simp: count_documented_def live_entries_card)
  ultimately show ?thesis by (simp add: chroma_ok_def)
qed

section \<open>Two stores and a history\<close>

definition demo_pg :: "PgVectorStore \<times> tables" where
  "demo_pg =
     (\<lparr>pgs_database_url = ''postgresql://db/bank'', pgs_collection_name = ''chunks-1'', pgs_dimension = 2,
       pgs_engine = None\<rparr>, [(''vs_chunks_1'', 2, [])])"

definition demo_chroma :: "ChromaVectorStore \<times> collections" where
  "demo_chroma = (new_chroma_vector_store ''data/chroma'' ''chunks-1'', [])"

definition demo_chunk :: "string \<Rightarrow> string \<Rightarrow> Chunk" where
  "demo_chunk i d =
     \<lparr>ck_id = i, ck_doc = d, ck_text = ''settlement window'', ck_metadata = [(''page'', JInt 3)],
      ck_embedding = Some [3/5, 4/5], ck_score = None, ck_rank = None\<rparr>"

definition demo_history :: "vs_op list" where
  "demo_history =
     [Add [demo_chunk ''c1'' ''doc1'', demo_chunk ''c2'' ''doc2''], DeleteDocument ''doc1'',
      Add [demo_chunk ''c2'' ''doc3'']]"

lemma demo_pg_ready: "pg_ready toy_postgres 2 demo_pg"
proof -
  have "table_name (fst demo_pg) = ''vs_chunks_1''" by code_simp
  then show ?thesis by (simp add: pg_ready_def demo_pg_def toy_postgres_ok)
qed

lemma demo_chroma_ready: "chroma_ready toy_chroma 2 demo_chroma"
proof -
  have "collection_name_ok ''chunks-1''" by code_simp
  then show ?thesis by (simp add: chroma_ready_def demo_chroma_def new_chroma_vector_store_def toy_chroma_ok)
qed

lemma demo_empty:
  "contents (pg_holds toy_postgres demo_pg) = Map.empty" "contents (chroma_holds toy_chroma demo_chroma) = Map.empty"
proof -
  have "table_name (fst demo_pg) = ''vs_chunks_1''" by code_simp
  then show "contents (pg_holds toy_postgres demo_pg) = Map.empty"
    by (simp add: contents_eq pg_holds_def demo_pg_def keyed_def)
  show "contents (chroma_holds toy_chroma demo_chroma) = Map.empty"
    by (simp add: contents_eq chroma_holds_def demo_chroma_def new_chroma_vector_store_def)
qed

lemma demo_vector: "usable_vector 2 [3/5, 4/5]"
  by (simp add: usable_vector_def)

lemma demo_chunk_ok:
  assumes "i \<noteq> []" "no_nul i" "no_nul d"
  shows "interchangeable 2 (demo_chunk i d)"
  using assms demo_vector
  by (simp add: interchangeable_def pg_storable_def chroma_storable_def demo_chunk_def chunk_vector_def no_nul_def
      exact_metadata_def metadata_key_def startswith_def exact_scalar_def)

lemma demo_chunk_fields [simp]:
  "ck_id (demo_chunk i d) = i" "ck_doc (demo_chunk i d) = d" "ck_metadata (demo_chunk i d) = [(''page'', JInt 3)]"
  by (simp_all add: demo_chunk_def)

lemma demo_history_ok: "admissible_run (interchangeable 2) plain_kept Map.empty demo_history"
  by (simp add: demo_history_def demo_chunk_ok no_nul_def same_keys_def put_all_def without_document_def plain_kept_def)



end
