(* ===== verification/Maintenance.thy ===== *)
theory Maintenance
  imports Exports Pipeline TextFormats
begin

text \<open>
  What is run beside the user interface: \<^verbatim>\<open>scripts/seed_mock_banking_demo.py\<close> (one assessment of the mock
  system and two exported files), \<^verbatim>\<open>scripts/generate_knowledge_base_manifest.py\<close>, the health report of
  \<^verbatim>\<open>app/main.py\<close>, and the engine that \<^verbatim>\<open>storage/db/session.py\<close> keeps for the whole process, with the
  probe of a database.
\<close>

section \<open>Writing files\<close>

text \<open>The UTF-8 bytes of a text; a character that is already written as three or four bytes keeps them.\<close>

fun encode_chars :: "nat \<Rightarrow> string \<Rightarrow> bytes" where
  "encode_chars k [] = []"
| "encode_chars (Suc k) (c # s) = byte_of (code c) # encode_chars k s"
| "encode_chars 0 (c # s) =
     (let taken = snd (head_point (c # s))
      in if taken = 1 then utf8_char c @ encode_chars 0 s else byte_of (code c) # encode_chars (taken - 1) s)"

definition encode_text :: "string \<Rightarrow> bytes" where
  "encode_text s = encode_chars 0 s"

text \<open>\<open>Path.mkdir(parents=True, exist_ok=True)\<close> and \<open>Path.write_text\<close>; a link is followed.\<close>

definition make_directory :: "string \<Rightarrow> host \<Rightarrow> unit result \<times> host" where
  "make_directory p h =
     (case access h of (tree, h) \<Rightarrow>
        (case rbind (resolve_path tree (hs_cwd h) p) (\<lambda>path. make_dirs path tree) of
           Inl e \<Rightarrow> (Inl e, h)
         | Inr tree \<Rightarrow> (Inr (), h\<lparr>hs_tree := tree\<rparr>)))"

definition writable :: "node \<Rightarrow> string list \<Rightarrow> unit result" where
  "writable tree target =
     (if dir_at tree target then Inl (os_error 21 ''Is a directory'' target)
      else if dir_at tree (butlast target) then Inr ()
      else if exists_at tree (butlast target) \<or> blocked tree (butlast target)
      then Inl (os_error 20 ''Not a directory'' target)
      else Inl (os_error 2 ''No such file or directory'' target))"

definition text_file :: "string \<Rightarrow> node" where
  "text_file written = (let data = encode_text written in File (Inr (int (length data))) (Inr data))"

definition write_text :: "string \<Rightarrow> string \<Rightarrow> host \<Rightarrow> unit result \<times> host" where
  "write_text p written h =
     (case access h of (tree, h) \<Rightarrow>
        (case rbind (resolve_path tree (hs_cwd h) p)
                (\<lambda>target. rbind (writable tree target) (\<lambda>_. Inr (put_at target (text_file written) tree))) of
           Inl e \<Rightarrow> (Inl e, h)
         | Inr tree \<Rightarrow> (Inr (), h\<lparr>hs_tree := tree\<rparr>)))"

section \<open>The demonstration\<close>

record SeedSummary =
  se_implemented :: bool
  se_scan_id :: string
  se_findings_count :: nat
  se_scores_count :: nat
  se_control_evaluations_count :: nat
  se_recommendations_count :: nat
  se_audit_events_count :: nat
  se_sample_exports :: "string list"

definition write_sample_exports :: "AssessmentResult \<Rightarrow> int \<Rightarrow> string \<Rightarrow> host \<Rightarrow> unit result \<times> host" where
  "write_sample_exports result t export_dir h =
     and_then (make_directory export_dir h) (\<lambda>_ h.
     and_then (write_text (path_join export_dir ''latest_assessment.json'') (to_assessment_json result t) h) (\<lambda>_.
     write_text (path_join export_dir ''latest_assessment.md'') (to_assessment_markdown result t)))"

definition seed_export_dir :: "Settings \<Rightarrow> string" where
  "seed_export_dir s = path_str (path_join (st_report_output_dir s) ''mock_banking_demo'')"

definition seed_summary :: "AssessmentResult \<Rightarrow> string \<Rightarrow> SeedSummary" where
  "seed_summary result export_dir =
     \<lparr>se_implemented = True, se_scan_id = am_scan_id result,
      se_findings_count = length (am_findings result), se_scores_count = length (am_scores result),
      se_control_evaluations_count = length (am_control_evaluations result),
      se_recommendations_count = length (am_recommendations result),
      se_audit_events_count = length (am_audit_events result),
      se_sample_exports = [path_join export_dir ''latest_assessment.json'',
        path_join export_dir ''latest_assessment.md'']\<rparr>"

text \<open>With a session that the caller gives, and with one of its own.\<close>

definition seed_in :: "zip_library \<Rightarrow> Settings \<Rightarrow> session world \<Rightarrow> SeedSummary result \<times> session world" where
  "seed_in zips s w =
     (case w of (session, h) \<Rightarrow> (case access h of (tree, h) \<Rightarrow>
        and_then (run_assessment zips (mock_banking_system_path s tree (hs_cwd h)) s False (session, h))
          (\<lambda>result (session, h).
             (let export_dir = seed_export_dir s
              in case write_sample_exports result (pf_clock session) export_dir h of
                   (r, h) \<Rightarrow> (map_sum id (\<lambda>_. seed_summary result export_dir) r, (session, h))))))"

definition seed :: "zip_library \<Rightarrow> Settings \<Rightarrow> platform world \<Rightarrow> SeedSummary result \<times> platform world" where
  "seed zips s w =
     (case w of (pf, h) \<Rightarrow>
        if \<not> truthy (st_database_url s)
        then (Inl (Err ConfigurationError (''DATABASE_URL is not configured. The demo seed script persists a real ''
               @ ''assessment run and requires a database '' @ em_dash @ '' set DATABASE_URL, or pass an ''
               @ ''explicit `session` (e.g. an in-memory SQLite session for testing).'')), w)
        else (case seed_in zips s (begin_session pf, h) of
                (r, (session, h)) \<Rightarrow> (r, (platform.truncate session, h))))"

text \<open>The exit code and the lines of \<open>main\<close>; an error of another kind ends it.\<close>

definition seed_lines :: "SeedSummary \<Rightarrow> string list" where
  "seed_lines r =
     [''Mock banking demo assessment complete '' @ em_dash @ '' scan_id='' @ se_scan_id r,
      ''  Findings: '' @ show_nat (se_findings_count r),
      ''  Domain scores: '' @ show_nat (se_scores_count r),
      ''  Control evaluations: '' @ show_nat (se_control_evaluations_count r),
      ''  Recommendations: '' @ show_nat (se_recommendations_count r),
      ''  Audit events: '' @ show_nat (se_audit_events_count r),
      ''Sample exports written to:'']
     @ map (\<lambda>p. ''  - '' @ p) (se_sample_exports r)"

definition seed_demo_main :: "zip_library \<Rightarrow> Settings \<Rightarrow> platform world \<Rightarrow> (nat \<times> string list) result \<times> platform world" where
  "seed_demo_main zips s w =
     (case seed zips s w of
        (Inl e, w) \<Rightarrow>
          if isinstance e ConfigurationError then (Inr (1, [''Cannot seed the demo: '' @ err_msg e]), w) else (Inl e, w)
      | (Inr r, w) \<Rightarrow> (Inr (0, seed_lines r), w))"

section \<open>The manifest of the knowledge base\<close>

definition DOMAIN_SPECIFIC_CONTROL_IDS :: "string list" where
  "DOMAIN_SPECIFIC_CONTROL_IDS = map cd_control_id (filter (\<lambda>c. cd_domain c \<noteq> None) CONTROL_CATALOG)"

definition manifest_entry :: "BankingDomain \<Rightarrow> string \<times> json" where
  "manifest_entry domain =
     (BankingDomain_value domain,
      JObj [(''label'', JStr (get_domain_label domain)),
            (''applicable_control_ids'',
              JList (map JStr (the (map_of domain_coverage_manifest (BankingDomain_value domain))))),
            (''has_domain_specific_control'',
              JBool (list_ex (\<lambda>c. applies_to_domain c (BankingDomain_value domain)
                 \<and> cd_control_id c \<in> set DOMAIN_SPECIFIC_CONTROL_IDS) CONTROL_CATALOG))])"

definition build_manifest :: json where
  "build_manifest =
     (let domains = map manifest_entry BankingDomain_members
      in JObj
       [(''generated_by'', JStr ''scripts/generate_knowledge_base_manifest.py''),
        (''source_of_truth'', JStr (''controls/catalog.py '' @ em_dash @ '' this file is generated, never hand-edited'')),
        (''note'', JStr (''Illustrative, engineering-derived technical control coverage per banking domain '' @ em_dash
           @ '' not a regulatory or compliance control library. See '' @ ''BANKING_PLATFORM_INTEGRATION_PLAN.md ''
           @ [CHR 0xA7] @ ''16 open question #4.'')),
        (''domain_count'', JInt (int (length domains))),
        (''domains'', JObj domains)])"

definition render :: "json \<Rightarrow> string" where
  "render manifest = json_dumps manifest @ [newline]"

section \<open>Health\<close>

definition health :: "Settings \<Rightarrow> json" where
  "health s = JObj
     [(''status'', JStr ''ok''), (''app_name'', JStr (st_app_name s)), (''app_version'', JStr (st_app_version s)),
      (''environment'', JStr (st_environment s)), (''local_only_mode'', JBool (st_local_only_mode s)),
      (''external_providers_enabled'', JBool (st_external_providers_enabled s)),
      (''vector_backend'', JStr (st_vector_backend s)),
      (''banking_domain_count'', JInt (int (length BankingDomain_members)))]"

section \<open>The engine of the process\<close>

text \<open>What the two globals of \<^verbatim>\<open>storage/db/session.py\<close> are bound to: database URLs.\<close>

record engines =
  eg_engine :: "string option"
  eg_factory :: "string option"

definition get_engine :: "Settings \<Rightarrow> engines \<Rightarrow> string result \<times> engines" where
  "get_engine s g =
     (if \<not> truthy (st_database_url s)
      then (Inl (Err ConfigurationError (''DATABASE_URL is not configured. Set it explicitly '' @ em_dash
             @ '' no default credential is provided, by design (see core/config.py).'')), g)
      else (case eg_engine g of
          None \<Rightarrow> (let url = the (st_database_url s) in (Inr url, g\<lparr>eg_engine := Some url\<rparr>))
        | Some url \<Rightarrow> (Inr url, g)))"

definition get_sessionmaker :: "Settings \<Rightarrow> engines \<Rightarrow> string result \<times> engines" where
  "get_sessionmaker s g =
     (case eg_factory g of
        None \<Rightarrow> and_then (get_engine s g) (\<lambda>url g. (Inr url, g\<lparr>eg_factory := Some url\<rparr>))
      | Some url \<Rightarrow> (Inr url, g))"

text \<open>\<open>check_database_connectivity\<close>; \<open>probe\<close> is what connecting and \<open>SELECT 1\<close> give with a URL and a timeout.\<close>

definition check_database_connectivity ::
  "(string \<Rightarrow> int option \<Rightarrow> unit result) \<Rightarrow> string option \<Rightarrow> rat \<Rightarrow> bool" where
  "check_database_connectivity probe database_url timeout_seconds =
     (truthy database_url
      \<and> (let url = the database_url;
             seconds = (if timeout_seconds < 0 then \<lceil>timeout_seconds\<rceil> else \<lfloor>timeout_seconds\<rfloor>)
         in \<not> isl (probe url (if startswith url ''postgresql'' then Some (max 1 seconds) else None))))"

section \<open>Facts\<close>

text \<open>Seeding leaves the database as the same assessment by the service does, whatever becomes of the files.\<close>

lemma seed_like_service:
  "truthy (st_database_url s) \<Longrightarrow> access h = (tree, h') \<Longrightarrow>
     fst (snd (seed zips s (pf, h))) =
     fst (snd (svc_run_new_assessment zips s (mock_banking_system_path s tree (hs_cwd h')) False (pf, h')))"
  by (auto simp: seed_def seed_in_def svc_run_new_assessment_def and_then_def Let_def split: prod.splits sum.splits)

text \<open>A written file reads back, and nothing beside it changes.\<close>

lemma write_text_done:
  assumes "write_text p written h = (Inr (), h')" and "quiet h"
  obtains target where "resolve_path (hs_tree h) (hs_cwd h) p = Inr target" "\<not> dir_at (hs_tree h) target"
    "dir_at (hs_tree h) (butlast target)" "hs_tree h' = put_at target (text_file written) (hs_tree h)" "hs_cwd h' = hs_cwd h"
    "quiet h'"
  using assms
  by (auto simp: write_text_def access_quiet writable_def rbind_Inr_iff split: sum.splits if_splits)

text \<open>The engine of the first settings stays, whatever later settings say.\<close>

lemma engine_stays:
  "eg_engine g = Some url \<Longrightarrow> truthy (st_database_url s) \<Longrightarrow> get_engine s g = (Inr url, g)"
  "eg_factory g = Some url \<Longrightarrow> get_sessionmaker s g = (Inr url, g)"
  by (simp_all add: get_engine_def get_sessionmaker_def)

lemma sessionmaker_of_first_settings:
  assumes "get_sessionmaker s g = (Inr url, g')"
  shows "get_sessionmaker s' g' = (Inr url, g')"
  using assms by (auto simp: get_sessionmaker_def get_engine_def Let_def split: option.splits if_splits)

text \<open>The probe waits at least a second for PostgreSQL and never asks without a URL.\<close>

lemma probe_waits:
  "check_database_connectivity probe (Some ''postgresql://h/db'') (1 / 2) = (\<not> isl (probe ''postgresql://h/db'' (Some 1)))"
  "\<not> check_database_connectivity probe None t" "\<not> check_database_connectivity probe (Some []) t"
  by (simp_all add: check_database_connectivity_def truthy_def startswith_def Let_def)

text \<open>Which controls apply to a domain: those of every domain and those of its own, sorted by id.\<close>

lemma char_le_iff: "c \<le> d \<longleftrightarrow> code c \<le> code d" "c < d \<longleftrightarrow> code c < code d"
  by (simp_all add: less_eq_char_def less_char_def code_def)

lemma catalog_unrestricted: "c \<in> set CONTROL_CATALOG \<Longrightarrow> cd_applies_to_domains c = []"
  by (auto simp: catalog_defs)

lemma controls_own:
  "controls_for_domain (BankingDomain_value d) =
     filter (\<lambda>c. cd_domain c = None \<or> cd_domain c = Some (BankingDomain_value d)) CONTROL_CATALOG"
  unfolding controls_for_domain_def
  by (rule filter_cong) (auto simp: applies_to_domain_def catalog_unrestricted split: option.splits)


lemma coverage_of:
  "map_of domain_coverage_manifest (BankingDomain_value d) =
     Some (sort (map cd_control_id (controls_for_domain (BankingDomain_value d))))"
proof -
  have "map_of (map (\<lambda>d. (BankingDomain_value d, f d)) ds) (BankingDomain_value d) = Some (f d)"
    if "d \<in> set ds" for f :: "BankingDomain \<Rightarrow> string list" and ds
    using that by (induction ds) auto
  moreover have "d \<in> set BankingDomain_members" by (cases d) (simp_all add: BankingDomain_members_def)
  ultimately show ?thesis by (simp add: domain_coverage_manifest_def)
qed

lemma applicable_ids:
  "sort (map cd_control_id (controls_for_domain (BankingDomain_value d))) =
     (case d of
        BankingDomain.APPLICATION_SECURITY \<Rightarrow>
          [''CTRL-LOG-001'', ''CTRL-PERM-001'', ''CTRL-PII-001'', ''CTRL-SECRET-001'', ''CTRL-SKIP-001'']
      | BankingDomain.INFRASTRUCTURE_API_SECURITY \<Rightarrow>
          [''CTRL-CFG-001'', ''CTRL-LOG-001'', ''CTRL-PII-001'', ''CTRL-SECRET-001'', ''CTRL-SKIP-001'']
      | BankingDomain.DATABASE_CONTROLS_SOD \<Rightarrow>
          [''CTRL-LOG-001'', ''CTRL-PII-001'', ''CTRL-SECRET-001'', ''CTRL-SKIP-001'', ''CTRL-SQL-001'']
      | BankingDomain.HUMAN_APPROVAL_AUDITABILITY \<Rightarrow>
          [''CTRL-AUDIT-001'', ''CTRL-LOG-001'', ''CTRL-PII-001'', ''CTRL-SECRET-001'', ''CTRL-SKIP-001'']
      | _ \<Rightarrow> [''CTRL-LOG-001'', ''CTRL-PII-001'', ''CTRL-SECRET-001'', ''CTRL-SKIP-001''])"
  unfolding controls_own by (cases d) (simp_all add: catalog_defs char_le_iff code_def)

lemma has_own_control:
  "list_ex (\<lambda>c. applies_to_domain c (BankingDomain_value d) \<and> cd_control_id c \<in> set DOMAIN_SPECIFIC_CONTROL_IDS) CONTROL_CATALOG
   \<longleftrightarrow> d \<in> {BankingDomain.APPLICATION_SECURITY, BankingDomain.INFRASTRUCTURE_API_SECURITY,
        BankingDomain.DATABASE_CONTROLS_SOD, BankingDomain.HUMAN_APPROVAL_AUDITABILITY}"
  by (cases d) (simp_all add: DOMAIN_SPECIFIC_CONTROL_IDS_def applies_to_domain_def catalog_defs)

text \<open>
  The entries of the committed file \<^verbatim>\<open>knowledge_base/controls/domain_coverage.json\<close>: a domain, its
  label, the controls that apply to it, and whether one of them is its own. They are what the script
  computes from the catalog.
\<close>

definition committed_domains :: "(string \<times> string \<times> string list \<times> bool) list" where
  "committed_domains =
     [(''core_banking'', ''Core Banking and Account Management'',
        [''CTRL-LOG-001'', ''CTRL-PII-001'', ''CTRL-SECRET-001'', ''CTRL-SKIP-001''], False),
      (''payments'', ''Payments'',
        [''CTRL-LOG-001'', ''CTRL-PII-001'', ''CTRL-SECRET-001'', ''CTRL-SKIP-001''], False),
      (''credit_lending'', ''Credit and Lending'',
        [''CTRL-LOG-001'', ''CTRL-PII-001'', ''CTRL-SECRET-001'', ''CTRL-SKIP-001''], False),
      (''investments_trading'', ''Investments and Trading-Related Systems'',
        [''CTRL-LOG-001'', ''CTRL-PII-001'', ''CTRL-SECRET-001'', ''CTRL-SKIP-001''], False),
      (''onboarding_identity_access'', ''Customer Onboarding, Identity, and Access'',
        [''CTRL-LOG-001'', ''CTRL-PII-001'', ''CTRL-SECRET-001'', ''CTRL-SKIP-001''], False),
      (''transaction_processing_reporting'', ''Transaction Processing and Financial Reporting'',
        [''CTRL-LOG-001'', ''CTRL-PII-001'', ''CTRL-SECRET-001'', ''CTRL-SKIP-001''], False),
      (''fraud_controls'', ''Fraud-Related Controls'',
        [''CTRL-LOG-001'', ''CTRL-PII-001'', ''CTRL-SECRET-001'', ''CTRL-SKIP-001''], False),
      (''privacy_data_protection'', ''Privacy and Data Protection'',
        [''CTRL-LOG-001'', ''CTRL-PII-001'', ''CTRL-SECRET-001'', ''CTRL-SKIP-001''], False),
      (''application_security'', ''Application Security'',
        [''CTRL-LOG-001'', ''CTRL-PERM-001'', ''CTRL-PII-001'', ''CTRL-SECRET-001'', ''CTRL-SKIP-001''], True),
      (''infrastructure_api_security'', ''Infrastructure and API Security'',
        [''CTRL-CFG-001'', ''CTRL-LOG-001'', ''CTRL-PII-001'', ''CTRL-SECRET-001'', ''CTRL-SKIP-001''], True),
      (''database_controls_sod'', ''Database Controls and Segregation of Duties'',
        [''CTRL-LOG-001'', ''CTRL-PII-001'', ''CTRL-SECRET-001'', ''CTRL-SKIP-001'', ''CTRL-SQL-001''], True),
      (''change_management'', ''Change Management'',
        [''CTRL-LOG-001'', ''CTRL-PII-001'', ''CTRL-SECRET-001'', ''CTRL-SKIP-001''], False),
      (''monitoring_observability'', ''Monitoring and Observability'',
        [''CTRL-LOG-001'', ''CTRL-PII-001'', ''CTRL-SECRET-001'', ''CTRL-SKIP-001''], False),
      (''business_continuity_dr'', ''Business Continuity and Disaster Recovery'',
        [''CTRL-LOG-001'', ''CTRL-PII-001'', ''CTRL-SECRET-001'', ''CTRL-SKIP-001''], False),
      (''model_ai_governance'', ''Model and AI Governance'',
        [''CTRL-LOG-001'', ''CTRL-PII-001'', ''CTRL-SECRET-001'', ''CTRL-SKIP-001''], False),
      (''human_approval_auditability'', ''Human Approval Controls and Auditability'',
        [''CTRL-AUDIT-001'', ''CTRL-LOG-001'', ''CTRL-PII-001'', ''CTRL-SECRET-001'', ''CTRL-SKIP-001''], True)]"

lemma manifest_is_committed:
  "map manifest_entry BankingDomain_members =
     map (\<lambda>(domain, label, ids, own). (domain, JObj [(''label'', JStr label),
        (''applicable_control_ids'', JList (map JStr ids)), (''has_domain_specific_control'', JBool own)]))
       committed_domains"
  by (simp add: manifest_entry_def BankingDomain_members_def coverage_of applicable_ids has_own_control
      committed_domains_def get_domain_label_def del: BankingDomain_value.simps)
     simp
end
