(* ===== verification/Spec2Isabelle.thy ===== *)
theory Spec2Isabelle
  imports Demo Config ControlEval AccessFacts AssessmentFacts CatalogFacts Comparison Oversight DemoScan DemoPlatform UserNames DemoSchema DemoVector Maintenance
begin

text \<open>
  A model of the Banking Systems Assurance Platform: a Python service that scans the source
  of a banking system without changing it, scores 16 banking domains from what it finds,
  evaluates controls, and lets managers review the results under role-based access with an
  append-only audit trail.

  \<^bold>\<open>How the program runs.\<close> A user signs in (\<^verbatim>\<open>auth/auth_service.py\<close>) and gets a principal, which the
  browser session keeps (\<^verbatim>\<open>ui/app_context.py\<close>). Every action passes \<open>Authorizer.require\<close>
  (\<^verbatim>\<open>auth/authorizer.py\<close>), which validates the session against the stored account and checks the
  role; \<^verbatim>\<open>auth/secured_services.py\<close> puts that check before each service and an audit event after
  it. An assessment (\<^verbatim>\<open>assessment/engine.py\<close>) accepts a directory, archive or upload
  (\<^verbatim>\<open>scanners/source_ingestion.py\<close>), walks it (\<^verbatim>\<open>scanners/file_discovery.py\<close>), runs the rules of
  \<^verbatim>\<open>scanners/rules\<close> on each text, checks that the source did not change, stores the scan
  (\<^verbatim>\<open>storage/db/repositories.py\<close>), scores it (\<^verbatim>\<open>scoring/engine.py\<close>) and evaluates the controls
  (\<^verbatim>\<open>controls/catalog.py\<close>, \<^verbatim>\<open>assessment/evaluators/control_evaluator.py\<close>). Managers review findings
  and override scores (\<^verbatim>\<open>governance/approval_workflow.py\<close>), compare assessments
  (\<^verbatim>\<open>ui/services/comparison_service.py\<close>), ask the advisory agent
  (\<^verbatim>\<open>ui/services/agent_ui_service.py\<close>) and export reports (\<^verbatim>\<open>reporting/\<close>). Every stage and decision
  appends an audit event whose text has passed \<^verbatim>\<open>governance/report_sanitizer.py\<close>.

  \<^bold>\<open>The theories: values.\<close>
  \<^item> \<open>PyStr\<close>, \<open>Prelude\<close>, \<open>Payload\<close>, \<open>Display\<close>, \<open>Float64\<close>, \<open>Sha256\<close>, \<open>Paths\<close>, \<open>TextFormats\<close>: Python's
    strings, exceptions as values of type \<open>error\<close> with \<open>isinstance\<close>, results \<open>error + 'a\<close>, JSON
    values, datetimes, how numbers are printed, IEEE doubles as rounded rationals, SHA-256 on 32-bit
    words, names of paths, JSON and CSV texts.
  \<^item> \<open>Regex\<close>: a backtracking regular expression matcher. It is total: a repetition past its lower
    bound stops when a round consumes nothing, so the length of the input bounds the rounds.
  \<^item> \<open>Enums\<close>, \<open>Domains\<close>, \<open>ScanTypes\<close>: \<^verbatim>\<open>models/enums.py\<close>, \<^verbatim>\<open>core/domains.py\<close> and the dataclasses of
    \<^verbatim>\<open>scanners/\<close>.

  \<^bold>\<open>Pure components\<close>, named after their modules: \<open>Scoring\<close>, \<open>Catalog\<close>, \<open>ControlEval\<close>, \<open>Evidencing\<close>,
  \<open>ApprovalWorkflow\<close>, \<open>Sanitizer\<close>, \<open>Config\<close>, \<open>Permissions\<close>, \<open>PasswordHash\<close>, \<open>Oversight\<close> (retention,
  suspicious questions, names of uploads), \<open>Agents\<close> (providers, minimized contexts, local mode),
  \<open>ScanReport\<close> and \<open>AssessmentReport\<close> (JSON, Markdown and CSV of scans and assessments).

  \<^bold>\<open>Scanning.\<close>
  \<^item> \<open>FileClassifier\<close>, \<open>ContentReader\<close>, \<open>ScanRules\<close>, \<open>ConfigRules\<close>, with \<open>RuleFacts\<close>: what a file is, how
    it is read, and every rule. \<open>RuleFacts\<close> shows that no rule fails and what each finding quotes.
  \<^item> \<open>SourceTree\<close>, with \<open>DiscoveryFacts\<close>: discovery and the integrity hash on a tree that says what each
    stat and read gives. Nothing is lost, and the hash identifies the files unless SHA-256 collides.
  \<^item> \<open>HostFS\<close>, \<open>Ingestion\<close>, \<open>Orchestrator\<close>, \<open>Pipeline\<close>, with \<open>IngestionFacts\<close>, \<open>ScanFacts\<close>, \<open>PipelineFacts\<close>:
    the host's tree with links, which others may change before each access; acceptance of sources,
    extraction of archives, one scan, and a whole assessment. The facts show what is contained, what
    is detected, and that an undisturbed assessment completes.

  \<^bold>\<open>The platform's state.\<close>
  \<^item> \<open>Database\<close>: the tables as lists of records, the platform (committed database, clock, sources
    of ids and salts) and sessions: a session works on a copy, \<open>commit\<close> publishes it, leaving it
    drops the rest. The locale \<open>history\<close> proves, from one step per operation, that a relation
    between earlier and later databases is kept.
  \<^item> \<open>AuditTrail\<close>, \<open>Users\<close>, \<open>Repositories\<close>, \<open>Assessment\<close>, \<open>Comparison\<close>: the stateful
    components. \<open>append_log\<close> and \<open>row_store\<close> are the interfaces of the audit log and of a table
    whose rows change; both are interpreted on the model's tables.
  \<^item> \<open>Auth\<close>, \<open>Authorization\<close>, \<open>UserNames\<close>: sign-in, sessions, authorization and user administration.
  \<^item> \<open>AgentService\<close>, \<open>Exports\<close>, \<open>Secured\<close>: the services and their authorized forms. \<open>Secured\<close> has the
    locale of a guarded operation: refused, it leaves at most an audit event.
  \<^item> \<open>Shell\<close>: the session state of a browser, the guard of every page, navigation and the
    sign-in and password forms. \<open>Scripts\<close>: the scripts that create accounts.
  \<^item> \<open>Badges\<close>, \<open>Views\<close>, \<open>Pages\<close>: the labels, what the pages show as rows and figures, and a request to
    each page as a run over the session state and the platform (\<open>serve\<close>).
  \<^item> \<open>Maintenance\<close>: the scripts that seed the demonstration and write \<^verbatim>\<open>knowledge_base/controls/domain_coverage.json\<close>, the health report, and the
    engine of a process.
  \<^item> \<open>Schema\<close>, \<open>Columns\<close>: the declared tables and every migration, as changes of a catalogue of
    tables, keys and indexes.
  \<^item> \<open>VectorStore\<close>, \<open>PgVector\<close>, \<open>Chroma\<close>, \<open>VectorStores\<close>: the contract of \<^verbatim>\<open>core/contracts.py\<close> as the locales
    \<open>vector_store\<close> and \<open>exact_vector_store\<close>, its two implementations, the registry and embeddings.

  \<^bold>\<open>What the state promises.\<close> \<open>AuthFacts\<close> (\<open>login_spec\<close> is the abstract sign-in that \<open>login\<close> refines),
  \<open>AccountFacts\<close> (\<open>users_step\<close> is the contract every account operation keeps), \<open>AccessFacts\<close> (who
  passes \<open>require\<close>), \<open>RepositoryFacts\<close> (\<open>records_kept\<close> is the history relation of the assessment
  tables), \<open>AssessmentFacts\<close>, \<open>CatalogFacts\<close>, \<open>SchemaFacts\<close>. \<open>PlatformSteps\<close> composes everything: its
  steps are the operations of every component, by anyone and in any order, an authorized operation
  being a check and a change with other steps between; the invariants hold in every reachable state.
  \<open>AccountHistory\<close> has the locales \<open>audit_history\<close> and \<open>account_history\<close>: a relation between databases
  that audit events, or account changes too, do not break is kept by the operations that do no more.
  \<open>PageFacts\<close> lifts such a relation to whole requests (\<open>viewing\<close>, extended by \<open>acting\<close> and
  \<open>governing\<close>), and \<open>RequestFacts\<close> interprets them: requests are runs of the platform, viewing only
  adds audit events, and only an active manager's session decides on findings and scores.

  \<^bold>\<open>Witnesses.\<close> \<open>Demo\<close>, \<open>DemoScan\<close>, \<open>DemoPlatform\<close>, \<open>DemoSchema\<close>, \<open>DemoVector\<close>: concrete platforms, hosts, catalogues and stores on which the properties that have
  hypotheses are applied.

  \<^bold>\<open>Reading the model.\<close> An operation on a session has type \<open>session \<Rightarrow> 'a result \<times> session\<close>, a
  service function \<open>platform \<Rightarrow> 'a result \<times> platform\<close>, an operation that looks at the host
  \<open>world \<Rightarrow> 'a result \<times> world\<close>; an exception is \<open>Inl\<close>, with the state at that point. Record fields
  carry a two-letter prefix of their class. Strings are lists of characters of the Latin-1 range; in
  scanned texts a character beyond it appears as its UTF-8 bytes. An operation runs at one
  instant (\<open>pf_clock\<close>); random ids are read from \<open>pf_uuid\<close> at a counter, so that they are what the
  source of ids gives. Paths are POSIX paths. An access to the host shows its whole tree at one
  moment; what other processes do between two accesses is a parameter (\<open>hs_others\<close>).

  \<^bold>\<open>Hypotheses.\<close> \<open>auth_ok\<close> and \<open>scrypt_ok\<close> state what the code relies on from \<open>hashlib.scrypt\<close>, a
  parameter; \<open>wf_users\<close> and \<open>wf_accounts\<close> state that accounts satisfy the table's uniqueness
  constraints and that ids still to be drawn are new; they are invariants of every
  account operation. A database URL must be configured. \<open>zips\<close> is what \<^verbatim>\<open>zipfile\<close> reads from bytes.
  \<open>postgres_ok\<close> and \<open>chroma_ok\<close> state the documented behaviour of PostgreSQL with pgvector and of
  Chroma, which are parameters, as are NumPy, SHAKE128 and the square root of the embeddings.
  Sessions have SQLite's semantics, migrations PostgreSQL's.

  \<^bold>\<open>Not modelled.\<close> What Streamlit, Altair and pandas draw; the set-up of FastAPI, structlog, engines and
  pools; the environment script of Alembic; argument parsing and the terminal; the sample systems that
  the scanners are shown. Writes to the temporary directory succeed. The metadata of the vector stores has plain
  values. \<open>make_temp_dir\<close>, which nothing calls.
\<close>

end
